(* ===== verification/Prelude.thy ===== *)
theory Prelude
  imports Main "HOL-Library.AList" "HOL-Library.Word"
begin

text \<open>
  Shared vocabulary of the development: how Go's error returns, optional values and maps are
  written in HOL, and the generic lemmas about them that the component theories use.

  A Go function that returns only an \<open>error\<close> is a function into \<open>'e option\<close>: \<open>None\<close> is the
  nil error, \<open>Some e\<close> the returned one. A function that returns a value and an error is a
  function into \<open>'e + 'a\<close>. A method with a pointer receiver that may leave a changed receiver
  behind an error returns the receiver and the error as a pair.
\<close>

named_theorems validate_defs \<open>unfolds the Validate methods into their checks\<close>
named_theorems validD \<open>what a record that passed validation satisfies\<close>

subsection \<open>Checks in sequence\<close>

text \<open>\<open>reject b e\<close> is the Go statement \<open>if b { return e }\<close>, \<open>first_err\<close> runs checks in
  order and returns the first error.\<close>

definition reject :: "bool \<Rightarrow> 'e \<Rightarrow> 'e option" where
  "reject b e = (if b then Some e else None)"

fun first_err :: "'e option list \<Rightarrow> 'e option" where
  "first_err [] = None"
| "first_err (Some e # _) = Some e"
| "first_err (None # cs) = first_err cs"

text \<open>\<open>require c r\<close> is \<open>if err := c; err != nil { return zero, err }\<close> followed by \<open>r\<close>, and
  \<open>bind_res r f\<close> is the same for a call that also yields a value.\<close>

fun require :: "'e option \<Rightarrow> 'e + 'a \<Rightarrow> 'e + 'a" where
  "require (Some e) _ = Inl e"
| "require None r = r"

fun bind_res :: "'e + 'a \<Rightarrow> ('a \<Rightarrow> 'e + 'b) \<Rightarrow> 'e + 'b" where
  "bind_res (Inl e) _ = Inl e"
| "bind_res (Inr a) f = f a"

text \<open>\<open>err_of\<close> forgets the value of a result, \<open>wrap\<close> maps the error as \<open>fmt.Errorf("...: %w")\<close>
  does.\<close>

fun err_of :: "'e + 'a \<Rightarrow> 'e option" where
  "err_of (Inl e) = Some e"
| "err_of (Inr _) = None"

definition wrap :: "('e \<Rightarrow> 'f) \<Rightarrow> 'e option \<Rightarrow> 'f option" where
  "wrap f r = map_option f r"

lemma reject_None [simp]: "reject b e = None \<longleftrightarrow> \<not> b"
  by (simp add: reject_def)

lemma reject_Some [simp]: "reject b e = Some e' \<longleftrightarrow> b \<and> e' = e"
  by (auto simp: reject_def)

lemma reject_simps [simp]: "reject True e = Some e" "reject False e = None"
  by (simp_all add: reject_def)

lemma first_err_Cons_None [simp]:
  "first_err (c # cs) = None \<longleftrightarrow> c = None \<and> first_err cs = None"
  by (cases c) auto

lemma first_err_append [simp]:
  "first_err (xs @ ys) = None \<longleftrightarrow> first_err xs = None \<and> first_err ys = None"
  by (induction xs) auto

lemma first_err_None_iff: "first_err cs = None \<longleftrightarrow> (\<forall>c \<in> set cs. c = None)"
  by (induction cs) auto

lemma first_err_map_None:
  "first_err (map f xs) = None \<longleftrightarrow> (\<forall>x \<in> set xs. f x = None)"
  by (simp add: first_err_None_iff)

lemma first_err_SomeD: "first_err cs = Some e \<Longrightarrow> Some e \<in> set cs"
  by (induction cs rule: first_err.induct) auto

lemma require_Inr [simp]: "require c r = Inr x \<longleftrightarrow> c = None \<and> r = Inr x"
  by (cases c) auto

lemma bind_res_Inr [simp]: "bind_res r f = Inr y \<longleftrightarrow> (\<exists>x. r = Inr x \<and> f x = Inr y)"
  by (cases r) auto

lemma err_of_None [simp]: "err_of r = None \<longleftrightarrow> (\<exists>x. r = Inr x)"
  by (cases r) auto

lemma wrap_None [simp]: "wrap f r = None \<longleftrightarrow> r = None"
  by (simp add: wrap_def)

subsection \<open>Checks over the entries of a slice\<close>

text \<open>Many validators walk a slice with its index and return at the first entry that fails;
  \<open>indexed_errs\<close> is that loop, started at index \<open>i\<close>.\<close>

fun indexed_errs :: "(nat \<Rightarrow> 'a \<Rightarrow> 'e option) \<Rightarrow> nat \<Rightarrow> 'a list \<Rightarrow> 'e option" where
  "indexed_errs f i [] = None"
| "indexed_errs f i (x # xs) =
     (case f i x of Some e \<Rightarrow> Some e | None \<Rightarrow> indexed_errs f (Suc i) xs)"

lemma indexed_errs_None:
  "indexed_errs f i xs = None \<longleftrightarrow> (\<forall>j < length xs. f (i + j) (xs ! j) = None)"
proof (induction xs arbitrary: i)
  case Nil
  then show ?case by simp
next
  case (Cons x xs)
  have "(\<forall>j < length (x # xs). f (i + j) ((x # xs) ! j) = None) \<longleftrightarrow>
        f i x = None \<and> (\<forall>j < length xs. f (Suc i + j) (xs ! j) = None)"
    by (simp add: All_less_Suc2)
  with Cons.IH [of "Suc i"] show ?case
    by (cases "f i x") auto
qed

lemma indexed_errs_None_set:
  assumes "\<And>i x. f i x = None \<longleftrightarrow> P x"
  shows "indexed_errs f i xs = None \<longleftrightarrow> (\<forall>x \<in> set xs. P x)"
proof (induction xs arbitrary: i)
  case Nil
  then show ?case by simp
next
  case (Cons x xs)
  then show ?case using assms [of i x] by (cases "f i x") auto
qed

text \<open>\<open>dup_errs\<close> is the loop with a \<open>seen\<close> set: it runs \<open>f\<close> on each entry and then rejects
  an entry whose key was seen before.\<close>

fun dup_errs ::
    "('a \<Rightarrow> 'k) \<Rightarrow> (nat \<Rightarrow> 'a \<Rightarrow> 'e option) \<Rightarrow> (nat \<Rightarrow> 'e) \<Rightarrow> nat \<Rightarrow> 'k list \<Rightarrow> 'a list \<Rightarrow> 'e option" where
  "dup_errs key f dup i seen [] = None"
| "dup_errs key f dup i seen (x # xs) =
     (case f i x of
        Some e \<Rightarrow> Some e
      | None \<Rightarrow> if key x \<in> set seen then Some (dup i)
                else dup_errs key f dup (Suc i) (key x # seen) xs)"

lemma dup_errs_None_seen:
  assumes "\<And>i x. f i x = None \<longleftrightarrow> P x"
  shows "dup_errs key f dup i seen xs = None \<longleftrightarrow>
    (\<forall>x \<in> set xs. P x) \<and> distinct (map key xs) \<and> key ` set xs \<inter> set seen = {}"
proof (induction xs arbitrary: i seen)
  case Nil
  then show ?case by simp
next
  case (Cons x xs)
  show ?case
  proof (cases "P x")
    case True
    then have "f i x = None" by (simp add: assms)
    then show ?thesis using True Cons.IH by auto
  next
    case False
    then have "f i x \<noteq> None" by (simp add: assms)
    then show ?thesis using False by auto
  qed
qed

lemma dup_errs_None:
  assumes "\<And>i x. f i x = None \<longleftrightarrow> P x"
  shows "dup_errs key f dup i [] xs = None \<longleftrightarrow> (\<forall>x \<in> set xs. P x) \<and> distinct (map key xs)"
  using dup_errs_None_seen [where f = f and P = P and seen = "[]"] assms by simp

subsection \<open>Slices that may be nil\<close>

text \<open>A Go slice is nil or a (possibly empty) sequence; \<open>reflect.DeepEqual\<close> tells the two
  apart while \<open>len\<close> and \<open>range\<close> do not. Where the program's behaviour depends on it a slice is
  a \<open>'a slice\<close>, read through \<open>elems\<close>.\<close>

type_synonym 'a slice = "'a list option"

definition elems :: "'a slice \<Rightarrow> 'a list" where
  "elems s = (case s of None \<Rightarrow> [] | Some xs \<Rightarrow> xs)"

lemma elems_simps [simp]: "elems None = []" "elems (Some xs) = xs"
  by (simp_all add: elems_def)

subsection \<open>Maps with a finite domain\<close>

text \<open>A Go map is an association list with distinct keys: \<open>map_of\<close> reads it, \<open>AList.update\<close>
  stores, \<open>AList.delete\<close> deletes. Iteration takes the entries in list order, where Go's order
  is unspecified.\<close>

type_synonym ('k, 'v) table = "('k \<times> 'v) list"

definition wf_table :: "('k, 'v) table \<Rightarrow> bool" where
  "wf_table t \<longleftrightarrow> distinct (map fst t)"

lemma wf_table_Nil [simp]: "wf_table []"
  by (simp add: wf_table_def)

lemma wf_table_update [simp]: "wf_table t \<Longrightarrow> wf_table (AList.update k v t)"
  by (simp add: wf_table_def distinct_update)

lemma wf_table_delete [simp]: "wf_table t \<Longrightarrow> wf_table (AList.delete k t)"
  by (simp add: wf_table_def distinct_delete)

lemma map_of_update [simp]: "map_of (AList.update k v t) = (map_of t)(k \<mapsto> v)"
  by (rule update_conv')

lemma map_of_delete [simp]: "map_of (AList.delete k t) = (map_of t)(k := None)"
  by (rule delete_conv')

lemma wf_table_set_iff: "wf_table t \<Longrightarrow> (k, v) \<in> set t \<longleftrightarrow> map_of t k = Some v"
  unfolding wf_table_def by (metis map_of_SomeD map_of_is_SomeI)

lemma length_update_new:
  "map_of t k = None \<Longrightarrow> length (AList.update k v t) = Suc (length t)"
  by (induction t) (auto split: if_splits)

lemma length_update_old:
  "map_of t k = Some w \<Longrightarrow> length (AList.update k v t) = length t"
  by (induction t) (auto split: if_splits)

lemma wf_table_all_iff:
  assumes "wf_table t"
  shows "(\<forall>e \<in> set t. P (fst e) (snd e)) \<longleftrightarrow> (\<forall>k v. map_of t k = Some v \<longrightarrow> P k v)"
proof -
  have "(\<forall>e \<in> set t. P (fst e) (snd e)) \<longleftrightarrow> (\<forall>k v. (k, v) \<in> set t \<longrightarrow> P k v)"
    by fastforce
  also have "\<dots> \<longleftrightarrow> (\<forall>k v. map_of t k = Some v \<longrightarrow> P k v)"
    by (simp only: wf_table_set_iff [OF assms])
  finally show ?thesis .
qed

subsection \<open>Unsigned machine integers\<close>

type_synonym u32 = "32 word"
type_synonym u64 = "64 word"

lemma unat_succ:
  fixes x :: "'a::len word"
  assumes "x \<noteq> -1"
  shows "unat (x + 1) = Suc (unat x)"
proof -
  have "1 + x \<noteq> 0"
    using assms by (simp only: add_eq_0_iff) simp
  then have "unat (1 + x) = Suc (unat x)"
    by (rule unatSuc)
  then show ?thesis by (simp only: add.commute)
qed

lemma word_succ_greater:
  fixes x :: "'a::len word"
  assumes "x \<noteq> -1"
  shows "x < x + 1"
  using unat_succ [OF assms] by (simp only: word_less_nat_alt lessI)

end
