(* ===== verification/Domain_Phase.thy ===== *)
theory Domain_Phase
  imports Prelude
begin

text \<open>
  \<open>internal/domain/errors.go\<close> and \<open>phase.go\<close>: the coded lifecycle errors, the Sandbox and
  Attempt phases and their transition functions. The phases are strings in the source, so each
  type has a constructor for the values outside the declared constants. The contract the two
  state machines share is the locale \<open>phase_machine\<close>.
\<close>

subsection \<open>Errors\<close>

datatype error_code =
    CodeInvalidArgument
  | CodeInvalidTransition
  | CodeNotFound
  | CodeAlreadyExists
  | CodeFailedPrecondition
  | CodeConflict
  | CodeUnsafeIdentity
  | CodeOutcomeUnknown

text \<open>An error keeps its code, its field and, when it wraps one, its cause; the message is
  diagnostic text that no code reads. \<open>errors.As\<close> stops at the outermost error of the type.\<close>

datatype domain_error =
    NewError error_code string
  | WrapError error_code string domain_error

fun error_Code :: "domain_error \<Rightarrow> error_code" where
  "error_Code (NewError c _) = c"
| "error_Code (WrapError c _ _) = c"

definition IsCode :: "domain_error option \<Rightarrow> error_code \<Rightarrow> bool" where
  "IsCode err code = (case err of None \<Rightarrow> False | Some e \<Rightarrow> error_Code e = code)"

subsection \<open>Sandbox phases\<close>

datatype sandbox_phase =
    SandboxAbsent
  | SandboxCreating
  | SandboxReady
  | SandboxStopping
  | SandboxStopped
  | SandboxPhaseOther string

fun SandboxPhase_Valid :: "sandbox_phase \<Rightarrow> bool" where
  "SandboxPhase_Valid (SandboxPhaseOther _) = False"
| "SandboxPhase_Valid _ = True"

text \<open>The table of allowed edges; a missing entry reads as false.\<close>

fun sandbox_allowed :: "sandbox_phase \<Rightarrow> sandbox_phase \<Rightarrow> bool" where
  "sandbox_allowed SandboxAbsent SandboxCreating = True"
| "sandbox_allowed SandboxCreating SandboxReady = True"
| "sandbox_allowed SandboxCreating SandboxAbsent = True"
| "sandbox_allowed SandboxReady SandboxStopping = True"
| "sandbox_allowed SandboxStopping SandboxStopped = True"
| "sandbox_allowed SandboxStopped SandboxAbsent = True"
| "sandbox_allowed _ _ = False"

definition TransitionSandbox ::
    "sandbox_phase \<Rightarrow> sandbox_phase \<Rightarrow> domain_error + sandbox_phase" where
  "TransitionSandbox from to =
    (if \<not> SandboxPhase_Valid from \<or> \<not> SandboxPhase_Valid to \<or> \<not> sandbox_allowed from to
     then Inl (NewError CodeInvalidTransition ''phase'')
     else Inr to)"

subsection \<open>Attempt phases\<close>

datatype attempt_phase =
    AttemptAbsent
  | AttemptCreating
  | AttemptCreated
  | AttemptRunning
  | AttemptStopped
  | AttemptPhaseOther string

fun AttemptPhase_Valid :: "attempt_phase \<Rightarrow> bool" where
  "AttemptPhase_Valid (AttemptPhaseOther _) = False"
| "AttemptPhase_Valid _ = True"

fun attempt_allowed :: "attempt_phase \<Rightarrow> attempt_phase \<Rightarrow> bool" where
  "attempt_allowed AttemptAbsent AttemptCreating = True"
| "attempt_allowed AttemptCreating AttemptCreated = True"
| "attempt_allowed AttemptCreating AttemptStopped = True"
| "attempt_allowed AttemptCreated AttemptRunning = True"
| "attempt_allowed AttemptCreated AttemptStopped = True"
| "attempt_allowed AttemptRunning AttemptStopped = True"
| "attempt_allowed AttemptStopped AttemptAbsent = True"
| "attempt_allowed _ _ = False"

definition TransitionAttempt ::
    "attempt_phase \<Rightarrow> attempt_phase \<Rightarrow> domain_error + attempt_phase" where
  "TransitionAttempt from to =
    (if \<not> AttemptPhase_Valid from \<or> \<not> AttemptPhase_Valid to \<or> \<not> attempt_allowed from to
     then Inl (NewError CodeInvalidTransition ''phase'')
     else Inr to)"

definition IsActiveAttempt :: "attempt_phase \<Rightarrow> bool" where
  "IsActiveAttempt phase \<longleftrightarrow>
     phase = AttemptCreating \<or> phase = AttemptCreated \<or> phase = AttemptRunning"

lemma IsActiveAttempt_simps [simp]:
  "IsActiveAttempt AttemptCreating" "IsActiveAttempt AttemptCreated" "IsActiveAttempt AttemptRunning"
  "\<not> IsActiveAttempt AttemptAbsent" "\<not> IsActiveAttempt AttemptStopped"
  by (simp_all add: IsActiveAttempt_def)

subsection \<open>The contract of a lifecycle state machine\<close>

text \<open>
  A lifecycle machine hands back the phase it was asked for, accepts only recognised phases,
  and climbs towards the terminal phase: the only edge that does not is the one into the
  absent phase, which ends the resource.
\<close>

locale phase_machine =
  fixes transition :: "'p \<Rightarrow> 'p \<Rightarrow> 'e + 'p"
    and valid :: "'p \<Rightarrow> bool"
    and absent :: 'p
    and rank :: "'p \<Rightarrow> nat"
    and top :: nat
  assumes target: "transition p q = Inr r \<Longrightarrow> r = q"
    and endpoints: "transition p q = Inr r \<Longrightarrow> valid p \<and> valid q"
    and climbs: "transition p q = Inr r \<Longrightarrow> q \<noteq> absent \<Longrightarrow> rank p < rank q"
    and bounded: "valid p \<Longrightarrow> rank p \<le> top"
begin

lemma no_self_loop: "transition p p = Inr r \<Longrightarrow> p = absent"
  using climbs by blast

lemma run_sorted:
  assumes "successively (\<lambda>p q. transition p q = Inr q) ps" and "absent \<notin> set (tl ps)"
  shows "sorted_wrt (<) (map rank ps)"
proof -
  have "successively (<) (map rank ps)"
    using assms
  proof (induction ps rule: induct_list012)
    case (3 p q ps)
    from "3.prems" have "transition p q = Inr q" "q \<noteq> absent" by auto
    then have "rank p < rank q" by (rule climbs)
    with "3.IH"(2) "3.prems" show ?case by auto
  qed auto
  then show ?thesis
    by (simp only: successively_conv_sorted_wrt [OF transp_on_less])
qed

text \<open>No phase is entered twice before the resource is gone, so every such run is short.\<close>

lemma run_distinct:
  assumes "successively (\<lambda>p q. transition p q = Inr q) ps" and "absent \<notin> set (tl ps)"
  shows "distinct ps"
proof -
  from run_sorted [OF assms] have "distinct (map rank ps)"
    by (simp add: strict_sorted_iff)
  then show ?thesis by (simp add: distinct_map)
qed

lemma run_length:
  assumes run: "successively (\<lambda>p q. transition p q = Inr q) ps" and stay: "absent \<notin> set (tl ps)"
    and long: "2 \<le> length ps"
  shows "length ps \<le> Suc top"
proof -
  have valid: "\<forall>p \<in> set ps. valid p"
    using run long
  proof (induction ps rule: induct_list012)
    case (3 p q ps)
    then have "valid p" "valid q" using endpoints by auto
    with "3.IH"(2) "3.prems" show ?case by (cases ps) auto
  qed auto
  then have "rank ` set ps \<subseteq> {.. top}" using bounded by auto
  then have "card (set (map rank ps)) \<le> Suc top"
    using card_mono [of "{.. top}" "rank ` set ps"] by simp
  moreover have "distinct (map rank ps)"
    using run_sorted [OF run stay] by (simp add: strict_sorted_iff)
  ultimately show ?thesis using distinct_card [of "map rank ps"] by simp
qed

end

fun sandbox_rank :: "sandbox_phase \<Rightarrow> nat" where
  "sandbox_rank SandboxAbsent = 0"
| "sandbox_rank SandboxCreating = 1"
| "sandbox_rank SandboxReady = 2"
| "sandbox_rank SandboxStopping = 3"
| "sandbox_rank SandboxStopped = 4"
| "sandbox_rank (SandboxPhaseOther _) = 0"

fun attempt_rank :: "attempt_phase \<Rightarrow> nat" where
  "attempt_rank AttemptAbsent = 0"
| "attempt_rank AttemptCreating = 1"
| "attempt_rank AttemptCreated = 2"
| "attempt_rank AttemptRunning = 3"
| "attempt_rank AttemptStopped = 4"
| "attempt_rank (AttemptPhaseOther _) = 0"

interpretation sandbox_machine:
  phase_machine TransitionSandbox SandboxPhase_Valid SandboxAbsent sandbox_rank 4
proof unfold_locales
  fix p q r
  assume "TransitionSandbox p q = Inr r"
  then show "r = q" and "SandboxPhase_Valid p \<and> SandboxPhase_Valid q"
    by (auto simp: TransitionSandbox_def split: if_splits)
  assume "q \<noteq> SandboxAbsent"
  with \<open>TransitionSandbox p q = Inr r\<close> show "sandbox_rank p < sandbox_rank q"
    by (cases p; cases q) (auto simp: TransitionSandbox_def)
next
  fix p
  assume "SandboxPhase_Valid p"
  then show "sandbox_rank p \<le> 4" by (cases p) auto
qed

interpretation attempt_machine:
  phase_machine TransitionAttempt AttemptPhase_Valid AttemptAbsent attempt_rank 4
proof unfold_locales
  fix p q r
  assume "TransitionAttempt p q = Inr r"
  then show "r = q" and "AttemptPhase_Valid p \<and> AttemptPhase_Valid q"
    by (auto simp: TransitionAttempt_def split: if_splits)
  assume "q \<noteq> AttemptAbsent"
  with \<open>TransitionAttempt p q = Inr r\<close> show "attempt_rank p < attempt_rank q"
    by (cases p; cases q) (auto simp: TransitionAttempt_def)
next
  fix p
  assume "AttemptPhase_Valid p"
  then show "attempt_rank p \<le> 4" by (cases p) auto
qed

text \<open>Every transition is decided by its table, and a refusal always has the same code.\<close>

lemma TransitionSandbox_Inr [simp]: "TransitionSandbox p q = Inr r \<longleftrightarrow> sandbox_allowed p q \<and> r = q"
  by (cases p; cases q) (auto simp: TransitionSandbox_def)

lemma TransitionAttempt_Inr [simp]: "TransitionAttempt p q = Inr r \<longleftrightarrow> attempt_allowed p q \<and> r = q"
  by (cases p; cases q) (auto simp: TransitionAttempt_def)

lemma TransitionSandbox_Inl: "TransitionSandbox p q = Inl e \<Longrightarrow> error_Code e = CodeInvalidTransition"
  by (auto simp: TransitionSandbox_def split: if_splits)

lemma TransitionAttempt_Inl: "TransitionAttempt p q = Inl e \<Longrightarrow> error_Code e = CodeInvalidTransition"
  by (auto simp: TransitionAttempt_def split: if_splits)

fun_cases sandbox_allowedE: "sandbox_allowed p q = True"
fun_cases attempt_allowedE: "attempt_allowed p q = True"

subsection \<open>Properties\<close>

text \<open>A Sandbox lifecycle makes progress: a run of accepted transitions that does not
  return to the absent phase never enters a phase twice and has at most five phases.\<close>

theorem sandbox_run_bounded:
  assumes "successively (\<lambda>p q. TransitionSandbox p q = Inr q) ps"
    and "SandboxAbsent \<notin> set (tl ps)" and "2 \<le> length ps"
  shows "distinct ps \<and> length ps \<le> 5"
  using sandbox_machine.run_distinct [OF assms(1,2)] sandbox_machine.run_length [OF assms] by simp

theorem sandbox_run_bounded_witness:
  "distinct [SandboxAbsent, SandboxCreating, SandboxReady, SandboxStopping, SandboxStopped]
   \<and> length [SandboxAbsent, SandboxCreating, SandboxReady, SandboxStopping, SandboxStopped] \<le> 5"
  by (rule sandbox_run_bounded) auto

text \<open>C23. An Attempt lifecycle makes progress in the same sense, and a run that leaves the
  creating phase cannot come back to an earlier one.\<close>

theorem attempt_run_bounded:
  assumes "successively (\<lambda>p q. TransitionAttempt p q = Inr q) ps"
    and "AttemptAbsent \<notin> set (tl ps)" and "2 \<le> length ps"
  shows "distinct ps \<and> length ps \<le> 5 \<and> sorted_wrt (<) (map attempt_rank ps)"
  using attempt_machine.run_distinct [OF assms(1,2)] attempt_machine.run_length [OF assms]
    attempt_machine.run_sorted [OF assms(1,2)] by simp

theorem attempt_run_bounded_witness:
  "distinct [AttemptCreating, AttemptCreated, AttemptStopped]
   \<and> length [AttemptCreating, AttemptCreated, AttemptStopped] \<le> 5
   \<and> sorted_wrt (<) (map attempt_rank [AttemptCreating, AttemptCreated, AttemptStopped])"
  by (rule attempt_run_bounded) auto

end
