(* ===== verification/Go_Std.thy ===== *)
theory Go_Std
  imports Prelude "HOL-Library.Char_ord"
begin

text \<open>
  The parts of Go's standard library the program relies on, executable: UTF-8 decoding as
  \<open>range\<close> over a string and \<open>unicode/utf8\<close> do it, the character classes of \<open>unicode\<close>,
  \<open>strings\<close> helpers, \<open>path/filepath\<close> on Unix, \<open>net.ParseIP\<close> and the parts of \<open>time.Time\<close>
  that comparisons see. A Go string is its sequence of bytes, a \<open>string\<close> of 8-bit characters.
\<close>

subsection \<open>UTF-8\<close>

definition bytes_of :: "string \<Rightarrow> nat list" where
  "bytes_of s = map of_char s"

definition in_range :: "nat \<Rightarrow> nat \<Rightarrow> nat \<Rightarrow> bool" where
  "in_range lo hi b \<longleftrightarrow> lo \<le> b \<and> b \<le> hi"

definition cont_byte :: "nat \<Rightarrow> bool" where
  "cont_byte = in_range 128 191"

text \<open>\<open>rune_at bs\<close> is the code point and width of a well-formed encoding at the head of
  \<open>bs\<close>, \<open>None\<close> where \<open>utf8.DecodeRune\<close> yields \<open>(RuneError, 1)\<close>.\<close>

fun rune_at :: "nat list \<Rightarrow> (nat \<times> nat) option" where
  "rune_at [] = None"
| "rune_at (b0 # bs) =
    (if b0 < 128 then Some (b0, 1)
     else if b0 < 194 then None
     else if b0 < 224 then
       (case bs of b1 # _ \<Rightarrow>
          if cont_byte b1 then Some ((b0 - 192) * 64 + (b1 - 128), 2) else None
        | _ \<Rightarrow> None)
     else if b0 < 240 then
       (case bs of b1 # b2 # _ \<Rightarrow>
          if in_range (if b0 = 224 then 160 else 128) (if b0 = 237 then 159 else 191) b1 \<and> cont_byte b2
          then Some ((b0 - 224) * 4096 + (b1 - 128) * 64 + (b2 - 128), 3) else None
        | _ \<Rightarrow> None)
     else if b0 < 245 then
       (case bs of b1 # b2 # b3 # _ \<Rightarrow>
          if in_range (if b0 = 240 then 144 else 128) (if b0 = 244 then 143 else 191) b1
             \<and> cont_byte b2 \<and> cont_byte b3
          then Some ((b0 - 240) * 262144 + (b1 - 128) * 4096 + (b2 - 128) * 64 + (b3 - 128), 4)
          else None
        | _ \<Rightarrow> None)
     else None)"

lemma rune_at_width: "rune_at bs = Some (r, w) \<Longrightarrow> 1 \<le> w \<and> w \<le> length bs \<and> w \<le> 4"
  by (cases bs) (auto split: if_splits list.splits)

text \<open>\<open>runes\<close> is what \<open>for _, r := range s\<close> yields: an ill-formed byte is U+FFFD.\<close>

fun runes_from :: "nat list \<Rightarrow> nat list" where
  "runes_from [] = []"
| "runes_from (b # bs) =
    (case rune_at (b # bs) of
       Some (r, w) \<Rightarrow> r # runes_from (drop (w - 1) bs)
     | None \<Rightarrow> 65533 # runes_from bs)"

definition runes :: "string \<Rightarrow> nat list" where
  "runes s = runes_from (bytes_of s)"

fun valid_bytes :: "nat list \<Rightarrow> bool" where
  "valid_bytes [] = True"
| "valid_bytes (b # bs) =
    (case rune_at (b # bs) of
       Some (r, w) \<Rightarrow> valid_bytes (drop (w - 1) bs)
     | None \<Rightarrow> False)"

definition ValidString :: "string \<Rightarrow> bool" where
  "ValidString s = valid_bytes (bytes_of s)"

text \<open>\<open>strings.ToValidUTF8 s rep\<close> replaces each maximal run of ill-formed bytes by \<open>rep\<close>; the
  flag says that the previous byte was already part of such a run.\<close>

fun to_valid_from :: "string \<Rightarrow> bool \<Rightarrow> string \<Rightarrow> string" where
  "to_valid_from rep bad [] = []"
| "to_valid_from rep bad (c # cs) =
    (case rune_at (bytes_of (c # cs)) of
       Some (r, w) \<Rightarrow> take w (c # cs) @ to_valid_from rep False (drop (w - 1) cs)
     | None \<Rightarrow> (if bad then [] else rep) @ to_valid_from rep True cs)"

definition ToValidUTF8 :: "string \<Rightarrow> string \<Rightarrow> string" where
  "ToValidUTF8 s rep = to_valid_from rep False s"

definition replacement_char :: string where
  "replacement_char = [CHR 0xEF, CHR 0xBF, CHR 0xBD]"

subsection \<open>Character classes and string helpers\<close>

definition IsControl :: "nat \<Rightarrow> bool" where
  "IsControl r \<longleftrightarrow> r < 32 \<or> in_range 127 159 r"

definition IsSpace :: "nat \<Rightarrow> bool" where
  "IsSpace r \<longleftrightarrow> in_range 9 13 r \<or> r \<in> set [32, 133, 160, 5760, 8232, 8233, 8239, 8287, 12288]
     \<or> in_range 8192 8202 r"

text \<open>Width of the white-space rune at the head, and (on the reversed bytes) at the end as
  \<open>utf8.DecodeLastRune\<close> finds it; 0 if there is none.\<close>

definition space_width :: "nat list \<Rightarrow> nat" where
  "space_width bs = (case rune_at bs of Some (r, w) \<Rightarrow> if IsSpace r then w else 0 | None \<Rightarrow> 0)"

definition last_space_width :: "nat list \<Rightarrow> nat" where
  "last_space_width rbs =
    (case rbs of
       [] \<Rightarrow> 0
     | b # _ \<Rightarrow>
       if b < 128 then (if IsSpace b then 1 else 0)
       else if space_width (rev (take 2 rbs)) = 2 then 2
       else if space_width (rev (take 3 rbs)) = 3 then 3
       else 0)"

fun trim_with :: "(nat list \<Rightarrow> nat) \<Rightarrow> nat \<Rightarrow> string \<Rightarrow> string" where
  "trim_with width 0 s = s"
| "trim_with width (Suc n) s =
    (let w = width (bytes_of s) in if w = 0 then s else trim_with width n (drop w s))"

definition TrimSpace :: "string \<Rightarrow> string" where
  "TrimSpace s =
    (let l = trim_with space_width (length s) s
     in rev (trim_with last_space_width (length l) (rev l)))"

definition contains_nul :: "string \<Rightarrow> bool" where
  "contains_nul s \<longleftrightarrow> CHR 0x00 \<in> set s"

definition ContainsAny :: "string \<Rightarrow> string \<Rightarrow> bool" where
  "ContainsAny s chars \<longleftrightarrow> list_ex (\<lambda>c. c \<in> set chars) s"

definition space_or_control :: "string \<Rightarrow> bool" where
  "space_or_control s \<longleftrightarrow> list_ex (\<lambda>r. IsControl r \<or> IsSpace r) (runes s)"

text \<open>\<open>strings.Split s sep\<close> for a one-byte separator.\<close>

fun split_on :: "char \<Rightarrow> string \<Rightarrow> string list" where
  "split_on sep [] = [[]]"
| "split_on sep (c # cs) =
    (if c = sep then [] # split_on sep cs
     else (case split_on sep cs of p # ps \<Rightarrow> (c # p) # ps | [] \<Rightarrow> [[c]]))"

fun join_with :: "string \<Rightarrow> string list \<Rightarrow> string" where
  "join_with sep [] = []"
| "join_with sep [p] = p"
| "join_with sep (p # ps) = p @ sep @ join_with sep ps"

text \<open>\<open>%d\<close> of a non-negative integer.\<close>

fun show_nat :: "nat \<Rightarrow> string" where
  "show_nat n = (if n < 10 then [char_of (n + 48)] else show_nat (n div 10) @ [char_of (n mod 10 + 48)])"

declare show_nat.simps [simp del]

definition index_field :: "string \<Rightarrow> nat \<Rightarrow> string" where
  "index_field name i = name @ ''['' @ show_nat i @ '']''"

subsection \<open>Facts about UTF-8 text\<close>

lemma bytes_of_simps [simp]:
  "bytes_of [] = []" "bytes_of (c # cs) = of_char c # bytes_of cs"
  "bytes_of (xs @ ys) = bytes_of xs @ bytes_of ys"
  "length (bytes_of s) = length s"
  by (simp_all add: bytes_of_def)

lemma bytes_of_take [simp]: "bytes_of (take n s) = take n (bytes_of s)"
  by (simp add: bytes_of_def take_map)

lemma bytes_of_drop [simp]: "bytes_of (drop n s) = drop n (bytes_of s)"
  by (simp add: bytes_of_def drop_map)

lemma rune_at_ascii [simp]: "b < 128 \<Longrightarrow> rune_at (b # bs) = Some (b, 1)"
  by simp

lemma rune_at_append: "rune_at bs = Some (r, w) \<Longrightarrow> rune_at (bs @ cs) = Some (r, w)"
  by (cases bs) (auto split: if_splits list.splits)

lemma rune_at_take: "rune_at bs = Some (r, w) \<Longrightarrow> rune_at (take w bs) = Some (r, w)"
  by (cases bs) (auto split: if_splits list.splits)

declare rune_at.simps(2) [simp del]

lemma valid_bytes_append: "valid_bytes xs \<Longrightarrow> valid_bytes ys \<Longrightarrow> valid_bytes (xs @ ys)"
proof (induction xs rule: valid_bytes.induct)
  case 1
  then show ?case by simp
next
  case (2 b bs)
  then obtain r w where at: "rune_at (b # bs) = Some (r, w)"
    and rest: "valid_bytes (drop (w - 1) bs)"
    by (auto split: option.splits)
  from rune_at_append [OF at, of ys] have at': "rune_at (b # bs @ ys) = Some (r, w)" by simp
  from rune_at_width [OF at] have "w - 1 \<le> length bs" by auto
  then have "drop (w - 1) (bs @ ys) = drop (w - 1) bs @ ys" by simp
  with "2.IH" [OF at refl rest "2.prems"(2)] at' show ?case by simp
qed

lemma valid_bytes_rune: "rune_at (b # bs) = Some (r, w) \<Longrightarrow> valid_bytes (take w (b # bs))"
proof -
  assume at: "rune_at (b # bs) = Some (r, w)"
  from rune_at_width [OF at] obtain v where w: "w = Suc v" and v: "v \<le> length bs"
    by (cases w) auto
  from rune_at_take [OF at] w have "rune_at (b # take v bs) = Some (r, w)" by simp
  with w v show ?thesis by simp
qed

lemma valid_ToValid_from:
  "valid_bytes (bytes_of rep) \<Longrightarrow> valid_bytes (bytes_of (to_valid_from rep bad s))"
proof (induction rep bad s rule: to_valid_from.induct)
  case (1 rep bad)
  then show ?case by simp
next
  case (2 rep bad c cs)
  show ?case
  proof (cases "rune_at (bytes_of (c # cs))")
    case None
    have "valid_bytes (bytes_of (to_valid_from rep True cs))"
      by (rule "2.IH"(1) [OF None "2.prems"])
    with None "2.prems" show ?thesis by (auto intro!: valid_bytes_append)
  next
    case (Some p)
    obtain r w where p: "p = (r, w)" by (cases p)
    from Some p have at: "rune_at (of_char c # bytes_of cs) = Some (r, w)" by simp
    have "bytes_of (to_valid_from rep bad (c # cs)) =
        take w (of_char c # bytes_of cs) @ bytes_of (to_valid_from rep False (drop (w - 1) cs))"
      using at by (simp del: take_Suc_Cons)
    moreover have "valid_bytes (take w (of_char c # bytes_of cs))"
      by (rule valid_bytes_rune [OF at])
    moreover have "valid_bytes (bytes_of (to_valid_from rep False (drop (w - 1) cs)))"
      by (rule "2.IH"(2) [OF Some p [symmetric] "2.prems"])
    ultimately show ?thesis by (simp add: valid_bytes_append)
  qed
qed

lemma ValidString_ToValidUTF8: "ValidString rep \<Longrightarrow> ValidString (ToValidUTF8 s rep)"
  by (simp add: ValidString_def ToValidUTF8_def valid_ToValid_from)

text \<open>Printable ASCII without blanks: such text passes every character check.\<close>

definition plain_char :: "char \<Rightarrow> bool" where
  "plain_char c \<longleftrightarrow> in_range 33 126 (of_char c)"

definition plain :: "string \<Rightarrow> bool" where
  "plain s \<longleftrightarrow> list_all plain_char s"

lemma plain_simps [simp]:
  "plain []" "plain (c # cs) \<longleftrightarrow> plain_char c \<and> plain cs" "plain (xs @ ys) \<longleftrightarrow> plain xs \<and> plain ys"
  by (auto simp: plain_def)

lemma plain_rev [simp]: "plain (rev s) = plain s"
  by (simp add: plain_def list_all_iff)

lemma plain_space_width: "plain s \<Longrightarrow> space_width (bytes_of s) = 0"
  by (cases s) (auto simp: space_width_def plain_char_def in_range_def IsSpace_def rune_at.simps(1))

lemma plain_last_space_width: "plain s \<Longrightarrow> last_space_width (bytes_of s) = 0"
  by (cases s) (auto simp: last_space_width_def plain_char_def in_range_def IsSpace_def)

lemma trim_with_id: "width (bytes_of s) = 0 \<Longrightarrow> trim_with width n s = s"
  by (cases n) auto

lemma plain_TrimSpace: "plain s \<Longrightarrow> TrimSpace s = s"
  by (simp add: TrimSpace_def Let_def trim_with_id plain_space_width plain_last_space_width)

lemma plain_runes: "plain s \<Longrightarrow> runes s = bytes_of s"
  by (induction s) (auto simp: runes_def plain_char_def in_range_def)

lemma plain_space_or_control: "plain s \<Longrightarrow> \<not> space_or_control s"
  by (auto simp: space_or_control_def plain_runes list_ex_iff bytes_of_def plain_def list_all_iff
      plain_char_def in_range_def IsControl_def IsSpace_def)

lemma plain_no_nul: "plain s \<Longrightarrow> \<not> contains_nul s"
  by (auto simp: contains_nul_def plain_def list_all_iff plain_char_def in_range_def)

lemma plain_ValidString: "plain s \<Longrightarrow> ValidString s"
  by (induction s) (auto simp: ValidString_def plain_char_def in_range_def)

lemmas plain_text = plain_TrimSpace plain_space_or_control plain_no_nul plain_ValidString

subsection \<open>filepath on Unix\<close>

definition IsAbs :: "string \<Rightarrow> bool" where
  "IsAbs p \<longleftrightarrow> (case p of c # _ \<Rightarrow> c = CHR ''/'' | [] \<Rightarrow> False)"

text \<open>\<open>filepath.Clean\<close>: the elements kept so far are a stack, newest first.\<close>

fun clean_elems :: "bool \<Rightarrow> string list \<Rightarrow> string list \<Rightarrow> string list" where
  "clean_elems rooted st [] = rev st"
| "clean_elems rooted st (e # es) =
    (if e = [] \<or> e = ''.'' then clean_elems rooted st es
     else if e = ''..'' then
       (case st of
          t # ts \<Rightarrow> if t = ''..'' then clean_elems rooted (''..'' # st) es
                    else clean_elems rooted ts es
        | [] \<Rightarrow> if rooted then clean_elems rooted [] es
                else clean_elems rooted [''..''] es)
     else clean_elems rooted (e # st) es)"

definition filepath_Clean :: "string \<Rightarrow> string" where
  "filepath_Clean p =
    (let rooted = IsAbs p;
         body = join_with ''/'' (clean_elems rooted [] (split_on (CHR ''/'') p))
     in if rooted then CHR ''/'' # body else if body = [] then ''.'' else body)"

lemma split_on_not_Nil [simp]: "split_on sep s \<noteq> []"
  by (cases s) (auto split: list.splits)

lemma split_on_no_sep: "p \<in> set (split_on sep s) \<Longrightarrow> sep \<notin> set p"
proof (induction s arbitrary: p)
  case Nil
  then show ?case by simp
next
  case (Cons c cs)
  show ?case
  proof (cases "split_on sep cs")
    case Nil
    then show ?thesis by simp
  next
    case split: (Cons q qs)
    with Cons.IH have "\<forall>p \<in> set (q # qs). sep \<notin> set p" by simp
    with Cons.prems split show ?thesis by (auto split: if_splits)
  qed
qed

lemma split_on_append:
  "sep \<notin> set p \<Longrightarrow> split_on sep (p @ sep # s) = p # split_on sep s"
  by (induction p) auto

lemma split_on_single: "sep \<notin> set p \<Longrightarrow> split_on sep p = [p]"
  by (induction p) auto

lemma split_on_join:
  assumes "ps \<noteq> []" and "\<forall>p \<in> set ps. sep \<notin> set p"
  shows "split_on sep (join_with [sep] ps) = ps"
  using assms
  by (induction ps rule: induct_list012) (auto simp: split_on_single split_on_append)

lemma clean_elems_subset: "set (clean_elems rooted st es) \<subseteq> insert ''..'' (set st \<union> set es)"
  by (induction rooted st es rule: clean_elems.induct) (auto split: list.splits if_splits)

lemma clean_rooted_no_dotdot:
  "''..'' \<notin> set st \<Longrightarrow> ''..'' \<notin> set (clean_elems True st es)"
proof (induction es arbitrary: st)
  case Nil
  then show ?case by simp
next
  case (Cons e es)
  then show ?case by (cases st) auto
qed

text \<open>The elements of a cleaned rooted path never climb to the parent directory.\<close>

lemma filepath_Clean_no_dotdot:
  assumes "IsAbs p"
  shows "''..'' \<notin> set (split_on (CHR ''/'') (filepath_Clean p))"
proof -
  let ?es = "clean_elems True [] (split_on (CHR ''/'') p)"
  have clean: "filepath_Clean p = CHR ''/'' # join_with ''/'' ?es"
    using assms by (simp add: filepath_Clean_def)
  have no_dd: "''..'' \<notin> set ?es" by (rule clean_rooted_no_dotdot) simp
  show ?thesis
  proof (cases "?es = []")
    case True
    then show ?thesis by (simp add: clean)
  next
    case False
    have "\<forall>e \<in> set ?es. CHR ''/'' \<notin> set e"
      using clean_elems_subset [of True "[]"] split_on_no_sep by fastforce
    with False have "split_on (CHR ''/'') (join_with ''/'' ?es) = ?es"
      by (rule split_on_join)
    with no_dd show ?thesis by (simp add: clean)
  qed
qed

subsection \<open>net.ParseIP\<close>

definition is_digit :: "char \<Rightarrow> bool" where
  "is_digit c \<longleftrightarrow> in_range 48 57 (of_char c)"

definition is_hex :: "char \<Rightarrow> bool" where
  "is_hex c \<longleftrightarrow> is_digit c \<or> in_range 97 102 (of_char c) \<or> in_range 65 70 (of_char c)"

definition decimal_value :: "string \<Rightarrow> nat" where
  "decimal_value s = foldl (\<lambda>v c. v * 10 + (of_char c - 48)) 0 s"

definition ipv4_octet :: "string \<Rightarrow> bool" where
  "ipv4_octet s \<longleftrightarrow> s \<noteq> [] \<and> list_all is_digit s \<and> (hd s = CHR ''0'' \<longrightarrow> length s = 1)
     \<and> decimal_value s \<le> 255"

definition parse_ipv4 :: "string \<Rightarrow> bool" where
  "parse_ipv4 s \<longleftrightarrow> length (split_on (CHR ''.'') s) = 4 \<and> list_all ipv4_octet (split_on (CHR ''.'') s)"

text \<open>The loop of \<open>netip.parseIPv6\<close>: \<open>i\<close> bytes of the address are filled, \<open>ell\<close> says that an
  ellipsis was seen. Each round consumes a group, so the address width is the fuel.\<close>

fun parse_ipv6_groups :: "nat \<Rightarrow> nat \<Rightarrow> bool \<Rightarrow> string \<Rightarrow> bool" where
  "parse_ipv6_groups 0 i ell s = (s = [] \<and> (if i < 16 then ell else \<not> ell))"
| "parse_ipv6_groups (Suc n) i ell s =
    (if 16 \<le> i then s = [] \<and> \<not> ell
     else
       let group = takeWhile is_hex s; rest = dropWhile is_hex s in
       if group = [] \<or> 4 < length group then False
       else (case rest of
          [] \<Rightarrow> (if i + 2 < 16 then ell else \<not> ell)
        | c # more \<Rightarrow>
          if c = CHR ''.'' then
            (ell \<or> i = 12) \<and> i + 4 \<le> 16 \<and> parse_ipv4 s \<and> (if i + 4 < 16 then ell else \<not> ell)
          else if c \<noteq> CHR '':'' \<or> more = [] then False
          else if hd more = CHR '':'' then
            \<not> ell \<and> (if tl more = [] then i + 2 < 16 else parse_ipv6_groups n (i + 2) True (tl more))
          else parse_ipv6_groups n (i + 2) ell more))"

definition parse_ipv6 :: "string \<Rightarrow> bool" where
  "parse_ipv6 s =
    (if take 2 s = ''::'' then (if drop 2 s = [] then True else parse_ipv6_groups 9 0 True (drop 2 s))
     else parse_ipv6_groups 9 0 False s)"

definition ParseIP :: "string \<Rightarrow> bool" where
  "ParseIP s =
    (case dropWhile (\<lambda>c. c \<notin> {CHR ''.'', CHR '':'', CHR ''%''}) s of
       [] \<Rightarrow> False
     | c # _ \<Rightarrow>
       if c = CHR ''.'' then parse_ipv4 s
       else if c = CHR '':'' then CHR ''%'' \<notin> set s \<and> parse_ipv6 s
       else False)"

subsection \<open>Decimal numbers\<close>

lemma show_nat_digits: "list_all is_digit (show_nat n) \<and> show_nat n \<noteq> []"
proof (induction n rule: show_nat.induct)
  case (1 n)
  then show ?case
    by (cases "n < 10") (simp_all add: show_nat.simps [of n] is_digit_def in_range_def)
qed

lemma decimal_value_snoc: "decimal_value (s @ [c]) = decimal_value s * 10 + (of_char c - 48)"
  by (simp add: decimal_value_def)

lemma decimal_value_show_nat [simp]: "decimal_value (show_nat n) = n"
proof (induction n rule: show_nat.induct)
  case (1 n)
  then show ?case
    by (cases "n < 10")
      (simp_all add: show_nat.simps [of n] decimal_value_snoc, simp add: decimal_value_def)
qed

subsection \<open>time.Time and time.Duration\<close>

text \<open>
  \<open>t_wall\<close> is the instant in nanoseconds since the zero time, \<open>t_mono\<close> the monotonic reading
  if there is one and \<open>t_loc\<close> the location: UTC, a fixed zone with its offset in seconds, or a
  loaded location with its offset at the instant. \<open>Equal\<close> compares monotonic readings where both
  have one and instants otherwise; Go's \<open>==\<close> and \<open>reflect.DeepEqual\<close> compare all of it, which
  is equality of the records. A duration is its number of nanoseconds.
\<close>

datatype location = UTC | FixedZone int | Located nat int

record gotime =
  t_wall :: int
  t_mono :: "int option"
  t_loc :: location

type_synonym duration = int

definition time_IsZero :: "gotime \<Rightarrow> bool" where
  "time_IsZero t \<longleftrightarrow> t_wall t = 0"

definition time_Equal :: "gotime \<Rightarrow> gotime \<Rightarrow> bool" where
  "time_Equal a b =
    (case (t_mono a, t_mono b) of
       (Some x, Some y) \<Rightarrow> x = y
     | _ \<Rightarrow> t_wall a = t_wall b)"

lemma time_Equal_refl [simp]: "time_Equal t t"
  by (simp add: time_Equal_def split: option.splits)

lemma time_Equal_sym: "time_Equal a b \<longleftrightarrow> time_Equal b a"
  by (auto simp: time_Equal_def split: option.splits)

end
