(* ===== verification/Domain_Spec.thy ===== *)
theory Domain_Spec
  imports Go_Std Domain_Phase
begin

text \<open>
  The create-time input of \<open>internal/domain\<close>: identities (\<open>identity.go\<close>), resource requests
  and limits (\<open>resources.go\<close>), process specifications (\<open>process.go\<close>) and the Sandbox
  specification (the first part of \<open>model.go\<close>), with their validation and the resolution of raw
  limits into an execution policy. Integers that are only compared are HOL integers; optional
  pointers are \<open>option\<close> values, for which Clone is the identity.
\<close>

subsection \<open>Identities\<close>

type_synonym sandbox_id = string
type_synonym container_id = string
type_synonym attempt_id = string

definition invalid :: "string \<Rightarrow> domain_error" where
  "invalid field = NewError CodeInvalidArgument field"

definition validateID :: "string \<Rightarrow> string \<Rightarrow> domain_error option" where
  "validateID field value =
    first_err
     [reject (value = [] \<or> TrimSpace value \<noteq> value) (invalid field),
      reject (128 < length value) (invalid field),
      reject (space_or_control value) (invalid field)]"

definition SandboxID_Validate :: "sandbox_id \<Rightarrow> domain_error option" where
  "SandboxID_Validate = validateID ''sandbox_id''"

definition ContainerID_Validate :: "container_id \<Rightarrow> domain_error option" where
  "ContainerID_Validate = validateID ''container_id''"

definition AttemptID_Validate :: "attempt_id \<Rightarrow> domain_error option" where
  "AttemptID_Validate = validateID ''attempt_id''"

text \<open>The identity contract does not depend on the field it is reported under.\<close>

definition good_id :: "string \<Rightarrow> bool" where
  "good_id v \<longleftrightarrow> v \<noteq> [] \<and> TrimSpace v = v \<and> length v \<le> 128 \<and> \<not> space_or_control v"

lemma validateID_None [simp]: "validateID field v = None \<longleftrightarrow> good_id v"
  by (auto simp: validateID_def good_id_def)

lemma id_Validate_None [simp]:
  "SandboxID_Validate i = None \<longleftrightarrow> good_id i"
  "ContainerID_Validate i = None \<longleftrightarrow> good_id i"
  "AttemptID_Validate i = None \<longleftrightarrow> good_id i"
  by (simp_all add: SandboxID_Validate_def ContainerID_Validate_def AttemptID_Validate_def)

lemma plain_good_id: "plain v \<Longrightarrow> v \<noteq> [] \<Longrightarrow> length v \<le> 128 \<Longrightarrow> good_id v"
  by (simp add: good_id_def plain_text)

subsection \<open>Resources\<close>

definition MinimumCPULimitMilli :: int where "MinimumCPULimitMilli = 10"

definition DefaultPidsLimit :: int where "DefaultPidsLimit = 1024"

record resource_requests =
  CPURequestMilli :: "int option"
  MemoryRequestBytes :: "int option"

record resource_limits =
  CPULimitMilli :: "int option"
  MemoryLimitBytes :: "int option"
  PidsLimit :: "int option"

record resolved_limits =
  rl_CPUUnlimited :: bool
  rl_CPULimitMilli :: "int option"
  rl_MemoryUnlimited :: bool
  rl_MemoryLimitBytes :: "int option"
  rl_PidsLimit :: int

record resources =
  Requests :: resource_requests
  Limits :: resource_limits

definition exceeds :: "int option \<Rightarrow> int option \<Rightarrow> bool" where
  "exceeds request limit =
    (case (request, limit) of (Some r, Some l) \<Rightarrow> l < r | _ \<Rightarrow> False)"

definition not_positive :: "int option \<Rightarrow> bool" where
  "not_positive v = (case v of None \<Rightarrow> False | Some n \<Rightarrow> n \<le> 0)"

definition Resources_Validate :: "resources \<Rightarrow> domain_error option" where
  "Resources_Validate r =
    first_err
     [reject (not_positive (CPURequestMilli (Requests r))) (invalid ''cpu_request_milli''),
      reject (not_positive (MemoryRequestBytes (Requests r))) (invalid ''memory_request_bytes''),
      reject (not_positive (CPULimitMilli (Limits r))) (invalid ''cpu_limit_milli''),
      reject (not_positive (MemoryLimitBytes (Limits r))) (invalid ''memory_limit_bytes''),
      reject (not_positive (PidsLimit (Limits r))) (invalid ''pids_limit''),
      reject (case CPULimitMilli (Limits r) of None \<Rightarrow> False | Some n \<Rightarrow> n < MinimumCPULimitMilli)
        (invalid ''cpu_limit_milli''),
      reject (exceeds (CPURequestMilli (Requests r)) (CPULimitMilli (Limits r)))
        (invalid ''cpu_request_milli''),
      reject (exceeds (MemoryRequestBytes (Requests r)) (MemoryLimitBytes (Limits r)))
        (invalid ''memory_request_bytes'')]"

definition ResolvedResourceLimits_Validate :: "resolved_limits \<Rightarrow> domain_error option" where
  "ResolvedResourceLimits_Validate r =
    first_err
     [if rl_CPUUnlimited r
        then reject (rl_CPULimitMilli r \<noteq> None) (invalid ''resolved_limits.cpu'')
        else reject (case rl_CPULimitMilli r of None \<Rightarrow> True | Some n \<Rightarrow> n < MinimumCPULimitMilli)
          (invalid ''resolved_limits.cpu_limit_milli''),
      if rl_MemoryUnlimited r
        then reject (rl_MemoryLimitBytes r \<noteq> None) (invalid ''resolved_limits.memory'')
        else reject (case rl_MemoryLimitBytes r of None \<Rightarrow> True | Some n \<Rightarrow> n \<le> 0)
          (invalid ''resolved_limits.memory_limit_bytes''),
      reject (rl_PidsLimit r \<le> 0) (invalid ''resolved_limits.pids_limit'')]"

definition ResolveResourceLimits :: "resources \<Rightarrow> domain_error + resolved_limits" where
  "ResolveResourceLimits resources =
    require (Resources_Validate resources)
     (let resolved =
        \<lparr>rl_CPUUnlimited = (CPULimitMilli (Limits resources) = None),
         rl_CPULimitMilli = CPULimitMilli (Limits resources),
         rl_MemoryUnlimited = (MemoryLimitBytes (Limits resources) = None),
         rl_MemoryLimitBytes = MemoryLimitBytes (Limits resources),
         rl_PidsLimit =
           (case PidsLimit (Limits resources) of None \<Rightarrow> DefaultPidsLimit | Some n \<Rightarrow> n)\<rparr>
      in require (ResolvedResourceLimits_Validate resolved) (Inr resolved))"

subsection \<open>Processes\<close>

record env_var =
  env_Name :: string
  env_Value :: string

definition EnvVar_Validate :: "env_var \<Rightarrow> domain_error option" where
  "EnvVar_Validate v =
    first_err
     [reject (env_Name v = []) (invalid ''environment.name''),
      reject (ContainsAny (env_Name v) [CHR ''='', CHR 0x00]) (invalid ''environment.name''),
      reject (contains_nul (env_Value v)) (invalid ''environment.value'')]"

record termination_policy =
  tp_Signal :: string
  tp_GracePeriod :: duration
  tp_EscalationSignal :: string

definition blank_or_nul :: "string \<Rightarrow> bool" where
  "blank_or_nul s \<longleftrightarrow> TrimSpace s = [] \<or> contains_nul s"

definition TerminationPolicy_Validate :: "termination_policy \<Rightarrow> domain_error option" where
  "TerminationPolicy_Validate p =
    (if tp_GracePeriod p < 0 then Some (invalid ''termination.grace_period'')
     else if tp_Signal p = [] \<and> tp_GracePeriod p = 0 \<and> tp_EscalationSignal p = [] then None
     else first_err
      [reject (blank_or_nul (tp_Signal p)) (invalid ''termination.signal''),
       reject (blank_or_nul (tp_EscalationSignal p)) (invalid ''termination.escalation_signal'')])"

record process_spec =
  ps_Argv :: "string list"
  ps_Environment :: "env_var list"
  ps_WorkingDirectory :: string
  ps_Termination :: termination_policy

definition clean_absolute :: "string \<Rightarrow> bool" where
  "clean_absolute p \<longleftrightarrow> IsAbs p \<and> filepath_Clean p = p"

definition ProcessSpec_Validate :: "process_spec \<Rightarrow> domain_error option" where
  "ProcessSpec_Validate p =
    (case ps_Argv p of
       [] \<Rightarrow> Some (invalid ''argv'')
     | exe # _ \<Rightarrow>
       first_err
        [reject (exe = []) (invalid ''argv''),
         reject (\<not> clean_absolute exe) (invalid ''argv[0]''),
         first_err (map (\<lambda>a. reject (contains_nul a) (invalid ''argv'')) (ps_Argv p)),
         first_err (map EnvVar_Validate (ps_Environment p)),
         reject (contains_nul (ps_WorkingDirectory p)) (invalid ''working_directory''),
         reject (ps_WorkingDirectory p \<noteq> [] \<and> \<not> clean_absolute (ps_WorkingDirectory p))
           (invalid ''working_directory''),
         TerminationPolicy_Validate (ps_Termination p)])"

record kill_plan =
  kp_Signal :: string
  kp_GracePeriod :: duration
  kp_EscalationSignal :: string

definition NewKillPlan :: "termination_policy \<Rightarrow> domain_error + kill_plan" where
  "NewKillPlan policy =
    require (TerminationPolicy_Validate policy)
     (require (reject (tp_Signal policy = []) (invalid ''termination''))
       (Inr \<lparr>kp_Signal = tp_Signal policy, kp_GracePeriod = tp_GracePeriod policy,
             kp_EscalationSignal = tp_EscalationSignal policy\<rparr>))"

lemma NewKillPlan_Inr:
  "NewKillPlan policy = Inr plan \<longleftrightarrow>
     TerminationPolicy_Validate policy = None \<and> tp_Signal policy \<noteq> [] \<and>
     plan = \<lparr>kp_Signal = tp_Signal policy, kp_GracePeriod = tp_GracePeriod policy,
             kp_EscalationSignal = tp_EscalationSignal policy\<rparr>"
  by (auto simp: NewKillPlan_def)

subsection \<open>Sandbox specifications\<close>

definition maxSandboxHostnameBytes :: nat where "maxSandboxHostnameBytes = 64"

definition maxSandboxDNSServers :: nat where "maxSandboxDNSServers = 3"

record network_intent =
  Mode :: string
  Attachments :: "string list"

definition NetworkIntent_Validate :: "network_intent \<Rightarrow> domain_error option" where
  "NetworkIntent_Validate n =
    first_err
     [reject (contains_nul (Mode n)) (invalid ''network.mode''),
      indexed_errs (\<lambda>i a. reject (blank_or_nul a) (invalid (index_field ''network.attachments'' i)))
        0 (Attachments n)]"

text \<open>A label map is its entries in key order.\<close>

record sandbox_spec =
  ss_Hostname :: string
  ss_DNS :: "string list"
  ss_Labels :: "(string \<times> string) list"
  ss_Network :: network_intent
  ss_Resources :: resources

definition validateSandboxHostname :: "string \<Rightarrow> domain_error option" where
  "validateSandboxHostname hostname =
    (if hostname = [] then None
     else reject (maxSandboxHostnameBytes < length hostname \<or> \<not> ValidString hostname
             \<or> contains_nul hostname)
           (invalid ''hostname''))"

definition validateSandboxDNS :: "string list \<Rightarrow> domain_error option" where
  "validateSandboxDNS servers =
    first_err
     [reject (maxSandboxDNSServers < length servers) (invalid ''dns''),
      indexed_errs (\<lambda>i s. reject (\<not> ParseIP s) (invalid (index_field ''dns'' i))) 0 servers]"

definition label_error :: "string \<times> string \<Rightarrow> domain_error option" where
  "label_error kv = reject (blank_or_nul (fst kv) \<or> contains_nul (snd kv)) (invalid ''labels'')"

definition SandboxSpec_Validate :: "sandbox_spec \<Rightarrow> domain_error option" where
  "SandboxSpec_Validate s =
    first_err
     [validateSandboxHostname (ss_Hostname s),
      validateSandboxDNS (ss_DNS s),
      first_err (map label_error (ss_Labels s)),
      NetworkIntent_Validate (ss_Network s),
      Resources_Validate (ss_Resources s)]"

subsection \<open>Container specifications\<close>

record container_spec =
  cs_Process :: process_spec
  cs_ImageDigest :: string
  cs_RootFS :: string
  cs_Limits :: resolved_limits

definition ContainerSpec_Validate :: "container_spec \<Rightarrow> domain_error option" where
  "ContainerSpec_Validate s =
    first_err
     [ProcessSpec_Validate (cs_Process s),
      reject (contains_nul (cs_ImageDigest s) \<or> contains_nul (cs_RootFS s)) (invalid ''container.spec''),
      ResolvedResourceLimits_Validate (cs_Limits s)]"

subsection \<open>Properties\<close>

text \<open>Resolving raw limits succeeds exactly on valid resources, never fails its own
  post-check, and yields the policy the limits name: a missing CPU or memory limit becomes an
  explicit unlimited flag, a missing pids limit the default of 1024.\<close>

theorem resolve_limits_complete:
  "(if Resources_Validate r = None
    then \<exists>p. ResolveResourceLimits r = Inr p \<and> ResolvedResourceLimits_Validate p = None
      \<and> rl_CPULimitMilli p = CPULimitMilli (Limits r) \<and> rl_CPUUnlimited p = (CPULimitMilli (Limits r) = None)
      \<and> rl_MemoryLimitBytes p = MemoryLimitBytes (Limits r)
      \<and> rl_MemoryUnlimited p = (MemoryLimitBytes (Limits r) = None)
      \<and> rl_PidsLimit p = (case PidsLimit (Limits r) of None \<Rightarrow> 1024 | Some n \<Rightarrow> n)
      \<and> 0 < rl_PidsLimit p
    else \<exists>e. ResolveResourceLimits r = Inl e \<and> error_Code e = CodeInvalidArgument)"
proof (cases "Resources_Validate r")
  case None
  let ?l = "Limits r"
  let ?p = "\<lparr>rl_CPUUnlimited = (CPULimitMilli ?l = None), rl_CPULimitMilli = CPULimitMilli ?l,
    rl_MemoryUnlimited = (MemoryLimitBytes ?l = None), rl_MemoryLimitBytes = MemoryLimitBytes ?l,
    rl_PidsLimit = (case PidsLimit ?l of None \<Rightarrow> DefaultPidsLimit | Some n \<Rightarrow> n)\<rparr>"
  have checks: "\<not> not_positive (MemoryLimitBytes ?l)" "\<not> not_positive (PidsLimit ?l)"
    "\<not> (case CPULimitMilli ?l of None \<Rightarrow> False | Some n \<Rightarrow> n < MinimumCPULimitMilli)"
    using None by (simp_all add: Resources_Validate_def)
  then have pids: "0 < rl_PidsLimit ?p"
    by (cases "PidsLimit ?l") (simp_all add: not_positive_def DefaultPidsLimit_def)
  from checks have "ResolvedResourceLimits_Validate ?p = None"
    using pids unfolding ResolvedResourceLimits_Validate_def
    by (cases "CPULimitMilli ?l"; cases "MemoryLimitBytes ?l") (simp_all add: not_positive_def)
  then have "ResolveResourceLimits r = Inr ?p"
    using None by (simp add: ResolveResourceLimits_def)
  with None pids \<open>ResolvedResourceLimits_Validate ?p = None\<close> show ?thesis
    by (simp add: DefaultPidsLimit_def split: option.split)
next
  case (Some e)
  then have "error_Code e = CodeInvalidArgument"
    by (auto simp: Resources_Validate_def invalid_def reject_def split: if_splits option.splits
        dest!: first_err_SomeD)
  with Some show ?thesis by (simp add: ResolveResourceLimits_def)
qed

text \<open>A process specification that passes validation cannot name a parent directory: neither
  the executable nor the working directory has a \<open>..\<close> element, and both are rooted.\<close>

theorem process_paths_contained:
  assumes "ProcessSpec_Validate p = None"
  shows "\<exists>exe args. ps_Argv p = exe # args \<and> IsAbs exe \<and> ''..'' \<notin> set (split_on (CHR ''/'') exe)
    \<and> (if ps_WorkingDirectory p = [] then True else IsAbs (ps_WorkingDirectory p)
        \<and> ''..'' \<notin> set (split_on (CHR ''/'') (ps_WorkingDirectory p)))"
proof -
  obtain exe args where argv: "ps_Argv p = exe # args"
    using assms by (cases "ps_Argv p") (auto simp: ProcessSpec_Validate_def)
  with assms have "clean_absolute exe"
    and "ps_WorkingDirectory p \<noteq> [] \<Longrightarrow> clean_absolute (ps_WorkingDirectory p)"
    by (auto simp: ProcessSpec_Validate_def)
  with argv show ?thesis
    using filepath_Clean_no_dotdot by (fastforce simp: clean_absolute_def)
qed

definition sleep_process :: process_spec where
  "sleep_process =
    \<lparr>ps_Argv = [''/bin/sleep'', ''30''], ps_Environment = [], ps_WorkingDirectory = ''/srv'',
     ps_Termination = \<lparr>tp_Signal = ''SIGTERM'', tp_GracePeriod = 2000000000,
       tp_EscalationSignal = ''SIGKILL''\<rparr>\<rparr>"

lemma sleep_process_valid [simp]: "ProcessSpec_Validate sleep_process = None"
  by (simp add: ProcessSpec_Validate_def sleep_process_def clean_absolute_def IsAbs_def
      filepath_Clean_def contains_nul_def TerminationPolicy_Validate_def blank_or_nul_def
      plain_TrimSpace plain_char_def in_range_def)

theorem process_paths_contained_witness:
  "\<exists>exe args. ps_Argv sleep_process = exe # args \<and> IsAbs exe
    \<and> ''..'' \<notin> set (split_on (CHR ''/'') exe)
    \<and> (if ps_WorkingDirectory sleep_process = [] then True
        else IsAbs (ps_WorkingDirectory sleep_process)
          \<and> ''..'' \<notin> set (split_on (CHR ''/'') (ps_WorkingDirectory sleep_process)))"
  by (rule process_paths_contained [OF sleep_process_valid])

end
