(* ===== verification/Domain_Status.thy ===== *)
theory Domain_Status
  imports Domain_Spec
begin

text \<open>
  The status facts of \<open>internal/domain/model.go\<close> that a Sandbox and an Attempt share:
  conditions, the lifecycle observation, process identities, OOM evidence, terminal outcomes and
  stream references, with their validation and equality. The locale \<open>aggregate\<close> states what a
  resource promises about its status commands.
\<close>

definition DomainSchemaVersion :: u32 where "DomainSchemaVersion = 1"

type_synonym generation = u64

definition InitialGeneration :: generation where "InitialGeneration = 1"

subsection \<open>Conditions and observations\<close>

record condition =
  cond_Type :: string
  cond_Reason :: string
  cond_Message :: string

definition ConditionFailure :: string where "ConditionFailure = ''Failure''"

definition ConditionCleanupPending :: string where "ConditionCleanupPending = ''CleanupPending''"

definition ConditionOutcomeUnknown :: string where "ConditionOutcomeUnknown = ''OutcomeUnknown''"

definition ConditionProcessIdentityUnknown :: string where
  "ConditionProcessIdentityUnknown = ''ProcessIdentityUnknown''"

definition Condition_Validate :: "condition \<Rightarrow> domain_error option" where
  "Condition_Validate c =
    first_err
     [reject (TrimSpace (cond_Type c) = [] \<or> TrimSpace (cond_Reason c) = []) (invalid ''condition''),
      reject (contains_nul (cond_Type c) \<or> contains_nul (cond_Reason c) \<or> contains_nul (cond_Message c))
        (invalid ''condition'')]"

definition validateConditions :: "condition list \<Rightarrow> domain_error option" where
  "validateConditions conditions =
    dup_errs cond_Type
      (\<lambda>i c. wrap (WrapError CodeInvalidArgument (index_field ''conditions'' i)) (Condition_Validate c))
      (\<lambda>i. invalid (index_field ''conditions'' i)) 0 [] conditions"

lemma validateConditions_None:
  "validateConditions cs = None \<longleftrightarrow>
     (\<forall>c \<in> set cs. Condition_Validate c = None) \<and> distinct (map cond_Type cs)"
  unfolding validateConditions_def by (rule dup_errs_None) simp

lemma validateConditions_Nil [simp]: "validateConditions [] = None"
  by (simp add: validateConditions_None)

definition hasCondition :: "condition list \<Rightarrow> string \<Rightarrow> bool" where
  "hasCondition conditions t \<longleftrightarrow> list_ex (\<lambda>c. cond_Type c = t) conditions"

fun upsertCondition :: "condition list \<Rightarrow> condition \<Rightarrow> condition list" where
  "upsertCondition [] c = [c]"
| "upsertCondition (x # xs) c =
    (if cond_Type x = cond_Type c then c # xs else x # upsertCondition xs c)"

definition withoutCondition :: "condition list \<Rightarrow> string \<Rightarrow> domain_error + condition list" where
  "withoutCondition conditions t =
    require (reject (blank_or_nul t) (invalid ''condition.type''))
      (Inr (filter (\<lambda>c. cond_Type c \<noteq> t) conditions))"

lemma upsertCondition_types:
  "cond_Type ` set (upsertCondition cs c) = insert (cond_Type c) (cond_Type ` set cs)"
  by (induction cs) auto

lemma upsertCondition_distinct:
  "distinct (map cond_Type cs) \<Longrightarrow> distinct (map cond_Type (upsertCondition cs c))"
  by (induction cs) (auto simp: upsertCondition_types image_iff dest: sym)

lemma upsertCondition_subset: "set (upsertCondition cs c) \<subseteq> insert c (set cs)"
  by (induction cs) auto

lemma upsertCondition_valid:
  "validateConditions cs = None \<Longrightarrow> Condition_Validate c = None \<Longrightarrow>
   validateConditions (upsertCondition cs c) = None"
  using upsertCondition_subset [of cs c]
  by (auto simp: validateConditions_None upsertCondition_distinct)

lemma filter_conditions_valid:
  "validateConditions cs = None \<Longrightarrow> validateConditions (filter P cs) = None"
  by (auto simp: validateConditions_None distinct_map_filter)

lemma hasCondition_upsert:
  "hasCondition (upsertCondition cs c) t \<longleftrightarrow> t = cond_Type c \<or> hasCondition cs t"
  using upsertCondition_types [of cs c]
  by (auto simp: hasCondition_def list_ex_iff image_iff set_eq_iff) metis+

record observation =
  obs_OperationID :: string
  obs_EventSequence :: u64
  obs_Reason :: string

definition empty_observation :: observation where
  "empty_observation = \<lparr>obs_OperationID = [], obs_EventSequence = 0, obs_Reason = []\<rparr>"

definition LifecycleObservation_Validate :: "observation \<Rightarrow> domain_error option" where
  "LifecycleObservation_Validate ob =
    (if obs_OperationID ob = [] \<and> obs_EventSequence ob = 0 \<and> obs_Reason ob = [] then None
     else first_err
      [reject (TrimSpace (obs_OperationID ob) = [] \<or> obs_EventSequence ob = 0
           \<or> TrimSpace (obs_Reason ob) = []) (invalid ''lifecycle_observation''),
       reject (contains_nul (obs_OperationID ob) \<or> contains_nul (obs_Reason ob))
         (invalid ''lifecycle_observation'')])"

lemma empty_observation_valid [simp]: "LifecycleObservation_Validate empty_observation = None"
  by (simp add: LifecycleObservation_Validate_def empty_observation_def)

subsection \<open>Process identities and streams\<close>

record process_identity =
  pi_Verified :: bool
  pi_Handle :: string
  pi_Evidence :: string

definition ProcessIdentity_Validate :: "process_identity \<Rightarrow> domain_error option" where
  "ProcessIdentity_Validate i =
    reject (\<not> pi_Verified i \<or> blank_or_nul (pi_Handle i) \<or> blank_or_nul (pi_Evidence i))
      (NewError CodeUnsafeIdentity ''process_identity'')"

record stream_references =
  sr_Stdin :: string
  sr_Stdout :: string
  sr_Stderr :: string

definition no_streams :: stream_references where
  "no_streams = \<lparr>sr_Stdin = [], sr_Stdout = [], sr_Stderr = []\<rparr>"

definition StreamReferences_Validate :: "stream_references \<Rightarrow> domain_error option" where
  "StreamReferences_Validate s =
    reject (contains_nul (sr_Stdin s) \<or> contains_nul (sr_Stdout s) \<or> contains_nul (sr_Stderr s))
      (invalid ''streams'')"

lemma no_streams_valid [simp]: "StreamReferences_Validate no_streams = None"
  by (simp add: StreamReferences_Validate_def no_streams_def contains_nul_def)

subsection \<open>Outcomes\<close>

datatype evidence_state = EvidenceUnknown | EvidenceFalse | EvidenceTrue | EvidenceOther string

fun EvidenceState_Valid :: "evidence_state \<Rightarrow> bool" where
  "EvidenceState_Valid (EvidenceOther _) = False"
| "EvidenceState_Valid _ = True"

datatype outcome_presence =
    OutcomePending
  | OutcomeNotApplicable
  | OutcomeCaptured
  | OutcomeUnknown
  | OutcomePresenceOther string

record outcome =
  oc_Presence :: outcome_presence
  oc_ExitCode :: "int option"
  oc_Signal :: string
  oc_OOM :: evidence_state
  oc_StartedAt :: "gotime option"
  oc_FinishedAt :: "gotime option"
  oc_RunningDuration :: "duration option"

definition bare_outcome :: "outcome_presence \<Rightarrow> evidence_state \<Rightarrow> outcome" where
  "bare_outcome p oom =
    \<lparr>oc_Presence = p, oc_ExitCode = None, oc_Signal = [], oc_OOM = oom, oc_StartedAt = None,
     oc_FinishedAt = None, oc_RunningDuration = None\<rparr>"

definition PendingOutcome :: outcome where
  "PendingOutcome = bare_outcome OutcomePending EvidenceUnknown"

definition NotApplicableOutcome :: outcome where
  "NotApplicableOutcome = bare_outcome OutcomeNotApplicable EvidenceUnknown"

definition UnknownOutcome :: "evidence_state \<Rightarrow> outcome" where
  "UnknownOutcome oom = bare_outcome OutcomeUnknown oom"

definition ExitOutcome ::
    "int \<Rightarrow> evidence_state \<Rightarrow> gotime \<Rightarrow> gotime \<Rightarrow> duration \<Rightarrow> outcome" where
  "ExitOutcome code oom startedAt finishedAt d =
    (bare_outcome OutcomeCaptured oom)\<lparr>oc_ExitCode := Some code, oc_StartedAt := Some startedAt,
      oc_FinishedAt := Some finishedAt, oc_RunningDuration := Some d\<rparr>"

definition SignalOutcome ::
    "string \<Rightarrow> evidence_state \<Rightarrow> gotime \<Rightarrow> gotime \<Rightarrow> duration \<Rightarrow> outcome" where
  "SignalOutcome signal oom startedAt finishedAt d =
    (bare_outcome OutcomeCaptured oom)\<lparr>oc_Signal := signal, oc_StartedAt := Some startedAt,
      oc_FinishedAt := Some finishedAt, oc_RunningDuration := Some d\<rparr>"

definition Outcome_Known :: "outcome \<Rightarrow> bool" where
  "Outcome_Known o' \<longleftrightarrow> oc_Presence o' = OutcomeCaptured"

definition Outcome_Validate :: "outcome \<Rightarrow> domain_error option" where
  "Outcome_Validate o' =
    first_err
     [reject (\<not> EvidenceState_Valid (oc_OOM o')) (invalid ''outcome.oom''),
      reject (case oc_RunningDuration o' of None \<Rightarrow> False | Some d \<Rightarrow> d < 0)
        (invalid ''outcome.running_duration''),
      (case oc_Presence o' of
         OutcomePending \<Rightarrow>
           reject (oc_ExitCode o' \<noteq> None \<or> oc_Signal o' \<noteq> [] \<or> oc_FinishedAt o' \<noteq> None
               \<or> oc_RunningDuration o' \<noteq> None \<or> oc_OOM o' \<noteq> EvidenceUnknown)
             (invalid ''outcome'')
       | OutcomeNotApplicable \<Rightarrow>
           reject (oc_ExitCode o' \<noteq> None \<or> oc_Signal o' \<noteq> [] \<or> oc_StartedAt o' \<noteq> None
               \<or> oc_FinishedAt o' \<noteq> None \<or> oc_RunningDuration o' \<noteq> None \<or> oc_OOM o' \<noteq> EvidenceUnknown)
             (invalid ''outcome'')
       | OutcomeCaptured \<Rightarrow>
           first_err
            [reject ((oc_ExitCode o' = None) = (oc_Signal o' = [])) (invalid ''outcome''),
             reject (case oc_ExitCode o' of None \<Rightarrow> False | Some c \<Rightarrow> c < 0) (invalid ''outcome.exit_code''),
             reject (oc_Signal o' \<noteq> [] \<and> blank_or_nul (oc_Signal o')) (invalid ''outcome.signal''),
             reject (oc_StartedAt o' = None \<or> oc_FinishedAt o' = None \<or> oc_RunningDuration o' = None)
               (invalid ''outcome'')]
       | OutcomeUnknown \<Rightarrow>
           reject (oc_ExitCode o' \<noteq> None \<or> oc_Signal o' \<noteq> [] \<or> oc_RunningDuration o' \<noteq> None)
             (invalid ''outcome'')
       | OutcomePresenceOther _ \<Rightarrow> Some (invalid ''outcome.presence''))]"

definition timePointersEqual :: "gotime option \<Rightarrow> gotime option \<Rightarrow> bool" where
  "timePointersEqual left right =
    (case (left, right) of
       (None, None) \<Rightarrow> True
     | (Some a, Some b) \<Rightarrow> time_Equal a b
     | _ \<Rightarrow> False)"

definition outcomesEqual :: "outcome \<Rightarrow> outcome \<Rightarrow> bool" where
  "outcomesEqual l r \<longleftrightarrow>
     oc_Presence l = oc_Presence r \<and> oc_Signal l = oc_Signal r \<and> oc_OOM l = oc_OOM r
     \<and> oc_ExitCode l = oc_ExitCode r
     \<and> timePointersEqual (oc_StartedAt l) (oc_StartedAt r)
     \<and> timePointersEqual (oc_FinishedAt l) (oc_FinishedAt r)
     \<and> oc_RunningDuration l = oc_RunningDuration r"

lemma outcomesEqual_refl [simp]: "outcomesEqual x x"
  by (simp add: outcomesEqual_def timePointersEqual_def split: option.split)

lemma PendingOutcome_valid [simp]:
  "Outcome_Validate PendingOutcome = None" "oc_Presence PendingOutcome = OutcomePending"
  by (simp_all add: Outcome_Validate_def PendingOutcome_def bare_outcome_def)

lemma NotApplicableOutcome_valid [simp]:
  "Outcome_Validate NotApplicableOutcome = None"
  "oc_Presence NotApplicableOutcome = OutcomeNotApplicable"
  by (simp_all add: Outcome_Validate_def NotApplicableOutcome_def bare_outcome_def)

lemma UnknownOutcome_valid [simp]:
  "Outcome_Validate (UnknownOutcome oom) = None \<longleftrightarrow> EvidenceState_Valid oom"
  "oc_Presence (UnknownOutcome oom) = OutcomeUnknown"
  by (simp_all add: Outcome_Validate_def UnknownOutcome_def bare_outcome_def)

subsection \<open>The contract of an aggregate's status commands\<close>

text \<open>
  A command either succeeds or reports an error. On a valid aggregate it leaves a valid one, an
  error leaves the aggregate as it was, and every change goes forward in an order that the
  aggregate fixes.
\<close>

locale aggregate =
  fixes apply_cmd :: "'a \<Rightarrow> 'c \<Rightarrow> 'a \<times> 'e option"
    and valid :: "'a \<Rightarrow> bool"
    and forward :: "'a \<Rightarrow> 'a \<Rightarrow> bool"
  assumes keeps: "valid a \<Longrightarrow> valid (fst (apply_cmd a c))"
    and atomic: "valid a \<Longrightarrow> snd (apply_cmd a c) = Some e \<Longrightarrow> fst (apply_cmd a c) = a"
    and goes_forward: "valid a \<Longrightarrow> forward a (fst (apply_cmd a c))"
    and forward_refl: "forward a a"
    and forward_trans: "forward a b \<Longrightarrow> forward b c' \<Longrightarrow> forward a c'"
begin

lemma run_keeps:
  assumes "valid a"
  shows "valid (foldl (\<lambda>a c. fst (apply_cmd a c)) a cs)
    \<and> forward a (foldl (\<lambda>a c. fst (apply_cmd a c)) a cs)"
  using assms
proof (induction cs arbitrary: a)
  case Nil
  then show ?case by (simp add: forward_refl)
next
  case (Cons c cs)
  let ?b = "fst (apply_cmd a c)"
  from Cons.prems have "valid ?b" "forward a ?b" by (rule keeps, rule goes_forward)
  with Cons.IH [of ?b] show ?case by (auto intro: forward_trans)
qed

text \<open>Commands that all fail leave no trace.\<close>

lemma failed_run:
  assumes "valid a" and "\<forall>c \<in> set cs. snd (apply_cmd a c) \<noteq> None"
  shows "foldl (\<lambda>a c. fst (apply_cmd a c)) a cs = a"
  using assms by (induction cs) (auto simp: atomic)

end

end
