(* ===== verification/Domain_Sandbox.thy ===== *)
theory Domain_Sandbox
  imports Domain_Status
begin

text \<open>
  The Sandbox aggregate of \<open>internal/domain/model.go\<close>: construction, validation and the status
  commands. A command with a pointer receiver is a function to the receiver it leaves and its
  error; receivers are never nil here.
\<close>

record sandbox_status =
  ss_Phase :: sandbox_phase
  ss_Generation :: generation
  ss_ObservedGeneration :: generation
  ss_Conditions :: "condition list"
  ss_CurrentContainerID :: "container_id option"
  ss_CurrentAttemptID :: "attempt_id option"
  ss_LastObservation :: observation

record sandbox =
  sb_SchemaVersion :: u32
  sb_ID :: sandbox_id
  sb_Spec :: sandbox_spec
  sb_Status :: sandbox_status

definition current_error :: "sandbox_status \<Rightarrow> domain_error option" where
  "current_error st =
    first_err
     [reject ((ss_CurrentContainerID st = None) \<noteq> (ss_CurrentAttemptID st = None)) (invalid ''sandbox.current''),
      (case ss_CurrentContainerID st of None \<Rightarrow> None | Some c \<Rightarrow> ContainerID_Validate c),
      (case ss_CurrentAttemptID st of None \<Rightarrow> None | Some a \<Rightarrow> AttemptID_Validate a)]"

definition Sandbox_Validate :: "sandbox \<Rightarrow> domain_error option" where
  "Sandbox_Validate s =
    (let st = sb_Status s in
     first_err
      [reject (sb_SchemaVersion s \<noteq> DomainSchemaVersion) (invalid ''schema_version''),
       SandboxID_Validate (sb_ID s),
       SandboxSpec_Validate (sb_Spec s),
       reject (\<not> SandboxPhase_Valid (ss_Phase st)) (invalid ''sandbox.phase''),
       reject (ss_Generation st \<noteq> InitialGeneration \<or> ss_Generation st < ss_ObservedGeneration st)
         (invalid ''sandbox.generation''),
       reject (ss_Phase st = SandboxReady \<and> ss_ObservedGeneration st \<noteq> ss_Generation st)
         (invalid ''sandbox.observed_generation''),
       current_error st,
       LifecycleObservation_Validate (ss_LastObservation st),
       validateConditions (ss_Conditions st)])"

definition NewSandbox :: "sandbox_id \<Rightarrow> sandbox_spec \<Rightarrow> domain_error + sandbox" where
  "NewSandbox i spec =
    (let s = \<lparr>sb_SchemaVersion = DomainSchemaVersion, sb_ID = i, sb_Spec = spec,
        sb_Status = \<lparr>ss_Phase = SandboxCreating, ss_Generation = InitialGeneration,
          ss_ObservedGeneration = 0, ss_Conditions = [], ss_CurrentContainerID = None,
          ss_CurrentAttemptID = None, ss_LastObservation = empty_observation\<rparr>\<rparr>
     in require (Sandbox_Validate s) (Inr s))"

text \<open>\<open>Transition\<close> restores the previous status when the changed Sandbox does not validate; the
  other setters leave their change in place and report the error of \<open>Validate\<close>.\<close>

definition Sandbox_Transition :: "sandbox \<Rightarrow> sandbox_phase \<Rightarrow> sandbox \<times> domain_error option" where
  "Sandbox_Transition s next =
    (case TransitionSandbox (ss_Phase (sb_Status s)) next of
       Inl e \<Rightarrow> (s, Some e)
     | Inr phase \<Rightarrow>
       let st = (sb_Status s)\<lparr>ss_Phase := phase\<rparr>;
           st' = (if next = SandboxReady then st\<lparr>ss_ObservedGeneration := ss_Generation st\<rparr> else st);
           s' = s\<lparr>sb_Status := st'\<rparr>
       in (case Sandbox_Validate s' of Some e \<Rightarrow> (s, Some e) | None \<Rightarrow> (s', None)))"

definition Sandbox_SetCurrentPair ::
    "sandbox \<Rightarrow> container_id \<Rightarrow> attempt_id \<Rightarrow> sandbox \<times> domain_error option" where
  "Sandbox_SetCurrentPair s cid aid =
    (case first_err [ContainerID_Validate cid, AttemptID_Validate aid] of
       Some e \<Rightarrow> (s, Some e)
     | None \<Rightarrow>
       let s' = s\<lparr>sb_Status := (sb_Status s)\<lparr>ss_CurrentContainerID := Some cid,
                    ss_CurrentAttemptID := Some aid\<rparr>\<rparr>
       in (s', Sandbox_Validate s'))"

definition Sandbox_ClearCurrentPair ::
    "sandbox \<Rightarrow> container_id \<Rightarrow> attempt_id \<Rightarrow> sandbox \<times> domain_error option" where
  "Sandbox_ClearCurrentPair s cid aid =
    (if ss_CurrentContainerID (sb_Status s) \<noteq> Some cid \<or> ss_CurrentAttemptID (sb_Status s) \<noteq> Some aid
     then (s, Some (NewError CodeFailedPrecondition ''sandbox.current''))
     else
       let s' = s\<lparr>sb_Status := (sb_Status s)\<lparr>ss_CurrentContainerID := None, ss_CurrentAttemptID := None\<rparr>\<rparr>
       in (s', Sandbox_Validate s'))"

definition Sandbox_SetLastObservation ::
    "sandbox \<Rightarrow> observation \<Rightarrow> sandbox \<times> domain_error option" where
  "Sandbox_SetLastObservation s ob =
    (case LifecycleObservation_Validate ob of
       Some e \<Rightarrow> (s, Some e)
     | None \<Rightarrow>
       if obs_EventSequence ob < obs_EventSequence (ss_LastObservation (sb_Status s))
       then (s, Some (NewError CodeInvalidTransition ''sandbox.last_observation''))
       else let s' = s\<lparr>sb_Status := (sb_Status s)\<lparr>ss_LastObservation := ob\<rparr>\<rparr>
            in (s', Sandbox_Validate s'))"

definition Sandbox_SetConditions ::
    "sandbox \<Rightarrow> condition list \<Rightarrow> sandbox \<times> domain_error option" where
  "Sandbox_SetConditions s conditions =
    (case validateConditions conditions of
       Some e \<Rightarrow> (s, Some e)
     | None \<Rightarrow>
       let candidate = s\<lparr>sb_Status := (sb_Status s)\<lparr>ss_Conditions := conditions\<rparr>\<rparr>
       in (case Sandbox_Validate candidate of Some e \<Rightarrow> (s, Some e) | None \<Rightarrow> (candidate, None)))"

definition Sandbox_UpsertCondition ::
    "sandbox \<Rightarrow> condition \<Rightarrow> sandbox \<times> domain_error option" where
  "Sandbox_UpsertCondition s c =
    (case Condition_Validate c of
       Some e \<Rightarrow> (s, Some e)
     | None \<Rightarrow> Sandbox_SetConditions s (upsertCondition (ss_Conditions (sb_Status s)) c))"

definition Sandbox_ClearCondition :: "sandbox \<Rightarrow> string \<Rightarrow> sandbox \<times> domain_error option" where
  "Sandbox_ClearCondition s t =
    (case withoutCondition (ss_Conditions (sb_Status s)) t of
       Inl e \<Rightarrow> (s, Some e)
     | Inr conditions \<Rightarrow> Sandbox_SetConditions s conditions)"

subsection \<open>Validity and the commands\<close>

lemma Sandbox_Validate_None:
  "Sandbox_Validate s = None \<longleftrightarrow>
     sb_SchemaVersion s = DomainSchemaVersion \<and> good_id (sb_ID s) \<and> SandboxSpec_Validate (sb_Spec s) = None
     \<and> SandboxPhase_Valid (ss_Phase (sb_Status s))
     \<and> ss_Generation (sb_Status s) = InitialGeneration
     \<and> ss_ObservedGeneration (sb_Status s) \<le> ss_Generation (sb_Status s)
     \<and> (ss_Phase (sb_Status s) = SandboxReady \<longrightarrow>
          ss_ObservedGeneration (sb_Status s) = ss_Generation (sb_Status s))
     \<and> current_error (sb_Status s) = None
     \<and> LifecycleObservation_Validate (ss_LastObservation (sb_Status s)) = None
     \<and> validateConditions (ss_Conditions (sb_Status s)) = None"
  by (auto simp: Sandbox_Validate_def Let_def)

lemma current_error_frame [simp]:
  "current_error (st\<lparr>ss_Phase := p\<rparr>) = current_error st"
  "current_error (st\<lparr>ss_ObservedGeneration := g\<rparr>) = current_error st"
  "current_error (st\<lparr>ss_Conditions := cs\<rparr>) = current_error st"
  "current_error (st\<lparr>ss_LastObservation := ob\<rparr>) = current_error st"
  by (simp_all add: current_error_def)

lemma NewSandbox_Inr:
  "NewSandbox i spec = Inr s \<Longrightarrow>
     Sandbox_Validate s = None \<and> sb_ID s = i \<and> sb_Spec s = spec
     \<and> ss_Phase (sb_Status s) = SandboxCreating \<and> ss_ObservedGeneration (sb_Status s) = 0"
  by (auto simp: NewSandbox_def Let_def)

datatype sandbox_cmd =
    SbTransition sandbox_phase
  | SbSetCurrent container_id attempt_id
  | SbClearCurrent container_id attempt_id
  | SbObserve observation
  | SbSetConditions "condition list"
  | SbUpsert condition
  | SbClear string

fun sandbox_apply :: "sandbox \<Rightarrow> sandbox_cmd \<Rightarrow> sandbox \<times> domain_error option" where
  "sandbox_apply s (SbTransition p) = Sandbox_Transition s p"
| "sandbox_apply s (SbSetCurrent c a) = Sandbox_SetCurrentPair s c a"
| "sandbox_apply s (SbClearCurrent c a) = Sandbox_ClearCurrentPair s c a"
| "sandbox_apply s (SbObserve ob) = Sandbox_SetLastObservation s ob"
| "sandbox_apply s (SbSetConditions cs) = Sandbox_SetConditions s cs"
| "sandbox_apply s (SbUpsert c) = Sandbox_UpsertCondition s c"
| "sandbox_apply s (SbClear t) = Sandbox_ClearCondition s t"

definition sandbox_run :: "sandbox \<Rightarrow> sandbox_cmd list \<Rightarrow> sandbox" where
  "sandbox_run s cs = foldl (\<lambda>s c. fst (sandbox_apply s c)) s cs"

text \<open>What no command may undo: the identity and specification, the observed generation and the
  position in the event stream.\<close>

definition sandbox_forward :: "sandbox \<Rightarrow> sandbox \<Rightarrow> bool" where
  "sandbox_forward s t \<longleftrightarrow>
     sb_ID t = sb_ID s \<and> sb_Spec t = sb_Spec s \<and> sb_SchemaVersion t = sb_SchemaVersion s
     \<and> ss_Generation (sb_Status t) = ss_Generation (sb_Status s)
     \<and> ss_ObservedGeneration (sb_Status s) \<le> ss_ObservedGeneration (sb_Status t)
     \<and> obs_EventSequence (ss_LastObservation (sb_Status s))
         \<le> obs_EventSequence (ss_LastObservation (sb_Status t))"

lemma sandbox_forward_refl [simp]: "sandbox_forward s s"
  by (simp add: sandbox_forward_def)

lemma sandbox_forward_trans: "sandbox_forward s t \<Longrightarrow> sandbox_forward t u \<Longrightarrow> sandbox_forward s u"
  by (auto simp: sandbox_forward_def)

text \<open>Each command on a valid Sandbox: \<open>good_step\<close> is the shape of its result.\<close>

definition good_step :: "sandbox \<Rightarrow> sandbox \<times> domain_error option \<Rightarrow> bool" where
  "good_step s r \<longleftrightarrow>
     Sandbox_Validate (fst r) = None \<and> sandbox_forward s (fst r) \<and> (snd r \<noteq> None \<longrightarrow> fst r = s)"

lemma good_step_fail [simp]: "good_step s (s, e) \<longleftrightarrow> Sandbox_Validate s = None"
  by (simp add: good_step_def)

lemma good_step_ok [simp]:
  "good_step s (t, None) \<longleftrightarrow> Sandbox_Validate t = None \<and> sandbox_forward s t"
  by (simp add: good_step_def)

lemma good_step_validated:
  "Sandbox_Validate t = None \<Longrightarrow> sandbox_forward s t \<Longrightarrow> good_step s (t, Sandbox_Validate t)"
  by (simp add: good_step_def)

lemma Transition_good: "Sandbox_Validate s = None \<Longrightarrow> good_step s (Sandbox_Transition s p)"
  by (auto simp: Sandbox_Transition_def Let_def sandbox_forward_def Sandbox_Validate_None
      split: sum.splits option.splits)

lemma SetCurrentPair_good: "Sandbox_Validate s = None \<Longrightarrow> good_step s (Sandbox_SetCurrentPair s c a)"
  by (auto simp: Sandbox_SetCurrentPair_def Let_def sandbox_forward_def Sandbox_Validate_None current_error_def
      split: option.split intro!: good_step_validated)

lemma ClearCurrentPair_good: "Sandbox_Validate s = None \<Longrightarrow> good_step s (Sandbox_ClearCurrentPair s c a)"
  by (auto simp: Sandbox_ClearCurrentPair_def Let_def sandbox_forward_def Sandbox_Validate_None current_error_def
      split: option.split intro!: good_step_validated)

lemma SetLastObservation_good:
  "Sandbox_Validate s = None \<Longrightarrow> good_step s (Sandbox_SetLastObservation s ob)"
  by (auto simp: Sandbox_SetLastObservation_def Let_def sandbox_forward_def Sandbox_Validate_None
      split: option.split intro!: good_step_validated)

lemma SetConditions_good: "Sandbox_Validate s = None \<Longrightarrow> good_step s (Sandbox_SetConditions s cs)"
  by (auto simp: Sandbox_SetConditions_def Let_def sandbox_forward_def
      Sandbox_Validate_None split: option.splits)

lemma sandbox_apply_good: "Sandbox_Validate s = None \<Longrightarrow> good_step s (sandbox_apply s c)"
  by (cases c)
    (auto simp: Transition_good SetCurrentPair_good ClearCurrentPair_good SetLastObservation_good
      SetConditions_good Sandbox_UpsertCondition_def Sandbox_ClearCondition_def
      split: option.split sum.split)

interpretation sandbox_aggregate:
  aggregate sandbox_apply "\<lambda>s. Sandbox_Validate s = None" sandbox_forward
proof unfold_locales
  fix s c and e :: domain_error
  assume "Sandbox_Validate s = None"
  then have "good_step s (sandbox_apply s c)" by (rule sandbox_apply_good)
  then show "Sandbox_Validate (fst (sandbox_apply s c)) = None"
    and "sandbox_forward s (fst (sandbox_apply s c))"
    and "snd (sandbox_apply s c) = Some e \<Longrightarrow> fst (sandbox_apply s c) = s"
    by (auto simp: good_step_def)
qed (auto intro: sandbox_forward_trans)

subsection \<open>Properties\<close>

text \<open>A Sandbox stays valid through any sequence of status commands, failing ones included;
  its identity, specification and generation never change, and neither its observed generation
  nor its event position ever regresses.\<close>

theorem sandbox_commands_keep_validity:
  assumes "NewSandbox i spec = Inr s"
  shows "Sandbox_Validate (sandbox_run s cs) = None \<and> sandbox_forward s (sandbox_run s cs)
    \<and> sb_ID (sandbox_run s cs) = i"
proof -
  from NewSandbox_Inr [OF assms] have "Sandbox_Validate s = None" and "sb_ID s = i" by auto
  with sandbox_aggregate.run_keeps [of s cs] show ?thesis
    by (auto simp: sandbox_forward_def sandbox_run_def)
qed

definition demo_spec :: sandbox_spec where
  "demo_spec =
    \<lparr>ss_Hostname = ''web-1'', ss_DNS = [''10.0.0.53''], ss_Labels = [(''app'', ''web'')],
     ss_Network = \<lparr>Mode = ''none'', Attachments = []\<rparr>,
     ss_Resources = \<lparr>Requests = \<lparr>CPURequestMilli = Some 100, MemoryRequestBytes = None\<rparr>,
       Limits = \<lparr>CPULimitMilli = Some 500, MemoryLimitBytes = Some 67108864, PidsLimit = None\<rparr>\<rparr>\<rparr>"

definition demo_sandbox :: sandbox where
  "demo_sandbox = \<lparr>sb_SchemaVersion = 1, sb_ID = ''sandbox-1'', sb_Spec = demo_spec,
    sb_Status = \<lparr>ss_Phase = SandboxCreating, ss_Generation = 1, ss_ObservedGeneration = 0,
      ss_Conditions = [], ss_CurrentContainerID = None, ss_CurrentAttemptID = None,
      ss_LastObservation = empty_observation\<rparr>\<rparr>"

lemma demo_spec_valid [simp]: "SandboxSpec_Validate demo_spec = None"
  by (simp add: SandboxSpec_Validate_def demo_spec_def validateSandboxHostname_def
      maxSandboxHostnameBytes_def validateSandboxDNS_def maxSandboxDNSServers_def ParseIP_def
      parse_ipv4_def ipv4_octet_def is_digit_def decimal_value_def label_error_def blank_or_nul_def
      NetworkIntent_Validate_def Resources_Validate_def not_positive_def MinimumCPULimitMilli_def
      exceeds_def plain_TrimSpace plain_no_nul plain_ValidString plain_char_def in_range_def)

lemma demo_id_good [simp]: "good_id ''sandbox-1''"
  by (rule plain_good_id) (simp_all add: plain_char_def in_range_def)

lemma demo_NewSandbox: "NewSandbox ''sandbox-1'' demo_spec = Inr demo_sandbox"
  by (simp add: NewSandbox_def Let_def demo_sandbox_def Sandbox_Validate_None current_error_def
      DomainSchemaVersion_def InitialGeneration_def)

theorem sandbox_commands_keep_validity_witness:
  "Sandbox_Validate (sandbox_run demo_sandbox
      [SbTransition SandboxReady, SbTransition SandboxCreating, SbClear []]) = None
   \<and> sandbox_forward demo_sandbox (sandbox_run demo_sandbox
      [SbTransition SandboxReady, SbTransition SandboxCreating, SbClear []])
   \<and> sb_ID (sandbox_run demo_sandbox
      [SbTransition SandboxReady, SbTransition SandboxCreating, SbClear []]) = ''sandbox-1''"
  by (rule sandbox_commands_keep_validity [OF demo_NewSandbox])

text \<open>A status command that reports an error has changed nothing, although most setters write
  the receiver before they validate it.\<close>

theorem sandbox_error_is_atomic:
  assumes "Sandbox_Validate s = None" and "snd (sandbox_apply s c) = Some e"
  shows "fst (sandbox_apply s c) = s"
  using assms by (rule sandbox_aggregate.atomic)

theorem sandbox_error_is_atomic_witness:
  "fst (sandbox_apply demo_sandbox (SbTransition SandboxStopped)) = demo_sandbox"
proof (rule sandbox_error_is_atomic)
  show "Sandbox_Validate demo_sandbox = None"
    using NewSandbox_Inr [OF demo_NewSandbox] by simp
  show "snd (sandbox_apply demo_sandbox (SbTransition SandboxStopped))
      = Some (NewError CodeInvalidTransition ''phase'')"
    by (simp add: Sandbox_Transition_def TransitionSandbox_def demo_sandbox_def)
qed

end
