(* ===== verification/Domain_Attempt.thy ===== *)
theory Domain_Attempt
  imports Domain_Sandbox
begin

text \<open>
  The Container/Attempt pair of \<open>internal/domain/model.go\<close>: the Attempt is the authority, the
  Container status its projection. Construction from a ready Sandbox, validation, the transition
  with its outcome rules, the setters, and the check that a Sandbox has one active Attempt.
\<close>

record container_status =
  ct_Phase :: attempt_phase
  ct_Generation :: generation
  ct_ObservedGeneration :: generation
  ct_Conditions :: "condition list"
  ct_ProcessIdentity :: "process_identity option"
  ct_Streams :: stream_references
  ct_Outcome :: outcome
  ct_LastObservation :: observation

record container =
  co_SchemaVersion :: u32
  co_ID :: container_id
  co_SandboxID :: sandbox_id
  co_AttemptID :: attempt_id
  co_Spec :: container_spec
  co_Status :: container_status

record attempt =
  at_SchemaVersion :: u32
  at_ID :: attempt_id
  at_SandboxID :: sandbox_id
  at_ContainerID :: container_id
  at_Phase :: attempt_phase
  at_Conditions :: "condition list"
  at_ProcessIdentity :: "process_identity option"
  at_Streams :: stream_references
  at_Outcome :: outcome
  at_LastObservation :: observation

record container_attempt =
  ca_Container :: container
  ca_Attempt :: attempt

subsection \<open>Projection and validation\<close>

definition projectAttempt :: "container_attempt \<Rightarrow> container_attempt" where
  "projectAttempt p =
    (let a = ca_Attempt p; st = co_Status (ca_Container p) in
     p\<lparr>ca_Container := (ca_Container p)\<lparr>co_Status :=
       \<lparr>ct_Phase = at_Phase a, ct_Generation = ct_Generation st,
        ct_ObservedGeneration = ct_ObservedGeneration st, ct_Conditions = at_Conditions a,
        ct_ProcessIdentity = at_ProcessIdentity a, ct_Streams = at_Streams a,
        ct_Outcome = at_Outcome a, ct_LastObservation = at_LastObservation a\<rparr>\<rparr>\<rparr>)"

definition projectedStatusEqual :: "container_status \<Rightarrow> attempt \<Rightarrow> bool" where
  "projectedStatusEqual st a \<longleftrightarrow>
     ct_Phase st = at_Phase a \<and> ct_Streams st = at_Streams a
     \<and> ct_LastObservation st = at_LastObservation a
     \<and> ct_Conditions st = at_Conditions a
     \<and> ct_ProcessIdentity st = at_ProcessIdentity a
     \<and> outcomesEqual (ct_Outcome st) (at_Outcome a)"

definition pair_identity_error :: "container_attempt \<Rightarrow> domain_error option" where
  "pair_identity_error p =
    (let c = ca_Container p; a = ca_Attempt p in
     first_err
      [reject (co_SchemaVersion c \<noteq> DomainSchemaVersion \<or> at_SchemaVersion a \<noteq> DomainSchemaVersion)
         (invalid ''container_attempt.schema_version''),
       ContainerID_Validate (co_ID c),
       AttemptID_Validate (at_ID a),
       SandboxID_Validate (co_SandboxID c),
       reject (co_AttemptID c \<noteq> at_ID a \<or> at_ContainerID a \<noteq> co_ID c \<or> at_SandboxID a \<noteq> co_SandboxID c)
         (invalid ''container_attempt.identity''),
       ContainerSpec_Validate (co_Spec c)])"

definition pair_phase_error :: "container_attempt \<Rightarrow> domain_error option" where
  "pair_phase_error p =
    (let st = co_Status (ca_Container p); a = ca_Attempt p in
     first_err
      [reject (\<not> AttemptPhase_Valid (at_Phase a) \<or> ct_Phase st \<noteq> at_Phase a)
         (invalid ''container_attempt.phase''),
       reject (ct_Generation st \<noteq> InitialGeneration \<or> ct_Generation st < ct_ObservedGeneration st)
         (invalid ''container.generation''),
       reject (at_Phase a = AttemptCreating \<and> ct_ObservedGeneration st \<noteq> 0)
         (invalid ''container.observed_generation''),
       reject ((at_Phase a = AttemptCreated \<or> at_Phase a = AttemptRunning)
           \<and> ct_ObservedGeneration st \<noteq> ct_Generation st)
         (invalid ''container.observed_generation'')])"

definition pair_facts_error :: "container_attempt \<Rightarrow> domain_error option" where
  "pair_facts_error p =
    (let a = ca_Attempt p in
     first_err
      [Outcome_Validate (at_Outcome a),
       StreamReferences_Validate (at_Streams a),
       LifecycleObservation_Validate (at_LastObservation a),
       validateConditions (at_Conditions a),
       reject (IsActiveAttempt (at_Phase a) \<and> oc_Presence (at_Outcome a) \<noteq> OutcomePending)
         (invalid ''attempt.outcome''),
       reject (at_Phase a = AttemptStopped \<and> oc_Presence (at_Outcome a) = OutcomePending)
         (invalid ''attempt.outcome''),
       reject (at_Phase a = AttemptRunning
           \<and> (case at_ProcessIdentity a of None \<Rightarrow> True | Some i \<Rightarrow> ProcessIdentity_Validate i \<noteq> None))
         (NewError CodeUnsafeIdentity ''attempt.process_identity''),
       reject (oc_Presence (at_Outcome a) = OutcomeUnknown
           \<and> \<not> hasCondition (at_Conditions a) ConditionOutcomeUnknown)
         (NewError CodeOutcomeUnknown ''attempt.conditions''),
       reject (\<not> projectedStatusEqual (co_Status (ca_Container p)) a) (invalid ''container.status'')])"

definition ContainerAttempt_Validate :: "container_attempt \<Rightarrow> domain_error option" where
  "ContainerAttempt_Validate p =
    first_err [pair_identity_error p, pair_phase_error p, pair_facts_error p]"

subsection \<open>Construction\<close>

definition new_container_status :: container_status where
  "new_container_status =
    \<lparr>ct_Phase = AttemptCreating, ct_Generation = InitialGeneration, ct_ObservedGeneration = 0,
     ct_Conditions = [], ct_ProcessIdentity = None, ct_Streams = no_streams,
     ct_Outcome = PendingOutcome, ct_LastObservation = empty_observation\<rparr>"

definition NewContainerAttempt ::
    "sandbox \<Rightarrow> container_id \<Rightarrow> attempt_id \<Rightarrow> process_spec \<Rightarrow> string \<Rightarrow> string
     \<Rightarrow> domain_error + container_attempt" where
  "NewContainerAttempt sandbox cid aid process imageDigest rootFS =
    require (Sandbox_Validate sandbox)
     (require (reject (ss_Phase (sb_Status sandbox) \<noteq> SandboxReady
           \<or> ss_ObservedGeneration (sb_Status sandbox) \<noteq> ss_Generation (sb_Status sandbox))
         (NewError CodeFailedPrecondition ''sandbox.phase''))
     (require (ContainerID_Validate cid)
     (require (AttemptID_Validate aid)
     (bind_res (ResolveResourceLimits (ss_Resources (sb_Spec sandbox))) (\<lambda>limits.
       let pair =
         \<lparr>ca_Container =
            \<lparr>co_SchemaVersion = DomainSchemaVersion, co_ID = cid, co_SandboxID = sb_ID sandbox,
             co_AttemptID = aid,
             co_Spec = \<lparr>cs_Process = process, cs_ImageDigest = imageDigest, cs_RootFS = rootFS,
               cs_Limits = limits\<rparr>,
             co_Status = new_container_status\<rparr>,
          ca_Attempt =
            \<lparr>at_SchemaVersion = DomainSchemaVersion, at_ID = aid, at_SandboxID = sb_ID sandbox,
             at_ContainerID = cid, at_Phase = AttemptCreating, at_Conditions = [],
             at_ProcessIdentity = None, at_Streams = no_streams, at_Outcome = PendingOutcome,
             at_LastObservation = empty_observation\<rparr>\<rparr>
       in require (ContainerAttempt_Validate pair) (Inr pair))))))"

subsection \<open>Transitions\<close>

definition validateTransitionOutcome ::
    "attempt_phase \<Rightarrow> attempt_phase \<Rightarrow> outcome \<Rightarrow> domain_error option" where
  "validateTransitionOutcome from to oc =
    (case Outcome_Validate oc of
       Some e \<Rightarrow> Some e
     | None \<Rightarrow>
       if to \<noteq> AttemptStopped \<and> to \<noteq> AttemptAbsent
       then reject (oc_Presence oc \<noteq> OutcomePending) (invalid ''attempt.outcome'')
       else if from = AttemptCreating \<or> from = AttemptCreated
       then reject (oc_Presence oc \<noteq> OutcomeNotApplicable \<and> oc_Presence oc \<noteq> OutcomeUnknown)
         (invalid ''attempt.outcome'')
       else if from = AttemptRunning
       then reject (oc_Presence oc \<noteq> OutcomeCaptured \<and> oc_Presence oc \<noteq> OutcomeUnknown)
         (invalid ''attempt.outcome'')
       else if from = AttemptStopped
       then reject (oc_Presence oc = OutcomePending) (invalid ''attempt.outcome'')
       else None)"

definition Pair_Transition ::
    "container_attempt \<Rightarrow> attempt_phase \<Rightarrow> outcome \<Rightarrow> container_attempt \<times> domain_error option" where
  "Pair_Transition p next oc =
    (case TransitionAttempt (at_Phase (ca_Attempt p)) next of
       Inl e \<Rightarrow> (p, Some e)
     | Inr phase \<Rightarrow>
       (case validateTransitionOutcome (at_Phase (ca_Attempt p)) next oc of
          Some e \<Rightarrow> (p, Some e)
        | None \<Rightarrow>
          let p1 = p\<lparr>ca_Attempt := (ca_Attempt p)\<lparr>at_Phase := phase, at_Outcome := oc\<rparr>\<rparr>;
              st = co_Status (ca_Container p1);
              p2 = (if next = AttemptCreated
                    then p1\<lparr>ca_Container := (ca_Container p1)\<lparr>co_Status :=
                        st\<lparr>ct_ObservedGeneration := ct_Generation st\<rparr>\<rparr>\<rparr>
                    else p1);
              p3 = projectAttempt p2
          in (case ContainerAttempt_Validate p3 of Some e \<Rightarrow> (p, Some e) | None \<Rightarrow> (p3, None))))"

subsection \<open>Setters\<close>

definition Pair_SetProcessIdentity ::
    "container_attempt \<Rightarrow> process_identity \<Rightarrow> container_attempt \<times> domain_error option" where
  "Pair_SetProcessIdentity p identity =
    (case ProcessIdentity_Validate identity of
       Some e \<Rightarrow> (p, Some e)
     | None \<Rightarrow>
       (case at_ProcessIdentity (ca_Attempt p) of
          Some current \<Rightarrow>
            (p, reject (current \<noteq> identity) (NewError CodeFailedPrecondition ''attempt.process_identity''))
        | None \<Rightarrow>
          if at_Phase (ca_Attempt p) = AttemptStopped \<or> at_Phase (ca_Attempt p) = AttemptAbsent
          then (p, Some (NewError CodeFailedPrecondition ''attempt.phase''))
          else let p' = projectAttempt
                 (p\<lparr>ca_Attempt := (ca_Attempt p)\<lparr>at_ProcessIdentity := Some identity\<rparr>\<rparr>)
               in (p', ContainerAttempt_Validate p')))"

definition Pair_SetStreams ::
    "container_attempt \<Rightarrow> stream_references \<Rightarrow> container_attempt \<times> domain_error option" where
  "Pair_SetStreams p streams =
    (case StreamReferences_Validate streams of
       Some e \<Rightarrow> (p, Some e)
     | None \<Rightarrow>
       let p' = projectAttempt (p\<lparr>ca_Attempt := (ca_Attempt p)\<lparr>at_Streams := streams\<rparr>\<rparr>)
       in (p', ContainerAttempt_Validate p'))"

definition Pair_SetConditions ::
    "container_attempt \<Rightarrow> condition list \<Rightarrow> container_attempt \<times> domain_error option" where
  "Pair_SetConditions p conditions =
    (case validateConditions conditions of
       Some e \<Rightarrow> (p, Some e)
     | None \<Rightarrow>
       let candidate = projectAttempt (p\<lparr>ca_Attempt := (ca_Attempt p)\<lparr>at_Conditions := conditions\<rparr>\<rparr>)
       in (case ContainerAttempt_Validate candidate of Some e \<Rightarrow> (p, Some e) | None \<Rightarrow> (candidate, None)))"

definition Pair_UpsertCondition ::
    "container_attempt \<Rightarrow> condition \<Rightarrow> container_attempt \<times> domain_error option" where
  "Pair_UpsertCondition p c =
    (case Condition_Validate c of
       Some e \<Rightarrow> (p, Some e)
     | None \<Rightarrow> Pair_SetConditions p (upsertCondition (at_Conditions (ca_Attempt p)) c))"

definition Pair_ClearCondition ::
    "container_attempt \<Rightarrow> string \<Rightarrow> container_attempt \<times> domain_error option" where
  "Pair_ClearCondition p t =
    (case withoutCondition (at_Conditions (ca_Attempt p)) t of
       Inl e \<Rightarrow> (p, Some e)
     | Inr conditions \<Rightarrow> Pair_SetConditions p conditions)"

definition Pair_SetLastObservation ::
    "container_attempt \<Rightarrow> observation \<Rightarrow> container_attempt \<times> domain_error option" where
  "Pair_SetLastObservation p ob =
    (case LifecycleObservation_Validate ob of
       Some e \<Rightarrow> (p, Some e)
     | None \<Rightarrow>
       if obs_EventSequence ob < obs_EventSequence (at_LastObservation (ca_Attempt p))
       then (p, Some (NewError CodeInvalidTransition ''attempt.last_observation''))
       else let p' = projectAttempt (p\<lparr>ca_Attempt := (ca_Attempt p)\<lparr>at_LastObservation := ob\<rparr>\<rparr>)
            in (p', ContainerAttempt_Validate p'))"

subsection \<open>One active Attempt per Sandbox\<close>

text \<open>The loop of \<open>ValidateOneActiveAttempt\<close> with its three maps: the Container and Attempt
  identities seen so far, and the Sandboxes that already have an active pair.\<close>

fun one_active_from ::
    "nat \<Rightarrow> container_id list \<Rightarrow> attempt_id list \<Rightarrow> sandbox_id list \<Rightarrow> container_attempt list
     \<Rightarrow> domain_error option" where
  "one_active_from i containers attempts active [] = None"
| "one_active_from i containers attempts active (p # ps) =
    (let c = ca_Container p; a = ca_Attempt p in
     case ContainerAttempt_Validate p of
       Some e \<Rightarrow> Some (WrapError CodeInvalidArgument (index_field ''pairs'' i) e)
     | None \<Rightarrow>
       if co_ID c \<in> set containers then Some (NewError CodeAlreadyExists ''container_id'')
       else if at_ID a \<in> set attempts then Some (NewError CodeAlreadyExists ''attempt_id'')
       else if \<not> IsActiveAttempt (at_Phase a)
       then one_active_from (Suc i) (co_ID c # containers) (at_ID a # attempts) active ps
       else if co_SandboxID c \<in> set active
       then Some (NewError CodeFailedPrecondition ''sandbox.active_attempt'')
       else one_active_from (Suc i) (co_ID c # containers) (at_ID a # attempts)
              (co_SandboxID c # active) ps)"

definition ValidateOneActiveAttempt :: "container_attempt list \<Rightarrow> domain_error option" where
  "ValidateOneActiveAttempt pairs = one_active_from 0 [] [] [] pairs"

subsection \<open>Validity and the commands\<close>

abbreviation pair_valid :: "container_attempt \<Rightarrow> bool" where
  "pair_valid p \<equiv> ContainerAttempt_Validate p = None"

lemma pair_valid_iff:
  "pair_valid p \<longleftrightarrow>
     pair_identity_error p = None \<and> pair_phase_error p = None \<and> pair_facts_error p = None"
  by (simp add: ContainerAttempt_Validate_def)

lemma projectAttempt_simps [simp]:
  "ca_Attempt (projectAttempt p) = ca_Attempt p"
  "co_ID (ca_Container (projectAttempt p)) = co_ID (ca_Container p)"
  "co_SandboxID (ca_Container (projectAttempt p)) = co_SandboxID (ca_Container p)"
  "co_AttemptID (ca_Container (projectAttempt p)) = co_AttemptID (ca_Container p)"
  "co_Spec (ca_Container (projectAttempt p)) = co_Spec (ca_Container p)"
  "co_SchemaVersion (ca_Container (projectAttempt p)) = co_SchemaVersion (ca_Container p)"
  "ct_Generation (co_Status (ca_Container (projectAttempt p))) =
     ct_Generation (co_Status (ca_Container p))"
  "ct_ObservedGeneration (co_Status (ca_Container (projectAttempt p))) =
     ct_ObservedGeneration (co_Status (ca_Container p))"
  "ct_Phase (co_Status (ca_Container (projectAttempt p))) = at_Phase (ca_Attempt p)"
  "projectedStatusEqual (co_Status (ca_Container (projectAttempt p))) (ca_Attempt p)"
  by (simp_all add: projectAttempt_def Let_def projectedStatusEqual_def)

text \<open>What a setter may touch: the fields of the Attempt that are not part of its identity.\<close>

definition same_identity :: "container_attempt \<Rightarrow> container_attempt \<Rightarrow> bool" where
  "same_identity p q \<longleftrightarrow>
     co_SchemaVersion (ca_Container q) = co_SchemaVersion (ca_Container p)
     \<and> at_SchemaVersion (ca_Attempt q) = at_SchemaVersion (ca_Attempt p)
     \<and> co_ID (ca_Container q) = co_ID (ca_Container p)
     \<and> co_SandboxID (ca_Container q) = co_SandboxID (ca_Container p)
     \<and> co_AttemptID (ca_Container q) = co_AttemptID (ca_Container p)
     \<and> at_ID (ca_Attempt q) = at_ID (ca_Attempt p)
     \<and> at_SandboxID (ca_Attempt q) = at_SandboxID (ca_Attempt p)
     \<and> at_ContainerID (ca_Attempt q) = at_ContainerID (ca_Attempt p)
     \<and> co_Spec (ca_Container q) = co_Spec (ca_Container p)
     \<and> ct_Generation (co_Status (ca_Container q)) = ct_Generation (co_Status (ca_Container p))"

lemma same_identity_error: "same_identity p q \<Longrightarrow> pair_identity_error q = pair_identity_error p"
  by (simp add: same_identity_def pair_identity_error_def Let_def)

lemma same_identity_refl [simp]: "same_identity p p"
  by (simp add: same_identity_def)

lemma same_identity_trans: "same_identity p q \<Longrightarrow> same_identity q r \<Longrightarrow> same_identity p r"
  by (simp add: same_identity_def)

definition pair_forward :: "container_attempt \<Rightarrow> container_attempt \<Rightarrow> bool" where
  "pair_forward p q \<longleftrightarrow>
     same_identity p q
     \<and> ct_ObservedGeneration (co_Status (ca_Container p)) \<le> ct_ObservedGeneration (co_Status (ca_Container q))
     \<and> obs_EventSequence (at_LastObservation (ca_Attempt p))
         \<le> obs_EventSequence (at_LastObservation (ca_Attempt q))
     \<and> (at_ProcessIdentity (ca_Attempt p) \<noteq> None \<longrightarrow>
          at_ProcessIdentity (ca_Attempt q) = at_ProcessIdentity (ca_Attempt p))"

lemma pair_forward_refl [simp]: "pair_forward p p"
  by (simp add: pair_forward_def)

lemma pair_forward_trans: "pair_forward p q \<Longrightarrow> pair_forward q r \<Longrightarrow> pair_forward p r"
  unfolding pair_forward_def using same_identity_trans [of p q r] by (auto intro: order_trans)

datatype pair_cmd =
    PcTransition attempt_phase outcome
  | PcIdentity process_identity
  | PcStreams stream_references
  | PcConditions "condition list"
  | PcUpsert condition
  | PcClear string
  | PcObserve observation

fun pair_apply :: "container_attempt \<Rightarrow> pair_cmd \<Rightarrow> container_attempt \<times> domain_error option" where
  "pair_apply p (PcTransition ph oc) = Pair_Transition p ph oc"
| "pair_apply p (PcIdentity i) = Pair_SetProcessIdentity p i"
| "pair_apply p (PcStreams s) = Pair_SetStreams p s"
| "pair_apply p (PcConditions cs) = Pair_SetConditions p cs"
| "pair_apply p (PcUpsert c) = Pair_UpsertCondition p c"
| "pair_apply p (PcClear t) = Pair_ClearCondition p t"
| "pair_apply p (PcObserve ob) = Pair_SetLastObservation p ob"

definition pair_run :: "container_attempt \<Rightarrow> pair_cmd list \<Rightarrow> container_attempt" where
  "pair_run p cs = foldl (\<lambda>p c. fst (pair_apply p c)) p cs"

definition good_pair_step ::
    "container_attempt \<Rightarrow> container_attempt \<times> domain_error option \<Rightarrow> bool" where
  "good_pair_step p r \<longleftrightarrow> pair_valid (fst r) \<and> pair_forward p (fst r) \<and> (snd r \<noteq> None \<longrightarrow> fst r = p)"

lemma good_pair_fail [simp]: "good_pair_step p (p, e) \<longleftrightarrow> pair_valid p"
  by (simp add: good_pair_step_def)

lemma good_pair_ok [simp]: "good_pair_step p (q, None) \<longleftrightarrow> pair_valid q \<and> pair_forward p q"
  by (simp add: good_pair_step_def)

lemma good_pair_validated:
  "pair_valid q \<Longrightarrow> pair_forward p q \<Longrightarrow> good_pair_step p (q, ContainerAttempt_Validate q)"
  by (simp add: good_pair_step_def)

text \<open>Validity, read off the three groups of checks.\<close>

definition attempt_ok :: "attempt \<Rightarrow> bool" where
  "attempt_ok a \<longleftrightarrow>
     Outcome_Validate (at_Outcome a) = None \<and> StreamReferences_Validate (at_Streams a) = None
     \<and> LifecycleObservation_Validate (at_LastObservation a) = None
     \<and> validateConditions (at_Conditions a) = None
     \<and> (IsActiveAttempt (at_Phase a) \<longrightarrow> oc_Presence (at_Outcome a) = OutcomePending)
     \<and> (at_Phase a = AttemptStopped \<longrightarrow> oc_Presence (at_Outcome a) \<noteq> OutcomePending)
     \<and> (at_Phase a = AttemptRunning \<longrightarrow>
          (\<exists>i. at_ProcessIdentity a = Some i \<and> ProcessIdentity_Validate i = None))
     \<and> (oc_Presence (at_Outcome a) = OutcomeUnknown \<longrightarrow>
          hasCondition (at_Conditions a) ConditionOutcomeUnknown)"

lemma pair_facts_None:
  "pair_facts_error p = None \<longleftrightarrow>
     attempt_ok (ca_Attempt p) \<and> projectedStatusEqual (co_Status (ca_Container p)) (ca_Attempt p)"
  unfolding pair_facts_error_def attempt_ok_def Let_def
  by (cases "at_ProcessIdentity (ca_Attempt p)") auto

lemma pair_phase_None:
  "pair_phase_error p = None \<longleftrightarrow>
     (let st = co_Status (ca_Container p); ph = at_Phase (ca_Attempt p) in
       AttemptPhase_Valid ph \<and> ct_Phase st = ph \<and> ct_Generation st = InitialGeneration
       \<and> ct_ObservedGeneration st \<le> ct_Generation st
       \<and> (ph = AttemptCreating \<longrightarrow> ct_ObservedGeneration st = 0)
       \<and> (ph = AttemptCreated \<or> ph = AttemptRunning \<longrightarrow>
            ct_ObservedGeneration st = ct_Generation st))"
  unfolding pair_phase_error_def Let_def by auto

text \<open>A setter writes an Attempt that keeps its identity and phase and projects it.\<close>

definition sets_to :: "container_attempt \<Rightarrow> attempt \<Rightarrow> container_attempt" where
  "sets_to p a = projectAttempt (p\<lparr>ca_Attempt := a\<rparr>)"

definition attempt_key :: "attempt \<Rightarrow> u32 \<times> attempt_id \<times> sandbox_id \<times> container_id \<times> attempt_phase" where
  "attempt_key a = (at_SchemaVersion a, at_ID a, at_SandboxID a, at_ContainerID a, at_Phase a)"

lemma sets_to_same_identity:
  "attempt_key a = attempt_key (ca_Attempt p) \<Longrightarrow> same_identity p (sets_to p a)"
  by (simp add: sets_to_def same_identity_def attempt_key_def)

lemma sets_to_valid:
  assumes "pair_valid p" and "attempt_key a = attempt_key (ca_Attempt p)" and "attempt_ok a"
  shows "pair_valid (sets_to p a)"
proof -
  have "pair_identity_error (sets_to p a) = None"
    using assms by (simp add: same_identity_error [OF sets_to_same_identity] pair_valid_iff)
  moreover have "pair_phase_error (sets_to p a) = None"
    using assms(1,2) by (auto simp: pair_valid_iff pair_phase_None Let_def sets_to_def attempt_key_def)
  moreover have "pair_facts_error (sets_to p a) = None"
    using assms(3) projectAttempt_simps(10) [of "p\<lparr>ca_Attempt := a\<rparr>"]
    by (simp add: pair_facts_None sets_to_def)
  ultimately show ?thesis by (simp add: pair_valid_iff)
qed

lemma sets_to_forward:
  assumes "attempt_key a = attempt_key (ca_Attempt p)"
    and "obs_EventSequence (at_LastObservation (ca_Attempt p)) \<le> obs_EventSequence (at_LastObservation a)"
    and "at_ProcessIdentity (ca_Attempt p) \<noteq> None \<Longrightarrow>
      at_ProcessIdentity a = at_ProcessIdentity (ca_Attempt p)"
  shows "pair_forward p (sets_to p a)"
  using assms sets_to_same_identity [OF assms(1)] by (auto simp: pair_forward_def sets_to_def)

lemma pair_valid_attempt_ok: "pair_valid p \<Longrightarrow> attempt_ok (ca_Attempt p)"
  by (simp add: pair_valid_iff pair_facts_None)

lemma Pair_Transition_good:
  assumes "pair_valid p"
  shows "good_pair_step p (Pair_Transition p ph oc)"
proof -
  have "ct_ObservedGeneration (co_Status (ca_Container p)) \<le> ct_Generation (co_Status (ca_Container p))"
    using assms by (auto simp: pair_valid_iff pair_phase_None Let_def)
  with assms show ?thesis
    by (auto simp: Pair_Transition_def Let_def pair_forward_def same_identity_def
        split: sum.split option.split)
qed

lemma setter_good:
  assumes "pair_valid p" and "attempt_key a = attempt_key (ca_Attempt p)" and "attempt_ok a"
    and "obs_EventSequence (at_LastObservation (ca_Attempt p)) \<le> obs_EventSequence (at_LastObservation a)"
    and "at_ProcessIdentity (ca_Attempt p) \<noteq> None \<Longrightarrow>
      at_ProcessIdentity a = at_ProcessIdentity (ca_Attempt p)"
  shows "good_pair_step p (sets_to p a, ContainerAttempt_Validate (sets_to p a))"
  by (rule good_pair_validated [OF sets_to_valid [OF assms(1,2,3)] sets_to_forward [OF assms(2,4,5)]])

lemma Pair_SetProcessIdentity_good:
  assumes "pair_valid p"
  shows "good_pair_step p (Pair_SetProcessIdentity p i)"
proof -
  let ?a = "(ca_Attempt p)\<lparr>at_ProcessIdentity := Some i\<rparr>"
  have "good_pair_step p (sets_to p ?a, ContainerAttempt_Validate (sets_to p ?a))"
    if "ProcessIdentity_Validate i = None" and "at_ProcessIdentity (ca_Attempt p) = None"
    using assms that pair_valid_attempt_ok [OF assms]
    by (intro setter_good) (simp_all add: attempt_key_def attempt_ok_def)
  with assms show ?thesis
    by (simp add: Pair_SetProcessIdentity_def Let_def sets_to_def split: option.split)
qed

lemma Pair_SetStreams_good:
  assumes "pair_valid p"
  shows "good_pair_step p (Pair_SetStreams p s)"
proof -
  let ?a = "(ca_Attempt p)\<lparr>at_Streams := s\<rparr>"
  have "good_pair_step p (sets_to p ?a, ContainerAttempt_Validate (sets_to p ?a))"
    if "StreamReferences_Validate s = None"
    using assms that pair_valid_attempt_ok [OF assms]
    by (intro setter_good) (simp_all add: attempt_key_def attempt_ok_def)
  with assms show ?thesis
    by (simp add: Pair_SetStreams_def Let_def sets_to_def split: option.split)
qed

lemma Pair_SetLastObservation_good:
  assumes "pair_valid p"
  shows "good_pair_step p (Pair_SetLastObservation p ob)"
proof -
  let ?a = "(ca_Attempt p)\<lparr>at_LastObservation := ob\<rparr>"
  have "good_pair_step p (sets_to p ?a, ContainerAttempt_Validate (sets_to p ?a))"
    if "LifecycleObservation_Validate ob = None"
      and "obs_EventSequence (at_LastObservation (ca_Attempt p)) \<le> obs_EventSequence ob"
    using assms that pair_valid_attempt_ok [OF assms]
    by (intro setter_good) (simp_all add: attempt_key_def attempt_ok_def)
  with assms show ?thesis
    by (simp add: Pair_SetLastObservation_def Let_def sets_to_def not_less split: option.split)
qed

lemma Pair_SetConditions_good: "pair_valid p \<Longrightarrow> good_pair_step p (Pair_SetConditions p cs)"
  by (auto simp: Pair_SetConditions_def Let_def pair_forward_def same_identity_def split: option.split)

lemma pair_apply_good: "pair_valid p \<Longrightarrow> good_pair_step p (pair_apply p c)"
  by (cases c)
    (auto simp: Pair_Transition_good Pair_SetProcessIdentity_good Pair_SetStreams_good
      Pair_SetConditions_good Pair_SetLastObservation_good Pair_UpsertCondition_def
      Pair_ClearCondition_def split: option.split sum.split)

interpretation pair_aggregate: aggregate pair_apply pair_valid pair_forward
proof unfold_locales
  fix p c and e :: domain_error
  assume "pair_valid p"
  then have "good_pair_step p (pair_apply p c)" by (rule pair_apply_good)
  then show "pair_valid (fst (pair_apply p c))" and "pair_forward p (fst (pair_apply p c))"
    and "snd (pair_apply p c) = Some e \<Longrightarrow> fst (pair_apply p c) = p"
    by (auto simp: good_pair_step_def)
qed (auto intro: pair_forward_trans)

lemma NewContainerAttempt_Inr:
  "NewContainerAttempt s cid aid process img root = Inr p \<Longrightarrow>
     pair_valid p \<and> Sandbox_Validate s = None \<and> ss_Phase (sb_Status s) = SandboxReady
     \<and> at_Phase (ca_Attempt p) = AttemptCreating
     \<and> co_ID (ca_Container p) = cid \<and> at_ID (ca_Attempt p) = aid \<and> co_SandboxID (ca_Container p) = sb_ID s
     \<and> ResolveResourceLimits (ss_Resources (sb_Spec s)) = Inr (cs_Limits (co_Spec (ca_Container p)))"
  by (auto simp: NewContainerAttempt_def Let_def)

text \<open>The check for one active Attempt, as a statement about the whole list.\<close>

definition one_active :: "container_attempt list \<Rightarrow> bool" where
  "one_active ps \<longleftrightarrow>
     (\<forall>p \<in> set ps. pair_valid p) \<and> distinct (map (co_ID \<circ> ca_Container) ps)
     \<and> distinct (map (at_ID \<circ> ca_Attempt) ps)
     \<and> distinct (map (co_SandboxID \<circ> ca_Container)
          (filter (\<lambda>p. IsActiveAttempt (at_Phase (ca_Attempt p))) ps))"

lemma one_active_from_None:
  "one_active_from i cs as acts ps = None \<longleftrightarrow>
     one_active ps
     \<and> (co_ID \<circ> ca_Container) ` set ps \<inter> set cs = {}
     \<and> (at_ID \<circ> ca_Attempt) ` set ps \<inter> set as = {}
     \<and> (co_SandboxID \<circ> ca_Container) ` {p \<in> set ps. IsActiveAttempt (at_Phase (ca_Attempt p))}
          \<inter> set acts = {}"
proof (induction ps arbitrary: i cs as acts)
  case Nil
  then show ?case by (simp add: one_active_def)
next
  case (Cons p ps)
  show ?case
  proof (cases "pair_valid p \<and> co_ID (ca_Container p) \<notin> set cs \<and> at_ID (ca_Attempt p) \<notin> set as")
    case False
    then show ?thesis
      by (auto simp: Let_def one_active_def split: option.split)
  next
    case True
    then show ?thesis
      by (cases "IsActiveAttempt (at_Phase (ca_Attempt p))")
        (auto simp: Let_def Cons.IH one_active_def)
  qed
qed

lemma ValidateOneActiveAttempt_None: "ValidateOneActiveAttempt ps = None \<longleftrightarrow> one_active ps"
  by (simp add: ValidateOneActiveAttempt_def one_active_from_None)

lemma one_active_unique:
  assumes "one_active ps" and "p \<in> set ps" and "q \<in> set ps"
    and "IsActiveAttempt (at_Phase (ca_Attempt p))" and "IsActiveAttempt (at_Phase (ca_Attempt q))"
    and "co_SandboxID (ca_Container p) = co_SandboxID (ca_Container q)"
  shows "p = q"
proof -
  let ?act = "filter (\<lambda>p. IsActiveAttempt (at_Phase (ca_Attempt p))) ps"
  have "inj_on (co_SandboxID \<circ> ca_Container) (set ?act)"
    using assms(1) by (auto simp: one_active_def distinct_map)
  then show ?thesis using assms(2-) by (auto simp: inj_on_def)
qed

subsection \<open>Properties\<close>

text \<open>C24. A Container/Attempt pair stays valid through any sequence of commands; identity,
  specification and generation are fixed, a recorded process identity is never replaced, and the
  Container status always projects the Attempt.\<close>

theorem pair_commands_keep_validity:
  assumes "NewContainerAttempt s cid aid process img root = Inr p"
  shows "pair_valid (pair_run p cs) \<and> pair_forward p (pair_run p cs)
    \<and> projectedStatusEqual (co_Status (ca_Container (pair_run p cs))) (ca_Attempt (pair_run p cs))"
proof -
  from NewContainerAttempt_Inr [OF assms] have "pair_valid p" by auto
  from pair_aggregate.run_keeps [OF this, of cs]
  have "pair_valid (pair_run p cs)" and "pair_forward p (pair_run p cs)"
    by (simp_all add: pair_run_def)
  then show ?thesis by (simp add: pair_valid_iff pair_facts_None)
qed

definition ready_sandbox :: sandbox where
  "ready_sandbox = fst (Sandbox_Transition demo_sandbox SandboxReady)"

definition demo_pair :: container_attempt where
  "demo_pair =
    \<lparr>ca_Container =
       \<lparr>co_SchemaVersion = 1, co_ID = ''container-1'', co_SandboxID = ''sandbox-1'',
        co_AttemptID = ''attempt-1'',
        co_Spec = \<lparr>cs_Process = sleep_process, cs_ImageDigest = [], cs_RootFS = ''rootfs-1'',
          cs_Limits = \<lparr>rl_CPUUnlimited = False, rl_CPULimitMilli = Some 500,
            rl_MemoryUnlimited = False, rl_MemoryLimitBytes = Some 67108864, rl_PidsLimit = 1024\<rparr>\<rparr>,
        co_Status = new_container_status\<rparr>,
     ca_Attempt =
       \<lparr>at_SchemaVersion = 1, at_ID = ''attempt-1'', at_SandboxID = ''sandbox-1'',
        at_ContainerID = ''container-1'', at_Phase = AttemptCreating, at_Conditions = [],
        at_ProcessIdentity = None, at_Streams = no_streams, at_Outcome = PendingOutcome,
        at_LastObservation = empty_observation\<rparr>\<rparr>"

lemma ready_sandbox_facts:
  "Sandbox_Validate ready_sandbox = None" "ss_Phase (sb_Status ready_sandbox) = SandboxReady"
  "sb_ID ready_sandbox = ''sandbox-1''" "sb_Spec ready_sandbox = demo_spec"
  "ss_ObservedGeneration (sb_Status ready_sandbox) = ss_Generation (sb_Status ready_sandbox)"
proof -
  let ?s = "demo_sandbox\<lparr>sb_Status := (sb_Status demo_sandbox)\<lparr>ss_Phase := SandboxReady,
    ss_ObservedGeneration := 1\<rparr>\<rparr>"
  have valid: "Sandbox_Validate ?s = None"
    by (simp add: Sandbox_Validate_None demo_sandbox_def DomainSchemaVersion_def
        InitialGeneration_def current_error_def)
  have trans: "TransitionSandbox SandboxCreating SandboxReady = Inr SandboxReady"
    by simp
  have start: "ss_Phase (sb_Status demo_sandbox) = SandboxCreating"
      "ss_Generation (sb_Status demo_sandbox) = 1"
    by (simp_all add: demo_sandbox_def)
  from valid have eq: "ready_sandbox = ?s"
    by (simp only: ready_sandbox_def Sandbox_Transition_def start trans Let_def sum.case
        option.case simp_thms if_True prod.sel sandbox_status.select_convs)
       (simp add: start)
  show "Sandbox_Validate ready_sandbox = None"
    "ss_Phase (sb_Status ready_sandbox) = SandboxReady"
    "sb_ID ready_sandbox = ''sandbox-1''" "sb_Spec ready_sandbox = demo_spec"
    "ss_ObservedGeneration (sb_Status ready_sandbox) = ss_Generation (sb_Status ready_sandbox)"
    unfolding eq by (rule valid, simp_all add: demo_sandbox_def)
qed

lemma demo_ids_good [simp]: "good_id ''container-1''" "good_id ''attempt-1''"
  by (rule plain_good_id; simp add: plain_char_def in_range_def)+

lemma demo_pair_created:
  "NewContainerAttempt ready_sandbox ''container-1'' ''attempt-1'' sleep_process [] ''rootfs-1''
     = Inr demo_pair"
proof -
  have limits: "ResolveResourceLimits (ss_Resources demo_spec) = Inr (cs_Limits (co_Spec (ca_Container demo_pair)))"
    by (simp add: ResolveResourceLimits_def Resources_Validate_def demo_spec_def not_positive_def
        MinimumCPULimitMilli_def exceeds_def ResolvedResourceLimits_Validate_def demo_pair_def
        DefaultPidsLimit_def Let_def)
  have spec: "ContainerSpec_Validate (co_Spec (ca_Container demo_pair)) = None"
    by (simp add: ContainerSpec_Validate_def demo_pair_def ResolvedResourceLimits_Validate_def
        MinimumCPULimitMilli_def contains_nul_def)
  have "pair_valid demo_pair"
    using spec by (simp add: pair_valid_iff pair_facts_None pair_phase_None pair_identity_error_def
        attempt_ok_def projectedStatusEqual_def demo_pair_def new_container_status_def
        DomainSchemaVersion_def InitialGeneration_def Let_def)
  with limits show ?thesis
    by (simp add: NewContainerAttempt_def ready_sandbox_facts Let_def demo_pair_def
        DomainSchemaVersion_def)
qed

lemma demo_pair_valid [simp]: "pair_valid demo_pair"
  using NewContainerAttempt_Inr [OF demo_pair_created] by simp

theorem pair_commands_keep_validity_witness:
  "pair_valid (pair_run demo_pair [PcTransition AttemptStopped NotApplicableOutcome])
   \<and> pair_forward demo_pair (pair_run demo_pair [PcTransition AttemptStopped NotApplicableOutcome])
   \<and> projectedStatusEqual
       (co_Status (ca_Container (pair_run demo_pair [PcTransition AttemptStopped NotApplicableOutcome])))
       (ca_Attempt (pair_run demo_pair [PcTransition AttemptStopped NotApplicableOutcome]))"
  by (rule pair_commands_keep_validity [OF demo_pair_created])

text \<open>What a reachable Attempt says about its process: an active one has no result yet, a
  running one holds a verified process identity and reconciled input, a stopped one has an
  explicit terminal result, and an unknown result is always flagged by a condition.\<close>

theorem attempt_facts_by_phase:
  assumes "NewContainerAttempt s cid aid process img root = Inr p"
    and "pair_run p cs = q" and "ca_Attempt q = a"
  shows "(IsActiveAttempt (at_Phase a) \<longrightarrow> oc_Presence (at_Outcome a) = OutcomePending)
    \<and> (at_Phase a = AttemptRunning \<longrightarrow>
         (\<exists>i. at_ProcessIdentity a = Some i \<and> pi_Verified i)
         \<and> ct_ObservedGeneration (co_Status (ca_Container q)) = InitialGeneration)
    \<and> (at_Phase a = AttemptStopped \<longrightarrow> oc_Presence (at_Outcome a) \<noteq> OutcomePending)
    \<and> (oc_Presence (at_Outcome a) = OutcomeUnknown \<longrightarrow>
         hasCondition (at_Conditions a) ''OutcomeUnknown'')"
proof -
  from NewContainerAttempt_Inr [OF assms(1)] have "pair_valid p" by auto
  from pair_aggregate.run_keeps [OF this, of cs] have valid: "pair_valid q"
    by (simp add: pair_run_def assms(2) [symmetric])
  from valid have ok: "attempt_ok a"
    by (simp add: assms(3) [symmetric] pair_valid_attempt_ok)
  moreover have "at_Phase a = AttemptRunning \<longrightarrow>
      ct_ObservedGeneration (co_Status (ca_Container q)) = InitialGeneration"
    using valid by (auto simp: pair_valid_iff pair_phase_None Let_def assms(3) [symmetric])
  ultimately show ?thesis
    by (auto simp: attempt_ok_def ProcessIdentity_Validate_def ConditionOutcomeUnknown_def)
qed

theorem attempt_facts_by_phase_witness:
  "IsActiveAttempt (at_Phase (ca_Attempt (pair_run demo_pair [])))
   \<and> oc_Presence (at_Outcome (ca_Attempt (pair_run demo_pair []))) = OutcomePending"
proof -
  have "at_Phase (ca_Attempt (pair_run demo_pair [])) = AttemptCreating"
    by (simp add: pair_run_def demo_pair_def)
  with attempt_facts_by_phase [OF demo_pair_created refl refl, of "[]"] show ?thesis by simp
qed

text \<open>A command on a valid pair that reports an error has changed nothing.\<close>

theorem pair_error_is_atomic:
  assumes "pair_valid p" and "snd (pair_apply p c) = Some e"
  shows "fst (pair_apply p c) = p"
  using assms by (rule pair_aggregate.atomic)

theorem pair_error_is_atomic_witness:
  "fst (pair_apply demo_pair (PcTransition AttemptRunning PendingOutcome)) = demo_pair"
proof (rule pair_error_is_atomic [OF demo_pair_valid])
  show "snd (pair_apply demo_pair (PcTransition AttemptRunning PendingOutcome))
      = Some (NewError CodeInvalidTransition ''phase'')"
    by (simp add: Pair_Transition_def TransitionAttempt_def demo_pair_def)
qed

text \<open>The pairwise check accepts a list exactly if every pair is valid, no Container or
  Attempt identity occurs twice and no Sandbox has two active Attempts.\<close>

theorem one_active_attempt_correct:
  "ValidateOneActiveAttempt ps = None \<longleftrightarrow>
     list_all (\<lambda>p. ContainerAttempt_Validate p = None) ps
     \<and> distinct (map (\<lambda>p. co_ID (ca_Container p)) ps) \<and> distinct (map (\<lambda>p. at_ID (ca_Attempt p)) ps)
     \<and> distinct (map (\<lambda>p. co_SandboxID (ca_Container p))
          (filter (\<lambda>p. IsActiveAttempt (at_Phase (ca_Attempt p))) ps))"
  by (simp add: ValidateOneActiveAttempt_None one_active_def list_all_iff comp_def)

end
