(* ===== verification/Go_Json.thy ===== *)
theory Go_Json
  imports Go_Std
begin

text \<open>
  JSON as \<open>encoding/json\<close> reads and writes it, and \<open>internal/strictjson\<close> on top of it. A
  document is first cut into tokens, the strings decoded as \<open>Decoder.Token\<close> decodes them, and
  the tokens are then read by a push-down machine whose stack bound is the scanner's nesting
  limit. Numbers keep their spelling, as with \<open>UseNumber\<close>.
\<close>

subsection \<open>Values and tokens\<close>

datatype json =
    JNull
  | JBool bool
  | JNum string
  | JStr string
  | JArr "json list"
  | JObj "(string \<times> json) list"

datatype token =
    TOpenObj | TCloseObj | TOpenArr | TCloseArr | TComma | TColon
  | TScalar json
  | TBad

subsection \<open>Strings\<close>

definition char_is :: "char \<Rightarrow> nat \<Rightarrow> bool" where
  "char_is c n \<longleftrightarrow> of_char c = n"

definition hex_value :: "char \<Rightarrow> nat" where
  "hex_value c =
    (let n = of_char c :: nat in
     if n < 58 then n - 48 else if n < 71 then n - 55 else n - 87)"

text \<open>\<open>getu4\<close>: the code unit of a \<open>\u\<close> escape at the head of the text.\<close>

definition u4 :: "string \<Rightarrow> nat option" where
  "u4 s =
    (case s of
       b # u # h3 # h2 # h1 # h0 # _ \<Rightarrow>
         if char_is b 92 \<and> char_is u 117 \<and> list_all is_hex [h3, h2, h1, h0]
         then Some (((hex_value h3 * 16 + hex_value h2) * 16 + hex_value h1) * 16 + hex_value h0)
         else None
     | _ \<Rightarrow> None)"

definition EncodeRune :: "nat \<Rightarrow> string" where
  "EncodeRune r =
    map char_of
     (if r < 128 then [r]
      else if r < 2048 then [192 + r div 64, 128 + r mod 64]
      else if in_range 55296 57343 r \<or> 1114111 < r then [239, 191, 189]
      else if r < 65536 then [224 + r div 4096, 128 + (r div 64) mod 64, 128 + r mod 64]
      else [240 + r div 262144, 128 + (r div 4096) mod 64, 128 + (r div 64) mod 64, 128 + r mod 64])"

definition simple_escape :: "char \<Rightarrow> nat option" where
  "simple_escape e =
    map_of [(34, 34), (92, 92), (47, 47), (98, 8), (102, 12), (110, 10), (114, 13), (116, 9)]
      (of_char e :: nat)"

definition emit :: "string \<Rightarrow> (string \<times> string) option \<Rightarrow> (string \<times> string) option" where
  "emit s r = map_option (\<lambda>(t, rest). (s @ t, rest)) r"

text \<open>The text after an opening quote: the decoded string and what follows the closing quote.
  A surrogate pair is combined; a lone surrogate and an ill-formed byte become U+FFFD.\<close>

fun lex_string :: "string \<Rightarrow> (string \<times> string) option" where
  "lex_string [] = None"
| "lex_string (c # cs) =
    (if char_is c 34 then Some ([], cs)
     else if char_is c 92 then
       (case cs of
          [] \<Rightarrow> None
        | e # es \<Rightarrow>
          (case simple_escape e of
             Some d \<Rightarrow> emit [char_of d] (lex_string es)
           | None \<Rightarrow>
             (case u4 (c # cs) of
                None \<Rightarrow> None
              | Some r \<Rightarrow>
                if \<not> in_range 55296 57343 r then emit (EncodeRune r) (lex_string (drop 5 cs))
                else (case u4 (drop 5 cs) of
                   None \<Rightarrow> emit replacement_char (lex_string (drop 5 cs))
                 | Some q \<Rightarrow>
                   if r < 56320 \<and> in_range 56320 57343 q
                   then emit (EncodeRune ((r - 55296) * 1024 + (q - 56320) + 65536))
                          (lex_string (drop 11 cs))
                   else emit replacement_char (lex_string (drop 5 cs))))))
     else if of_char c < (32 :: nat) then None
     else
       (case rune_at (bytes_of (c # cs)) of
          None \<Rightarrow> emit replacement_char (lex_string cs)
        | Some (r, w) \<Rightarrow> emit (take w (c # cs)) (lex_string (drop (w - 1) cs))))"

declare lex_string.simps(2) [simp del]

lemma emit_Some [simp]: "emit s r = Some (t, rest) \<longleftrightarrow> (\<exists>u. r = Some (u, rest) \<and> t = s @ u)"
  by (auto simp: emit_def)

lemma lex_string_shorter: "lex_string s = Some (t, rest) \<Longrightarrow> length rest < length s"
proof (induction s arbitrary: t rest rule: length_induct)
  case (1 s)
  show ?case
  proof (cases s)
    case Nil
    with "1.prems" show ?thesis by simp
  next
    case (Cons c cs)
    have IH: "length rest < Suc (length cs)"
      if "lex_string (drop n cs) = Some (u, rest)" for n u rest
      using "1.IH" [rule_format, of "drop n cs"] that Cons by fastforce
    from IH [of 0] have IH0: "length rest < Suc (length cs)" if "lex_string cs = Some (u, rest)" for u rest
      using that by simp
    have IH2: "length rest < Suc (Suc (length es))"
      if "cs = e # es" and "lex_string (drop n es) = Some (u, rest)" for e es n u rest
      using IH [of "Suc n" u rest] that by simp
    from IH2 [of _ _ 0] have IH1: "length rest < Suc (Suc (length es))"
      if "cs = e # es" and "lex_string es = Some (u, rest)" for e es u rest
      using that by simp
    show ?thesis
      using "1.prems" Cons
      by (auto simp: lex_string.simps(2) split: if_splits list.splits option.splits
          dest: IH IH0 IH1 IH2)
  qed
qed

subsection \<open>Numbers\<close>

definition lex_exp :: "string \<Rightarrow> string \<Rightarrow> (string \<times> string) option" where
  "lex_exp pre s =
    (case s of
       [] \<Rightarrow> Some (pre, [])
     | e # cs \<Rightarrow>
       if char_is e 101 \<or> char_is e 69 then
         let sign = takeWhile (\<lambda>c. char_is c 43 \<or> char_is c 45) (take 1 cs);
             ds = takeWhile is_digit (drop (length sign) cs)
         in if ds = [] then None
            else Some (pre @ e # sign @ ds, dropWhile is_digit (drop (length sign) cs))
       else Some (pre, s))"

definition lex_frac :: "string \<Rightarrow> string \<Rightarrow> (string \<times> string) option" where
  "lex_frac pre s =
    (case s of
       [] \<Rightarrow> Some (pre, [])
     | d # cs \<Rightarrow>
       if char_is d 46 then
         (if takeWhile is_digit cs = [] then None
          else lex_exp (pre @ d # takeWhile is_digit cs) (dropWhile is_digit cs))
       else lex_exp pre s)"

definition lex_int :: "string \<Rightarrow> string \<Rightarrow> (string \<times> string) option" where
  "lex_int pre s =
    (case s of
       [] \<Rightarrow> None
     | d # cs \<Rightarrow>
       if char_is d 48 then lex_frac (pre @ [d]) cs
       else if is_digit d then lex_frac (pre @ takeWhile is_digit s) (dropWhile is_digit s)
       else None)"

definition lex_number :: "string \<Rightarrow> (string \<times> string) option" where
  "lex_number s =
    (case s of
       c # cs \<Rightarrow> if char_is c 45 then lex_int [c] cs else lex_int [] s
     | [] \<Rightarrow> None)"

lemma lex_exp_shorter: "lex_exp pre s = Some (t, rest) \<Longrightarrow> length rest \<le> length s"
  by (auto simp: lex_exp_def Let_def split: list.splits if_splits
      intro: order_trans [OF length_dropWhile_le])

lemma lex_frac_shorter: "lex_frac pre s = Some (t, rest) \<Longrightarrow> length rest \<le> length s"
  by (auto simp: lex_frac_def split: list.splits if_splits
      intro: le_SucI order_trans [OF lex_exp_shorter] length_dropWhile_le dest: lex_exp_shorter)

lemma lex_int_shorter: "lex_int pre s = Some (t, rest) \<Longrightarrow> length rest < length s"
  by (auto simp: lex_int_def less_Suc_eq_le split: list.splits if_splits
      dest!: lex_frac_shorter intro: order_trans [OF _ length_dropWhile_le])

lemma lex_number_shorter: "lex_number s = Some (t, rest) \<Longrightarrow> length rest < length s"
  by (auto simp: lex_number_def split: list.splits if_splits dest: lex_int_shorter)

subsection \<open>Tokens of a document\<close>

definition json_space :: "char \<Rightarrow> bool" where
  "json_space c \<longleftrightarrow> of_char c \<in> set [32, 9, 10, 13 :: nat]"

definition punctuation :: "char \<Rightarrow> token option" where
  "punctuation c =
    map_of [(123, TOpenObj), (125, TCloseObj), (91, TOpenArr), (93, TCloseArr), (44, TComma),
      (58, TColon)] (of_char c :: nat)"

definition keyword :: "string \<Rightarrow> (json \<times> nat) option" where
  "keyword s =
    (if take 4 s = ''true'' then Some (JBool True, 4)
     else if take 5 s = ''false'' then Some (JBool False, 5)
     else if take 4 s = ''null'' then Some (JNull, 4)
     else None)"

function lex :: "string \<Rightarrow> token list" where
  "lex [] = []"
| "lex (c # cs) =
    (if json_space c then lex cs
     else (case punctuation c of
        Some t \<Rightarrow> t # lex cs
      | None \<Rightarrow>
        if char_is c 34 then
          (case lex_string cs of
             Some (s, rest) \<Rightarrow> TScalar (JStr s) # lex rest
           | None \<Rightarrow> [TBad])
        else if char_is c 45 \<or> is_digit c then
          (case lex_number (c # cs) of
             Some (n, rest) \<Rightarrow> TScalar (JNum n) # lex rest
           | None \<Rightarrow> [TBad])
        else (case keyword (c # cs) of
             Some (v, n) \<Rightarrow> TScalar v # lex (drop (n - 1) cs)
           | None \<Rightarrow> [TBad])))"
  by pat_completeness auto
termination
  by (relation "measure length")
    (auto simp: less_SucI dest: lex_string_shorter lex_number_shorter)

declare lex.simps(2) [simp del]

subsection \<open>The machine over the tokens\<close>

text \<open>A frame is an array or object read so far; \<open>FKey\<close> waits for the value of a member. The
  modes are what the scanner expects next.\<close>

datatype frame = FArr "json list" | FObj "(string \<times> json) list" | FKey "(string \<times> json) list" string

datatype pmode = PValue | PFirst | PKeyFirst | PKey | PColon | PEnd

datatype pmove = Fail | Done json | Go pmode "frame list"

definition maxNestingDepth :: nat where "maxNestingDepth = 10000"

fun complete_value :: "json \<Rightarrow> frame list \<Rightarrow> pmove" where
  "complete_value v [] = Done v"
| "complete_value v (FArr vs # fs) = Go PEnd (FArr (vs @ [v]) # fs)"
| "complete_value v (FKey kvs k # fs) = Go PEnd (FObj (kvs @ [(k, v)]) # fs)"
| "complete_value v (FObj kvs # fs) = Fail"

definition open_frame :: "pmode \<Rightarrow> frame \<Rightarrow> frame list \<Rightarrow> pmove" where
  "open_frame m f fs = (if length fs < maxNestingDepth then Go m (f # fs) else Fail)"

fun pstep_value :: "frame list \<Rightarrow> token \<Rightarrow> pmove" where
  "pstep_value fs (TScalar v) = complete_value v fs"
| "pstep_value fs TOpenObj = open_frame PKeyFirst (FObj []) fs"
| "pstep_value fs TOpenArr = open_frame PFirst (FArr []) fs"
| "pstep_value fs t = Fail"

fun pstep :: "pmode \<Rightarrow> frame list \<Rightarrow> token \<Rightarrow> pmove" where
  "pstep PValue fs t = pstep_value fs t"
| "pstep PFirst (FArr vs # fs) TCloseArr = complete_value (JArr vs) fs"
| "pstep PFirst fs t = pstep_value fs t"
| "pstep PKeyFirst (FObj kvs # fs) TCloseObj = complete_value (JObj kvs) fs"
| "pstep PKeyFirst (FObj kvs # fs) (TScalar (JStr k)) = Go PColon (FKey kvs k # fs)"
| "pstep PKey (FObj kvs # fs) (TScalar (JStr k)) = Go PColon (FKey kvs k # fs)"
| "pstep PColon fs TColon = Go PValue fs"
| "pstep PEnd (FArr vs # fs) TComma = Go PValue (FArr vs # fs)"
| "pstep PEnd (FArr vs # fs) TCloseArr = complete_value (JArr vs) fs"
| "pstep PEnd (FObj kvs # fs) TComma = Go PKey (FObj kvs # fs)"
| "pstep PEnd (FObj kvs # fs) TCloseObj = complete_value (JObj kvs) fs"
| "pstep m fs t = Fail"

fun prun :: "pmode \<Rightarrow> frame list \<Rightarrow> token list \<Rightarrow> (json \<times> token list) option" where
  "prun m fs [] = None"
| "prun m fs (t # ts) =
    (case pstep m fs t of
       Fail \<Rightarrow> None
     | Done v \<Rightarrow> Some (v, ts)
     | Go m' fs' \<Rightarrow> prun m' fs' ts)"

definition json_decode_one :: "token list \<Rightarrow> (json \<times> token list) option" where
  "json_decode_one ts = prun PValue [] ts"

text \<open>\<open>json.Valid\<close>, and the reading of a whole document.\<close>

definition json_parse :: "string \<Rightarrow> json option" where
  "json_parse s =
    (case json_decode_one (lex s) of Some (v, []) \<Rightarrow> Some v | _ \<Rightarrow> None)"

definition json_Valid :: "string \<Rightarrow> bool" where
  "json_Valid s \<longleftrightarrow> json_parse s \<noteq> None"

subsection \<open>Writing\<close>

definition hex_digit :: "nat \<Rightarrow> char" where
  "hex_digit n = char_of (if n < 10 then 48 + n else 87 + n)"

definition unicode_escape :: "nat \<Rightarrow> string" where
  "unicode_escape n =
    [CHR 0x5C, CHR ''u'', hex_digit (n div 4096 mod 16), hex_digit (n div 256 mod 16),
     hex_digit (n div 16 mod 16), hex_digit (n mod 16)]"

text \<open>\<open>appendString\<close> with HTML escaping, as \<open>json.Marshal\<close> uses it.\<close>

definition escape_ascii :: "char \<Rightarrow> string" where
  "escape_ascii c =
    (case map_of [(34, 34), (92, 92), (8, 98), (12, 102), (10, 110), (13, 114), (9, 116)]
        (of_char c :: nat) of
       Some e \<Rightarrow> [CHR 0x5C, char_of (e :: nat)]
     | None \<Rightarrow>
       if of_char c < (32 :: nat) \<or> of_char c \<in> set [60, 62, 38 :: nat]
       then unicode_escape (of_char c) else [c])"

fun escape_string :: "string \<Rightarrow> string" where
  "escape_string [] = []"
| "escape_string (c # cs) =
    (case rune_at (bytes_of (c # cs)) of
       None \<Rightarrow> unicode_escape 65533 @ escape_string cs
     | Some (r, w) \<Rightarrow>
       if w = 1 then escape_ascii c @ escape_string cs
       else if r = 8232 \<or> r = 8233 then unicode_escape r @ escape_string (drop (w - 1) cs)
       else take w (c # cs) @ escape_string (drop (w - 1) cs))"

definition quote :: "string \<Rightarrow> string" where
  "quote s = CHR 0x22 # escape_string s @ [CHR 0x22]"

fun json_encode :: "json \<Rightarrow> string" where
  "json_encode JNull = ''null''"
| "json_encode (JBool b) = (if b then ''true'' else ''false'')"
| "json_encode (JNum n) = n"
| "json_encode (JStr s) = quote s"
| "json_encode (JArr vs) = ''['' @ join_with '','' (map json_encode vs) @ '']''"
| "json_encode (JObj kvs) =
    ''{'' @ join_with '','' (map (\<lambda>(k, v). quote k @ '':'' @ json_encode v) kvs) @ ''}''"

subsection \<open>Reading back what was written\<close>

lemma hex_digit_facts:
  assumes "n < 16"
  shows "is_hex (hex_digit n)" and "hex_value (hex_digit n) = n"
  using assms
  by (auto simp: is_hex_def is_digit_def hex_digit_def hex_value_def in_range_def Let_def)

lemma u4_unicode_escape: "n < 65536 \<Longrightarrow> u4 (unicode_escape n @ t) = Some n"
proof -
  assume n: "n < 65536"
  have digit: "m div 16 * 16 + m mod 16 = m" for m :: nat
    by (rule div_mult_mod_eq)
  have "n div 4096 mod 16 = n div 256 div 16" and "n div 16 div 16 = n div 256"
    using n by (simp_all add: div_mult2_eq [symmetric])
  then have "((n div 4096 mod 16 * 16 + n div 256 mod 16) * 16 + n div 16 mod 16) * 16 + n mod 16 = n"
    by (metis digit)
  moreover have "char_is (CHR 0x5C) 92" "char_is (CHR ''u'') 117" by (simp_all add: char_is_def)
  ultimately show ?thesis
    by (simp only: u4_def unicode_escape_def append_Cons list.case hex_digit_facts list.pred_inject
        simp_thms if_True mod_less_divisor zero_less_numeral)
qed

lemma simple_escape_u: "simple_escape (CHR ''u'') = None"
  by (simp add: simple_escape_def)

lemma lex_unicode_escape:
  assumes "n < 65536" and "\<not> in_range 55296 57343 n"
  shows "lex_string (unicode_escape n @ t) = emit (EncodeRune n) (lex_string t)"
proof -
  have split: "unicode_escape n @ t = CHR 0x5C # CHR ''u'' # drop 2 (unicode_escape n) @ t"
    by (simp add: unicode_escape_def)
  have "u4 (CHR 0x5C # CHR ''u'' # drop 2 (unicode_escape n) @ t) = Some n"
    using u4_unicode_escape [OF assms(1), of t] by (simp only: split)
  moreover have "drop 5 (CHR ''u'' # drop 2 (unicode_escape n) @ t) = t"
    by (simp add: unicode_escape_def)
  ultimately show ?thesis
    unfolding split using assms(2)
    by (simp add: lex_string.simps(2) char_is_def simple_escape_u)
qed

lemma EncodeRune_ascii: "n < 128 \<Longrightarrow> EncodeRune n = [char_of n]"
  by (simp add: EncodeRune_def)

lemma lex_escape_ascii:
  assumes "of_char c < (128 :: nat)"
  shows "lex_string (escape_ascii c @ t) = emit [c] (lex_string t)"
proof (cases "map_of [(34, 34), (92, 92), (8, 98), (12, 102), (10, 110), (13, 114), (9, 116)]
    (of_char c :: nat) :: nat option")
  case (Some e)
  then have "simple_escape (char_of e) = Some (of_char c)"
    by (auto simp: simple_escape_def split: if_splits)
  moreover have "escape_ascii c = [CHR 0x5C, char_of e]"
    using Some by (simp add: escape_ascii_def)
  ultimately show ?thesis
    by (simp add: lex_string.simps(2) char_is_def)
next
  case None
  show ?thesis
  proof (cases "of_char c < (32 :: nat) \<or> of_char c \<in> set [60, 62, 38 :: nat]")
    case True
    then have "escape_ascii c = unicode_escape (of_char c)"
      using None by (simp add: escape_ascii_def)
    then show ?thesis
      using assms by (simp add: lex_unicode_escape in_range_def EncodeRune_ascii)
  next
    case False
    then have "escape_ascii c = [c]" using None by (simp add: escape_ascii_def)
    then show ?thesis
      using None False assms by (auto simp: lex_string.simps(2) char_is_def split: if_splits)
  qed
qed

lemma lex_rune:
  assumes "rune_at (bytes_of (c # cs)) = Some (r, w)" and "128 \<le> (of_char c :: nat)"
  shows "lex_string (take w (c # cs) @ t) = emit (take w (c # cs)) (lex_string t)"
proof -
  have "rune_at (take w (bytes_of (c # cs)) @ bytes_of t) = Some (r, w)"
    by (rule rune_at_append [OF rune_at_take [OF assms(1)]])
  then have at: "rune_at (bytes_of (take w (c # cs) @ t)) = Some (r, w)" by simp
  from rune_at_width [OF assms(1)] obtain v where w: "w = Suc v" and v: "v \<le> length cs"
    by (cases w) auto
  from at w have "rune_at (bytes_of (c # take v cs @ t)) = Some (r, Suc v)" by simp
  with assms(2) w v show ?thesis
    by (simp add: lex_string.simps(2) char_is_def)
qed

lemma rune_at_one: "rune_at (b # bs) = Some (r, 1) \<Longrightarrow> b < 128 \<and> r = b"
  by (auto simp: rune_at.simps(2) split: if_splits list.splits)

lemma separator_bytes:
  fixes b x y m :: nat
  assumes "224 \<le> b" "128 \<le> x" "x \<le> 191" "128 \<le> y" "y \<le> 191"
    and "(b - 224) * 4096 + (x - 128) * 64 + y - 128 = m" and "8192 \<le> m" "m < 8256"
  shows "b = 226 \<and> x = 128 \<and> y = m - 8064"
proof -
  obtain i j k where eqs: "b = 224 + i" "x = 128 + j" "y = 128 + k"
    using assms by (metis le_Suc_ex)
  with assms have m: "i * 4096 + j * 64 + k = m" and "j < 64" "k < 64" by auto
  then have "i = 2" using assms(7,8) by linarith
  moreover from this m have "j = 0" using assms(7,8) by linarith
  ultimately show ?thesis using m eqs by auto
qed

lemma rune_at_separator:
  assumes "rune_at (b # bs) = Some (r, w)" and "r = 8232 \<or> r = 8233"
  shows "w = 3 \<and> take 3 (b # bs) = [226, 128, r - 8064]"
proof -
  have "b \<noteq> r" if "b < 256" using that assms(2) by auto
  then have "\<exists>x y rest. bs = x # y # rest \<and> 224 \<le> b \<and> 128 \<le> x \<and> x \<le> 191 \<and> 128 \<le> y \<and> y \<le> 191
      \<and> (b - 224) * 4096 + (x - 128) * 64 + y - 128 = r \<and> w = 3"
    using assms
    by (auto simp: rune_at.simps(2) cont_byte_def in_range_def split: if_splits list.splits)
  then obtain x y rest where "bs = x # y # rest" and range: "224 \<le> b" "128 \<le> x" "x \<le> 191" "128 \<le> y"
      "y \<le> 191" "(b - 224) * 4096 + (x - 128) * 64 + y - 128 = r" and "w = 3"
    by blast
  moreover have "b = 226 \<and> x = 128 \<and> y = r - 8064"
    using range assms(2) by (intro separator_bytes) auto
  ultimately show ?thesis by simp
qed

lemma emit_emit [simp]: "emit s (emit t r) = emit (s @ t) r"
  by (cases r) (auto simp: emit_def)

lemma rune_at_wide: "rune_at (b # bs) = Some (r, w) \<Longrightarrow> w \<noteq> 1 \<Longrightarrow> 128 \<le> b"
  by (auto simp: rune_at.simps(2) split: if_splits)

lemma escape_rune:
  assumes "rune_at (bytes_of (c # cs)) = Some (r, w)"
  shows "lex_string
      ((if w = 1 then escape_ascii c
        else if r = 8232 \<or> r = 8233 then unicode_escape r else take w (c # cs)) @ t)
     = emit (take w (c # cs)) (lex_string t)"
proof -
  have at: "rune_at (of_char c # bytes_of cs) = Some (r, w)" using assms by simp
  consider (one) "w = 1" | (sep) "w \<noteq> 1" "r = 8232 \<or> r = 8233"
    | (raw) "w \<noteq> 1" "\<not> (r = 8232 \<or> r = 8233)" by blast
  then show ?thesis
  proof cases
    case one
    then show ?thesis using rune_at_one [of "of_char c" "bytes_of cs" r] at
      by (simp add: lex_escape_ascii)
  next
    case sep
    from rune_at_separator [OF at sep(2)] have w: "w = 3"
      and bytes: "bytes_of (take 3 (c # cs)) = [226, 128, r - 8064]"
      by (simp_all only: bytes_of_take bytes_of_simps)
    from bytes have "take 3 (c # cs) = map char_of [226, 128, r - 8064]"
      by (metis (no_types, lifting) bytes_of_def char_of_char list.map_comp list.map_id0 comp_def id_def
          map_idI)
    moreover have "EncodeRune r = map char_of [226, 128, r - 8064]"
      using sep(2) by (auto simp: EncodeRune_def in_range_def)
    moreover have "lex_string (unicode_escape r @ t) = emit (EncodeRune r) (lex_string t)"
      using sep(2) by (intro lex_unicode_escape) (auto simp: in_range_def)
    ultimately show ?thesis
      using sep w by simp
  next
    case raw
    then show ?thesis using lex_rune [OF assms] rune_at_wide [OF at] by simp
  qed
qed

text \<open>A valid string is read back as it was.\<close>

lemma lex_escape_string:
  "ValidString s \<Longrightarrow> lex_string (escape_string s @ CHR 0x22 # t) = Some (s, t)"
proof (induction s rule: length_induct)
  case (1 s)
  show ?case
  proof (cases s)
    case Nil
    then show ?thesis by (simp add: lex_string.simps(2) char_is_def)
  next
    case (Cons c cs)
    obtain r w where at: "rune_at (bytes_of (c # cs)) = Some (r, w)"
      and rest: "ValidString (drop (w - 1) cs)"
      using "1.prems" Cons by (auto simp: ValidString_def split: option.splits)
    have IH: "lex_string (escape_string (drop (w - 1) cs) @ CHR 0x22 # t) = Some (drop (w - 1) cs, t)"
      using "1.IH" rest Cons by simp
    have "escape_string (c # cs) =
        (if w = 1 then escape_ascii c
         else if r = 8232 \<or> r = 8233 then unicode_escape r else take w (c # cs))
        @ escape_string (drop (w - 1) cs)"
      using at by auto
    then show ?thesis
      using escape_rune [OF at] IH rune_at_width [OF at] Cons
      by (cases w) (auto simp: emit_def)
  qed
qed

lemma lex_quote: "ValidString s \<Longrightarrow> lex (quote s @ t) = TScalar (JStr s) # lex t"
  by (simp add: quote_def lex.simps(2) json_space_def punctuation_def char_is_def lex_escape_string)

text \<open>A number is read up to the character that ends it.\<close>

definition delimited :: "string \<Rightarrow> bool" where
  "delimited t \<longleftrightarrow> (case t of [] \<Rightarrow> True | c # _ \<Rightarrow> of_char c \<in> set [44, 58, 93, 125, 32 :: nat])"

lemma delimited_facts:
  assumes "delimited (c # t)"
  shows "\<not> is_digit c" "\<not> char_is c 46" "\<not> char_is c 101" "\<not> char_is c 69" "\<not> char_is c 43"
    "\<not> char_is c 45" "\<not> char_is c 48"
  using assms by (auto simp: delimited_def is_digit_def char_is_def in_range_def)

lemma digits_delimited:
  assumes "delimited t"
  shows "takeWhile is_digit (s @ t) = takeWhile is_digit s"
    and "dropWhile is_digit (s @ t) = dropWhile is_digit s @ t"
proof -
  have t: "takeWhile is_digit t = []" "dropWhile is_digit t = t"
    using delimited_facts assms by (cases t; auto)+
  show "takeWhile is_digit (s @ t) = takeWhile is_digit s"
    and "dropWhile is_digit (s @ t) = dropWhile is_digit s @ t"
    using t by (induction s) auto
qed

lemma lex_exp_delimited:
  assumes "delimited t" and "lex_exp pre s = Some (n, rest)"
  shows "lex_exp pre (s @ t) = Some (n, rest @ t)"
proof (cases s)
  case Nil
  with assms show ?thesis
    using delimited_facts by (cases t) (auto simp: lex_exp_def)
next
  case (Cons e cs)
  show ?thesis
  proof (cases "char_is e 101 \<or> char_is e 69")
    case False
    with assms(2) Cons have "n = pre" "rest = e # cs" by (auto simp: lex_exp_def)
    with False Cons show ?thesis by (simp add: lex_exp_def)
  next
    case True
    then have "cs \<noteq> []" using assms(2) Cons by (auto simp: lex_exp_def Let_def)
    then have one: "take 1 (cs @ t) = take 1 cs" by (cases cs) auto
    have "length (takeWhile (\<lambda>c. char_is c 43 \<or> char_is c 45) (take 1 cs)) \<le> length cs"
      by (rule order_trans [OF length_takeWhile_le]) simp
    then show ?thesis
      using True assms Cons one
      by (auto simp: lex_exp_def Let_def digits_delimited split: if_splits)
  qed
qed

lemma lex_frac_delimited:
  assumes "delimited t" and "lex_frac pre s = Some (n, rest)"
  shows "lex_frac pre (s @ t) = Some (n, rest @ t)"
proof (cases s)
  case Nil
  have "lex_exp pre ([] @ t) = Some (pre, [] @ t)"
    by (rule lex_exp_delimited [OF assms(1)]) (simp add: lex_exp_def)
  then show ?thesis
    using assms Nil delimited_facts by (cases t) (auto simp: lex_frac_def)
next
  case (Cons d cs)
  then show ?thesis
    using assms lex_exp_delimited [OF assms(1)] digits_delimited [OF assms(1)]
    by (auto simp: lex_frac_def split: if_splits)
      (metis append_Cons lex_exp_delimited)
qed

lemma lex_int_delimited:
  assumes "delimited t" and "lex_int pre s = Some (n, rest)"
  shows "lex_int pre (s @ t) = Some (n, rest @ t)"
  using assms lex_frac_delimited [OF assms(1)] digits_delimited [OF assms(1)]
  by (cases s) (auto simp: lex_int_def split: if_splits)

lemma lex_number_delimited:
  assumes "delimited t" and "lex_number s = Some (n, rest)"
  shows "lex_number (s @ t) = Some (n, rest @ t)"
  using assms(2) lex_int_delimited [OF assms(1), of _ s] lex_int_delimited [OF assms(1), of _ "tl s"]
  by (cases s) (auto simp: lex_number_def split: if_splits)

text \<open>Values that Go can write: texts in UTF-8, numbers in JSON spelling, bounded nesting.\<close>

fun writable :: "json \<Rightarrow> bool" where
  "writable (JNum n) = (lex_number n = Some (n, []) \<and> n \<noteq> [])"
| "writable (JStr s) = ValidString s"
| "writable (JArr vs) = list_all writable vs"
| "writable (JObj kvs) = list_all (\<lambda>(k, v). ValidString k \<and> writable v) kvs"
| "writable v = True"

fun json_depth :: "json \<Rightarrow> nat" where
  "json_depth (JArr vs) = Suc (foldr (\<lambda>v d. max (json_depth v) d) vs 0)"
| "json_depth (JObj kvs) = Suc (foldr (\<lambda>(k, v) d. max (json_depth v) d) kvs 0)"
| "json_depth v = 0"

fun comma_sep :: "token list list \<Rightarrow> token list" where
  "comma_sep [] = []"
| "comma_sep (x # xs) = x @ concat (map ((#) TComma) xs)"

fun json_tokens :: "json \<Rightarrow> token list" where
  "json_tokens (JArr vs) = TOpenArr # comma_sep (map json_tokens vs) @ [TCloseArr]"
| "json_tokens (JObj kvs) =
     TOpenObj # comma_sep (map (\<lambda>(k, v). TScalar (JStr k) # TColon # json_tokens v) kvs) @ [TCloseObj]"
| "json_tokens v = [TScalar v]"

lemma join_with_concat: "join_with sep (x # xs) = x @ concat (map ((@) sep) xs)"
  by (induction xs arbitrary: x) auto

lemma lex_punctuation:
  "lex (CHR '','' # t) = TComma # lex t" "lex (CHR '':'' # t) = TColon # lex t"
  "lex (CHR ''['' # t) = TOpenArr # lex t" "lex (CHR '']'' # t) = TCloseArr # lex t"
  "lex (CHR ''{'' # t) = TOpenObj # lex t" "lex (CHR ''}'' # t) = TCloseObj # lex t"
  by (simp_all add: lex.simps(2) json_space_def punctuation_def)

lemma lex_number_head:
  assumes "lex_number (c # cs) = Some (n, r)"
  shows "char_is c 45 \<or> is_digit c"
  using assms by (auto simp: lex_number_def lex_int_def char_is_def is_digit_def in_range_def
      split: if_splits)

lemma lex_number_token:
  assumes "lex_number n = Some (n, [])" and "n \<noteq> []" and "delimited t"
  shows "lex (n @ t) = TScalar (JNum n) # lex t"
proof -
  obtain c cs where n: "n = c # cs" using assms(2) by (cases n) auto
  with assms have head: "char_is c 45 \<or> is_digit c" using lex_number_head by blast
  then have "\<not> json_space c" and "punctuation c = None" and "\<not> char_is c 34"
    by (auto simp: json_space_def punctuation_def char_is_def is_digit_def in_range_def)
  with head show ?thesis
    using lex_number_delimited [OF assms(3,1)] n by (simp add: lex.simps(2))
qed

lemma lex_members:
  assumes "\<And>x t. x \<in> set xs \<Longrightarrow> delimited t \<Longrightarrow> lex (enc x @ t) = tok x @ lex t"
    and "delimited t"
  shows "lex (join_with '','' (map enc xs) @ t) = comma_sep (map tok xs) @ lex t"
proof (cases xs)
  case Nil
  then show ?thesis by simp
next
  case (Cons y ys)
  have tail: "delimited (concat (map ((@) '','') (map enc zs)) @ t)
      \<and> lex (concat (map ((@) '','') (map enc zs)) @ t) = concat (map ((#) TComma) (map tok zs)) @ lex t"
    if "set zs \<subseteq> set xs" for zs
    using that
  proof (induction zs)
    case Nil
    then show ?case using assms(2) by simp
  next
    case (Cons z zs)
    then show ?case using assms(1) by (simp add: lex_punctuation delimited_def)
  qed
  have "set ys \<subseteq> set xs" using Cons by auto
  from tail [OF this] show ?thesis
    using assms(1) Cons by (simp add: join_with_concat)
qed

lemma lex_json_encode:
  "writable v \<Longrightarrow> delimited t \<Longrightarrow> lex (json_encode v @ t) = json_tokens v @ lex t"
proof (induction v arbitrary: t rule: json_encode.induct)
  case 1
  then show ?case by (simp add: lex.simps(2) json_space_def punctuation_def char_is_def is_digit_def
        in_range_def keyword_def)
next
  case (2 b)
  then show ?case by (simp add: lex.simps(2) json_space_def punctuation_def char_is_def is_digit_def
        in_range_def keyword_def)
next
  case (3 n)
  then show ?case by (simp add: lex_number_token)
next
  case (4 s)
  then show ?case by (simp add: lex_quote)
next
  case (5 vs)
  have "lex (join_with '','' (map json_encode vs) @ '']'' @ t) = comma_sep (map json_tokens vs) @ lex ('']'' @ t)"
    using "5.IH" "5.prems" by (intro lex_members) (auto simp: list_all_iff delimited_def)
  then show ?case by (simp add: lex_punctuation)
next
  case (6 kvs)
  have "lex (join_with '','' (map (\<lambda>(k, v). quote k @ '':'' @ json_encode v) kvs) @ ''}'' @ t) =
      comma_sep (map (\<lambda>(k, v). TScalar (JStr k) # TColon # json_tokens v) kvs) @ lex (''}'' @ t)"
    using "6.IH" "6.prems"
    by (intro lex_members) (auto simp: list_all_iff delimited_def lex_quote lex_punctuation)
  then show ?case by (simp add: lex_punctuation)
qed

definition resume :: "pmove \<Rightarrow> token list \<Rightarrow> (json \<times> token list) option" where
  "resume mv ts =
    (case mv of Fail \<Rightarrow> None | Done v \<Rightarrow> Some (v, ts) | Go m fs \<Rightarrow> prun m fs ts)"

lemma prun_Cons: "prun m fs (t # ts) = resume (pstep m fs t) ts"
  by (simp add: resume_def)

lemma resume_simps [simp]:
  "resume (Go m fs) ts = prun m fs ts" "resume (Done v) ts = Some (v, ts)" "resume Fail ts = None"
  by (simp_all add: resume_def)

declare prun.simps(2) [simp del]

lemma json_tokens_first: "prun PFirst fs (json_tokens v @ ts) = prun PValue fs (json_tokens v @ ts)"
  by (cases v; cases fs) (auto simp: prun_Cons)

text \<open>The elements of an array and the members of an object, one after the other.\<close>

lemma prun_elements:
  assumes "\<And>v fs' ts. v \<in> set vs \<Longrightarrow> length fs' = Suc (length fs) \<Longrightarrow>
      prun PValue fs' (json_tokens v @ ts) = resume (complete_value v fs') ts"
  shows "prun PFirst (FArr [] # fs) (comma_sep (map json_tokens vs) @ TCloseArr # ts) =
    resume (complete_value (JArr vs) fs) ts"
proof (cases vs)
  case Nil
  then show ?thesis by (simp add: prun_Cons)
next
  case (Cons y ys)
  have tail: "prun PEnd (FArr us # fs) (concat (map ((#) TComma) (map json_tokens zs)) @ TCloseArr # ts) =
      resume (complete_value (JArr (us @ zs)) fs) ts" if "set zs \<subseteq> set vs" for us zs
    using that by (induction zs arbitrary: us) (auto simp: prun_Cons assms)
  have "set ys \<subseteq> set vs" and "y \<in> set vs" using Cons by auto
  then show ?thesis
    using tail [of ys "[y]"] assms [of y "FArr [] # fs"] Cons by (simp add: json_tokens_first)
qed

lemma prun_members:
  assumes "\<And>k v fs' ts. (k, v) \<in> set kvs \<Longrightarrow> length fs' = Suc (length fs) \<Longrightarrow>
      prun PValue fs' (json_tokens v @ ts) = resume (complete_value v fs') ts"
  shows "prun PKeyFirst (FObj [] # fs)
      (comma_sep (map (\<lambda>(k, v). TScalar (JStr k) # TColon # json_tokens v) kvs) @ TCloseObj # ts) =
    resume (complete_value (JObj kvs) fs) ts"
proof (cases kvs)
  case Nil
  then show ?thesis by (simp add: prun_Cons)
next
  case (Cons y ys)
  have tail: "prun PEnd (FObj us # fs)
        (concat (map ((#) TComma) (map (\<lambda>(k, v). TScalar (JStr k) # TColon # json_tokens v) zs)) @ TCloseObj # ts) =
      resume (complete_value (JObj (us @ zs)) fs) ts" if "set zs \<subseteq> set kvs" for us zs
    using that
  proof (induction zs arbitrary: us)
    case Nil
    then show ?case by (simp add: prun_Cons)
  next
    case (Cons z zs)
    then show ?case
      using assms [of "fst z" "snd z" "FKey us (fst z) # fs"] by (auto simp: prun_Cons split: prod.split)
  qed
  obtain k v where y: "y = (k, v)" by (cases y)
  have "set ys \<subseteq> set kvs" and "(k, v) \<in> set kvs" using Cons y by auto
  then show ?thesis
    using tail [of ys "[y]"] assms [of k v "FKey [] k # fs"] Cons y by (simp add: prun_Cons)
qed

lemma foldr_max_le: "x \<in> set xs \<Longrightarrow> f x \<le> foldr (\<lambda>x d. max (f x) d) xs (0 :: nat)"
  by (induction xs) (auto simp: le_max_iff_disj)

lemma json_depth_member:
  "v \<in> set vs \<Longrightarrow> json_depth v < json_depth (JArr vs)"
  "(k, v) \<in> set kvs \<Longrightarrow> json_depth v < json_depth (JObj kvs)"
  using foldr_max_le [of v vs json_depth] foldr_max_le [of "(k, v)" kvs "\<lambda>(k, v). json_depth v"]
  by (simp_all add: less_Suc_eq_le case_prod_beta')

lemma prun_json_tokens:
  "length fs + json_depth v \<le> maxNestingDepth \<Longrightarrow>
     prun PValue fs (json_tokens v @ ts) = resume (complete_value v fs) ts"
proof (induction v arbitrary: fs ts rule: json_tokens.induct)
  case (1 vs)
  have "length fs < maxNestingDepth" using "1.prems" by auto
  moreover have "prun PFirst (FArr [] # fs) (comma_sep (map json_tokens vs) @ TCloseArr # ts) =
      resume (complete_value (JArr vs) fs) ts"
  proof (rule prun_elements)
    fix v ts and fs' :: "frame list" assume "v \<in> set vs" and "length fs' = Suc (length fs)"
    then show "prun PValue fs' (json_tokens v @ ts) = resume (complete_value v fs') ts"
      using "1.IH" "1.prems" json_depth_member(1) [of v vs] by fastforce
  qed
  ultimately show ?case by (simp add: prun_Cons open_frame_def)
next
  case (2 kvs)
  have "length fs < maxNestingDepth" using "2.prems" by auto
  moreover have "prun PKeyFirst (FObj [] # fs)
      (comma_sep (map (\<lambda>(k, v). TScalar (JStr k) # TColon # json_tokens v) kvs) @ TCloseObj # ts) =
      resume (complete_value (JObj kvs) fs) ts"
  proof (rule prun_members)
    fix k v ts and fs' :: "frame list" assume "(k, v) \<in> set kvs" and "length fs' = Suc (length fs)"
    then show "prun PValue fs' (json_tokens v @ ts) = resume (complete_value v fs') ts"
      using "2.IH" "2.prems" json_depth_member(2) [of k v kvs] by fastforce
  qed
  ultimately show ?case by (simp add: prun_Cons open_frame_def)
qed (simp_all add: prun_Cons)

text \<open>What is written is read back.\<close>

lemma json_parse_encode:
  assumes "writable v" and "json_depth v \<le> maxNestingDepth"
  shows "json_parse (json_encode v) = Some v"
proof -
  have "lex (json_encode v) = json_tokens v"
    using lex_json_encode [OF assms(1), of "[]"] by (simp add: delimited_def)
  moreover have "prun PValue [] (json_tokens v) = Some (v, [])"
    using prun_json_tokens [of "[]" v "[]"] assms(2) by simp
  ultimately show ?thesis by (simp add: json_parse_def json_decode_one_def)
qed

end
