(* ===== verification/Strict_Json.thy ===== *)
theory Strict_Json
  imports Go_Json
begin

text \<open>
  \<open>internal/strictjson/decode.go\<close>: documents are accepted only as valid UTF-8, with one value,
  no key twice in an object at any depth, and the declared names of a struct spelled exactly.
  A \<open>schema\<close> is what the reflection over the destination type yields: \<open>Any\<close> for
  \<open>json.RawMessage\<close>, interfaces and types with their own unmarshaler.
\<close>

datatype schema = Any | Struct "(string \<times> schema) list" | MapOf schema | ListOf schema

datatype strict_error =
    ErrSyntax
  | ErrInvalidUTF8
  | ErrDuplicateKey string
  | ErrMultipleValues
  | ErrNonCanonicalKey string

subsection \<open>Names\<close>

text \<open>\<open>strings.EqualFold\<close> against a declared name, which is ASCII: besides the two cases of a
  letter, U+017F folds to \<open>s\<close> and U+212A to \<open>k\<close>.\<close>

definition fold_rune :: "nat \<Rightarrow> nat" where
  "fold_rune r =
    (if in_range 65 90 r then r + 32 else if r = 383 then 115 else if r = 8490 then 107 else r)"

definition EqualFold :: "string \<Rightarrow> string \<Rightarrow> bool" where
  "EqualFold a b \<longleftrightarrow> map fold_rune (runes a) = map fold_rune (runes b)"

fun exactStructFields :: "schema \<Rightarrow> (string \<times> schema) list" where
  "exactStructFields (Struct decl) = decl"
| "exactStructFields _ = []"

fun objectMapValueType :: "schema \<Rightarrow> schema" where
  "objectMapValueType (MapOf s) = s"
| "objectMapValueType _ = Any"

fun collectionElementType :: "schema \<Rightarrow> schema" where
  "collectionElementType (ListOf s) = s"
| "collectionElementType (MapOf s) = s"
| "collectionElementType _ = Any"

definition member_schema :: "schema \<Rightarrow> string \<Rightarrow> strict_error + schema" where
  "member_schema sc key =
    (case map_of (exactStructFields sc) key of
       Some s \<Rightarrow> Inr s
     | None \<Rightarrow>
       if list_ex (\<lambda>(canonical, _). EqualFold key canonical) (exactStructFields sc)
       then Inl (ErrNonCanonicalKey key) else Inr (objectMapValueType sc))"

subsection \<open>The walk over the document\<close>

fun scanValue :: "schema \<Rightarrow> json \<Rightarrow> strict_error option"
  and scanElements :: "schema \<Rightarrow> json list \<Rightarrow> strict_error option"
  and scanMembers :: "schema \<Rightarrow> string list \<Rightarrow> (string \<times> json) list \<Rightarrow> strict_error option" where
  "scanValue sc (JObj kvs) = scanMembers sc [] kvs"
| "scanValue sc (JArr vs) = scanElements (collectionElementType sc) vs"
| "scanValue sc v = None"
| "scanElements sc [] = None"
| "scanElements sc (v # vs) =
    (case scanValue sc v of Some e \<Rightarrow> Some e | None \<Rightarrow> scanElements sc vs)"
| "scanMembers sc seen [] = None"
| "scanMembers sc seen ((k, v) # kvs) =
    (if k \<in> set seen then Some (ErrDuplicateKey k)
     else (case member_schema sc k of
        Inl e \<Rightarrow> Some e
      | Inr s \<Rightarrow>
        (case scanValue s v of
           Some e \<Rightarrow> Some e
         | None \<Rightarrow> scanMembers sc (k # seen) kvs)))"

definition readDocument :: "string \<Rightarrow> strict_error + json" where
  "readDocument payload =
    (case json_decode_one (lex payload) of
       None \<Rightarrow> Inl ErrSyntax
     | Some (v, rest) \<Rightarrow>
       if rest = [] then Inr v
       else if json_decode_one rest \<noteq> None then Inl ErrMultipleValues else Inl ErrSyntax)"

definition validateDocumentKeys :: "schema \<Rightarrow> string \<Rightarrow> strict_error option" where
  "validateDocumentKeys sc payload =
    (case readDocument payload of Inl e \<Rightarrow> Some e | Inr v \<Rightarrow> scanValue sc v)"

text \<open>The checks of \<open>Decode\<close> and the value they let through. For a \<open>json.RawMessage\<close> the decoding
  that follows always succeeds.\<close>

definition Decode :: "schema \<Rightarrow> string \<Rightarrow> strict_error + json" where
  "Decode sc payload =
    (if \<not> ValidString payload then Inl ErrInvalidUTF8
     else case validateDocumentKeys sc payload of
        Some e \<Rightarrow> Inl e
      | None \<Rightarrow> readDocument payload)"

subsection \<open>What is accepted\<close>

fun unique_keys :: "json \<Rightarrow> bool" where
  "unique_keys (JObj kvs) \<longleftrightarrow> distinct (map fst kvs) \<and> list_all (\<lambda>(k, v). unique_keys v) kvs"
| "unique_keys (JArr vs) \<longleftrightarrow> list_all unique_keys vs"
| "unique_keys v \<longleftrightarrow> True"

text \<open>Keys as the struct declares them, in every object that a struct describes.\<close>

fun canonical_keys :: "schema \<Rightarrow> json \<Rightarrow> bool" where
  "canonical_keys sc (JObj kvs) \<longleftrightarrow>
     list_all (\<lambda>(k, v). case member_schema sc k of Inl e \<Rightarrow> False | Inr s \<Rightarrow> canonical_keys s v) kvs"
| "canonical_keys sc (JArr vs) \<longleftrightarrow> list_all (canonical_keys (collectionElementType sc)) vs"
| "canonical_keys sc v \<longleftrightarrow> True"

lemma scan_None:
  "scanValue sc v = None \<longleftrightarrow> unique_keys v \<and> canonical_keys sc v"
  "scanElements sc vs = None \<longleftrightarrow> list_all unique_keys vs \<and> list_all (canonical_keys sc) vs"
  "scanMembers sc seen kvs = None \<longleftrightarrow>
     distinct (map fst kvs) \<and> fst ` set kvs \<inter> set seen = {} \<and> list_all (\<lambda>(k, v). unique_keys v) kvs
     \<and> list_all (\<lambda>(k, v). case member_schema sc k of Inl e \<Rightarrow> False | Inr s \<Rightarrow> canonical_keys s v) kvs"
proof (induction sc v and sc vs and sc seen kvs rule: scanValue_scanElements_scanMembers.induct)
  case (5 sc v vs)
  then show ?case by (cases "scanValue sc v") auto
next
  case (7 sc seen k v kvs)
  show ?case
  proof (cases "k \<in> set seen")
    case True
    then show ?thesis by auto
  next
    case False
    show ?thesis
    proof (cases "member_schema sc k")
      case (Inl e)
      then show ?thesis using False by simp
    next
      case (Inr s)
      then show ?thesis
        using False "7.IH"(1) [OF False Inr] "7.IH"(2) [OF False Inr] by (cases "scanValue s v") auto
    qed
  qed
qed auto

lemma canonical_Any [simp]: "canonical_keys Any v"
proof -
  have "sc = Any \<Longrightarrow> canonical_keys sc v" for sc
    by (induction sc v rule: canonical_keys.induct) (auto simp: list_all_iff member_schema_def)
  then show ?thesis by simp
qed

lemma readDocument_Inr: "readDocument p = Inr v \<longleftrightarrow> json_parse p = Some v"
  by (auto simp: readDocument_def json_parse_def split: option.split list.split prod.split)

lemma Decode_Inr:
  "Decode sc p = Inr v \<longleftrightarrow>
     ValidString p \<and> json_parse p = Some v \<and> unique_keys v \<and> canonical_keys sc v"
  using scan_None(1) [of sc v]
  by (auto simp: Decode_def validateDocumentKeys_def readDocument_Inr [symmetric]
      split: option.split sum.split)

text \<open>C25. A document decoded without a schema is accepted exactly if it is valid UTF-8, one
  JSON value, and no object in it at any depth repeats a decoded key.\<close>

theorem strict_decode_correct:
  "Decode Any p = Inr v \<longleftrightarrow> ValidString p \<and> json_parse p = Some v \<and> unique_keys v"
  by (simp add: Decode_Inr)

end
