(* ===== verification/Go_Sha.thy ===== *)
theory Go_Sha
  imports Go_Std
begin

text \<open>
  \<open>crypto/sha256\<close> and \<open>encoding/hex\<close>, executable: FIPS 180-4 over lists of 32-bit words. The
  program relies on a digest being a function of its input and 64 lowercase hexadecimal
  characters long.
\<close>

unbundle bit_operations_syntax

definition rotr :: "nat \<Rightarrow> u32 \<Rightarrow> u32" where
  "rotr n x = drop_bit n x OR push_bit (32 - n) x"

definition sha_K :: "u32 list" where
  "sha_K =
   [1116352408, 1899447441, 3049323471, 3921009573, 961987163, 1508970993, 2453635748, 2870763221,
    3624381080, 310598401, 607225278, 1426881987, 1925078388, 2162078206, 2614888103, 3248222580,
    3835390401, 4022224774, 264347078, 604807628, 770255983, 1249150122, 1555081692, 1996064986,
    2554220882, 2821834349, 2952996808, 3210313671, 3336571891, 3584528711, 113926993, 338241895,
    666307205, 773529912, 1294757372, 1396182291, 1695183700, 1986661051, 2177026350, 2456956037,
    2730485921, 2820302411, 3259730800, 3345764771, 3516065817, 3600352804, 4094571909, 275423344,
    430227734, 506948616, 659060556, 883997877, 958139571, 1322822218, 1537002063, 1747873779,
    1955562222, 2024104815, 2227730452, 2361852424, 2428436474, 2756734187, 3204031479, 3329325298]"

definition sha_H0 :: "u32 list" where
  "sha_H0 =
   [1779033703, 3144134277, 1013904242, 2773480762, 1359893119, 2600822924, 528734635, 1541459225]"

text \<open>The message schedule, newest word first: each step adds the word that depends on the
  2nd, 7th, 15th and 16th before it.\<close>

fun sha_schedule :: "nat \<Rightarrow> u32 list \<Rightarrow> u32 list" where
  "sha_schedule 0 ws = ws"
| "sha_schedule (Suc n) ws =
    (let a = ws ! 14; b = ws ! 1;
         s0 = rotr 7 a XOR rotr 18 a XOR drop_bit 3 a;
         s1 = rotr 17 b XOR rotr 19 b XOR drop_bit 10 b
     in sha_schedule n ((ws ! 15 + s0 + ws ! 6 + s1) # ws))"

definition sha_round :: "u32 list \<Rightarrow> u32 \<times> u32 \<Rightarrow> u32 list" where
  "sha_round st kw =
    (case st of
       [a, b, c, d, e, f, g, h] \<Rightarrow>
         let t1 = h + (rotr 6 e XOR rotr 11 e XOR rotr 25 e) + ((e AND f) XOR (NOT e AND g))
               + fst kw + snd kw;
             t2 = (rotr 2 a XOR rotr 13 a XOR rotr 22 a)
               + ((a AND b) XOR (a AND c) XOR (b AND c))
         in [t1 + t2, a, b, c, d + t1, e, f, g]
     | _ \<Rightarrow> st)"

definition sha_compress :: "u32 list \<Rightarrow> u32 list \<Rightarrow> u32 list" where
  "sha_compress hs block =
    (let ws = rev (sha_schedule 48 (rev block))
     in map2 (+) hs (foldl sha_round hs (zip sha_K ws)))"

fun be_bytes :: "nat \<Rightarrow> nat \<Rightarrow> nat list" where
  "be_bytes 0 n = []"
| "be_bytes (Suc k) n = be_bytes k (n div 256) @ [n mod 256]"

definition sha_pad :: "nat list \<Rightarrow> nat list" where
  "sha_pad bs = bs @ 128 # replicate ((119 - length bs mod 64) mod 64) 0 @ be_bytes 8 (8 * length bs)"

fun sha_words :: "nat list \<Rightarrow> u32 list" where
  "sha_words (a # b # c # d # bs) =
    of_nat (((a * 256 + b) * 256 + c) * 256 + d) # sha_words bs"
| "sha_words _ = []"

fun sha_blocks :: "nat \<Rightarrow> u32 list \<Rightarrow> u32 list list" where
  "sha_blocks 0 ws = []"
| "sha_blocks (Suc n) ws = take 16 ws # sha_blocks n (drop 16 ws)"

definition Sum256 :: "string \<Rightarrow> nat list" where
  "Sum256 s =
    (let ws = sha_words (sha_pad (bytes_of s))
     in concat (map (\<lambda>w. be_bytes 4 (unat w)) (foldl sha_compress sha_H0 (sha_blocks (length ws div 16) ws))))"

definition hex_char :: "nat \<Rightarrow> char" where
  "hex_char n = char_of (if n < 10 then 48 + n else 87 + n)"

definition hex_EncodeToString :: "nat list \<Rightarrow> string" where
  "hex_EncodeToString bs = concat (map (\<lambda>b. [hex_char (b div 16 mod 16), hex_char (b mod 16)]) bs)"

subsection \<open>The shape of a digest\<close>

lemma length_be_bytes [simp]: "length (be_bytes k n) = k"
  by (induction k arbitrary: n) auto

lemma length_sha_round: "length st = 8 \<Longrightarrow> length (sha_round st kw) = 8"
proof -
  assume "length st = 8"
  then obtain a b c d e f g h where "st = [a, b, c, d, e, f, g, h]"
    by (auto simp: numeral_eq_Suc length_Suc_conv)
  then show ?thesis by (simp add: sha_round_def Let_def)
qed

lemma length_sha_rounds: "length st = 8 \<Longrightarrow> length (foldl sha_round st kws) = 8"
  by (induction kws arbitrary: st) (auto simp: length_sha_round)

lemma length_sha_compress: "length hs = 8 \<Longrightarrow> length (sha_compress hs block) = 8"
  by (simp add: sha_compress_def Let_def length_sha_rounds)

lemma length_sha_blocks: "length hs = 8 \<Longrightarrow> length (foldl sha_compress hs blocks) = 8"
  by (induction blocks arbitrary: hs) (auto simp: length_sha_compress)

lemma length_concat_const: "(\<And>x. length (f x) = n) \<Longrightarrow> length (concat (map f xs)) = n * length xs"
  by (induction xs) auto

lemma length_Sum256 [simp]: "length (Sum256 s) = 32"
  by (simp add: Sum256_def Let_def length_concat_const [where n = 4] length_sha_blocks sha_H0_def)

lemma length_hex [simp]: "length (hex_EncodeToString bs) = 2 * length bs"
  by (simp add: hex_EncodeToString_def length_concat_const [where n = 2])

text \<open>The characters of \<open>0123456789abcdef\<close>.\<close>

definition lower_hex :: "nat \<Rightarrow> bool" where
  "lower_hex n \<longleftrightarrow> in_range 48 57 n \<or> in_range 97 102 n"

lemma hex_char_lower: "n < 16 \<Longrightarrow> lower_hex (of_char (hex_char n))"
  by (auto simp: lower_hex_def hex_char_def in_range_def)

lemma hex_lower: "list_all lower_hex (bytes_of (hex_EncodeToString bs))"
  by (induction bs) (auto simp: hex_EncodeToString_def hex_char_lower)

lemma lower_hex_plain: "list_all lower_hex (bytes_of s) \<Longrightarrow> plain s"
  by (auto simp: plain_def list_all_iff bytes_of_def plain_char_def lower_hex_def in_range_def)

end
