(* ===== verification/Operation_Model.thy ===== *)
theory Operation_Model
  imports Domain_Spec Strict_Json Go_Sha
begin

text \<open>
  \<open>internal/operation/model.go\<close>: the durable identity, state and event contracts of a lifecycle
  operation, with their validation. A raw JSON payload is its text, the empty text standing for
  the nil and the empty slice, which no check tells apart. Counters that overflow are words.
\<close>

datatype op_error =
    OpInvalid string
  | OpPayload string strict_error
  | BindingMismatch string string string string
  | ActiveConflict string string string string
  | OpWrapped string op_error

subsection \<open>Bounded vocabularies\<close>

datatype op_type =
    TypeCreate | TypeStart | TypeState | TypeKill | TypeStop | TypeDelete | TypeOther string

fun Type_Valid :: "op_type \<Rightarrow> bool" where
  "Type_Valid (TypeOther _) = False"
| "Type_Valid _ = True"

datatype target_kind = TargetSandbox | TargetContainer | TargetAttempt | TargetOther string

fun TargetKind_Valid :: "target_kind \<Rightarrow> bool" where
  "TargetKind_Valid (TargetOther _) = False"
| "TargetKind_Valid _ = True"

datatype op_state = StatePending | StateRunning | StateSucceeded | StateFailed | StateOther string

fun State_Valid :: "op_state \<Rightarrow> bool" where
  "State_Valid (StateOther _) = False"
| "State_Valid _ = True"

definition State_Active :: "op_state \<Rightarrow> bool" where
  "State_Active s \<longleftrightarrow> s = StatePending \<or> s = StateRunning"

definition State_Terminal :: "op_state \<Rightarrow> bool" where
  "State_Terminal s \<longleftrightarrow> s = StateSucceeded \<or> s = StateFailed"

datatype stage =
    StageValidate | StagePersistIntent | StageCheckPreconditions | StageHostPreflight
  | StagePrepareCgroup | StagePrepareStartGate | StagePrepareStreams | StageCreateProcess
  | StagePrepareNamespaces | StageJoinNamespaces | StagePrepareRootfs | StageAttachCgroup
  | StageReleaseStartGate | StageSignalProcess | StageObserveProcess | StageTeardown
  | StageTransition | StagePersistState | StageRollback | StagePersistResult | StageComplete
  | StageOther string

fun Stage_Valid :: "stage \<Rightarrow> bool" where
  "Stage_Valid (StageOther _) = False"
| "Stage_Valid _ = True"

datatype op_result = ResultPending | ResultSucceeded | ResultFailed | ResultNoop | ResultOther string

fun Result_Valid :: "op_result \<Rightarrow> bool" where
  "Result_Valid (ResultOther _) = False"
| "Result_Valid _ = True"

datatype reason_class =
    ReasonNone | ReasonInvalidRequest | ReasonConflict | ReasonNotFound | ReasonPrecondition
  | ReasonInternal | ReasonCleanup | ReasonOther string

fun Reason_Valid :: "reason_class \<Rightarrow> bool" where
  "Reason_Valid (ReasonOther _) = False"
| "Reason_Valid _ = True"

lemma vocabulary_simps [simp]:
  "State_Active StatePending" "State_Active StateRunning" "\<not> State_Active StateSucceeded"
  "\<not> State_Active StateFailed" "\<not> State_Active (StateOther s)"
  "State_Terminal StateSucceeded" "State_Terminal StateFailed" "\<not> State_Terminal StatePending"
  "\<not> State_Terminal StateRunning" "\<not> State_Terminal (StateOther s)"
  by (simp_all add: State_Active_def State_Terminal_def)

lemma State_Active_or_Terminal: "State_Valid s \<Longrightarrow> State_Active s \<noteq> State_Terminal s"
  by (cases s) auto

subsection \<open>Identities and targets\<close>

type_synonym operation_id = string

record target =
  tg_Kind :: target_kind
  tg_ID :: string

definition validateIdentifier :: "string \<Rightarrow> string \<Rightarrow> op_error option" where
  "validateIdentifier field value =
    first_err
     [reject (value = [] \<or> TrimSpace value \<noteq> value) (OpInvalid field),
      reject (128 < length value) (OpInvalid field),
      reject (space_or_control value) (OpInvalid field)]"

definition OperationID_Validate :: "operation_id \<Rightarrow> op_error option" where
  "OperationID_Validate = validateIdentifier ''operation ID''"

definition Target_Validate :: "target \<Rightarrow> op_error option" where
  "Target_Validate t =
    first_err
     [reject (\<not> TargetKind_Valid (tg_Kind t)) (OpInvalid ''operation target kind''),
      validateIdentifier ''operation target ID'' (tg_ID t)]"

fun type_allows :: "op_type \<Rightarrow> target_kind \<Rightarrow> bool" where
  "type_allows TypeCreate k = (k = TargetSandbox \<or> k = TargetContainer)"
| "type_allows TypeStart k = (k = TargetContainer)"
| "type_allows TypeState k = (k = TargetSandbox \<or> k = TargetContainer \<or> k = TargetAttempt)"
| "type_allows TypeKill k = (k = TargetContainer \<or> k = TargetAttempt)"
| "type_allows TypeStop k = (k = TargetSandbox \<or> k = TargetContainer)"
| "type_allows TypeDelete k = (k = TargetSandbox \<or> k = TargetContainer)"
| "type_allows (TypeOther _) k = False"

definition validateTypeTarget :: "op_type \<Rightarrow> target_kind \<Rightarrow> op_error option" where
  "validateTypeTarget t k = reject (\<not> type_allows t k) (OpInvalid ''operation type'')"

lemma validateIdentifier_None [simp]: "validateIdentifier field v = None \<longleftrightarrow> good_id v"
  by (auto simp: validateIdentifier_def good_id_def)

lemma OperationID_Validate_None [simp]: "OperationID_Validate i = None \<longleftrightarrow> good_id i"
  by (simp add: OperationID_Validate_def)

definition good_target :: "target \<Rightarrow> bool" where
  "good_target t \<longleftrightarrow> TargetKind_Valid (tg_Kind t) \<and> good_id (tg_ID t)"

lemma Target_Validate_None [simp]: "Target_Validate t = None \<longleftrightarrow> good_target t"
  by (simp add: Target_Validate_def good_target_def)

subsection \<open>Fingerprints, sequences and durations\<close>

definition CurrentFingerprintVersion :: u32 where "CurrentFingerprintVersion = 1"

definition OperationSchemaVersion :: u32 where "OperationSchemaVersion = 1"

definition EventSchemaVersion :: u32 where "EventSchemaVersion = 2"

record fingerprint =
  fp_Version :: u32
  fp_SHA256 :: string

definition Fingerprint_Validate :: "fingerprint \<Rightarrow> op_error option" where
  "Fingerprint_Validate f =
    first_err
     [reject (fp_Version f \<noteq> CurrentFingerprintVersion) (OpInvalid ''fingerprint version''),
      reject (length (fp_SHA256 f) \<noteq> 64) (OpInvalid ''fingerprint digest''),
      reject (\<not> list_all lower_hex (runes (fp_SHA256 f))) (OpInvalid ''fingerprint digest'')]"

definition Sequence_Validate :: "u64 \<Rightarrow> op_error option" where
  "Sequence_Validate s = reject (s = 0) (OpInvalid ''event sequence'')"

definition Sequence_Next :: "u64 \<Rightarrow> op_error + u64" where
  "Sequence_Next s = (if s = -1 then Inl (OpInvalid ''event sequence overflow'') else Inr (s + 1))"

definition Duration_Validate :: "duration \<Rightarrow> op_error option" where
  "Duration_Validate d = reject (d < 0) (OpInvalid ''event duration'')"

subsection \<open>Operations\<close>

record operation =
  op_SchemaVersion :: u32
  op_ID :: operation_id
  op_Type :: op_type
  op_Target :: target
  op_Fingerprint :: fingerprint
  op_State :: op_state
  op_Stage :: stage
  op_Result :: op_result
  op_Reason :: reason_class
  op_Response :: string

definition validateOpaqueJSON :: "string \<Rightarrow> string \<Rightarrow> op_error option" where
  "validateOpaqueJSON field payload =
    (if payload = [] then None
     else (case Decode Any payload of Inl e \<Rightarrow> Some (OpPayload field e) | Inr _ \<Rightarrow> None))"

text \<open>The checks on identity and vocabulary, then those that tie state, stage and result.\<close>

definition operation_identity_error :: "operation \<Rightarrow> op_error option" where
  "operation_identity_error x =
    first_err
     [reject (op_SchemaVersion x \<noteq> OperationSchemaVersion) (OpInvalid ''schema version''),
      OperationID_Validate (op_ID x),
      reject (\<not> Type_Valid (op_Type x)) (OpInvalid ''operation type''),
      Target_Validate (op_Target x),
      validateTypeTarget (op_Type x) (tg_Kind (op_Target x)),
      Fingerprint_Validate (op_Fingerprint x),
      reject (\<not> State_Valid (op_State x)) (OpInvalid ''operation state''),
      reject (\<not> Stage_Valid (op_Stage x)) (OpInvalid ''operation stage''),
      reject (\<not> Result_Valid (op_Result x)) (OpInvalid ''operation result''),
      reject (\<not> Reason_Valid (op_Reason x)) (OpInvalid ''operation reason'')]"

definition operation_state_error :: "operation \<Rightarrow> op_error option" where
  "operation_state_error x =
    first_err
     [reject (State_Active (op_State x) \<and> op_Result x \<noteq> ResultPending) (OpInvalid ''active result''),
      reject (op_State x = StateSucceeded \<and> op_Result x \<noteq> ResultSucceeded \<and> op_Result x \<noteq> ResultNoop)
        (OpInvalid ''succeeded result''),
      reject (op_State x = StateFailed \<and> op_Result x \<noteq> ResultFailed) (OpInvalid ''failed result''),
      reject (op_Result x = ResultFailed \<and> op_Reason x = ReasonNone) (OpInvalid ''failed reason''),
      reject (op_Result x \<noteq> ResultFailed \<and> op_Reason x \<noteq> ReasonNone) (OpInvalid ''reason''),
      validateOpaqueJSON ''operation response'' (op_Response x),
      reject (op_State x = StatePending \<and> op_Stage x \<noteq> StageValidate) (OpInvalid ''pending stage''),
      reject (op_State x = StateRunning \<and> (op_Stage x = StageValidate \<or> op_Stage x = StageComplete))
        (OpInvalid ''running stage''),
      reject (State_Terminal (op_State x) \<and> op_Stage x \<noteq> StageComplete) (OpInvalid ''terminal stage'')]"

definition Operation_Validate :: "operation \<Rightarrow> op_error option" where
  "Operation_Validate x = first_err [operation_identity_error x, operation_state_error x]"

subsection \<open>Events\<close>

record event =
  ev_SchemaVersion :: u32
  ev_Sequence :: u64
  ev_OperationID :: operation_id
  ev_Type :: op_type
  ev_Target :: target
  ev_Resources :: "target list"
  ev_Stage :: stage
  ev_Result :: op_result
  ev_Reason :: reason_class
  ev_OccurredAt :: gotime
  ev_Duration :: "duration option"
  ev_Generation :: u64
  ev_ObservedGeneration :: u64
  ev_Details :: string

definition validateEventResources :: "target \<Rightarrow> target list \<Rightarrow> bool \<Rightarrow> op_error option" where
  "validateEventResources primary resources allowAbsentDelete =
    first_err
     [reject (resources = []) (OpInvalid ''event resources''),
      dup_errs id (\<lambda>i r. wrap (OpWrapped ''event resource'') (Target_Validate r))
        (\<lambda>i. OpInvalid ''event resource'') 0 [] resources,
      reject (primary \<notin> set resources) (OpInvalid ''event resources''),
      (if (tg_Kind primary = TargetContainer \<or> tg_Kind primary = TargetAttempt) \<and> \<not> allowAbsentDelete
       then first_err (map (\<lambda>required. reject (\<not> list_ex (\<lambda>r. tg_Kind r = required) resources)
              (OpInvalid ''execution event resources''))
            [TargetSandbox, TargetContainer, TargetAttempt])
       else None)]"

definition allow_absent_delete :: "event \<Rightarrow> bool" where
  "allow_absent_delete e \<longleftrightarrow>
     ev_Type e = TypeDelete \<and> ev_Generation e = 0 \<and> ev_ObservedGeneration e = 0"

definition event_identity_error :: "event \<Rightarrow> op_error option" where
  "event_identity_error e =
    first_err
     [reject (ev_SchemaVersion e \<noteq> EventSchemaVersion) (OpInvalid ''event schema version''),
      Sequence_Validate (ev_Sequence e),
      OperationID_Validate (ev_OperationID e),
      reject (\<not> Type_Valid (ev_Type e)) (OpInvalid ''event operation type''),
      Target_Validate (ev_Target e),
      validateTypeTarget (ev_Type e) (tg_Kind (ev_Target e)),
      validateEventResources (ev_Target e) (ev_Resources e) (allow_absent_delete e)]"

definition event_fact_error :: "event \<Rightarrow> op_error option" where
  "event_fact_error e =
    first_err
     [reject (\<not> Stage_Valid (ev_Stage e)) (OpInvalid ''event stage''),
      reject (\<not> Result_Valid (ev_Result e)) (OpInvalid ''event result''),
      reject (\<not> Reason_Valid (ev_Reason e)) (OpInvalid ''event reason''),
      reject (ev_Result e = ResultFailed \<and> ev_Reason e = ReasonNone) (OpInvalid ''event reason''),
      reject (ev_Result e \<noteq> ResultFailed \<and> ev_Reason e \<noteq> ReasonNone) (OpInvalid ''event reason''),
      reject (time_IsZero (ev_OccurredAt e)) (OpInvalid ''event time''),
      (case ev_Duration e of None \<Rightarrow> None | Some d \<Rightarrow> Duration_Validate d),
      reject (ev_Generation e < ev_ObservedGeneration e) (OpInvalid ''event generation''),
      validateOpaqueJSON ''event details'' (ev_Details e)]"

definition Event_Validate :: "event \<Rightarrow> op_error option" where
  "Event_Validate e = first_err [event_identity_error e, event_fact_error e]"

definition Event_ValidateAfter :: "event \<Rightarrow> event \<Rightarrow> op_error option" where
  "Event_ValidateAfter e previous =
    (case Event_Validate previous of
       Some er \<Rightarrow> Some (OpWrapped ''previous event'' er)
     | None \<Rightarrow>
       (case Event_Validate e of
          Some er \<Rightarrow> Some er
        | None \<Rightarrow>
          (case Sequence_Next (ev_Sequence previous) of
             Inl er \<Rightarrow> Some er
           | Inr next \<Rightarrow> reject (ev_Sequence e \<noteq> next) (OpInvalid ''event sequence''))))"


subsection \<open>What validation ensures\<close>

lemma Operation_Validate_None:
  "Operation_Validate x = None \<longleftrightarrow>
     operation_identity_error x = None \<and> operation_state_error x = None"
  by (simp add: Operation_Validate_def)

lemma operation_identity_None:
  "operation_identity_error x = None \<longleftrightarrow>
     op_SchemaVersion x = 1 \<and> good_id (op_ID x) \<and> good_target (op_Target x)
     \<and> Type_Valid (op_Type x) \<and> type_allows (op_Type x) (tg_Kind (op_Target x))
     \<and> Fingerprint_Validate (op_Fingerprint x) = None \<and> State_Valid (op_State x)
     \<and> Stage_Valid (op_Stage x) \<and> Result_Valid (op_Result x) \<and> Reason_Valid (op_Reason x)"
  by (auto simp: operation_identity_error_def validateTypeTarget_def OperationSchemaVersion_def)

lemma validateOpaqueJSON_None:
  "validateOpaqueJSON field p = None \<longleftrightarrow> p = [] \<or> (\<exists>v. Decode Any p = Inr v)"
  by (auto simp: validateOpaqueJSON_def split: sum.split)

lemma validateOpaqueJSON_Nil [simp]: "validateOpaqueJSON field [] = None"
  by (simp add: validateOpaqueJSON_None)

lemma operation_state_None:
  "operation_state_error x = None \<longleftrightarrow>
     (State_Active (op_State x) \<longrightarrow> op_Result x = ResultPending)
     \<and> (op_State x = StateSucceeded \<longrightarrow> op_Result x = ResultSucceeded \<or> op_Result x = ResultNoop)
     \<and> (op_State x = StateFailed \<longrightarrow> op_Result x = ResultFailed)
     \<and> (op_Result x = ResultFailed \<longleftrightarrow> op_Reason x \<noteq> ReasonNone)
     \<and> validateOpaqueJSON ''operation response'' (op_Response x) = None
     \<and> (op_State x = StatePending \<longrightarrow> op_Stage x = StageValidate)
     \<and> (op_State x = StateRunning \<longrightarrow> op_Stage x \<noteq> StageValidate \<and> op_Stage x \<noteq> StageComplete)
     \<and> (State_Terminal (op_State x) \<longrightarrow> op_Stage x = StageComplete)"
  by (auto simp: operation_state_error_def)

lemmas operation_valid_iff = Operation_Validate_None operation_identity_None operation_state_None

lemma list_ex_kind: "list_ex (\<lambda>r. f r = k) xs \<longleftrightarrow> k \<in> f ` set xs"
  by (induction xs) auto

lemma validateEventResources_None:
  "validateEventResources t rs absent = None \<longleftrightarrow>
     t \<in> set rs \<and> distinct rs \<and> (\<forall>r \<in> set rs. good_target r)
     \<and> ((tg_Kind t = TargetContainer \<or> tg_Kind t = TargetAttempt) \<and> \<not> absent \<longrightarrow>
          {TargetSandbox, TargetContainer, TargetAttempt} \<subseteq> tg_Kind ` set rs)"
proof -
  have "dup_errs id (\<lambda>i r. wrap (OpWrapped ''event resource'') (Target_Validate r))
      (\<lambda>i. OpInvalid ''event resource'') 0 [] rs = None \<longleftrightarrow>
      (\<forall>r \<in> set rs. good_target r) \<and> distinct (map id rs)"
    by (rule dup_errs_None) simp
  then show ?thesis
    by (auto simp: validateEventResources_def list_ex_kind)
qed

lemma event_identity_None:
  "event_identity_error e = None \<longleftrightarrow>
     ev_SchemaVersion e = 2 \<and> ev_Sequence e \<noteq> 0 \<and> good_id (ev_OperationID e)
     \<and> Type_Valid (ev_Type e) \<and> good_target (ev_Target e)
     \<and> type_allows (ev_Type e) (tg_Kind (ev_Target e))
     \<and> validateEventResources (ev_Target e) (ev_Resources e) (allow_absent_delete e) = None"
  by (auto simp: event_identity_error_def validateTypeTarget_def EventSchemaVersion_def
      Sequence_Validate_def)

lemma event_fact_None:
  "event_fact_error e = None \<longleftrightarrow>
     Stage_Valid (ev_Stage e) \<and> Result_Valid (ev_Result e) \<and> Reason_Valid (ev_Reason e)
     \<and> (ev_Result e = ResultFailed \<longleftrightarrow> ev_Reason e \<noteq> ReasonNone)
     \<and> \<not> time_IsZero (ev_OccurredAt e) \<and> (\<forall>d. ev_Duration e = Some d \<longrightarrow> 0 \<le> d)
     \<and> ev_ObservedGeneration e \<le> ev_Generation e
     \<and> validateOpaqueJSON ''event details'' (ev_Details e) = None"
  by (cases "ev_Duration e") (auto simp: event_fact_error_def Duration_Validate_def not_less)

lemma Event_Validate_None:
  "Event_Validate e = None \<longleftrightarrow> event_identity_error e = None \<and> event_fact_error e = None"
  by (simp add: Event_Validate_def)

lemma Sequence_Next_Inr: "Sequence_Next s = Inr n \<longleftrightarrow> s \<noteq> -1 \<and> n = s + 1"
  by (auto simp: Sequence_Next_def)

lemma Event_ValidateAfter_None:
  "Event_ValidateAfter e p = None \<longleftrightarrow>
     Event_Validate p = None \<and> Event_Validate e = None
     \<and> ev_Sequence p \<noteq> -1 \<and> ev_Sequence e = ev_Sequence p + 1"
  by (auto simp: Event_ValidateAfter_def Sequence_Next_def split: option.split)

lemma runes_ascii: "list_all (\<lambda>b. b < 128) (bytes_of s) \<Longrightarrow> runes s = bytes_of s"
  by (induction s) (auto simp: runes_def)

lemma lower_hex_runes: "list_all lower_hex (bytes_of s) \<Longrightarrow> list_all lower_hex (runes s)"
proof -
  assume hex: "list_all lower_hex (bytes_of s)"
  then have "runes s = bytes_of s"
    by (intro runes_ascii) (auto simp: list_all_iff lower_hex_def in_range_def)
  with hex show ?thesis by simp
qed

subsection \<open>Examples\<close>

definition demo_fingerprint :: fingerprint where
  "demo_fingerprint = \<lparr>fp_Version = 1, fp_SHA256 = replicate 64 (CHR ''0'')\<rparr>"

definition sandbox_target :: target where
  "sandbox_target = \<lparr>tg_Kind = TargetSandbox, tg_ID = ''sandbox-1''\<rparr>"

definition demo_operation :: operation where
  "demo_operation =
    \<lparr>op_SchemaVersion = 1, op_ID = ''op-1'', op_Type = TypeCreate, op_Target = sandbox_target,
     op_Fingerprint = demo_fingerprint, op_State = StateFailed, op_Stage = StageComplete,
     op_Result = ResultFailed, op_Reason = ReasonInternal, op_Response = []\<rparr>"

definition demo_event :: "u64 \<Rightarrow> event" where
  "demo_event n =
    \<lparr>ev_SchemaVersion = 2, ev_Sequence = n, ev_OperationID = ''op-1'', ev_Type = TypeCreate,
     ev_Target = sandbox_target, ev_Resources = [sandbox_target], ev_Stage = StagePersistIntent,
     ev_Result = ResultPending, ev_Reason = ReasonNone,
     ev_OccurredAt = \<lparr>t_wall = 1, t_mono = None, t_loc = UTC\<rparr>, ev_Duration = None,
     ev_Generation = 1, ev_ObservedGeneration = 0, ev_Details = []\<rparr>"

lemma demo_good_ids [simp]: "good_id ''op-1''" "good_id ''sandbox-1''"
  by (rule plain_good_id; simp add: plain_char_def in_range_def)+

lemma demo_fingerprint_valid [simp]: "Fingerprint_Validate demo_fingerprint = None"
proof -
  have "list_all lower_hex (bytes_of (replicate 64 (CHR ''0'')))"
    by (simp add: bytes_of_def list_all_iff lower_hex_def in_range_def)
  then show ?thesis
    by (simp add: Fingerprint_Validate_def demo_fingerprint_def CurrentFingerprintVersion_def
        lower_hex_runes)
qed

lemma demo_operation_valid [simp]: "Operation_Validate demo_operation = None"
  by (simp add: operation_valid_iff demo_operation_def sandbox_target_def good_target_def)

lemma demo_event_valid: "n \<noteq> 0 \<Longrightarrow> Event_Validate (demo_event n) = None"
  by (simp add: Event_Validate_None event_identity_None event_fact_None validateEventResources_None
      demo_event_def sandbox_target_def good_target_def time_IsZero_def)

subsection \<open>Properties\<close>

text \<open>A valid operation is in exactly one of two shapes: active, with a pending result, no
  reason and a stage before completion, or terminal at the last stage with a replayable result
  whose reason is set exactly if it failed; and its verb applies to the kind of its target.\<close>

theorem operation_shape:
  assumes "Operation_Validate x = None"
  shows "(State_Active (op_State x) \<and> op_Result x = ResultPending \<and> op_Reason x = ReasonNone
      \<and> op_Stage x \<noteq> StageComplete) \<noteq>
    (State_Terminal (op_State x) \<and> op_Stage x = StageComplete
      \<and> op_Result x \<in> {ResultSucceeded, ResultNoop, ResultFailed}
      \<and> (op_Reason x \<noteq> ReasonNone) = (op_State x = StateFailed))
    \<and> type_allows (op_Type x) (tg_Kind (op_Target x))"
  using assms by (cases "op_State x") (auto simp: operation_valid_iff)

theorem operation_shape_witness:
  "State_Terminal (op_State demo_operation) \<and> op_Stage demo_operation = StageComplete"
proof -
  have "\<not> State_Active (op_State demo_operation)" by (simp add: demo_operation_def)
  with operation_shape [OF demo_operation_valid] show ?thesis by blast
qed

lemma chain_sequences:
  "successively (\<lambda>p e. Event_ValidateAfter e p = None) (p # es) \<Longrightarrow>
     map (unat \<circ> ev_Sequence) (p # es) = [unat (ev_Sequence p)..<unat (ev_Sequence p) + length (p # es)]"
proof (induction es arbitrary: p)
  case Nil
  then show ?case by simp
next
  case (Cons e es)
  then have follow: "ev_Sequence p \<noteq> -1" "ev_Sequence e = ev_Sequence p + 1"
    by (simp_all add: Event_ValidateAfter_None)
  have "successively (\<lambda>p e. Event_ValidateAfter e p = None) (e # es)"
    using Cons.prems by simp
  from Cons.IH [OF this] show ?case using unat_succ [OF follow(1)] follow(2)
    by (simp add: upt_rec [of "unat (ev_Sequence p)"] del: upt_Suc)
qed

text \<open>Events that follow one another have consecutive sequence numbers that start above
  zero and never wrap around.\<close>

theorem event_chain_consecutive:
  assumes "successively (\<lambda>p e. Event_ValidateAfter e p = None) (first # second # es)"
  shows "map (unat \<circ> ev_Sequence) (first # second # es) =
      [unat (ev_Sequence first)..<unat (ev_Sequence first) + length (first # second # es)]
    \<and> 0 < unat (ev_Sequence first)"
proof (rule conjI [OF chain_sequences [OF assms]])
  have "ev_Sequence first \<noteq> 0"
    using assms by (simp add: Event_ValidateAfter_None Event_Validate_None event_identity_None)
  then show "0 < unat (ev_Sequence first)" by (simp add: unat_gt_0)
qed

theorem event_chain_consecutive_witness:
  "map (unat \<circ> ev_Sequence) [demo_event 1, demo_event 2, demo_event 3] = [1..<4]"
proof -
  have "successively (\<lambda>p e. Event_ValidateAfter e p = None) [demo_event 1, demo_event 2, demo_event 3]"
    by (simp add: Event_ValidateAfter_None demo_event_valid) (simp add: demo_event_def)
  from event_chain_consecutive [OF this] show ?thesis by (simp add: demo_event_def upt_conv_Cons)
qed

text \<open>A valid event names its target among distinct, well-formed resources, and unless it
  reports the deletion of something already absent an event about a Container or Attempt names
  the whole execution identity: a Sandbox, a Container and an Attempt.\<close>

theorem event_names_execution:
  assumes "Event_Validate e = None"
    and "tg_Kind (ev_Target e) \<in> {TargetContainer, TargetAttempt}"
    and "\<not> (ev_Type e = TypeDelete \<and> ev_Generation e = 0)"
  shows "ev_Target e \<in> set (ev_Resources e) \<and> distinct (ev_Resources e)
    \<and> {TargetSandbox, TargetContainer, TargetAttempt} \<subseteq> tg_Kind ` set (ev_Resources e)
    \<and> list_all (\<lambda>r. good_id (tg_ID r)) (ev_Resources e)"
  using assms
  by (auto simp: Event_Validate_None event_identity_None validateEventResources_None
      allow_absent_delete_def list_all_iff good_target_def)

definition container_event :: event where
  "container_event = (demo_event 1)\<lparr>ev_Type := TypeStart,
     ev_Target := \<lparr>tg_Kind = TargetContainer, tg_ID = ''op-1''\<rparr>,
     ev_Resources := [sandbox_target, \<lparr>tg_Kind = TargetContainer, tg_ID = ''op-1''\<rparr>,
       \<lparr>tg_Kind = TargetAttempt, tg_ID = ''op-1''\<rparr>]\<rparr>"

theorem event_names_execution_witness:
  "TargetSandbox \<in> tg_Kind ` set (ev_Resources container_event)"
proof -
  have "Event_Validate container_event = None"
    by (simp add: Event_Validate_None event_identity_None event_fact_None validateEventResources_None
        container_event_def demo_event_def sandbox_target_def good_target_def time_IsZero_def)
  moreover have "tg_Kind (ev_Target container_event) \<in> {TargetContainer, TargetAttempt}"
    and "\<not> (ev_Type container_event = TypeDelete \<and> ev_Generation container_event = 0)"
    by (simp_all add: container_event_def)
  ultimately show ?thesis by (meson event_names_execution insert_subset)
qed

end
