(* ===== verification/Operation_Resolve.thy ===== *)
theory Operation_Resolve
  imports Operation_Model "HOL-Library.List_Lexorder" "HOL-Library.Multiset"
begin

text \<open>
  \<open>internal/operation/resolve.go\<close> and \<open>fingerprint.go\<close>: the immutable binding of an operation
  identity, the decision between a new, resumed or replayed request, the conflict with another
  active operation, and the canonical form of a request from which its fingerprint is taken.
\<close>

subsection \<open>Bindings\<close>

fun Type_string :: "op_type \<Rightarrow> string" where
  "Type_string TypeCreate = ''create''"
| "Type_string TypeStart = ''start''"
| "Type_string TypeState = ''state''"
| "Type_string TypeKill = ''kill''"
| "Type_string TypeStop = ''stop''"
| "Type_string TypeDelete = ''delete''"
| "Type_string (TypeOther s) = s"

fun TargetKind_String :: "target_kind \<Rightarrow> string" where
  "TargetKind_String TargetSandbox = ''sandbox''"
| "TargetKind_String TargetContainer = ''container''"
| "TargetKind_String TargetAttempt = ''attempt''"
| "TargetKind_String (TargetOther s) = s"

record binding =
  bd_ID :: operation_id
  bd_Type :: op_type
  bd_Target :: target
  bd_Fingerprint :: fingerprint

definition Binding_Validate :: "binding \<Rightarrow> op_error option" where
  "Binding_Validate b =
    first_err
     [OperationID_Validate (bd_ID b),
      reject (\<not> Type_Valid (bd_Type b)) (OpInvalid ''operation type''),
      Target_Validate (bd_Target b),
      validateTypeTarget (bd_Type b) (tg_Kind (bd_Target b)),
      Fingerprint_Validate (bd_Fingerprint b)]"

definition Operation_Binding :: "operation \<Rightarrow> binding" where
  "Operation_Binding x =
    \<lparr>bd_ID = op_ID x, bd_Type = op_Type x, bd_Target = op_Target x, bd_Fingerprint = op_Fingerprint x\<rparr>"

definition target_string :: "target \<Rightarrow> string" where
  "target_string t = TargetKind_String (tg_Kind t) @ ''/'' @ tg_ID t"

definition compareBinding :: "binding \<Rightarrow> binding \<Rightarrow> op_error option" where
  "compareBinding existing requested =
    (if bd_ID existing \<noteq> bd_ID requested
     then Some (BindingMismatch (bd_ID requested) ''operation_id'' (bd_ID existing) (bd_ID requested))
     else if bd_Type existing \<noteq> bd_Type requested
     then Some (BindingMismatch (bd_ID requested) ''operation_type''
       (Type_string (bd_Type existing)) (Type_string (bd_Type requested)))
     else if bd_Target existing \<noteq> bd_Target requested
     then Some (BindingMismatch (bd_ID requested) ''target''
       (target_string (bd_Target existing)) (target_string (bd_Target requested)))
     else if bd_Fingerprint existing \<noteq> bd_Fingerprint requested
     then Some (BindingMismatch (bd_ID requested) ''request_fingerprint''
       (fp_SHA256 (bd_Fingerprint existing)) (fp_SHA256 (bd_Fingerprint requested)))
     else None)"

lemma compareBinding_None [simp]: "compareBinding a b = None \<longleftrightarrow> a = b"
  by (auto simp: compareBinding_def)

subsection \<open>Resolution\<close>

datatype resolution = ResolutionNew | ResolutionResume | ResolutionReplay | ResolutionOther string

fun Resolution_Valid :: "resolution \<Rightarrow> bool" where
  "Resolution_Valid (ResolutionOther _) = False"
| "Resolution_Valid _ = True"

definition Resolve :: "operation option \<Rightarrow> binding \<Rightarrow> op_error + resolution" where
  "Resolve existing requested =
    require (wrap (OpWrapped ''requested binding'') (Binding_Validate requested))
     (case existing of
        None \<Rightarrow> Inr ResolutionNew
      | Some x \<Rightarrow>
        require (wrap (OpWrapped ''existing operation'') (Operation_Validate x))
         (require (compareBinding (Operation_Binding x) requested)
           (if State_Active (op_State x) then Inr ResolutionResume else Inr ResolutionReplay)))"

definition CheckActiveConflict :: "operation option \<Rightarrow> binding \<Rightarrow> op_error option" where
  "CheckActiveConflict active requested =
    (case Binding_Validate requested of
       Some e \<Rightarrow> Some (OpWrapped ''requested binding'' e)
     | None \<Rightarrow>
       (case active of
          None \<Rightarrow> None
        | Some x \<Rightarrow>
          (case Operation_Validate x of
             Some e \<Rightarrow> Some (OpWrapped ''active operation'' e)
           | None \<Rightarrow>
             if \<not> State_Active (op_State x) \<or> op_Target x \<noteq> bd_Target requested \<or> op_ID x = bd_ID requested
             then None
             else Some (ActiveConflict (TargetKind_String (tg_Kind (bd_Target requested)))
                    (tg_ID (bd_Target requested)) (op_ID x) (bd_ID requested)))))"

lemma valid_operation_binding: "Operation_Validate x = None \<Longrightarrow> Binding_Validate (Operation_Binding x) = None"
  by (simp add: operation_valid_iff Binding_Validate_def Operation_Binding_def validateTypeTarget_def)

subsection \<open>Canonical requests\<close>

text \<open>Decoding into \<open>any\<close> makes an object a map, where a later member replaces an earlier one of
  the same name; \<open>Marshal\<close> writes it in the order of its keys.\<close>

definition sorted_members :: "(string \<times> json) list \<Rightarrow> (string \<times> json) list" where
  "sorted_members kvs = sort_key fst (foldl (\<lambda>t (k, v). AList.update k v t) [] kvs)"

fun canonical :: "json \<Rightarrow> json" where
  "canonical (JObj kvs) = JObj (sorted_members (map (\<lambda>(k, v). (k, canonical v)) kvs))"
| "canonical (JArr vs) = JArr (map canonical vs)"
| "canonical v = v"

text \<open>The argument is the value that \<open>json.Marshal\<close> writes for the request.\<close>

definition CanonicalRequestJSON :: "json \<Rightarrow> op_error + string" where
  "CanonicalRequestJSON request =
    (case json_decode_one (lex (json_encode request)) of
       None \<Rightarrow> Inl (OpInvalid ''decode request for canonical fingerprint'')
     | Some (value, rest) \<Rightarrow>
       if rest = [] then Inr (json_encode (canonical value))
       else if json_decode_one rest \<noteq> None
       then Inl (OpInvalid ''canonical request contains more than one JSON value'')
       else Inl (OpInvalid ''check canonical request boundary''))"

definition CanonicalRequestFingerprint :: "json \<Rightarrow> op_error + fingerprint" where
  "CanonicalRequestFingerprint request =
    bind_res (CanonicalRequestJSON request) (\<lambda>text.
      Inr \<lparr>fp_Version = CurrentFingerprintVersion, fp_SHA256 = hex_EncodeToString (Sum256 text)\<rparr>)"

lemma fold_update_dom:
  "fst ` set (foldl (\<lambda>t (k, v). AList.update k v t) t kvs) = fst ` set t \<union> fst ` set kvs"
proof (induction kvs arbitrary: t)
  case Nil
  then show ?case by simp
next
  case (Cons kv kvs)
  then show ?case by (cases kv) (auto simp: dom_update)
qed

lemma fold_update_members:
  "set (foldl (\<lambda>t (k, v). AList.update k v t) t kvs) \<subseteq> set t \<union> set kvs"
proof (induction kvs arbitrary: t)
  case Nil
  then show ?case by simp
next
  case (Cons kv kvs)
  have "set (AList.update k v t) \<subseteq> insert (k, v) (set t)" for k v and t :: "('a \<times> 'b) list"
    by (induction t) auto
  with Cons.IH show ?case by (cases kv) fastforce
qed

lemma fold_update_wf: "wf_table t \<Longrightarrow> wf_table (foldl (\<lambda>t (k, v). AList.update k v t) t kvs)"
  by (induction kvs arbitrary: t) (auto simp: case_prod_beta')

lemma sorted_members_subset: "set (sorted_members kvs) \<subseteq> set kvs"
  using fold_update_members [of "[]" kvs] by (simp add: sorted_members_def)

lemma fold_update_distinct:
  "distinct (map fst (t @ kvs)) \<Longrightarrow> foldl (\<lambda>t (k, v). AList.update k v t) t kvs = t @ kvs"
proof (induction kvs arbitrary: t)
  case Nil
  then show ?case by simp
next
  case (Cons kv kvs)
  obtain k v where kv: "kv = (k, v)" by (cases kv)
  have "k \<notin> fst ` set t" using Cons.prems kv by auto
  then have "AList.update k v t = t @ [(k, v)]" by (induction t) auto
  with Cons.IH [of "t @ [(k, v)]"] Cons.prems kv show ?case by simp
qed

lemma sorted_members_distinct: "distinct (map fst kvs) \<Longrightarrow> sorted_members kvs = sort_key fst kvs"
  using fold_update_distinct [of "[]" kvs] by (simp add: sorted_members_def)

text \<open>The order in which the members of an object are written does not matter.\<close>

lemma sorted_members_order:
  assumes "distinct (map fst kvs)" and "mset kvs = mset kvs'"
  shows "sorted_members kvs = sorted_members kvs'"
proof -
  have "mset (map fst kvs) = mset (map fst kvs')" using assms(2) by simp
  with assms(1) have "distinct (map fst kvs')"
    using mset_eq_imp_distinct_iff by blast
  moreover have "inj_on fst (set kvs)" using assms(1) by (simp add: distinct_map)
  then have "sort_key fst kvs = sort_key fst kvs'"
    using assms(2) by (intro sort_key_inj_key_eq) simp_all
  ultimately show ?thesis using assms(1) by (simp add: sorted_members_distinct)
qed

lemma canonical_order:
  assumes "distinct (map fst kvs)" and "mset kvs = mset kvs'"
  shows "canonical (JObj kvs) = canonical (JObj kvs')"
proof -
  let ?f = "\<lambda>(k, v). (k, canonical v)"
  have "map fst (map ?f kvs) = map fst kvs" by (simp add: comp_def case_prod_beta')
  with assms(1) have "distinct (map fst (map ?f kvs))" by (simp only:)
  with assms(2) have "sorted_members (map ?f kvs) = sorted_members (map ?f kvs')"
    by (intro sorted_members_order) (simp_all only: mset_map)
  then show ?thesis by simp
qed

text \<open>A canonical value can be written if the request can.\<close>

lemma canonical_writable: "writable v \<Longrightarrow> writable (canonical v)"
proof (induction v rule: canonical.induct)
  case (1 kvs)
  have "ValidString (fst kv) \<and> writable (snd kv)"
    if "kv \<in> set (map (\<lambda>(k, v). (k, canonical v)) kvs)" for kv
    using that "1.IH" "1.prems" by (auto simp: list_all_iff)
  then have "\<forall>kv \<in> set (sorted_members (map (\<lambda>(k, v). (k, canonical v)) kvs)).
      ValidString (fst kv) \<and> writable (snd kv)"
    using sorted_members_subset by blast
  then show ?case by (auto simp: list_all_iff)
next
  case (2 vs)
  then show ?case by (auto simp: list_all_iff)
qed auto

lemma canonical_depth: "json_depth (canonical v) \<le> json_depth v"
proof (induction v rule: canonical.induct)
  case (1 kvs)
  have bound: "foldr (\<lambda>(k, v) d. max (json_depth v) d) xs 0 \<le> m \<longleftrightarrow>
      (\<forall>kv \<in> set xs. json_depth (snd kv) \<le> m)" for xs m
    by (induction xs) auto
  have "json_depth (snd kv) \<le> foldr (\<lambda>(k, v) d. max (json_depth v) d) kvs 0"
    if "kv \<in> set (map (\<lambda>(k, v). (k, canonical v)) kvs)" for kv
  proof -
    from that obtain k v where kv: "kv = (k, canonical v)" and mem: "(k, v) \<in> set kvs" by auto
    from json_depth_member(2) [OF mem] "1.IH" [OF mem refl] kv show ?thesis by simp
  qed
  then have "\<forall>kv \<in> set (sorted_members (map (\<lambda>(k, v). (k, canonical v)) kvs)).
      json_depth (snd kv) \<le> foldr (\<lambda>(k, v) d. max (json_depth v) d) kvs 0"
    using sorted_members_subset by blast
  then show ?case by (simp add: bound)
next
  case (2 vs)
  have bound: "foldr (\<lambda>v d. max (json_depth v) d) xs 0 \<le> m \<longleftrightarrow> (\<forall>v \<in> set xs. json_depth v \<le> m)" for xs m
    by (induction xs) auto
  have "json_depth (canonical v) \<le> foldr (\<lambda>v d. max (json_depth v) d) vs 0" if "v \<in> set vs" for v
    using "2.IH" [OF that] json_depth_member(1) [OF that] by simp
  then show ?case by (simp add: bound)
qed auto

lemma CanonicalRequestJSON_Inr:
  assumes "writable v" and "json_depth v \<le> maxNestingDepth"
  shows "CanonicalRequestJSON v = Inr (json_encode (canonical v))"
  using json_parse_encode [OF assms]
  by (auto simp: CanonicalRequestJSON_def json_parse_def split: option.splits list.splits)

lemma json_encode_inject:
  assumes "writable v" "json_depth v \<le> maxNestingDepth" "writable w" "json_depth w \<le> maxNestingDepth"
    and "json_encode v = json_encode w"
  shows "v = w"
proof -
  have "Some v = Some w"
    by (simp only: json_parse_encode [OF assms(1,2), symmetric] json_parse_encode [OF assms(3,4), symmetric]
        assms(5))
  then show ?thesis by (rule option.inject [THEN iffD1])
qed

lemma Resolve_Inr:
  "Resolve existing requested = Inr r \<longleftrightarrow>
     Binding_Validate requested = None
     \<and> (case existing of
          None \<Rightarrow> r = ResolutionNew
        | Some x \<Rightarrow> Operation_Validate x = None \<and> Operation_Binding x = requested
            \<and> r = (if State_Active (op_State x) then ResolutionResume else ResolutionReplay))"
  by (cases existing) (auto simp: Resolve_def)

subsection \<open>Properties\<close>

text \<open>C26. A request is new exactly if nothing is recorded, and otherwise it is resumed or
  replayed exactly if the record is valid and has the same identity, verb, target and
  fingerprint; anything else is an error.\<close>

theorem resolve_correct:
  "Resolve existing requested = Inr r \<longleftrightarrow>
     Binding_Validate requested = None
     \<and> (case existing of
          None \<Rightarrow> r = ResolutionNew
        | Some x \<Rightarrow> Operation_Validate x = None \<and> Operation_Binding x = requested
            \<and> r = (if State_Active (op_State x) then ResolutionResume else ResolutionReplay))"
  by (rule Resolve_Inr)

text \<open>Another operation conflicts with a request exactly if it is active on the same target
  under a different identity.\<close>

theorem active_conflict_correct:
  assumes "Binding_Validate requested = None" and "Operation_Validate x = None"
  shows "CheckActiveConflict (Some x) requested \<noteq> None \<longleftrightarrow>
    State_Active (op_State x) \<and> op_Target x = bd_Target requested \<and> op_ID x \<noteq> bd_ID requested"
  using assms by (simp add: CheckActiveConflict_def)

definition running_operation :: operation where
  "running_operation = demo_operation\<lparr>op_State := StateRunning, op_Stage := StageHostPreflight,
     op_Result := ResultPending, op_Reason := ReasonNone\<rparr>"

lemma running_operation_valid [simp]: "Operation_Validate running_operation = None"
  by (simp add: operation_valid_iff running_operation_def demo_operation_def sandbox_target_def
      good_target_def)

definition rival_binding :: binding where
  "rival_binding = (Operation_Binding demo_operation)\<lparr>bd_ID := ''sandbox-1''\<rparr>"

theorem active_conflict_correct_witness:
  "CheckActiveConflict (Some running_operation) rival_binding \<noteq> None"
proof -
  have "Binding_Validate rival_binding = None"
    using valid_operation_binding [OF demo_operation_valid]
    by (simp add: rival_binding_def Binding_Validate_def)
  moreover have "State_Active (op_State running_operation)"
    and "op_Target running_operation = bd_Target rival_binding"
    and "op_ID running_operation \<noteq> bd_ID rival_binding"
    by (simp_all add: running_operation_def rival_binding_def Operation_Binding_def demo_operation_def)
  ultimately show ?thesis using active_conflict_correct running_operation_valid by blast
qed



end
