(* ===== verification/Rollback.thy ===== *)
theory Rollback
  imports Operation_Model
begin

text \<open>
  \<open>internal/rollback/rollback.go\<close>: bounded diagnostics, the persisted descriptors and progress
  records, and the stack of inverse operations. An inverse is a function of the world it acts
  on that yields the changed world and an error; \<open>sync.Mutex\<close> makes every method but \<open>Run\<close> one
  step, and \<open>Run\<close> holds the \<open>running\<close> flag over its loop.
\<close>

datatype rb_error =
    RbInvalid string
  | RbRecord nat rb_error
  | RbDuplicate string
  | RbNoResolver
  | RbResolve string
  | RbSealed
  | RbOverflow

subsection \<open>Diagnostics\<close>

definition RollbackSchemaVersion :: u32 where "RollbackSchemaVersion = 1"

definition MaxDiagnosticBytes :: nat where "MaxDiagnosticBytes = 4096"

text \<open>The loop that drops bytes until a rune boundary; the empty text is valid.\<close>

function drop_to_rune :: "string \<Rightarrow> string" where
  "drop_to_rune m = (if ValidString m then m else drop_to_rune (butlast m))"
  by pat_completeness auto
termination
proof (relation "measure length")
  fix m :: string
  assume "\<not> ValidString m"
  then have "m \<noteq> []" by (auto simp: ValidString_def)
  then show "(butlast m, m) \<in> measure length" by simp
qed simp

declare drop_to_rune.simps [simp del]

definition boundedDiagnostic :: "string \<Rightarrow> string" where
  "boundedDiagnostic message =
    (let m = ToValidUTF8 message replacement_char in
     if length m \<le> MaxDiagnosticBytes then m else drop_to_rune (take MaxDiagnosticBytes m))"

lemma drop_to_rune_valid: "ValidString (drop_to_rune m)"
  by (induction m rule: drop_to_rune.induct) (subst drop_to_rune.simps, auto)

lemma drop_to_rune_prefix: "\<exists>n. drop_to_rune m = take n m"
proof (induction m rule: drop_to_rune.induct)
  case (1 m)
  show ?case
  proof (cases "ValidString m")
    case True
    then have "drop_to_rune m = take (length m) m" by (simp add: drop_to_rune.simps)
    then show ?thesis ..
  next
    case False
    with 1 obtain n where "drop_to_rune (butlast m) = take n (butlast m)" by auto
    then have "drop_to_rune m = take (min n (length m - 1)) m"
      using False by (simp add: drop_to_rune.simps [of m] butlast_conv_take min.commute)
    then show ?thesis ..
  qed
qed

lemma replacement_char_valid: "ValidString replacement_char"
  by (simp add: ValidString_def replacement_char_def cont_byte_def in_range_def rune_at.simps(2))

lemma boundedDiagnostic_valid: "ValidString (boundedDiagnostic m)"
  by (simp add: boundedDiagnostic_def Let_def drop_to_rune_valid ValidString_ToValidUTF8
      replacement_char_valid)

lemma boundedDiagnostic_prefix: "\<exists>n. boundedDiagnostic m = take n (ToValidUTF8 m replacement_char)"
proof -
  let ?m = "ToValidUTF8 m replacement_char"
  obtain k where "drop_to_rune (take MaxDiagnosticBytes ?m) = take k (take MaxDiagnosticBytes ?m)"
    using drop_to_rune_prefix by blast
  then have "boundedDiagnostic m = take (if length ?m \<le> MaxDiagnosticBytes then length ?m
      else min k MaxDiagnosticBytes) ?m"
    by (simp add: boundedDiagnostic_def Let_def min.commute)
  then show ?thesis ..
qed

lemma boundedDiagnostic_length: "length (boundedDiagnostic m) \<le> MaxDiagnosticBytes"
proof -
  let ?m = "ToValidUTF8 m replacement_char"
  obtain k where "drop_to_rune (take MaxDiagnosticBytes ?m) = take k (take MaxDiagnosticBytes ?m)"
    using drop_to_rune_prefix by blast
  then show ?thesis by (simp add: boundedDiagnostic_def Let_def)
qed

lemma boundedDiagnostic_id:
  "ToValidUTF8 m replacement_char = m \<Longrightarrow> length m \<le> MaxDiagnosticBytes \<Longrightarrow> boundedDiagnostic m = m"
  by (simp add: boundedDiagnostic_def)

subsection \<open>Causes, descriptors and records\<close>

record rb_cause =
  rc_Reason :: reason_class
  rc_Message :: string

definition Cause_Validate :: "rb_cause \<Rightarrow> rb_error option" where
  "Cause_Validate c =
    first_err
     [reject (\<not> Reason_Valid (rc_Reason c) \<or> rc_Reason c = ReasonNone) (RbInvalid ''cause reason''),
      reject (TrimSpace (rc_Message c) = []) (RbInvalid ''cause message''),
      reject (MaxDiagnosticBytes < length (rc_Message c)) (RbInvalid ''cause message'')]"

definition NewCause :: "reason_class \<Rightarrow> string \<Rightarrow> rb_error + rb_cause" where
  "NewCause reason message =
    (let c = \<lparr>rc_Reason = reason, rc_Message = boundedDiagnostic message\<rparr>
     in require (Cause_Validate c) (Inr c))"

record descriptor =
  rd_SchemaVersion :: u32
  rd_Name :: string
  rd_Action :: string
  rd_Target :: string
  rd_Metadata :: string

definition Descriptor_Validate :: "descriptor \<Rightarrow> rb_error option" where
  "Descriptor_Validate d =
    first_err
     [reject (rd_SchemaVersion d \<noteq> RollbackSchemaVersion) (RbInvalid ''schema version''),
      reject (TrimSpace (rd_Name d) = []) (RbInvalid ''name''),
      reject (TrimSpace (rd_Action d) = []) (RbInvalid ''action''),
      reject (TrimSpace (rd_Target d) = []) (RbInvalid ''target''),
      reject (rd_Metadata d \<noteq> [] \<and> \<not> json_Valid (rd_Metadata d)) (RbInvalid ''metadata'')]"

record rb_record =
  rr_Descriptor :: descriptor
  rr_Succeeded :: bool
  rr_Started :: bool
  rr_Attempts :: u32
  rr_LastError :: string

definition Record_Validate :: "rb_record \<Rightarrow> rb_error option" where
  "Record_Validate r =
    first_err
     [Descriptor_Validate (rr_Descriptor r),
      reject (rr_Succeeded r \<and> \<not> rr_Started r) (RbInvalid ''started''),
      reject (rr_Attempts r = 0 \<and> rr_LastError r \<noteq> []) (RbInvalid ''last error''),
      reject (0 < rr_Attempts r \<and> TrimSpace (rr_LastError r) = []) (RbInvalid ''last error''),
      reject (MaxDiagnosticBytes < length (rr_LastError r)) (RbInvalid ''last error'')]"

text \<open>The argument is the text of the error; \<open>None\<close> is the nil error.\<close>

definition RecordFailure :: "rb_record \<Rightarrow> string option \<Rightarrow> rb_error + rb_record" where
  "RecordFailure r err =
    (case err of
       None \<Rightarrow> Inl (RbInvalid ''rollback failure'')
     | Some text \<Rightarrow>
       if rr_Attempts r = -1 then Inl RbOverflow
       else let r' = r\<lparr>rr_Started := True, rr_Attempts := rr_Attempts r + 1,
                       rr_LastError := boundedDiagnostic text\<rparr>
            in require (Record_Validate r') (Inr r'))"

subsection \<open>The stack\<close>

type_synonym ('w, 'e) inverse = "'w \<Rightarrow> 'w \<times> 'e option"

record ('w, 'e) rb_step =
  rs_descriptor :: descriptor
  rs_inverse :: "('w, 'e) inverse"
  rs_succeeded :: bool

record ('w, 'e) rb_stack =
  st_steps :: "('w, 'e) rb_step list"
  st_sealed :: bool
  st_running :: bool

definition New :: "('w, 'e) rb_stack" where
  "New = \<lparr>st_steps = [], st_sealed = False, st_running = False\<rparr>"

definition Push ::
    "('w, 'e) rb_stack \<Rightarrow> descriptor \<Rightarrow> ('w, 'e) inverse option \<Rightarrow> ('w, 'e) rb_stack \<times> rb_error option" where
  "Push s d handler =
    (case Descriptor_Validate d of
       Some e \<Rightarrow> (s, Some e)
     | None \<Rightarrow>
       (case handler of
          None \<Rightarrow> (s, Some (RbInvalid ''inverse''))
        | Some f \<Rightarrow>
          if st_sealed s then (s, Some RbSealed)
          else if list_ex (\<lambda>x. rd_Name (rs_descriptor x) = rd_Name d) (st_steps s)
          then (s, Some (RbDuplicate (rd_Name d)))
          else (s\<lparr>st_steps := st_steps s @
                  [\<lparr>rs_descriptor = d, rs_inverse = f, rs_succeeded = False\<rparr>]\<rparr>, None)))"

definition Begin :: "('w, 'e) rb_stack \<Rightarrow> ('w, 'e) rb_stack" where
  "Begin s = s\<lparr>st_sealed := True\<rparr>"

definition Snapshot :: "('w, 'e) rb_stack \<Rightarrow> rb_record list" where
  "Snapshot s =
    map (\<lambda>x. \<lparr>rr_Descriptor = rs_descriptor x, rr_Succeeded = rs_succeeded x,
              rr_Started = st_sealed s, rr_Attempts = 0, rr_LastError = []\<rparr>) (st_steps s)"

definition Pending :: "('w, 'e) rb_stack \<Rightarrow> nat" where
  "Pending s = length (filter (\<lambda>x. \<not> rs_succeeded x) (st_steps s))"

text \<open>\<open>Restore\<close> with its set of seen names. The resolver is nil or yields an error or an inverse,
  which may be nil too.\<close>

type_synonym ('w, 'e) resolver = "descriptor \<Rightarrow> unit + ('w, 'e) inverse option"

definition restore_inverse ::
    "('w, 'e) resolver option \<Rightarrow> rb_record \<Rightarrow> rb_error + ('w, 'e) inverse" where
  "restore_inverse resolver r =
    (if rr_Succeeded r then Inr (\<lambda>w. (w, None))
     else (case resolver of
        None \<Rightarrow> Inl RbNoResolver
      | Some f \<Rightarrow>
        (case f (rr_Descriptor r) of
           Inr (Some handler) \<Rightarrow> Inr handler
         | _ \<Rightarrow> Inl (RbResolve (rd_Name (rr_Descriptor r))))))"

fun restore_from ::
    "('w, 'e) resolver option \<Rightarrow> nat \<Rightarrow> string list \<Rightarrow> ('w, 'e) rb_stack \<Rightarrow> rb_record list
     \<Rightarrow> rb_error + ('w, 'e) rb_stack" where
  "restore_from resolver i seen s [] = Inr s"
| "restore_from resolver i seen s (r # rs) =
    (case Record_Validate r of
       Some e \<Rightarrow> Inl (RbRecord i e)
     | None \<Rightarrow>
       if rd_Name (rr_Descriptor r) \<in> set seen then Inl (RbDuplicate (rd_Name (rr_Descriptor r)))
       else bind_res (restore_inverse resolver r) (\<lambda>handler.
         restore_from resolver (Suc i) (rd_Name (rr_Descriptor r) # seen)
           (s\<lparr>st_steps := st_steps s @ [\<lparr>rs_descriptor = rr_Descriptor r, rs_inverse = handler,
                rs_succeeded = rr_Succeeded r\<rparr>],
              st_sealed := st_sealed s \<or> rr_Started r\<rparr>) rs))"

definition Restore ::
    "rb_record list \<Rightarrow> ('w, 'e) resolver option \<Rightarrow> rb_error + ('w, 'e) rb_stack" where
  "Restore records resolver = restore_from resolver 0 [] New records"

subsection \<open>Running the inverses\<close>

datatype 'e run_error = AlreadyRunning | InverseError 'e

record 'e rb_report =
  rp_Primary :: "'e option"
  rp_Failures :: "(descriptor \<times> 'e run_error) list"

text \<open>The loop over the steps, newest first: the steps after it, the failures in the order they
  occurred, and the world.\<close>

fun run_lifo ::
    "('w, 'e) rb_step list \<Rightarrow> 'w \<Rightarrow> ('w, 'e) rb_step list \<times> (descriptor \<times> 'e run_error) list \<times> 'w" where
  "run_lifo [] w = ([], [], w)"
| "run_lifo (x # xs) w =
    (if rs_succeeded x then
       let (xs', fs, w') = run_lifo xs w in (x # xs', fs, w')
     else
       (case rs_inverse x w of
          (w1, Some e) \<Rightarrow>
            let (xs', fs, w') = run_lifo xs w1 in (x # xs', (rs_descriptor x, InverseError e) # fs, w')
        | (w1, None) \<Rightarrow>
            let (xs', fs, w') = run_lifo xs w1 in (x\<lparr>rs_succeeded := True\<rparr> # xs', fs, w')))"

definition concurrent_descriptor :: descriptor where
  "concurrent_descriptor =
    \<lparr>rd_SchemaVersion = RollbackSchemaVersion, rd_Name = ''stack'', rd_Action = ''rollback'',
     rd_Target = ''concurrent'', rd_Metadata = []\<rparr>"

definition Run ::
    "('w, 'e) rb_stack \<Rightarrow> 'e option \<Rightarrow> 'w \<Rightarrow> ('w, 'e) rb_stack \<times> 'e rb_report \<times> 'w" where
  "Run s primary w =
    (let b = Begin s in
     if st_running b
     then (b, \<lparr>rp_Primary = primary, rp_Failures = [(concurrent_descriptor, AlreadyRunning)]\<rparr>, w)
     else let (xs, fs, w') = run_lifo (rev (st_steps b)) w
          in (b\<lparr>st_steps := rev xs, st_running := False\<rparr>,
              \<lparr>rp_Primary = primary, rp_Failures = fs\<rparr>, w'))"

definition Report_Err :: "'e rb_report \<Rightarrow> 'e rb_report option" where
  "Report_Err r = (if rp_Primary r = None \<and> rp_Failures r = [] then None else Some r)"

datatype 'e unwrapped = PrimaryError 'e | StepFailure descriptor "'e run_error"

definition Error_Unwrap :: "'e rb_report \<Rightarrow> 'e unwrapped list" where
  "Error_Unwrap r =
    (case rp_Primary r of None \<Rightarrow> [] | Some e \<Rightarrow> [PrimaryError e])
    @ map (\<lambda>(d, e). StepFailure d e) (rp_Failures r)"

subsection \<open>What a run does\<close>

text \<open>The specification: the inverses still pending, newest first, each applied to the world
  the one before it left, with the errors collected.\<close>

definition pending_lifo :: "('w, 'e) rb_stack \<Rightarrow> ('w, 'e) rb_step list" where
  "pending_lifo s = filter (\<lambda>x. \<not> rs_succeeded x) (rev (st_steps s))"

fun worlds :: "('w, 'e) rb_step list \<Rightarrow> 'w \<Rightarrow> 'w list" where
  "worlds [] w = [w]"
| "worlds (x # xs) w = w # worlds xs (fst (rs_inverse x w))"

definition outcomes_of :: "('w, 'e) rb_step list \<Rightarrow> 'w \<Rightarrow> (descriptor \<times> 'e option) list" where
  "outcomes_of xs w = map2 (\<lambda>x v. (rs_descriptor x, snd (rs_inverse x v))) xs (worlds xs w)"

definition failures_of :: "(descriptor \<times> 'e option) list \<Rightarrow> (descriptor \<times> 'e run_error) list" where
  "failures_of os = concat (map (\<lambda>(d, e). case e of None \<Rightarrow> [] | Some e \<Rightarrow> [(d, InverseError e)]) os)"

lemma outcomes_Cons:
  "outcomes_of (x # xs) w =
     (rs_descriptor x, snd (rs_inverse x w)) # outcomes_of xs (fst (rs_inverse x w))"
  by (simp add: outcomes_of_def)

lemma failures_Cons:
  "failures_of ((d, e) # os) = (case e of None \<Rightarrow> [] | Some e \<Rightarrow> [(d, InverseError e)]) @ failures_of os"
  by (simp add: failures_of_def)

lemma worlds_not_Nil [simp]: "worlds xs w \<noteq> []"
  by (cases xs) auto

lemma run_lifo_spec:
  assumes "run_lifo xs w = (xs', fs, w')"
  shows "fs = failures_of (outcomes_of (filter (\<lambda>x. \<not> rs_succeeded x) xs) w)"
    and "w' = last (worlds (filter (\<lambda>x. \<not> rs_succeeded x) xs) w)"
  using assms
  by (induction xs arbitrary: w xs' fs w')
    (auto simp: outcomes_Cons failures_Cons failures_of_def outcomes_of_def Let_def
      split: if_splits prod.splits option.splits)

text \<open>Only the success marks change, and a mark is set exactly if the inverse had none and
  succeeded: the steps still pending are those that failed.\<close>

lemma run_lifo_steps:
  assumes "run_lifo xs w = (xs', fs, w')"
  shows "map rs_descriptor xs' = map rs_descriptor xs" and "map rs_inverse xs' = map rs_inverse xs"
    and "map rs_descriptor (filter (\<lambda>x. \<not> rs_succeeded x) xs') = map fst fs"
    and "list_all2 (\<lambda>x x'. rs_succeeded x \<longrightarrow> x' = x) xs xs'"
  using assms
  by (induction xs arbitrary: w xs' fs w')
    (auto simp: Let_def split: if_splits prod.splits option.splits)


subsection \<open>Reachable stacks\<close>

inductive rb_reachable :: "('w, 'e) rb_stack \<Rightarrow> bool" where
  new: "rb_reachable New"
| push: "rb_reachable s \<Longrightarrow> rb_reachable (fst (Push s d f))"
| begin_step: "rb_reachable s \<Longrightarrow> rb_reachable (Begin s)"
| run: "rb_reachable s \<Longrightarrow> rb_reachable (fst (Run s p w))"

definition wf_stack :: "('w, 'e) rb_stack \<Rightarrow> bool" where
  "wf_stack s \<longleftrightarrow>
     (\<forall>x \<in> set (st_steps s). Descriptor_Validate (rs_descriptor x) = None)
     \<and> distinct (map (rd_Name \<circ> rs_descriptor) (st_steps s))
     \<and> (\<not> st_sealed s \<longrightarrow> (\<forall>x \<in> set (st_steps s). \<not> rs_succeeded x)) \<and> \<not> st_running s"

lemma wf_stack_New: "wf_stack New"
  by (simp add: wf_stack_def New_def)

lemma wf_stack_Push: "wf_stack s \<Longrightarrow> wf_stack (fst (Push s d f))"
  by (auto simp: wf_stack_def Push_def list_ex_iff split: option.split)

lemma wf_stack_Begin: "wf_stack s \<Longrightarrow> wf_stack (Begin s)"
  by (auto simp: wf_stack_def Begin_def)

lemma Run_idle:
  assumes "\<not> st_running s" and "Run s p w = (s', r, w')"
  obtains xs fs where "run_lifo (rev (st_steps s)) w = (xs, fs, w')"
    and "s' = s\<lparr>st_sealed := True, st_steps := rev xs, st_running := False\<rparr>"
    and "r = \<lparr>rp_Primary = p, rp_Failures = fs\<rparr>"
  using assms by (auto simp: Run_def Begin_def Let_def split: prod.splits)

lemma wf_stack_Run:
  assumes "wf_stack s"
  shows "wf_stack (fst (Run s p w))"
proof -
  obtain s' r w' where run: "Run s p w = (s', r, w')" by (cases "Run s p w")
  have idle: "\<not> st_running s" using assms by (simp add: wf_stack_def)
  from Run_idle [OF idle run] obtain xs fs where lifo: "run_lifo (rev (st_steps s)) w = (xs, fs, w')"
    and s': "s' = s\<lparr>st_sealed := True, st_steps := rev xs, st_running := False\<rparr>" by metis
  have descs: "map rs_descriptor (rev xs) = map rs_descriptor (st_steps s)"
    using run_lifo_steps(1) [OF lifo] by (simp add: rev_map [symmetric] rev_swap)
  then have "map (rd_Name \<circ> rs_descriptor) (rev xs) = map (rd_Name \<circ> rs_descriptor) (st_steps s)"
    by (metis list.map_comp)
  moreover have "Descriptor_Validate (rs_descriptor x) = None" if "x \<in> set xs" for x
  proof -
    have "rs_descriptor x \<in> set (map rs_descriptor (st_steps s))"
      using that by (simp only: descs [symmetric]) simp
    then show ?thesis using assms by (auto simp: wf_stack_def)
  qed
  ultimately show ?thesis
    using assms by (simp add: run s' wf_stack_def)
qed

lemma reachable_wf: "rb_reachable s \<Longrightarrow> wf_stack s"
  by (induction rule: rb_reachable.induct)
    (auto intro: wf_stack_New wf_stack_Push wf_stack_Begin wf_stack_Run)

text \<open>Restoring rebuilds one step per record.\<close>

lemma restore_from_Snapshot:
  assumes "\<forall>r \<in> set rs. Record_Validate r = None"
    and "distinct (map (rd_Name \<circ> rr_Descriptor) rs)"
    and "\<forall>r \<in> set rs. rd_Name (rr_Descriptor r) \<notin> set seen"
    and "\<forall>r \<in> set rs. \<exists>f. restore_inverse resolver r = Inr f"
  shows "restore_from resolver i seen s rs = Inr
    (s\<lparr>st_steps := st_steps s @ map (\<lambda>r. \<lparr>rs_descriptor = rr_Descriptor r,
         rs_inverse = (case restore_inverse resolver r of Inr f \<Rightarrow> f), rs_succeeded = rr_Succeeded r\<rparr>) rs,
       st_sealed := st_sealed s \<or> list_ex rr_Started rs\<rparr>)"
  using assms
proof (induction rs arbitrary: i seen s)
  case Nil
  then show ?case by simp
next
  case (Cons r rs)
  then obtain f where f: "restore_inverse resolver r = Inr f" by auto
  let ?s = "s\<lparr>st_steps := st_steps s @ [\<lparr>rs_descriptor = rr_Descriptor r, rs_inverse = f,
      rs_succeeded = rr_Succeeded r\<rparr>], st_sealed := st_sealed s \<or> rr_Started r\<rparr>"
  have "\<forall>q \<in> set rs. rd_Name (rr_Descriptor q) \<notin> set (rd_Name (rr_Descriptor r) # seen)"
    using Cons.prems(2,3) by (auto simp: image_iff)
  with Cons.prems have "restore_from resolver (Suc i) (rd_Name (rr_Descriptor r) # seen) ?s rs = Inr
      (?s\<lparr>st_steps := st_steps ?s @ map (\<lambda>r. \<lparr>rs_descriptor = rr_Descriptor r,
         rs_inverse = (case restore_inverse resolver r of Inr f \<Rightarrow> f), rs_succeeded = rr_Succeeded r\<rparr>) rs,
       st_sealed := st_sealed ?s \<or> list_ex rr_Started rs\<rparr>)"
    by (intro Cons.IH) simp_all
  with f Cons.prems show ?case by simp
qed

lemma Snapshot_records_valid:
  assumes "wf_stack s" and "r \<in> set (Snapshot s)"
  shows "Record_Validate r = None"
  using assms by (auto simp: wf_stack_def Snapshot_def Record_Validate_def)

definition resolves :: "('w, 'e) resolver \<Rightarrow> ('w, 'e) rb_stack \<Rightarrow> bool" where
  "resolves f s \<longleftrightarrow>
     list_all (\<lambda>x. rs_succeeded x \<or> f (rs_descriptor x) = Inr (Some (rs_inverse x))) (st_steps s)"

lemma Restore_Snapshot:
  assumes "wf_stack s" and "resolves f s"
  shows "Restore (Snapshot s) (Some f) = Inr
    \<lparr>st_steps = map (\<lambda>x. if rs_succeeded x then x\<lparr>rs_inverse := \<lambda>w. (w, None)\<rparr> else x) (st_steps s),
     st_sealed = (st_sealed s \<and> st_steps s \<noteq> []), st_running = False\<rparr>"
proof -
  have valid: "\<forall>r \<in> set (Snapshot s). Record_Validate r = None"
    using Snapshot_records_valid assms(1) by blast
  have names: "distinct (map (rd_Name \<circ> rr_Descriptor) (Snapshot s))"
    using assms(1) by (simp add: Snapshot_def wf_stack_def comp_def)
  have found: "\<forall>r \<in> set (Snapshot s). \<exists>h. restore_inverse (Some f) r = Inr h"
    using assms(2) by (auto simp: Snapshot_def restore_inverse_def resolves_def list_all_iff)
  note restore_from_Snapshot [OF valid names _ found, of "[]" 0 New]
  moreover have "list_ex rr_Started (Snapshot s) \<longleftrightarrow> st_sealed s \<and> st_steps s \<noteq> []"
    by (cases "st_steps s") (auto simp: Snapshot_def list_ex_iff)
  moreover have "map (\<lambda>r. \<lparr>rs_descriptor = rr_Descriptor r,
         rs_inverse = (case restore_inverse (Some f) r of Inr f \<Rightarrow> f), rs_succeeded = rr_Succeeded r\<rparr>) (Snapshot s)
      = map (\<lambda>x. if rs_succeeded x then x\<lparr>rs_inverse := \<lambda>w. (w, None)\<rparr> else x) (st_steps s)"
    using assms(2) by (auto simp: Snapshot_def restore_inverse_def resolves_def list_all_iff)
  ultimately show ?thesis by (simp add: Restore_def New_def)
qed


lemma run_lifo_marks:
  "run_lifo xs w = (xs', fs, w') \<Longrightarrow> fs = [] \<Longrightarrow> list_all rs_succeeded xs'"
  by (induction xs arbitrary: w xs' fs w')
    (auto simp: Let_def split: if_splits prod.splits option.splits)

lemma run_lifo_done: "list_all rs_succeeded xs \<Longrightarrow> run_lifo xs w = (xs, [], w)"
  by (induction xs) (auto simp: Let_def)

lemma pending_lifo_filter: "pending_lifo s = filter (\<lambda>x. \<not> rs_succeeded x) (rev (st_steps s))"
  by (simp add: pending_lifo_def)

text \<open>A run of an idle stack, related to the specification.\<close>

lemma Run_spec:
  assumes "\<not> st_running s" and "Run s p w = (s', r, w')"
  shows "rp_Primary r = p \<and> rp_Failures r = failures_of (outcomes_of (pending_lifo s) w)
    \<and> w' = last (worlds (pending_lifo s) w)
    \<and> map rs_descriptor (pending_lifo s') = map fst (rp_Failures r)
    \<and> map rs_descriptor (st_steps s') = map rs_descriptor (st_steps s) \<and> st_sealed s'"
proof -
  from Run_idle [OF assms] obtain xs fs where lifo: "run_lifo (rev (st_steps s)) w = (xs, fs, w')"
    and s': "s' = s\<lparr>st_sealed := True, st_steps := rev xs, st_running := False\<rparr>"
    and r: "r = \<lparr>rp_Primary = p, rp_Failures = fs\<rparr>" by metis
  show ?thesis
    using run_lifo_spec [OF lifo] run_lifo_steps(1,3) [OF lifo]
    by (simp add: s' r pending_lifo_def rev_map [symmetric] rev_swap)
qed

lemma Run_snd:
  assumes "\<not> st_running s"
  shows "snd (Run s p w) =
    (\<lparr>rp_Primary = p, rp_Failures = failures_of (outcomes_of (pending_lifo s) w)\<rparr>,
     last (worlds (pending_lifo s) w))"
proof -
  obtain s' r w' where run: "Run s p w = (s', r, w')" by (cases "Run s p w")
  from Run_spec [OF assms run] show ?thesis by (cases r) (simp add: run)
qed

subsection \<open>Properties\<close>

text \<open>C28. A rollback runs exactly the inverses that have not succeeded, newest first, each on
  the world left by the one before; it carries on after a failure, reports every failure in that
  order together with the primary error, leaves exactly the failed steps pending and keeps the
  registered steps.\<close>

theorem rollback_runs_lifo:
  assumes "rb_reachable s" and "Run s p w = (s', r, w')"
  shows "rp_Primary r = p \<and> rp_Failures r = failures_of (outcomes_of (pending_lifo s) w)
    \<and> w' = last (worlds (pending_lifo s) w)
    \<and> map rs_descriptor (pending_lifo s') = map fst (rp_Failures r)
    \<and> map rs_descriptor (st_steps s') = map rs_descriptor (st_steps s) \<and> st_sealed s'"
proof -
  have "\<not> st_running s" using reachable_wf [OF assms(1)] by (simp add: wf_stack_def)
  then show ?thesis using assms(2) by (rule Run_spec)
qed

definition demo_descriptor :: "string \<Rightarrow> descriptor" where
  "demo_descriptor n =
    \<lparr>rd_SchemaVersion = 1, rd_Name = n, rd_Action = ''remove'', rd_Target = ''t'', rd_Metadata = []\<rparr>"

text \<open>Two steps over a log of names; the older one fails while the log has fewer than three
  entries.\<close>

definition demo_stack :: "(string list, string) rb_stack" where
  "demo_stack =
    fst (Push (fst (Push New (demo_descriptor ''a'')
           (Some (\<lambda>l. (''a'' # l, if length l < 2 then Some ''busy'' else None)))))
         (demo_descriptor ''b'') (Some (\<lambda>l. (''b'' # l, None))))"

lemma demo_descriptor_valid: "plain n \<Longrightarrow> n \<noteq> [] \<Longrightarrow> Descriptor_Validate (demo_descriptor n) = None"
  by (simp add: Descriptor_Validate_def demo_descriptor_def RollbackSchemaVersion_def plain_TrimSpace
      plain_char_def in_range_def)

lemma demo_descriptors [simp]:
  "Descriptor_Validate (demo_descriptor ''a'') = None"
  "Descriptor_Validate (demo_descriptor ''b'') = None"
  "rd_Name (demo_descriptor n) = n"
  by (rule demo_descriptor_valid; simp add: plain_char_def in_range_def)+
    (simp add: demo_descriptor_def)

lemma demo_stack_eq:
  "demo_stack = \<lparr>st_steps =
     [\<lparr>rs_descriptor = demo_descriptor ''a'',
       rs_inverse = (\<lambda>l. (''a'' # l, if length l < 2 then Some ''busy'' else None)), rs_succeeded = False\<rparr>,
      \<lparr>rs_descriptor = demo_descriptor ''b'', rs_inverse = (\<lambda>l. (''b'' # l, None)), rs_succeeded = False\<rparr>],
     st_sealed = False, st_running = False\<rparr>"
  by (simp add: demo_stack_def Push_def New_def)

lemma demo_stack_reachable: "rb_reachable demo_stack"
  unfolding demo_stack_def by (intro rb_reachable.intros)

lemma demo_run:
  "Run demo_stack None [] =
    (\<lparr>st_steps =
      [\<lparr>rs_descriptor = demo_descriptor ''a'',
        rs_inverse = (\<lambda>l. (''a'' # l, if length l < 2 then Some ''busy'' else None)), rs_succeeded = False\<rparr>,
       \<lparr>rs_descriptor = demo_descriptor ''b'', rs_inverse = (\<lambda>l. (''b'' # l, None)), rs_succeeded = True\<rparr>],
      st_sealed = True, st_running = False\<rparr>,
     \<lparr>rp_Primary = None, rp_Failures = [(demo_descriptor ''a'', InverseError ''busy'')]\<rparr>, [''a'', ''b''])"
  by (simp add: Run_def demo_stack_eq Begin_def)

theorem rollback_runs_lifo_witness:
  "[''a'', ''b''] = last (worlds (pending_lifo demo_stack) [])
   \<and> map rs_descriptor (pending_lifo (fst (Run demo_stack None []))) = [demo_descriptor ''a'']"
  using rollback_runs_lifo [OF demo_stack_reachable demo_run] by (simp add: demo_run)

text \<open>C29. Once a rollback reports no failed step nothing is pending, and running it again
  touches nothing and reports nothing.\<close>

theorem rollback_completes_once:
  assumes "rb_reachable s" and "Run s p w = (s', r, w')" and "rp_Failures r = []"
  shows "Pending s' = 0 \<and> Run s' q v = (s', \<lparr>rp_Primary = q, rp_Failures = []\<rparr>, v)"
proof -
  have idle: "\<not> st_running s" using reachable_wf [OF assms(1)] by (simp add: wf_stack_def)
  from Run_idle [OF this assms(2)] obtain xs fs where lifo: "run_lifo (rev (st_steps s)) w = (xs, fs, w')"
    and s': "s' = s\<lparr>st_sealed := True, st_steps := rev xs, st_running := False\<rparr>"
    and r: "r = \<lparr>rp_Primary = p, rp_Failures = fs\<rparr>" by metis
  have all: "list_all rs_succeeded xs"
    using run_lifo_marks [OF lifo] assms(3) r by simp
  moreover have "filter (\<lambda>x. \<not> rs_succeeded x) (rev xs) = []"
    using all by (auto simp: filter_empty_conv list_all_iff)
  ultimately show ?thesis
    by (simp add: s' Pending_def Run_def Begin_def run_lifo_done)
qed

theorem rollback_completes_once_witness:
  "Pending (fst (Run demo_stack None [''x'', ''y''])) = 0"
proof -
  obtain s' r w' where run: "Run demo_stack None [''x'', ''y''] = (s', r, w')"
    by (cases "Run demo_stack None [''x'', ''y'']")
  then have "rp_Failures r = []"
    by (auto simp: Run_def demo_stack_eq Begin_def)
  from rollback_completes_once [OF demo_stack_reachable run this] run show ?thesis by simp
qed

text \<open>C30. A rollback survives a restart: the stack rebuilt from its snapshot, with the inverses
  of the pending steps resolved again, has the same snapshot, and running it reports the same
  failures and leaves the same world as running the original.\<close>

theorem rollback_restart:
  assumes "rb_reachable s" and "resolves f s" and "st_steps s \<noteq> []"
  shows "\<exists>s'. Restore (Snapshot s) (Some f) = Inr s' \<and> Snapshot s' = Snapshot s
    \<and> (\<forall>p w. snd (Run s' p w) = snd (Run s p w))"
proof -
  note wf = reachable_wf [OF assms(1)]
  define g :: "('a, 'b) rb_step \<Rightarrow> ('a, 'b) rb_step"
    where "g x = (if rs_succeeded x then x\<lparr>rs_inverse := \<lambda>w. (w, None)\<rparr> else x)" for x
  let ?s = "\<lparr>st_steps = map g (st_steps s), st_sealed = st_sealed s, st_running = False\<rparr>"
  have "Restore (Snapshot s) (Some f) = Inr ?s"
    using Restore_Snapshot [OF wf assms(2)] assms(3) by (simp add: g_def [abs_def])
  moreover have "Snapshot ?s = Snapshot s"
    by (simp add: Snapshot_def g_def)
  moreover have "pending_lifo ?s = pending_lifo s"
  proof -
    have "filter (\<lambda>x. \<not> rs_succeeded x) (map g xs) = filter (\<lambda>x. \<not> rs_succeeded x) xs" for xs
      by (induction xs) (auto simp: g_def)
    then show ?thesis by (simp add: pending_lifo_def rev_map)
  qed
  ultimately show ?thesis
    using wf by (auto simp: Run_snd wf_stack_def intro!: exI [of _ ?s])
qed

theorem rollback_restart_witness:
  "\<exists>s'. Restore (Snapshot demo_stack)
       (Some (\<lambda>d. Inr (Some (if d = demo_descriptor ''b'' then (\<lambda>l. (''b'' # l, None))
         else (\<lambda>l. (''a'' # l, if length l < 2 then Some ''busy'' else None)))))) = Inr s'
     \<and> snd (snd (Run s' None [])) = [''a'', ''b'']"
proof -
  let ?f = "\<lambda>d. Inr (Some (if d = demo_descriptor ''b'' then (\<lambda>l. (''b'' # l, None))
      else (\<lambda>l. (''a'' # l, if length l < 2 then Some ''busy'' else None))))"
  have "demo_descriptor ''a'' \<noteq> demo_descriptor ''b''" by (simp add: demo_descriptor_def)
  then have "resolves ?f demo_stack" by (simp add: resolves_def demo_stack_eq)
  moreover have "st_steps demo_stack \<noteq> []" by (simp add: demo_stack_eq)
  ultimately obtain s' where "Restore (Snapshot demo_stack) (Some ?f) = Inr s'"
    and "snd (Run s' None []) = snd (Run demo_stack None [])"
    using rollback_restart [OF demo_stack_reachable, of ?f] by blast
  then show ?thesis by (simp add: demo_run)
qed

text \<open>A persisted diagnostic is valid UTF-8 of at most 4096 bytes and a prefix of the error
  text with its ill-formed bytes replaced.\<close>

theorem diagnostic_bounded:
  "ValidString (boundedDiagnostic m) \<and> length (boundedDiagnostic m) \<le> 4096
   \<and> (\<exists>n. boundedDiagnostic m = take n (ToValidUTF8 m replacement_char))"
  using boundedDiagnostic_valid boundedDiagnostic_prefix boundedDiagnostic_length [of m]
  by (simp add: MaxDiagnosticBytes_def)

text \<open>Recording a failed attempt counts it without wrap-around, keeps what is to be undone
  and whether it succeeded, stores the bounded diagnostic, and yields a valid record.\<close>

theorem record_failure_correct:
  assumes "RecordFailure r (Some text) = Inr r'"
  shows "unat (rr_Attempts r') = unat (rr_Attempts r) + 1 \<and> rr_Started r'
    \<and> rr_Descriptor r' = rr_Descriptor r \<and> rr_Succeeded r' = rr_Succeeded r
    \<and> rr_LastError r' = boundedDiagnostic text \<and> Record_Validate r' = None"
  using assms unat_succ [of "rr_Attempts r"]
  by (auto simp: RecordFailure_def Let_def split: if_splits)

definition demo_record :: rb_record where
  "demo_record = \<lparr>rr_Descriptor = demo_descriptor ''a'', rr_Succeeded = False, rr_Started = True,
     rr_Attempts = 0, rr_LastError = []\<rparr>"

lemma demo_RecordFailure:
  "RecordFailure demo_record (Some ''busy'') =
     Inr (demo_record\<lparr>rr_Attempts := 1, rr_LastError := ''busy''\<rparr>)"
proof -
  have busy: "plain ''busy''" by (simp add: plain_char_def in_range_def)
  have "ToValidUTF8 ''busy'' replacement_char = ''busy''"
    by (simp add: ToValidUTF8_def)
  then have "boundedDiagnostic ''busy'' = ''busy''"
    by (simp add: boundedDiagnostic_id MaxDiagnosticBytes_def)
  then show ?thesis
    using busy by (simp add: RecordFailure_def demo_record_def Record_Validate_def plain_TrimSpace
        MaxDiagnosticBytes_def)
qed

theorem record_failure_correct_witness:
  "unat (rr_Attempts (demo_record\<lparr>rr_Attempts := 1, rr_LastError := ''busy''\<rparr>)) = unat (rr_Attempts demo_record) + 1"
  using record_failure_correct [OF demo_RecordFailure] by blast

end
