(* ===== verification/Ownership.thy ===== *)
theory Ownership
  imports Domain_Status Operation_Resolve Rollback "HOL-Library.Product_Lexorder"
begin

text \<open>
  \<open>internal/ownership\<close>: owner keys derived from a persisted intent, receipts for acquired host
  resources and releases that prove their absence, the inverse descriptor that carries a receipt
  through the rollback journal, and the ordered resource profile of a lifecycle target. The
  attributes of a receipt are a Go map and are kept as their entries in key order.
\<close>

datatype ow_error =
    OwInvalid string
  | OwOperation op_error
  | OwRollback rb_error
  | OwDecode
  | OwWrapped string ow_error

definition OwnershipSchemaVersion :: u32 where "OwnershipSchemaVersion = 1"

subsection \<open>Providers, kinds and actions\<close>

datatype provider = ProviderLinux | ProviderCgroupV2 | ProviderOther string

fun Provider_Valid :: "provider \<Rightarrow> bool" where
  "Provider_Valid (ProviderOther _) = False"
| "Provider_Valid _ = True"

fun Provider_string :: "provider \<Rightarrow> string" where
  "Provider_string ProviderLinux = ''linux''"
| "Provider_string ProviderCgroupV2 = ''cgroupv2''"
| "Provider_string (ProviderOther s) = s"

definition provider_of :: "string \<Rightarrow> provider" where
  "provider_of s =
    (if s = ''linux'' then ProviderLinux else if s = ''cgroupv2'' then ProviderCgroupV2
     else ProviderOther s)"

datatype kind =
    KindSandboxCgroup | KindAttemptCgroup | KindKeeperCgroup | KindKeeperProcess
  | KindUTSNamespace | KindIPCNamespace | KindNetworkNamespace | KindInitProcess
  | KindPIDNamespace | KindMountNamespace | KindRootfsMount | KindStartGate | KindStreams
  | KindOther string

fun Kind_Valid :: "kind \<Rightarrow> bool" where
  "Kind_Valid (KindOther _) = False"
| "Kind_Valid _ = True"

fun Kind_string :: "kind \<Rightarrow> string" where
  "Kind_string KindSandboxCgroup = ''sandbox_cgroup''"
| "Kind_string KindAttemptCgroup = ''attempt_cgroup''"
| "Kind_string KindKeeperCgroup = ''keeper_cgroup''"
| "Kind_string KindKeeperProcess = ''keeper_process''"
| "Kind_string KindUTSNamespace = ''uts_namespace''"
| "Kind_string KindIPCNamespace = ''ipc_namespace''"
| "Kind_string KindNetworkNamespace = ''network_namespace''"
| "Kind_string KindInitProcess = ''init_process''"
| "Kind_string KindPIDNamespace = ''pid_namespace''"
| "Kind_string KindMountNamespace = ''mount_namespace''"
| "Kind_string KindRootfsMount = ''rootfs_mount''"
| "Kind_string KindStartGate = ''start_gate''"
| "Kind_string KindStreams = ''streams''"
| "Kind_string (KindOther s) = s"

definition all_kinds :: "kind list" where
  "all_kinds =
    [KindSandboxCgroup, KindAttemptCgroup, KindKeeperCgroup, KindKeeperProcess, KindUTSNamespace,
     KindIPCNamespace, KindNetworkNamespace, KindInitProcess, KindPIDNamespace, KindMountNamespace,
     KindRootfsMount, KindStartGate, KindStreams]"

definition kind_of :: "string \<Rightarrow> kind" where
  "kind_of s = (case map_of (map (\<lambda>k. (Kind_string k, k)) all_kinds) s of Some k \<Rightarrow> k | None \<Rightarrow> KindOther s)"

definition cgroup_kind :: "kind \<Rightarrow> bool" where
  "cgroup_kind k \<longleftrightarrow> k = KindSandboxCgroup \<or> k = KindAttemptCgroup \<or> k = KindKeeperCgroup"

datatype action =
    ActionRemoveCgroup | ActionStopProcess | ActionUnmountRoot | ActionCloseGate
  | ActionCloseStreams | ActionOther string

fun Action_Valid :: "action \<Rightarrow> bool" where
  "Action_Valid (ActionOther _) = False"
| "Action_Valid _ = True"

fun Action_string :: "action \<Rightarrow> string" where
  "Action_string ActionRemoveCgroup = ''remove_cgroup''"
| "Action_string ActionStopProcess = ''stop_process''"
| "Action_string ActionUnmountRoot = ''unmount_root''"
| "Action_string ActionCloseGate = ''close_gate''"
| "Action_string ActionCloseStreams = ''close_streams''"
| "Action_string (ActionOther s) = s"

definition action_of :: "string \<Rightarrow> action" where
  "action_of s =
    (case map_of (map (\<lambda>a. (Action_string a, a))
        [ActionRemoveCgroup, ActionStopProcess, ActionUnmountRoot, ActionCloseGate, ActionCloseStreams]) s of
       Some a \<Rightarrow> a | None \<Rightarrow> ActionOther s)"

fun Action_ValidFor :: "action \<Rightarrow> provider \<Rightarrow> kind \<Rightarrow> bool" where
  "Action_ValidFor ActionRemoveCgroup p k = (p = ProviderCgroupV2 \<and> cgroup_kind k)"
| "Action_ValidFor ActionStopProcess p k =
    (p = ProviderLinux \<and> (k = KindKeeperProcess \<or> k = KindInitProcess))"
| "Action_ValidFor ActionUnmountRoot p k = (p = ProviderLinux \<and> k = KindRootfsMount)"
| "Action_ValidFor ActionCloseGate p k = (p = ProviderLinux \<and> k = KindStartGate)"
| "Action_ValidFor ActionCloseStreams p k = (p = ProviderLinux \<and> k = KindStreams)"
| "Action_ValidFor (ActionOther _) p k = False"

subsection \<open>Owner keys\<close>

record owner_key =
  ok_OperationID :: operation_id
  ok_Target :: target
  ok_Generation :: generation
  ok_Token :: string

definition target_json :: "target \<Rightarrow> json" where
  "target_json t =
    JObj [(''kind'', JStr (TargetKind_String (tg_Kind t))), (''id'', JStr (tg_ID t))]"

definition owner_json :: "operation_id \<Rightarrow> target \<Rightarrow> generation \<Rightarrow> json" where
  "owner_json oid t g =
    JObj [(''operation_id'', JStr oid), (''target'', target_json t), (''generation'', JNum (show_nat (unat g)))]"

definition NewOwnerKey :: "operation_id \<Rightarrow> target \<Rightarrow> generation \<Rightarrow> ow_error + owner_key" where
  "NewOwnerKey oid t g =
    require (wrap OwOperation (OperationID_Validate oid))
     (require (wrap OwOperation (Target_Validate t))
      (require (reject (g = 0) (OwInvalid ''owner generation''))
        (Inr \<lparr>ok_OperationID = oid, ok_Target = t, ok_Generation = g,
              ok_Token = hex_EncodeToString (Sum256 (json_encode (owner_json oid t g)))\<rparr>)))"

definition OwnerKey_Validate :: "owner_key \<Rightarrow> ow_error option" where
  "OwnerKey_Validate k =
    (case NewOwnerKey (ok_OperationID k) (ok_Target k) (ok_Generation k) of
       Inl e \<Rightarrow> Some e
     | Inr expected \<Rightarrow> reject (ok_Token k \<noteq> ok_Token expected) (OwInvalid ''owner token''))"

subsection \<open>Receipts and releases\<close>

record receipt =
  rt_SchemaVersion :: u32
  rt_Provider :: provider
  rt_Kind :: kind
  rt_LocalID :: string
  rt_Owner :: owner_key
  rt_EvidenceSHA256 :: string
  rt_Attributes :: "(string \<times> string) list"
  rt_Adopted :: bool

definition validateOpaque :: "string \<Rightarrow> string \<Rightarrow> nat \<Rightarrow> ow_error option" where
  "validateOpaque field value maximum =
    first_err
     [reject (value = [] \<or> maximum < length value \<or> ContainsAny value [CHR 0x2F, CHR 0x5C])
        (OwInvalid field),
      reject (space_or_control value) (OwInvalid field)]"

definition validDigest :: "string \<Rightarrow> bool" where
  "validDigest v \<longleftrightarrow> length v = 64 \<and> list_all lower_hex (runes v)"

definition attribute_error :: "string \<times> string \<Rightarrow> ow_error option" where
  "attribute_error kv =
    first_err
     [validateOpaque ''attribute key'' (fst kv) 128,
      reject (contains_nul (snd kv) \<or> 1024 < length (snd kv)) (OwInvalid ''attribute'')]"

definition Receipt_Validate :: "receipt \<Rightarrow> ow_error option" where
  "Receipt_Validate r =
    first_err
     [reject (rt_SchemaVersion r \<noteq> OwnershipSchemaVersion) (OwInvalid ''schema version''),
      reject (\<not> Provider_Valid (rt_Provider r) \<or> \<not> Kind_Valid (rt_Kind r)) (OwInvalid ''provider and kind''),
      reject ((rt_Provider r = ProviderCgroupV2) \<noteq> cgroup_kind (rt_Kind r)) (OwInvalid ''provider''),
      validateOpaque ''local ID'' (rt_LocalID r) 256,
      wrap (OwWrapped ''receipt owner'') (OwnerKey_Validate (rt_Owner r)),
      reject (\<not> validDigest (rt_EvidenceSHA256 r)) (OwInvalid ''evidence''),
      first_err (map attribute_error (rt_Attributes r))]"

lemma Receipt_Validate_Adopted [simp]: "Receipt_Validate (r\<lparr>rt_Adopted := b\<rparr>) = Receipt_Validate r"
  by (simp add: Receipt_Validate_def)

definition Receipt_Adopt :: "receipt \<Rightarrow> ow_error + receipt" where
  "Receipt_Adopt r = require (Receipt_Validate r) (Inr (r\<lparr>rt_Adopted := True\<rparr>))"

record release =
  rl_SchemaVersion :: u32
  rl_CleanupOperationID :: operation_id
  rl_Resource :: receipt
  rl_EvidenceSHA256 :: string

definition Release_Validate :: "release \<Rightarrow> ow_error option" where
  "Release_Validate r =
    first_err
     [reject (rl_SchemaVersion r \<noteq> OwnershipSchemaVersion) (OwInvalid ''schema version''),
      wrap OwOperation (OperationID_Validate (rl_CleanupOperationID r)),
      wrap (OwWrapped ''released resource'') (Receipt_Validate (rl_Resource r)),
      reject (\<not> rt_Adopted (rl_Resource r)) (OwInvalid ''released resource''),
      reject (\<not> validDigest (rl_EvidenceSHA256 r)) (OwInvalid ''release evidence'')]"

subsection \<open>Evidence\<close>

text \<open>Decoding a number into \<open>any\<close> makes it a \<open>float64\<close>: an integer of more than 53 bits is
  rounded to nearest, ties to even, and is written back with the fewest decimal digits that
  identify the rounded value. Evidence carries integers only.\<close>

fun bit_length :: "nat \<Rightarrow> nat" where
  "bit_length n = (if n = 0 then 0 else Suc (bit_length (n div 2)))"

declare bit_length.simps [simp del]

definition float64_round :: "nat \<Rightarrow> nat" where
  "float64_round n =
    (let k = bit_length n - 53; q = n div 2 ^ k; r = n mod 2 ^ k in
     if 2 ^ k < 2 * r \<or> (2 ^ k = 2 * r \<and> odd q) then (q + 1) * 2 ^ k else q * 2 ^ k)"

text \<open>The candidates of \<open>p\<close> digits for the value \<open>v\<close> of \<open>l\<close> digits, the nearer first.\<close>

definition decimal_candidates :: "nat \<Rightarrow> nat \<Rightarrow> nat \<Rightarrow> nat list" where
  "decimal_candidates v l p =
    (let m = 10 ^ (l - p); lo = v div m * m; hi = lo + m in
     if v - lo \<le> hi - v then [lo, hi] else [hi, lo])"

definition float64_decimal :: "nat \<Rightarrow> nat" where
  "float64_decimal n =
    (let v = float64_round n; l = length (show_nat v) in
     case filter (\<lambda>d. float64_round d = v) (concat (map (decimal_candidates v l) [1..<18])) of
       d # _ \<Rightarrow> d | [] \<Rightarrow> v)"

definition float64_text :: "string \<Rightarrow> string" where
  "float64_text s =
    (if s \<noteq> [] \<and> list_all is_digit s then show_nat (float64_decimal (decimal_value s))
     else if s \<noteq> [] \<and> hd s = CHR ''-'' \<and> tl s \<noteq> [] \<and> list_all is_digit (tl s)
     then CHR ''-'' # show_nat (float64_decimal (decimal_value (tl s)))
     else s)"

fun evidence_canonical :: "json \<Rightarrow> json" where
  "evidence_canonical (JObj kvs) = JObj (sorted_members (map (\<lambda>(k, v). (k, evidence_canonical v)) kvs))"
| "evidence_canonical (JArr vs) = JArr (map evidence_canonical vs)"
| "evidence_canonical (JNum n) = JNum (float64_text n)"
| "evidence_canonical v = v"

definition EvidenceDigest :: "json \<Rightarrow> ow_error + string" where
  "EvidenceDigest evidence =
    (case json_parse (json_encode evidence) of
       None \<Rightarrow> Inl OwDecode
     | Some v \<Rightarrow> Inr (hex_EncodeToString (Sum256 (json_encode (evidence_canonical v)))))"

definition NewRelease :: "operation_id \<Rightarrow> receipt \<Rightarrow> json \<Rightarrow> ow_error + release" where
  "NewRelease cleanup resource evidence =
    bind_res (EvidenceDigest evidence) (\<lambda>d.
      let r = \<lparr>rl_SchemaVersion = OwnershipSchemaVersion, rl_CleanupOperationID = cleanup,
               rl_Resource = resource, rl_EvidenceSHA256 = d\<rparr>
      in require (Release_Validate r) (Inr r))"

subsection \<open>A receipt in the rollback journal\<close>

definition owner_key_json :: "owner_key \<Rightarrow> json" where
  "owner_key_json k =
    JObj [(''operation_id'', JStr (ok_OperationID k)), (''target'', target_json (ok_Target k)),
      (''generation'', JNum (show_nat (unat (ok_Generation k)))), (''token'', JStr (ok_Token k))]"

text \<open>\<open>omitempty\<close> leaves empty attributes out; a map is written in key order.\<close>

definition receipt_json :: "receipt \<Rightarrow> json" where
  "receipt_json r =
    JObj
     ([(''schema_version'', JNum (show_nat (unat (rt_SchemaVersion r)))),
       (''provider'', JStr (Provider_string (rt_Provider r))),
       (''kind'', JStr (Kind_string (rt_Kind r))), (''local_id'', JStr (rt_LocalID r)),
       (''owner'', owner_key_json (rt_Owner r)), (''evidence_sha256'', JStr (rt_EvidenceSHA256 r))]
      @ (if rt_Attributes r = [] then []
         else [(''attributes'', JObj (map (\<lambda>(k, v). (k, JStr v)) (rt_Attributes r)))])
      @ [(''adopted'', JBool (rt_Adopted r))])"

definition InverseDescriptor :: "receipt \<Rightarrow> action \<Rightarrow> ow_error + descriptor" where
  "InverseDescriptor r a =
    require (Receipt_Validate r)
     (require (reject (rt_Adopted r) (OwInvalid ''adopted''))
      (require (reject (\<not> Action_ValidFor a (rt_Provider r) (rt_Kind r)) (OwInvalid ''action''))
        (Inr \<lparr>rd_SchemaVersion = RollbackSchemaVersion,
              rd_Name = Kind_string (rt_Kind r) @ '':'' @ rt_LocalID r,
              rd_Action = Action_string a, rd_Target = ok_Token (rt_Owner r),
              rd_Metadata = json_encode (receipt_json r)\<rparr>)))"

text \<open>\<open>json.Unmarshal\<close> into a struct: every member whose name matches a field, exactly or by
  case folding, is decoded into it, null leaves it alone, and a member of the wrong type makes the
  call fail. A decoder yields the changed value and whether the types agreed.\<close>

type_synonym 'a decoder = "json \<Rightarrow> 'a \<Rightarrow> 'a \<times> bool"

definition dec_string :: "(string \<Rightarrow> 'a \<Rightarrow> 'a) \<Rightarrow> 'a decoder" where
  "dec_string put v a = (case v of JStr s \<Rightarrow> (put s a, True) | JNull \<Rightarrow> (a, True) | _ \<Rightarrow> (a, False))"

definition dec_bool :: "(bool \<Rightarrow> 'a \<Rightarrow> 'a) \<Rightarrow> 'a decoder" where
  "dec_bool put v a = (case v of JBool b \<Rightarrow> (put b a, True) | JNull \<Rightarrow> (a, True) | _ \<Rightarrow> (a, False))"

definition dec_uint :: "nat \<Rightarrow> (nat \<Rightarrow> 'a \<Rightarrow> 'a) \<Rightarrow> 'a decoder" where
  "dec_uint limit put v a =
    (case v of
       JNum n \<Rightarrow> if list_all is_digit n \<and> decimal_value n < limit then (put (decimal_value n) a, True)
                 else (a, False)
     | JNull \<Rightarrow> (a, True)
     | _ \<Rightarrow> (a, False))"

definition find_field :: "(string \<times> 'a decoder) list \<Rightarrow> string \<Rightarrow> 'a decoder option" where
  "find_field fs key =
    (case map_of fs key of
       Some d \<Rightarrow> Some d
     | None \<Rightarrow> (case filter (\<lambda>(name, d). EqualFold key name) fs of (name, d) # _ \<Rightarrow> Some d | [] \<Rightarrow> None))"

definition dec_struct :: "(string \<times> 'a decoder) list \<Rightarrow> 'a decoder" where
  "dec_struct fs v a =
    (case v of
       JObj kvs \<Rightarrow>
         foldl (\<lambda>(a, ok) (k, w).
           case find_field fs k of
             None \<Rightarrow> (a, ok)
           | Some d \<Rightarrow> (case d w a of (b, ok') \<Rightarrow> (b, ok \<and> ok'))) (a, True) kvs
     | JNull \<Rightarrow> (a, True)
     | _ \<Rightarrow> (a, False))"

definition dec_nested :: "('a \<Rightarrow> 'b) \<Rightarrow> ('b \<Rightarrow> 'a \<Rightarrow> 'a) \<Rightarrow> 'b decoder \<Rightarrow> 'a decoder" where
  "dec_nested get put d v a = (case d v (get a) of (b, ok) \<Rightarrow> (put b a, ok))"

definition json_text :: "json \<Rightarrow> string" where
  "json_text v = (case v of JStr s \<Rightarrow> s | _ \<Rightarrow> [])"

definition json_textual :: "json \<Rightarrow> bool" where
  "json_textual v = (case v of JStr _ \<Rightarrow> True | JNull \<Rightarrow> True | _ \<Rightarrow> False)"

definition dec_attributes :: "receipt decoder" where
  "dec_attributes v r =
    (case v of
       JObj kvs \<Rightarrow>
         (r\<lparr>rt_Attributes := map (\<lambda>(k, w). (k, json_text w))
              (sorted_members (map (\<lambda>(k, t). (k, JStr t)) (rt_Attributes r) @ kvs))\<rparr>,
          list_all (\<lambda>(k, w). json_textual w) kvs)
     | JNull \<Rightarrow> (r\<lparr>rt_Attributes := []\<rparr>, True)
     | _ \<Rightarrow> (r, False))"

definition kind_decode :: "string \<Rightarrow> target_kind" where
  "kind_decode s =
    (if s = ''sandbox'' then TargetSandbox else if s = ''container'' then TargetContainer
     else if s = ''attempt'' then TargetAttempt else TargetOther s)"

definition dec_target :: "target decoder" where
  "dec_target = dec_struct
    [(''kind'', dec_string (\<lambda>s t. t\<lparr>tg_Kind := kind_decode s\<rparr>)),
     (''id'', dec_string (\<lambda>s t. t\<lparr>tg_ID := s\<rparr>))]"

definition dec_owner :: "owner_key decoder" where
  "dec_owner = dec_struct
    [(''operation_id'', dec_string (\<lambda>s k. k\<lparr>ok_OperationID := s\<rparr>)),
     (''target'', dec_nested ok_Target (\<lambda>t k. k\<lparr>ok_Target := t\<rparr>) dec_target),
     (''generation'', dec_uint (2 ^ 64) (\<lambda>n k. k\<lparr>ok_Generation := of_nat n\<rparr>)),
     (''token'', dec_string (\<lambda>s k. k\<lparr>ok_Token := s\<rparr>))]"

definition dec_receipt :: "receipt decoder" where
  "dec_receipt = dec_struct
    [(''schema_version'', dec_uint (2 ^ 32) (\<lambda>n r. r\<lparr>rt_SchemaVersion := of_nat n\<rparr>)),
     (''provider'', dec_string (\<lambda>s r. r\<lparr>rt_Provider := provider_of s\<rparr>)),
     (''kind'', dec_string (\<lambda>s r. r\<lparr>rt_Kind := kind_of s\<rparr>)),
     (''local_id'', dec_string (\<lambda>s r. r\<lparr>rt_LocalID := s\<rparr>)),
     (''owner'', dec_nested rt_Owner (\<lambda>k r. r\<lparr>rt_Owner := k\<rparr>) dec_owner),
     (''evidence_sha256'', dec_string (\<lambda>s r. r\<lparr>rt_EvidenceSHA256 := s\<rparr>)),
     (''attributes'', dec_attributes),
     (''adopted'', dec_bool (\<lambda>b r. r\<lparr>rt_Adopted := b\<rparr>))]"

definition zero_owner :: owner_key where
  "zero_owner = \<lparr>ok_OperationID = [], ok_Target = \<lparr>tg_Kind = TargetOther [], tg_ID = []\<rparr>,
     ok_Generation = 0, ok_Token = []\<rparr>"

definition zero_receipt :: receipt where
  "zero_receipt = \<lparr>rt_SchemaVersion = 0, rt_Provider = ProviderOther [], rt_Kind = KindOther [],
     rt_LocalID = [], rt_Owner = zero_owner, rt_EvidenceSHA256 = [], rt_Attributes = [],
     rt_Adopted = False\<rparr>"

definition receipt_unmarshal :: "string \<Rightarrow> ow_error + receipt" where
  "receipt_unmarshal text =
    (case json_parse text of
       None \<Rightarrow> Inl OwDecode
     | Some v \<Rightarrow> (case dec_receipt v zero_receipt of (r, ok) \<Rightarrow> if ok then Inr r else Inl OwDecode))"

definition ReceiptFromDescriptor :: "descriptor \<Rightarrow> ow_error + receipt \<times> action" where
  "ReceiptFromDescriptor d =
    require (wrap OwRollback (Descriptor_Validate d))
     (require (reject (\<not> Action_Valid (action_of (rd_Action d))) (OwInvalid ''action''))
      (bind_res (receipt_unmarshal (rd_Metadata d)) (\<lambda>r.
        require (Receipt_Validate r)
         (bind_res (InverseDescriptor r (action_of (rd_Action d))) (\<lambda>expected.
           require (reject (rd_Name d \<noteq> rd_Name expected \<or> rd_Target d \<noteq> rd_Target expected)
             (OwInvalid ''descriptor''))
            (Inr (r, action_of (rd_Action d))))))))"

subsection \<open>Order and profile\<close>

definition SortReceipts :: "receipt list \<Rightarrow> receipt list" where
  "SortReceipts rs =
    sort_key (\<lambda>r. (Provider_string (rt_Provider r), Kind_string (rt_Kind r), rt_LocalID r)) rs"

definition expectedProfile :: "target_kind \<Rightarrow> ow_error + (provider \<times> kind) list" where
  "expectedProfile k =
    (if k = TargetSandbox then Inr
       [(ProviderCgroupV2, KindSandboxCgroup), (ProviderCgroupV2, KindKeeperCgroup),
        (ProviderLinux, KindKeeperProcess), (ProviderLinux, KindUTSNamespace),
        (ProviderLinux, KindIPCNamespace), (ProviderLinux, KindNetworkNamespace)]
     else if k = TargetContainer \<or> k = TargetAttempt then Inr
       [(ProviderCgroupV2, KindAttemptCgroup), (ProviderLinux, KindStartGate),
        (ProviderLinux, KindStreams), (ProviderLinux, KindInitProcess),
        (ProviderLinux, KindPIDNamespace), (ProviderLinux, KindMountNamespace),
        (ProviderLinux, KindRootfsMount)]
     else Inl (OwInvalid ''profile''))"

text \<open>The loop over the expectations; the owner of the first receipt binds the others.\<close>

fun check_expectations ::
    "nat \<Rightarrow> owner_key option \<Rightarrow> receipt list \<Rightarrow> (provider \<times> kind) list \<Rightarrow> ow_error option" where
  "check_expectations i owner (r # rs) ((p, k) # es) =
    (case Receipt_Validate r of
       Some e \<Rightarrow> Some (OwWrapped ''receipt profile entry'' e)
     | None \<Rightarrow>
       if rt_Provider r \<noteq> p \<or> rt_Kind r \<noteq> k then Some (OwInvalid ''receipt profile entry'')
       else (case owner of
          None \<Rightarrow> check_expectations (Suc i) (Some (rt_Owner r)) rs es
        | Some w \<Rightarrow> if rt_Owner r \<noteq> w then Some (OwInvalid ''owner'')
                    else check_expectations (Suc i) owner rs es))"
| "check_expectations i owner rs es = None"

definition validateReceiptJournalExpectations ::
    "receipt list \<Rightarrow> (provider \<times> kind) list \<Rightarrow> ow_error option" where
  "validateReceiptJournalExpectations rs es = check_expectations 0 None rs es"

definition ValidateReceiptJournalProfile :: "target_kind \<Rightarrow> receipt list \<Rightarrow> ow_error option" where
  "ValidateReceiptJournalProfile k rs =
    (case expectedProfile k of
       Inl e \<Rightarrow> Some e
     | Inr es \<Rightarrow> if length rs \<noteq> length es then Some (OwInvalid ''profile length'')
                 else validateReceiptJournalExpectations rs es)"

definition ValidateReceiptJournalPrefix :: "target_kind \<Rightarrow> receipt list \<Rightarrow> ow_error option" where
  "ValidateReceiptJournalPrefix k rs =
    (case expectedProfile k of
       Inl e \<Rightarrow> Some e
     | Inr es \<Rightarrow> if length es < length rs then Some (OwInvalid ''profile length'')
                 else validateReceiptJournalExpectations rs (take (length rs) es))"


subsection \<open>Owner keys\<close>

lemma validDigest_hex: "length bs = 32 \<Longrightarrow> validDigest (hex_EncodeToString bs)"
  by (simp add: validDigest_def lower_hex_runes hex_lower)

lemma NewOwnerKey_Inr:
  "NewOwnerKey oid t g = Inr k \<longleftrightarrow>
     good_id oid \<and> good_target t \<and> g \<noteq> 0
     \<and> k = \<lparr>ok_OperationID = oid, ok_Target = t, ok_Generation = g,
           ok_Token = hex_EncodeToString (Sum256 (json_encode (owner_json oid t g)))\<rparr>"
  by (auto simp: NewOwnerKey_def)

lemma OwnerKey_Validate_None:
  "OwnerKey_Validate k = None \<longleftrightarrow>
     NewOwnerKey (ok_OperationID k) (ok_Target k) (ok_Generation k) = Inr k"
proof (cases "NewOwnerKey (ok_OperationID k) (ok_Target k) (ok_Generation k)")
  case (Inl e)
  then show ?thesis by (simp add: OwnerKey_Validate_def)
next
  case (Inr expected)
  moreover from Inr have "ok_OperationID expected = ok_OperationID k \<and> ok_Target expected = ok_Target k
      \<and> ok_Generation expected = ok_Generation k"
    by (auto simp: NewOwnerKey_Inr)
  ultimately show ?thesis by (auto simp: OwnerKey_Validate_def)
qed

lemma OwnerKey_token: "OwnerKey_Validate k = None \<Longrightarrow> validDigest (ok_Token k)"
  by (auto simp: OwnerKey_Validate_None NewOwnerKey_Inr validDigest_hex
      dest: arg_cong [where f = ok_Token])

subsection \<open>Numbers and names in JSON\<close>

lemma show_nat_head: "0 < n \<Longrightarrow> \<not> char_is (hd (show_nat n)) 48"
proof (induction n rule: show_nat.induct)
  case (1 n)
  show ?case
  proof (cases "n < 10")
    case True
    then show ?thesis using "1.prems" by (simp add: show_nat.simps [of n] char_is_def)
  next
    case False
    then have "0 < n div 10" by simp
    with "1.IH" False have "\<not> char_is (hd (show_nat (n div 10))) 48" by simp
    moreover have "show_nat n = show_nat (n div 10) @ [char_of (n mod 10 + 48)]"
      using False by (simp add: show_nat.simps [of n])
    ultimately show ?thesis using show_nat_digits [of "n div 10"] by simp
  qed
qed

lemma lex_show_nat: "lex_number (show_nat n) = Some (show_nat n, [])"
proof (cases "n = 0")
  case True
  then show ?thesis
    by (simp add: show_nat.simps [of 0] lex_number_def lex_int_def lex_frac_def char_is_def)
next
  case False
  obtain c cs where s: "show_nat n = c # cs" using show_nat_digits [of n] by (cases "show_nat n") auto
  have whole: "takeWhile is_digit cs = cs" "dropWhile is_digit cs = []"
    and digit: "is_digit c"
    using show_nat_digits [of n] s by (auto simp: list_all_iff takeWhile_eq_all_conv dropWhile_eq_Nil_conv)
  from digit have "\<not> char_is c 45" by (auto simp: char_is_def is_digit_def in_range_def)
  moreover have "\<not> char_is c 48" using show_nat_head [of n] False s by simp
  ultimately show ?thesis
    by (simp add: s lex_number_def lex_int_def lex_frac_def whole digit)
qed

lemma kind_of_string [simp]: "Kind_Valid k \<Longrightarrow> kind_of (Kind_string k) = k"
  by (cases k) (simp_all add: kind_of_def all_kinds_def)

lemma provider_of_string [simp]: "Provider_Valid p \<Longrightarrow> provider_of (Provider_string p) = p"
  by (cases p) (simp_all add: provider_of_def)

lemma kind_decode_string [simp]: "TargetKind_Valid k \<Longrightarrow> kind_decode (TargetKind_String k) = k"
  by (cases k) (simp_all add: kind_decode_def)

lemma action_of_string [simp]: "Action_Valid a \<Longrightarrow> action_of (Action_string a) = a"
  by (cases a) (simp_all add: action_of_def)

lemma Action_ValidFor_Valid: "Action_ValidFor a p k \<Longrightarrow> Action_Valid a"
  by (cases a) auto

lemma vocabulary_ascii [simp]:
  "Kind_Valid k \<Longrightarrow> ValidString (Kind_string k)" "Provider_Valid p \<Longrightarrow> ValidString (Provider_string p)"
  "TargetKind_Valid t \<Longrightarrow> ValidString (TargetKind_String t)"
  by ((cases k; simp add: ValidString_def), (cases p; simp add: ValidString_def),
      (cases t; simp add: ValidString_def))


subsection \<open>Reading a receipt back\<close>

lemma space_width_plain: "plain_char c \<Longrightarrow> space_width (of_char c # bs) = 0"
  by (auto simp: space_width_def plain_char_def in_range_def IsSpace_def)

lemma last_space_width_plain:
  assumes "plain_char c"
  shows "last_space_width (bytes_of (xs @ [c])) \<le> length xs"
proof -
  let ?b = "of_char c :: nat"
  have b: "33 \<le> ?b" "?b \<le> 126" using assms by (auto simp: plain_char_def in_range_def)
  consider "xs = []" | x where "xs = [x]" | x y where "xs = [x, y]" | x y z zs where "xs = x # y # z # zs"
    by (cases xs rule: remdups_adj.cases) (metis neq_Nil_conv)+
  then show ?thesis
    using b
    by cases (auto simp: last_space_width_def space_width_def IsSpace_def in_range_def cont_byte_def
        rune_at.simps(2) split: if_splits)
qed

lemma trim_with_keeps:
  assumes "\<And>xs. width (bytes_of (xs @ [c])) \<le> length xs"
  shows "trim_with width n (xs @ [c]) \<noteq> []"
proof (induction n arbitrary: xs)
  case 0
  then show ?case by simp
next
  case (Suc n)
  have "drop (width (bytes_of (xs @ [c]))) (xs @ [c]) = drop (width (bytes_of (xs @ [c]))) xs @ [c]"
    using assms [of xs] by simp
  with Suc show ?case by (simp add: Let_def)
qed

lemma TrimSpace_plain_head: "plain_char c \<Longrightarrow> TrimSpace (c # cs) \<noteq> []"
proof -
  assume c: "plain_char c"
  have "trim_with space_width (length (c # cs)) (c # cs) = c # cs"
    by (rule trim_with_id) (simp add: space_width_plain [OF c])
  then show ?thesis
    using trim_with_keeps [of last_space_width c "length (c # cs)" "rev cs"] last_space_width_plain [OF c]
    by (simp add: TrimSpace_def Let_def)
qed

definition utf8_receipt :: "receipt \<Rightarrow> bool" where
  "utf8_receipt r \<longleftrightarrow>
     ValidString (rt_LocalID r) \<and> ValidString (ok_OperationID (rt_Owner r))
     \<and> ValidString (tg_ID (ok_Target (rt_Owner r)))
     \<and> list_all (\<lambda>(k, v). ValidString k \<and> ValidString v) (rt_Attributes r)"

definition key_ordered :: "receipt \<Rightarrow> bool" where
  "key_ordered r \<longleftrightarrow> sorted (map fst (rt_Attributes r)) \<and> distinct (map fst (rt_Attributes r))"

lemma validDigest_plain: "validDigest d \<Longrightarrow> list_all lower_hex (runes d)"
  by (simp add: validDigest_def)

lemma rune_at_ascii_only: "rune_at bs = Some (r, w) \<Longrightarrow> r < 128 \<Longrightarrow> w = 1 \<and> r = hd bs"
  by (cases bs) (auto simp: rune_at.simps(2) cont_byte_def in_range_def split: if_splits list.splits)

lemma runes_from_ascii: "list_all (\<lambda>r. r < 128) (runes_from bs) \<Longrightarrow> runes_from bs = bs"
proof (induction bs rule: runes_from.induct)
  case 1
  then show ?case by simp
next
  case (2 b bs)
  then obtain r w where at: "rune_at (b # bs) = Some (r, w)"
    by (cases "rune_at (b # bs)") auto
  with "2.prems" have "w = 1 \<and> r = b" using rune_at_ascii_only [OF at] by simp
  with at "2.IH"(2) [OF at] "2.prems" show ?case by simp
qed

lemma validDigest_text: "validDigest d \<Longrightarrow> plain d \<and> ValidString d \<and> d \<noteq> []"
proof -
  assume "validDigest d"
  then have "list_all lower_hex (runes d)" and "d \<noteq> []" by (auto simp: validDigest_def)
  moreover from this have "list_all (\<lambda>r. r < 128) (runes d)"
    by (auto simp: list_all_iff lower_hex_def in_range_def)
  then have "runes d = bytes_of d" unfolding runes_def by (rule runes_from_ascii)
  ultimately have "plain d" by (simp add: lower_hex_plain)
  with \<open>d \<noteq> []\<close> show ?thesis by (simp add: plain_text)
qed

lemma attributes_roundtrip:
  assumes "key_ordered r"
  shows "map (\<lambda>(k, w). (k, json_text w)) (sorted_members (map (\<lambda>(k, v). (k, JStr v)) (rt_Attributes r)))
    = rt_Attributes r"
proof -
  let ?kvs = "map (\<lambda>(k, v). (k, JStr v)) (rt_Attributes r)"
  have keys: "map fst ?kvs = map fst (rt_Attributes r)" by (simp add: comp_def case_prod_beta')
  then have "sorted_members ?kvs = ?kvs"
    using assms by (simp only: key_ordered_def sorted_members_distinct sort_key_id_if_sorted)
  then show ?thesis by (simp add: comp_def case_prod_beta' json_text_def)
qed


lemma dec_struct_members:
  "dec_struct fs (JObj []) a = (a, True)"
  "find_field fs k = Some d \<Longrightarrow> d w a = (b, True) \<Longrightarrow>
     dec_struct fs (JObj ((k, w) # kvs)) a = dec_struct fs (JObj kvs) b"
  by (simp_all add: dec_struct_def)

lemma dec_target_json: "good_target t \<Longrightarrow> dec_target (target_json t) t0 = (t, True)"
  by (simp add: dec_target_def target_json_def dec_struct_def find_field_def dec_string_def good_target_def)

lemma unat_u64: "unat (w :: u64) < 18446744073709551616"
  using unsigned_less [of w] by simp

lemma unat_u32: "unat (w :: u32) < 4294967296"
  using unsigned_less [of w] by simp

lemma dec_owner_json:
  "good_target (ok_Target k) \<Longrightarrow> dec_owner (owner_key_json k) k0 = (k, True)"
  by (simp add: dec_owner_def owner_key_json_def dec_struct_def find_field_def dec_string_def
      dec_uint_def dec_nested_def dec_target_json show_nat_digits unat_u64)

lemma dec_receipt_json:
  assumes "Provider_Valid (rt_Provider r)" and "Kind_Valid (rt_Kind r)"
    and "good_target (ok_Target (rt_Owner r))" and "key_ordered r"
  shows "dec_receipt (receipt_json r) zero_receipt = (r, True)"
proof -
  have textual: "list_all (\<lambda>(k, w). json_textual w) (map (\<lambda>(k, v). (k, JStr v)) (rt_Attributes r))"
    by (auto simp: list_all_iff json_textual_def)
  show ?thesis
    using assms attributes_roundtrip [OF assms(4)] textual
    by (simp add: dec_receipt_def receipt_json_def dec_struct_def find_field_def dec_string_def
        dec_uint_def dec_bool_def dec_nested_def dec_owner_json dec_attributes_def show_nat_digits
        unat_u32 zero_receipt_def)
qed

lemma Receipt_Validate_None:
  "Receipt_Validate r = None \<longleftrightarrow>
     rt_SchemaVersion r = 1 \<and> Provider_Valid (rt_Provider r) \<and> Kind_Valid (rt_Kind r)
     \<and> (rt_Provider r = ProviderCgroupV2 \<longleftrightarrow> cgroup_kind (rt_Kind r))
     \<and> validateOpaque ''local ID'' (rt_LocalID r) 256 = None
     \<and> OwnerKey_Validate (rt_Owner r) = None \<and> validDigest (rt_EvidenceSHA256 r)
     \<and> (\<forall>kv \<in> set (rt_Attributes r). attribute_error kv = None)"
  by (auto simp: Receipt_Validate_def first_err_map_None OwnershipSchemaVersion_def)

lemma OwnerKey_Validate_good:
  "OwnerKey_Validate k = None \<Longrightarrow> good_id (ok_OperationID k) \<and> good_target (ok_Target k) \<and> ok_Generation k \<noteq> 0"
  by (auto simp: OwnerKey_Validate_None NewOwnerKey_Inr)

lemma writable_receipt:
  assumes "Receipt_Validate r = None" and "utf8_receipt r"
  shows "writable (receipt_json r)" and "json_depth (receipt_json r) \<le> maxNestingDepth"
proof -
  from assms(1) have ok: "Provider_Valid (rt_Provider r)" "Kind_Valid (rt_Kind r)"
    "good_target (ok_Target (rt_Owner r))" "validDigest (rt_EvidenceSHA256 r)" "validDigest (ok_Token (rt_Owner r))"
    using OwnerKey_Validate_good OwnerKey_token by (auto simp: Receipt_Validate_None)
  have names: "ValidString ''schema_version''" "ValidString ''provider''" "ValidString ''kind''"
    "ValidString ''local_id''" "ValidString ''owner''" "ValidString ''evidence_sha256''"
    "ValidString ''attributes''" "ValidString ''adopted''" "ValidString ''operation_id''"
    "ValidString ''target''" "ValidString ''generation''" "ValidString ''token''" "ValidString ''id''"
    by (simp_all add: ValidString_def)
  have owner: "writable (owner_key_json (rt_Owner r))"
    using ok assms(2) validDigest_text
    by (simp add: owner_key_json_def target_json_def names lex_show_nat show_nat_digits utf8_receipt_def
        good_target_def)
  show "writable (receipt_json r)"
    using ok assms(2) validDigest_text
    by (auto simp: receipt_json_def names owner lex_show_nat show_nat_digits utf8_receipt_def list_all_iff)
  have attrs: "foldr (\<lambda>(k, v) d. max (json_depth v) d) (map (\<lambda>(k, v). (k, JStr v)) kvs) 0 = 0"
    for kvs :: "(string \<times> string) list"
    by (induction kvs) auto
  show "json_depth (receipt_json r) \<le> maxNestingDepth"
    by (simp add: receipt_json_def owner_key_json_def target_json_def maxNestingDepth_def attrs)
qed

lemma receipt_unmarshal_json:
  assumes "Receipt_Validate r = None" and "utf8_receipt r" and "key_ordered r"
  shows "receipt_unmarshal (json_encode (receipt_json r)) = Inr r"
proof -
  from assms(1) have "dec_receipt (receipt_json r) zero_receipt = (r, True)"
    using OwnerKey_Validate_good assms(3) by (intro dec_receipt_json) (auto simp: Receipt_Validate_None)
  then show ?thesis
    using json_parse_encode [OF writable_receipt [OF assms(1,2)]] by (simp add: receipt_unmarshal_def)
qed


lemma InverseDescriptor_Inr:
  "InverseDescriptor r a = Inr d \<longleftrightarrow>
     Receipt_Validate r = None \<and> \<not> rt_Adopted r \<and> Action_ValidFor a (rt_Provider r) (rt_Kind r)
     \<and> d = \<lparr>rd_SchemaVersion = RollbackSchemaVersion, rd_Name = Kind_string (rt_Kind r) @ '':'' @ rt_LocalID r,
           rd_Action = Action_string a, rd_Target = ok_Token (rt_Owner r),
           rd_Metadata = json_encode (receipt_json r)\<rparr>"
  by (auto simp: InverseDescriptor_def)

lemma Kind_string_head: "Kind_Valid k \<Longrightarrow> \<exists>c cs. Kind_string k = c # cs \<and> plain_char c"
  by (cases k) (simp_all add: plain_char_def in_range_def)

lemma Action_string_text: "Action_Valid a \<Longrightarrow> TrimSpace (Action_string a) \<noteq> []"
  by (cases a) (simp_all add: TrimSpace_plain_head plain_char_def in_range_def)

lemma InverseDescriptor_valid:
  assumes "InverseDescriptor r a = Inr d" and "utf8_receipt r"
  shows "Descriptor_Validate d = None"
proof -
  from assms(1) have r: "Receipt_Validate r = None" and a: "Action_Valid a"
    and d: "rd_SchemaVersion d = 1" "rd_Name d = Kind_string (rt_Kind r) @ '':'' @ rt_LocalID r"
      "rd_Action d = Action_string a" "rd_Target d = ok_Token (rt_Owner r)"
      "rd_Metadata d = json_encode (receipt_json r)"
    using Action_ValidFor_Valid by (auto simp: InverseDescriptor_Inr RollbackSchemaVersion_def)
  from r have kind: "Kind_Valid (rt_Kind r)" and token: "validDigest (ok_Token (rt_Owner r))"
    using OwnerKey_token by (auto simp: Receipt_Validate_None)
  have "TrimSpace (rd_Name d) \<noteq> []"
    using Kind_string_head [OF kind] TrimSpace_plain_head d(2) by auto
  moreover have "TrimSpace (rd_Target d) \<noteq> []"
    using validDigest_text [OF token] d(4) by (simp add: plain_TrimSpace)
  moreover have "json_Valid (rd_Metadata d)"
    using json_parse_encode [OF writable_receipt [OF r assms(2)]] d(5) by (simp add: json_Valid_def)
  ultimately show ?thesis
    using Action_string_text [OF a] d(1,3) by (simp add: Descriptor_Validate_def RollbackSchemaVersion_def)
qed

subsection \<open>Profiles\<close>

definition slot :: "receipt \<Rightarrow> provider \<times> kind" where
  "slot r = (rt_Provider r, rt_Kind r)"

lemma check_expectations_Some:
  "length rs = length es \<Longrightarrow> check_expectations i (Some w) rs es = None \<longleftrightarrow>
     map slot rs = es \<and> list_all (\<lambda>r. Receipt_Validate r = None \<and> rt_Owner r = w) rs"
proof (induction rs arbitrary: i es)
  case Nil
  then show ?case by simp
next
  case (Cons r rs)
  then obtain p k es' where es: "es = (p, k) # es'" by (cases es) auto
  with Cons show ?case
    by (cases "Receipt_Validate r") (auto simp: slot_def)
qed

lemma expectations_None:
  assumes "length rs = length es"
  shows "validateReceiptJournalExpectations rs es = None \<longleftrightarrow>
    map slot rs = es \<and> list_all (\<lambda>r. Receipt_Validate r = None \<and> rt_Owner r = rt_Owner (hd rs)) rs"
proof (cases rs)
  case Nil
  then show ?thesis using assms by (simp add: validateReceiptJournalExpectations_def)
next
  case (Cons r rs')
  then obtain p k es' where "es = (p, k) # es'" using assms by (cases es) auto
  with Cons assms show ?thesis
    using check_expectations_Some [of rs' es' "Suc 0" "rt_Owner r"]
    by (cases "Receipt_Validate r") (auto simp: validateReceiptJournalExpectations_def slot_def)
qed

lemma ValidateReceiptJournalProfile_None:
  "ValidateReceiptJournalProfile k rs = None \<longleftrightarrow>
     expectedProfile k = Inr (map slot rs)
     \<and> list_all (\<lambda>r. Receipt_Validate r = None \<and> rt_Owner r = rt_Owner (hd rs)) rs"
proof (cases "expectedProfile k")
  case (Inl e)
  then show ?thesis by (simp add: ValidateReceiptJournalProfile_def)
next
  case (Inr es)
  then show ?thesis
    using expectations_None [of rs es] by (auto simp: ValidateReceiptJournalProfile_def)
qed

subsection \<open>Properties\<close>

text \<open>An owner key passes validation exactly if it is the one derived from its operation,
  target and generation, so these determine it.\<close>

theorem owner_key_canonical:
  "OwnerKey_Validate k = None \<longleftrightarrow>
     good_id (ok_OperationID k) \<and> good_target (ok_Target k) \<and> ok_Generation k \<noteq> 0
     \<and> NewOwnerKey (ok_OperationID k) (ok_Target k) (ok_Generation k) = Inr k"
  by (auto simp: OwnerKey_Validate_None NewOwnerKey_Inr)

lemma ReceiptFromDescriptor_inverse:
  assumes "InverseDescriptor r a = Inr d" and "utf8_receipt r" and "key_ordered r"
  shows "ReceiptFromDescriptor d = Inr (r, a)"
proof -
  from assms(1) have r: "Receipt_Validate r = None" and a: "Action_Valid a"
    and meta: "rd_Metadata d = json_encode (receipt_json r)" and act: "rd_Action d = Action_string a"
    using Action_ValidFor_Valid by (auto simp: InverseDescriptor_Inr)
  have "receipt_unmarshal (rd_Metadata d) = Inr r"
    unfolding meta by (rule receipt_unmarshal_json [OF r assms(2,3)])
  then show ?thesis
    using InverseDescriptor_valid [OF assms(1,2)] r a act assms(1)
    by (simp add: ReceiptFromDescriptor_def)
qed

definition demo_owner :: owner_key where
  "demo_owner = \<lparr>ok_OperationID = ''op-1'', ok_Target = sandbox_target, ok_Generation = 1,
     ok_Token = hex_EncodeToString (Sum256 (json_encode (owner_json ''op-1'' sandbox_target 1)))\<rparr>"

definition demo_receipt :: receipt where
  "demo_receipt = \<lparr>rt_SchemaVersion = 1, rt_Provider = ProviderCgroupV2, rt_Kind = KindSandboxCgroup,
     rt_LocalID = ''sandbox-1'', rt_Owner = demo_owner, rt_EvidenceSHA256 = replicate 64 (CHR ''0''),
     rt_Attributes = [], rt_Adopted = False\<rparr>"

lemma demo_owner_valid [simp]: "OwnerKey_Validate demo_owner = None"
  by (simp add: OwnerKey_Validate_None NewOwnerKey_Inr demo_owner_def)
    (simp add: sandbox_target_def good_target_def)

lemma zero_digest [simp]: "validDigest (replicate 64 (CHR ''0''))"
  using demo_fingerprint_valid
  by (simp add: validDigest_def Fingerprint_Validate_def demo_fingerprint_def)

lemma demo_receipt_valid [simp]: "Receipt_Validate demo_receipt = None"
proof -
  have "\<not> space_or_control ''sandbox-1''"
    using demo_good_ids(2) by (simp add: good_id_def)
  then show ?thesis
    by (simp add: Receipt_Validate_None demo_receipt_def cgroup_kind_def validateOpaque_def ContainsAny_def)
qed

definition owned_descriptor :: descriptor where
  "owned_descriptor = \<lparr>rd_SchemaVersion = 1, rd_Name = ''sandbox_cgroup:sandbox-1'',
     rd_Action = Action_string ActionRemoveCgroup, rd_Target = ok_Token demo_owner,
     rd_Metadata = json_encode (receipt_json demo_receipt)\<rparr>"

lemma owned_descriptor_inverse:
  "InverseDescriptor demo_receipt ActionRemoveCgroup = Inr owned_descriptor"
  by (simp add: InverseDescriptor_Inr owned_descriptor_def RollbackSchemaVersion_def)
    (simp add: demo_receipt_def cgroup_kind_def)

lemma demo_receipt_text: "utf8_receipt demo_receipt" "key_ordered demo_receipt"
  by (simp_all add: utf8_receipt_def key_ordered_def demo_receipt_def demo_owner_def sandbox_target_def
      ValidString_def)

lemma owned_descriptor_receipt:
  "ReceiptFromDescriptor owned_descriptor = Inr (demo_receipt, ActionRemoveCgroup)"
  by (rule ReceiptFromDescriptor_inverse [OF owned_descriptor_inverse demo_receipt_text])

lemma owned_descriptor_valid: "Descriptor_Validate owned_descriptor = None"
  by (rule InverseDescriptor_valid [OF owned_descriptor_inverse demo_receipt_text(1)])

text \<open>A receipt survives the rollback journal: the descriptor of its inverse is valid and
  yields the same receipt and action again, for receipts whose texts are UTF-8.\<close>

theorem inverse_descriptor_roundtrip:
  assumes "InverseDescriptor r a = Inr d" and "utf8_receipt r" and "key_ordered r"
  shows "Descriptor_Validate d = None \<and> ReceiptFromDescriptor d = Inr (r, a)"
  using InverseDescriptor_valid [OF assms(1,2)] ReceiptFromDescriptor_inverse [OF assms] by simp

theorem inverse_descriptor_roundtrip_witness:
  "Descriptor_Validate owned_descriptor = None
   \<and> ReceiptFromDescriptor owned_descriptor = Inr (demo_receipt, ActionRemoveCgroup)"
  by (rule inverse_descriptor_roundtrip [OF owned_descriptor_inverse demo_receipt_text])

text \<open>A journal of acquisitions is accepted exactly if it is a prefix of the profile of its
  target, slot by slot, with valid receipts of one owner.\<close>

theorem receipt_prefix_correct:
  "ValidateReceiptJournalPrefix k rs = None \<longleftrightarrow>
     (\<exists>es. expectedProfile k = Inr es \<and> map slot rs = take (length rs) es)
     \<and> list_all (\<lambda>r. Receipt_Validate r = None \<and> rt_Owner r = rt_Owner (hd rs)) rs"
proof (cases "expectedProfile k")
  case (Inl e)
  then show ?thesis by (simp add: ValidateReceiptJournalPrefix_def)
next
  case (Inr es)
  show ?thesis
  proof (cases "length es < length rs")
    case True
    have "map slot rs \<noteq> take (length rs) es"
      using True by (metis length_map length_take min.strict_order_iff not_less_iff_gr_or_eq)
    then show ?thesis using True Inr by (simp add: ValidateReceiptJournalPrefix_def)
  next
    case False
    then show ?thesis
      using expectations_None [of rs "take (length rs) es"] Inr
      by (simp add: ValidateReceiptJournalPrefix_def)
  qed
qed

text \<open>Evidence numbers above 53 bits are not told apart: two kernel counters or inode numbers that
  round to the same float have the same digest.\<close>

lemma evidence_digest_collides:
  "EvidenceDigest (JNum ''9007199254740993'') = EvidenceDigest (JNum ''9007199254740992'')"
proof -
  have digits: "show_nat 9007199254740993 = ''9007199254740993''" "show_nat 9007199254740992 = ''9007199254740992''"
    by (simp add: show_nat.simps, code_simp)+
  have "json_parse (json_encode (JNum (show_nat n))) = Some (JNum (show_nat n))" for n
    by (rule json_parse_encode) (simp_all add: lex_show_nat show_nat_digits maxNestingDepth_def)
  from this [of 9007199254740993] this [of 9007199254740992]
  have parse: "json_parse (json_encode (JNum ''9007199254740993'')) = Some (JNum ''9007199254740993'')"
    "json_parse (json_encode (JNum ''9007199254740992'')) = Some (JNum ''9007199254740992'')"
    by (simp_all only: digits)
  have "float64_round 9007199254740993 = float64_round 9007199254740992"
    by (simp add: float64_round_def bit_length.simps Let_def)
  then have "float64_text ''9007199254740993'' = float64_text ''9007199254740992''"
    by (simp add: float64_text_def float64_decimal_def is_digit_def in_range_def decimal_value_def)
  with parse show ?thesis by (simp add: EvidenceDigest_def)
qed

end
