(* ===== verification/Provider_Observation.thy ===== *)
theory Provider_Observation
  imports Ownership
begin

text \<open>
  The parts of \<open>internal/provider\<close> that persisted state depends on: observations of a host
  resource and of its cleanup, the release they yield, and the out-of-memory snapshots of an
  Attempt cgroup with their comparison.
\<close>

datatype pv_error = PvInvalid string | PvOwnership ow_error

datatype presence = PresencePresent | PresenceAbsent | PresenceUnknown | PresenceOther string

fun Presence_Valid :: "presence \<Rightarrow> bool" where
  "Presence_Valid (PresenceOther _) = False"
| "Presence_Valid _ = True"

fun Presence_string :: "presence \<Rightarrow> string" where
  "Presence_string PresencePresent = ''present''"
| "Presence_string PresenceAbsent = ''absent''"
| "Presence_string PresenceUnknown = ''unknown''"
| "Presence_string (PresenceOther s) = s"

record resource_observation =
  ro_Presence :: presence
  ro_Verified :: bool
  ro_EvidenceSHA256 :: string
  ro_Reason :: string

definition ResourceObservation_Validate :: "resource_observation \<Rightarrow> pv_error option" where
  "ResourceObservation_Validate o' =
    first_err
     [reject (\<not> Presence_Valid (ro_Presence o')) (PvInvalid ''presence''),
      reject (contains_nul (ro_Reason o')) (PvInvalid ''reason''),
      (case ro_Presence o' of
         PresencePresent \<Rightarrow>
           reject (\<not> ro_Verified o' \<or> \<not> validDigest (ro_EvidenceSHA256 o') \<or> ro_Reason o' \<noteq> [])
             (PvInvalid ''present'')
       | PresenceAbsent \<Rightarrow>
           reject (\<not> ro_Verified o' \<or> ro_EvidenceSHA256 o' \<noteq> [] \<or> ro_Reason o' \<noteq> []) (PvInvalid ''absent'')
       | PresenceUnknown \<Rightarrow>
           reject (ro_Verified o' \<or> ro_EvidenceSHA256 o' \<noteq> [] \<or> TrimSpace (ro_Reason o') = [])
             (PvInvalid ''unknown'')
       | PresenceOther _ \<Rightarrow> None)]"

datatype cleanup_disposition = CleanupRemoved | CleanupAlreadyAbsent | CleanupOther string

fun CleanupDisposition_Valid :: "cleanup_disposition \<Rightarrow> bool" where
  "CleanupDisposition_Valid (CleanupOther _) = False"
| "CleanupDisposition_Valid _ = True"

fun CleanupDisposition_string :: "cleanup_disposition \<Rightarrow> string" where
  "CleanupDisposition_string CleanupRemoved = ''removed''"
| "CleanupDisposition_string CleanupAlreadyAbsent = ''already_absent''"
| "CleanupDisposition_string (CleanupOther s) = s"

record cleanup_observation =
  cl_Disposition :: cleanup_disposition
  cl_After :: resource_observation

definition CleanupObservation_Validate :: "cleanup_observation \<Rightarrow> pv_error option" where
  "CleanupObservation_Validate c =
    first_err
     [reject (\<not> CleanupDisposition_Valid (cl_Disposition c)) (PvInvalid ''disposition''),
      ResourceObservation_Validate (cl_After c),
      reject (ro_Presence (cl_After c) \<noteq> PresenceAbsent) (PvInvalid ''cleanup'')]"

definition observation_json :: "resource_observation \<Rightarrow> json" where
  "observation_json o' =
    JObj ([(''presence'', JStr (Presence_string (ro_Presence o'))), (''verified'', JBool (ro_Verified o'))]
      @ (if ro_EvidenceSHA256 o' = [] then [] else [(''evidence_sha256'', JStr (ro_EvidenceSHA256 o'))])
      @ (if ro_Reason o' = [] then [] else [(''reason'', JStr (ro_Reason o'))]))"

definition cleanup_json :: "cleanup_observation \<Rightarrow> json" where
  "cleanup_json c =
    JObj [(''disposition'', JStr (CleanupDisposition_string (cl_Disposition c))),
      (''after'', observation_json (cl_After c))]"

definition CleanupObservation_Release ::
    "cleanup_observation \<Rightarrow> operation_id \<Rightarrow> receipt \<Rightarrow> pv_error + release" where
  "CleanupObservation_Release c oid resource =
    require (CleanupObservation_Validate c)
     (case NewRelease oid resource (cleanup_json c) of Inl e \<Rightarrow> Inl (PvOwnership e) | Inr r \<Rightarrow> Inr r)"

subsection \<open>Out-of-memory snapshots\<close>

record owned_receipt_request =
  rq_Owner :: owner_key
  rq_Receipt :: receipt

definition OwnedReceipt_ValidateFor ::
    "owned_receipt_request \<Rightarrow> provider \<Rightarrow> kind list \<Rightarrow> pv_error option" where
  "OwnedReceipt_ValidateFor r p ks =
    first_err
     [wrap PvOwnership (OwnerKey_Validate (rq_Owner r)),
      wrap PvOwnership (Receipt_Validate (rq_Receipt r)),
      reject (rt_Owner (rq_Receipt r) \<noteq> rq_Owner r) (PvInvalid ''receipt owner''),
      reject (rt_Provider (rq_Receipt r) \<noteq> p) (PvInvalid ''receipt provider''),
      reject (rt_Kind (rq_Receipt r) \<notin> set ks) (PvInvalid ''receipt kind'')]"

record oom_snapshot =
  om_Owner :: owner_key
  om_CgroupEvidenceSHA256 :: string
  om_OOM :: u64
  om_OOMKill :: u64
  om_OOMGroupKill :: u64
  om_EvidenceSHA256 :: string

definition oom_json :: "owner_key \<Rightarrow> string \<Rightarrow> u64 \<Rightarrow> u64 \<Rightarrow> u64 \<Rightarrow> json" where
  "oom_json k cg a b c =
    JObj [(''owner'', owner_key_json k), (''cgroup_evidence_sha256'', JStr cg),
      (''oom'', JNum (show_nat (unat a))), (''oom_kill'', JNum (show_nat (unat b))),
      (''oom_group_kill'', JNum (show_nat (unat c)))]"

definition NewOOMSnapshot ::
    "owned_receipt_request \<Rightarrow> u64 \<Rightarrow> u64 \<Rightarrow> u64 \<Rightarrow> pv_error + oom_snapshot" where
  "NewOOMSnapshot scope a b c =
    require (OwnedReceipt_ValidateFor scope ProviderCgroupV2 [KindAttemptCgroup])
     (case EvidenceDigest (oom_json (rq_Owner scope) (rt_EvidenceSHA256 (rq_Receipt scope)) a b c) of
        Inl e \<Rightarrow> Inl (PvOwnership e)
      | Inr d \<Rightarrow> Inr
         \<lparr>om_Owner = rq_Owner scope, om_CgroupEvidenceSHA256 = rt_EvidenceSHA256 (rq_Receipt scope),
          om_OOM = a, om_OOMKill = b, om_OOMGroupKill = c, om_EvidenceSHA256 = d\<rparr>)"

definition oom_scope :: "oom_snapshot \<Rightarrow> owned_receipt_request" where
  "oom_scope s =
    \<lparr>rq_Owner = om_Owner s,
     rq_Receipt =
       \<lparr>rt_SchemaVersion = OwnershipSchemaVersion, rt_Provider = ProviderCgroupV2,
        rt_Kind = KindAttemptCgroup, rt_LocalID = ''oom-scope'', rt_Owner = om_Owner s,
        rt_EvidenceSHA256 = om_CgroupEvidenceSHA256 s, rt_Attributes = [], rt_Adopted = False\<rparr>\<rparr>"

definition OOMSnapshot_Validate :: "oom_snapshot \<Rightarrow> pv_error option" where
  "OOMSnapshot_Validate s =
    (case NewOOMSnapshot (oom_scope s) (om_OOM s) (om_OOMKill s) (om_OOMGroupKill s) of
       Inl e \<Rightarrow> Some e
     | Inr expected \<Rightarrow> reject (om_EvidenceSHA256 s \<noteq> om_EvidenceSHA256 expected) (PvInvalid ''OOM evidence''))"

definition OOMSnapshot_Delta :: "oom_snapshot \<Rightarrow> oom_snapshot \<Rightarrow> pv_error + evidence_state" where
  "OOMSnapshot_Delta s earlier =
    require (OOMSnapshot_Validate earlier)
     (require (OOMSnapshot_Validate s)
      (if om_Owner s \<noteq> om_Owner earlier \<or> om_CgroupEvidenceSHA256 s \<noteq> om_CgroupEvidenceSHA256 earlier
       then Inl (PvInvalid ''OOM scope'')
       else if om_OOM s < om_OOM earlier \<or> om_OOMKill s < om_OOMKill earlier
            \<or> om_OOMGroupKill s < om_OOMGroupKill earlier
       then Inl (PvInvalid ''OOM counters'')
       else if om_OOMKill earlier < om_OOMKill s \<or> om_OOMGroupKill earlier < om_OOMGroupKill s
       then Inr EvidenceTrue else Inr EvidenceFalse))"

subsection \<open>Properties\<close>

text \<open>An out-of-memory verdict is given only on two valid snapshots of the same Attempt cgroup
  whose counters did not go back, and it is positive exactly if a kill counter grew; in
  particular a snapshot never blames itself.\<close>

theorem oom_delta_correct:
  "OOMSnapshot_Delta s earlier = Inr v \<longleftrightarrow>
     OOMSnapshot_Validate earlier = None \<and> OOMSnapshot_Validate s = None
     \<and> om_Owner s = om_Owner earlier \<and> om_CgroupEvidenceSHA256 s = om_CgroupEvidenceSHA256 earlier
     \<and> om_OOM earlier \<le> om_OOM s \<and> om_OOMKill earlier \<le> om_OOMKill s
     \<and> om_OOMGroupKill earlier \<le> om_OOMGroupKill s
     \<and> v = (if om_OOMKill s = om_OOMKill earlier \<and> om_OOMGroupKill s = om_OOMGroupKill earlier
            then EvidenceFalse else EvidenceTrue)"
  by (auto simp: OOMSnapshot_Delta_def not_less)

text \<open>The cleanup proof of a resource is issued only if it was observed absent after the
  cleanup, and only for an adopted receipt; the release then names the cleanup operation and
  the receipt unchanged, and passes validation.\<close>

theorem release_requires_absence:
  assumes "CleanupObservation_Release c oid resource = Inr r"
  shows "ro_Presence (cl_After c) = PresenceAbsent \<and> ro_Verified (cl_After c)
    \<and> rt_Adopted resource \<and> rl_Resource r = resource \<and> rl_CleanupOperationID r = oid
    \<and> Release_Validate r = None"
proof -
  from assms have valid: "CleanupObservation_Validate c = None"
    and new: "NewRelease oid resource (cleanup_json c) = Inr r"
    by (auto simp: CleanupObservation_Release_def split: sum.splits)
  from new have "Release_Validate r = None" "rl_Resource r = resource" "rl_CleanupOperationID r = oid"
    by (auto simp: NewRelease_def Let_def)
  moreover from this have "rt_Adopted resource" by (auto simp: Release_Validate_def)
  moreover from valid have "ro_Presence (cl_After c) = PresenceAbsent \<and> ro_Verified (cl_After c)"
    by (auto simp: CleanupObservation_Validate_def ResourceObservation_Validate_def)
  ultimately show ?thesis by simp
qed

definition demo_cleanup :: cleanup_observation where
  "demo_cleanup = \<lparr>cl_Disposition = CleanupRemoved,
     cl_After = \<lparr>ro_Presence = PresenceAbsent, ro_Verified = True, ro_EvidenceSHA256 = [], ro_Reason = []\<rparr>\<rparr>"

lemma demo_release: "\<exists>r. CleanupObservation_Release demo_cleanup ''op-1'' (demo_receipt\<lparr>rt_Adopted := True\<rparr>) = Inr r"
proof -
  have names: "ValidString ''disposition''" "ValidString ''removed''" "ValidString ''after''"
    "ValidString ''presence''" "ValidString ''absent''" "ValidString ''verified''"
    by (simp_all add: ValidString_def)
  have "json_parse (json_encode (cleanup_json demo_cleanup)) = Some (cleanup_json demo_cleanup)"
    by (rule json_parse_encode)
      (simp_all add: cleanup_json_def observation_json_def demo_cleanup_def names maxNestingDepth_def)
  then obtain d where d: "EvidenceDigest (cleanup_json demo_cleanup) = Inr d" and digest: "validDigest d"
    by (simp add: EvidenceDigest_def validDigest_hex)
  from d digest have "NewRelease ''op-1'' (demo_receipt\<lparr>rt_Adopted := True\<rparr>) (cleanup_json demo_cleanup) =
      Inr \<lparr>rl_SchemaVersion = 1, rl_CleanupOperationID = ''op-1'',
        rl_Resource = demo_receipt\<lparr>rt_Adopted := True\<rparr>, rl_EvidenceSHA256 = d\<rparr>"
    by (simp add: NewRelease_def Let_def Release_Validate_def OwnershipSchemaVersion_def)
  moreover have "CleanupObservation_Validate demo_cleanup = None"
    by (simp add: CleanupObservation_Validate_def ResourceObservation_Validate_def demo_cleanup_def
        contains_nul_def)
  ultimately show ?thesis by (simp add: CleanupObservation_Release_def)
qed

theorem release_requires_absence_witness:
  "\<exists>r. CleanupObservation_Release demo_cleanup ''op-1'' (demo_receipt\<lparr>rt_Adopted := True\<rparr>) = Inr r
     \<and> Release_Validate r = None"
proof -
  obtain r where r: "CleanupObservation_Release demo_cleanup ''op-1'' (demo_receipt\<lparr>rt_Adopted := True\<rparr>) = Inr r"
    using demo_release by blast
  from release_requires_absence [OF r] r show ?thesis by blast
qed

end
