(* ===== verification/State_Record.thy ===== *)
theory State_Record
  imports Domain_Attempt Provider_Observation
begin

text \<open>
  The persisted records of \<open>internal/state\<close> (\<open>store.go\<close>, \<open>schema.go\<close>, \<open>errors.go\<close>) and their
  validation, the \<open>validate...\<close> functions of \<open>memory.go\<close> that look at one record: envelopes and
  inventories, the receipts, releases and rollback entries of an operation and the links between
  them. An error is the sentinel that \<open>errors.Is\<close> finds in it; \<open>ErrHostProfile\<close> is
  the one error without a sentinel, \<open>ErrContext\<close> a cancelled context, \<open>ErrBindingChanged\<close> the
  \<open>ErrInvalidRecord\<close> that also wraps the error of \<open>operation.Resolve\<close>. The rollback, receipt and release
  slices of an operation may be nil, which \<open>reflect.DeepEqual\<close> tells from empty; host inventories
  are only measured and walked.
\<close>

datatype st_error =
    ErrNotFound
  | ErrRevisionConflict
  | ErrUnsupportedSchema
  | ErrInvalidRecord
  | ErrActiveOperation op_error
  | ErrInvalidEventLimit
  | ErrInvariantViolation
  | ErrNilCallback
  | ErrTransactionClosed
  | ErrOperationExpired
  | ErrEventResumeGap u64 u64 u64
  | ErrRetentionCapacity
  | ErrEventSequence op_error
  | ErrContext
  | ErrCallback string
  | ErrHostProfile
  | ErrBindingChanged op_error

type_synonym revision = u64

definition SchemaVersionV1 :: u32 where "SchemaVersionV1 = 1"

datatype host_profile = HostProfileAbstractM1 | HostProfileLinuxM2 | HostProfileOther string

fun HostProfile_Valid :: "host_profile \<Rightarrow> bool" where
  "HostProfile_Valid (HostProfileOther _) = False"
| "HostProfile_Valid _ = True"

subsection \<open>Records\<close>

record sandbox_record =
  sr_SchemaVersion :: u32
  sr_Revision :: revision
  sr_Sandbox :: sandbox
  sr_HostResources :: "receipt list"

record container_record =
  cr_SchemaVersion :: u32
  cr_Revision :: revision
  cr_ContainerAttempt :: container_attempt
  cr_HostResources :: "receipt list"

record operation_record =
  or_SchemaVersion :: u32
  or_Revision :: revision
  or_HostProfile :: host_profile
  or_Operation :: operation
  or_RollbackCause :: "rb_cause option"
  or_OOMBaseline :: "oom_snapshot option"
  or_KillEscalationDeadline :: "gotime option"
  or_Rollback :: "rb_record slice"
  or_Receipts :: "receipt slice"
  or_Releases :: "release slice"

definition NewSandboxRecord :: "sandbox \<Rightarrow> sandbox_record" where
  "NewSandboxRecord s =
    \<lparr>sr_SchemaVersion = SchemaVersionV1, sr_Revision = 0, sr_Sandbox = s, sr_HostResources = []\<rparr>"

definition NewContainerAttemptRecord :: "container_attempt \<Rightarrow> container_record" where
  "NewContainerAttemptRecord p =
    \<lparr>cr_SchemaVersion = SchemaVersionV1, cr_Revision = 0, cr_ContainerAttempt = p, cr_HostResources = []\<rparr>"

definition NewOperationRecord :: "operation \<Rightarrow> operation_record" where
  "NewOperationRecord x =
    \<lparr>or_SchemaVersion = SchemaVersionV1, or_Revision = 0, or_HostProfile = HostProfileAbstractM1,
     or_Operation = x, or_RollbackCause = None, or_OOMBaseline = None,
     or_KillEscalationDeadline = None, or_Rollback = None, or_Receipts = None, or_Releases = None\<rparr>"

definition NewOperationRecordForProfile :: "operation \<Rightarrow> host_profile \<Rightarrow> st_error + operation_record" where
  "NewOperationRecordForProfile x p =
    require (reject (\<not> HostProfile_Valid p) ErrHostProfile)
      (Inr ((NewOperationRecord x)\<lparr>or_HostProfile := p\<rparr>))"

text \<open>Cloning copies a nil rollback journal into an empty one and keeps everything else.\<close>

definition OperationRecord_Clone :: "operation_record \<Rightarrow> operation_record" where
  "OperationRecord_Clone r = r\<lparr>or_Rollback := Some (elems (or_Rollback r))\<rparr>"

lemma OperationRecord_Clone_simps [simp]:
  "or_SchemaVersion (OperationRecord_Clone r) = or_SchemaVersion r"
  "or_Revision (OperationRecord_Clone r) = or_Revision r"
  "or_HostProfile (OperationRecord_Clone r) = or_HostProfile r"
  "or_Operation (OperationRecord_Clone r) = or_Operation r"
  "or_RollbackCause (OperationRecord_Clone r) = or_RollbackCause r"
  "or_OOMBaseline (OperationRecord_Clone r) = or_OOMBaseline r"
  "or_KillEscalationDeadline (OperationRecord_Clone r) = or_KillEscalationDeadline r"
  "elems (or_Rollback (OperationRecord_Clone r)) = elems (or_Rollback r)"
  "or_Receipts (OperationRecord_Clone r) = or_Receipts r"
  "or_Releases (OperationRecord_Clone r) = or_Releases r"
  "OperationRecord_Clone (OperationRecord_Clone r) = OperationRecord_Clone r"
  by (simp_all add: OperationRecord_Clone_def)

subsection \<open>Stages in order\<close>

fun operationStageRank :: "stage \<Rightarrow> int" where
  "operationStageRank StageValidate = 0"
| "operationStageRank StagePersistIntent = 1"
| "operationStageRank StageCheckPreconditions = 2"
| "operationStageRank StageHostPreflight = 3"
| "operationStageRank StagePrepareCgroup = 4"
| "operationStageRank StagePrepareStartGate = 5"
| "operationStageRank StagePrepareStreams = 6"
| "operationStageRank StageCreateProcess = 7"
| "operationStageRank StagePrepareNamespaces = 8"
| "operationStageRank StageJoinNamespaces = 9"
| "operationStageRank StagePrepareRootfs = 10"
| "operationStageRank StageAttachCgroup = 11"
| "operationStageRank StageReleaseStartGate = 12"
| "operationStageRank StageSignalProcess = 13"
| "operationStageRank StageObserveProcess = 14"
| "operationStageRank StageTeardown = 15"
| "operationStageRank StageTransition = 16"
| "operationStageRank StagePersistState = 17"
| "operationStageRank StageRollback = 18"
| "operationStageRank StagePersistResult = 19"
| "operationStageRank StageComplete = 20"
| "operationStageRank (StageOther _) = -1"

text \<open>The rank orders the stages; the order is total on the valid ones.\<close>

instantiation stage :: preorder
begin

definition less_eq_stage :: "stage \<Rightarrow> stage \<Rightarrow> bool" where
  "less_eq_stage a b \<longleftrightarrow> operationStageRank a \<le> operationStageRank b"

definition less_stage :: "stage \<Rightarrow> stage \<Rightarrow> bool" where
  "less_stage a b \<longleftrightarrow> operationStageRank a < operationStageRank b"

instance
  by standard (auto simp: less_eq_stage_def less_stage_def)

end

lemma stage_not_less [simp]: "\<not> (a :: stage) < b \<longleftrightarrow> b \<le> a"
  by (auto simp: less_eq_stage_def less_stage_def)

lemma stage_antisym: "Stage_Valid a \<Longrightarrow> (a :: stage) \<le> b \<Longrightarrow> b \<le> a \<Longrightarrow> a = b"
  by (cases a; cases b) (simp_all add: less_eq_stage_def)

subsection \<open>Receipts\<close>

definition validateSchema :: "u32 \<Rightarrow> st_error option" where
  "validateSchema v = reject (v \<noteq> SchemaVersionV1) ErrUnsupportedSchema"

definition receiptKey :: "receipt \<Rightarrow> provider \<times> kind" where
  "receiptKey r = (rt_Provider r, rt_Kind r)"

definition validateReceiptValue :: "receipt \<Rightarrow> st_error option" where
  "validateReceiptValue r =
    first_err
     [reject (rt_SchemaVersion r \<noteq> OwnershipSchemaVersion) ErrUnsupportedSchema,
      reject (Receipt_Validate r \<noteq> None) ErrInvalidRecord]"

fun receiptKindAllowedForTarget :: "kind \<Rightarrow> target_kind \<Rightarrow> bool" where
  "receiptKindAllowedForTarget k TargetSandbox \<longleftrightarrow>
     k \<in> set [KindSandboxCgroup, KindKeeperCgroup, KindKeeperProcess, KindUTSNamespace,
        KindIPCNamespace, KindNetworkNamespace]"
| "receiptKindAllowedForTarget k (TargetOther _) \<longleftrightarrow> False"
| "receiptKindAllowedForTarget k _ \<longleftrightarrow>
     k \<in> set [KindAttemptCgroup, KindInitProcess, KindPIDNamespace, KindMountNamespace,
        KindRootfsMount, KindStartGate, KindStreams]"

definition acquisition_error :: "operation_record \<Rightarrow> receipt \<Rightarrow> st_error option" where
  "acquisition_error rec r =
    first_err
     [validateReceiptValue r,
      reject (ok_OperationID (rt_Owner r) \<noteq> op_ID (or_Operation rec)
          \<or> ok_Target (rt_Owner r) \<noteq> op_Target (or_Operation rec)) ErrInvalidRecord,
      reject (ok_Generation (rt_Owner r) \<noteq> InitialGeneration) ErrInvalidRecord,
      reject (\<not> receiptKindAllowedForTarget (rt_Kind r) (tg_Kind (op_Target (or_Operation rec))))
        ErrInvalidRecord]"

definition validateAcquisitionReceipts :: "operation_record \<Rightarrow> st_error option" where
  "validateAcquisitionReceipts rec =
    dup_errs receiptKey (\<lambda>i r. acquisition_error rec r) (\<lambda>i. ErrInvalidRecord) 0 []
      (elems (or_Receipts rec))"

definition release_error :: "operation_record \<Rightarrow> release \<Rightarrow> st_error option" where
  "release_error rec r =
    first_err
     [reject (rl_SchemaVersion r \<noteq> OwnershipSchemaVersion) ErrUnsupportedSchema,
      reject (Release_Validate r \<noteq> None) ErrInvalidRecord,
      reject (rl_CleanupOperationID r \<noteq> op_ID (or_Operation rec)
          \<or> ok_Target (rt_Owner (rl_Resource r)) \<noteq> op_Target (or_Operation rec)) ErrInvalidRecord]"

definition validateCleanupReleases :: "operation_record \<Rightarrow> st_error option" where
  "validateCleanupReleases rec =
    (if elems (or_Releases rec) = [] then None
     else first_err
      [reject (op_Type (or_Operation rec) \<noteq> TypeDelete) ErrInvalidRecord,
       reject (op_Stage (or_Operation rec) < StageTeardown) ErrInvalidRecord,
       dup_errs (receiptKey \<circ> rl_Resource) (\<lambda>i r. release_error rec r) (\<lambda>i. ErrInvalidRecord) 0 []
         (elems (or_Releases rec))])"

subsection \<open>Stages that receipts allow\<close>

fun minimumReceiptStage :: "kind \<Rightarrow> stage" where
  "minimumReceiptStage KindSandboxCgroup = StagePrepareCgroup"
| "minimumReceiptStage KindAttemptCgroup = StagePrepareCgroup"
| "minimumReceiptStage KindKeeperCgroup = StagePrepareCgroup"
| "minimumReceiptStage KindStartGate = StagePrepareStartGate"
| "minimumReceiptStage KindStreams = StagePrepareStreams"
| "minimumReceiptStage KindKeeperProcess = StageCreateProcess"
| "minimumReceiptStage KindInitProcess = StageCreateProcess"
| "minimumReceiptStage KindUTSNamespace = StagePrepareNamespaces"
| "minimumReceiptStage KindIPCNamespace = StagePrepareNamespaces"
| "minimumReceiptStage KindNetworkNamespace = StagePrepareNamespaces"
| "minimumReceiptStage KindPIDNamespace = StagePrepareNamespaces"
| "minimumReceiptStage KindMountNamespace = StagePrepareNamespaces"
| "minimumReceiptStage KindRootfsMount = StagePrepareRootfs"
| "minimumReceiptStage (KindOther _) = StageComplete"

definition nextProfileKind :: "target_kind \<Rightarrow> nat \<Rightarrow> kind option" where
  "nextProfileKind t n =
    (let kinds =
       (if t = TargetSandbox then
          [KindSandboxCgroup, KindKeeperCgroup, KindKeeperProcess, KindUTSNamespace,
           KindIPCNamespace, KindNetworkNamespace]
        else
          [KindAttemptCgroup, KindStartGate, KindStreams, KindInitProcess, KindPIDNamespace,
           KindMountNamespace, KindRootfsMount])
     in if length kinds \<le> n then None else Some (kinds ! n))"

definition validateReceiptStagePrefix :: "target_kind \<Rightarrow> stage \<Rightarrow> receipt list \<Rightarrow> st_error option" where
  "validateReceiptStagePrefix t st rs =
    (if rs = [] then None
     else if st = StageRollback \<or> st = StagePersistResult \<or> st = StageComplete then None
     else first_err
      [reject (st < minimumReceiptStage (rt_Kind (last rs))) ErrInvalidRecord,
       (case nextProfileKind t (length rs) of
          None \<Rightarrow> None
        | Some k \<Rightarrow> reject (minimumReceiptStage k < st) ErrInvalidRecord)])"

fun validateHostProfileRecord :: "operation_record \<Rightarrow> st_error option" where
  "validateHostProfileRecord rec =
    (case or_HostProfile rec of
       HostProfileAbstractM1 \<Rightarrow>
         reject (elems (or_Receipts rec) \<noteq> [] \<or> elems (or_Releases rec) \<noteq> []) ErrInvalidRecord
     | HostProfileLinuxM2 \<Rightarrow>
         if op_Type (or_Operation rec) \<noteq> TypeCreate
         then reject (elems (or_Receipts rec) \<noteq> []) ErrInvalidRecord
         else first_err
          [reject (ValidateReceiptJournalPrefix (tg_Kind (op_Target (or_Operation rec))) (elems (or_Receipts rec))
              \<noteq> None) ErrInvalidRecord,
           validateReceiptStagePrefix (tg_Kind (op_Target (or_Operation rec))) (op_Stage (or_Operation rec))
             (elems (or_Receipts rec))]
     | HostProfileOther _ \<Rightarrow> Some ErrInvalidRecord)"

subsection \<open>Links between receipts and the rollback journal\<close>

definition receiptRequiresInverse :: "kind \<Rightarrow> bool" where
  "receiptRequiresInverse k \<longleftrightarrow>
     k \<in> set [KindSandboxCgroup, KindAttemptCgroup, KindKeeperCgroup, KindKeeperProcess,
        KindInitProcess, KindRootfsMount, KindStartGate, KindStreams]"

fun passiveReceiptDependency :: "kind \<Rightarrow> kind option" where
  "passiveReceiptDependency KindUTSNamespace = Some KindKeeperProcess"
| "passiveReceiptDependency KindIPCNamespace = Some KindKeeperProcess"
| "passiveReceiptDependency KindNetworkNamespace = Some KindKeeperProcess"
| "passiveReceiptDependency KindPIDNamespace = Some KindInitProcess"
| "passiveReceiptDependency KindMountNamespace = Some KindInitProcess"
| "passiveReceiptDependency _ = None"

definition sameReceiptIdentity :: "receipt \<Rightarrow> receipt \<Rightarrow> bool" where
  "sameReceiptIdentity a b \<longleftrightarrow> a\<lparr>rt_Adopted := False\<rparr> = b\<lparr>rt_Adopted := False\<rparr>"

definition receipt_table :: "receipt list \<Rightarrow> (provider \<times> kind, receipt) table" where
  "receipt_table rs = foldl (\<lambda>t r. AList.update (receiptKey r) r t) [] rs"

text \<open>The walk over the rollback records that collects the linked ones.\<close>

fun link_loop ::
    "(provider \<times> kind, receipt) table \<Rightarrow> (provider \<times> kind, rb_record) table \<Rightarrow> rb_record list
     \<Rightarrow> st_error + (provider \<times> kind, rb_record) table" where
  "link_loop receipts linked [] = Inr linked"
| "link_loop receipts linked (b # bs) =
    (if \<not> Action_Valid (action_of (rd_Action (rr_Descriptor b))) then link_loop receipts linked bs
     else (case ReceiptFromDescriptor (rr_Descriptor b) of
        Inl e \<Rightarrow> Inl ErrInvalidRecord
      | Inr (r, a) \<Rightarrow>
        (case map_of receipts (receiptKey r) of
           None \<Rightarrow> Inl ErrInvalidRecord
         | Some journaled \<Rightarrow>
           if \<not> sameReceiptIdentity r journaled then Inl ErrInvalidRecord
           else if map_of linked (receiptKey r) \<noteq> None then Inl ErrInvalidRecord
           else link_loop receipts (AList.update (receiptKey r) b linked) bs)))"

definition inverse_link_error ::
    "op_state \<Rightarrow> (provider \<times> kind, rb_record) table \<Rightarrow> provider \<times> kind \<Rightarrow> st_error option" where
  "inverse_link_error state linked key =
    (case map_of linked key of
       None \<Rightarrow> Some ErrInvalidRecord
     | Some b \<Rightarrow> reject (state = StateSucceeded \<and> (rr_Started b \<or> rr_Succeeded b)) ErrInvalidRecord)"

definition receipt_link_error ::
    "op_state \<Rightarrow> (provider \<times> kind, receipt) table \<Rightarrow> (provider \<times> kind, rb_record) table \<Rightarrow> receipt
     \<Rightarrow> st_error option" where
  "receipt_link_error state receipts linked r =
    (case passiveReceiptDependency (rt_Kind r) of
       Some dependency \<Rightarrow>
         if map_of receipts (ProviderLinux, dependency) = None then Some ErrInvalidRecord
         else inverse_link_error state linked (ProviderLinux, dependency)
     | None \<Rightarrow>
         if \<not> receiptRequiresInverse (rt_Kind r) then None
         else inverse_link_error state linked (receiptKey r))"

fun order_loop :: "receipt list \<Rightarrow> rb_record list \<Rightarrow> st_error option" where
  "order_loop [] bs = reject (bs \<noteq> []) ErrInvalidRecord"
| "order_loop (r # rs) bs =
    (if \<not> receiptRequiresInverse (rt_Kind r) then order_loop rs bs
     else (case bs of
        [] \<Rightarrow> Some ErrInvalidRecord
      | b # bs' \<Rightarrow>
        (case ReceiptFromDescriptor (rr_Descriptor b) of
           Inl e \<Rightarrow> Some ErrInvalidRecord
         | Inr (d, a) \<Rightarrow> if \<not> sameReceiptIdentity d r then Some ErrInvalidRecord else order_loop rs bs')))"

definition validateRollbackAcquisitionOrder :: "operation_record \<Rightarrow> st_error option" where
  "validateRollbackAcquisitionOrder rec =
    (if elems (or_Receipts rec) = [] then None
     else order_loop (elems (or_Receipts rec)) (elems (or_Rollback rec)))"

definition validateReceiptRollbackLinks :: "operation_record \<Rightarrow> st_error option" where
  "validateReceiptRollbackLinks rec =
    (let receipts = receipt_table (elems (or_Receipts rec)) in
     case link_loop receipts [] (elems (or_Rollback rec)) of
       Inl e \<Rightarrow> Some e
     | Inr linked \<Rightarrow> first_err
        [first_err (map (receipt_link_error (op_State (or_Operation rec)) receipts linked)
           (elems (or_Receipts rec))),
         validateRollbackAcquisitionOrder rec])"


subsection \<open>Operation records\<close>

definition cause_record_error :: "operation_record \<Rightarrow> st_error option" where
  "cause_record_error rec =
    (case or_RollbackCause rec of
       None \<Rightarrow> None
     | Some c \<Rightarrow> first_err
        [reject (Cause_Validate c \<noteq> None) ErrInvalidRecord,
         reject (op_Stage (or_Operation rec) \<noteq> StageRollback \<and> \<not> State_Terminal (op_State (or_Operation rec)))
           ErrInvalidRecord])"

definition oom_record_error :: "operation_record \<Rightarrow> st_error option" where
  "oom_record_error rec =
    (case or_OOMBaseline rec of
       None \<Rightarrow> None
     | Some b \<Rightarrow> first_err
        [reject (OOMSnapshot_Validate b \<noteq> None) ErrInvalidRecord,
         reject (op_Type (or_Operation rec) \<noteq> TypeCreate
             \<or> tg_Kind (op_Target (or_Operation rec)) \<noteq> TargetContainer) ErrInvalidRecord,
         reject (\<not> list_ex (\<lambda>r. rt_Kind r = KindAttemptCgroup \<and> rt_Owner r = om_Owner b
             \<and> rt_EvidenceSHA256 r = om_CgroupEvidenceSHA256 b) (elems (or_Receipts rec)))
           ErrInvalidRecord])"

definition deadline_record_error :: "operation_record \<Rightarrow> st_error option" where
  "deadline_record_error rec =
    first_err
     [(case or_KillEscalationDeadline rec of
         None \<Rightarrow> None
       | Some t \<Rightarrow> first_err
          [reject (time_IsZero t) ErrInvalidRecord,
           reject (op_Type (or_Operation rec) \<noteq> TypeKill
               \<or> tg_Kind (op_Target (or_Operation rec)) \<noteq> TargetContainer) ErrInvalidRecord,
           reject (State_Active (op_State (or_Operation rec))
               \<and> op_Stage (or_Operation rec) < StageSignalProcess) ErrInvalidRecord]),
      reject (State_Active (op_State (or_Operation rec)) \<and> op_Type (or_Operation rec) = TypeKill
          \<and> op_Stage (or_Operation rec) = StageSignalProcess \<and> or_KillEscalationDeadline rec = None)
        ErrInvalidRecord,
      reject (op_Stage (or_Operation rec) = StageRollback \<and> or_RollbackCause rec = None)
        ErrInvalidRecord]"

text \<open>The loop over the rollback records; the duplicate check comes before the terminal one.\<close>

fun rollback_loop :: "op_state \<Rightarrow> string list \<Rightarrow> rb_record list \<Rightarrow> st_error option" where
  "rollback_loop state seen [] = None"
| "rollback_loop state seen (b # bs) =
    (if Record_Validate b \<noteq> None then Some ErrInvalidRecord
     else if rd_Name (rr_Descriptor b) \<in> set seen then Some ErrInvalidRecord
     else if State_Terminal state \<and> \<not> rr_Succeeded b \<and> (rr_Started b \<or> state = StateFailed)
     then Some ErrInvalidRecord
     else rollback_loop state (rd_Name (rr_Descriptor b) # seen) bs)"

definition adoption_error :: "operation_record \<Rightarrow> st_error option" where
  "adoption_error rec =
    (let x = or_Operation rec; rs = elems (or_Receipts rec) in
     first_err
      [(if op_State x = StateSucceeded then first_err
         [reject (op_Result x = ResultNoop \<and> rs \<noteq> []) ErrInvalidRecord,
          reject (list_ex (\<lambda>r. \<not> rt_Adopted r) rs) ErrInvalidRecord,
          reject (op_Type x = TypeCreate \<and> op_Result x = ResultSucceeded
              \<and> or_HostProfile rec = HostProfileLinuxM2
              \<and> ValidateReceiptJournalProfile (tg_Kind (op_Target x)) rs \<noteq> None) ErrInvalidRecord]
        else None),
       reject (op_State x = StateFailed \<and> list_ex rt_Adopted rs) ErrInvalidRecord,
       reject (State_Active (op_State x) \<and> list_ex rt_Adopted rs) ErrInvalidRecord])"

definition validateOperationRecord :: "operation_record \<Rightarrow> st_error option" where
  "validateOperationRecord rec =
    first_err
     [validateSchema (or_SchemaVersion rec),
      reject (\<not> HostProfile_Valid (or_HostProfile rec)) ErrInvalidRecord,
      reject (op_SchemaVersion (or_Operation rec) \<noteq> OperationSchemaVersion) ErrUnsupportedSchema,
      reject (Operation_Validate (or_Operation rec) \<noteq> None) ErrInvalidRecord,
      cause_record_error rec,
      oom_record_error rec,
      deadline_record_error rec,
      validateAcquisitionReceipts rec,
      validateHostProfileRecord rec,
      validateCleanupReleases rec,
      rollback_loop (op_State (or_Operation rec)) [] (elems (or_Rollback rec)),
      validateReceiptRollbackLinks rec,
      adoption_error rec]"

subsection \<open>Resource records\<close>

definition inventory_error :: "generation \<Rightarrow> target list \<Rightarrow> receipt \<Rightarrow> st_error option" where
  "inventory_error g targets r =
    first_err
     [validateReceiptValue r,
      reject (\<not> rt_Adopted r) ErrInvalidRecord,
      reject (ok_Generation (rt_Owner r) \<noteq> g) ErrInvalidRecord,
      reject (ok_Target (rt_Owner r) \<notin> set targets) ErrInvalidRecord,
      reject (\<not> receiptKindAllowedForTarget (rt_Kind r) (tg_Kind (ok_Target (rt_Owner r)))) ErrInvalidRecord]"

definition validateHostResourceInventory ::
    "receipt list \<Rightarrow> generation \<Rightarrow> target list \<Rightarrow> st_error option" where
  "validateHostResourceInventory rs g targets =
    first_err
     [dup_errs receiptKey (\<lambda>i r. inventory_error g targets r) (\<lambda>i. ErrInvalidRecord) 0 [] rs,
      reject (rs \<noteq> [] \<and> ValidateReceiptJournalProfile (tg_Kind (ok_Target (rt_Owner (hd rs)))) rs \<noteq> None)
        ErrInvalidRecord]"

definition validateSandboxRecord :: "sandbox_record \<Rightarrow> st_error option" where
  "validateSandboxRecord rec =
    (let s = sr_Sandbox rec in
     first_err
      [validateSchema (sr_SchemaVersion rec),
       reject (sb_SchemaVersion s \<noteq> DomainSchemaVersion) ErrUnsupportedSchema,
       reject (Sandbox_Validate s \<noteq> None) ErrInvalidRecord,
       validateHostResourceInventory (sr_HostResources rec) (ss_Generation (sb_Status s))
         [\<lparr>tg_Kind = TargetSandbox, tg_ID = sb_ID s\<rparr>]])"

definition validateContainerAttemptRecord :: "container_record \<Rightarrow> st_error option" where
  "validateContainerAttemptRecord rec =
    (let p = cr_ContainerAttempt rec in
     first_err
      [validateSchema (cr_SchemaVersion rec),
       reject (co_SchemaVersion (ca_Container p) \<noteq> DomainSchemaVersion
           \<or> at_SchemaVersion (ca_Attempt p) \<noteq> DomainSchemaVersion) ErrUnsupportedSchema,
       reject (ContainerAttempt_Validate p \<noteq> None) ErrInvalidRecord,
       validateHostResourceInventory (cr_HostResources rec) (ct_Generation (co_Status (ca_Container p)))
         [\<lparr>tg_Kind = TargetContainer, tg_ID = co_ID (ca_Container p)\<rparr>,
          \<lparr>tg_Kind = TargetAttempt, tg_ID = at_ID (ca_Attempt p)\<rparr>]])"

definition validateEvent :: "event \<Rightarrow> st_error option" where
  "validateEvent e =
    first_err
     [reject (ev_SchemaVersion e \<noteq> EventSchemaVersion) ErrUnsupportedSchema,
      reject (Event_Validate e \<noteq> None) ErrInvalidRecord]"

subsection \<open>Facts about valid records\<close>

lemma validateReceiptValue_None [simp]: "validateReceiptValue r = None \<longleftrightarrow> Receipt_Validate r = None"
  by (auto simp: validateReceiptValue_def Receipt_Validate_None OwnershipSchemaVersion_def)

lemma acquisitions_None:
  "validateAcquisitionReceipts rec = None \<longleftrightarrow>
     (\<forall>r \<in> set (elems (or_Receipts rec)). acquisition_error rec r = None)
     \<and> distinct (map receiptKey (elems (or_Receipts rec)))"
  unfolding validateAcquisitionReceipts_def by (rule dup_errs_None) simp

lemma rollback_loop_None:
  "rollback_loop state seen bs = None \<longleftrightarrow>
     (\<forall>b \<in> set bs. Record_Validate b = None)
     \<and> distinct (map (rd_Name \<circ> rr_Descriptor) bs) \<and> (\<forall>b \<in> set bs. rd_Name (rr_Descriptor b) \<notin> set seen)
     \<and> (State_Terminal state \<longrightarrow> (\<forall>b \<in> set bs. rr_Succeeded b \<or> \<not> rr_Started b \<and> state \<noteq> StateFailed))"
proof (induction bs arbitrary: seen)
  case (Cons b bs)
  let ?fresh = "\<lambda>s. \<forall>c \<in> set bs. rd_Name (rr_Descriptor c) \<notin> set s"
  let ?done = "\<lambda>c. State_Terminal state \<longrightarrow> rr_Succeeded c \<or> \<not> rr_Started c \<and> state \<noteq> StateFailed"
  have step: "rollback_loop state seen (b # bs) = None \<longleftrightarrow>
      Record_Validate b = None \<and> rd_Name (rr_Descriptor b) \<notin> set seen \<and> ?done b
      \<and> rollback_loop state (rd_Name (rr_Descriptor b) # seen) bs = None"
    by (simp split: if_split) blast
  have fresh: "?fresh (rd_Name (rr_Descriptor b) # seen) \<longleftrightarrow>
      rd_Name (rr_Descriptor b) \<notin> (rd_Name \<circ> rr_Descriptor) ` set bs \<and> ?fresh seen"
    by (auto simp: image_iff)
  show ?case
    unfolding step Cons.IH fresh list.map distinct.simps set_map by auto
qed simp

lemma validateOperationRecord_Operation:
  "validateOperationRecord rec = None \<Longrightarrow> Operation_Validate (or_Operation rec) = None"
  by (simp add: validateOperationRecord_def)

lemma validateReceiptRollbackLinks_Clone [simp]:
  "validateReceiptRollbackLinks (OperationRecord_Clone r) = validateReceiptRollbackLinks r"
  by (simp add: validateReceiptRollbackLinks_def validateRollbackAcquisitionOrder_def
      cong: sum.case_cong)

lemma release_error_Clone [simp]: "release_error (OperationRecord_Clone r) = release_error r"
  by (simp add: release_error_def fun_eq_iff)

lemma acquisition_error_Clone [simp]: "acquisition_error (OperationRecord_Clone r) = acquisition_error r"
  by (simp add: acquisition_error_def fun_eq_iff)

lemma validateHostProfileRecord_Clone [simp]:
  "validateHostProfileRecord (OperationRecord_Clone r) = validateHostProfileRecord r"
  by (simp cong: host_profile.case_cong)

lemma adoption_error_Clone [simp]: "adoption_error (OperationRecord_Clone r) = adoption_error r"
  by (simp add: adoption_error_def Let_def)

lemma validateCleanupReleases_Clone [simp]:
  "validateCleanupReleases (OperationRecord_Clone r) = validateCleanupReleases r"
  by (simp add: validateCleanupReleases_def)

lemma validateAcquisitionReceipts_Clone [simp]:
  "validateAcquisitionReceipts (OperationRecord_Clone r) = validateAcquisitionReceipts r"
  by (simp add: validateAcquisitionReceipts_def)

lemma validateOperationRecord_Clone [simp]:
  "validateOperationRecord (OperationRecord_Clone r) = validateOperationRecord r"
  by (simp add: validateOperationRecord_def cause_record_error_def oom_record_error_def
      deadline_record_error_def del: validateHostProfileRecord.simps cong: option.case_cong)

end
