(* ===== verification/State_Advance.thy ===== *)
theory State_Advance
  imports State_Record Operation_Resolve "HOL-Library.Sublist"
begin

text \<open>
  What a stored record allows its successor to be: the \<open>validate...Advance\<close> functions of
  \<open>internal/state/memory.go\<close>, the compare-and-set revision and the freeze of a terminal
  operation. The three journals of an operation record share one contract, the locale \<open>journal\<close>:
  accepted writes keep the recorded history as a prefix. \<open>reflect.DeepEqual\<close> is equality of the
  modelled values.
\<close>

subsection \<open>Revisions\<close>

definition nextRevision :: "revision \<Rightarrow> revision \<Rightarrow> bool \<Rightarrow> st_error + revision" where
  "nextRevision expected current exist =
    (if \<not> exist then (if expected \<noteq> 0 then Inl ErrRevisionConflict else Inr 1)
     else if expected = 0 \<or> expected \<noteq> current then Inl ErrRevisionConflict
     else if current = -1 then Inl ErrRevisionConflict
     else Inr (current + 1))"

subsection \<open>Resources\<close>

definition validateSandboxAdvance :: "sandbox \<Rightarrow> sandbox \<Rightarrow> st_error option" where
  "validateSandboxAdvance current new =
    first_err
     [reject (ss_ObservedGeneration (sb_Status new) < ss_ObservedGeneration (sb_Status current)) ErrInvalidRecord,
      reject (obs_EventSequence (ss_LastObservation (sb_Status new))
          < obs_EventSequence (ss_LastObservation (sb_Status current))) ErrInvalidRecord,
      (if ss_Phase (sb_Status current) = ss_Phase (sb_Status new) then None
       else wrap (\<lambda>_. ErrInvalidRecord)
         (err_of (TransitionSandbox (ss_Phase (sb_Status current)) (ss_Phase (sb_Status new)))))]"

definition sameContainerAttemptIdentityAndSpec :: "container_attempt \<Rightarrow> container_attempt \<Rightarrow> bool" where
  "sameContainerAttemptIdentityAndSpec current new \<longleftrightarrow>
     (let c = ca_Container current; n = ca_Container new; a = ca_Attempt current; b = ca_Attempt new in
      co_SchemaVersion c = co_SchemaVersion n \<and> at_SchemaVersion a = at_SchemaVersion b
      \<and> co_ID c = co_ID n \<and> co_SandboxID c = co_SandboxID n \<and> co_AttemptID c = co_AttemptID n
      \<and> at_ID a = at_ID b \<and> at_SandboxID a = at_SandboxID b \<and> at_ContainerID a = at_ContainerID b
      \<and> ct_Generation (co_Status c) = ct_Generation (co_Status n) \<and> co_Spec c = co_Spec n)"

definition validateContainerAttemptAdvance ::
    "container_attempt \<Rightarrow> container_attempt \<Rightarrow> st_error option" where
  "validateContainerAttemptAdvance current new =
    (let c = ca_Attempt current; n = ca_Attempt new in
     first_err
      [reject (ct_ObservedGeneration (co_Status (ca_Container new))
          < ct_ObservedGeneration (co_Status (ca_Container current))) ErrInvalidRecord,
       reject (obs_EventSequence (at_LastObservation n) < obs_EventSequence (at_LastObservation c)) ErrInvalidRecord,
       reject (at_ProcessIdentity c \<noteq> None \<and> at_ProcessIdentity c \<noteq> at_ProcessIdentity n) ErrInvalidRecord,
       (if at_Phase c \<noteq> at_Phase n
        then wrap (\<lambda>_. ErrInvalidRecord) (err_of (TransitionAttempt (at_Phase c) (at_Phase n))) else None),
       reject (at_Phase c = AttemptStopped \<and> at_Phase n = AttemptStopped
           \<and> (at_Outcome c \<noteq> at_Outcome n \<or> at_ProcessIdentity c \<noteq> at_ProcessIdentity n
              \<or> at_Streams c \<noteq> at_Streams n)) ErrInvalidRecord])"

definition validateHostResourceAdvance :: "receipt list \<Rightarrow> receipt list \<Rightarrow> st_error option" where
  "validateHostResourceAdvance current new =
    (let newByKey = receipt_table new in
     first_err
      [reject (current \<noteq> [] \<and> new \<noteq> [] \<and> length new \<noteq> length current) ErrInvalidRecord,
       first_err (map (\<lambda>r. case map_of newByKey (receiptKey r) of
            None \<Rightarrow> None
          | Some n \<Rightarrow> reject (r \<noteq> n) ErrInvalidRecord) current)])"

subsection \<open>The journals of an operation\<close>

definition rollback_entry_error :: "rb_record \<times> rb_record \<Rightarrow> st_error option" where
  "rollback_entry_error = (\<lambda>(c, n).
    first_err
     [reject (rr_Descriptor c \<noteq> rr_Descriptor n) ErrInvalidRecord,
      reject (rr_Succeeded c \<and> \<not> rr_Succeeded n) ErrInvalidRecord,
      reject (rr_Started c \<and> \<not> rr_Started n) ErrInvalidRecord,
      reject (rr_Attempts n < rr_Attempts c) ErrInvalidRecord,
      reject (rr_Attempts n = rr_Attempts c \<and> rr_LastError n \<noteq> rr_LastError c) ErrInvalidRecord])"

definition validateRollbackAdvance :: "rb_record list \<Rightarrow> rb_record list \<Rightarrow> st_error option" where
  "validateRollbackAdvance current new =
    first_err
     [reject (length new < length current) ErrInvalidRecord,
      reject (length current < length new \<and> list_ex rr_Started current) ErrInvalidRecord,
      first_err (map rollback_entry_error (zip current new))]"

definition once_set :: "'a option \<Rightarrow> 'a option \<Rightarrow> st_error option" where
  "once_set current new = reject (current \<noteq> None \<and> current \<noteq> new) ErrInvalidRecord"

definition validateRollbackCauseAdvance :: "rb_cause option \<Rightarrow> rb_cause option \<Rightarrow> st_error option" where
  "validateRollbackCauseAdvance = once_set"

definition validateOOMBaselineAdvance :: "oom_snapshot option \<Rightarrow> oom_snapshot option \<Rightarrow> st_error option" where
  "validateOOMBaselineAdvance = once_set"

fun validateKillEscalationDeadlineAdvance :: "gotime option \<Rightarrow> gotime option \<Rightarrow> st_error option" where
  "validateKillEscalationDeadlineAdvance None _ = None"
| "validateKillEscalationDeadlineAdvance (Some _) None = Some ErrInvalidRecord"
| "validateKillEscalationDeadlineAdvance (Some t) (Some u) = reject (\<not> time_Equal t u) ErrInvalidRecord"

fun timesEqual :: "gotime option \<Rightarrow> gotime option \<Rightarrow> bool" where
  "timesEqual (Some t) (Some u) \<longleftrightarrow> time_Equal t u"
| "timesEqual a b \<longleftrightarrow> a = None \<and> b = None"

definition receipt_entry_error :: "receipt \<times> receipt \<Rightarrow> st_error option" where
  "receipt_entry_error = (\<lambda>(c, n).
    first_err
     [reject (\<not> sameReceiptIdentity c n) ErrInvalidRecord,
      reject (rt_Adopted c \<and> \<not> rt_Adopted n) ErrInvalidRecord])"

definition validateReceiptAdvance ::
    "receipt list \<Rightarrow> receipt list \<Rightarrow> rb_record list \<Rightarrow> rb_record list \<Rightarrow> st_error option" where
  "validateReceiptAdvance current new currentRollback newRollback =
    first_err
     [reject (length new < length current) ErrInvalidRecord,
      reject (length current + 1 < length new) ErrInvalidRecord,
      (if length current < length new then first_err
        [reject (list_ex rr_Started (currentRollback @ newRollback)) ErrInvalidRecord,
         reject (list_ex rt_Adopted (drop (length current) new)) ErrInvalidRecord]
       else None),
      first_err (map receipt_entry_error (zip current new))]"

definition validateReleaseAdvance :: "release list \<Rightarrow> release list \<Rightarrow> st_error option" where
  "validateReleaseAdvance current new =
    first_err
     [reject (length new < length current) ErrInvalidRecord,
      first_err (map (\<lambda>(c, n). reject (c \<noteq> n) ErrInvalidRecord) (zip current new))]"

subsection \<open>Progress of an operation\<close>

definition validateOperationAdvance :: "operation \<Rightarrow> operation \<Rightarrow> st_error option" where
  "validateOperationAdvance current new =
    (if State_Terminal (op_State current) then None
     else
      (let responseInitializedWithIntent =
         op_State current = StatePending \<and> op_Stage current = StageValidate \<and> op_Response current = []
         \<and> op_State new = StateRunning \<and> op_Stage new = StagePersistIntent \<and> op_Response new \<noteq> []
       in first_err
        [reject (State_Active (op_State current) \<and> State_Active (op_State new)
            \<and> op_Response current \<noteq> op_Response new \<and> \<not> responseInitializedWithIntent) ErrInvalidRecord,
         reject (op_State current = StateRunning \<and> op_State new = StatePending) ErrInvalidRecord,
         reject (op_State current = op_State new \<and> State_Active (op_State new)
            \<and> op_Stage new < op_Stage current) ErrInvalidRecord]))"

definition validateHostProfileOperationAdvance :: "operation_record \<Rightarrow> operation_record \<Rightarrow> st_error option" where
  "validateHostProfileOperationAdvance current new =
    (let c = op_Stage (or_Operation current); n = op_Stage (or_Operation new) in
     if or_HostProfile current \<noteq> HostProfileLinuxM2 \<or> op_Type (or_Operation current) \<noteq> TypeStart \<or> c = n
     then None
     else if c < StageAttachCgroup \<and> StageAttachCgroup < n then Some ErrInvalidRecord
     else if operationStageRank c = operationStageRank StageAttachCgroup \<and> StageAttachCgroup < n
       \<and> n \<noteq> StageReleaseStartGate then Some ErrInvalidRecord
     else if StageReleaseStartGate \<le> c \<and> c < StageObserveProcess \<and> StageReleaseStartGate < n
       \<and> n \<noteq> StageObserveProcess then Some ErrInvalidRecord
     else None)"

definition sameOperationBinding :: "operation \<Rightarrow> operation \<Rightarrow> bool" where
  "sameOperationBinding a b \<longleftrightarrow>
     op_ID a = op_ID b \<and> op_Type a = op_Type b \<and> op_Target a = op_Target b
     \<and> op_Fingerprint a = op_Fingerprint b"

definition sameOperation :: "operation \<Rightarrow> operation \<Rightarrow> bool" where
  "sameOperation a b \<longleftrightarrow>
     sameOperationBinding a b \<and> op_SchemaVersion a = op_SchemaVersion b \<and> op_State a = op_State b
     \<and> op_Stage a = op_Stage b \<and> op_Result a = op_Result b \<and> op_Reason a = op_Reason b
     \<and> op_Response a = op_Response b"

definition terminalOperationUpdateAllowed :: "operation \<Rightarrow> operation \<Rightarrow> bool" where
  "terminalOperationUpdateAllowed current new \<longleftrightarrow>
     sameOperation current new
     \<or> op_Response current = [] \<and> op_Response new \<noteq> [] \<and> sameOperationBinding current new
       \<and> op_SchemaVersion current = op_SchemaVersion new \<and> op_State current = op_State new
       \<and> op_Stage current = op_Stage new \<and> op_Result current = op_Result new
       \<and> op_Reason current = op_Reason new"

text \<open>The checks that \<open>PutOperation\<close> runs against the stored record; the last one freezes a
  terminal operation.\<close>

definition terminal_frozen :: "operation_record \<Rightarrow> operation_record \<Rightarrow> bool" where
  "terminal_frozen current rec \<longleftrightarrow>
     terminalOperationUpdateAllowed (or_Operation current) (or_Operation rec)
     \<and> or_RollbackCause current = or_RollbackCause rec
     \<and> or_OOMBaseline current = or_OOMBaseline rec
     \<and> timesEqual (or_KillEscalationDeadline current) (or_KillEscalationDeadline rec)
     \<and> or_Rollback current = or_Rollback rec
     \<and> or_Receipts current = or_Receipts rec
     \<and> or_Releases current = or_Releases rec"

definition operation_advance_error :: "operation_record \<Rightarrow> operation_record \<Rightarrow> st_error option" where
  "operation_advance_error current rec =
    first_err
     [reject (or_HostProfile current \<noteq> or_HostProfile rec) ErrInvalidRecord,
      wrap ErrBindingChanged (err_of (Resolve (Some (or_Operation current)) (Operation_Binding (or_Operation rec)))),
      validateRollbackAdvance (elems (or_Rollback current)) (elems (or_Rollback rec)),
      validateRollbackCauseAdvance (or_RollbackCause current) (or_RollbackCause rec),
      validateOOMBaselineAdvance (or_OOMBaseline current) (or_OOMBaseline rec),
      validateKillEscalationDeadlineAdvance (or_KillEscalationDeadline current) (or_KillEscalationDeadline rec),
      validateReceiptAdvance (elems (or_Receipts current)) (elems (or_Receipts rec))
        (elems (or_Rollback current)) (elems (or_Rollback rec)),
      validateReleaseAdvance (elems (or_Releases current)) (elems (or_Releases rec)),
      validateOperationAdvance (or_Operation current) (or_Operation rec),
      validateHostProfileOperationAdvance current rec,
      reject (State_Terminal (op_State (or_Operation current)) \<and> \<not> terminal_frozen current rec) ErrInvalidRecord]"


subsection \<open>Journals\<close>

text \<open>
  The contract that the journals of an operation share: an accepted write keeps every entry in its
  place, under the key that identifies it, and moves it only forward. What follows for a whole
  sequence of accepted writes is proved once.
\<close>

locale journal =
  fixes adv :: "'j \<Rightarrow> 'j \<Rightarrow> st_error option"
    and entries :: "'j \<Rightarrow> 'e list"
    and key :: "'e \<Rightarrow> 'k"
    and progress :: "'e \<Rightarrow> 'e \<Rightarrow> bool"
  assumes keeps: "adv a b = None \<Longrightarrow> prefix (map key (entries a)) (map key (entries b))"
    and forward: "adv a b = None \<Longrightarrow> list_all2 progress (entries a) (take (length (entries a)) (entries b))"
    and progress_refl: "progress e e"
    and progress_trans: "progress e f \<Longrightarrow> progress f g \<Longrightarrow> progress e g"
begin

definition extends :: "'j \<Rightarrow> 'j \<Rightarrow> bool" where
  "extends a b \<longleftrightarrow> prefix (map key (entries a)) (map key (entries b))
     \<and> list_all2 progress (entries a) (take (length (entries a)) (entries b))"

lemma extends_refl: "extends a a"
  by (simp add: extends_def list_all2_refl progress_refl)

lemma extends_trans:
  assumes "extends a b" and "extends b c"
  shows "extends a c"
proof -
  let ?n = "length (entries a)"
  have le: "?n \<le> length (entries b)"
    using assms(1) by (auto simp: extends_def dest: prefix_length_le)
  have "list_all2 progress (take ?n (entries b)) (take ?n (take (length (entries b)) (entries c)))"
    using assms(2) unfolding extends_def by (blast intro: list_all2_takeI)
  then have "list_all2 progress (take ?n (entries b)) (take ?n (entries c))"
    using le by (simp add: min_absorb1)
  then have "list_all2 progress (entries a) (take ?n (entries c))"
    using assms(1) list_all2_trans [of progress progress progress] progress_trans
    unfolding extends_def by blast
  then show ?thesis
    using assms by (auto simp: extends_def intro: prefix_order.trans)
qed

lemma accepted_extends: "adv a b = None \<Longrightarrow> extends a b"
  by (simp add: extends_def keeps forward)

lemma entry_forward:
  assumes "extends a b" and "i < length (entries a)"
  shows "i < length (entries b)" and "key (entries b ! i) = key (entries a ! i)"
    and "progress (entries a ! i) (entries b ! i)"
proof -
  have le: "length (entries a) \<le> length (entries b)"
    using assms(1) by (auto simp: extends_def dest: prefix_length_le)
  then show "i < length (entries b)" using assms(2) by simp
  have "map key (entries b) ! i = map key (entries a) ! i"
    using assms by (auto simp: extends_def prefix_def nth_append)
  then show "key (entries b ! i) = key (entries a ! i)"
    using assms(2) le by simp
  show "progress (entries a ! i) (entries b ! i)"
    using assms le by (auto simp: extends_def dest: list_all2_nthD)
qed

end

lemma first_err_zip_None:
  "first_err (map f (zip xs ys)) = None \<longleftrightarrow>
     (\<forall>i < min (length xs) (length ys). f (xs ! i, ys ! i) = None)"
  by (auto simp: first_err_None_iff set_zip)

lemma prefix_mapI:
  assumes "length xs \<le> length ys" and "\<And>i. i < length xs \<Longrightarrow> f (xs ! i) = f (ys ! i)"
  shows "prefix (map f xs) (map f ys)"
proof -
  have "map f xs = take (length xs) (map f ys)"
    using assms by (intro nth_equalityI) simp_all
  then show ?thesis by (metis take_is_prefix)
qed

lemma forwardI:
  assumes "length xs \<le> length ys" and "\<And>i. i < length xs \<Longrightarrow> P (xs ! i) (ys ! i)"
  shows "list_all2 P xs (take (length xs) ys)"
  using assms by (simp add: list_all2_conv_all_nth)

definition receipt_identity :: "receipt \<Rightarrow> receipt" where
  "receipt_identity r = r\<lparr>rt_Adopted := False\<rparr>"

definition receipt_journal_advance ::
    "receipt list \<times> rb_record list \<Rightarrow> receipt list \<times> rb_record list \<Rightarrow> st_error option" where
  "receipt_journal_advance a b = validateReceiptAdvance (fst a) (fst b) (snd a) (snd b)"

definition rollback_progress :: "rb_record \<Rightarrow> rb_record \<Rightarrow> bool" where
  "rollback_progress c n \<longleftrightarrow> (rr_Succeeded c \<longrightarrow> rr_Succeeded n) \<and> (rr_Started c \<longrightarrow> rr_Started n)
     \<and> rr_Attempts c \<le> rr_Attempts n
     \<and> (rr_Attempts n = rr_Attempts c \<longrightarrow> rr_LastError n = rr_LastError c)"

interpretation receipt_journal:
  journal receipt_journal_advance fst receipt_identity "\<lambda>c n. rt_Adopted c \<longrightarrow> rt_Adopted n"
proof unfold_locales
  fix a b :: "receipt list \<times> rb_record list"
  assume "receipt_journal_advance a b = None"
  then have len: "length (fst a) \<le> length (fst b)"
    and each: "\<And>i. i < length (fst a) \<Longrightarrow> receipt_entry_error (fst a ! i, fst b ! i) = None"
    by (auto simp: receipt_journal_advance_def validateReceiptAdvance_def first_err_zip_None)
  show "prefix (map receipt_identity (fst a)) (map receipt_identity (fst b))"
    using each by (intro prefix_mapI len)
      (auto simp: receipt_entry_error_def sameReceiptIdentity_def receipt_identity_def)
  show "list_all2 (\<lambda>c n. rt_Adopted c \<longrightarrow> rt_Adopted n) (fst a) (take (length (fst a)) (fst b))"
    using each by (intro forwardI len) (auto simp: receipt_entry_error_def)
qed auto

interpretation release_journal: journal validateReleaseAdvance id id "(=)"
proof unfold_locales
  fix a b :: "release list"
  assume "validateReleaseAdvance a b = None"
  then have len: "length a \<le> length b" and each: "\<And>i. i < length a \<Longrightarrow> a ! i = b ! i"
    by (auto simp: validateReleaseAdvance_def first_err_zip_None)
  show "prefix (map id (id a)) (map id (id b))"
    using each by (simp add: prefix_mapI [of _ _ id, simplified] len)
  show "list_all2 (=) (id a) (take (length (id a)) (id b))"
    using each by (simp add: forwardI len)
qed auto

interpretation rollback_journal: journal validateRollbackAdvance id rr_Descriptor rollback_progress
proof unfold_locales
  fix a b :: "rb_record list"
  assume "validateRollbackAdvance a b = None"
  then have len: "length a \<le> length b"
    and each: "\<And>i. i < length a \<Longrightarrow> rollback_entry_error (a ! i, b ! i) = None"
    by (auto simp: validateRollbackAdvance_def first_err_zip_None)
  show "prefix (map rr_Descriptor (id a)) (map rr_Descriptor (id b))"
    using each by (intro prefix_mapI) (auto simp: len rollback_entry_error_def)
  show "list_all2 rollback_progress (id a) (take (length (id a)) (id b))"
    unfolding id_apply using each
    by (intro forwardI len) (fastforce simp: rollback_entry_error_def rollback_progress_def)
qed (auto simp: rollback_progress_def)


subsection \<open>Logs of one operation\<close>

text \<open>The records that one operation identity goes through: each is valid and each accepts its
  successor.\<close>

definition accepted :: "operation_record \<Rightarrow> operation_record \<Rightarrow> bool" where
  "accepted a b \<longleftrightarrow> validateOperationRecord b = None \<and> operation_advance_error a b = None"

fun operation_log :: "operation_record \<Rightarrow> operation_record list \<Rightarrow> bool" where
  "operation_log a [] \<longleftrightarrow> True"
| "operation_log a (b # bs) \<longleftrightarrow> accepted a b \<and> operation_log b bs"

text \<open>A relation between records that every accepted write satisfies and that composes holds
  along a log.\<close>

lemma operation_log_induct:
  assumes "operation_log a bs" and "b \<in> set (a # bs)"
    and "\<And>c. R c c" and "\<And>c d. accepted c d \<Longrightarrow> R c d"
    and "\<And>c d e. R c d \<Longrightarrow> R d e \<Longrightarrow> R c e"
  shows "R a b"
  using assms(1,2)
proof (induction bs arbitrary: a)
  case (Cons c cs)
  then show ?case
    using assms(3-5) by (metis operation_log.simps(2) set_ConsD)
qed (simp add: assms(3))

lemma acceptedD:
  assumes "accepted a b"
  shows "validateOperationRecord b = None" and "or_HostProfile b = or_HostProfile a"
    and "Operation_Binding (or_Operation b) = Operation_Binding (or_Operation a)"
    and "validateRollbackAdvance (elems (or_Rollback a)) (elems (or_Rollback b)) = None"
    and "once_set (or_RollbackCause a) (or_RollbackCause b) = None"
    and "once_set (or_OOMBaseline a) (or_OOMBaseline b) = None"
    and "receipt_journal_advance (elems (or_Receipts a), elems (or_Rollback a))
           (elems (or_Receipts b), elems (or_Rollback b)) = None"
    and "validateReleaseAdvance (elems (or_Releases a)) (elems (or_Releases b)) = None"
    and "validateOperationAdvance (or_Operation a) (or_Operation b) = None"
    and "validateHostProfileOperationAdvance a b = None"
    and "State_Terminal (op_State (or_Operation a)) \<Longrightarrow> terminal_frozen a b"
  using assms
  by (auto simp: accepted_def operation_advance_error_def Resolve_def receipt_journal_advance_def
      validateRollbackCauseAdvance_def validateOOMBaselineAdvance_def)

definition history_kept :: "operation_record \<Rightarrow> operation_record \<Rightarrow> bool" where
  "history_kept a b \<longleftrightarrow>
     Operation_Binding (or_Operation b) = Operation_Binding (or_Operation a)
     \<and> or_HostProfile b = or_HostProfile a
     \<and> receipt_journal.extends (elems (or_Receipts a), elems (or_Rollback a))
         (elems (or_Receipts b), elems (or_Rollback b))
     \<and> release_journal.extends (elems (or_Releases a)) (elems (or_Releases b))
     \<and> rollback_journal.extends (elems (or_Rollback a)) (elems (or_Rollback b))
     \<and> (or_RollbackCause a \<noteq> None \<longrightarrow> or_RollbackCause b = or_RollbackCause a)
     \<and> (or_OOMBaseline a \<noteq> None \<longrightarrow> or_OOMBaseline b = or_OOMBaseline a)"

lemma history_kept_refl: "history_kept a a"
  by (simp add: history_kept_def receipt_journal.extends_refl release_journal.extends_refl
      rollback_journal.extends_refl)

lemma history_kept_trans: "history_kept a b \<Longrightarrow> history_kept b c \<Longrightarrow> history_kept a c"
  unfolding history_kept_def
  by (metis receipt_journal.extends_trans release_journal.extends_trans rollback_journal.extends_trans)

lemma accepted_history: "accepted a b \<Longrightarrow> history_kept a b"
  unfolding history_kept_def
  by (intro conjI acceptedD(2,3) receipt_journal.accepted_extends release_journal.accepted_extends
      rollback_journal.accepted_extends acceptedD(4,7,8))
    (auto dest: acceptedD(5,6) simp: once_set_def)

lemma log_history: "operation_log a bs \<Longrightarrow> b \<in> set (a # bs) \<Longrightarrow> history_kept a b"
  using operation_log_induct [of a bs b history_kept]
    history_kept_refl accepted_history history_kept_trans by blast

lemma log_valid: "operation_log a bs \<Longrightarrow> b \<in> set bs \<Longrightarrow> validateOperationRecord b = None"
  by (induction bs arbitrary: a) (auto simp: accepted_def)

lemma history_kept_unfold:
  assumes "history_kept a b"
  shows "prefix (map receipt_identity (elems (or_Receipts a))) (map receipt_identity (elems (or_Receipts b)))"
    and "prefix (elems (or_Releases a)) (elems (or_Releases b))"
    and "prefix (map rr_Descriptor (elems (or_Rollback a))) (map rr_Descriptor (elems (or_Rollback b)))"
    and "list_all2 rollback_progress (elems (or_Rollback a))
           (take (length (elems (or_Rollback a))) (elems (or_Rollback b)))"
  using assms
  by (auto simp: history_kept_def receipt_journal.extends_def release_journal.extends_def
      rollback_journal.extends_def)

text \<open>Progress: activity is never regained, and the stage of an active operation only climbs.\<close>

definition climbs :: "operation_record \<Rightarrow> operation_record \<Rightarrow> bool" where
  "climbs a b \<longleftrightarrow> (State_Active (op_State (or_Operation b)) \<longrightarrow>
     State_Active (op_State (or_Operation a))
     \<and> (op_State (or_Operation a) = StateRunning \<longrightarrow> op_State (or_Operation b) = StateRunning)
     \<and> op_Stage (or_Operation a) \<le> op_Stage (or_Operation b))"

definition sound_state :: "operation_record \<Rightarrow> bool" where
  "sound_state a \<longleftrightarrow> Operation_Validate (or_Operation a) = None"

lemma rank_nonneg: "Stage_Valid s \<Longrightarrow> StageValidate \<le> s"
  by (cases s) (simp_all add: less_eq_stage_def)

lemma State_Active_iff: "State_Active s \<longleftrightarrow> s = StatePending \<or> s = StateRunning"
  by (cases s) simp_all

lemma State_Terminal_iff: "State_Terminal s \<longleftrightarrow> s = StateSucceeded \<or> s = StateFailed"
  by (cases s) simp_all

lemma terminal_frozen_state: "terminal_frozen a b \<Longrightarrow> op_State (or_Operation b) = op_State (or_Operation a)"
  by (auto simp: terminal_frozen_def terminalOperationUpdateAllowed_def sameOperation_def)

lemma accepted_climbs:
  assumes "accepted a b" and "sound_state a"
  shows "climbs a b"
  unfolding climbs_def
proof (intro impI conjI)
  let ?a = "or_Operation a" and ?b = "or_Operation b"
  assume b: "State_Active (op_State ?b)"
  have valid: "State_Valid (op_State ?a)" "Stage_Valid (op_Stage ?b)"
      "op_State ?a = StatePending \<Longrightarrow> op_Stage ?a = StageValidate"
    using assms validateOperationRecord_Operation [OF acceptedD(1) [OF assms(1)]]
    by (auto simp: sound_state_def operation_valid_iff)
  show a: "State_Active (op_State ?a)"
    using valid(1) b acceptedD(11) [OF assms(1)] terminal_frozen_state [of a b]
      State_Active_or_Terminal by (metis State_Active_iff vocabulary_simps(8,9))
  have adv: "validateOperationAdvance ?a ?b = None"
    by (rule acceptedD(9) [OF assms(1)])
  show "op_State ?a = StateRunning \<Longrightarrow> op_State ?b = StateRunning"
    using adv b by (auto simp: validateOperationAdvance_def State_Active_iff)
  show "op_Stage ?a \<le> op_Stage ?b"
    using adv a b valid rank_nonneg [of "op_Stage ?b"]
    by (auto simp: validateOperationAdvance_def State_Active_iff)
qed

lemma climbs_trans: "climbs a b \<Longrightarrow> climbs b c \<Longrightarrow> climbs a c"
  by (auto simp: climbs_def dest: order_trans)

lemma log_climbs:
  assumes "operation_log a bs" and "sound_state a" and "b \<in> set (a # bs)"
  shows "climbs a b"
  using assms
proof (induction bs arbitrary: a)
  case (Cons c cs)
  then have "sound_state c" by (auto simp: sound_state_def dest: acceptedD(1) validateOperationRecord_Operation)
  with Cons show ?case
    by (metis accepted_climbs climbs_trans operation_log.simps(2) set_ConsD climbs_def order_refl)
qed (simp add: climbs_def)


text \<open>The mandatory acknowledgements of a Linux start, in the order they must be reached.\<close>

definition start_acks :: "stage \<Rightarrow> stage list" where
  "start_acks s =
    (if StageReleaseStartGate < s then [StageAttachCgroup, StageReleaseStartGate, StageObserveProcess]
     else if s = StageReleaseStartGate then [StageAttachCgroup, StageReleaseStartGate]
     else if s = StageAttachCgroup then [StageAttachCgroup] else [])"

abbreviation stage_of :: "operation_record \<Rightarrow> stage" where
  "stage_of r \<equiv> op_Stage (or_Operation r)"

lemma subseq_snoc_mono: "subseq xs ys \<Longrightarrow> subseq xs (ys @ [y])"
  using list_emb_append_mono [of "(=)" xs ys "[]" "[y]"] by simp

text \<open>What one accepted write adds to the acknowledgements.\<close>

lemma start_acks_step:
  assumes step: "accepted a b" and linux: "or_HostProfile a = HostProfileLinuxM2"
    and start: "op_Type (or_Operation a) = TypeStart"
  shows "start_acks (stage_of b) = start_acks (stage_of a)
    \<or> start_acks (stage_of b) = start_acks (stage_of a) @ [stage_of b]
    \<or> start_acks (stage_of b) = [] \<or> stage_of b < stage_of a"
proof -
  have adv: "validateHostProfileOperationAdvance a b = None"
    by (rule acceptedD(10) [OF step])
  show ?thesis
    using adv linux start
    by (cases "stage_of a"; cases "stage_of b")
      (simp_all add: validateHostProfileOperationAdvance_def start_acks_def less_stage_def less_eq_stage_def)
qed


lemma start_acks_mono: "s \<le> t \<Longrightarrow> prefix (start_acks s) (start_acks t)"
  by (cases s; cases t) (simp_all add: start_acks_def less_stage_def less_eq_stage_def)

lemma operation_log_snoc [simp]:
  "operation_log a (bs @ [b]) \<longleftrightarrow> operation_log a bs \<and> accepted (last (a # bs)) b"
  by (induction bs arbitrary: a) auto

lemma start_acks_reached:
  assumes "operation_log a bs" and "or_HostProfile a = HostProfileLinuxM2"
    and "op_Type (or_Operation a) = TypeStart" and "stage_of a < StageAttachCgroup"
  shows "subseq (start_acks (stage_of (last (a # bs)))) (map stage_of (a # bs))"
  using assms(1)
proof (induction bs rule: rev_induct)
  case Nil
  have "start_acks (stage_of a) = []"
    using assms(4) by (cases "stage_of a") (simp_all add: start_acks_def less_stage_def)
  then show ?case by simp
next
  case (snoc b bs)
  let ?l = "last (a # bs)"
  have log: "operation_log a bs" and step: "accepted ?l b"
    using snoc.prems by simp_all
  have kept: "history_kept a ?l"
    by (rule log_history [OF log]) simp
  then have "or_HostProfile ?l = HostProfileLinuxM2" and "op_Type (or_Operation ?l) = TypeStart"
    using assms(2,3) by (auto simp: history_kept_def Operation_Binding_def)
  from start_acks_step [OF step this] consider
      "prefix (start_acks (stage_of b)) (start_acks (stage_of ?l))"
    | "start_acks (stage_of b) = start_acks (stage_of ?l) @ [stage_of b]"
    using start_acks_mono [of "stage_of b" "stage_of ?l"] by (auto simp: less_imp_le)
  then show ?case
  proof cases
    case 1
    then have "subseq (start_acks (stage_of b)) (map stage_of (a # bs))"
      using snoc.IH [OF log] subseq_order.order_trans prefix_imp_subseq by blast
    then show ?thesis using subseq_snoc_mono by fastforce
  next
    case 2
    then show ?thesis
      using list_emb_append_mono [OF snoc.IH [OF log], of "[stage_of b]" "[stage_of b]"] by simp
  qed
qed

text \<open>A terminal record is frozen but for its first response.\<close>

definition frozen_after :: "operation_record \<Rightarrow> operation_record \<Rightarrow> bool" where
  "frozen_after a b \<longleftrightarrow> State_Terminal (op_State (or_Operation a)) \<longrightarrow>
     or_Operation b = (or_Operation a)\<lparr>op_Response := op_Response (or_Operation b)\<rparr>
     \<and> (op_Response (or_Operation a) \<noteq> [] \<longrightarrow> op_Response (or_Operation b) = op_Response (or_Operation a))
     \<and> or_RollbackCause b = or_RollbackCause a \<and> or_OOMBaseline b = or_OOMBaseline a
     \<and> or_Rollback b = or_Rollback a \<and> or_Receipts b = or_Receipts a \<and> or_Releases b = or_Releases a"

lemma terminal_update_shape:
  assumes "terminalOperationUpdateAllowed x y"
  shows "y = x\<lparr>op_Response := op_Response y\<rparr> \<and> (op_Response x \<noteq> [] \<longrightarrow> op_Response y = op_Response x)"
  using assms
  by (cases x; cases y) (auto simp: terminalOperationUpdateAllowed_def sameOperation_def sameOperationBinding_def)

lemma accepted_frozen: "accepted a b \<Longrightarrow> frozen_after a b"
  using acceptedD(11) terminal_update_shape
  by (fastforce simp: frozen_after_def terminal_frozen_def)

lemma frozen_after_trans:
  assumes "frozen_after a b" and "frozen_after b c"
  shows "frozen_after a c"
  unfolding frozen_after_def
proof
  assume a: "State_Terminal (op_State (or_Operation a))"
  let ?a = "or_Operation a" and ?b = "or_Operation b" and ?c = "or_Operation c"
  have ab: "?b = ?a\<lparr>op_Response := op_Response ?b\<rparr>"
    using assms(1) a by (simp add: frozen_after_def)
  then have "op_State ?b = op_State ?a"
    by (metis operation.select_convs(6) operation.surjective operation.update_convs(10))
  then have b: "State_Terminal (op_State ?b)"
    using a by simp
  then have "?c = ?b\<lparr>op_Response := op_Response ?c\<rparr>"
    using assms(2) by (simp add: frozen_after_def)
  then have "?c = ?a\<lparr>op_Response := op_Response ?c\<rparr>"
    using ab by (metis operation.surjective operation.update_convs(10))
  then show "?c = ?a\<lparr>op_Response := op_Response ?c\<rparr>
     \<and> (op_Response ?a \<noteq> [] \<longrightarrow> op_Response ?c = op_Response ?a)
     \<and> or_RollbackCause c = or_RollbackCause a \<and> or_OOMBaseline c = or_OOMBaseline a
     \<and> or_Rollback c = or_Rollback a \<and> or_Receipts c = or_Receipts a \<and> or_Releases c = or_Releases a"
    using assms a b unfolding frozen_after_def by (metis (no_types, lifting))
qed

lemma log_frozen: "operation_log a bs \<Longrightarrow> b \<in> set (a # bs) \<Longrightarrow> frozen_after a b"
  using operation_log_induct [of a bs b frozen_after] accepted_frozen frozen_after_trans
  by (auto simp: frozen_after_def [of a a for a])

text \<open>Acquisition: one receipt at a time, and none once a rollback has started.\<close>

definition rolling_back :: "operation_record \<Rightarrow> bool" where
  "rolling_back r \<longleftrightarrow> list_ex rr_Started (elems (or_Rollback r))"

lemma accepted_acquisition:
  assumes "accepted a b"
  shows "length (elems (or_Receipts b)) \<le> Suc (length (elems (or_Receipts a)))"
    and "rolling_back a \<or> rolling_back b \<Longrightarrow>
      length (elems (or_Receipts b)) = length (elems (or_Receipts a))"
    and "rolling_back a \<Longrightarrow> length (elems (or_Rollback b)) = length (elems (or_Rollback a))"
  using acceptedD(4,7) [OF assms]
  by (auto simp: receipt_journal_advance_def validateReceiptAdvance_def validateRollbackAdvance_def
      rolling_back_def split: if_splits)

lemma rolling_back_mono:
  assumes "history_kept a b" and "rolling_back a"
  shows "rolling_back b"
proof -
  from assms(2) obtain i where i: "i < length (elems (or_Rollback a))" "rr_Started (elems (or_Rollback a) ! i)"
    by (auto simp: rolling_back_def list_ex_length)
  have ext: "rollback_journal.extends (elems (or_Rollback a)) (elems (or_Rollback b))"
    using assms(1) by (simp add: history_kept_def)
  show ?thesis
    using rollback_journal.entry_forward [OF ext] i
    by (auto simp: rolling_back_def list_ex_length rollback_progress_def)
qed

lemma log_acquisition:
  assumes "operation_log a bs" and "b \<in> set (a # bs)" and "rolling_back a"
  shows "length (elems (or_Receipts b)) = length (elems (or_Receipts a))
    \<and> length (elems (or_Rollback b)) = length (elems (or_Rollback a))"
  using assms
proof (induction bs arbitrary: a)
  case (Cons c cs)
  then have step: "accepted a c" by simp
  then have "rolling_back c"
    using rolling_back_mono accepted_history Cons.prems(3) by blast
  then show ?case
    using Cons accepted_acquisition(2,3) [OF step] by (metis operation_log.simps(2) set_ConsD)
qed simp


subsection \<open>Examples\<close>

text \<open>A Sandbox create that checkpoints its first acquisition, and a Start that goes through its
  acknowledgements.\<close>

definition create_record :: "stage \<Rightarrow> rb_record slice \<Rightarrow> receipt slice \<Rightarrow> operation_record" where
  "create_record s b r =
    \<lparr>or_SchemaVersion = 1, or_Revision = 0, or_HostProfile = HostProfileLinuxM2,
     or_Operation = demo_operation\<lparr>op_State := StateRunning, op_Stage := s, op_Result := ResultPending,
       op_Reason := ReasonNone\<rparr>,
     or_RollbackCause = None, or_OOMBaseline = None, or_KillEscalationDeadline = None,
     or_Rollback = b, or_Receipts = r, or_Releases = None\<rparr>"

definition demo_undo :: rb_record where
  "demo_undo = \<lparr>rr_Descriptor = owned_descriptor, rr_Succeeded = False, rr_Started = False,
     rr_Attempts = 0, rr_LastError = []\<rparr>"

definition create_intent :: operation_record where
  "create_intent = create_record StagePersistIntent None None"

definition acquired_record :: "stage \<Rightarrow> rb_cause option \<Rightarrow> rb_record \<Rightarrow> operation_record" where
  "acquired_record s c u = (create_record s (Some [u]) (Some [demo_receipt]))\<lparr>or_RollbackCause := c\<rparr>"

definition create_acquired :: operation_record where
  "create_acquired = acquired_record StagePrepareCgroup None demo_undo"

text \<open>The same create while its inverse runs and after it has run.\<close>

definition demo_cause :: rb_cause where
  "demo_cause = \<lparr>rc_Reason = ReasonInternal, rc_Message = ''failed''\<rparr>"

definition create_undoing :: "bool \<Rightarrow> operation_record" where
  "create_undoing finished = acquired_record StageRollback (Some demo_cause)
     (demo_undo\<lparr>rr_Started := True, rr_Succeeded := finished\<rparr>)"

definition start_target :: target where
  "start_target = \<lparr>tg_Kind = TargetContainer, tg_ID = ''container-1''\<rparr>"

definition start_record :: "op_state \<Rightarrow> stage \<Rightarrow> op_result \<Rightarrow> operation_record" where
  "start_record st s res =
    \<lparr>or_SchemaVersion = 1, or_Revision = 0, or_HostProfile = HostProfileLinuxM2,
     or_Operation = demo_operation\<lparr>op_Type := TypeStart, op_Target := start_target, op_State := st,
       op_Stage := s, op_Result := res, op_Reason := ReasonNone\<rparr>,
     or_RollbackCause = None, or_OOMBaseline = None, or_KillEscalationDeadline = None,
     or_Rollback = Some [], or_Receipts = None, or_Releases = None\<rparr>"

definition start_log :: "operation_record list" where
  "start_log =
    [start_record StateRunning StageAttachCgroup ResultPending,
     start_record StateRunning StageReleaseStartGate ResultPending,
     start_record StateRunning StageObserveProcess ResultPending,
     start_record StateSucceeded StageComplete ResultSucceeded]"

lemma none_action [simp]: "ValidateReceiptJournalPrefix TargetSandbox [] = None"
  by (simp add: ValidateReceiptJournalPrefix_def expectedProfile_def expectations_None)

lemma create_operation_valid:
  assumes "Stage_Valid s" "s \<noteq> StageValidate" "s \<noteq> StageComplete"
  shows "Operation_Validate (or_Operation (create_record s b r)) = None"
  using assms by (simp add: operation_valid_iff create_record_def demo_operation_def sandbox_target_def good_target_def)

lemma create_intent_valid: "validateOperationRecord create_intent = None"
proof -
  have "Operation_Validate (or_Operation create_intent) = None"
    unfolding create_intent_def by (rule create_operation_valid) simp_all
  then show ?thesis
    by (simp add: validateOperationRecord_def create_intent_def create_record_def demo_operation_def
        validateSchema_def SchemaVersionV1_def OperationSchemaVersion_def cause_record_error_def
        oom_record_error_def deadline_record_error_def validateAcquisitionReceipts_def
        validateReceiptStagePrefix_def validateCleanupReleases_def sandbox_target_def
        validateReceiptRollbackLinks_def validateRollbackAcquisitionOrder_def receipt_table_def
        adoption_error_def)
qed


lemma demo_undo_valid: "Record_Validate demo_undo = None"
  by (simp add: Record_Validate_def demo_undo_def owned_descriptor_valid)

lemma demo_cause_valid: "Cause_Validate demo_cause = None"
  by (simp add: Cause_Validate_def demo_cause_def MaxDiagnosticBytes_def TrimSpace_plain_head
      plain_char_def in_range_def)

lemma acquired_record_valid:
  assumes u: "Record_Validate u = None" "rr_Descriptor u = owned_descriptor"
    and s: "s = StagePrepareCgroup \<and> c = None \<or> s = StageRollback \<and> c = Some demo_cause"
  shows "validateOperationRecord (acquired_record s c u) = None"
proof -
  let ?r = "acquired_record s c u"
  have op: "Operation_Validate (or_Operation ?r) = None"
    using create_operation_valid [of s] s by (auto simp: acquired_record_def)
  have fields: "or_Rollback ?r = Some [u]" "or_Receipts ?r = Some [demo_receipt]"
      "or_Releases ?r = None" "or_RollbackCause ?r = c"
      "or_OOMBaseline ?r = None" "or_KillEscalationDeadline ?r = None"
      "or_HostProfile ?r = HostProfileLinuxM2" "or_SchemaVersion ?r = 1"
      "op_State (or_Operation ?r) = StateRunning" "stage_of ?r = s"
      "op_Type (or_Operation ?r) = TypeCreate" "op_ID (or_Operation ?r) = ''op-1''"
      "op_Target (or_Operation ?r) = sandbox_target" "op_SchemaVersion (or_Operation ?r) = 1"
    by (simp_all add: acquired_record_def create_record_def demo_operation_def)
  have kind: "rt_Kind demo_receipt = KindSandboxCgroup" "rt_Provider demo_receipt = ProviderCgroupV2"
      "rt_Owner demo_receipt = demo_owner" "\<not> rt_Adopted demo_receipt"
      "action_of (rd_Action owned_descriptor) = ActionRemoveCgroup"
      "ok_OperationID demo_owner = ''op-1''" "ok_Target demo_owner = sandbox_target" "ok_Generation demo_owner = 1"
      "tg_Kind sandbox_target = TargetSandbox"
    by (simp_all add: demo_receipt_def owned_descriptor_def demo_owner_def sandbox_target_def
        del: Action_string.simps)
  have prefix: "ValidateReceiptJournalPrefix TargetSandbox [demo_receipt] = None"
    by (simp add: ValidateReceiptJournalPrefix_def expectedProfile_def expectations_None slot_def kind)
  have acq: "validateAcquisitionReceipts ?r = None"
    by (simp add: acquisitions_None fields acquisition_error_def kind InitialGeneration_def)
  have links: "validateReceiptRollbackLinks ?r = None"
    by (simp add: validateReceiptRollbackLinks_def fields receipt_table_def owned_descriptor_receipt kind u
        receiptKey_def sameReceiptIdentity_def receipt_link_error_def inverse_link_error_def
        receiptRequiresInverse_def validateRollbackAcquisitionOrder_def Let_def)
  have stage: "validateReceiptStagePrefix TargetSandbox s [demo_receipt] = None"
    using s by (auto simp: validateReceiptStagePrefix_def kind nextProfileKind_def less_eq_stage_def)
  have cause: "cause_record_error ?r = None" "deadline_record_error ?r = None"
    unfolding cause_record_error_def deadline_record_error_def fields using s demo_cause_valid by auto
  show ?thesis
    using op acq links prefix stage cause u
    by (simp add: validateOperationRecord_def fields validateSchema_def SchemaVersionV1_def
        OperationSchemaVersion_def oom_record_error_def
        kind validateCleanupReleases_def adoption_error_def)
qed

lemma create_acquired_valid: "validateOperationRecord create_acquired = None"
  unfolding create_acquired_def
  by (rule acquired_record_valid [OF demo_undo_valid]) (simp_all add: demo_undo_def)

lemma create_undoing_valid: "validateOperationRecord (create_undoing b) = None"
  unfolding create_undoing_def
  by (rule acquired_record_valid) (use demo_undo_valid in \<open>simp_all add: demo_undo_def Record_Validate_def\<close>)

lemma create_binding: "Operation_Binding (or_Operation (create_record s b r)) = Operation_Binding demo_operation"
  by (simp add: Operation_Binding_def create_record_def)

lemma demo_binding_valid: "Binding_Validate (Operation_Binding demo_operation) = None"
  by (rule valid_operation_binding) simp

lemma create_log: "operation_log create_intent [create_acquired]"
proof -
  have "Operation_Validate (or_Operation create_intent) = None"
    unfolding create_intent_def by (rule create_operation_valid) simp_all
  then show ?thesis
    using create_acquired_valid demo_binding_valid
    by (simp add: accepted_def operation_advance_error_def Resolve_def create_acquired_def create_intent_def
        acquired_record_def create_binding)
      (simp add: create_record_def demo_undo_def validateRollbackAdvance_def validateReceiptAdvance_def
        validateReleaseAdvance_def validateRollbackCauseAdvance_def validateOOMBaselineAdvance_def once_set_def
        validateOperationAdvance_def validateHostProfileOperationAdvance_def demo_operation_def
        demo_receipt_def less_stage_def less_eq_stage_def)
qed

lemma undo_log: "operation_log (create_undoing False) [create_undoing True]"
proof -
  have "Operation_Validate (or_Operation (create_undoing False)) = None"
    unfolding create_undoing_def acquired_record_def using create_operation_valid [of StageRollback] by simp
  then show ?thesis
    using create_undoing_valid [of True] demo_binding_valid
    by (simp add: accepted_def operation_advance_error_def Resolve_def create_undoing_def
        acquired_record_def create_binding)
      (simp add: create_record_def demo_undo_def validateRollbackAdvance_def validateReceiptAdvance_def
        validateReleaseAdvance_def validateRollbackCauseAdvance_def validateOOMBaselineAdvance_def once_set_def
        validateOperationAdvance_def validateHostProfileOperationAdvance_def demo_operation_def
        receipt_entry_error_def rollback_entry_error_def sameReceiptIdentity_def
        less_stage_def less_eq_stage_def)
qed

lemma start_operation_valid:
  assumes "op_State x = st" "op_Stage x = s" "op_Result x = res"
    and "x = or_Operation (start_record st s res)"
    and "st = StateRunning \<and> res = ResultPending \<and> Stage_Valid s \<and> s \<noteq> StageValidate \<and> s \<noteq> StageComplete
      \<or> st = StateSucceeded \<and> res = ResultSucceeded \<and> s = StageComplete"
  shows "Operation_Validate x = None"
  using assms(4,5)
  by (auto simp: operation_valid_iff start_record_def demo_operation_def start_target_def good_target_def)

lemma start_record_valid:
  assumes "st = StateRunning \<and> res = ResultPending \<and> s \<in> {StagePersistIntent, StageAttachCgroup,
      StageReleaseStartGate, StageObserveProcess}
    \<or> st = StateSucceeded \<and> res = ResultSucceeded \<and> s = StageComplete"
  shows "validateOperationRecord (start_record st s res) = None"
proof -
  have "Operation_Validate (or_Operation (start_record st s res)) = None"
    by (rule start_operation_valid [OF _ _ _ refl]) (use assms in \<open>auto simp: start_record_def\<close>)
  moreover have "s \<noteq> StageRollback" using assms by auto
  ultimately show ?thesis
    by (simp add: validateOperationRecord_def start_record_def demo_operation_def
        validateSchema_def SchemaVersionV1_def OperationSchemaVersion_def cause_record_error_def
        oom_record_error_def deadline_record_error_def validateAcquisitionReceipts_def
        validateCleanupReleases_def validateReceiptRollbackLinks_def
        validateRollbackAcquisitionOrder_def receipt_table_def adoption_error_def Let_def)
qed

lemma start_step:
  assumes "validateOperationRecord (start_record st s' res) = None"
    and "st \<noteq> StatePending" and "s < s'" "\<not> (s < StageAttachCgroup \<and> StageAttachCgroup < s')"
      "s = StageAttachCgroup \<longrightarrow> s' = StageReleaseStartGate"
      "s = StageReleaseStartGate \<longrightarrow> s' = StageObserveProcess"
      "s \<in> {StagePersistIntent, StageAttachCgroup, StageReleaseStartGate, StageObserveProcess}"
  shows "accepted (start_record StateRunning s ResultPending) (start_record st s' res)"
proof -
  have "Operation_Validate (or_Operation (start_record StateRunning s ResultPending)) = None"
    by (rule start_operation_valid [OF _ _ _ refl]) (use assms(7) in \<open>auto simp: start_record_def\<close>)
  moreover have "Operation_Binding (or_Operation (start_record st s' res))
      = Operation_Binding (or_Operation (start_record StateRunning s ResultPending))"
    by (simp add: start_record_def Operation_Binding_def)
  ultimately have "Resolve (Some (or_Operation (start_record StateRunning s ResultPending)))
      (Operation_Binding (or_Operation (start_record st s' res))) = Inr ResolutionResume"
    by (simp add: Resolve_def valid_operation_binding) (simp add: start_record_def)
  moreover have "\<not> s' < s" using assms(3) by (simp add: less_stage_def less_eq_stage_def)
  ultimately show ?thesis
    using assms
    by (auto simp: accepted_def operation_advance_error_def)
      (auto simp: start_record_def validateRollbackAdvance_def validateReceiptAdvance_def
        validateReleaseAdvance_def validateRollbackCauseAdvance_def validateOOMBaselineAdvance_def once_set_def
        validateOperationAdvance_def validateHostProfileOperationAdvance_def demo_operation_def
        less_stage_def less_eq_stage_def)
qed

lemma start_log_accepted:
  "operation_log (start_record StateRunning StagePersistIntent ResultPending) start_log"
  unfolding start_log_def operation_log.simps
  by (intro conjI TrueI start_step start_record_valid) (simp_all add: less_stage_def)


definition start_done :: operation_record where
  "start_done = start_record StateSucceeded StageComplete ResultSucceeded"

definition start_replayable :: operation_record where
  "start_replayable = start_done\<lparr>or_Operation := (or_Operation start_done)\<lparr>op_Response := ''0''\<rparr>\<rparr>"

lemma zero_decodes: "Decode Any ''0'' = Inr (JNum ''0'')"
proof -
  have "show_nat 0 = ''0''" by (simp add: show_nat.simps, code_simp)
  moreover have "json_parse (json_encode (JNum (show_nat 0))) = Some (JNum (show_nat 0))"
    by (rule json_parse_encode) (simp_all add: lex_show_nat show_nat_digits maxNestingDepth_def)
  ultimately show ?thesis
    by (simp add: Decode_Inr ValidString_def)
qed

lemma replay_log: "operation_log start_done [start_replayable]"
proof -
  have x: "Operation_Validate (or_Operation start_done) = None"
    unfolding start_done_def by (rule start_operation_valid [OF _ _ _ refl]) (simp_all add: start_record_def)
  then have y: "Operation_Validate (or_Operation start_replayable) = None"
    by (simp add: start_replayable_def operation_valid_iff validateOpaqueJSON_None zero_decodes)
  have b: "Operation_Binding (or_Operation start_replayable) = Operation_Binding (or_Operation start_done)"
    by (simp add: start_replayable_def Operation_Binding_def)
  have r: "Resolve (Some (or_Operation start_done)) (Operation_Binding (or_Operation start_done))
      = Inr ResolutionReplay"
    using x by (simp add: Resolve_def valid_operation_binding) (simp add: start_done_def start_record_def)
  have v: "validateOperationRecord start_done = None"
    unfolding start_done_def by (rule start_record_valid) simp
  then have "validateOperationRecord start_replayable = None"
    using y
    by (simp add: validateOperationRecord_def start_done_def start_replayable_def start_record_def
        demo_operation_def cause_record_error_def oom_record_error_def deadline_record_error_def
        validateAcquisitionReceipts_def validateCleanupReleases_def validateReceiptRollbackLinks_def
        validateRollbackAcquisitionOrder_def adoption_error_def Let_def)
  then show ?thesis
    using r b
    by (simp add: accepted_def operation_advance_error_def)
      (simp add: start_done_def start_replayable_def start_record_def validateRollbackAdvance_def
        validateReceiptAdvance_def validateReleaseAdvance_def validateRollbackCauseAdvance_def
        validateOOMBaselineAdvance_def once_set_def validateOperationAdvance_def terminal_frozen_def
        validateHostProfileOperationAdvance_def terminalOperationUpdateAllowed_def sameOperationBinding_def
        demo_operation_def)
qed

subsection \<open>Properties\<close>

text \<open>C32. Whatever writes the store accepts for one operation, its history is append-only: binding
  and host profile never change, the receipts, releases and rollback descriptors of every earlier
  record are a prefix of those of every later one, markers of adoption, cleanup start and cleanup
  success are never taken back, and a cause or out-of-memory baseline stays as first written.\<close>

theorem operation_history_append_only:
  assumes "operation_log a bs" and "b \<in> set (a # bs)"
  shows "Operation_Binding (or_Operation b) = Operation_Binding (or_Operation a)
    \<and> or_HostProfile b = or_HostProfile a
    \<and> prefix (map receipt_identity (elems (or_Receipts a))) (map receipt_identity (elems (or_Receipts b)))
    \<and> prefix (elems (or_Releases a)) (elems (or_Releases b))
    \<and> prefix (map rr_Descriptor (elems (or_Rollback a))) (map rr_Descriptor (elems (or_Rollback b)))
    \<and> list_all2 rollback_progress (elems (or_Rollback a))
        (take (length (elems (or_Rollback a))) (elems (or_Rollback b)))
    \<and> (or_RollbackCause a \<noteq> None \<longrightarrow> or_RollbackCause b = or_RollbackCause a)
    \<and> (or_OOMBaseline a \<noteq> None \<longrightarrow> or_OOMBaseline b = or_OOMBaseline a)"
  using log_history [OF assms] history_kept_unfold [OF log_history [OF assms]]
  by (simp add: history_kept_def)

theorem operation_history_append_only_witness:
  "prefix (map receipt_identity (elems (or_Receipts create_intent)))
     (map receipt_identity (elems (or_Receipts create_acquired)))
   \<and> Operation_Binding (or_Operation create_acquired) = Operation_Binding (or_Operation create_intent)"
  using operation_history_append_only [OF create_log, of create_acquired] by simp

text \<open>C33. A Linux start cannot skip its acknowledgements: a record that is past the release of the
  start gate, and so every terminal one, comes after records at cgroup attachment, gate release and
  process observation, in this order.\<close>

theorem linux_start_acknowledged:
  assumes "operation_log a bs" and "or_HostProfile a = HostProfileLinuxM2"
    and "op_Type (or_Operation a) = TypeStart" and "stage_of a < StageAttachCgroup"
    and "StageReleaseStartGate < stage_of (last (a # bs))"
  shows "subseq [StageAttachCgroup, StageReleaseStartGate, StageObserveProcess] (map stage_of (a # bs))"
  using start_acks_reached [OF assms(1-4)] assms(5) by (simp add: start_acks_def)

theorem linux_start_acknowledged_witness:
  "subseq [StageAttachCgroup, StageReleaseStartGate, StageObserveProcess]
     (map stage_of (start_record StateRunning StagePersistIntent ResultPending # start_log))"
  by (rule linux_start_acknowledged [OF start_log_accepted])
    (simp_all add: start_record_def start_log_def demo_operation_def less_stage_def)

text \<open>C34. A terminal operation is frozen: every later record has the same state, stage, result and
  reason, the same journals and cause, and the same response once there is one.\<close>

theorem terminal_operation_frozen:
  assumes "operation_log a bs" and "b \<in> set (a # bs)" and "State_Terminal (op_State (or_Operation a))"
  shows "or_Operation b = (or_Operation a)\<lparr>op_Response := op_Response (or_Operation b)\<rparr>
    \<and> (op_Response (or_Operation a) \<noteq> [] \<longrightarrow> op_Response (or_Operation b) = op_Response (or_Operation a))
    \<and> or_RollbackCause b = or_RollbackCause a \<and> or_Rollback b = or_Rollback a
    \<and> or_Receipts b = or_Receipts a \<and> or_Releases b = or_Releases a"
  using log_frozen [OF assms(1,2)] assms(3) by (simp add: frozen_after_def)

theorem terminal_operation_frozen_witness:
  "or_Operation start_replayable = (or_Operation start_done)\<lparr>op_Response := ''0''\<rparr>"
  using terminal_operation_frozen [OF replay_log, of start_replayable]
  by (simp add: start_done_def start_replayable_def start_record_def)

text \<open>The stage of an active operation only climbs: a later record that is still active has an
  earlier record that is active too and at no later stage, and a running operation is never pending
  again.\<close>

theorem active_stage_climbs:
  assumes "operation_log a bs" and "Operation_Validate (or_Operation a) = None" and "b \<in> set (a # bs)"
    and "State_Active (op_State (or_Operation b))"
  shows "State_Active (op_State (or_Operation a)) \<and> stage_of a \<le> stage_of b
    \<and> (op_State (or_Operation a) = StateRunning \<longrightarrow> op_State (or_Operation b) = StateRunning)"
  using log_climbs [OF assms(1) _ assms(3)] assms(2,4) by (simp add: sound_state_def climbs_def)

theorem active_stage_climbs_witness: "stage_of create_intent \<le> stage_of create_acquired"
proof -
  have "Operation_Validate (or_Operation create_intent) = None"
    unfolding create_intent_def by (rule create_operation_valid) simp_all
  moreover have "State_Active (op_State (or_Operation create_acquired))"
    by (simp add: create_acquired_def acquired_record_def create_record_def)
  ultimately show ?thesis
    using active_stage_climbs [OF create_log, of create_acquired] by simp
qed

text \<open>C35. Acquisition stops at cleanup: once a rollback of the operation has started, no later record
  has more receipts or rollback entries, so whatever the provider acquired is covered by the
  inverses that are running.\<close>

theorem acquisition_stops_at_rollback:
  assumes "operation_log a bs" and "b \<in> set (a # bs)" and "list_ex rr_Started (elems (or_Rollback a))"
  shows "length (elems (or_Receipts b)) = length (elems (or_Receipts a))
    \<and> map rr_Descriptor (elems (or_Rollback b)) = map rr_Descriptor (elems (or_Rollback a))"
proof -
  have len: "length (elems (or_Receipts b)) = length (elems (or_Receipts a))"
      "length (elems (or_Rollback b)) = length (elems (or_Rollback a))"
    using log_acquisition [OF assms(1,2)] assms(3) by (simp_all add: rolling_back_def)
  have "prefix (map rr_Descriptor (elems (or_Rollback a))) (map rr_Descriptor (elems (or_Rollback b)))"
    by (rule history_kept_unfold(3) [OF log_history [OF assms(1,2)]])
  then show ?thesis
    using len by (metis length_map prefix_length_prefix prefix_order.dual_order.refl prefix_order.eq_iff nat_le_linear)
qed


theorem acquisition_stops_at_rollback_witness:
  "length (elems (or_Receipts (create_undoing True))) = length (elems (or_Receipts (create_undoing False)))"
  using acquisition_stops_at_rollback [OF undo_log, of "create_undoing True"]
  by (simp add: create_undoing_def acquired_record_def create_record_def)

end
