(* ===== verification/State_Data.thy ===== *)
theory State_Data
  imports State_Advance "HOL-Library.Product_Lexorder"
begin

text \<open>
  The commit unit of \<open>internal/state\<close>: the tables, events and retention metadata of \<open>memoryData\<close>,
  the whole-store check \<open>validate\<close> that every commit passes, with its ownership graph
  (\<open>memory.go\<close>), and the retention of \<open>retention.go\<close>. Go maps are association lists; where an
  error depends on the iteration order the model takes the order of the list.
\<close>

subsection \<open>Retention policies and tombstones\<close>

record retention_policy =
  TerminalOperationLimit :: int
  OperationIdentityLimit :: int
  EventLimit :: int

definition RetentionPolicy_Validate :: "retention_policy \<Rightarrow> st_error option" where
  "RetentionPolicy_Validate p =
    first_err
     [reject (TerminalOperationLimit p \<le> 0) ErrInvalidRecord,
      reject (OperationIdentityLimit p < TerminalOperationLimit p) ErrInvalidRecord,
      reject (EventLimit p \<le> 0) ErrInvalidRecord]"

definition DefaultRetentionPolicy :: retention_policy where
  "DefaultRetentionPolicy =
    \<lparr>TerminalOperationLimit = 1024, OperationIdentityLimit = 65536, EventLimit = 8192\<rparr>"

record retired_operation =
  re_OperationIDSHA256 :: string
  re_Type :: op_type
  re_Target :: target
  re_Fingerprint :: fingerprint
  re_Reason :: reason_class
  re_TerminalSequence :: u64
  re_TerminalEventSequence :: u64

definition hex_digit :: "nat \<Rightarrow> bool" where
  "hex_digit n \<longleftrightarrow> lower_hex n \<or> in_range 65 70 n"

text \<open>\<open>hex.DecodeString\<close> succeeds on an even number of hexadecimal digits of either case.\<close>

definition hex_decodes :: "string \<Rightarrow> bool" where
  "hex_decodes s \<longleftrightarrow> list_all hex_digit (bytes_of s) \<and> even (length s)"

definition stringLower :: "string \<Rightarrow> string" where
  "stringLower s = map (\<lambda>c. if in_range 65 70 (of_char c) then char_of (of_char c + 32 :: nat) else c) s"

definition retired_validate :: "retired_operation \<Rightarrow> st_error option" where
  "retired_validate r =
    first_err
     [reject (length (re_OperationIDSHA256 r) \<noteq> 64) ErrInvalidRecord,
      reject (\<not> hex_decodes (re_OperationIDSHA256 r)) ErrInvalidRecord,
      reject (re_OperationIDSHA256 r \<noteq> stringLower (re_OperationIDSHA256 r)) ErrInvalidRecord,
      reject (\<not> Type_Valid (re_Type r)) ErrInvalidRecord,
      reject (Target_Validate (re_Target r) \<noteq> None) ErrInvalidRecord,
      reject (Fingerprint_Validate (re_Fingerprint r) \<noteq> None) ErrInvalidRecord,
      reject (\<not> Reason_Valid (re_Reason r) \<or> re_TerminalSequence r = 0) ErrInvalidRecord]"

definition operationIDDigest :: "operation_id \<Rightarrow> string" where
  "operationIDDigest i = hex_EncodeToString (Sum256 i)"

subsection \<open>The commit unit\<close>

record memory_data =
  md_sandboxes :: "(sandbox_id, sandbox_record) table"
  md_containers :: "(container_id, container_record) table"
  md_operations :: "(operation_id, operation_record) table"
  md_events :: "event list"
  md_lastEvent :: u64
  md_firstEvent :: u64
  md_terminal :: "(operation_id, u64) table"
  md_lastTerminal :: u64
  md_retired :: "(string, retired_operation) table"

definition newMemoryData :: memory_data where
  "newMemoryData =
    \<lparr>md_sandboxes = [], md_containers = [], md_operations = [], md_events = [], md_lastEvent = 0,
     md_firstEvent = 1, md_terminal = [], md_lastTerminal = 0, md_retired = []\<rparr>"

definition data_clone :: "memory_data \<Rightarrow> memory_data" where
  "data_clone d = d\<lparr>md_operations := map (\<lambda>(i, r). (i, OperationRecord_Clone r)) (md_operations d)\<rparr>"

definition retiredOperationFor :: "memory_data \<Rightarrow> operation_id \<Rightarrow> retired_operation option" where
  "retiredOperationFor d i = map_of (md_retired d) (operationIDDigest i)"

text \<open>The walk goes back from the newest event.\<close>

fun newest_of :: "operation_id \<Rightarrow> event list \<Rightarrow> u64" where
  "newest_of i [] = 0"
| "newest_of i (e # es) = (if ev_OperationID e = i then ev_Sequence e else newest_of i es)"

definition lastEventForOperation :: "memory_data \<Rightarrow> operation_id \<Rightarrow> u64" where
  "lastEventForOperation d i = newest_of i (rev (md_events d))"

definition nextAvailableEventSequence :: "memory_data \<Rightarrow> u64" where
  "nextAvailableEventSequence d =
    (case md_events d of
       e # _ \<Rightarrow> ev_Sequence e
     | [] \<Rightarrow> (case Sequence_Next (md_lastEvent d) of Inl _ \<Rightarrow> md_lastEvent d | Inr n \<Rightarrow> n))"

definition liveInventoryOwnerOperations :: "memory_data \<Rightarrow> operation_id list" where
  "liveInventoryOwnerOperations d =
    concat (map (\<lambda>(_, r). map (ok_OperationID \<circ> rt_Owner) (sr_HostResources r)) (md_sandboxes d))
    @ concat (map (\<lambda>(_, r). map (ok_OperationID \<circ> rt_Owner) (cr_HostResources r)) (md_containers d))"

subsection \<open>Retention\<close>

definition ensureRetentionMaps :: "memory_data \<Rightarrow> memory_data" where
  "ensureRetentionMaps d = (if md_firstEvent d = 0 then d\<lparr>md_firstEvent := 1\<rparr> else d)"

text \<open>The first loop of \<open>assignTerminalSequences\<close> collects the terminal operations without an
  order; the second one counts the orders up.\<close>

fun missing_orders ::
    "(operation_id, u64) table \<Rightarrow> (operation_id \<times> operation_record) list \<Rightarrow> st_error + operation_id list" where
  "missing_orders t [] = Inr []"
| "missing_orders t ((i, r) # rs) =
    (if State_Terminal (op_State (or_Operation r))
     then bind_res (missing_orders t rs) (\<lambda>is.
       Inr (if map_of t i = None \<or> map_of t i = Some 0 then i # is else is))
     else if map_of t i \<noteq> None then Inl ErrInvariantViolation
     else missing_orders t rs)"

fun assign_orders :: "u64 \<Rightarrow> (operation_id, u64) table \<Rightarrow> operation_id list
    \<Rightarrow> st_error + u64 \<times> (operation_id, u64) table" where
  "assign_orders n t [] = Inr (n, t)"
| "assign_orders n t (i # is) =
    (if n = -1 then Inl ErrRetentionCapacity else assign_orders (n + 1) (AList.update i (n + 1) t) is)"

definition assignTerminalSequences :: "memory_data \<Rightarrow> st_error + memory_data \<times> bool" where
  "assignTerminalSequences d =
    bind_res (missing_orders (md_terminal d) (md_operations d)) (\<lambda>missing.
      if missing = [] then Inr (d, False)
      else bind_res (assign_orders (md_lastTerminal d) (md_terminal d)
          (sort_key (\<lambda>i. (lastEventForOperation d i, i)) missing)) (\<lambda>(n, t).
        Inr (d\<lparr>md_lastTerminal := n, md_terminal := t\<rparr>, True)))"

text \<open>The terminal operations that may be retired: pinned ones are skipped.\<close>

fun retirable :: "memory_data \<Rightarrow> operation_id list \<Rightarrow> (operation_id \<times> u64) list
    \<Rightarrow> st_error + (operation_id \<times> u64) list" where
  "retirable d pinned [] = Inr []"
| "retirable d pinned ((i, n) # ts) =
    (case map_of (md_operations d) i of
       None \<Rightarrow> Inl ErrInvariantViolation
     | Some r \<Rightarrow>
       if \<not> State_Terminal (op_State (or_Operation r)) \<or> n = 0 then Inl ErrInvariantViolation
       else if i \<in> set pinned then retirable d pinned ts
       else bind_res (retirable d pinned ts) (\<lambda>cs. Inr ((i, n) # cs)))"

definition tombstone :: "memory_data \<Rightarrow> operation_id \<Rightarrow> u64 \<Rightarrow> operation \<Rightarrow> retired_operation" where
  "tombstone d i n x =
    \<lparr>re_OperationIDSHA256 = operationIDDigest i, re_Type = op_Type x, re_Target = op_Target x,
     re_Fingerprint = op_Fingerprint x, re_Reason = op_Reason x, re_TerminalSequence = n,
     re_TerminalEventSequence = lastEventForOperation d i\<rparr>"

text \<open>One turn of the retirement loop. A candidate is a stored operation, so the zero record that Go
  reads for a missing key is never used.\<close>

definition retire_one :: "memory_data \<Rightarrow> operation_id \<times> u64 \<Rightarrow> st_error + memory_data" where
  "retire_one d = (\<lambda>(i, n).
    case map_of (md_operations d) i of
      None \<Rightarrow> Inl ErrInvariantViolation
    | Some r \<Rightarrow>
      if map_of (md_retired d) (operationIDDigest i) \<noteq> None then Inl ErrInvariantViolation
      else Inr (d\<lparr>md_retired := AList.update (operationIDDigest i) (tombstone d i n (or_Operation r)) (md_retired d),
                md_operations := AList.delete i (md_operations d),
                md_terminal := AList.delete i (md_terminal d)\<rparr>))"

fun retire_all :: "memory_data \<Rightarrow> (operation_id \<times> u64) list \<Rightarrow> st_error + memory_data" where
  "retire_all d [] = Inr d"
| "retire_all d (c # cs) = bind_res (retire_one d c) (\<lambda>d'. retire_all d' cs)"

definition trim_events :: "retention_policy \<Rightarrow> memory_data \<Rightarrow> memory_data \<times> bool" where
  "trim_events p d =
    (let over = EventLimit p < int (length (md_events d));
         d1 = (if over then d\<lparr>md_events := drop (length (md_events d) - nat (EventLimit p)) (md_events d)\<rparr> else d);
         first = nextAvailableEventSequence d1
     in (d1\<lparr>md_firstEvent := first\<rparr>, over \<or> md_firstEvent d1 \<noteq> first))"

text \<open>The operations to retire: the oldest beyond the replay window.\<close>

definition retired_first :: "retention_policy \<Rightarrow> (operation_id \<times> u64) list \<Rightarrow> (operation_id \<times> u64) list" where
  "retired_first p ts = take (nat (int (length ts) - TerminalOperationLimit p)) (sort_key (\<lambda>(i, n). (n, i)) ts)"

text \<open>What follows once the orders are assigned.\<close>

definition retain_ordered :: "retention_policy \<Rightarrow> memory_data \<Rightarrow> bool \<Rightarrow> st_error + memory_data \<times> bool" where
  "retain_ordered p d changed =
    require (reject (OperationIdentityLimit p < int (length (md_operations d) + length (md_retired d)))
        ErrRetentionCapacity)
     (bind_res (retirable d (liveInventoryOwnerOperations d) (md_terminal d)) (\<lambda>terminal.
       bind_res (retire_all d (retired_first p terminal)) (\<lambda>d2.
         Inr (fst (trim_events p d2),
              changed \<or> retired_first p terminal \<noteq> [] \<or> snd (trim_events p d2)))))"

definition applyRetention :: "retention_policy \<Rightarrow> memory_data \<Rightarrow> st_error + memory_data \<times> bool" where
  "applyRetention p d =
    require (RetentionPolicy_Validate p)
     (bind_res (assignTerminalSequences (ensureRetentionMaps d)) (\<lambda>(d1, changed). retain_ordered p d1 changed))"

end
