(* ===== verification/State_Validate.thy ===== *)
theory State_Validate
  imports State_Data
begin

text \<open>
  \<open>memoryData.validate\<close> of \<open>internal/state/memory.go\<close>: the check on the whole store at the commit
  boundary, in the order of the code. It covers the retained event suffix and its operations, the
  terminal order, the resources with the events they were last observed in, and the graph of
  ownership between inventories and operations.
\<close>

fun Reason_string :: "reason_class \<Rightarrow> string" where
  "Reason_string ReasonNone = ''none''"
| "Reason_string ReasonInvalidRequest = ''invalid_request''"
| "Reason_string ReasonConflict = ''conflict''"
| "Reason_string ReasonNotFound = ''not_found''"
| "Reason_string ReasonPrecondition = ''precondition''"
| "Reason_string ReasonInternal = ''internal''"
| "Reason_string ReasonCleanup = ''cleanup''"
| "Reason_string (ReasonOther s) = s"

subsection \<open>Events and their operations\<close>

fun chain_error :: "event list \<Rightarrow> st_error option" where
  "chain_error (e # f # es) =
    (case Event_ValidateAfter f e of Some _ \<Rightarrow> Some ErrInvariantViolation | None \<Rightarrow> chain_error (f # es))"
| "chain_error _ = None"

definition suffix_error :: "memory_data \<Rightarrow> st_error option" where
  "suffix_error d =
    first_err
     [reject (md_firstEvent d = 0) ErrInvariantViolation,
      (if md_events d = [] then
         reject (md_firstEvent d \<noteq> (case Sequence_Next (md_lastEvent d) of Inl _ \<Rightarrow> md_lastEvent d | Inr n \<Rightarrow> n))
           ErrInvariantViolation
       else first_err
        [reject (ev_Sequence (hd (md_events d)) \<noteq> md_firstEvent d
            \<or> ev_Sequence (last (md_events d)) \<noteq> md_lastEvent d) ErrInvariantViolation,
         chain_error (md_events d)])]"

definition event_binding_error :: "memory_data \<Rightarrow> event \<Rightarrow> st_error option" where
  "event_binding_error d e =
    (case map_of (md_operations d) (ev_OperationID e) of
       Some r \<Rightarrow> reject (ev_Type e \<noteq> op_Type (or_Operation r) \<or> ev_Target e \<noteq> op_Target (or_Operation r))
         ErrInvariantViolation
     | None \<Rightarrow>
       (case retiredOperationFor d (ev_OperationID e) of
          None \<Rightarrow> Some ErrInvariantViolation
        | Some r \<Rightarrow> reject (ev_Type e \<noteq> re_Type r \<or> ev_Target e \<noteq> re_Target r) ErrInvariantViolation))"

text \<open>A later event with the same sequence replaces an earlier one in the map.\<close>

definition eventsBySequence :: "memory_data \<Rightarrow> u64 \<Rightarrow> event option" where
  "eventsBySequence d = map_of (map (\<lambda>e. (ev_Sequence e, e)) (rev (md_events d)))"

subsection \<open>The order of terminal operations\<close>

definition terminal_error :: "memory_data \<Rightarrow> operation_id \<times> operation_record \<Rightarrow> st_error option" where
  "terminal_error d = (\<lambda>(i, r).
    first_err
     [reject (State_Terminal (op_State (or_Operation r)) \<and> op_Response (or_Operation r) = []) ErrInvariantViolation,
      reject (State_Terminal (op_State (or_Operation r)) \<noteq> (map_of (md_terminal d) i \<noteq> None)
          \<or> map_of (md_terminal d) i = Some 0) ErrInvariantViolation])"

text \<open>The walk over the orders keeps those it has seen, first of the full operations and then of the
  tombstones.\<close>

fun seen_orders :: "u64 list \<Rightarrow> (operation_id \<times> u64) list \<Rightarrow> st_error + u64 list" where
  "seen_orders seen [] = Inr seen"
| "seen_orders seen ((i, n) # ts) =
    (if n \<in> set seen then Inl ErrInvariantViolation else seen_orders (n # seen) ts)"

fun retired_orders :: "memory_data \<Rightarrow> u64 list \<Rightarrow> (string \<times> retired_operation) list \<Rightarrow> st_error + u64 list" where
  "retired_orders d seen [] = Inr seen"
| "retired_orders d seen ((digest, r) # rs) =
    require (first_err
       [reject (digest \<noteq> re_OperationIDSHA256 r) ErrInvariantViolation,
        retired_validate r,
        reject (md_lastTerminal d < re_TerminalSequence r) ErrInvariantViolation,
        reject (re_TerminalSequence r \<in> set seen) ErrInvariantViolation,
        reject (md_lastEvent d < re_TerminalEventSequence r) ErrInvariantViolation])
     (retired_orders d (re_TerminalSequence r # seen) rs)"

definition terminal_order_error :: "memory_data \<Rightarrow> st_error option" where
  "terminal_order_error d =
    (case bind_res (seen_orders [] (md_terminal d)) (\<lambda>seen. retired_orders d seen (md_retired d)) of
       Inl e \<Rightarrow> Some e
     | Inr seen \<Rightarrow> first_err
        [reject (foldr max seen 0 \<noteq> md_lastTerminal d) ErrInvariantViolation,
         reject (of_nat (length seen) \<noteq> md_lastTerminal d) ErrInvariantViolation])"

subsection \<open>Resources and their observations\<close>

definition targetMatchesOneOf :: "target \<Rightarrow> target list \<Rightarrow> bool" where
  "targetMatchesOneOf t resources \<longleftrightarrow> t \<in> set resources"

definition compacted_error :: "memory_data \<Rightarrow> observation \<Rightarrow> target list \<Rightarrow> st_error option" where
  "compacted_error d ob resources =
    (if md_firstEvent d \<le> obs_EventSequence ob \<or> md_lastEvent d < obs_EventSequence ob
     then Some ErrInvariantViolation
     else (case map_of (md_operations d) (obs_OperationID ob) of
        Some r \<Rightarrow> first_err
         [reject (Reason_string (op_Reason (or_Operation r)) \<noteq> obs_Reason ob) ErrInvariantViolation,
          reject (\<not> targetMatchesOneOf (op_Target (or_Operation r)) resources) ErrInvariantViolation]
      | None \<Rightarrow>
        (case retiredOperationFor d (obs_OperationID ob) of
           Some r \<Rightarrow> first_err
            [reject (Reason_string (re_Reason r) \<noteq> obs_Reason ob) ErrInvariantViolation,
             reject (\<not> targetMatchesOneOf (re_Target r) resources) ErrInvariantViolation]
         | None \<Rightarrow> Some ErrInvariantViolation)))"

definition validateObservationReference ::
    "memory_data \<Rightarrow> observation \<Rightarrow> target list \<Rightarrow> st_error option" where
  "validateObservationReference d ob resources =
    (if obs_EventSequence ob = 0 then None
     else (case eventsBySequence d (obs_EventSequence ob) of
        None \<Rightarrow> compacted_error d ob resources
      | Some e \<Rightarrow> first_err
         [reject (ev_OperationID e \<noteq> obs_OperationID ob \<or> Reason_string (ev_Reason e) \<noteq> obs_Reason ob)
            ErrInvariantViolation,
          reject (\<not> list_all (\<lambda>t. t \<in> set (ev_Resources e)) resources) ErrInvariantViolation]))"

definition validateCurrentObservationGeneration ::
    "memory_data \<Rightarrow> observation \<Rightarrow> generation \<Rightarrow> generation \<Rightarrow> st_error option" where
  "validateCurrentObservationGeneration d ob generation observed =
    (if obs_EventSequence ob = 0 then None
     else (case eventsBySequence d (obs_EventSequence ob) of
        None \<Rightarrow> None
      | Some e \<Rightarrow> reject (ev_Generation e \<noteq> generation \<or> ev_ObservedGeneration e \<noteq> observed)
          ErrInvariantViolation))"

definition sandbox_commit_error :: "memory_data \<Rightarrow> sandbox_id \<times> sandbox_record \<Rightarrow> st_error option" where
  "sandbox_commit_error d = (\<lambda>(i, r).
    (let st = sb_Status (sr_Sandbox r) in
     first_err
      [reject (ss_Phase st = SandboxAbsent) ErrInvariantViolation,
       validateObservationReference d (ss_LastObservation st) [\<lparr>tg_Kind = TargetSandbox, tg_ID = i\<rparr>],
       validateCurrentObservationGeneration d (ss_LastObservation st) (ss_Generation st)
         (ss_ObservedGeneration st)]))"

definition container_commit_error :: "memory_data \<Rightarrow> container_id \<times> container_record \<Rightarrow> st_error option" where
  "container_commit_error d = (\<lambda>(i, r).
    (let p = cr_ContainerAttempt r; c = ca_Container p; a = ca_Attempt p in
     first_err
      [reject (at_Phase a = AttemptAbsent) ErrInvariantViolation,
       validateObservationReference d (at_LastObservation a)
         [\<lparr>tg_Kind = TargetContainer, tg_ID = co_ID c\<rparr>, \<lparr>tg_Kind = TargetAttempt, tg_ID = at_ID a\<rparr>],
       validateCurrentObservationGeneration d (at_LastObservation a) (ct_Generation (co_Status c))
         (ct_ObservedGeneration (co_Status c)),
       (case map_of (md_sandboxes d) (co_SandboxID c) of
          None \<Rightarrow> Some ErrInvariantViolation
        | Some s \<Rightarrow> reject (IsActiveAttempt (at_Phase a) \<and> ss_Phase (sb_Status (sr_Sandbox s)) \<noteq> SandboxReady)
            ErrInvariantViolation)]))"

definition current_pair_error :: "memory_data \<Rightarrow> sandbox_id \<times> sandbox_record \<Rightarrow> st_error option" where
  "current_pair_error d = (\<lambda>(i, r).
    (let st = sb_Status (sr_Sandbox r) in
     case ss_CurrentContainerID st of
       None \<Rightarrow> None
     | Some c \<Rightarrow>
       (case map_of (md_containers d) c of
          None \<Rightarrow> Some ErrInvariantViolation
        | Some p \<Rightarrow> reject (Some (at_ID (ca_Attempt (cr_ContainerAttempt p))) \<noteq> ss_CurrentAttemptID st
            \<or> co_SandboxID (ca_Container (cr_ContainerAttempt p)) \<noteq> i) ErrInvariantViolation)))"

text \<open>By then every Container is known to have its Sandbox.\<close>

definition active_pair_error :: "memory_data \<Rightarrow> container_id \<times> container_record \<Rightarrow> st_error option" where
  "active_pair_error d = (\<lambda>(i, r).
    (let p = cr_ContainerAttempt r in
     if \<not> IsActiveAttempt (at_Phase (ca_Attempt p)) then None
     else (case map_of (md_sandboxes d) (co_SandboxID (ca_Container p)) of
        None \<Rightarrow> Some ErrInvariantViolation
      | Some s \<Rightarrow> reject (ss_CurrentContainerID (sb_Status (sr_Sandbox s)) \<noteq> Some i
          \<or> ss_CurrentAttemptID (sb_Status (sr_Sandbox s)) \<noteq> Some (at_ID (ca_Attempt p))) ErrInvariantViolation)))"

subsection \<open>The ownership graph\<close>

definition inventoryForTarget :: "memory_data \<Rightarrow> target \<Rightarrow> receipt list option" where
  "inventoryForTarget d t =
    (case tg_Kind t of
       TargetSandbox \<Rightarrow> map_option sr_HostResources (map_of (md_sandboxes d) (tg_ID t))
     | TargetContainer \<Rightarrow> map_option cr_HostResources (map_of (md_containers d) (tg_ID t))
     | TargetAttempt \<Rightarrow> map_option (\<lambda>(_, r). cr_HostResources r)
         (find (\<lambda>(_, r). at_ID (ca_Attempt (cr_ContainerAttempt r)) = tg_ID t) (md_containers d))
     | TargetOther _ \<Rightarrow> None)"

definition validateInventoryProvenance :: "memory_data \<Rightarrow> receipt \<Rightarrow> st_error option" where
  "validateInventoryProvenance d r =
    (case map_of (md_operations d) (ok_OperationID (rt_Owner r)) of
       None \<Rightarrow> Some ErrInvariantViolation
     | Some x \<Rightarrow> first_err
        [reject (op_Target (or_Operation x) \<noteq> ok_Target (rt_Owner r)) ErrInvariantViolation,
         reject (\<not> list_ex (\<lambda>q. receiptKey q = receiptKey r \<and> rt_Adopted q \<and> q = r) (elems (or_Receipts x)))
           ErrInvariantViolation])"

definition isSuccessfulResourceDelete :: "operation_record \<Rightarrow> target \<Rightarrow> bool" where
  "isSuccessfulResourceDelete r t \<longleftrightarrow>
     op_Type (or_Operation r) = TypeDelete \<and> op_Target (or_Operation r) = t
     \<and> op_State (or_Operation r) = StateSucceeded \<and> op_Result (or_Operation r) = ResultSucceeded"

definition releases_cover :: "operation_record \<Rightarrow> operation_record \<Rightarrow> bool" where
  "releases_cover create r \<longleftrightarrow>
     isSuccessfulResourceDelete r (op_Target (or_Operation create))
     \<and> length (elems (or_Releases r)) = length (elems (or_Receipts create))
     \<and> list_all (\<lambda>q. list_ex (\<lambda>rl. rl_Resource rl = q) (elems (or_Releases r))) (elems (or_Receipts create))"

definition createHasCompleteVerifiedRelease :: "memory_data \<Rightarrow> operation_record \<Rightarrow> bool" where
  "createHasCompleteVerifiedRelease d create \<longleftrightarrow> list_ex (\<lambda>(_, r). releases_cover create r) (md_operations d)"

definition hasVerifiedRelease :: "memory_data \<Rightarrow> operation_record \<Rightarrow> receipt \<Rightarrow> bool" where
  "hasVerifiedRelease d create q \<longleftrightarrow>
     createHasCompleteVerifiedRelease d create
     \<and> list_ex (\<lambda>(_, r). isSuccessfulResourceDelete r (op_Target (or_Operation create))
         \<and> list_ex (\<lambda>rl. rl_Resource rl = q) (elems (or_Releases r))) (md_operations d)"

definition receiptSetContains :: "receipt list \<Rightarrow> receipt \<Rightarrow> bool" where
  "receiptSetContains rs q \<longleftrightarrow> list_ex (\<lambda>r. receiptKey r = receiptKey q \<and> r = q) rs"

definition sameReceiptSet :: "receipt list \<Rightarrow> receipt list \<Rightarrow> bool" where
  "sameReceiptSet xs ys \<longleftrightarrow> length xs = length ys \<and> list_all (receiptSetContains ys) xs"

definition adopted_receipt_error :: "memory_data \<Rightarrow> operation_record \<Rightarrow> receipt \<Rightarrow> st_error option" where
  "adopted_receipt_error d r q =
    (if \<not> rt_Adopted q then None
     else reject ((case inventoryForTarget d (ok_Target (rt_Owner q)) of
          None \<Rightarrow> True | Some rs \<Rightarrow> \<not> receiptSetContains rs q) \<and> \<not> hasVerifiedRelease d r q) ErrInvariantViolation)"

definition create_inventory_error :: "memory_data \<Rightarrow> operation_record \<Rightarrow> st_error option" where
  "create_inventory_error d r =
    (if op_Type (or_Operation r) \<noteq> TypeCreate \<or> op_State (or_Operation r) \<noteq> StateSucceeded
        \<or> elems (or_Receipts r) = [] then None
     else (case inventoryForTarget d (op_Target (or_Operation r)) of
        None \<Rightarrow> reject (\<not> createHasCompleteVerifiedRelease d r) ErrInvariantViolation
      | Some rs \<Rightarrow> reject (\<not> sameReceiptSet (elems (or_Receipts r)) rs
          \<and> \<not> createHasCompleteVerifiedRelease d r) ErrInvariantViolation))"

definition validateOwnershipGraph :: "memory_data \<Rightarrow> st_error option" where
  "validateOwnershipGraph d =
    first_err
     [first_err (map (\<lambda>(_, r). first_err (map (validateInventoryProvenance d) (sr_HostResources r))) (md_sandboxes d)),
      first_err (map (\<lambda>(_, r). first_err (map (validateInventoryProvenance d) (cr_HostResources r))) (md_containers d)),
      first_err (map (\<lambda>(_, r). first_err
        [first_err (map (adopted_receipt_error d r) (elems (or_Receipts r))), create_inventory_error d r])
        (md_operations d))]"

subsection \<open>The check at commit\<close>

definition store_pairs :: "memory_data \<Rightarrow> container_attempt list" where
  "store_pairs d = map (\<lambda>(_, r). cr_ContainerAttempt r) (md_containers d)"

definition data_validate :: "memory_data \<Rightarrow> st_error option" where
  "data_validate d =
    first_err
     [suffix_error d,
      first_err (map (event_binding_error d) (md_events d)),
      first_err (map (terminal_error d) (md_operations d)),
      terminal_order_error d,
      first_err (map (sandbox_commit_error d) (md_sandboxes d)),
      first_err (map (container_commit_error d) (md_containers d)),
      wrap (\<lambda>_. ErrInvariantViolation) (ValidateOneActiveAttempt (store_pairs d)),
      first_err (map (current_pair_error d) (md_sandboxes d)),
      first_err (map (active_pair_error d) (md_containers d)),
      validateOwnershipGraph d]"

end
