(* ===== verification/State_Memory.thy ===== *)
theory State_Memory
  imports State_Validate
begin

text \<open>
  The callback-scoped view of \<open>internal/state/memory.go\<close>: the reads and writes of a transaction
  over its candidate. A write is a compare-and-set on the revision of one record; the locale
  \<open>cas_store\<close> states what the three tables have in common.
\<close>

record memory_view =
  mv_data :: memory_data
  mv_writable :: bool
  mv_retention :: retention_policy
  mv_closed :: bool

definition view_close :: "memory_view \<Rightarrow> memory_view" where
  "view_close v = v\<lparr>mv_closed := True\<rparr>"

definition ensureOpen :: "memory_view \<Rightarrow> st_error option" where
  "ensureOpen v = reject (mv_closed v) ErrTransactionClosed"

definition ensureWritable :: "memory_view \<Rightarrow> st_error option" where
  "ensureWritable v = first_err [ensureOpen v, reject (\<not> mv_writable v) ErrInvalidRecord]"

subsection \<open>Reads\<close>

definition GetSandbox :: "memory_view \<Rightarrow> sandbox_id \<Rightarrow> st_error + sandbox_record" where
  "GetSandbox v i =
    require (ensureOpen v)
     (case map_of (md_sandboxes (mv_data v)) i of None \<Rightarrow> Inl ErrNotFound | Some r \<Rightarrow> Inr r)"

definition ListSandboxes :: "memory_view \<Rightarrow> st_error + sandbox_record list" where
  "ListSandboxes v = require (ensureOpen v) (Inr (map snd (sort_key fst (md_sandboxes (mv_data v)))))"

definition GetContainerAttempt :: "memory_view \<Rightarrow> container_id \<Rightarrow> st_error + container_record" where
  "GetContainerAttempt v i =
    require (ensureOpen v)
     (case map_of (md_containers (mv_data v)) i of None \<Rightarrow> Inl ErrNotFound | Some r \<Rightarrow> Inr r)"

definition ListContainerAttempts :: "memory_view \<Rightarrow> sandbox_id \<Rightarrow> st_error + container_record list" where
  "ListContainerAttempts v s =
    require (ensureOpen v)
     (Inr (map snd (sort_key fst
        (filter (\<lambda>(_, r). co_SandboxID (ca_Container (cr_ContainerAttempt r)) = s) (md_containers (mv_data v))))))"

definition GetOperation :: "memory_view \<Rightarrow> operation_id \<Rightarrow> st_error + operation_record" where
  "GetOperation v i =
    require (ensureOpen v)
     (case map_of (md_operations (mv_data v)) i of
        None \<Rightarrow> Inl (if retiredOperationFor (mv_data v) i \<noteq> None then ErrOperationExpired else ErrNotFound)
      | Some r \<Rightarrow> Inr (OperationRecord_Clone r))"

definition ListOperations :: "memory_view \<Rightarrow> st_error + operation_record list" where
  "ListOperations v =
    require (ensureOpen v)
     (Inr (map (OperationRecord_Clone \<circ> snd) (sort_key fst (md_operations (mv_data v)))))"

definition active_on :: "target \<Rightarrow> operation_record \<Rightarrow> bool" where
  "active_on t r \<longleftrightarrow> State_Active (op_State (or_Operation r)) \<and> op_Target (or_Operation r) = t"

definition ActiveOperation :: "memory_view \<Rightarrow> target \<Rightarrow> st_error + operation_record" where
  "ActiveOperation v t =
    require (first_err [ensureOpen v, reject (Target_Validate t \<noteq> None) ErrInvalidRecord])
     (case filter (\<lambda>(_, r). active_on t r) (md_operations (mv_data v)) of
        [] \<Rightarrow> Inl ErrNotFound
      | [(_, r)] \<Rightarrow> Inr (OperationRecord_Clone r)
      | _ \<Rightarrow> Inl ErrInvariantViolation)"

definition EventsAfter :: "memory_view \<Rightarrow> u64 \<Rightarrow> int \<Rightarrow> st_error + event list" where
  "EventsAfter v after limit =
    (let d = mv_data v in
     require (first_err
       [ensureOpen v,
        reject (limit < 0) ErrInvalidEventLimit,
        reject (after \<noteq> 0 \<and> (md_lastEvent d < after
            \<or> 1 < md_firstEvent d \<and> after < md_firstEvent d - 1))
          (ErrEventResumeGap after (md_firstEvent d) (md_lastEvent d))])
      (let later = filter (\<lambda>e. after < ev_Sequence e) (md_events d)
       in Inr (if 0 < limit then take (nat limit) later else later)))"

subsection \<open>Sandboxes\<close>

definition sandbox_advance_error :: "sandbox_record \<Rightarrow> sandbox_record \<Rightarrow> st_error option" where
  "sandbox_advance_error current rec =
    first_err
     [reject (sb_Spec (sr_Sandbox current) \<noteq> sb_Spec (sr_Sandbox rec)
         \<or> ss_Generation (sb_Status (sr_Sandbox current)) \<noteq> ss_Generation (sb_Status (sr_Sandbox rec)))
        ErrInvalidRecord,
      validateSandboxAdvance (sr_Sandbox current) (sr_Sandbox rec),
      validateHostResourceAdvance (sr_HostResources current) (sr_HostResources rec)]"

text \<open>Storing a record: the revision that a write expects is checked against the stored one, then
  the advance. \<open>nextRevision\<close> ignores its second argument where there is no record.\<close>

definition revision_of :: "('r \<Rightarrow> revision) \<Rightarrow> 'r option \<Rightarrow> revision" where
  "revision_of f current = (case current of None \<Rightarrow> 0 | Some c \<Rightarrow> f c)"

definition PutSandbox :: "memory_view \<Rightarrow> sandbox_record \<Rightarrow> revision
    \<Rightarrow> st_error + memory_view \<times> sandbox_record" where
  "PutSandbox v rec expected =
    (let d = mv_data v; i = sb_ID (sr_Sandbox rec); current = map_of (md_sandboxes d) i in
     require (first_err [ensureWritable v, validateSandboxRecord rec])
      (bind_res (nextRevision expected (revision_of sr_Revision current) (current \<noteq> None)) (\<lambda>rev.
        require (case current of None \<Rightarrow> None | Some c \<Rightarrow> sandbox_advance_error c rec)
         (let stored = rec\<lparr>sr_Revision := rev\<rparr>
          in Inr (v\<lparr>mv_data := d\<lparr>md_sandboxes := AList.update i stored (md_sandboxes d)\<rparr>\<rparr>, stored)))))"

definition DeleteSandbox :: "memory_view \<Rightarrow> sandbox_id \<Rightarrow> revision \<Rightarrow> st_error + memory_view" where
  "DeleteSandbox v i expected =
    (let d = mv_data v in
     require (ensureWritable v)
      (case map_of (md_sandboxes d) i of
         None \<Rightarrow> Inl ErrNotFound
       | Some c \<Rightarrow>
         require (first_err
           [reject (expected = 0 \<or> sr_Revision c \<noteq> expected) ErrRevisionConflict,
            reject (ss_Phase (sb_Status (sr_Sandbox c)) \<noteq> SandboxStopped
                \<and> ss_Phase (sb_Status (sr_Sandbox c)) \<noteq> SandboxAbsent) ErrInvalidRecord,
            reject (sr_HostResources c \<noteq> []) ErrInvalidRecord,
            reject (list_ex (\<lambda>(_, p). co_SandboxID (ca_Container (cr_ContainerAttempt p)) = i) (md_containers d))
              ErrInvalidRecord])
          (Inr (v\<lparr>mv_data := d\<lparr>md_sandboxes := AList.delete i (md_sandboxes d)\<rparr>\<rparr>))))"

subsection \<open>Containers with their Attempts\<close>

definition container_advance_error :: "container_record \<Rightarrow> container_record \<Rightarrow> st_error option" where
  "container_advance_error current rec =
    first_err
     [reject (\<not> sameContainerAttemptIdentityAndSpec (cr_ContainerAttempt current) (cr_ContainerAttempt rec))
        ErrInvalidRecord,
      validateContainerAttemptAdvance (cr_ContainerAttempt current) (cr_ContainerAttempt rec),
      validateHostResourceAdvance (cr_HostResources current) (cr_HostResources rec)]"

definition validateContainerAttemptSet :: "memory_view \<Rightarrow> container_attempt \<Rightarrow> st_error option" where
  "validateContainerAttemptSet v candidate =
    (let others = filter (\<lambda>(i, _). i \<noteq> co_ID (ca_Container candidate)) (md_containers (mv_data v)) in
     first_err
      [reject (list_ex (\<lambda>(_, r). at_ID (ca_Attempt (cr_ContainerAttempt r)) = at_ID (ca_Attempt candidate)) others)
         ErrInvalidRecord,
       wrap (\<lambda>_. ErrInvalidRecord)
         (ValidateOneActiveAttempt (map (\<lambda>(_, r). cr_ContainerAttempt r) others @ [candidate]))])"

definition PutContainerAttempt :: "memory_view \<Rightarrow> container_record \<Rightarrow> revision
    \<Rightarrow> st_error + memory_view \<times> container_record" where
  "PutContainerAttempt v rec expected =
    (let d = mv_data v; i = co_ID (ca_Container (cr_ContainerAttempt rec)); current = map_of (md_containers d) i in
     require (first_err [ensureWritable v, validateContainerAttemptRecord rec])
      (bind_res (nextRevision expected (revision_of cr_Revision current) (current \<noteq> None)) (\<lambda>rev.
        require (first_err
           [(case current of None \<Rightarrow> None | Some c \<Rightarrow> container_advance_error c rec),
            validateContainerAttemptSet v (cr_ContainerAttempt rec)])
         (let stored = rec\<lparr>cr_Revision := rev\<rparr>
          in Inr (v\<lparr>mv_data := d\<lparr>md_containers := AList.update i stored (md_containers d)\<rparr>\<rparr>, stored)))))"

definition DeleteContainerAttempt :: "memory_view \<Rightarrow> container_id \<Rightarrow> revision \<Rightarrow> st_error + memory_view" where
  "DeleteContainerAttempt v i expected =
    (let d = mv_data v in
     require (ensureWritable v)
      (case map_of (md_containers d) i of
         None \<Rightarrow> Inl ErrNotFound
       | Some c \<Rightarrow>
         require (first_err
           [reject (expected = 0 \<or> cr_Revision c \<noteq> expected) ErrRevisionConflict,
            reject (at_Phase (ca_Attempt (cr_ContainerAttempt c)) \<noteq> AttemptCreated
                \<and> at_Phase (ca_Attempt (cr_ContainerAttempt c)) \<noteq> AttemptStopped) ErrInvalidRecord,
            reject (cr_HostResources c \<noteq> []) ErrInvalidRecord])
          (Inr (v\<lparr>mv_data := d\<lparr>md_containers := AList.delete i (md_containers d)\<rparr>\<rparr>))))"

subsection \<open>Operations\<close>

definition effective_policy :: "retention_policy \<Rightarrow> retention_policy" where
  "effective_policy p =
    (if p = \<lparr>TerminalOperationLimit = 0, OperationIdentityLimit = 0, EventLimit = 0\<rparr>
     then DefaultRetentionPolicy else p)"

definition new_identity_error :: "memory_view \<Rightarrow> operation_id \<Rightarrow> st_error option" where
  "new_identity_error v i =
    first_err
     [reject (retiredOperationFor (mv_data v) i \<noteq> None) ErrOperationExpired,
      reject (OperationIdentityLimit (effective_policy (mv_retention v))
          \<le> int (length (md_operations (mv_data v)) + length (md_retired (mv_data v)))) ErrRetentionCapacity]"

definition new_linux_error :: "operation_record \<Rightarrow> st_error option" where
  "new_linux_error r =
    reject (or_HostProfile r = HostProfileLinuxM2 \<and> State_Active (op_State (or_Operation r))
       \<and> (op_Stage (or_Operation r) \<noteq> StagePersistIntent \<or> or_KillEscalationDeadline r \<noteq> None
          \<or> elems (or_Rollback r) \<noteq> [] \<or> elems (or_Receipts r) \<noteq> [] \<or> elems (or_Releases r) \<noteq> []))
      ErrInvalidRecord"

definition target_owner_error :: "memory_view \<Rightarrow> operation_record \<Rightarrow> st_error option" where
  "target_owner_error v r =
    (let x = or_Operation r in
     if \<not> State_Active (op_State x) then None
     else (case find (\<lambda>(j, o'). j \<noteq> op_ID x \<and> active_on (op_Target x) o') (md_operations (mv_data v)) of
        None \<Rightarrow> None
      | Some (j, _) \<Rightarrow> Some (ErrActiveOperation
          (ActiveConflict (TargetKind_String (tg_Kind (op_Target x))) (tg_ID (op_Target x)) j (op_ID x)))))"

definition PutOperation :: "memory_view \<Rightarrow> operation_record \<Rightarrow> revision
    \<Rightarrow> st_error + memory_view \<times> operation_record" where
  "PutOperation v rec expected =
    (let d = mv_data v; i = op_ID (or_Operation rec); current = map_of (md_operations d) i in
     require (first_err
        [ensureWritable v,
         validateOperationRecord rec,
         (case current of None \<Rightarrow> first_err [new_identity_error v i, new_linux_error rec] | Some _ \<Rightarrow> None)])
      (bind_res (nextRevision expected (revision_of or_Revision current) (current \<noteq> None)) (\<lambda>rev.
        require (first_err
           [(case current of None \<Rightarrow> None | Some c \<Rightarrow> operation_advance_error c rec),
            target_owner_error v rec])
         (let stored = (OperationRecord_Clone rec)\<lparr>or_Revision := rev\<rparr>
          in Inr (v\<lparr>mv_data := d\<lparr>md_operations := AList.update i stored (md_operations d)\<rparr>\<rparr>, stored)))))"

subsection \<open>Events\<close>

definition eventTargetGeneration :: "memory_view \<Rightarrow> target \<Rightarrow> (u64 \<times> u64) option" where
  "eventTargetGeneration v t =
    (let d = mv_data v;
         of_pair = (\<lambda>r. let st = co_Status (ca_Container (cr_ContainerAttempt r))
                        in (ct_Generation st, ct_ObservedGeneration st))
     in case tg_Kind t of
          TargetSandbox \<Rightarrow>
            map_option (\<lambda>r. let st = sb_Status (sr_Sandbox r) in (ss_Generation st, ss_ObservedGeneration st))
              (map_of (md_sandboxes d) (tg_ID t))
        | TargetContainer \<Rightarrow> map_option of_pair (map_of (md_containers d) (tg_ID t))
        | TargetAttempt \<Rightarrow> map_option (of_pair \<circ> snd)
            (find (\<lambda>(_, r). at_ID (ca_Attempt (cr_ContainerAttempt r)) = tg_ID t) (md_containers d))
        | TargetOther _ \<Rightarrow> None)"

definition validateEventGeneration :: "memory_view \<Rightarrow> event \<Rightarrow> st_error option" where
  "validateEventGeneration v e =
    (case eventTargetGeneration v (ev_Target e) of
       None \<Rightarrow> None
     | Some (g, ob) \<Rightarrow> reject (ev_Generation e \<noteq> g \<or> ev_ObservedGeneration e \<noteq> ob) ErrInvalidRecord)"

definition append_error :: "memory_view \<Rightarrow> event \<Rightarrow> st_error option" where
  "append_error v e =
    first_err
     [ensureWritable v,
      reject (ev_Sequence e \<noteq> 0) ErrInvalidRecord,
      (case map_of (md_operations (mv_data v)) (ev_OperationID e) of
         None \<Rightarrow> Some ErrNotFound
       | Some r \<Rightarrow> first_err
          [reject (ev_Type e \<noteq> op_Type (or_Operation r) \<or> ev_Target e \<noteq> op_Target (or_Operation r)) ErrInvalidRecord,
           reject (ev_Stage e \<noteq> op_Stage (or_Operation r) \<or> ev_Result e \<noteq> op_Result (or_Operation r)
               \<or> ev_Reason e \<noteq> op_Reason (or_Operation r)) ErrInvalidRecord,
           validateEventGeneration v e])]"

definition AppendEvent :: "memory_view \<Rightarrow> event \<Rightarrow> st_error + memory_view \<times> event" where
  "AppendEvent v e =
    (let d = mv_data v in
     require (append_error v e)
      (case Sequence_Next (md_lastEvent d) of
         Inl er \<Rightarrow> Inl (ErrEventSequence er)
       | Inr n \<Rightarrow>
         (let stored = e\<lparr>ev_Sequence := n\<rparr> in
          require (first_err
             [validateEvent stored,
              (if md_events d = [] then None
               else wrap ErrEventSequence (Event_ValidateAfter stored (last (md_events d))))])
           (Inr (v\<lparr>mv_data := d\<lparr>md_events := md_events d @ [stored], md_lastEvent := n\<rparr>\<rparr>, stored)))))"


subsection \<open>Tables under compare-and-set\<close>

lemma nextRevision_Inr:
  "nextRevision e c b = Inr n \<longleftrightarrow> (if b then e = c \<and> e \<noteq> 0 \<and> c \<noteq> -1 \<and> n = c + 1 else e = 0 \<and> n = 1)"
  by (auto simp: nextRevision_def)

text \<open>The writes of a list that are accepted, each with its expected revision; a refused write
  leaves the view as it is.\<close>

fun accepted_writes :: "('v \<Rightarrow> 'r \<Rightarrow> revision \<Rightarrow> st_error + 'v \<times> 'r) \<Rightarrow> 'v \<Rightarrow> ('r \<times> revision) list
    \<Rightarrow> 'v \<times> 'r list" where
  "accepted_writes put v [] = (v, [])"
| "accepted_writes put v ((r, e) # ws) =
    (case put v r e of
       Inl _ \<Rightarrow> accepted_writes put v ws
     | Inr (v', r') \<Rightarrow> let (v'', rs) = accepted_writes put v' ws in (v'', r' # rs))"

locale cas_store =
  fixes get :: "'v \<Rightarrow> 'k \<Rightarrow> 'r option"
    and put :: "'v \<Rightarrow> 'r \<Rightarrow> revision \<Rightarrow> st_error + 'v \<times> 'r"
    and key :: "'r \<Rightarrow> 'k"
    and revision :: "'r \<Rightarrow> revision"
  assumes put_get: "put v r e = Inr (v', r') \<Longrightarrow> get v' = (get v)(key r \<mapsto> r')"
    and put_key: "put v r e = Inr (v', r') \<Longrightarrow> key r' = key r"
    and put_revision: "put v r e = Inr (v', r') \<Longrightarrow>
      nextRevision e (revision_of revision (get v (key r))) (get v (key r) \<noteq> None) = Inr (revision r')"
begin

lemma revision_step:
  assumes "put v r e = Inr (v', r')"
  shows "unat (revision r') = Suc (case get v (key r) of None \<Rightarrow> 0 | Some c \<Rightarrow> unat (revision c))"
    and "revision r' \<noteq> e"
  using put_revision [OF assms] unat_succ [of e]
  by (auto simp: nextRevision_Inr revision_of_def split: option.splits if_splits)

lemma stale_put:
  assumes "put v r e = Inr (v1, r1)" and "key s = key r"
  shows "\<exists>err. put v1 s e = Inl err"
proof (cases "put v1 s e")
  case (Inr res)
  obtain v2 r2 where "res = (v2, r2)" by (cases res)
  with Inr have second: "put v1 s e = Inr (v2, r2)" by simp
  have "get v1 (key s) = Some r1"
    using put_get [OF assms(1)] assms(2) by simp
  with put_revision [OF second] have "e = revision r1"
    by (simp add: nextRevision_Inr revision_of_def)
  with revision_step(2) [OF assms(1)] show ?thesis by simp
qed simp

lemma put_frame: "put v r e = Inr (v', r') \<Longrightarrow> k \<noteq> key r \<Longrightarrow> get v' k = get v k"
  by (simp add: put_get)

lemma revision_counts_from:
  assumes "accepted_writes put v ws = (v', rs)"
  shows "(case get v' k of None \<Rightarrow> 0 | Some c \<Rightarrow> unat (revision c))
    = (case get v k of None \<Rightarrow> 0 | Some c \<Rightarrow> unat (revision c)) + length (filter (\<lambda>r. key r = k) rs)"
  using assms
proof (induction ws arbitrary: v rs)
  case (Cons w ws)
  obtain r e where w: "w = (r, e)" by (cases w)
  show ?case
  proof (cases "put v r e")
    case (Inl a)
    then show ?thesis using Cons w by simp
  next
    case (Inr res)
    then obtain v1 r1 where put: "put v r e = Inr (v1, r1)" by (cases res) auto
    then obtain rs' where rs: "accepted_writes put v1 ws = (v', rs')" "rs = r1 # rs'"
      using Cons.prems w by (auto simp: Let_def split: prod.splits)
    show ?thesis
      using Cons.IH [OF rs(1)] revision_step(1) [OF put] put_get [OF put] put_key [OF put]
      by (auto simp: rs(2) fun_upd_def split: option.splits)
  qed
qed simp

lemma writes_revision_counts:
  assumes "accepted_writes put v ws = (v', rs)" and "get v k = None"
  shows "(case get v' k of None \<Rightarrow> 0 | Some c \<Rightarrow> unat (revision c)) = length (filter (\<lambda>r. key r = k) rs)"
  using revision_counts_from [OF assms(1), of k] assms(2) by simp

end

lemma PutSandbox_Inr:
  "PutSandbox v rec e = Inr (v', r) \<longleftrightarrow>
     (let d = mv_data v; i = sb_ID (sr_Sandbox rec); current = map_of (md_sandboxes d) i in
      ensureWritable v = None \<and> validateSandboxRecord rec = None
      \<and> nextRevision e (revision_of sr_Revision current) (current \<noteq> None) = Inr (sr_Revision r)
      \<and> (\<forall>c. current = Some c \<longrightarrow> sandbox_advance_error c rec = None)
      \<and> r = rec\<lparr>sr_Revision := sr_Revision r\<rparr>
      \<and> v' = v\<lparr>mv_data := d\<lparr>md_sandboxes := AList.update i r (md_sandboxes d)\<rparr>\<rparr>)"
  by (auto simp: PutSandbox_def Let_def split: option.split)

lemma PutContainerAttempt_Inr:
  "PutContainerAttempt v rec e = Inr (v', r) \<longleftrightarrow>
     (let d = mv_data v; i = co_ID (ca_Container (cr_ContainerAttempt rec)); current = map_of (md_containers d) i in
      ensureWritable v = None \<and> validateContainerAttemptRecord rec = None
      \<and> nextRevision e (revision_of cr_Revision current) (current \<noteq> None) = Inr (cr_Revision r)
      \<and> (\<forall>c. current = Some c \<longrightarrow> container_advance_error c rec = None)
      \<and> validateContainerAttemptSet v (cr_ContainerAttempt rec) = None
      \<and> r = rec\<lparr>cr_Revision := cr_Revision r\<rparr>
      \<and> v' = v\<lparr>mv_data := d\<lparr>md_containers := AList.update i r (md_containers d)\<rparr>\<rparr>)"
  by (auto simp: PutContainerAttempt_def Let_def split: option.split)

lemma PutOperation_Inr:
  "PutOperation v rec e = Inr (v', r) \<longleftrightarrow>
     (let d = mv_data v; i = op_ID (or_Operation rec); current = map_of (md_operations d) i in
      ensureWritable v = None \<and> validateOperationRecord rec = None
      \<and> (current = None \<longrightarrow> new_identity_error v i = None \<and> new_linux_error rec = None)
      \<and> nextRevision e (revision_of or_Revision current) (current \<noteq> None) = Inr (or_Revision r)
      \<and> (\<forall>c. current = Some c \<longrightarrow> operation_advance_error c rec = None)
      \<and> target_owner_error v rec = None
      \<and> r = (OperationRecord_Clone rec)\<lparr>or_Revision := or_Revision r\<rparr>
      \<and> v' = v\<lparr>mv_data := d\<lparr>md_operations := AList.update i r (md_operations d)\<rparr>\<rparr>)"
  by (auto simp: PutOperation_def Let_def split: option.split)

lemma cloned_revision [simp]:
  "or_Operation ((OperationRecord_Clone rec)\<lparr>or_Revision := n\<rparr>) = or_Operation rec"
  by simp

interpretation sandbox_table:
  cas_store "\<lambda>v. map_of (md_sandboxes (mv_data v))" PutSandbox "\<lambda>r. sb_ID (sr_Sandbox r)" sr_Revision
  by unfold_locales (auto simp: PutSandbox_Inr Let_def, (metis sandbox_record.select_convs(3) sandbox_record.surjective
      sandbox_record.update_convs(2))+)

interpretation container_table:
  cas_store "\<lambda>v. map_of (md_containers (mv_data v))" PutContainerAttempt
    "\<lambda>r. co_ID (ca_Container (cr_ContainerAttempt r))" cr_Revision
  by unfold_locales (auto simp: PutContainerAttempt_Inr Let_def, (metis container_record.select_convs(3)
      container_record.surjective container_record.update_convs(2))+)

interpretation operation_table:
  cas_store "\<lambda>v. map_of (md_operations (mv_data v))" PutOperation "\<lambda>r. op_ID (or_Operation r)" or_Revision
  by unfold_locales (auto simp: PutOperation_Inr Let_def, (metis cloned_revision)+)


lemma revision_of_case:
  "(case current of None \<Rightarrow> 0 | Some c \<Rightarrow> unat (f c)) = unat (revision_of f current)"
  by (cases current) (simp_all add: revision_of_def)

subsection \<open>Examples\<close>

definition empty_view :: memory_view where
  "empty_view = \<lparr>mv_data = newMemoryData, mv_writable = True, mv_retention = DefaultRetentionPolicy,
     mv_closed = False\<rparr>"

definition intent_stored :: operation_record where
  "intent_stored = (OperationRecord_Clone create_intent)\<lparr>or_Revision := 1\<rparr>"

definition intent_view :: memory_view where
  "intent_view = empty_view\<lparr>mv_data := newMemoryData\<lparr>md_operations := [(''op-1'', intent_stored)]\<rparr>\<rparr>"

lemma intent_put: "PutOperation empty_view create_intent 0 = Inr (intent_view, intent_stored)"
proof -
  have "op_ID (or_Operation create_intent) = ''op-1''"
    by (simp add: create_intent_def create_record_def demo_operation_def)
  moreover have "new_identity_error empty_view ''op-1'' = None"
    by (simp add: new_identity_error_def empty_view_def newMemoryData_def retiredOperationFor_def
        effective_policy_def DefaultRetentionPolicy_def)
  moreover have "new_linux_error create_intent = None"
    by (simp add: new_linux_error_def create_intent_def create_record_def)
  moreover have "target_owner_error empty_view create_intent = None"
    by (simp add: target_owner_error_def empty_view_def newMemoryData_def Let_def)
  ultimately show ?thesis
    using create_intent_valid
    by (simp add: PutOperation_Inr Let_def ensureWritable_def ensureOpen_def intent_view_def intent_stored_def
        nextRevision_Inr)
      (simp add: empty_view_def newMemoryData_def)
qed

subsection \<open>Properties\<close>

text \<open>C36. No update is lost: after an accepted write of a record, a second write of the same record
  that expects the same revision is refused, whatever it contains, in each of the three tables.\<close>

theorem stale_write_rejected:
  "(PutSandbox v s e = Inr (v1, s1) \<and> sb_ID (sr_Sandbox s') = sb_ID (sr_Sandbox s)
      \<longrightarrow> (\<exists>err. PutSandbox v1 s' e = Inl err))
   \<and> (PutContainerAttempt v c e = Inr (v2, c1)
        \<and> co_ID (ca_Container (cr_ContainerAttempt c')) = co_ID (ca_Container (cr_ContainerAttempt c))
      \<longrightarrow> (\<exists>err. PutContainerAttempt v2 c' e = Inl err))
   \<and> (PutOperation v x e = Inr (v3, x1) \<and> op_ID (or_Operation x') = op_ID (or_Operation x)
      \<longrightarrow> (\<exists>err. PutOperation v3 x' e = Inl err))"
  using sandbox_table.stale_put container_table.stale_put operation_table.stale_put by blast

theorem stale_write_rejected_witness: "\<exists>err. PutOperation intent_view create_acquired 0 = Inl err"
proof -
  have "op_ID (or_Operation create_acquired) = op_ID (or_Operation create_intent)"
    by (simp add: create_acquired_def create_intent_def acquired_record_def create_record_def)
  then show ?thesis
    using stale_write_rejected [of empty_view undefined 0 undefined undefined undefined undefined undefined
        undefined undefined create_intent intent_view intent_stored create_acquired] intent_put by simp
qed

text \<open>C37. The revision of a record counts its accepted writes and never wraps: over any sequence of
  attempted writes it grows by the number that were accepted.\<close>

theorem revision_counts_writes:
  "unat (revision_of sr_Revision (map_of (md_sandboxes (mv_data (fst (accepted_writes PutSandbox v ss)))) i))
     = unat (revision_of sr_Revision (map_of (md_sandboxes (mv_data v)) i))
       + length (filter (\<lambda>r. sb_ID (sr_Sandbox r) = i) (snd (accepted_writes PutSandbox v ss)))
   \<and> unat (revision_of cr_Revision (map_of (md_containers (mv_data (fst (accepted_writes PutContainerAttempt v cs)))) i))
     = unat (revision_of cr_Revision (map_of (md_containers (mv_data v)) i))
       + length (filter (\<lambda>r. co_ID (ca_Container (cr_ContainerAttempt r)) = i)
           (snd (accepted_writes PutContainerAttempt v cs)))
   \<and> unat (revision_of or_Revision (map_of (md_operations (mv_data (fst (accepted_writes PutOperation v xs)))) i))
     = unat (revision_of or_Revision (map_of (md_operations (mv_data v)) i))
       + length (filter (\<lambda>r. op_ID (or_Operation r) = i) (snd (accepted_writes PutOperation v xs)))"
  using sandbox_table.revision_counts_from [OF prod.collapse [symmetric], of v ss i]
    container_table.revision_counts_from [OF prod.collapse [symmetric], of v cs i]
    operation_table.revision_counts_from [OF prod.collapse [symmetric], of v xs i]
  by (simp only: revision_of_case)

end
