(* ===== verification/State_Store.thy ===== *)
theory State_Store
  imports State_Memory
begin

text \<open>
  \<open>MemoryStore\<close> of \<open>internal/state/memory.go\<close>: views and updates run a callback against the store.
  The callback is arbitrary code, written as a resumption: it returns, or makes one call of the
  transaction interface and goes on with the answer. The mutex makes each \<open>Update\<close> one step, so the
  reachable stores are those that sequences of updates produce, whatever their callbacks do.
\<close>

subsection \<open>Callbacks\<close>

datatype tx_call =
    CGetSandbox sandbox_id
  | CListSandboxes
  | CGetContainerAttempt container_id
  | CListContainerAttempts sandbox_id
  | CGetOperation operation_id
  | CListOperations
  | CActiveOperation target
  | CEventsAfter u64 int
  | CPutSandbox sandbox_record revision
  | CDeleteSandbox sandbox_id revision
  | CPutContainerAttempt container_record revision
  | CDeleteContainerAttempt container_id revision
  | CPutOperation operation_record revision
  | CAppendEvent event

datatype tx_answer =
    ASandbox "st_error + sandbox_record"
  | ASandboxes "st_error + sandbox_record list"
  | AContainer "st_error + container_record"
  | AContainers "st_error + container_record list"
  | AOperation "st_error + operation_record"
  | AOperations "st_error + operation_record list"
  | AEvents "st_error + event list"
  | AEvent "st_error + event"
  | ADone "st_error option"

datatype tx_prog =
    Return "string option"
  | Call tx_call "tx_answer \<Rightarrow> tx_prog"

text \<open>A write that fails leaves the candidate as it is.\<close>

fun written :: "memory_view \<Rightarrow> ((st_error + 'a) \<Rightarrow> tx_answer) \<Rightarrow> st_error + memory_view \<times> 'a
    \<Rightarrow> memory_view \<times> tx_answer" where
  "written v answer (Inl e) = (v, answer (Inl e))"
| "written v answer (Inr (v', r)) = (v', answer (Inr r))"

fun deleted :: "memory_view \<Rightarrow> st_error + memory_view \<Rightarrow> memory_view \<times> tx_answer" where
  "deleted v (Inl e) = (v, ADone (Some e))"
| "deleted v (Inr v') = (v', ADone None)"

fun exec_call :: "memory_view \<Rightarrow> tx_call \<Rightarrow> memory_view \<times> tx_answer" where
  "exec_call v (CGetSandbox i) = (v, ASandbox (GetSandbox v i))"
| "exec_call v CListSandboxes = (v, ASandboxes (ListSandboxes v))"
| "exec_call v (CGetContainerAttempt i) = (v, AContainer (GetContainerAttempt v i))"
| "exec_call v (CListContainerAttempts i) = (v, AContainers (ListContainerAttempts v i))"
| "exec_call v (CGetOperation i) = (v, AOperation (GetOperation v i))"
| "exec_call v CListOperations = (v, AOperations (ListOperations v))"
| "exec_call v (CActiveOperation t) = (v, AOperation (ActiveOperation v t))"
| "exec_call v (CEventsAfter s n) = (v, AEvents (EventsAfter v s n))"
| "exec_call v (CPutSandbox r e) = written v ASandbox (PutSandbox v r e)"
| "exec_call v (CDeleteSandbox i e) = deleted v (DeleteSandbox v i e)"
| "exec_call v (CPutContainerAttempt r e) = written v AContainer (PutContainerAttempt v r e)"
| "exec_call v (CDeleteContainerAttempt i e) = deleted v (DeleteContainerAttempt v i e)"
| "exec_call v (CPutOperation r e) = written v AOperation (PutOperation v r e)"
| "exec_call v (CAppendEvent e) = written v AEvent (AppendEvent v e)"

primrec run_tx :: "tx_prog \<Rightarrow> memory_view \<Rightarrow> memory_view \<times> string option" where
  "run_tx (Return e) v = (v, e)"
| "run_tx (Call c k) v = (case exec_call v c of (v', a) \<Rightarrow> run_tx (k a) v')"

subsection \<open>The store\<close>

record memory_store =
  ms_data :: memory_data
  ms_retention :: retention_policy

definition NewMemoryStore :: memory_store where
  "NewMemoryStore = \<lparr>ms_data = newMemoryData, ms_retention = DefaultRetentionPolicy\<rparr>"

definition NewMemoryStoreWithRetention :: "retention_policy \<Rightarrow> st_error + memory_store" where
  "NewMemoryStoreWithRetention p =
    require (RetentionPolicy_Validate p) (Inr \<lparr>ms_data = newMemoryData, ms_retention = p\<rparr>)"

definition store_view :: "memory_store \<Rightarrow> bool \<Rightarrow> memory_data \<Rightarrow> memory_view" where
  "store_view s rw d =
    \<lparr>mv_data = d, mv_writable = rw, mv_retention = ms_retention s, mv_closed = False\<rparr>"

text \<open>\<open>cancelled\<close> says what \<open>ctx.Err()\<close> finds before the callback, \<open>cancelled_after\<close> what it finds
  once the callback has returned; a nil callback is \<open>None\<close>.\<close>

definition Store_View :: "memory_store \<Rightarrow> bool \<Rightarrow> tx_prog option \<Rightarrow> st_error option" where
  "Store_View s cancelled fn =
    (case fn of
       None \<Rightarrow> Some ErrNilCallback
     | Some p \<Rightarrow>
       if cancelled then Some ErrContext
       else map_option ErrCallback (snd (run_tx p (store_view s False (ms_data s)))))"

definition commit :: "retention_policy \<Rightarrow> memory_data \<Rightarrow> st_error + memory_data" where
  "commit p candidate =
    bind_res (applyRetention p candidate) (\<lambda>(d, _). require (data_validate d) (Inr d))"

definition Store_Update :: "memory_store \<Rightarrow> bool \<Rightarrow> bool \<Rightarrow> tx_prog option
    \<Rightarrow> memory_store \<times> st_error option" where
  "Store_Update s cancelled cancelled_after fn =
    (case fn of
       None \<Rightarrow> (s, Some ErrNilCallback)
     | Some p \<Rightarrow>
       if cancelled then (s, Some ErrContext)
       else (case run_tx p (store_view s True (data_clone (ms_data s))) of
          (v, Some e) \<Rightarrow> (s, Some (ErrCallback e))
        | (v, None) \<Rightarrow>
          if cancelled_after then (s, Some ErrContext)
          else (case commit (ms_retention s) (mv_data v) of
             Inl e \<Rightarrow> (s, Some e)
           | Inr d \<Rightarrow> (s\<lparr>ms_data := d\<rparr>, None))))"

inductive store_reachable :: "memory_store \<Rightarrow> bool" where
  new_store: "NewMemoryStoreWithRetention p = Inr s \<Longrightarrow> store_reachable s"
| update: "store_reachable s \<Longrightarrow> store_reachable (fst (Store_Update s c1 c2 fn))"

lemma NewMemoryStore_reachable: "store_reachable NewMemoryStore"
  by (rule new_store [of DefaultRetentionPolicy])
    (simp add: NewMemoryStoreWithRetention_def NewMemoryStore_def RetentionPolicy_Validate_def
      DefaultRetentionPolicy_def)

subsection \<open>Invariants of the candidate\<close>

text \<open>A property of the data that every write and the commit keep is kept by every update, whatever the
  callback does; if the new store has it, every reachable store has it.\<close>

locale stable_property =
  fixes I :: "memory_data \<Rightarrow> bool"
  assumes put_sandbox: "I (mv_data v) \<Longrightarrow> PutSandbox v s e = Inr (v', s') \<Longrightarrow> I (mv_data v')"
    and delete_sandbox: "I (mv_data v) \<Longrightarrow> DeleteSandbox v i e = Inr v' \<Longrightarrow> I (mv_data v')"
    and put_container: "I (mv_data v) \<Longrightarrow> PutContainerAttempt v c e = Inr (v', c') \<Longrightarrow> I (mv_data v')"
    and delete_container: "I (mv_data v) \<Longrightarrow> DeleteContainerAttempt v i e = Inr v' \<Longrightarrow> I (mv_data v')"
    and put_operation: "I (mv_data v) \<Longrightarrow> PutOperation v x e = Inr (v', x') \<Longrightarrow> I (mv_data v')"
    and append_event: "I (mv_data v) \<Longrightarrow> AppendEvent v ev = Inr (v', ev') \<Longrightarrow> I (mv_data v')"
    and clone: "I d \<Longrightarrow> I (data_clone d)"
    and retain: "I d \<Longrightarrow> applyRetention p d = Inr (d', changed) \<Longrightarrow> I d'"
begin

lemma exec_keeps: "I (mv_data v) \<Longrightarrow> I (mv_data (fst (exec_call v c)))"
proof (cases c)
  case (CPutSandbox r e)
  then show "I (mv_data v) \<Longrightarrow> ?thesis"
    using put_sandbox by (cases "PutSandbox v r e") auto
next
  case (CDeleteSandbox i e)
  then show "I (mv_data v) \<Longrightarrow> ?thesis"
    using delete_sandbox by (cases "DeleteSandbox v i e") auto
next
  case (CPutContainerAttempt r e)
  then show "I (mv_data v) \<Longrightarrow> ?thesis"
    using put_container by (cases "PutContainerAttempt v r e") auto
next
  case (CDeleteContainerAttempt i e)
  then show "I (mv_data v) \<Longrightarrow> ?thesis"
    using delete_container by (cases "DeleteContainerAttempt v i e") auto
next
  case (CPutOperation r e)
  then show "I (mv_data v) \<Longrightarrow> ?thesis"
    using put_operation by (cases "PutOperation v r e") auto
next
  case (CAppendEvent e)
  then show "I (mv_data v) \<Longrightarrow> ?thesis"
    using append_event by (cases "AppendEvent v e") auto
qed simp_all

lemma run_keeps: "I (mv_data v) \<Longrightarrow> I (mv_data (fst (run_tx p v)))"
proof (induction p arbitrary: v)
  case (Call c k)
  obtain v' a where "exec_call v c = (v', a)" by (cases "exec_call v c")
  then show ?case using Call exec_keeps [of v c] by auto
qed simp

lemma update_keeps:
  assumes "I (ms_data s)"
  shows "I (ms_data (fst (Store_Update s c1 c2 fn)))"
proof (cases fn)
  case (Some p)
  let ?v = "store_view s True (data_clone (ms_data s))"
  obtain v e where run: "run_tx p ?v = (v, e)" by (cases "run_tx p ?v")
  have "I (mv_data v)"
    using run_keeps [of ?v p] clone [OF assms] run by (simp add: store_view_def)
  then have "I d" if "commit (ms_retention s) (mv_data v) = Inr d" for d
    using that retain by (auto simp: commit_def)
  then show ?thesis
    using assms by (auto simp: Store_Update_def Some run split: option.split sum.split)
qed (simp add: Store_Update_def assms)

end

locale data_invariant = stable_property +
  assumes new_data: "I newMemoryData"
begin

lemma reachable: "store_reachable s \<Longrightarrow> I (ms_data s)"
proof (induction rule: store_reachable.induct)
  case (new_store p s)
  then show ?case using new_data by (auto simp: NewMemoryStoreWithRetention_def)
qed (rule update_keeps)

end

end
