(* ===== verification/State_Retention.thy ===== *)
theory State_Retention
  imports State_Data
begin

text \<open>
  What \<open>applyRetention\<close> (\<open>internal/state/retention.go\<close>) does to a candidate: orders are assigned,
  the oldest unpinned terminal operations beyond the replay window become tombstones, and a
  suffix of the events is kept.
\<close>

subsection \<open>Orders\<close>

lemma missing_orders_Inr:
  "missing_orders t rs = Inr ms \<Longrightarrow>
     ms = map fst (filter (\<lambda>(i, r). State_Terminal (op_State (or_Operation r))
       \<and> (map_of t i = None \<or> map_of t i = Some 0)) rs)
     \<and> list_all (\<lambda>(i, r). State_Terminal (op_State (or_Operation r)) \<or> map_of t i = None) rs"
proof (induction rs arbitrary: ms)
  case (Cons x rs)
  then show ?case by (cases x) (auto split: if_splits)
qed simp

lemma assign_orders_Inr:
  assumes "assign_orders n t is = Inr (n', t')"
  shows "wf_table t \<Longrightarrow> wf_table t'"
    and "i \<notin> set is \<Longrightarrow> map_of t' i = map_of t i"
    and "i \<in> set is \<Longrightarrow> map_of t' i \<noteq> None"
    and "unat n' = unat n + length is"
  using assms
proof (induction "is" arbitrary: n t)
  case (Cons j js)
  { case 1 then show ?case using Cons.IH(1) [of "AList.update j (n + 1) t" "n + 1"] by (auto split: if_splits) }
  { case 2 then show ?case using Cons.IH(2) by (auto split: if_splits) }
  { case 3
    then show ?case
      using Cons.IH(2,3) by (cases "i \<in> set js") (auto split: if_splits simp: map_of_update) }
  { case 4
    then have "n \<noteq> -1" and "assign_orders (n + 1) (AList.update j (n + 1) t) js = Inr (n', t')"
      by (auto split: if_splits)
    then show ?case
      using Cons.IH(4) unat_succ [of n] by simp }
qed simp_all

lemma assignTerminalSequences_frame:
  assumes "assignTerminalSequences d = Inr (d', c)"
  shows "md_sandboxes d' = md_sandboxes d" and "md_containers d' = md_containers d"
    and "md_operations d' = md_operations d" and "md_events d' = md_events d"
    and "md_lastEvent d' = md_lastEvent d" and "md_firstEvent d' = md_firstEvent d"
    and "md_retired d' = md_retired d" and "wf_table (md_terminal d) \<Longrightarrow> wf_table (md_terminal d')"
  using assms
  by (auto simp: assignTerminalSequences_def split: if_splits dest: assign_orders_Inr(1))

lemma ensureRetentionMaps_frame [simp]:
  "md_sandboxes (ensureRetentionMaps d) = md_sandboxes d"
  "md_containers (ensureRetentionMaps d) = md_containers d"
  "md_operations (ensureRetentionMaps d) = md_operations d"
  "md_events (ensureRetentionMaps d) = md_events d"
  "md_lastEvent (ensureRetentionMaps d) = md_lastEvent d"
  "md_terminal (ensureRetentionMaps d) = md_terminal d"
  "md_lastTerminal (ensureRetentionMaps d) = md_lastTerminal d"
  "md_retired (ensureRetentionMaps d) = md_retired d"
  by (simp_all add: ensureRetentionMaps_def)

subsection \<open>Retirement\<close>

lemma retirable_Inr:
  "retirable d pinned ts = Inr cs \<Longrightarrow>
     cs = filter (\<lambda>(i, n). i \<notin> set pinned) ts
     \<and> list_all (\<lambda>(i, n). n \<noteq> 0 \<and> (\<exists>r. map_of (md_operations d) i = Some r
          \<and> State_Terminal (op_State (or_Operation r)))) ts"
proof (induction ts arbitrary: cs)
  case (Cons x ts)
  then show ?case by (cases x) (auto split: if_splits option.splits)
qed simp

lemma retire_one_Inr:
  "retire_one d (i, n) = Inr d' \<longleftrightarrow>
     (\<exists>r. map_of (md_operations d) i = Some r \<and> map_of (md_retired d) (operationIDDigest i) = None
       \<and> d' = d\<lparr>md_retired := AList.update (operationIDDigest i) (tombstone d i n (or_Operation r)) (md_retired d),
                md_operations := AList.delete i (md_operations d),
                md_terminal := AList.delete i (md_terminal d)\<rparr>)"
  by (auto simp: retire_one_def split: option.split)

lemma retire_all_frame:
  assumes "retire_all d cs = Inr d'"
  shows "md_sandboxes d' = md_sandboxes d" and "md_containers d' = md_containers d"
    and "md_events d' = md_events d" and "md_lastEvent d' = md_lastEvent d"
    and "md_firstEvent d' = md_firstEvent d" and "md_lastTerminal d' = md_lastTerminal d"
  using assms
proof (induction cs arbitrary: d)
  case (Cons c cs)
  obtain i n where c: "c = (i, n)" by (cases c)
  { case 1 then show ?case using Cons.IH(1) c by (force simp: retire_one_Inr) }
  { case 2 then show ?case using Cons.IH(2) c by (force simp: retire_one_Inr) }
  { case 3 then show ?case using Cons.IH(3) c by (force simp: retire_one_Inr) }
  { case 4 then show ?case using Cons.IH(4) c by (force simp: retire_one_Inr) }
  { case 5 then show ?case using Cons.IH(5) c by (force simp: retire_one_Inr) }
  { case 6 then show ?case using Cons.IH(6) c by (force simp: retire_one_Inr) }
qed simp_all

lemma retire_all_wf:
  assumes "retire_all d cs = Inr d'"
  shows "(wf_table (md_operations d) \<longrightarrow> wf_table (md_operations d'))
    \<and> (wf_table (md_terminal d) \<longrightarrow> wf_table (md_terminal d'))
    \<and> (wf_table (md_retired d) \<longrightarrow> wf_table (md_retired d'))"
  using assms
proof (induction cs arbitrary: d)
  case (Cons c cs)
  obtain i n where c: "c = (i, n)" by (cases c)
  with Cons.prems obtain d1 where d1: "retire_one d (i, n) = Inr d1" "retire_all d1 cs = Inr d'"
    by auto
  show ?case using Cons.IH [OF d1(2)] d1(1) by (auto simp: retire_one_Inr)
qed simp

lemma retire_all_operations:
  assumes "retire_all d cs = Inr d'"
  shows "map_of (md_operations d') = (map_of (md_operations d)) |` (- fst ` set cs)"
  using assms
proof (induction cs arbitrary: d)
  case (Cons c cs)
  obtain i n where c: "c = (i, n)" by (cases c)
  with Cons obtain d1 where "retire_one d (i, n) = Inr d1" "retire_all d1 cs = Inr d'"
    by auto
  then show ?case
    using Cons.IH [of d1] c by (auto simp: retire_one_Inr restrict_map_def fun_eq_iff)
qed (simp add: restrict_map_def)

lemma retire_all_retired_mono:
  assumes "retire_all d cs = Inr d'" and "map_of (md_retired d) k = Some r"
  shows "map_of (md_retired d') k = Some r"
  using assms
proof (induction cs arbitrary: d)
  case (Cons c cs)
  obtain i n where c: "c = (i, n)" by (cases c)
  with Cons.prems obtain d1 where "retire_one d (i, n) = Inr d1" "retire_all d1 cs = Inr d'"
    by auto
  moreover from this have "map_of (md_retired d1) k = Some r"
    using Cons.prems(2) by (auto simp: retire_one_Inr)
  ultimately show ?case using Cons.IH by blast
qed simp

lemma retire_all_tombstones:
  assumes "retire_all d cs = Inr d'" and "(i, n) \<in> set cs"
  shows "\<exists>r. map_of (md_operations d) i = Some r
    \<and> map_of (md_retired d') (operationIDDigest i) = Some (tombstone d i n (or_Operation r))"
  using assms
proof (induction cs arbitrary: d)
  case (Cons c cs)
  obtain j m where c: "c = (j, m)" by (cases c)
  with Cons.prems obtain d1 where d1: "retire_one d (j, m) = Inr d1" "retire_all d1 cs = Inr d'"
    by auto
  show ?case
  proof (cases "(i, n) \<in> set cs")
    case True
    have "tombstone d1 i n x = tombstone d i n x" for x
      using d1(1) by (auto simp: retire_one_Inr tombstone_def lastEventForOperation_def)
    moreover obtain r where "map_of (md_operations d1) i = Some r"
      "map_of (md_retired d') (operationIDDigest i) = Some (tombstone d1 i n (or_Operation r))"
      using Cons.IH [OF d1(2) True] by blast
    ultimately show ?thesis
      using d1(1) by (auto simp: retire_one_Inr split: if_splits)
  next
    case False
    then have "i = j" "n = m" using Cons.prems(2) c by auto
    then show ?thesis
      using d1 retire_all_retired_mono [OF d1(2)] by (auto simp: retire_one_Inr)
  qed
qed simp

lemma length_delete:
  "wf_table t \<Longrightarrow> map_of t k = Some v \<Longrightarrow> Suc (length (AList.delete k t)) = length t"
proof (induction t)
  case (Cons x t)
  then show ?case
    by (cases x) (auto simp: wf_table_def split: if_splits)
qed simp

lemma retire_all_count:
  assumes "retire_all d cs = Inr d'" and "wf_table (md_operations d)"
  shows "length (md_operations d') + length (md_retired d') = length (md_operations d) + length (md_retired d)"
  using assms
proof (induction cs arbitrary: d)
  case (Cons c cs)
  obtain i n where c: "c = (i, n)" by (cases c)
  with Cons.prems obtain d1 where d1: "retire_one d (i, n) = Inr d1" "retire_all d1 cs = Inr d'"
    by auto
  then have "wf_table (md_operations d1)"
    and "length (md_operations d1) + length (md_retired d1) = length (md_operations d) + length (md_retired d)"
    using Cons.prems(2) length_delete by (fastforce simp: retire_one_Inr length_update_new)+
  with Cons.IH [OF d1(2)] show ?case by simp
qed simp

subsection \<open>Events\<close>

lemma trim_events_frame:
  "md_sandboxes (fst (trim_events p d)) = md_sandboxes d"
  "md_containers (fst (trim_events p d)) = md_containers d"
  "md_operations (fst (trim_events p d)) = md_operations d"
  "md_lastEvent (fst (trim_events p d)) = md_lastEvent d"
  "md_terminal (fst (trim_events p d)) = md_terminal d"
  "md_lastTerminal (fst (trim_events p d)) = md_lastTerminal d"
  "md_retired (fst (trim_events p d)) = md_retired d"
  by (simp_all add: trim_events_def Let_def)

lemma trim_events_events:
  "md_events (fst (trim_events p d)) = drop (length (md_events d) - nat (EventLimit p)) (md_events d)
   \<or> md_events (fst (trim_events p d)) = md_events d \<and> int (length (md_events d)) \<le> EventLimit p"
  by (simp add: trim_events_def Let_def)

lemma nextAvailable_frame [simp]:
  "nextAvailableEventSequence (d\<lparr>md_firstEvent := x\<rparr>) = nextAvailableEventSequence d"
  by (simp add: nextAvailableEventSequence_def split: list.split sum.split)

lemma trim_events_first:
  "md_firstEvent (fst (trim_events p d)) = nextAvailableEventSequence (fst (trim_events p d))"
  by (simp add: trim_events_def Let_def)


subsection \<open>The whole pass\<close>

lemma applyRetention_Inr:
  assumes "applyRetention p d = Inr (d', changed)"
  obtains d1 c ts d2 where "RetentionPolicy_Validate p = None"
    and "assignTerminalSequences (ensureRetentionMaps d) = Inr (d1, c)"
    and "int (length (md_operations d1) + length (md_retired d1)) \<le> OperationIdentityLimit p"
    and "retirable d1 (liveInventoryOwnerOperations d1) (md_terminal d1) = Inr ts"
    and "retire_all d1 (retired_first p ts) = Inr d2"
    and "d' = fst (trim_events p d2)"
proof -
  from assms obtain d1 c where a: "RetentionPolicy_Validate p = None"
    "assignTerminalSequences (ensureRetentionMaps d) = Inr (d1, c)" "retain_ordered p d1 c = Inr (d', changed)"
    by (auto simp: applyRetention_def)
  from a(3) have count: "int (length (md_operations d1) + length (md_retired d1)) \<le> OperationIdentityLimit p"
    unfolding retain_ordered_def require_Inr reject_None by linarith
  from a(3) obtain ts where ts: "retirable d1 (liveInventoryOwnerOperations d1) (md_terminal d1) = Inr ts"
    and "bind_res (retire_all d1 (retired_first p ts)) (\<lambda>d2.
         Inr (fst (trim_events p d2), c \<or> retired_first p ts \<noteq> [] \<or> snd (trim_events p d2))) = Inr (d', changed)"
    unfolding retain_ordered_def require_Inr bind_res_Inr by blast
  then obtain d2 where d2: "retire_all d1 (retired_first p ts) = Inr d2" "d' = fst (trim_events p d2)"
    by (auto simp: bind_res_Inr)
  show thesis by (rule that [OF a(1,2) count ts d2])
qed

lemma live_owners_cong:
  "md_sandboxes d = md_sandboxes e \<Longrightarrow> md_containers d = md_containers e \<Longrightarrow>
     liveInventoryOwnerOperations d = liveInventoryOwnerOperations e"
  by (simp add: liveInventoryOwnerOperations_def)

text \<open>What stays and what goes, for a candidate whose tables have distinct keys.\<close>

lemma applyRetention_frame:
  assumes "applyRetention p d = Inr (d', changed)"
  shows "md_sandboxes d' = md_sandboxes d" and "md_containers d' = md_containers d"
    and "md_lastEvent d' = md_lastEvent d"
    and "liveInventoryOwnerOperations d' = liveInventoryOwnerOperations d"
    and "md_firstEvent d' = nextAvailableEventSequence d'"
    and "\<exists>n. md_events d' = drop n (md_events d)" and "int (length (md_events d')) \<le> EventLimit p"
    and "md_events d \<noteq> [] \<Longrightarrow> md_events d' \<noteq> []"
proof -
  from assms obtain d1 c ts d2 where s: "RetentionPolicy_Validate p = None"
    "assignTerminalSequences (ensureRetentionMaps d) = Inr (d1, c)"
    "retire_all d1 (retired_first p ts) = Inr d2" "d' = fst (trim_events p d2)"
    by (rule applyRetention_Inr)
  note f = assignTerminalSequences_frame [OF s(2)] retire_all_frame [OF s(3)]
  show "md_sandboxes d' = md_sandboxes d" "md_containers d' = md_containers d"
    "md_lastEvent d' = md_lastEvent d"
    using f by (simp_all add: s(4) trim_events_frame)
  then show "liveInventoryOwnerOperations d' = liveInventoryOwnerOperations d"
    by (intro live_owners_cong)
  show "md_firstEvent d' = nextAvailableEventSequence d'"
    by (simp add: s(4) trim_events_first)
  have ev: "md_events d2 = md_events d" and pos: "0 < EventLimit p"
    using f s(1) by (simp_all add: RetentionPolicy_Validate_def)
  show "\<exists>n. md_events d' = drop n (md_events d)"
    using trim_events_events [of p d2] unfolding s(4) ev by (metis drop0)
  show "int (length (md_events d')) \<le> EventLimit p"
    using trim_events_events [of p d2] pos unfolding s(4) ev by auto
  have "length (md_events d) - nat (EventLimit p) < length (md_events d)" if "md_events d \<noteq> []"
    using that pos by (intro diff_less) simp_all
  then show "md_events d \<noteq> [] \<Longrightarrow> md_events d' \<noteq> []"
    using trim_events_events [of p d2] unfolding s(4) ev by (auto simp del: drop_eq_Nil) (simp add: not_le)
qed

lemma retired_first_subset: "set (retired_first p ts) \<subseteq> set ts"
  using set_take_subset [of _ "sort_key (\<lambda>(i, n). (n, i)) ts"] by (auto simp: retired_first_def)

lemma applyRetention_operations:
  assumes "applyRetention p d = Inr (d', changed)"
  obtains gone where "map_of (md_operations d') = (map_of (md_operations d)) |` (- gone)"
    and "\<forall>i \<in> gone. \<exists>r n. map_of (md_operations d) i = Some r \<and> State_Terminal (op_State (or_Operation r))
       \<and> i \<notin> set (liveInventoryOwnerOperations d) \<and> n \<noteq> 0
       \<and> map_of (md_retired d') (operationIDDigest i) = Some (tombstone d i n (or_Operation r))"
    and "\<forall>k r. map_of (md_retired d) k = Some r \<longrightarrow> map_of (md_retired d') k = Some r"
proof -
  from assms obtain d1 c ts d2 where s:
    "assignTerminalSequences (ensureRetentionMaps d) = Inr (d1, c)"
    "retirable d1 (liveInventoryOwnerOperations d1) (md_terminal d1) = Inr ts"
    "retire_all d1 (retired_first p ts) = Inr d2" "d' = fst (trim_events p d2)"
    by (rule applyRetention_Inr)
  note f = assignTerminalSequences_frame [OF s(1)]
  have live: "liveInventoryOwnerOperations d1 = liveInventoryOwnerOperations d"
    using f by (intro live_owners_cong) simp_all
  have stone: "tombstone d1 i n x = tombstone d i n x" for i n x
    using f by (simp add: tombstone_def lastEventForOperation_def)
  let ?gone = "fst ` set (retired_first p ts)"
  show thesis
  proof (rule that [of ?gone])
    show "map_of (md_operations d') = (map_of (md_operations d)) |` (- ?gone)"
      using retire_all_operations [OF s(3)] f by (simp add: s(4) trim_events_frame)
    show "\<forall>k r. map_of (md_retired d) k = Some r \<longrightarrow> map_of (md_retired d') k = Some r"
      using retire_all_retired_mono [OF s(3)] f by (simp add: s(4) trim_events_frame)
    show "\<forall>i \<in> ?gone. \<exists>r n. map_of (md_operations d) i = Some r \<and> State_Terminal (op_State (or_Operation r))
       \<and> i \<notin> set (liveInventoryOwnerOperations d) \<and> n \<noteq> 0
       \<and> map_of (md_retired d') (operationIDDigest i) = Some (tombstone d i n (or_Operation r))"
    proof clarsimp
      fix i n assume "(i, n) \<in> set (retired_first p ts)"
      moreover from this have "(i, n) \<in> set ts" using retired_first_subset by blast
      ultimately show "\<exists>r. map_of (md_operations d) i = Some r \<and> State_Terminal (op_State (or_Operation r))
       \<and> i \<notin> set (liveInventoryOwnerOperations d) \<and> (\<exists>n. n \<noteq> 0
       \<and> map_of (md_retired d') (operationIDDigest i) = Some (tombstone d i n (or_Operation r)))"
        using retire_all_tombstones [OF s(3)] retirable_Inr [OF s(2)] f(3)
        by (fastforce simp: live stone s(4) trim_events_frame list_all_iff)
    qed
  qed
qed

lemma applyRetention_count:
  assumes "applyRetention p d = Inr (d', changed)" and "wf_table (md_operations d)"
  shows "int (length (md_operations d') + length (md_retired d')) \<le> OperationIdentityLimit p"
proof -
  from assms(1) obtain d1 c ts d2 where s:
    "assignTerminalSequences (ensureRetentionMaps d) = Inr (d1, c)"
    "int (length (md_operations d1) + length (md_retired d1)) \<le> OperationIdentityLimit p"
    "retire_all d1 (retired_first p ts) = Inr d2" "d' = fst (trim_events p d2)"
    by (rule applyRetention_Inr)
  have "wf_table (md_operations d1)"
    using assms(2) assignTerminalSequences_frame(3) [OF s(1)] by simp
  then show ?thesis
    using retire_all_count [OF s(3)] s(2) by (simp add: s(4) trim_events_frame)
qed


lemma applyRetention_wf:
  assumes "applyRetention p d = Inr (d', changed)" and "wf_table (md_operations d)"
  shows "wf_table (md_operations d')"
proof -
  from assms(1) obtain d1 c ts d2 where s:
    "assignTerminalSequences (ensureRetentionMaps d) = Inr (d1, c)"
    "retire_all d1 (retired_first p ts) = Inr d2" "d' = fst (trim_events p d2)"
    by (rule applyRetention_Inr)
  then show ?thesis
    using assms(2) assignTerminalSequences_frame(3) [OF s(1)] retire_all_wf [OF s(2)]
    by (simp add: trim_events_frame)
qed

subsection \<open>The replay window\<close>

lemma retire_all_terminal:
  assumes "retire_all d cs = Inr d'"
  shows "md_terminal d' = filter (\<lambda>(i, n). i \<notin> fst ` set cs) (md_terminal d)"
  using assms
proof (induction cs arbitrary: d)
  case (Cons c cs)
  obtain i n where c: "c = (i, n)" by (cases c)
  with Cons.prems obtain d1 where d1: "retire_one d (i, n) = Inr d1" "retire_all d1 cs = Inr d'"
    by auto
  then have "md_terminal d1 = filter (\<lambda>(k, _). i \<noteq> k) (md_terminal d)"
    by (auto simp: retire_one_Inr AList.delete_eq)
  then show ?case
    unfolding Cons.IH [OF d1(2)] by (simp add: c) (rule filter_cong, auto)
qed (simp add: case_prod_beta')

text \<open>The terminal operations of a candidate that no live inventory pins.\<close>

definition unpinned_terminal :: "memory_data \<Rightarrow> (operation_id \<times> u64) list" where
  "unpinned_terminal d = filter (\<lambda>(i, n). i \<notin> set (liveInventoryOwnerOperations d)) (md_terminal d)"

lemma sorted_split:
  assumes "sorted (map f (xs @ ys))" and "x \<in> set xs" and "y \<in> set ys"
  shows "f x \<le> f y"
  using assms by (auto simp: sorted_append)

lemma applyRetention_window:
  assumes "applyRetention p d = Inr (d', changed)" and "wf_table (md_terminal d)"
  shows "int (length (unpinned_terminal d')) \<le> TerminalOperationLimit p"
    and "map_of (md_operations d) i = Some r \<Longrightarrow> map_of (md_operations d') i = None \<Longrightarrow>
      map_of (md_retired d') (operationIDDigest i) = Some old \<Longrightarrow> (j, m) \<in> set (unpinned_terminal d')
      \<Longrightarrow> re_TerminalSequence old \<le> m"
proof -
  from assms(1) obtain d1 c ts d2 where s: "RetentionPolicy_Validate p = None"
    "assignTerminalSequences (ensureRetentionMaps d) = Inr (d1, c)"
    "retirable d1 (liveInventoryOwnerOperations d1) (md_terminal d1) = Inr ts"
    "retire_all d1 (retired_first p ts) = Inr d2" "d' = fst (trim_events p d2)"
    by (rule applyRetention_Inr)
  note f = assignTerminalSequences_frame [OF s(2)]
  let ?sorted = "sort_key (\<lambda>(i, n). (n, i)) ts"
  let ?k = "nat (int (length ts) - TerminalOperationLimit p)"
  have live: "liveInventoryOwnerOperations d1 = liveInventoryOwnerOperations d'"
    using f applyRetention_frame(1,2) [OF assms(1)] by (intro live_owners_cong) simp_all
  have ts: "ts = filter (\<lambda>(i, n). i \<notin> set (liveInventoryOwnerOperations d')) (md_terminal d1)"
    using retirable_Inr [OF s(3)] by (simp add: live)
  have dist: "distinct (map fst ts)"
    using f(8) assms(2) by (simp add: ts wf_table_def distinct_map_filter)
  have left: "unpinned_terminal d' = filter (\<lambda>(i, n). i \<notin> fst ` set (retired_first p ts)) ts"
    unfolding unpinned_terminal_def s(5) trim_events_frame retire_all_terminal [OF s(4)] ts
    by (auto simp: live [unfolded s(5)] intro!: filter_cong)
  have rest: "(j, m) \<in> set (drop ?k ?sorted)" if "(j, m) \<in> set (unpinned_terminal d')" for j m
  proof -
    have "(j, m) \<in> set ts" and "(j, m) \<notin> set (take ?k ?sorted)"
      using that unfolding left retired_first_def by force+
    moreover have "set ts = set (take ?k ?sorted) \<union> set (drop ?k ?sorted)"
      by (metis append_take_drop_id set_append set_sort)
    ultimately show ?thesis by blast
  qed
  have "distinct (unpinned_terminal d')"
    using dist unfolding left by (simp add: distinct_map)
  then have "length (unpinned_terminal d') = card (set (unpinned_terminal d'))"
    by (simp only: distinct_card)
  also have "\<dots> \<le> card (set (drop ?k ?sorted))"
    by (rule card_mono) (use rest in auto)
  also have "\<dots> \<le> length (drop ?k ?sorted)"
    by (rule card_length)
  finally have "length (unpinned_terminal d') \<le> length (drop ?k ?sorted)" .
  then show "int (length (unpinned_terminal d')) \<le> TerminalOperationLimit p"
    using s(1) by (simp add: RetentionPolicy_Validate_def) linarith
  assume gone: "map_of (md_operations d) i = Some r" "map_of (md_operations d') i = None"
    and old: "map_of (md_retired d') (operationIDDigest i) = Some old"
    and kept: "(j, m) \<in> set (unpinned_terminal d')"
  have "i \<in> fst ` set (retired_first p ts)"
    using gone retire_all_operations [OF s(4)] f(3)
    by (auto simp: s(5) trim_events_frame restrict_map_def split: if_splits)
  then obtain n where n: "(i, n) \<in> set (retired_first p ts)" by auto
  then have "re_TerminalSequence old = n"
    using retire_all_tombstones [OF s(4) n] old by (auto simp: s(5) trim_events_frame tombstone_def)
  moreover have "(\<lambda>(i, n). (n, i)) (i, n) \<le> (\<lambda>(i, n). (n, i)) (j, m)"
    by (rule sorted_split [of _ "take ?k ?sorted" "drop ?k ?sorted"])
      (use n rest [OF kept] in \<open>auto simp: retired_first_def\<close>)
  ultimately show "re_TerminalSequence old \<le> m"
    by (auto simp: less_eq_prod_def)
qed


subsection \<open>Properties\<close>

text \<open>C38. Retention is bounded and never forgets: the identities and events it keeps fit the policy, the
  events are a suffix of those before, at most the replay window of unpinned terminal operations
  stays, and an operation that goes is terminal and unpinned, leaves a tombstone with its binding
  and is no younger than any unpinned terminal operation that stays. All others stay as they
  are.\<close>

theorem retention_correct:
  assumes "applyRetention p d = Inr (d', changed)"
    and "wf_table (md_operations d)" and "wf_table (md_terminal d)"
  shows "int (length (md_operations d') + length (md_retired d')) \<le> OperationIdentityLimit p
    \<and> int (length (md_events d')) \<le> EventLimit p \<and> suffix (md_events d') (md_events d)
    \<and> int (length (unpinned_terminal d')) \<le> TerminalOperationLimit p
    \<and> (\<forall>i r. map_of (md_operations d) i = Some r \<longrightarrow>
         map_of (md_operations d') i = Some r
         \<or> State_Terminal (op_State (or_Operation r)) \<and> i \<notin> set (liveInventoryOwnerOperations d)
           \<and> (\<exists>old. map_of (md_retired d') (operationIDDigest i) = Some old
              \<and> re_Type old = op_Type (or_Operation r) \<and> re_Target old = op_Target (or_Operation r)
              \<and> re_Fingerprint old = op_Fingerprint (or_Operation r)
              \<and> list_all (\<lambda>(j, m). re_TerminalSequence old \<le> m) (unpinned_terminal d')))"
proof -
  note w = applyRetention_window [OF assms(1,3)]
  have gone: "map_of (md_operations d') i = Some r
         \<or> State_Terminal (op_State (or_Operation r)) \<and> i \<notin> set (liveInventoryOwnerOperations d)
           \<and> (\<exists>old. map_of (md_retired d') (operationIDDigest i) = Some old
              \<and> re_Type old = op_Type (or_Operation r) \<and> re_Target old = op_Target (or_Operation r)
              \<and> re_Fingerprint old = op_Fingerprint (or_Operation r)
              \<and> list_all (\<lambda>(j, m). re_TerminalSequence old \<le> m) (unpinned_terminal d'))"
    if i: "map_of (md_operations d) i = Some r" for i r
  proof -
    obtain gone where ops: "map_of (md_operations d') = (map_of (md_operations d)) |` (- gone)"
      and each: "\<forall>i \<in> gone. \<exists>r n. map_of (md_operations d) i = Some r \<and> State_Terminal (op_State (or_Operation r))
       \<and> i \<notin> set (liveInventoryOwnerOperations d) \<and> n \<noteq> 0
       \<and> map_of (md_retired d') (operationIDDigest i) = Some (tombstone d i n (or_Operation r))"
      by (rule applyRetention_operations [OF assms(1)])
    show ?thesis
    proof (cases "i \<in> gone")
      case True
      then obtain n where n: "State_Terminal (op_State (or_Operation r))"
          "i \<notin> set (liveInventoryOwnerOperations d)"
          "map_of (md_retired d') (operationIDDigest i) = Some (tombstone d i n (or_Operation r))"
        using each i by auto
      moreover have "map_of (md_operations d') i = None"
        using ops True by simp
      ultimately show ?thesis
        using w(2) [OF i _ n(3)] by (auto simp: list_all_iff tombstone_def)
    qed (use ops i in simp)
  qed
  show ?thesis
    using applyRetention_count [OF assms(1,2)] applyRetention_frame(6,7) [OF assms(1)] w(1) gone
    by (auto simp: suffix_drop)
qed

text \<open>Two terminal operations and a replay window of one.\<close>

definition small_policy :: retention_policy where
  "small_policy = \<lparr>TerminalOperationLimit = 1, OperationIdentityLimit = 2, EventLimit = 1\<rparr>"

definition two_terminal :: memory_data where
  "two_terminal = newMemoryData\<lparr>md_operations := [(''op-1'', start_done), (''op-2'', start_replayable)],
     md_terminal := [(''op-1'', 1), (''op-2'', 2)], md_lastTerminal := 2\<rparr>"

lemma two_terminal_retained:
  "\<exists>d'. applyRetention small_policy two_terminal = Inr (d', True) \<and> map_of (md_operations d') ''op-1'' = None"
proof -
  have terminal: "State_Terminal (op_State (or_Operation start_done))"
    "State_Terminal (op_State (or_Operation start_replayable))"
    by (simp_all add: start_replayable_def start_done_def start_record_def)
  have ts: "retired_first small_policy [(''op-1'', 1), (''op-2'', 2)] = [(''op-1'', 1)]"
    by (simp add: retired_first_def small_policy_def)
  have assign: "assignTerminalSequences (ensureRetentionMaps two_terminal) = Inr (two_terminal, False)"
    using terminal
    by (simp add: assignTerminalSequences_def two_terminal_def newMemoryData_def ensureRetentionMaps_def)
  have can: "retirable two_terminal (liveInventoryOwnerOperations two_terminal) (md_terminal two_terminal)
      = Inr [(''op-1'', 1), (''op-2'', 2)]"
    using terminal by (simp add: two_terminal_def newMemoryData_def liveInventoryOwnerOperations_def)
  obtain d2 where d2: "retire_all two_terminal [(''op-1'', 1)] = Inr d2" "map_of (md_operations d2) ''op-1'' = None"
    by (simp add: retire_one_Inr two_terminal_def newMemoryData_def)
  have count: "\<not> OperationIdentityLimit small_policy
      < int (length (md_operations two_terminal) + length (md_retired two_terminal))"
    by (simp add: small_policy_def two_terminal_def newMemoryData_def)
  have "RetentionPolicy_Validate small_policy = None"
    by (simp add: RetentionPolicy_Validate_def small_policy_def)
  then show ?thesis
    using assign can d2 ts count by (simp add: applyRetention_def retain_ordered_def trim_events_frame)
qed

theorem retention_correct_witness:
  "\<exists>d'. applyRetention small_policy two_terminal = Inr (d', True)
     \<and> int (length (unpinned_terminal d')) \<le> 1 \<and> map_of (md_retired d') (operationIDDigest ''op-1'') \<noteq> None"
proof -
  obtain d' where d': "applyRetention small_policy two_terminal = Inr (d', True)"
    "map_of (md_operations d') ''op-1'' = None"
    using two_terminal_retained by blast
  have t: "wf_table (md_operations two_terminal)" "wf_table (md_terminal two_terminal)"
    "map_of (md_operations two_terminal) ''op-1'' = Some start_done"
    by (simp_all add: two_terminal_def newMemoryData_def wf_table_def)
  note r = retention_correct [OF d'(1) t(1,2)]
  have "map_of (md_retired d') (operationIDDigest ''op-1'') \<noteq> None"
    using r t(3) d'(2) by (metis option.distinct(1))
  moreover have "int (length (unpinned_terminal d')) \<le> 1"
    using r by (simp add: small_policy_def)
  ultimately show ?thesis using d'(1) by blast
qed

end
