(* ===== verification/State_Invariant.thy ===== *)
theory State_Invariant
  imports State_Store State_Retention
begin

text \<open>
  What holds of every reachable \<open>MemoryStore\<close>, whatever callbacks were run against it: the tables
  are keyed by the identities of valid records with one active operation per target, the events
  are one consecutive suffix, and an operation identity is never forgotten or reused.
\<close>

subsection \<open>Tables\<close>

lemma validateSandboxRecord_revision [simp]:
  "validateSandboxRecord (r\<lparr>sr_Revision := n\<rparr>) = validateSandboxRecord r"
  by (simp add: validateSandboxRecord_def)

lemma validateContainerAttemptRecord_revision [simp]:
  "validateContainerAttemptRecord (r\<lparr>cr_Revision := n\<rparr>) = validateContainerAttemptRecord r"
  by (simp add: validateContainerAttemptRecord_def)

lemma validateOperationRecord_parts_revision:
  "validateReceiptRollbackLinks (r\<lparr>or_Revision := n\<rparr>) = validateReceiptRollbackLinks r"
  "validateHostProfileRecord (r\<lparr>or_Revision := n\<rparr>) = validateHostProfileRecord r"
  "adoption_error (r\<lparr>or_Revision := n\<rparr>) = adoption_error r"
  "validateCleanupReleases (r\<lparr>or_Revision := n\<rparr>) = validateCleanupReleases r"
  "validateAcquisitionReceipts (r\<lparr>or_Revision := n\<rparr>) = validateAcquisitionReceipts r"
proof -
  have "release_error (r\<lparr>or_Revision := n\<rparr>) = release_error r"
    by (simp add: release_error_def fun_eq_iff)
  then show "validateCleanupReleases (r\<lparr>or_Revision := n\<rparr>) = validateCleanupReleases r"
    by (simp add: validateCleanupReleases_def)
  have "acquisition_error (r\<lparr>or_Revision := n\<rparr>) = acquisition_error r"
    by (simp add: acquisition_error_def fun_eq_iff)
  then show "validateAcquisitionReceipts (r\<lparr>or_Revision := n\<rparr>) = validateAcquisitionReceipts r"
    by (simp add: validateAcquisitionReceipts_def)
  show "validateReceiptRollbackLinks (r\<lparr>or_Revision := n\<rparr>) = validateReceiptRollbackLinks r"
    by (simp add: validateReceiptRollbackLinks_def validateRollbackAcquisitionOrder_def cong: sum.case_cong)
  show "validateHostProfileRecord (r\<lparr>or_Revision := n\<rparr>) = validateHostProfileRecord r"
    by (simp cong: host_profile.case_cong)
  show "adoption_error (r\<lparr>or_Revision := n\<rparr>) = adoption_error r"
    by (simp add: adoption_error_def Let_def)
qed

lemma validateOperationRecord_revision [simp]:
  "validateOperationRecord (r\<lparr>or_Revision := n\<rparr>) = validateOperationRecord r"
  by (simp add: validateOperationRecord_def cause_record_error_def oom_record_error_def
      deadline_record_error_def validateOperationRecord_parts_revision
      del: validateHostProfileRecord.simps cong: option.case_cong)

definition exclusive_targets :: "(operation_id, operation_record) table \<Rightarrow> bool" where
  "exclusive_targets t \<longleftrightarrow>
     (\<forall>i j r q. map_of t i = Some r \<longrightarrow> map_of t j = Some q \<longrightarrow> State_Active (op_State (or_Operation r))
        \<longrightarrow> active_on (op_Target (or_Operation r)) q \<longrightarrow> i = j)"

definition tables_ok :: "memory_data \<Rightarrow> bool" where
  "tables_ok d \<longleftrightarrow>
     wf_table (md_sandboxes d) \<and> wf_table (md_containers d) \<and> wf_table (md_operations d)
     \<and> (\<forall>i r. map_of (md_sandboxes d) i = Some r \<longrightarrow> sb_ID (sr_Sandbox r) = i \<and> validateSandboxRecord r = None)
     \<and> (\<forall>i r. map_of (md_containers d) i = Some r \<longrightarrow>
          co_ID (ca_Container (cr_ContainerAttempt r)) = i \<and> validateContainerAttemptRecord r = None)
     \<and> (\<forall>i r. map_of (md_operations d) i = Some r \<longrightarrow>
          op_ID (or_Operation r) = i \<and> validateOperationRecord r = None)
     \<and> exclusive_targets (md_operations d)"

lemma exclusive_targets_restrict:
  "exclusive_targets t \<Longrightarrow> map_of t' = (map_of t) |` A \<Longrightarrow> exclusive_targets t'"
  by (auto simp: exclusive_targets_def restrict_map_def)

lemma exclusive_targets_put:
  assumes "exclusive_targets t" and "wf_table t" and "target_owner_error v rec = None"
    and "md_operations (mv_data v) = t" and "or_Operation r = or_Operation rec"
    and "i = op_ID (or_Operation rec)"
  shows "exclusive_targets (AList.update i r t)"
proof -
  have other: "\<not> active_on (op_Target (or_Operation rec)) q"
    if "map_of t j = Some q" "j \<noteq> i" "State_Active (op_State (or_Operation rec))" for j q
    using assms(3-6) that wf_table_set_iff [OF assms(2)]
    by (fastforce simp: target_owner_error_def Let_def find_None_iff split: option.splits)
  show ?thesis
    unfolding exclusive_targets_def map_of_update
    using assms(1,5) other by (auto simp: exclusive_targets_def active_on_def split: if_splits) metis+
qed

lemma map_of_clone:
  "map_of (map (\<lambda>(i, r). (i, OperationRecord_Clone r)) t) i = map_option OperationRecord_Clone (map_of t i)"
  by (induction t) auto

lemma DeleteSandbox_Inr:
  "DeleteSandbox v i e = Inr v' \<Longrightarrow>
     v' = v\<lparr>mv_data := (mv_data v)\<lparr>md_sandboxes := AList.delete i (md_sandboxes (mv_data v))\<rparr>\<rparr>"
  by (auto simp: DeleteSandbox_def Let_def split: option.splits)

lemma DeleteContainerAttempt_Inr:
  "DeleteContainerAttempt v i e = Inr v' \<Longrightarrow>
     v' = v\<lparr>mv_data := (mv_data v)\<lparr>md_containers := AList.delete i (md_containers (mv_data v))\<rparr>\<rparr>"
  by (auto simp: DeleteContainerAttempt_def Let_def split: option.splits)

lemma AppendEvent_Inr:
  assumes "AppendEvent v e = Inr (v', e')"
  shows "append_error v e = None" and "Sequence_Next (md_lastEvent (mv_data v)) = Inr (ev_Sequence e')"
    and "e' = e\<lparr>ev_Sequence := ev_Sequence e'\<rparr>" and "Event_Validate e' = None"
    and "md_events (mv_data v) \<noteq> [] \<Longrightarrow> Event_ValidateAfter e' (last (md_events (mv_data v))) = None"
    and "v' = v\<lparr>mv_data := (mv_data v)\<lparr>md_events := md_events (mv_data v) @ [e'],
           md_lastEvent := ev_Sequence e'\<rparr>\<rparr>"
  using assms
  by (auto simp: AppendEvent_def Let_def validateEvent_def split: sum.splits if_splits)


text \<open>What a write stores besides the revision.\<close>

lemma stored_sandbox:
  assumes "PutSandbox v s e = Inr (v', s')"
  shows "sr_Sandbox s' = sr_Sandbox s" and "validateSandboxRecord s' = None"
proof -
  from assms have eq: "s' = s\<lparr>sr_Revision := sr_Revision s'\<rparr>" and ok: "validateSandboxRecord s = None"
    unfolding PutSandbox_Inr Let_def by blast+
  show "sr_Sandbox s' = sr_Sandbox s" using arg_cong [OF eq, of sr_Sandbox] by simp
  show "validateSandboxRecord s' = None" using arg_cong [OF eq, of validateSandboxRecord] ok by simp
qed

lemma stored_container:
  assumes "PutContainerAttempt v c e = Inr (v', c')"
  shows "cr_ContainerAttempt c' = cr_ContainerAttempt c" and "validateContainerAttemptRecord c' = None"
proof -
  from assms have eq: "c' = c\<lparr>cr_Revision := cr_Revision c'\<rparr>" and ok: "validateContainerAttemptRecord c = None"
    unfolding PutContainerAttempt_Inr Let_def by blast+
  show "cr_ContainerAttempt c' = cr_ContainerAttempt c" using arg_cong [OF eq, of cr_ContainerAttempt] by simp
  show "validateContainerAttemptRecord c' = None"
    using arg_cong [OF eq, of validateContainerAttemptRecord] ok by simp
qed

lemma stored_operation:
  assumes "PutOperation v x e = Inr (v', x')"
  shows "or_Operation x' = or_Operation x" and "validateOperationRecord x' = None"
proof -
  from assms have eq: "x' = (OperationRecord_Clone x)\<lparr>or_Revision := or_Revision x'\<rparr>"
    and ok: "validateOperationRecord x = None"
    unfolding PutOperation_Inr Let_def by blast+
  show "or_Operation x' = or_Operation x" using arg_cong [OF eq, of or_Operation] by simp
  show "validateOperationRecord x' = None"
    using arg_cong [OF eq, of validateOperationRecord] ok by simp
qed

interpretation tables: data_invariant tables_ok
proof unfold_locales
  show "tables_ok newMemoryData"
    by (simp add: tables_ok_def newMemoryData_def exclusive_targets_def)
next
  fix v s e v' s'
  assume "tables_ok (mv_data v)" and put: "PutSandbox v s e = Inr (v', s')"
  moreover note stored_sandbox [OF put]
  ultimately show "tables_ok (mv_data v')"
    by (auto simp: PutSandbox_Inr Let_def tables_ok_def)
next
  fix v i e v'
  assume "tables_ok (mv_data v)" "DeleteSandbox v i e = Inr v'"
  then show "tables_ok (mv_data v')"
    by (auto simp: tables_ok_def dest!: DeleteSandbox_Inr split: if_splits)
next
  fix v c e v' c'
  assume "tables_ok (mv_data v)" and put: "PutContainerAttempt v c e = Inr (v', c')"
  moreover note stored_container [OF put]
  ultimately show "tables_ok (mv_data v')"
    by (auto simp: PutContainerAttempt_Inr Let_def tables_ok_def)
next
  fix v i e v'
  assume "tables_ok (mv_data v)" "DeleteContainerAttempt v i e = Inr v'"
  then show "tables_ok (mv_data v')"
    by (auto simp: tables_ok_def dest!: DeleteContainerAttempt_Inr split: if_splits)
next
  fix v x e v' x'
  assume ok: "tables_ok (mv_data v)" and put: "PutOperation v x e = Inr (v', x')"
  note x' = stored_operation [OF put]
  have "exclusive_targets (AList.update (op_ID (or_Operation x)) x' (md_operations (mv_data v)))"
    using ok put by (intro exclusive_targets_put [of _ v x])
      (auto simp: tables_ok_def PutOperation_Inr Let_def x'(1))
  then show "tables_ok (mv_data v')"
    using ok put x' by (auto simp: PutOperation_Inr Let_def tables_ok_def)
next
  fix v ev v' ev'
  assume "tables_ok (mv_data v)" "AppendEvent v ev = Inr (v', ev')"
  then show "tables_ok (mv_data v')"
    using AppendEvent_Inr(6) [of v ev v' ev'] by (simp add: tables_ok_def)
next
  fix d
  assume ok: "tables_ok d"
  have "wf_table (map (\<lambda>(i, r). (i, OperationRecord_Clone r)) (md_operations d))"
    using ok by (simp add: tables_ok_def wf_table_def comp_def case_prod_beta')
  moreover have "exclusive_targets (map (\<lambda>(i, r). (i, OperationRecord_Clone r)) (md_operations d))"
    using ok by (auto simp: tables_ok_def exclusive_targets_def map_of_clone active_on_def)
  ultimately show "tables_ok (data_clone d)"
    using ok by (auto simp: tables_ok_def data_clone_def map_of_clone)
next
  fix d p d' changed
  assume ok: "tables_ok d" and ret: "applyRetention p d = Inr (d', changed)"
  obtain gone where ops: "map_of (md_operations d') = (map_of (md_operations d)) |` (- gone)"
    by (rule applyRetention_operations [OF ret])
  have "wf_table (md_operations d')"
    using ok applyRetention_wf [OF ret] by (simp add: tables_ok_def)
  then show "tables_ok d'"
    using ok ops exclusive_targets_restrict [OF _ ops] applyRetention_frame(1,2) [OF ret]
    by (auto simp: tables_ok_def restrict_map_def split: if_splits)
qed


lemma wf_exclusive_distinct:
  assumes "wf_table t" and "exclusive_targets t"
  shows "distinct (map (\<lambda>(i, r). op_Target (or_Operation r))
    (filter (\<lambda>(i, r). State_Active (op_State (or_Operation r))) t))"
proof -
  have "inj_on (\<lambda>(i, r). op_Target (or_Operation r))
      (set (filter (\<lambda>(i, r). State_Active (op_State (or_Operation r))) t))"
    using assms wf_table_set_iff [OF assms(1)]
    by (auto simp: inj_on_def exclusive_targets_def active_on_def) (metis option.inject)+
  then show ?thesis
    using assms(1) by (simp add: distinct_map wf_table_def)
qed

subsection \<open>Events\<close>

definition events_ok :: "memory_data \<Rightarrow> bool" where
  "events_ok d \<longleftrightarrow>
     list_all (\<lambda>e. Event_Validate e = None) (md_events d)
     \<and> successively (\<lambda>e f. Event_ValidateAfter f e = None) (md_events d)
     \<and> md_firstEvent d = nextAvailableEventSequence d
     \<and> md_lastEvent d = (if md_events d = [] then 0 else ev_Sequence (last (md_events d)))"

lemma events_ok_frame:
  "md_events d' = md_events d \<Longrightarrow> md_firstEvent d' = md_firstEvent d \<Longrightarrow> md_lastEvent d' = md_lastEvent d
     \<Longrightarrow> events_ok d' = events_ok d"
  by (simp add: events_ok_def nextAvailableEventSequence_def cong: list.case_cong sum.case_cong)

lemma successively_drop: "successively P xs \<Longrightarrow> successively P (drop n xs)"
  by (metis append_take_drop_id successively_append_iff)

interpretation suffix: data_invariant events_ok
proof unfold_locales
  show "events_ok newMemoryData"
    by (simp add: events_ok_def newMemoryData_def nextAvailableEventSequence_def Sequence_Next_def)
next
  fix v s e v' s'
  assume "events_ok (mv_data v)" "PutSandbox v s e = Inr (v', s')"
  then show "events_ok (mv_data v')"
    using events_ok_frame [of "mv_data v'" "mv_data v"] by (auto simp: PutSandbox_Inr Let_def)
next
  fix v i e v'
  assume "events_ok (mv_data v)" "DeleteSandbox v i e = Inr v'"
  then show "events_ok (mv_data v')"
    using events_ok_frame [of "mv_data v'" "mv_data v"] by (auto dest!: DeleteSandbox_Inr)
next
  fix v c e v' c'
  assume "events_ok (mv_data v)" "PutContainerAttempt v c e = Inr (v', c')"
  then show "events_ok (mv_data v')"
    using events_ok_frame [of "mv_data v'" "mv_data v"] by (auto simp: PutContainerAttempt_Inr Let_def)
next
  fix v i e v'
  assume "events_ok (mv_data v)" "DeleteContainerAttempt v i e = Inr v'"
  then show "events_ok (mv_data v')"
    using events_ok_frame [of "mv_data v'" "mv_data v"] by (auto dest!: DeleteContainerAttempt_Inr)
next
  fix v x e v' x'
  assume "events_ok (mv_data v)" "PutOperation v x e = Inr (v', x')"
  then show "events_ok (mv_data v')"
    using events_ok_frame [of "mv_data v'" "mv_data v"] by (auto simp: PutOperation_Inr Let_def)
next
  fix v ev v' ev'
  assume ok: "events_ok (mv_data v)" and app: "AppendEvent v ev = Inr (v', ev')"
  note a = AppendEvent_Inr [OF app]
  let ?d = "mv_data v"
  have "nextAvailableEventSequence (mv_data v') = nextAvailableEventSequence ?d"
    using a(2) by (simp add: a(6) nextAvailableEventSequence_def split: list.split)
  moreover have "successively (\<lambda>e f. Event_ValidateAfter f e = None) (md_events ?d @ [ev'])"
    using ok a(5) by (cases "md_events ?d = []") (auto simp: events_ok_def successively_append_iff)
  ultimately show "events_ok (mv_data v')"
    using ok a(4) by (simp add: events_ok_def a(6))
next
  fix d
  assume "events_ok d"
  then show "events_ok (data_clone d)"
    using events_ok_frame [of "data_clone d" d] by (simp add: data_clone_def)
next
  fix d p d' changed
  assume ok: "events_ok d" and ret: "applyRetention p d = Inr (d', changed)"
  note f = applyRetention_frame [OF ret]
  obtain n where n: "md_events d' = drop n (md_events d)" using f(6) by blast
  have "md_events d' = [] \<longleftrightarrow> md_events d = []"
    using f(8) n by auto
  moreover have "md_events d' \<noteq> [] \<Longrightarrow> last (md_events d') = last (md_events d)"
    by (simp add: n last_drop)
  ultimately show "events_ok d'"
    using ok f(3,5) set_drop_subset [of n "md_events d"]
    by (auto simp: events_ok_def n list_all_iff intro: successively_drop)
qed

lemma events_sequences:
  assumes "events_ok d"
  shows "map (unat \<circ> ev_Sequence) (md_events d) = [unat (md_firstEvent d)..<Suc (unat (md_lastEvent d))]"
proof (cases "md_events d")
  case Nil
  then show ?thesis
    using assms by (simp add: events_ok_def nextAvailableEventSequence_def Sequence_Next_def)
next
  case (Cons e es)
  have chain: "map (unat \<circ> ev_Sequence) (e # es) = [unat (ev_Sequence e)..<unat (ev_Sequence e) + length (e # es)]"
    by (rule chain_sequences) (use assms Cons in \<open>simp add: events_ok_def\<close>)
  have "unat (md_lastEvent d) = last (map (unat \<circ> ev_Sequence) (e # es))"
    using assms Cons by (simp add: events_ok_def last_map)
  also have "\<dots> = unat (ev_Sequence e) + length es"
    unfolding chain by simp
  finally show ?thesis
    using assms chain Cons by (simp add: events_ok_def nextAvailableEventSequence_def)
qed

lemma filter_later:
  assumes "map (unat \<circ> ev_Sequence) es = [a..<b]"
  shows "map (unat \<circ> ev_Sequence) (filter (\<lambda>e. s < ev_Sequence e) es) = [max a (Suc (unat s))..<b]"
proof -
  have "map (unat \<circ> ev_Sequence) (filter (\<lambda>e. s < ev_Sequence e) es)
      = filter (\<lambda>n. unat s < n) (map (unat \<circ> ev_Sequence) es)"
    by (simp add: filter_map comp_def word_less_nat_alt)
  also have "\<dots> = [max a (Suc (unat s))..<b]"
    unfolding assms
  proof (induction b)
    case (Suc b)
    then show ?case by (auto simp: max_def)
  qed simp
  finally show ?thesis .
qed

subsection \<open>Identities\<close>

definition expired :: "operation_id \<Rightarrow> memory_data \<Rightarrow> bool" where
  "expired i d \<longleftrightarrow> map_of (md_operations d) i = None \<and> retiredOperationFor d i \<noteq> None"

lemma expired_frame:
  "md_operations d' = md_operations d \<Longrightarrow> md_retired d' = md_retired d \<Longrightarrow> expired i d' = expired i d"
  by (simp add: expired_def retiredOperationFor_def)

interpretation expiry: stable_property "expired i" for i
proof unfold_locales
  fix v s e v' s'
  assume "expired i (mv_data v)" "PutSandbox v s e = Inr (v', s')"
  then show "expired i (mv_data v')"
    using expired_frame [of "mv_data v'" "mv_data v"] by (auto simp: PutSandbox_Inr Let_def)
next
  fix v j e v'
  assume "expired i (mv_data v)" "DeleteSandbox v j e = Inr v'"
  then show "expired i (mv_data v')"
    using expired_frame [of "mv_data v'" "mv_data v"] by (auto dest!: DeleteSandbox_Inr)
next
  fix v c e v' c'
  assume "expired i (mv_data v)" "PutContainerAttempt v c e = Inr (v', c')"
  then show "expired i (mv_data v')"
    using expired_frame [of "mv_data v'" "mv_data v"] by (auto simp: PutContainerAttempt_Inr Let_def)
next
  fix v j e v'
  assume "expired i (mv_data v)" "DeleteContainerAttempt v j e = Inr v'"
  then show "expired i (mv_data v')"
    using expired_frame [of "mv_data v'" "mv_data v"] by (auto dest!: DeleteContainerAttempt_Inr)
next
  fix v x e v' x'
  assume "expired i (mv_data v)" "PutOperation v x e = Inr (v', x')"
  then show "expired i (mv_data v')"
    by (auto simp: PutOperation_Inr Let_def expired_def new_identity_error_def retiredOperationFor_def)
next
  fix v ev v' ev'
  assume "expired i (mv_data v)" "AppendEvent v ev = Inr (v', ev')"
  then show "expired i (mv_data v')"
    using AppendEvent_Inr(6) [of v ev v' ev'] by (simp add: expired_def retiredOperationFor_def)
next
  fix d
  assume "expired i d"
  then show "expired i (data_clone d)"
    by (simp add: expired_def data_clone_def map_of_clone retiredOperationFor_def)
next
  fix d p d' changed
  assume exp: "expired i d" and ret: "applyRetention p d = Inr (d', changed)"
  obtain gone where "map_of (md_operations d') = (map_of (md_operations d)) |` (- gone)"
    "\<forall>k r. map_of (md_retired d) k = Some r \<longrightarrow> map_of (md_retired d') k = Some r"
    by (rule applyRetention_operations [OF ret])
  then show "expired i d'"
    using exp by (auto simp: expired_def retiredOperationFor_def restrict_map_def)
qed

end
