(* ===== verification/State_Properties.thy ===== *)
theory State_Properties
  imports State_Invariant
begin

text \<open>
  The promises of the store: one active operation per target, resumable events, identities that
  are never reused, atomic updates, and what every committed state satisfies. They hold after any
  sequence of updates with any callbacks.
\<close>

subsection \<open>Examples\<close>

text \<open>One update that persists an intent and its event.\<close>

definition intent_tx :: tx_prog where
  "intent_tx = Call (CPutOperation create_intent 0)
     (\<lambda>_. Call (CAppendEvent (demo_event 0)) (\<lambda>_. Return None))"

definition intent_data :: memory_data where
  "intent_data = newMemoryData\<lparr>md_operations := [(''op-1'', intent_stored)],
     md_events := [demo_event 1], md_lastEvent := 1\<rparr>"

definition intent_store :: memory_store where
  "intent_store = NewMemoryStore\<lparr>ms_data := intent_data\<rparr>"

lemma intent_stored_facts [simp]:
  "op_State (or_Operation intent_stored) = StateRunning" "or_Receipts intent_stored = None"
  "op_Type (or_Operation intent_stored) = TypeCreate" "op_Target (or_Operation intent_stored) = sandbox_target"
  "stage_of intent_stored = StagePersistIntent" "op_Result (or_Operation intent_stored) = ResultPending"
  "op_Reason (or_Operation intent_stored) = ReasonNone" "op_ID (or_Operation intent_stored) = ''op-1''"
  by (simp_all add: intent_stored_def create_intent_def create_record_def demo_operation_def)

lemma demo_event_facts [simp]:
  "ev_Sequence (demo_event n) = n" "ev_OperationID (demo_event n) = ''op-1''"
  "ev_Type (demo_event n) = TypeCreate" "ev_Target (demo_event n) = sandbox_target"
  "ev_Stage (demo_event n) = StagePersistIntent" "ev_Result (demo_event n) = ResultPending"
  "ev_Reason (demo_event n) = ReasonNone" "(demo_event n)\<lparr>ev_Sequence := m\<rparr> = demo_event m"
  "ev_SchemaVersion (demo_event n) = EventSchemaVersion"
  by (simp_all add: demo_event_def EventSchemaVersion_def)

lemma intent_append:
  "AppendEvent intent_view (demo_event 0) = Inr (intent_view\<lparr>mv_data := intent_data\<rparr>, demo_event 1)"
proof -
  have "append_error intent_view (demo_event 0) = None"
    by (simp add: append_error_def ensureWritable_def ensureOpen_def intent_view_def empty_view_def
        validateEventGeneration_def eventTargetGeneration_def sandbox_target_def newMemoryData_def)
  then show ?thesis
    using demo_event_valid [of 1]
    by (simp add: AppendEvent_def intent_view_def empty_view_def newMemoryData_def Sequence_Next_def
        validateEvent_def intent_data_def Let_def)
qed

lemma intent_data_valid: "data_validate intent_data = None"
  by (simp add: data_validate_def intent_data_def newMemoryData_def suffix_error_def
      event_binding_error_def terminal_error_def terminal_order_error_def store_pairs_def
      ValidateOneActiveAttempt_def validateOwnershipGraph_def create_inventory_error_def)

lemma intent_retained: "applyRetention DefaultRetentionPolicy intent_data = Inr (intent_data, False)"
  by (simp add: applyRetention_def retain_ordered_def RetentionPolicy_Validate_def DefaultRetentionPolicy_def
      assignTerminalSequences_def ensureRetentionMaps_def intent_data_def newMemoryData_def
      retired_first_def trim_events_def nextAvailableEventSequence_def)

lemma intent_update: "Store_Update NewMemoryStore False False (Some intent_tx) = (intent_store, None)"
proof -
  have "store_view NewMemoryStore True (data_clone (ms_data NewMemoryStore)) = empty_view"
    by (simp add: store_view_def NewMemoryStore_def data_clone_def newMemoryData_def empty_view_def)
  then have "run_tx intent_tx (store_view NewMemoryStore True (data_clone (ms_data NewMemoryStore)))
      = (intent_view\<lparr>mv_data := intent_data\<rparr>, None)"
    by (simp add: intent_tx_def intent_put intent_append)
  then show ?thesis
    using intent_data_valid intent_retained
    by (simp add: Store_Update_def commit_def NewMemoryStore_def intent_store_def)
qed

lemma intent_reachable: "store_reachable intent_store"
  using update [OF NewMemoryStore_reachable, of False False "Some intent_tx"] by (simp add: intent_update)

subsection \<open>Properties\<close>

text \<open>C39. In every reachable store no two active operations have the same target, and every stored
  record is valid and stands under its own identity.\<close>

theorem store_one_active_operation:
  assumes "store_reachable s"
  shows "distinct (map (\<lambda>(i, r). op_Target (or_Operation r))
      (filter (\<lambda>(i, r). State_Active (op_State (or_Operation r))) (md_operations (ms_data s))))
    \<and> list_all (\<lambda>(i, r). op_ID (or_Operation r) = i \<and> validateOperationRecord r = None) (md_operations (ms_data s))
    \<and> list_all (\<lambda>(i, r). sb_ID (sr_Sandbox r) = i \<and> validateSandboxRecord r = None) (md_sandboxes (ms_data s))
    \<and> list_all (\<lambda>(i, r). co_ID (ca_Container (cr_ContainerAttempt r)) = i
        \<and> validateContainerAttemptRecord r = None) (md_containers (ms_data s))"
proof -
  have ok: "tables_ok (ms_data s)" by (rule tables.reachable [OF assms])
  then show ?thesis
    using wf_exclusive_distinct [of "md_operations (ms_data s)"]
    by (auto simp: tables_ok_def list_all_iff wf_table_set_iff)
qed

theorem store_one_active_operation_witness:
  "validateOperationRecord intent_stored = None"
  using store_one_active_operation [OF intent_reachable] by (simp add: intent_store_def intent_data_def)

text \<open>Reading events never leaves a hole: in a reachable store a successful read after a sequence
  number yields exactly the consecutive events that follow it, up to the limit, and a position the
  retained suffix cannot continue is an error.\<close>

theorem events_after_correct:
  assumes "store_reachable s"
    and "EventsAfter (store_view s rw (ms_data s)) after limit = Inr es"
  shows "map (unat \<circ> ev_Sequence) es =
      (if limit = 0 then id else take (nat limit))
        [max (unat (md_firstEvent (ms_data s))) (Suc (unat after))..<Suc (unat (md_lastEvent (ms_data s)))]
    \<and> (after \<noteq> 0 \<longrightarrow> unat (md_firstEvent (ms_data s)) \<le> Suc (unat after) \<and> after \<le> md_lastEvent (ms_data s))"
proof -
  let ?d = "ms_data s"
  have seqs: "map (unat \<circ> ev_Sequence) (md_events ?d) = [unat (md_firstEvent ?d)..<Suc (unat (md_lastEvent ?d))]"
    by (rule events_sequences [OF suffix.reachable [OF assms(1)]])
  have later: "map (unat \<circ> ev_Sequence) (filter (\<lambda>e. after < ev_Sequence e) (md_events ?d))
      = [max (unat (md_firstEvent ?d)) (Suc (unat after))..<Suc (unat (md_lastEvent ?d))]"
    by (rule filter_later [OF seqs])
  have es: "0 \<le> limit" "es = (if 0 < limit then take (nat limit) (filter (\<lambda>e. after < ev_Sequence e) (md_events ?d))
        else filter (\<lambda>e. after < ev_Sequence e) (md_events ?d))"
    and gap: "\<not> (after \<noteq> 0 \<and> (md_lastEvent ?d < after \<or> 1 < md_firstEvent ?d \<and> after < md_firstEvent ?d - 1))"
    using assms(2) by (auto simp: EventsAfter_def store_view_def Let_def)
  have "unat (md_firstEvent ?d) \<le> Suc (unat after)" if "after \<noteq> 0"
  proof (cases "1 < md_firstEvent ?d")
    case True
    then have "unat (md_firstEvent ?d - 1) = unat (md_firstEvent ?d) - 1"
      by (simp add: unat_sub less_imp_le)
    then show ?thesis using gap that True by (simp add: word_less_nat_alt) arith
  next
    case False
    then show ?thesis by (simp add: word_less_nat_alt)
  qed
  then show ?thesis
    using es gap later by (auto simp flip: take_map)
qed

theorem events_after_correct_witness: "map (unat \<circ> ev_Sequence) [demo_event 1] = [1..<2]"
proof -
  have "EventsAfter (store_view intent_store False (ms_data intent_store)) 0 0 = Inr [demo_event 1]"
    by (simp add: EventsAfter_def store_view_def ensureOpen_def intent_store_def intent_data_def newMemoryData_def)
  from events_after_correct [OF intent_reachable this] show ?thesis
    by (simp add: intent_store_def intent_data_def newMemoryData_def numeral_2_eq_2)
qed

text \<open>Any sequence of updates, failed ones included.\<close>

definition run_updates :: "memory_store \<Rightarrow> (bool \<times> bool \<times> tx_prog option) list \<Rightarrow> memory_store" where
  "run_updates s us = foldl (\<lambda>s (c1, c2, fn). fst (Store_Update s c1 c2 fn)) s us"

lemma expired_run: "expired i (ms_data s) \<Longrightarrow> expired i (ms_data (run_updates s us))"
proof (induction us arbitrary: s)
  case (Cons u us)
  obtain c1 c2 fn where "u = (c1, c2, fn)" by (cases u)
  then show ?case
    using Cons.IH [OF expiry.update_keeps [OF Cons.prems, of c1 c2 fn]] by (simp add: run_updates_def)
qed (simp add: run_updates_def)

lemma GetOperation_expired:
  "GetOperation (store_view s rw d) i = Inl ErrOperationExpired \<longleftrightarrow> expired i d"
  by (auto simp: GetOperation_def store_view_def ensureOpen_def expired_def split: option.split)

text \<open>C40. A retired identity is final: after any further updates a read of it still answers that the
  operation expired, and every attempt to write it is refused.\<close>

theorem retired_identity_is_final:
  assumes "GetOperation (store_view s False (ms_data s)) i = Inl ErrOperationExpired"
  shows "GetOperation (store_view (run_updates s us) rw (ms_data (run_updates s us))) i = Inl ErrOperationExpired
    \<and> (op_ID (or_Operation x) = i \<longrightarrow>
        (\<exists>err. PutOperation (store_view (run_updates s us) True (ms_data (run_updates s us))) x e = Inl err))"
proof -
  have exp: "expired i (ms_data (run_updates s us))"
    using assms expired_run by (simp add: GetOperation_expired)
  have "\<exists>err. PutOperation (store_view (run_updates s us) True (ms_data (run_updates s us))) x e = Inl err"
    if i: "op_ID (or_Operation x) = i"
  proof (cases "PutOperation (store_view (run_updates s us) True (ms_data (run_updates s us))) x e")
    case (Inr r)
    then obtain v' x' where
      "PutOperation (store_view (run_updates s us) True (ms_data (run_updates s us))) x e = Inr (v', x')"
      by (cases r) auto
    then show ?thesis
      using exp i by (auto simp: PutOperation_Inr Let_def expired_def store_view_def new_identity_error_def)
  qed simp
  with exp show ?thesis by (simp add: GetOperation_expired)
qed


definition retired_store :: memory_store where
  "retired_store = NewMemoryStore\<lparr>ms_data := newMemoryData\<lparr>md_retired :=
     [(operationIDDigest ''op-1'', tombstone newMemoryData ''op-1'' 1 demo_operation)], md_lastTerminal := 1\<rparr>\<rparr>"

theorem retired_identity_is_final_witness:
  "GetOperation (store_view (run_updates retired_store [(False, False, Some intent_tx)]) True
     (ms_data (run_updates retired_store [(False, False, Some intent_tx)]))) ''op-1'' = Inl ErrOperationExpired"
  by (rule retired_identity_is_final [THEN conjunct1])
    (simp add: GetOperation_expired expired_def retired_store_def newMemoryData_def retiredOperationFor_def)

text \<open>How an update ends.\<close>

lemma Store_Update_outcome:
  "case Store_Update s c1 c2 fn of
     (s', Some e) \<Rightarrow> s' = s
   | (s', None) \<Rightarrow> \<not> c1 \<and> \<not> c2 \<and> ms_retention s' = ms_retention s \<and> data_validate (ms_data s') = None
       \<and> (\<exists>p v changed. fn = Some p
            \<and> run_tx p (store_view s True (data_clone (ms_data s))) = (v, None)
            \<and> applyRetention (ms_retention s) (mv_data v) = Inr (ms_data s', changed))"
proof (cases fn)
  case (Some p)
  obtain v e where run: "run_tx p (store_view s True (data_clone (ms_data s))) = (v, e)"
    by (cases "run_tx p (store_view s True (data_clone (ms_data s)))")
  show ?thesis
    by (cases "c1"; cases e; cases c2; cases "commit (ms_retention s) (mv_data v)")
      (auto simp: Store_Update_def Some run commit_def)
qed (simp add: Store_Update_def)

text \<open>C10. An update is atomic: if it reports an error the store is unchanged, and if it does not, the
  store holds the candidate that the callback left, after retention, and that candidate passed the
  check on the whole store.\<close>

theorem update_is_atomic:
  "case Store_Update s c1 c2 fn of
     (s', Some e) \<Rightarrow> s' = s
   | (s', None) \<Rightarrow> \<not> c1 \<and> \<not> c2 \<and> ms_retention s' = ms_retention s \<and> data_validate (ms_data s') = None
       \<and> (\<exists>p v changed. fn = Some p
            \<and> run_tx p (store_view s True (data_clone (ms_data s))) = (v, None)
            \<and> applyRetention (ms_retention s) (mv_data v) = Inr (ms_data s', changed))"
  by (rule Store_Update_outcome)

lemma reachable_valid: "store_reachable s \<Longrightarrow> data_validate (ms_data s) = None"
proof (induction rule: store_reachable.induct)
  case (new_store p s)
  then have "ms_data s = newMemoryData"
    by (auto simp: NewMemoryStoreWithRetention_def)
  then show ?case
    by (simp add: data_validate_def newMemoryData_def suffix_error_def Sequence_Next_def
        terminal_order_error_def store_pairs_def ValidateOneActiveAttempt_def validateOwnershipGraph_def)
next
  case (update s c1 c2 fn)
  then show ?case
  proof (cases fn)
    case (Some p)
    obtain v e where run: "run_tx p (store_view s True (data_clone (ms_data s))) = (v, e)"
      by (cases "run_tx p (store_view s True (data_clone (ms_data s)))")
    show ?thesis
      using update.IH
      by (cases "c1"; cases e; cases c2; cases "commit (ms_retention s) (mv_data v)")
        (auto simp: Store_Update_def Some run commit_def)
  qed (simp add: Store_Update_def)
qed

text \<open>C9. Every reachable store is consistent across its tables: an active Attempt belongs to a Ready
  Sandbox that names exactly this pair as current; every host resource in an inventory is an
  adopted receipt of the operation it names, for the same target; every adopted receipt is still
  in the inventory of its target or covered by a complete verified release; and every terminal
  operation has its response.\<close>

theorem reachable_store_consistent:
  assumes "store_reachable s" and "d = ms_data s"
  shows "list_all (\<lambda>(i, r). IsActiveAttempt (at_Phase (ca_Attempt (cr_ContainerAttempt r))) \<longrightarrow>
      (\<exists>b. map_of (md_sandboxes d) (co_SandboxID (ca_Container (cr_ContainerAttempt r))) = Some b
        \<and> ss_Phase (sb_Status (sr_Sandbox b)) = SandboxReady
        \<and> ss_CurrentContainerID (sb_Status (sr_Sandbox b)) = Some i
        \<and> ss_CurrentAttemptID (sb_Status (sr_Sandbox b)) = Some (at_ID (ca_Attempt (cr_ContainerAttempt r)))))
      (md_containers d)
    \<and> list_all (\<lambda>q. \<exists>x. map_of (md_operations d) (ok_OperationID (rt_Owner q)) = Some x
        \<and> q \<in> set (elems (or_Receipts x)) \<and> rt_Adopted q \<and> op_Target (or_Operation x) = ok_Target (rt_Owner q))
      (concat (map (\<lambda>(i, r). sr_HostResources r) (md_sandboxes d) @ map (\<lambda>(i, r). cr_HostResources r) (md_containers d)))
    \<and> list_all (\<lambda>(i, r). list_all (\<lambda>q. rt_Adopted q \<longrightarrow>
          (\<exists>rs. inventoryForTarget d (ok_Target (rt_Owner q)) = Some rs \<and> q \<in> set rs) \<or> hasVerifiedRelease d r q)
        (elems (or_Receipts r))) (md_operations d)
    \<and> list_all (\<lambda>(i, r). State_Terminal (op_State (or_Operation r)) \<longrightarrow> op_Response (or_Operation r) \<noteq> [])
      (md_operations d)"
proof -
  have ok: "data_validate d = None" using reachable_valid assms by simp
  then have containers: "\<forall>e \<in> set (md_containers d). container_commit_error d e = None \<and> active_pair_error d e = None"
    and terminal: "\<forall>e \<in> set (md_operations d). terminal_error d e = None"
    and graph: "validateOwnershipGraph d = None"
    by (auto simp: data_validate_def first_err_map_None)
  have active: "list_all (\<lambda>(i, r). IsActiveAttempt (at_Phase (ca_Attempt (cr_ContainerAttempt r))) \<longrightarrow>
      (\<exists>b. map_of (md_sandboxes d) (co_SandboxID (ca_Container (cr_ContainerAttempt r))) = Some b
        \<and> ss_Phase (sb_Status (sr_Sandbox b)) = SandboxReady
        \<and> ss_CurrentContainerID (sb_Status (sr_Sandbox b)) = Some i
        \<and> ss_CurrentAttemptID (sb_Status (sr_Sandbox b)) = Some (at_ID (ca_Attempt (cr_ContainerAttempt r)))))
      (md_containers d)"
    using containers
    by (fastforce simp: list_all_iff container_commit_error_def active_pair_error_def Let_def
        split: option.splits if_splits)
  have provenance: "validateInventoryProvenance d q = None \<Longrightarrow>
      \<exists>x. map_of (md_operations d) (ok_OperationID (rt_Owner q)) = Some x
        \<and> q \<in> set (elems (or_Receipts x)) \<and> rt_Adopted q \<and> op_Target (or_Operation x) = ok_Target (rt_Owner q)" for q
    by (auto simp: validateInventoryProvenance_def list_ex_iff split: option.splits)
  have adopted: "adopted_receipt_error d r q = None \<Longrightarrow> rt_Adopted q \<Longrightarrow>
      (\<exists>rs. inventoryForTarget d (ok_Target (rt_Owner q)) = Some rs \<and> q \<in> set rs) \<or> hasVerifiedRelease d r q" for r q
    by (auto simp: adopted_receipt_error_def receiptSetContains_def list_ex_iff split: option.splits)
  have "list_all (\<lambda>q. \<exists>x. map_of (md_operations d) (ok_OperationID (rt_Owner q)) = Some x
        \<and> q \<in> set (elems (or_Receipts x)) \<and> rt_Adopted q \<and> op_Target (or_Operation x) = ok_Target (rt_Owner q))
      (concat (map (\<lambda>(i, r). sr_HostResources r) (md_sandboxes d) @ map (\<lambda>(i, r). cr_HostResources r) (md_containers d)))"
    using graph provenance
    by (auto simp: list_all_iff validateOwnershipGraph_def first_err_map_None case_prod_beta')
  moreover have "list_all (\<lambda>(i, r). list_all (\<lambda>q. rt_Adopted q \<longrightarrow>
          (\<exists>rs. inventoryForTarget d (ok_Target (rt_Owner q)) = Some rs \<and> q \<in> set rs) \<or> hasVerifiedRelease d r q)
        (elems (or_Receipts r))) (md_operations d)"
    using graph adopted
    by (auto simp: list_all_iff validateOwnershipGraph_def first_err_map_None case_prod_beta')
  moreover have "list_all (\<lambda>(i, r). State_Terminal (op_State (or_Operation r)) \<longrightarrow> op_Response (or_Operation r) \<noteq> [])
      (md_operations d)"
    using terminal by (auto simp: list_all_iff terminal_error_def)
  ultimately show ?thesis using active by blast
qed


text \<open>A store with a Ready Sandbox and its active pair.\<close>

definition current_sandbox :: sandbox where
  "current_sandbox = demo_sandbox\<lparr>sb_Status := (sb_Status demo_sandbox)\<lparr>ss_Phase := SandboxReady,
     ss_ObservedGeneration := 1, ss_CurrentContainerID := Some ''container-1'',
     ss_CurrentAttemptID := Some ''attempt-1''\<rparr>\<rparr>"

definition pair_tx :: tx_prog where
  "pair_tx = Call (CPutSandbox (NewSandboxRecord current_sandbox) 0)
     (\<lambda>_. Call (CPutContainerAttempt (NewContainerAttemptRecord demo_pair) 0) (\<lambda>_. Return None))"

definition pair_data :: memory_data where
  "pair_data = newMemoryData\<lparr>
     md_sandboxes := [(''sandbox-1'', (NewSandboxRecord current_sandbox)\<lparr>sr_Revision := 1\<rparr>)],
     md_containers := [(''container-1'', (NewContainerAttemptRecord demo_pair)\<lparr>cr_Revision := 1\<rparr>)]\<rparr>"

definition pair_store :: memory_store where
  "pair_store = NewMemoryStore\<lparr>ms_data := pair_data\<rparr>"

lemma current_sandbox_valid: "validateSandboxRecord (NewSandboxRecord current_sandbox) = None"
proof -
  have "Sandbox_Validate current_sandbox = None"
    by (simp add: Sandbox_Validate_None current_sandbox_def demo_sandbox_def DomainSchemaVersion_def
        InitialGeneration_def current_error_def)
  then show ?thesis
    by (simp add: validateSandboxRecord_def NewSandboxRecord_def validateSchema_def current_sandbox_def
        demo_sandbox_def DomainSchemaVersion_def validateHostResourceInventory_def)
qed

lemma demo_pair_record_valid: "validateContainerAttemptRecord (NewContainerAttemptRecord demo_pair) = None"
  using demo_pair_valid
  by (simp add: validateContainerAttemptRecord_def NewContainerAttemptRecord_def validateSchema_def
      validateHostResourceInventory_def DomainSchemaVersion_def Let_def)
    (simp add: demo_pair_def)

lemma demo_pair_facts:
  "co_ID (ca_Container demo_pair) = ''container-1''" "co_SandboxID (ca_Container demo_pair) = ''sandbox-1''"
  "at_ID (ca_Attempt demo_pair) = ''attempt-1''" "at_Phase (ca_Attempt demo_pair) = AttemptCreating"
  "obs_EventSequence (at_LastObservation (ca_Attempt demo_pair)) = 0"
  by (simp_all add: demo_pair_def empty_observation_def)

lemma current_sandbox_facts:
  "sb_ID current_sandbox = ''sandbox-1''" "ss_Phase (sb_Status current_sandbox) = SandboxReady"
  "ss_CurrentContainerID (sb_Status current_sandbox) = Some ''container-1''"
  "ss_CurrentAttemptID (sb_Status current_sandbox) = Some ''attempt-1''"
  "obs_EventSequence (ss_LastObservation (sb_Status current_sandbox)) = 0"
  by (simp_all add: current_sandbox_def demo_sandbox_def empty_observation_def)

lemma pair_one_active: "ValidateOneActiveAttempt [demo_pair] = None"
  by (simp add: ValidateOneActiveAttempt_None one_active_def)

lemma pair_run_tx:
  "run_tx pair_tx empty_view = (empty_view\<lparr>mv_data := pair_data\<rparr>, None)"
proof -
  let ?v = "empty_view\<lparr>mv_data := newMemoryData\<lparr>
     md_sandboxes := [(''sandbox-1'', (NewSandboxRecord current_sandbox)\<lparr>sr_Revision := 1\<rparr>)]\<rparr>\<rparr>"
  have "PutSandbox empty_view (NewSandboxRecord current_sandbox) 0
      = Inr (?v, (NewSandboxRecord current_sandbox)\<lparr>sr_Revision := 1\<rparr>)"
    using current_sandbox_valid
    by (simp add: PutSandbox_Inr Let_def ensureWritable_def ensureOpen_def nextRevision_Inr)
      (simp add: empty_view_def newMemoryData_def NewSandboxRecord_def current_sandbox_facts)
  moreover have "PutContainerAttempt ?v (NewContainerAttemptRecord demo_pair) 0
      = Inr (empty_view\<lparr>mv_data := pair_data\<rparr>, (NewContainerAttemptRecord demo_pair)\<lparr>cr_Revision := 1\<rparr>)"
    using demo_pair_record_valid pair_one_active
    by (simp add: PutContainerAttempt_Inr Let_def ensureWritable_def ensureOpen_def nextRevision_Inr
        validateContainerAttemptSet_def)
      (simp add: empty_view_def newMemoryData_def NewContainerAttemptRecord_def demo_pair_facts pair_data_def)
  ultimately show ?thesis by (simp add: pair_tx_def)
qed

lemma pair_update: "Store_Update NewMemoryStore False False (Some pair_tx) = (pair_store, None)"
proof -
  have "store_view NewMemoryStore True (data_clone (ms_data NewMemoryStore)) = empty_view"
    by (simp add: store_view_def NewMemoryStore_def data_clone_def newMemoryData_def empty_view_def)
  moreover have "data_validate pair_data = None"
    using pair_one_active
    by (simp add: data_validate_def pair_data_def newMemoryData_def suffix_error_def Sequence_Next_def
        terminal_order_error_def store_pairs_def validateOwnershipGraph_def sandbox_commit_error_def
        container_commit_error_def current_pair_error_def active_pair_error_def Let_def
        validateObservationReference_def validateCurrentObservationGeneration_def
        NewSandboxRecord_def NewContainerAttemptRecord_def demo_pair_facts current_sandbox_facts)
  moreover have "applyRetention DefaultRetentionPolicy pair_data = Inr (pair_data, False)"
    by (simp add: applyRetention_def retain_ordered_def RetentionPolicy_Validate_def DefaultRetentionPolicy_def
        assignTerminalSequences_def ensureRetentionMaps_def pair_data_def newMemoryData_def
        retired_first_def trim_events_def nextAvailableEventSequence_def Sequence_Next_def)
  ultimately show ?thesis
    using pair_run_tx by (simp add: Store_Update_def commit_def NewMemoryStore_def pair_store_def)
qed

theorem reachable_store_consistent_witness:
  "IsActiveAttempt (at_Phase (ca_Attempt demo_pair))
   \<and> (\<exists>b. map_of (md_sandboxes pair_data) ''sandbox-1'' = Some b
        \<and> ss_Phase (sb_Status (sr_Sandbox b)) = SandboxReady
        \<and> ss_CurrentContainerID (sb_Status (sr_Sandbox b)) = Some ''container-1'')"
proof -
  have "store_reachable pair_store"
    using update [OF NewMemoryStore_reachable, of False False "Some pair_tx"] by (simp add: pair_update)
  moreover have "pair_data = ms_data pair_store"
    by (simp add: pair_store_def)
  ultimately have "list_all (\<lambda>(i, r). IsActiveAttempt (at_Phase (ca_Attempt (cr_ContainerAttempt r))) \<longrightarrow>
      (\<exists>b. map_of (md_sandboxes pair_data) (co_SandboxID (ca_Container (cr_ContainerAttempt r))) = Some b
        \<and> ss_Phase (sb_Status (sr_Sandbox b)) = SandboxReady
        \<and> ss_CurrentContainerID (sb_Status (sr_Sandbox b)) = Some i
        \<and> ss_CurrentAttemptID (sb_Status (sr_Sandbox b)) = Some (at_ID (ca_Attempt (cr_ContainerAttempt r)))))
      (md_containers pair_data)"
    by (rule reachable_store_consistent [THEN conjunct1])
  then show ?thesis
    by (simp add: pair_data_def NewContainerAttemptRecord_def demo_pair_facts)
qed

end
