(* ===== verification/Json_Codec.thy ===== *)
theory Json_Codec
  imports Ownership "HOL-Library.Monad_Syntax"
begin

text \<open>
  How \<open>encoding/json\<close> writes the fields of a struct, \<open>omitempty\<close> included, and how
  \<open>strictjson.Decode\<close> reads them back into a zero value. After the scan of the keys every member
  has a declared name and none occurs twice, so that decoding looks each field up by its name. The
  locale \<open>document\<close> states the contract of a stored type: what is written is read back.
\<close>

subsection \<open>Structs\<close>

text \<open>The fields of a struct in their order; \<open>None\<close> is an empty one that is omitted.\<close>

fun members :: "(string \<times> json option) list \<Rightarrow> (string \<times> json) list" where
  "members [] = []"
| "members ((k, None) # fs) = members fs"
| "members ((k, Some v) # fs) = (k, v) # members fs"

definition struct_json :: "(string \<times> json option) list \<Rightarrow> json" where
  "struct_json fs = JObj (members fs)"

definition omit_text :: "string \<Rightarrow> json option" where
  "omit_text s = (if s = [] then None else Some (JStr s))"

definition omit_list :: "('a \<Rightarrow> json) \<Rightarrow> 'a list \<Rightarrow> json option" where
  "omit_list f xs = (if xs = [] then None else Some (JArr (map f xs)))"

definition show_int :: "int \<Rightarrow> string" where
  "show_int n = (if n < 0 then CHR ''-'' # show_nat (nat (- n)) else show_nat (nat n))"

definition int_json :: "int \<Rightarrow> json" where
  "int_json n = JNum (show_int n)"

definition omit_int :: "int \<Rightarrow> json option" where
  "omit_int n = (if n = 0 then None else Some (int_json n))"

definition omit_flag :: "bool \<Rightarrow> json option" where
  "omit_flag b = (if b then Some (JBool True) else None)"

definition nullable :: "('a \<Rightarrow> json) \<Rightarrow> 'a option \<Rightarrow> json" where
  "nullable f p = (case p of None \<Rightarrow> JNull | Some x \<Rightarrow> f x)"

definition text_map_json :: "(string \<times> string) list \<Rightarrow> json" where
  "text_map_json kvs = JObj (map (\<lambda>(k, v). (k, JStr v)) kvs)"

definition omit_text_map :: "(string \<times> string) list \<Rightarrow> json option" where
  "omit_text_map kvs = (if kvs = [] then None else Some (text_map_json kvs))"

subsection \<open>Decoding\<close>

text \<open>\<open>null\<close> leaves the destination as it is, which is its zero value.\<close>

definition or_zero :: "'a \<Rightarrow> (json \<Rightarrow> 'a option) \<Rightarrow> json \<Rightarrow> 'a option" where
  "or_zero z d v = (if v = JNull then Some z else d v)"

definition field :: "(string \<times> json) list \<Rightarrow> string \<Rightarrow> 'a \<Rightarrow> (json \<Rightarrow> 'a option) \<Rightarrow> 'a option" where
  "field kvs k z d = (case map_of kvs k of None \<Rightarrow> Some z | Some v \<Rightarrow> or_zero z d v)"

text \<open>\<open>DisallowUnknownFields\<close>.\<close>

definition strict_struct :: "(string \<times> schema) list \<Rightarrow> ((string \<times> json) list \<Rightarrow> 'a option) \<Rightarrow> json \<Rightarrow> 'a option" where
  "strict_struct decl body v =
    (case v of
       JObj kvs \<Rightarrow> if list_all (\<lambda>(k, _). k \<in> fst ` set decl) kvs then body kvs else None
     | _ \<Rightarrow> None)"

definition text_of :: "json \<Rightarrow> string option" where
  "text_of v = (case v of JStr s \<Rightarrow> Some s | _ \<Rightarrow> None)"

definition flag_of :: "json \<Rightarrow> bool option" where
  "flag_of v = (case v of JBool b \<Rightarrow> Some b | _ \<Rightarrow> None)"

definition parse_int :: "string \<Rightarrow> int option" where
  "parse_int s =
    (let neg = s \<noteq> [] \<and> hd s = CHR ''-''; ds = (if neg then tl s else s)
     in if ds \<noteq> [] \<and> list_all is_digit ds
        then Some ((if neg then - 1 else 1) * int (decimal_value ds)) else None)"

definition int_of_json :: "int \<Rightarrow> int \<Rightarrow> json \<Rightarrow> int option" where
  "int_of_json lo hi v =
    (case v of
       JNum s \<Rightarrow> do { n \<leftarrow> parse_int s; if lo \<le> n \<and> n \<le> hi then Some n else None }
     | _ \<Rightarrow> None)"

definition int64_of :: "json \<Rightarrow> int option" where
  "int64_of = int_of_json (- (2 ^ 63)) (2 ^ 63 - 1)"

definition int32_of :: "json \<Rightarrow> int option" where
  "int32_of = int_of_json (- (2 ^ 31)) (2 ^ 31 - 1)"

definition uint64_of :: "json \<Rightarrow> u64 option" where
  "uint64_of v = map_option of_int (int_of_json 0 (2 ^ 64 - 1) v)"

definition uint32_of :: "json \<Rightarrow> u32 option" where
  "uint32_of v = map_option of_int (int_of_json 0 (2 ^ 32 - 1) v)"

definition list_of :: "'a \<Rightarrow> (json \<Rightarrow> 'a option) \<Rightarrow> json \<Rightarrow> 'a list option" where
  "list_of z d v = (case v of JArr vs \<Rightarrow> those (map (or_zero z d) vs) | _ \<Rightarrow> None)"

text \<open>A map is its entries in key order.\<close>

definition text_map_of :: "json \<Rightarrow> (string \<times> string) list option" where
  "text_map_of v =
    (case v of
       JObj kvs \<Rightarrow>
         map_option (sort_key fst) (those (map (\<lambda>(k, w). map_option (Pair k) (or_zero [] text_of w)) kvs))
     | _ \<Rightarrow> None)"

definition pointer :: "(json \<Rightarrow> 'a option) \<Rightarrow> json \<Rightarrow> 'a option option" where
  "pointer d v = map_option Some (d v)"

datatype decode_error = StrictError strict_error | TypeMismatch

definition strict_decode :: "schema \<Rightarrow> (json \<Rightarrow> 'a option) \<Rightarrow> string \<Rightarrow> decode_error + 'a" where
  "strict_decode sc d payload =
    (case Decode sc payload of
       Inl e \<Rightarrow> Inl (StrictError e)
     | Inr v \<Rightarrow> (case d v of None \<Rightarrow> Inl TypeMismatch | Some x \<Rightarrow> Inr x))"

subsection \<open>Fields that were written are read back\<close>

definition absent :: "string \<Rightarrow> (string \<times> json option) list \<Rightarrow> bool" where
  "absent k fs \<longleftrightarrow> k \<notin> fst ` set fs"

lemma absent_simps [simp]:
  "absent k []" "absent k ((k', v) # fs) \<longleftrightarrow> k \<noteq> k' \<and> absent k fs"
  by (auto simp: absent_def)

lemma absent_members: "absent k fs \<Longrightarrow> map_of (members fs) k = None"
  by (induction fs rule: members.induct) auto

lemma known_members: "list_all (\<lambda>(k, v). P k) fs \<Longrightarrow> list_all (\<lambda>(k, v). P k) (members fs)"
  by (induction fs rule: members.induct) auto

lemma strict_struct_json:
  "list_all (\<lambda>(k, v). k \<in> fst ` set decl) fs \<Longrightarrow> strict_struct decl body (struct_json fs) = body (members fs)"
  using known_members [of "\<lambda>k. k \<in> fst ` set decl" fs] by (simp add: strict_struct_def struct_json_def)

declare members.simps(2, 3) [simp del]

lemma field_Nil [simp]: "field (members []) k z d = Some z"
  by (simp add: field_def)

lemma field_skip [simp]:
  "k \<noteq> k' \<Longrightarrow> field (members ((k', v) # fs)) k z d = field (members fs) k z d"
  by (cases v) (simp_all add: field_def members.simps)

lemma field_given [simp]: "v \<noteq> JNull \<Longrightarrow> field (members ((k, Some v) # fs)) k z d = d v"
  by (simp add: field_def or_zero_def members.simps)

lemma field_omitted: "absent k fs \<Longrightarrow> field (members ((k, None) # fs)) k z d = Some z"
  by (simp add: field_def absent_members members.simps)

lemma field_text [simp]: "absent k fs \<Longrightarrow> field (members ((k, omit_text s) # fs)) k [] text_of = Some s"
  by (simp add: omit_text_def field_omitted text_of_def)

lemma those_Some: "(\<forall>x \<in> set xs. f (g x) = Some (h x)) \<Longrightarrow> those (map f (map g xs)) = Some (map h xs)"
  by (induction xs) auto

lemma list_of_json:
  assumes "\<forall>x \<in> set xs. f x \<noteq> JNull \<and> d (f x) = Some x"
  shows "list_of z d (JArr (map f xs)) = Some xs"
  using those_Some [of xs "or_zero z d" f id] assms by (simp add: list_of_def or_zero_def)

lemma field_list [simp]:
  assumes "absent k fs" and "\<forall>x \<in> set xs. f x \<noteq> JNull \<and> d (f x) = Some x"
  shows "field (members ((k, omit_list f xs) # fs)) k [] (list_of z d) = Some xs"
  using assms list_of_json [OF assms(2)] by (simp add: omit_list_def field_omitted)

lemma field_pointer [simp]:
  assumes "absent k fs" and "\<forall>x. p = Some x \<longrightarrow> f x \<noteq> JNull \<and> d (f x) = Some x"
  shows "field (members ((k, map_option f p) # fs)) k None (pointer d) = Some p"
  using assms by (cases p) (simp_all add: field_omitted pointer_def)

lemma field_nullable [simp]:
  assumes "\<forall>x. p = Some x \<longrightarrow> f x \<noteq> JNull \<and> d (f x) = Some x"
  shows "field (members ((k, Some (nullable f p)) # fs)) k None (pointer d) = Some p"
  using assms by (cases p) (simp_all add: field_def or_zero_def nullable_def pointer_def members.simps)

lemma field_flag [simp]: "absent k fs \<Longrightarrow> field (members ((k, omit_flag b) # fs)) k False flag_of = Some b"
  by (simp add: omit_flag_def field_omitted flag_of_def)

lemma int_json_not_null [simp]: "int_json n \<noteq> JNull"
  by (simp add: int_json_def)

lemma parse_show_int: "parse_int (show_int n) = Some n"
proof -
  have "\<not> (show_nat m \<noteq> [] \<and> hd (show_nat m) = CHR ''-'')" for m
    using show_nat_digits [of m] by (cases "show_nat m") (auto simp: is_digit_def in_range_def)
  then show ?thesis
    using show_nat_digits by (auto simp: parse_int_def show_int_def Let_def)
qed

lemma int_of_int_json [simp]: "lo \<le> n \<Longrightarrow> n \<le> hi \<Longrightarrow> int_of_json lo hi (int_json n) = Some n"
  by (simp add: int_of_json_def int_json_def parse_show_int)

lemma uint64_of_json [simp]: "uint64_of (int_json (uint w)) = Some w"
  using uint_bounded [of w] by (simp add: uint64_of_def)

lemma uint32_of_json [simp]: "uint32_of (int_json (uint w)) = Some w"
  using uint_bounded [of w] by (simp add: uint32_of_def)

subsection \<open>What is written is valid UTF-8\<close>

lemma ValidString_append: "ValidString s \<Longrightarrow> ValidString t \<Longrightarrow> ValidString (s @ t)"
  by (simp add: ValidString_def valid_bytes_append)

lemma ascii_ValidString: "list_all (\<lambda>c. (of_char c :: nat) < 128) s \<Longrightarrow> ValidString s"
  by (induction s) (auto simp: ValidString_def)

definition number_char :: "char \<Rightarrow> bool" where
  "number_char c \<longleftrightarrow> is_digit c \<or> (of_char c :: nat) \<in> {43, 45, 46, 69, 101}"

lemma number_chars:
  "lex_exp pre s = Some (t, r) \<Longrightarrow> list_all number_char pre \<Longrightarrow> list_all number_char t"
  "lex_frac pre s = Some (t, r) \<Longrightarrow> list_all number_char pre \<Longrightarrow> list_all number_char t"
  "lex_int pre s = Some (t, r) \<Longrightarrow> list_all number_char pre \<Longrightarrow> list_all number_char t"
proof -
  have digits: "list_all number_char (takeWhile is_digit u)" for u
    by (auto simp: list_all_iff number_char_def dest: set_takeWhileD)
  have exp: "lex_exp pre s = Some (t, r) \<Longrightarrow> list_all number_char pre \<Longrightarrow> list_all number_char t" for pre s
    using digits
    by (auto simp: lex_exp_def Let_def number_char_def char_is_def list_all_iff dest: set_takeWhileD
        split: list.splits if_splits)
  have frac: "lex_frac pre s = Some (t, r) \<Longrightarrow> list_all number_char pre \<Longrightarrow> list_all number_char t" for pre s
    using digits exp by (auto simp: lex_frac_def number_char_def char_is_def split: list.splits if_splits)
  have int: "lex_int pre s = Some (t, r) \<Longrightarrow> list_all number_char pre \<Longrightarrow> list_all number_char t" for pre s
    using digits frac
    by (auto simp: lex_int_def number_char_def char_is_def is_digit_def in_range_def split: list.splits if_splits)
  show "lex_exp pre s = Some (t, r) \<Longrightarrow> list_all number_char pre \<Longrightarrow> list_all number_char t"
    and "lex_frac pre s = Some (t, r) \<Longrightarrow> list_all number_char pre \<Longrightarrow> list_all number_char t"
    and "lex_int pre s = Some (t, r) \<Longrightarrow> list_all number_char pre \<Longrightarrow> list_all number_char t"
    by (fact exp frac int)+
qed

lemma ValidString_number: "lex_number n = Some (n, []) \<Longrightarrow> ValidString n"
proof (rule ascii_ValidString)
  assume "lex_number n = Some (n, [])"
  then have "list_all number_char n"
    using number_chars(3) [of "[hd n]" "tl n" n "[]"] number_chars(3) [of "[]" n n "[]"]
    by (auto simp: lex_number_def number_char_def char_is_def split: list.splits if_splits)
  then show "list_all (\<lambda>c. (of_char c :: nat) < 128) n"
    by (auto simp: list_all_iff number_char_def is_digit_def in_range_def)
qed

lemma hex_digit_ascii: "m < 16 \<Longrightarrow> (of_char (hex_digit m) :: nat) < 128"
  by (simp add: hex_digit_def)

lemma ValidString_unicode_escape: "ValidString (unicode_escape n)"
  by (rule ascii_ValidString) (simp add: unicode_escape_def hex_digit_ascii)

lemma ValidString_escape_ascii:
  assumes "(of_char c :: nat) < 128"
  shows "ValidString (escape_ascii c)"
proof -
  have "(e :: nat) < 128" if "map_of [(34, 34), (92, 92), (8, 98), (12, 102), (10, 110), (13, 114), (9, 116)]
      (of_char c :: nat) = Some e" for e
    using that by (auto split: if_splits)
  then show ?thesis
    using assms ValidString_unicode_escape
    by (auto simp: escape_ascii_def intro!: ascii_ValidString split: option.split)
qed

lemma ValidString_escape: "ValidString (escape_string s)"
proof (induction s rule: escape_string.induct)
  case 1
  then show ?case by (simp add: ValidString_def)
next
  case (2 c cs)
  show ?case
  proof (cases "rune_at (bytes_of (c # cs))")
    case None
    then show ?thesis using 2 ValidString_unicode_escape by (simp add: ValidString_append)
  next
    case (Some rw)
    obtain r w where at: "rune_at (bytes_of (c # cs)) = Some (r, w)" using Some by (cases rw) auto
    have narrow: "w = 1 \<Longrightarrow> (of_char c :: nat) < 128"
      using at rune_at_one [of "of_char c" "bytes_of cs" r] by auto
    have whole: "ValidString (take w (c # cs))"
      using valid_bytes_rune [of "of_char c" "bytes_of cs" r w] at by (simp add: ValidString_def)
    show ?thesis
      using 2 at narrow whole ValidString_escape_ascii [of c] ValidString_unicode_escape [of r]
      by (simp only: escape_string.simps at option.case prod.case) (auto intro!: ValidString_append)
  qed
qed

lemma ValidString_join:
  "list_all ValidString xs \<Longrightarrow> ValidString sep \<Longrightarrow> ValidString (join_with sep xs)"
proof (cases xs)
  case (Cons x xs')
  assume "list_all ValidString xs" "ValidString sep"
  with Cons have "ValidString x" "list_all ValidString xs'" by simp_all
  moreover have "list_all ValidString ys \<Longrightarrow> ValidString (concat (map ((@) sep) ys))" for ys
    using \<open>ValidString sep\<close> by (induction ys) (auto simp: ValidString_def valid_bytes_append)
  ultimately show ?thesis using Cons by (simp add: join_with_concat ValidString_append)
qed (simp add: ValidString_def)

lemma ValidString_quote: "ValidString (quote s)"
proof -
  have "ValidString [CHR 0x22]" by (simp add: ValidString_def)
  then show ?thesis
    using ValidString_append [OF ValidString_append [of "[CHR 0x22]" "escape_string s"], of "[CHR 0x22]"]
      ValidString_escape by (simp add: quote_def)
qed

lemma ValidString_encode: "writable v \<Longrightarrow> ValidString (json_encode v)"
proof (induction v rule: json_encode.induct)
  case (5 vs)
  then have "ValidString (join_with '','' (map json_encode vs))"
    by (intro ValidString_join) (auto simp: list_all_iff ValidString_def)
  then show ?case
    using ValidString_append [of "''[''"] ValidString_append [of _ "'']''"] by (simp add: ValidString_def)
next
  case (6 kvs)
  have "ValidString (quote k @ '':'' @ json_encode v)" if "(k, v) \<in> set kvs" for k v
    using 6 that ValidString_quote
    by (intro ValidString_append) (auto simp: list_all_iff ValidString_def)
  then have "ValidString (join_with '','' (map (\<lambda>(k, v). quote k @ '':'' @ json_encode v) kvs))"
    by (intro ValidString_join) (auto simp: list_all_iff ValidString_def)
  then show ?case
    using ValidString_append [of "''{''"] ValidString_append [of _ "''}''"] by (simp add: ValidString_def)
qed (simp_all add: ValidString_number ValidString_quote, simp_all add: ValidString_def)

subsection \<open>Documents\<close>

text \<open>\<open>fits n sc v\<close>: \<open>v\<close> can be written, has the keys of \<open>sc\<close>, none of them twice, and nests at
  most \<open>n\<close> deep.\<close>

definition fits :: "nat \<Rightarrow> schema \<Rightarrow> json \<Rightarrow> bool" where
  "fits n sc v \<longleftrightarrow> writable v \<and> unique_keys v \<and> canonical_keys sc v \<and> json_depth v \<le> n"

definition opt_fits :: "nat \<Rightarrow> schema \<Rightarrow> json option \<Rightarrow> bool" where
  "opt_fits n sc o' = (case o' of None \<Rightarrow> True | Some v \<Rightarrow> fits n sc v)"

definition field_fits :: "nat \<Rightarrow> (string \<times> schema) list \<Rightarrow> string \<times> json option \<Rightarrow> bool" where
  "field_fits n decl = (\<lambda>(k, o').
    list_all (\<lambda>c. (of_char c :: nat) < 128) k \<and> (case map_of decl k of None \<Rightarrow> False | Some sc \<Rightarrow> opt_fits n sc o'))"

lemma depth_le_foldr: "foldr (\<lambda>v d. max (f v) d) xs (0 :: nat) \<le> n \<longleftrightarrow> (\<forall>x \<in> set xs. f x \<le> n)"
  by (induction xs) auto

lemma members_set: "set (members fs) = {(k, v). (k, Some v) \<in> set fs}"
  by (induction fs rule: members.induct) (auto simp: members.simps)

lemma members_distinct: "distinct (map fst fs) \<Longrightarrow> distinct (map fst (members fs))"
proof (induction fs rule: members.induct)
  case (3 k v fs)
  then show ?case by (force simp: members.simps members_set)
qed (simp_all add: members.simps)

lemma fits_struct:
  assumes "0 < n" and "distinct (map fst fs)" and "list_all (field_fits (n - 1) decl) fs"
  shows "fits n (Struct decl) (struct_json fs)"
proof -
  have each: "ValidString k \<and> (\<exists>sc. map_of decl k = Some sc \<and> fits (n - 1) sc v)" if "(k, v) \<in> set (members fs)" for k v
    using assms(3) that
    by (fastforce simp: members_set list_all_iff field_fits_def opt_fits_def
        intro: ascii_ValidString split: option.splits)
  have "foldr (\<lambda>(k, v) d. max (json_depth v) d) (members fs) 0 \<le> n - 1"
    using each depth_le_foldr [of "\<lambda>(k, v). json_depth v" "members fs" "n - 1"]
    by (fastforce simp: fits_def case_prod_beta')
  then show ?thesis
    using assms(1) each members_distinct [OF assms(2)]
    by (fastforce simp: fits_def struct_json_def list_all_iff member_schema_def)
qed

lemma fits_scalar [simp]:
  "fits n sc (JStr s) \<longleftrightarrow> ValidString s" "fits n sc (JBool b)" "fits n sc JNull"
  by (simp_all add: fits_def)

lemma opt_fits_simps [simp]:
  "opt_fits n sc None" "opt_fits n sc (Some v) \<longleftrightarrow> fits n sc v"
  "ValidString s \<Longrightarrow> opt_fits n sc (omit_text s)" "opt_fits n sc (omit_flag b)"
  by (simp_all add: opt_fits_def omit_text_def omit_flag_def)

lemma fits_mono: "fits m sc v \<Longrightarrow> m \<le> n \<Longrightarrow> fits n sc v"
  by (simp add: fits_def)

lemma lex_pre:
  "lex_exp pre s = map_option (\<lambda>(t, r). (pre @ t, r)) (lex_exp [] s)"
  "lex_frac pre s = map_option (\<lambda>(t, r). (pre @ t, r)) (lex_frac [] s)"
  "lex_int pre s = map_option (\<lambda>(t, r). (pre @ t, r)) (lex_int [] s)"
proof -
  have exp: "lex_exp pre s = map_option (\<lambda>(t, r). (pre @ t, r)) (lex_exp [] s)" for pre s
    by (simp add: lex_exp_def Let_def split: list.split)
  have frac: "lex_frac pre s = map_option (\<lambda>(t, r). (pre @ t, r)) (lex_frac [] s)" for pre s
    by (subst (1 2) lex_frac_def, subst (1 2 3 4) exp)
      (simp add: option.map_comp comp_def case_prod_beta' split: list.split)
  have int: "lex_int pre s = map_option (\<lambda>(t, r). (pre @ t, r)) (lex_int [] s)" for pre s
    by (subst (1 2) lex_int_def, subst (1 2 3 4) frac)
      (simp add: option.map_comp comp_def case_prod_beta' split: list.split)
  show "lex_exp pre s = map_option (\<lambda>(t, r). (pre @ t, r)) (lex_exp [] s)"
    and "lex_frac pre s = map_option (\<lambda>(t, r). (pre @ t, r)) (lex_frac [] s)"
    and "lex_int pre s = map_option (\<lambda>(t, r). (pre @ t, r)) (lex_int [] s)"
    by (fact exp frac int)+
qed

lemma lex_show_int: "lex_number (show_int n) = Some (show_int n, [])"
proof -
  have nat: "lex_int [] (show_nat m) = Some (show_nat m, [])" for m
    using lex_show_nat [of m] show_nat_digits [of m]
    by (cases "show_nat m") (auto simp: lex_number_def char_is_def is_digit_def in_range_def)
  show ?thesis
    using nat lex_pre(3) [of "''-''"] lex_show_nat
    by (simp add: show_int_def lex_number_def char_is_def)
qed

lemma fits_int [simp]: "fits n sc (int_json i)"
proof -
  have "show_int i \<noteq> []" using show_nat_digits by (simp add: show_int_def)
  then show ?thesis by (simp add: fits_def int_json_def lex_show_int)
qed

lemma fits_list:
  assumes "0 < n" and "list_all (\<lambda>x. fits (n - 1) sc (f x)) xs"
  shows "fits n (ListOf sc) (JArr (map f xs))"
  using assms depth_le_foldr [of json_depth "map f xs" "n - 1"]
  by (auto simp: fits_def list_all_iff)

lemma opt_fits_list [simp]:
  "0 < n \<Longrightarrow> list_all (\<lambda>x. fits (n - 1) sc (f x)) xs \<Longrightarrow> opt_fits n (ListOf sc) (omit_list f xs)"
  by (simp add: omit_list_def fits_list)

lemma opt_fits_more [simp]:
  "opt_fits n sc (omit_int i)"
  "(\<And>x. p = Some x \<Longrightarrow> fits n sc (f x)) \<Longrightarrow> opt_fits n sc (map_option f p)"
  "(\<And>x. p = Some x \<Longrightarrow> fits n sc (f x)) \<Longrightarrow> fits n sc (nullable f p)"
  by (auto simp: omit_int_def opt_fits_def nullable_def split: option.split)

lemma fits_text_map:
  assumes "0 < n" and "distinct (map fst kvs)" and "list_all (\<lambda>(k, v). ValidString k \<and> ValidString v) kvs"
  shows "fits n (MapOf Any) (text_map_json kvs)"
proof -
  have "distinct (map (fst \<circ> (\<lambda>(k, v). (k, JStr v))) kvs)"
    using assms(2) by (simp add: comp_def case_prod_beta')
  moreover have "foldr (\<lambda>(k, v) d. max (json_depth v) d) (map (\<lambda>(k, v). (k, JStr v)) kvs) 0 = 0"
    by (induction kvs) auto
  ultimately show ?thesis
    using assms by (auto simp: fits_def text_map_json_def list_all_iff member_schema_def)
qed

lemma text_map_read:
  assumes "sorted (map fst kvs)"
  shows "text_map_of (text_map_json kvs) = Some kvs"
proof -
  have "those (map (\<lambda>(k, w). map_option (Pair k) (or_zero [] text_of w)) (map (\<lambda>(k, v). (k, JStr v)) kvs)) = Some kvs"
    by (induction kvs) (auto simp: or_zero_def text_of_def)
  then show ?thesis
    using assms by (simp add: text_map_of_def text_map_json_def sort_key_id_if_sorted)
qed

lemma opt_fits_text_map [simp]:
  "0 < n \<Longrightarrow> distinct (map fst kvs) \<Longrightarrow> list_all (\<lambda>(k, v). ValidString k \<and> ValidString v) kvs \<Longrightarrow>
   opt_fits n (MapOf Any) (omit_text_map kvs)"
  by (simp add: omit_text_map_def fits_text_map)

lemma field_text_map [simp]:
  "absent k fs \<Longrightarrow> sorted (map fst kvs) \<Longrightarrow>
   field (members ((k, omit_text_map kvs) # fs)) k [] text_map_of = Some kvs"
  using text_map_read [of kvs] by (simp add: omit_text_map_def field_omitted text_map_json_def)

lemma field_int [simp]:
  "absent k fs \<Longrightarrow> lo \<le> n \<Longrightarrow> n \<le> hi \<Longrightarrow>
   field (members ((k, omit_int n) # fs)) k 0 (int_of_json lo hi) = Some n"
  by (simp add: omit_int_def field_omitted)

lemma field_uint64 [simp]:
  "absent k fs \<Longrightarrow> field (members ((k, omit_int (uint w)) # fs)) k 0 uint64_of = Some w"
  by (simp add: omit_int_def field_omitted uint_0_iff)

locale document =
  fixes enc :: "'a \<Rightarrow> json" and dec :: "json \<Rightarrow> 'a option" and sc :: schema and storable :: "'a \<Rightarrow> bool"
  assumes written: "storable x \<Longrightarrow> fits maxNestingDepth sc (enc x)"
    and read_back: "storable x \<Longrightarrow> dec (enc x) = Some x"
begin

lemma parsed: "storable x \<Longrightarrow> json_parse (json_encode (enc x)) = Some (enc x)"
  using written [of x] by (simp add: fits_def json_parse_encode)

lemma roundtrip:
  assumes "storable x"
  shows "strict_decode sc dec (json_encode (enc x)) = Inr x"
proof -
  have "Decode sc (json_encode (enc x)) = Inr (enc x)"
    using written [OF assms] parsed [OF assms] by (simp add: Decode_Inr fits_def ValidString_encode)
  then show ?thesis using read_back [OF assms] by (simp add: strict_decode_def)
qed

lemma json_valid: "storable x \<Longrightarrow> json_Valid (json_encode (enc x))"
  by (simp add: json_Valid_def parsed)

lemma encode_inject:
  "storable x \<Longrightarrow> storable y \<Longrightarrow> json_encode (enc x) = json_encode (enc y) \<Longrightarrow> x = y"
  using roundtrip by (metis sum.inject(2))

end

end
