(* ===== verification/Go_Time.thy ===== *)
theory Go_Time
  imports Go_Std "HOL-Library.Monad_Syntax"
begin

text \<open>
  The text of a \<open>time.Time\<close> in JSON: the proleptic Gregorian calendar, RFC 3339 with nanoseconds as
  \<open>MarshalJSON\<close> writes it and as \<open>UnmarshalJSON\<close> reads it back.
\<close>

subsection \<open>The calendar\<close>

definition leap_year :: "int \<Rightarrow> bool" where
  "leap_year y \<longleftrightarrow> y mod 4 = 0 \<and> y mod 100 \<noteq> 0 \<or> y mod 400 = 0"

definition month_lengths :: "int \<Rightarrow> int list" where
  "month_lengths y = [31, if leap_year y then 29 else 28, 31, 30, 31, 30, 31, 31, 30, 31, 30, 31]"

text \<open>Days are counted from the first of January of the year 1.\<close>

definition days_before_year :: "int \<Rightarrow> int" where
  "days_before_year y = 365 * (y - 1) + (y - 1) div 4 - (y - 1) div 100 + (y - 1) div 400"

lemma div_pred:
  fixes y n :: int
  assumes "0 < n"
  shows "y div n = (y - 1) div n + (if y mod n = 0 then 1 else 0)"
proof -
  have y: "y = n * (y div n) + y mod n" and r: "0 \<le> y mod n" "y mod n < n"
    using assms by simp_all
  show ?thesis
  proof (cases "y mod n = 0")
    case True
    then have "y - 1 = n * (y div n - 1) + (n - 1)" using y by (simp add: algebra_simps)
    from int_div_pos_eq [OF this] show ?thesis using True assms by simp
  next
    case False
    then have "y - 1 = n * (y div n) + (y mod n - 1)" using y by simp
    from int_div_pos_eq [OF this] show ?thesis using False r by simp
  qed
qed

lemma days_before_Suc: "days_before_year (y + 1) = days_before_year y + sum_list (month_lengths y)"
proof -
  have sum: "365 * y + a - b + c = 365 * (y - 1) + a' - b' + c' + (if p \<and> \<not> q \<or> r then 366 else 365)"
    if "a = a' + (if p then 1 else 0)" "b = b' + (if q then 1 else 0)" "c = c' + (if r then 1 else 0)"
      "r \<longrightarrow> q" "q \<longrightarrow> p" for a a' b b' c c' :: int and p q r
    using that by auto
  have "y mod 400 = 0 \<longrightarrow> y mod 100 = 0" and "y mod 100 = 0 \<longrightarrow> y mod 4 = 0"
    using dvd_trans [of 100 400 y] dvd_trans [of 4 100 y] by (simp_all add: dvd_eq_mod_eq_0)
  from sum [OF div_pred [of 4 y] div_pred [of 100 y] div_pred [of 400 y] this]
  have "365 * y + y div 4 - y div 100 + y div 400
      = 365 * (y - 1) + (y - 1) div 4 - (y - 1) div 100 + (y - 1) div 400 + (if leap_year y then 366 else 365)"
    by (simp only: leap_year_def)
  moreover have "sum_list (month_lengths y) = (if leap_year y then 366 else 365)"
    by (simp add: month_lengths_def)
  ultimately show ?thesis by (simp only: days_before_year_def add_diff_cancel_right')
qed

lemma year_length: "365 \<le> sum_list (month_lengths y)"
  by (simp add: month_lengths_def)

text \<open>The year of a day, searched upwards from one that is not too late.\<close>

function year_from :: "int \<Rightarrow> int \<Rightarrow> int" where
  "year_from y d = (if days_before_year (y + 1) \<le> d then year_from (y + 1) d else y)"
  by auto
termination
proof (relation "measure (\<lambda>(y, d). nat (d - days_before_year y))", goal_cases)
  case (2 y d)
  then show ?case using days_before_Suc [of y] year_length [of y] by simp
qed simp

declare year_from.simps [simp del]

lemma year_from_bounds:
  "days_before_year y \<le> d \<Longrightarrow>
   days_before_year (year_from y d) \<le> d \<and> d < days_before_year (year_from y d + 1)"
proof (induction y d rule: year_from.induct)
  case (1 y d)
  then show ?case by (cases "days_before_year (y + 1) \<le> d") (simp_all add: year_from.simps [of y d])
qed

definition year_of :: "int \<Rightarrow> int" where
  "year_of d = year_from (d div (if 0 \<le> d then 366 else 365) + 1) d"

lemma year_of_bounds: "days_before_year (year_of d) \<le> d \<and> d < days_before_year (year_of d + 1)"
proof -
  have "days_before_year (d div (if 0 \<le> d then 366 else 365) + 1) \<le> d"
  proof (cases "0 \<le> d")
    case True
    define z where "z = d div 366"
    have "0 \<le> z" "366 * z \<le> d" using True by (simp_all add: z_def)
    moreover have "z div 4 \<le> z" using \<open>0 \<le> z\<close> by simp
    moreover have "z div 400 \<le> z div 100" using \<open>0 \<le> z\<close> by (intro zdiv_mono2) simp_all
    ultimately show ?thesis using True by (simp add: days_before_year_def flip: z_def)
  next
    case False
    define z where "z = d div 365"
    have "z < 0" "365 * z \<le> d" using False by (simp_all add: z_def pos_imp_zdiv_neg_iff)
    moreover have "z div 4 \<le> z div 100" using \<open>z < 0\<close> by (intro zdiv_mono2_neg) simp_all
    moreover have "z div 400 < 0" using \<open>z < 0\<close> by (simp add: pos_imp_zdiv_neg_iff)
    ultimately show ?thesis using False by (simp add: days_before_year_def flip: z_def)
  qed
  then show ?thesis unfolding year_of_def by (rule year_from_bounds)
qed

text \<open>The month and the day in it, from the days since the start of the year.\<close>

fun month_day :: "nat \<Rightarrow> int list \<Rightarrow> int \<Rightarrow> nat \<times> int" where
  "month_day m [] r = (m, r + 1)"
| "month_day m (l # ls) r = (if r < l then (m, r + 1) else month_day (Suc m) ls (r - l))"

lemma month_day_spec:
  "month_day m ls r = (k, d) \<Longrightarrow> 0 \<le> r \<Longrightarrow> r < sum_list ls \<Longrightarrow>
   m \<le> k \<and> k < m + length ls \<and> 1 \<le> d \<and> d \<le> ls ! (k - m) \<and> sum_list (take (k - m) ls) + d - 1 = r"
proof (induction m ls r rule: month_day.induct)
  case (2 m l ls r)
  show ?case
  proof (cases "r < l")
    case False
    then have "Suc m \<le> k \<and> k < Suc m + length ls \<and> 1 \<le> d \<and> d \<le> ls ! (k - Suc m)
        \<and> sum_list (take (k - Suc m) ls) + d - 1 = r - l"
      using 2 by simp
    moreover from this have "k - m = Suc (k - Suc m)" by arith
    ultimately show ?thesis by simp
  qed (use 2 in auto)
qed simp

definition civil_date :: "int \<Rightarrow> int \<times> nat \<times> int" where
  "civil_date d = (year_of d, month_day 1 (month_lengths (year_of d)) (d - days_before_year (year_of d)))"

definition civil_days :: "int \<Rightarrow> nat \<Rightarrow> int \<Rightarrow> int" where
  "civil_days y m d = days_before_year y + sum_list (take (m - 1) (month_lengths y)) + d - 1"

lemma civil_date_days:
  assumes "civil_date n = (y, m, d)"
  shows "civil_days y m d = n" and "1 \<le> m" and "m \<le> 12" and "1 \<le> d" and "d \<le> month_lengths y ! (m - 1)"
proof -
  have y: "y = year_of n" and md: "month_day 1 (month_lengths y) (n - days_before_year y) = (m, d)"
    using assms by (auto simp: civil_date_def)
  have "0 \<le> n - days_before_year y" "n - days_before_year y < sum_list (month_lengths y)"
    using year_of_bounds [of n] days_before_Suc [of y] y by simp_all
  from month_day_spec [OF md this] show "civil_days y m d = n" "1 \<le> m" "m \<le> 12" "1 \<le> d"
    "d \<le> month_lengths y ! (m - 1)"
    by (simp_all add: civil_days_def) (simp add: month_lengths_def)
qed

subsection \<open>Writing\<close>

text \<open>\<open>pad k n\<close> is \<open>n\<close> in \<open>k\<close> decimal digits.\<close>

fun pad :: "nat \<Rightarrow> nat \<Rightarrow> string" where
  "pad 0 n = []"
| "pad (Suc k) n = pad k (n div 10) @ [char_of (n mod 10 + 48)]"

fun loc_offset :: "location \<Rightarrow> int" where
  "loc_offset UTC = 0"
| "loc_offset (FixedZone s) = s"
| "loc_offset (Located i s) = s"

definition zone_text :: "int \<Rightarrow> string" where
  "zone_text off =
    (if off = 0 then ''Z''
     else let zone = nat (\<bar>off\<bar> div 60) in
       (if off < 0 \<and> 0 < zone then CHR ''-'' else CHR ''+'') # pad 2 (zone div 60) @ '':'' @ pad 2 (zone mod 60))"

definition strip_zeros :: "string \<Rightarrow> string" where
  "strip_zeros s = rev (dropWhile (\<lambda>c. c = CHR ''0'') (rev s))"

definition fraction_text :: "nat \<Rightarrow> string" where
  "fraction_text ns = (let ds = strip_zeros (pad 9 ns) in if ds = [] then [] else CHR ''.'' # ds)"

definition clock_text :: "nat \<Rightarrow> string" where
  "clock_text s = pad 2 (s div 3600) @ '':'' @ pad 2 (s div 60 mod 60) @ '':'' @ pad 2 (s mod 60)"

definition date_text :: "int \<times> nat \<times> int \<Rightarrow> string" where
  "date_text = (\<lambda>(y, m, d). pad 4 (nat y) @ ''-'' @ pad 2 m @ ''-'' @ pad 2 (nat d))"

definition local_seconds :: "gotime \<Rightarrow> int" where
  "local_seconds t = t_wall t div 1000000000 + loc_offset (t_loc t)"

definition time_text :: "gotime \<Rightarrow> string" where
  "time_text t =
    date_text (civil_date (local_seconds t div 86400)) @ ''T'' @ clock_text (nat (local_seconds t mod 86400))
    @ fraction_text (nat (t_wall t mod 1000000000)) @ zone_text (loc_offset (t_loc t))"

text \<open>\<open>MarshalJSON\<close> refuses years that do not have four digits and offsets of a day or more.\<close>

definition time_marshals :: "gotime \<Rightarrow> bool" where
  "time_marshals t \<longleftrightarrow>
     year_of (local_seconds t div 86400) \<in> {0..9999} \<and> \<bar>loc_offset (t_loc t)\<bar> < 86400"

subsection \<open>Reading\<close>

definition number_in :: "string \<Rightarrow> nat \<Rightarrow> nat \<Rightarrow> nat option" where
  "number_in s lo hi =
    (if list_all is_digit s \<and> lo \<le> decimal_value s \<and> decimal_value s \<le> hi then Some (decimal_value s) else None)"

text \<open>An offset is read as a fixed zone; Go uses the local zone in its place if the two agree at that
  instant.\<close>

definition parse_zone :: "string \<Rightarrow> location option" where
  "parse_zone s =
    (if s = ''Z'' then Some UTC
     else if length s = 6 \<and> (s ! 0 = CHR ''+'' \<or> s ! 0 = CHR ''-'') \<and> s ! 3 = CHR '':'' then
       do { h \<leftarrow> number_in (take 2 (drop 1 s)) 0 23;
            m \<leftarrow> number_in (drop 4 s) 0 59;
            Some (FixedZone ((if s ! 0 = CHR ''-'' then -1 else 1) * int ((h * 60 + m) * 60))) }
     else None)"

definition parse_fraction :: "string \<Rightarrow> nat \<times> string" where
  "parse_fraction s =
    (case s of
       c # d # cs \<Rightarrow>
         if c = CHR ''.'' \<and> is_digit d
         then (decimal_value (take 9 (takeWhile is_digit (d # cs) @ replicate 9 (CHR ''0''))),
               dropWhile is_digit (d # cs))
         else (0, s)
     | _ \<Rightarrow> (0, s))"

definition parse_time :: "string \<Rightarrow> gotime option" where
  "parse_time s =
    (if length s < 19 \<or> s ! 4 \<noteq> CHR ''-'' \<or> s ! 7 \<noteq> CHR ''-'' \<or> s ! 10 \<noteq> CHR ''T''
        \<or> s ! 13 \<noteq> CHR '':'' \<or> s ! 16 \<noteq> CHR '':'' then None
     else do {
       y \<leftarrow> number_in (take 4 s) 0 9999;
       m \<leftarrow> number_in (take 2 (drop 5 s)) 1 12;
       d \<leftarrow> number_in (take 2 (drop 8 s)) 1 (nat (month_lengths (int y) ! (m - 1)));
       h \<leftarrow> number_in (take 2 (drop 11 s)) 0 23;
       mi \<leftarrow> number_in (take 2 (drop 14 s)) 0 59;
       sec \<leftarrow> number_in (take 2 (drop 17 s)) 0 59;
       let (ns, zone) = parse_fraction (drop 19 s);
       loc \<leftarrow> parse_zone zone;
       Some \<lparr>t_wall = (civil_days (int y) m (int d) * 86400 + int ((h * 60 + mi) * 60 + sec)
               - loc_offset loc) * 1000000000 + int ns,
             t_mono = None, t_loc = loc\<rparr> })"

subsection \<open>Reading what was written\<close>

lemma length_pad [simp]: "length (pad k n) = k"
  by (induction k arbitrary: n) auto

lemma pad_digits [simp]: "list_all is_digit (pad k n)"
  by (induction k arbitrary: n) (auto simp: is_digit_def in_range_def)

lemma decimal_value_pad: "n < 10 ^ k \<Longrightarrow> decimal_value (pad k n) = n"
proof (induction k arbitrary: n)
  case (Suc k)
  then have "n div 10 < 10 ^ k" by (simp add: less_mult_imp_div_less mult.commute)
  with Suc.IH show ?case by (simp add: decimal_value_snoc)
qed (simp add: decimal_value_def)

lemma number_in_pad:
  "n < 10 ^ k \<Longrightarrow> lo \<le> n \<Longrightarrow> n \<le> hi \<Longrightarrow> number_in (pad k n) lo hi = Some n"
  by (simp add: number_in_def decimal_value_pad)

lemma strip_zeros_refill:
  "strip_zeros s @ replicate (length (takeWhile (\<lambda>c. c = CHR ''0'') (rev s))) (CHR ''0'') = s"
proof -
  let ?p = "\<lambda>c. c = CHR ''0''"
  have "replicate (length (takeWhile ?p (rev s))) (CHR ''0'') = rev (takeWhile ?p (rev s))"
    by (rule sym, rule replicate_eqI) (auto dest: set_takeWhileD)
  moreover have "rev (dropWhile ?p (rev s)) @ rev (takeWhile ?p (rev s)) = s"
    by (simp only: takeWhile_dropWhile_id rev_rev_ident flip: rev_append)
  ultimately show ?thesis by (simp add: strip_zeros_def)
qed

lemma strip_zeros_take:
  assumes "length s = 9"
  shows "take 9 (strip_zeros s @ replicate 9 (CHR ''0'')) = s"
proof -
  let ?n = "length (takeWhile (\<lambda>c. c = CHR ''0'') (rev s))"
  have s: "strip_zeros s @ replicate ?n (CHR ''0'') = s" by (rule strip_zeros_refill)
  then have "length (strip_zeros s) + ?n = 9" using assms by (metis length_append length_replicate)
  then have "take (9 - length (strip_zeros s)) (replicate 9 (CHR ''0'')) = replicate ?n (CHR ''0'')"
    and "length (strip_zeros s) \<le> 9"
    by (simp_all add: take_replicate)
  then show ?thesis using s by simp
qed

lemma strip_zeros_digits: "list_all is_digit s \<Longrightarrow> list_all is_digit (strip_zeros s)"
  by (auto simp: strip_zeros_def list_all_iff dest: set_dropWhileD)

lemma decimal_value_zeros: "decimal_value (replicate n (CHR ''0'')) = 0"
  by (induction n) (simp_all add: decimal_value_def)

lemma zone_text_head: "\<exists>c cs. zone_text off = c # cs \<and> \<not> is_digit c \<and> c \<noteq> CHR ''.''"
  by (simp add: zone_text_def is_digit_def in_range_def Let_def)

lemma parse_fraction_text:
  assumes "ns < 1000000000"
  shows "parse_fraction (fraction_text ns @ zone_text off) = (ns, zone_text off)"
proof -
  obtain c cs where z: "zone_text off = c # cs" "\<not> is_digit c" "c \<noteq> CHR ''.''"
    using zone_text_head by blast
  show ?thesis
  proof (cases "strip_zeros (pad 9 ns)")
    case Nil
    then have "pad 9 ns = take 9 (replicate 9 (CHR ''0''))"
      using strip_zeros_take [of "pad 9 ns"] by simp
    then have "decimal_value (pad 9 ns) = 0" by (simp only: take_replicate decimal_value_zeros)
    then have "ns = 0" using decimal_value_pad [of ns 9] assms by simp
    then show ?thesis using Nil z
      by (cases cs) (simp_all add: fraction_text_def parse_fraction_def)
  next
    case (Cons d ds)
    have "list_all is_digit (d # ds)" using strip_zeros_digits [of "pad 9 ns"] Cons by simp
    then have "takeWhile is_digit (d # ds @ c # cs) = d # ds" "dropWhile is_digit (d # ds @ c # cs) = c # cs"
      "is_digit d"
      using z(2) by (auto simp: list_all_iff)
    moreover have "decimal_value (take 9 ((d # ds) @ replicate 9 (CHR ''0''))) = ns"
      using strip_zeros_take [of "pad 9 ns"] decimal_value_pad [of ns 9] assms Cons by simp
    ultimately show ?thesis
      using z Cons by (simp add: fraction_text_def parse_fraction_def)
  qed
qed

text \<open>UTC, or a fixed zone of whole minutes: what a written time is read back with.\<close>

fun plain_location :: "location \<Rightarrow> bool" where
  "plain_location UTC = True"
| "plain_location (FixedZone s) = (s \<noteq> 0 \<and> s mod 60 = 0)"
| "plain_location (Located i s) = False"

lemma parse_zone_text:
  assumes "plain_location l" and "\<bar>loc_offset l\<bar> < 86400"
  shows "parse_zone (zone_text (loc_offset l)) = Some l"
proof (cases l)
  case (FixedZone s)
  define z where "z = nat (\<bar>s\<bar> div 60)"
  define h m where "h = z div 60" and "m = z mod 60"
  have s: "s \<noteq> 0" "s mod 60 = 0" "\<bar>s\<bar> < 86400" using assms FixedZone by simp_all
  then obtain k where "s = 60 * k" by (auto simp: mod_eq_0_iff_dvd elim: dvdE)
  then have abs: "\<bar>s\<bar> = int z * 60"
    by (simp add: z_def abs_mult)
  then have z: "z < 1440" "0 < z" using s by auto
  then have hm: "number_in (pad 2 h) 0 23 = Some h" "number_in (pad 2 m) 0 59 = Some m"
    by (auto intro!: number_in_pad simp: h_def m_def)
  have "zone_text s = (if s < 0 then CHR ''-'' else CHR ''+'') # pad 2 h @ '':'' @ pad 2 m"
    using s(1) z(2) by (simp add: zone_text_def h_def m_def flip: z_def)
  moreover have "(if s < 0 then -1 else 1) * int ((h * 60 + m) * 60) = s"
    using abs by (auto simp: h_def m_def)
  ultimately show ?thesis
    using FixedZone hm by (auto simp: parse_zone_def nth_append)
qed (use assms in \<open>simp_all add: zone_text_def parse_zone_def\<close>)

theorem parse_time_text:
  assumes "time_marshals t" and "plain_location (t_loc t)" and "t_mono t = None"
  shows "parse_time (time_text t) = Some t"
proof -
  obtain y m d where date: "civil_date (local_seconds t div 86400) = (y, m, d)"
    by (cases "civil_date (local_seconds t div 86400)") auto
  note civil = civil_date_days [OF date]
  have y: "0 \<le> y" "y \<le> 9999" and off: "\<bar>loc_offset (t_loc t)\<bar> < 86400"
    using assms(1) date by (auto simp: time_marshals_def civil_date_def)
  have "month_lengths y ! (m - 1) \<le> 31"
  proof -
    have "m - 1 < length (month_lengths y)" using civil by (simp add: month_lengths_def)
    then have "month_lengths y ! (m - 1) \<in> set (month_lengths y)" by (rule nth_mem)
    then show ?thesis by (auto simp: month_lengths_def split: if_splits)
  qed
  define s where "s = nat (local_seconds t mod 86400)"
  have s: "s < 86400" "int s = local_seconds t mod 86400" by (simp_all add: s_def)
  define ns where "ns = nat (t_wall t mod 1000000000)"
  have ns: "ns < 1000000000" "int ns = t_wall t mod 1000000000" by (simp_all add: ns_def)
  have numbers: "number_in (pad 4 (nat y)) 0 9999 = Some (nat y)"
    "number_in (pad 2 m) 1 12 = Some m"
    "number_in (pad 2 (nat d)) 1 (nat (month_lengths y ! (m - 1))) = Some (nat d)"
    "number_in (pad 2 (s div 3600)) 0 23 = Some (s div 3600)"
    "number_in (pad 2 (s div 60 mod 60)) 0 59 = Some (s div 60 mod 60)"
    "number_in (pad 2 (s mod 60)) 0 59 = Some (s mod 60)"
    using y civil s(1) \<open>month_lengths y ! (m - 1) \<le> 31\<close> by (auto intro!: number_in_pad)
  have written: "time_text t = pad 4 (nat y) @ ''-'' @ pad 2 m @ ''-'' @ pad 2 (nat d) @ ''T'' @ pad 2 (s div 3600) @ '':''
      @ pad 2 (s div 60 mod 60) @ '':'' @ pad 2 (s mod 60) @ fraction_text ns @ zone_text (loc_offset (t_loc t))"
    by (simp add: time_text_def date date_text_def clock_text_def flip: s_def ns_def)
  have clock: "(s div 3600 * 60 + s div 60 mod 60) * 60 + s mod 60 = s"
    using div_mult2_eq [of s 60 60] by simp
  have "civil_days y m d * 86400 + int s = local_seconds t"
    using civil(1) s(2) by simp
  then have wall: "(civil_days y m d * 86400 + int s - loc_offset (t_loc t)) * 1000000000 + int ns = t_wall t"
    using ns(2) by (simp add: local_seconds_def)
  have length: "19 \<le> length (time_text t)"
    and marks: "time_text t ! 4 = CHR ''-''" "time_text t ! 7 = CHR ''-''" "time_text t ! 10 = CHR ''T''"
      "time_text t ! 13 = CHR '':''" "time_text t ! 16 = CHR '':''"
    and parts: "take 4 (time_text t) = pad 4 (nat y)" "take 2 (drop 5 (time_text t)) = pad 2 m"
      "take 2 (drop 8 (time_text t)) = pad 2 (nat d)" "take 2 (drop 11 (time_text t)) = pad 2 (s div 3600)"
      "take 2 (drop 14 (time_text t)) = pad 2 (s div 60 mod 60)" "take 2 (drop 17 (time_text t)) = pad 2 (s mod 60)"
      "drop 19 (time_text t) = fraction_text ns @ zone_text (loc_offset (t_loc t))"
    unfolding written by (simp_all add: nth_append)
  have "int (nat y) = y" "int (nat d) = d" using y civil(4) by simp_all
  then have "parse_time (time_text t) =
      Some \<lparr>t_wall = (civil_days y m d * 86400 + int s - loc_offset (t_loc t)) * 1000000000 + int ns,
        t_mono = None, t_loc = t_loc t\<rparr>"
    using length unfolding parse_time_def
    by (simp only: marks parts numbers parse_fraction_text [OF ns(1)] parse_zone_text [OF assms(2) off]
        bind.bind_lunit Let_def prod.case clock not_le [symmetric] simp_thms if_False)
  then show ?thesis using wall assms(3) by simp
qed

end
