(* ===== verification/Domain_Json.thy ===== *)
theory Domain_Json
  imports Domain_Attempt Json_Codec Go_Time
begin

text \<open>
  The JSON of the domain records of \<open>internal/domain\<close>, from the tags of their fields: how each is
  written, the schema that the strict decoder derives from its type, how it is read, and what makes
  a value storable, so that it is read back as it was: texts in UTF-8, numbers that fit their
  width, times in UTC or in a zone of whole minutes. The lemmas of \<open>codec\<close> are the two halves of
  the contract of a \<open>document\<close>, one record at a time.
\<close>

named_theorems codec \<open>what is written fits its schema and is read back\<close>

definition in_int64 :: "int \<Rightarrow> bool" where
  "in_int64 n \<longleftrightarrow> - (2 ^ 63) \<le> n \<and> n \<le> 2 ^ 63 - 1"

definition in_int32 :: "int \<Rightarrow> bool" where
  "in_int32 n \<longleftrightarrow> - (2 ^ 31) \<le> n \<and> n \<le> 2 ^ 31 - 1"

lemma option_all: "pred_option P p \<longleftrightarrow> (\<forall>x. p = Some x \<longrightarrow> P x)"
  by (cases p) simp_all

lemma int_read [codec]:
  "in_int64 n \<Longrightarrow> int64_of (int_json n) = Some n" "in_int32 n \<Longrightarrow> int32_of (int_json n) = Some n"
  by (simp_all add: in_int64_def in_int32_def int64_of_def int32_of_def)

lemma field_int64 [codec]:
  "absent k fs \<Longrightarrow> in_int64 n \<Longrightarrow> field (members ((k, omit_int n) # fs)) k 0 int64_of = Some n"
  unfolding int64_of_def by (rule field_int) (simp_all add: in_int64_def)

lemma scalar_read [codec]:
  "text_of (JStr s) = Some s" "flag_of (JBool b) = Some b"
  "list_of [] text_of (JArr (map JStr ss)) = Some ss"
  "(map_option f \<circ> text_of) (JStr s) = Some (f s)"
  by (simp_all add: text_of_def flag_of_def list_of_json)

lemma texts_fit [codec]:
  "0 < n \<Longrightarrow> list_all ValidString ss \<Longrightarrow> fits n (ListOf Any) (JArr (map JStr ss))"
  by (rule fits_list) simp_all

subsection \<open>Times\<close>

definition time_json :: "gotime \<Rightarrow> json" where
  "time_json t = JStr (time_text t)"

definition time_of :: "json \<Rightarrow> gotime option" where
  "time_of v = Option.bind (text_of v) parse_time"

definition storable_time :: "gotime \<Rightarrow> bool" where
  "storable_time t \<longleftrightarrow> time_marshals t \<and> plain_location (t_loc t) \<and> t_mono t = None"

definition ascii :: "string \<Rightarrow> bool" where
  "ascii s \<longleftrightarrow> list_all (\<lambda>c. (of_char c :: nat) < 128) s"

lemma ascii_digits: "list_all is_digit s \<Longrightarrow> ascii s"
  by (auto simp: ascii_def list_all_iff is_digit_def in_range_def)

lemma ascii_append [simp]: "ascii (s @ t) \<longleftrightarrow> ascii s \<and> ascii t"
  by (simp add: ascii_def)

lemma ascii_pad [simp]: "ascii (pad k n)"
  by (simp add: ascii_digits)

lemma time_text_ascii: "ascii (time_text t)"
proof -
  have "ascii (fraction_text ns)" for ns
    using strip_zeros_digits [of "pad 9 ns"]
    by (auto simp: fraction_text_def ascii_def Let_def dest: ascii_digits [unfolded ascii_def])
  moreover have "ascii (zone_text off)" for off
    using ascii_pad by (auto simp: zone_text_def Let_def ascii_def)
  moreover have "ascii (date_text d)" for d
    using ascii_pad by (auto simp: date_text_def ascii_def split: prod.split)
  moreover have "ascii (clock_text s)" for s
    using ascii_pad by (auto simp: clock_text_def ascii_def)
  ultimately show ?thesis by (simp add: time_text_def) (simp add: ascii_def)
qed

lemma time_codec [codec]:
  "storable_time t \<Longrightarrow> time_of (time_json t) = Some t" "fits n Any (time_json t)" "time_json t \<noteq> JNull"
  using parse_time_text [of t] time_text_ascii [of t]
  by (simp_all add: storable_time_def time_of_def time_json_def text_of_def ascii_def ascii_ValidString)

subsection \<open>Names\<close>

fun OutcomePresence_Valid :: "outcome_presence \<Rightarrow> bool" where
  "OutcomePresence_Valid (OutcomePresenceOther _) = False"
| "OutcomePresence_Valid _ = True"

fun SandboxPhase_text :: "sandbox_phase \<Rightarrow> string" where
  "SandboxPhase_text SandboxAbsent = ''absent''"
| "SandboxPhase_text SandboxCreating = ''creating''"
| "SandboxPhase_text SandboxReady = ''ready''"
| "SandboxPhase_text SandboxStopping = ''stopping''"
| "SandboxPhase_text SandboxStopped = ''stopped''"
| "SandboxPhase_text (SandboxPhaseOther s) = s"

definition SandboxPhase_from :: "string \<Rightarrow> sandbox_phase" where
  "SandboxPhase_from s =
    (case map_of [(''absent'', SandboxAbsent), (''creating'', SandboxCreating), (''ready'', SandboxReady),
                 (''stopping'', SandboxStopping), (''stopped'', SandboxStopped)] s of
       None \<Rightarrow> SandboxPhaseOther s | Some p \<Rightarrow> p)"

lemma SandboxPhase_text_read [codec]: "SandboxPhase_Valid p \<Longrightarrow> SandboxPhase_from (SandboxPhase_text p) = p"
  by (cases p) (simp_all add: SandboxPhase_from_def)

lemma SandboxPhase_text_ascii [codec]: "SandboxPhase_Valid p \<Longrightarrow> ValidString (SandboxPhase_text p)"
  by (cases p) (simp_all add: ValidString_def)

fun AttemptPhase_text :: "attempt_phase \<Rightarrow> string" where
  "AttemptPhase_text AttemptAbsent = ''absent''"
| "AttemptPhase_text AttemptCreating = ''creating''"
| "AttemptPhase_text AttemptCreated = ''created''"
| "AttemptPhase_text AttemptRunning = ''running''"
| "AttemptPhase_text AttemptStopped = ''stopped''"
| "AttemptPhase_text (AttemptPhaseOther s) = s"

definition AttemptPhase_from :: "string \<Rightarrow> attempt_phase" where
  "AttemptPhase_from s =
    (case map_of [(''absent'', AttemptAbsent), (''creating'', AttemptCreating),
                 (''created'', AttemptCreated), (''running'', AttemptRunning),
                 (''stopped'', AttemptStopped)] s of
       None \<Rightarrow> AttemptPhaseOther s | Some p \<Rightarrow> p)"

lemma AttemptPhase_text_read [codec]: "AttemptPhase_Valid p \<Longrightarrow> AttemptPhase_from (AttemptPhase_text p) = p"
  by (cases p) (simp_all add: AttemptPhase_from_def)

lemma AttemptPhase_text_ascii [codec]: "AttemptPhase_Valid p \<Longrightarrow> ValidString (AttemptPhase_text p)"
  by (cases p) (simp_all add: ValidString_def)

fun EvidenceState_text :: "evidence_state \<Rightarrow> string" where
  "EvidenceState_text EvidenceUnknown = ''unknown''"
| "EvidenceState_text EvidenceFalse = ''false''"
| "EvidenceState_text EvidenceTrue = ''true''"
| "EvidenceState_text (EvidenceOther s) = s"

definition EvidenceState_from :: "string \<Rightarrow> evidence_state" where
  "EvidenceState_from s =
    (case map_of [(''unknown'', EvidenceUnknown), (''false'', EvidenceFalse), (''true'', EvidenceTrue)] s of
       None \<Rightarrow> EvidenceOther s | Some p \<Rightarrow> p)"

lemma EvidenceState_text_read [codec]: "EvidenceState_Valid p \<Longrightarrow> EvidenceState_from (EvidenceState_text p) = p"
  by (cases p) (simp_all add: EvidenceState_from_def)

lemma EvidenceState_text_ascii [codec]: "EvidenceState_Valid p \<Longrightarrow> ValidString (EvidenceState_text p)"
  by (cases p) (simp_all add: ValidString_def)

fun OutcomePresence_text :: "outcome_presence \<Rightarrow> string" where
  "OutcomePresence_text OutcomePending = ''pending''"
| "OutcomePresence_text OutcomeNotApplicable = ''not_applicable''"
| "OutcomePresence_text OutcomeCaptured = ''captured''"
| "OutcomePresence_text OutcomeUnknown = ''unknown''"
| "OutcomePresence_text (OutcomePresenceOther s) = s"

definition OutcomePresence_from :: "string \<Rightarrow> outcome_presence" where
  "OutcomePresence_from s =
    (case map_of [(''pending'', OutcomePending), (''not_applicable'', OutcomeNotApplicable),
                 (''captured'', OutcomeCaptured), (''unknown'', OutcomeUnknown)] s of
       None \<Rightarrow> OutcomePresenceOther s | Some p \<Rightarrow> p)"

lemma OutcomePresence_text_read [codec]: "OutcomePresence_Valid p \<Longrightarrow> OutcomePresence_from (OutcomePresence_text p) = p"
  by (cases p) (simp_all add: OutcomePresence_from_def)

lemma OutcomePresence_text_ascii [codec]: "OutcomePresence_Valid p \<Longrightarrow> ValidString (OutcomePresence_text p)"
  by (cases p) (simp_all add: ValidString_def)

subsection \<open>Records\<close>

definition network_intent_json :: "network_intent \<Rightarrow> json" where
  "network_intent_json x = struct_json
    [(''mode'', omit_text (Mode x)), (''attachments'', omit_list JStr (Attachments x))]"

definition network_intent_fields :: "(string \<times> schema) list" where
  "network_intent_fields =
    [(''mode'', Any), (''attachments'', ListOf Any)]"

definition network_intent_schema :: schema where "network_intent_schema = Struct network_intent_fields"

definition zero_network_intent :: network_intent where
  "zero_network_intent =
    \<lparr>Mode = [], Attachments = []\<rparr>"

definition network_intent_of :: "json \<Rightarrow> network_intent option" where
  "network_intent_of = strict_struct network_intent_fields (\<lambda>kvs. do {
     a \<leftarrow> field kvs ''mode'' [] text_of;
     b \<leftarrow> field kvs ''attachments'' [] (list_of [] text_of);
     Some \<lparr>Mode = a, Attachments = b\<rparr> })"

definition storable_network_intent :: "network_intent \<Rightarrow> bool" where
  "storable_network_intent x \<longleftrightarrow>
     ValidString (Mode x) \<and> list_all ValidString (Attachments x)"

lemma network_intent_fits [codec]:
  "storable_network_intent x \<Longrightarrow> 2 \<le> n \<Longrightarrow> fits n network_intent_schema (network_intent_json x)"
  unfolding network_intent_schema_def network_intent_json_def
  by (rule fits_struct) (auto simp: storable_network_intent_def network_intent_fields_def field_fits_def
      list_all_iff option_all codec)

lemma network_intent_read [codec]:
  "storable_network_intent x \<Longrightarrow> network_intent_of (network_intent_json x) = Some x"
  by (cases x) (simp add: storable_network_intent_def network_intent_of_def network_intent_json_def strict_struct_json
      network_intent_fields_def list_all_iff option_all codec)

lemma network_intent_not_null [simp]: "network_intent_json x \<noteq> JNull"
  by (simp add: network_intent_json_def struct_json_def)

definition resource_requests_json :: "resource_requests \<Rightarrow> json" where
  "resource_requests_json x = struct_json
    [(''cpu_request_milli'', map_option int_json (CPURequestMilli x)),
     (''memory_request_bytes'', map_option int_json (MemoryRequestBytes x))]"

definition resource_requests_fields :: "(string \<times> schema) list" where
  "resource_requests_fields =
    [(''cpu_request_milli'', Any), (''memory_request_bytes'', Any)]"

definition resource_requests_schema :: schema where "resource_requests_schema = Struct resource_requests_fields"

definition zero_resource_requests :: resource_requests where
  "zero_resource_requests =
    \<lparr>CPURequestMilli = None, MemoryRequestBytes = None\<rparr>"

definition resource_requests_of :: "json \<Rightarrow> resource_requests option" where
  "resource_requests_of = strict_struct resource_requests_fields (\<lambda>kvs. do {
     a \<leftarrow> field kvs ''cpu_request_milli'' None (pointer int64_of);
     b \<leftarrow> field kvs ''memory_request_bytes'' None (pointer int64_of);
     Some \<lparr>CPURequestMilli = a, MemoryRequestBytes = b\<rparr> })"

definition storable_resource_requests :: "resource_requests \<Rightarrow> bool" where
  "storable_resource_requests x \<longleftrightarrow>
     pred_option in_int64 (CPURequestMilli x) \<and> pred_option in_int64 (MemoryRequestBytes x)"

lemma resource_requests_fits [codec]:
  "storable_resource_requests x \<Longrightarrow> 1 \<le> n \<Longrightarrow> fits n resource_requests_schema (resource_requests_json x)"
  unfolding resource_requests_schema_def resource_requests_json_def
  by (rule fits_struct) (auto simp: storable_resource_requests_def resource_requests_fields_def field_fits_def
      list_all_iff option_all codec)

lemma resource_requests_read [codec]:
  "storable_resource_requests x \<Longrightarrow> resource_requests_of (resource_requests_json x) = Some x"
  by (cases x) (simp add: storable_resource_requests_def resource_requests_of_def resource_requests_json_def strict_struct_json
      resource_requests_fields_def list_all_iff option_all codec)

lemma resource_requests_not_null [simp]: "resource_requests_json x \<noteq> JNull"
  by (simp add: resource_requests_json_def struct_json_def)

definition resource_limits_json :: "resource_limits \<Rightarrow> json" where
  "resource_limits_json x = struct_json
    [(''cpu_limit_milli'', map_option int_json (CPULimitMilli x)),
     (''memory_limit_bytes'', map_option int_json (MemoryLimitBytes x)),
     (''pids_limit'', map_option int_json (PidsLimit x))]"

definition resource_limits_fields :: "(string \<times> schema) list" where
  "resource_limits_fields =
    [(''cpu_limit_milli'', Any), (''memory_limit_bytes'', Any), (''pids_limit'', Any)]"

definition resource_limits_schema :: schema where "resource_limits_schema = Struct resource_limits_fields"

definition zero_resource_limits :: resource_limits where
  "zero_resource_limits =
    \<lparr>CPULimitMilli = None, MemoryLimitBytes = None, PidsLimit = None\<rparr>"

definition resource_limits_of :: "json \<Rightarrow> resource_limits option" where
  "resource_limits_of = strict_struct resource_limits_fields (\<lambda>kvs. do {
     a \<leftarrow> field kvs ''cpu_limit_milli'' None (pointer int64_of);
     b \<leftarrow> field kvs ''memory_limit_bytes'' None (pointer int64_of);
     c \<leftarrow> field kvs ''pids_limit'' None (pointer int64_of);
     Some \<lparr>CPULimitMilli = a, MemoryLimitBytes = b, PidsLimit = c\<rparr> })"

definition storable_resource_limits :: "resource_limits \<Rightarrow> bool" where
  "storable_resource_limits x \<longleftrightarrow>
     pred_option in_int64 (CPULimitMilli x) \<and> pred_option in_int64 (MemoryLimitBytes x) \<and>
     pred_option in_int64 (PidsLimit x)"

lemma resource_limits_fits [codec]:
  "storable_resource_limits x \<Longrightarrow> 1 \<le> n \<Longrightarrow> fits n resource_limits_schema (resource_limits_json x)"
  unfolding resource_limits_schema_def resource_limits_json_def
  by (rule fits_struct) (auto simp: storable_resource_limits_def resource_limits_fields_def field_fits_def
      list_all_iff option_all codec)

lemma resource_limits_read [codec]:
  "storable_resource_limits x \<Longrightarrow> resource_limits_of (resource_limits_json x) = Some x"
  by (cases x) (simp add: storable_resource_limits_def resource_limits_of_def resource_limits_json_def strict_struct_json
      resource_limits_fields_def list_all_iff option_all codec)

lemma resource_limits_not_null [simp]: "resource_limits_json x \<noteq> JNull"
  by (simp add: resource_limits_json_def struct_json_def)

definition resources_json :: "resources \<Rightarrow> json" where
  "resources_json x = struct_json
    [(''requests'', Some (resource_requests_json (Requests x))),
     (''limits'', Some (resource_limits_json (Limits x)))]"

definition resources_fields :: "(string \<times> schema) list" where
  "resources_fields =
    [(''requests'', resource_requests_schema), (''limits'', resource_limits_schema)]"

definition resources_schema :: schema where "resources_schema = Struct resources_fields"

definition zero_resources :: resources where
  "zero_resources =
    \<lparr>Requests = zero_resource_requests, Limits = zero_resource_limits\<rparr>"

definition resources_of :: "json \<Rightarrow> resources option" where
  "resources_of = strict_struct resources_fields (\<lambda>kvs. do {
     a \<leftarrow> field kvs ''requests'' zero_resource_requests resource_requests_of;
     b \<leftarrow> field kvs ''limits'' zero_resource_limits resource_limits_of;
     Some \<lparr>Requests = a, Limits = b\<rparr> })"

definition storable_resources :: "resources \<Rightarrow> bool" where
  "storable_resources x \<longleftrightarrow>
     storable_resource_requests (Requests x) \<and> storable_resource_limits (Limits x)"

lemma resources_fits [codec]:
  "storable_resources x \<Longrightarrow> 2 \<le> n \<Longrightarrow> fits n resources_schema (resources_json x)"
  unfolding resources_schema_def resources_json_def
  by (rule fits_struct) (auto simp: storable_resources_def resources_fields_def field_fits_def
      list_all_iff option_all codec)

lemma resources_read [codec]:
  "storable_resources x \<Longrightarrow> resources_of (resources_json x) = Some x"
  by (cases x) (simp add: storable_resources_def resources_of_def resources_json_def strict_struct_json
      resources_fields_def list_all_iff option_all codec)

lemma resources_not_null [simp]: "resources_json x \<noteq> JNull"
  by (simp add: resources_json_def struct_json_def)

definition sandbox_spec_json :: "sandbox_spec \<Rightarrow> json" where
  "sandbox_spec_json x = struct_json
    [(''hostname'', omit_text (ss_Hostname x)), (''dns'', omit_list JStr (ss_DNS x)),
     (''labels'', omit_text_map (ss_Labels x)), (''network'', Some (network_intent_json (ss_Network x))),
     (''resources'', Some (resources_json (ss_Resources x)))]"

definition sandbox_spec_fields :: "(string \<times> schema) list" where
  "sandbox_spec_fields =
    [(''hostname'', Any), (''dns'', ListOf Any), (''labels'', MapOf Any),
     (''network'', network_intent_schema), (''resources'', resources_schema)]"

definition sandbox_spec_schema :: schema where "sandbox_spec_schema = Struct sandbox_spec_fields"

definition zero_sandbox_spec :: sandbox_spec where
  "zero_sandbox_spec =
    \<lparr>ss_Hostname = [], ss_DNS = [], ss_Labels = [], ss_Network = zero_network_intent,
      ss_Resources = zero_resources\<rparr>"

definition sandbox_spec_of :: "json \<Rightarrow> sandbox_spec option" where
  "sandbox_spec_of = strict_struct sandbox_spec_fields (\<lambda>kvs. do {
     a \<leftarrow> field kvs ''hostname'' [] text_of;
     b \<leftarrow> field kvs ''dns'' [] (list_of [] text_of);
     c \<leftarrow> field kvs ''labels'' [] text_map_of;
     d \<leftarrow> field kvs ''network'' zero_network_intent network_intent_of;
     e \<leftarrow> field kvs ''resources'' zero_resources resources_of;
     Some \<lparr>ss_Hostname = a, ss_DNS = b, ss_Labels = c, ss_Network = d, ss_Resources = e\<rparr> })"

definition storable_sandbox_spec :: "sandbox_spec \<Rightarrow> bool" where
  "storable_sandbox_spec x \<longleftrightarrow>
     ValidString (ss_Hostname x) \<and> list_all ValidString (ss_DNS x) \<and>
     sorted (map fst (ss_Labels x)) \<and> distinct (map fst (ss_Labels x))
       \<and> list_all (\<lambda>(k, v). ValidString k \<and> ValidString v) (ss_Labels x) \<and>
     storable_network_intent (ss_Network x) \<and> storable_resources (ss_Resources x)"

lemma sandbox_spec_fits [codec]:
  "storable_sandbox_spec x \<Longrightarrow> 3 \<le> n \<Longrightarrow> fits n sandbox_spec_schema (sandbox_spec_json x)"
  unfolding sandbox_spec_schema_def sandbox_spec_json_def
  by (rule fits_struct) (auto simp: storable_sandbox_spec_def sandbox_spec_fields_def field_fits_def
      list_all_iff option_all codec)

lemma sandbox_spec_read [codec]:
  "storable_sandbox_spec x \<Longrightarrow> sandbox_spec_of (sandbox_spec_json x) = Some x"
  by (cases x) (simp add: storable_sandbox_spec_def sandbox_spec_of_def sandbox_spec_json_def strict_struct_json
      sandbox_spec_fields_def list_all_iff option_all codec)

lemma sandbox_spec_not_null [simp]: "sandbox_spec_json x \<noteq> JNull"
  by (simp add: sandbox_spec_json_def struct_json_def)

definition condition_json :: "condition \<Rightarrow> json" where
  "condition_json x = struct_json
    [(''type'', Some (JStr (cond_Type x))), (''reason'', Some (JStr (cond_Reason x))),
     (''message'', omit_text (cond_Message x))]"

definition condition_fields :: "(string \<times> schema) list" where
  "condition_fields =
    [(''type'', Any), (''reason'', Any), (''message'', Any)]"

definition condition_schema :: schema where "condition_schema = Struct condition_fields"

definition zero_condition :: condition where
  "zero_condition =
    \<lparr>cond_Type = [], cond_Reason = [], cond_Message = []\<rparr>"

definition condition_of :: "json \<Rightarrow> condition option" where
  "condition_of = strict_struct condition_fields (\<lambda>kvs. do {
     a \<leftarrow> field kvs ''type'' [] text_of;
     b \<leftarrow> field kvs ''reason'' [] text_of;
     c \<leftarrow> field kvs ''message'' [] text_of;
     Some \<lparr>cond_Type = a, cond_Reason = b, cond_Message = c\<rparr> })"

definition storable_condition :: "condition \<Rightarrow> bool" where
  "storable_condition x \<longleftrightarrow>
     ValidString (cond_Type x) \<and> ValidString (cond_Reason x) \<and> ValidString (cond_Message x)"

lemma condition_fits [codec]:
  "storable_condition x \<Longrightarrow> 1 \<le> n \<Longrightarrow> fits n condition_schema (condition_json x)"
  unfolding condition_schema_def condition_json_def
  by (rule fits_struct) (auto simp: storable_condition_def condition_fields_def field_fits_def
      list_all_iff option_all codec)

lemma condition_read [codec]:
  "storable_condition x \<Longrightarrow> condition_of (condition_json x) = Some x"
  by (cases x) (simp add: storable_condition_def condition_of_def condition_json_def strict_struct_json
      condition_fields_def list_all_iff option_all codec)

lemma condition_not_null [simp]: "condition_json x \<noteq> JNull"
  by (simp add: condition_json_def struct_json_def)

definition observation_json :: "observation \<Rightarrow> json" where
  "observation_json x = struct_json
    [(''operation_id'', omit_text (obs_OperationID x)),
     (''event_sequence'', omit_int (uint (obs_EventSequence x))), (''reason'', omit_text (obs_Reason x))]"

definition observation_fields :: "(string \<times> schema) list" where
  "observation_fields =
    [(''operation_id'', Any), (''event_sequence'', Any), (''reason'', Any)]"

definition observation_schema :: schema where "observation_schema = Struct observation_fields"

definition zero_observation :: observation where
  "zero_observation =
    \<lparr>obs_OperationID = [], obs_EventSequence = 0, obs_Reason = []\<rparr>"

definition observation_of :: "json \<Rightarrow> observation option" where
  "observation_of = strict_struct observation_fields (\<lambda>kvs. do {
     a \<leftarrow> field kvs ''operation_id'' [] text_of;
     b \<leftarrow> field kvs ''event_sequence'' 0 uint64_of;
     c \<leftarrow> field kvs ''reason'' [] text_of;
     Some \<lparr>obs_OperationID = a, obs_EventSequence = b, obs_Reason = c\<rparr> })"

definition storable_observation :: "observation \<Rightarrow> bool" where
  "storable_observation x \<longleftrightarrow>
     ValidString (obs_OperationID x) \<and> ValidString (obs_Reason x)"

lemma observation_fits [codec]:
  "storable_observation x \<Longrightarrow> 1 \<le> n \<Longrightarrow> fits n observation_schema (observation_json x)"
  unfolding observation_schema_def observation_json_def
  by (rule fits_struct) (auto simp: storable_observation_def observation_fields_def field_fits_def
      list_all_iff option_all codec)

lemma observation_read [codec]:
  "storable_observation x \<Longrightarrow> observation_of (observation_json x) = Some x"
  by (cases x) (simp add: storable_observation_def observation_of_def observation_json_def strict_struct_json
      observation_fields_def list_all_iff option_all codec)

lemma observation_not_null [simp]: "observation_json x \<noteq> JNull"
  by (simp add: observation_json_def struct_json_def)

definition sandbox_status_json :: "sandbox_status \<Rightarrow> json" where
  "sandbox_status_json x = struct_json
    [(''phase'', Some (JStr (SandboxPhase_text (ss_Phase x)))),
     (''generation'', Some (int_json (uint (ss_Generation x)))),
     (''observed_generation'', Some (int_json (uint (ss_ObservedGeneration x)))),
     (''conditions'', omit_list condition_json (ss_Conditions x)),
     (''current_container_id'', map_option JStr (ss_CurrentContainerID x)),
     (''current_attempt_id'', map_option JStr (ss_CurrentAttemptID x)),
     (''last_observation'', Some (observation_json (ss_LastObservation x)))]"

definition sandbox_status_fields :: "(string \<times> schema) list" where
  "sandbox_status_fields =
    [(''phase'', Any), (''generation'', Any), (''observed_generation'', Any),
     (''conditions'', ListOf condition_schema), (''current_container_id'', Any),
     (''current_attempt_id'', Any), (''last_observation'', observation_schema)]"

definition sandbox_status_schema :: schema where "sandbox_status_schema = Struct sandbox_status_fields"

definition zero_sandbox_status :: sandbox_status where
  "zero_sandbox_status =
    \<lparr>ss_Phase = (SandboxPhase_from []), ss_Generation = 0, ss_ObservedGeneration = 0,
      ss_Conditions = [], ss_CurrentContainerID = None, ss_CurrentAttemptID = None,
      ss_LastObservation = zero_observation\<rparr>"

definition sandbox_status_of :: "json \<Rightarrow> sandbox_status option" where
  "sandbox_status_of = strict_struct sandbox_status_fields (\<lambda>kvs. do {
     a \<leftarrow> field kvs ''phase'' (SandboxPhase_from []) (map_option SandboxPhase_from \<circ> text_of);
     b \<leftarrow> field kvs ''generation'' 0 uint64_of;
     c \<leftarrow> field kvs ''observed_generation'' 0 uint64_of;
     d \<leftarrow> field kvs ''conditions'' [] (list_of zero_condition condition_of);
     e \<leftarrow> field kvs ''current_container_id'' None (pointer text_of);
     f \<leftarrow> field kvs ''current_attempt_id'' None (pointer text_of);
     g \<leftarrow> field kvs ''last_observation'' zero_observation observation_of;
     Some \<lparr>ss_Phase = a, ss_Generation = b, ss_ObservedGeneration = c, ss_Conditions = d,
           ss_CurrentContainerID = e, ss_CurrentAttemptID = f, ss_LastObservation = g\<rparr> })"

definition storable_sandbox_status :: "sandbox_status \<Rightarrow> bool" where
  "storable_sandbox_status x \<longleftrightarrow>
     SandboxPhase_Valid (ss_Phase x) \<and> list_all storable_condition (ss_Conditions x) \<and>
     pred_option ValidString (ss_CurrentContainerID x) \<and>
     pred_option ValidString (ss_CurrentAttemptID x) \<and> storable_observation (ss_LastObservation x)"

lemma sandbox_status_fits [codec]:
  "storable_sandbox_status x \<Longrightarrow> 3 \<le> n \<Longrightarrow> fits n sandbox_status_schema (sandbox_status_json x)"
  unfolding sandbox_status_schema_def sandbox_status_json_def
  by (rule fits_struct) (auto simp: storable_sandbox_status_def sandbox_status_fields_def field_fits_def
      list_all_iff option_all codec)

lemma sandbox_status_read [codec]:
  "storable_sandbox_status x \<Longrightarrow> sandbox_status_of (sandbox_status_json x) = Some x"
  by (cases x) (simp add: storable_sandbox_status_def sandbox_status_of_def sandbox_status_json_def strict_struct_json
      sandbox_status_fields_def list_all_iff option_all codec)

lemma sandbox_status_not_null [simp]: "sandbox_status_json x \<noteq> JNull"
  by (simp add: sandbox_status_json_def struct_json_def)

definition sandbox_json :: "sandbox \<Rightarrow> json" where
  "sandbox_json x = struct_json
    [(''schema_version'', Some (int_json (uint (sb_SchemaVersion x)))), (''id'', Some (JStr (sb_ID x))),
     (''spec'', Some (sandbox_spec_json (sb_Spec x))),
     (''status'', Some (sandbox_status_json (sb_Status x)))]"

definition sandbox_fields :: "(string \<times> schema) list" where
  "sandbox_fields =
    [(''schema_version'', Any), (''id'', Any), (''spec'', sandbox_spec_schema),
     (''status'', sandbox_status_schema)]"

definition sandbox_schema :: schema where "sandbox_schema = Struct sandbox_fields"

definition zero_sandbox :: sandbox where
  "zero_sandbox =
    \<lparr>sb_SchemaVersion = 0, sb_ID = [], sb_Spec = zero_sandbox_spec, sb_Status = zero_sandbox_status\<rparr>"

definition sandbox_of :: "json \<Rightarrow> sandbox option" where
  "sandbox_of = strict_struct sandbox_fields (\<lambda>kvs. do {
     a \<leftarrow> field kvs ''schema_version'' 0 uint32_of;
     b \<leftarrow> field kvs ''id'' [] text_of;
     c \<leftarrow> field kvs ''spec'' zero_sandbox_spec sandbox_spec_of;
     d \<leftarrow> field kvs ''status'' zero_sandbox_status sandbox_status_of;
     Some \<lparr>sb_SchemaVersion = a, sb_ID = b, sb_Spec = c, sb_Status = d\<rparr> })"

definition storable_sandbox :: "sandbox \<Rightarrow> bool" where
  "storable_sandbox x \<longleftrightarrow>
     ValidString (sb_ID x) \<and> storable_sandbox_spec (sb_Spec x) \<and>
     storable_sandbox_status (sb_Status x)"

lemma sandbox_fits [codec]:
  "storable_sandbox x \<Longrightarrow> 4 \<le> n \<Longrightarrow> fits n sandbox_schema (sandbox_json x)"
  unfolding sandbox_schema_def sandbox_json_def
  by (rule fits_struct) (auto simp: storable_sandbox_def sandbox_fields_def field_fits_def
      list_all_iff option_all codec)

lemma sandbox_read [codec]:
  "storable_sandbox x \<Longrightarrow> sandbox_of (sandbox_json x) = Some x"
  by (cases x) (simp add: storable_sandbox_def sandbox_of_def sandbox_json_def strict_struct_json
      sandbox_fields_def list_all_iff option_all codec)

lemma sandbox_not_null [simp]: "sandbox_json x \<noteq> JNull"
  by (simp add: sandbox_json_def struct_json_def)

definition resolved_limits_json :: "resolved_limits \<Rightarrow> json" where
  "resolved_limits_json x = struct_json
    [(''cpu_unlimited'', Some (JBool (rl_CPUUnlimited x))),
     (''cpu_limit_milli'', Some (nullable int_json (rl_CPULimitMilli x))),
     (''memory_unlimited'', Some (JBool (rl_MemoryUnlimited x))),
     (''memory_limit_bytes'', Some (nullable int_json (rl_MemoryLimitBytes x))),
     (''pids_limit'', Some (int_json (rl_PidsLimit x)))]"

definition resolved_limits_fields :: "(string \<times> schema) list" where
  "resolved_limits_fields =
    [(''cpu_unlimited'', Any), (''cpu_limit_milli'', Any), (''memory_unlimited'', Any),
     (''memory_limit_bytes'', Any), (''pids_limit'', Any)]"

definition resolved_limits_schema :: schema where "resolved_limits_schema = Struct resolved_limits_fields"

definition zero_resolved_limits :: resolved_limits where
  "zero_resolved_limits =
    \<lparr>rl_CPUUnlimited = False, rl_CPULimitMilli = None, rl_MemoryUnlimited = False,
      rl_MemoryLimitBytes = None, rl_PidsLimit = 0\<rparr>"

definition resolved_limits_of :: "json \<Rightarrow> resolved_limits option" where
  "resolved_limits_of = strict_struct resolved_limits_fields (\<lambda>kvs. do {
     a \<leftarrow> field kvs ''cpu_unlimited'' False flag_of;
     b \<leftarrow> field kvs ''cpu_limit_milli'' None (pointer int64_of);
     c \<leftarrow> field kvs ''memory_unlimited'' False flag_of;
     d \<leftarrow> field kvs ''memory_limit_bytes'' None (pointer int64_of);
     e \<leftarrow> field kvs ''pids_limit'' 0 int64_of;
     Some \<lparr>rl_CPUUnlimited = a, rl_CPULimitMilli = b, rl_MemoryUnlimited = c, rl_MemoryLimitBytes = d,
           rl_PidsLimit = e\<rparr> })"

definition storable_resolved_limits :: "resolved_limits \<Rightarrow> bool" where
  "storable_resolved_limits x \<longleftrightarrow>
     pred_option in_int64 (rl_CPULimitMilli x) \<and> pred_option in_int64 (rl_MemoryLimitBytes x) \<and>
     in_int64 (rl_PidsLimit x)"

lemma resolved_limits_fits [codec]:
  "storable_resolved_limits x \<Longrightarrow> 1 \<le> n \<Longrightarrow> fits n resolved_limits_schema (resolved_limits_json x)"
  unfolding resolved_limits_schema_def resolved_limits_json_def
  by (rule fits_struct) (auto simp: storable_resolved_limits_def resolved_limits_fields_def field_fits_def
      list_all_iff option_all codec)

lemma resolved_limits_read [codec]:
  "storable_resolved_limits x \<Longrightarrow> resolved_limits_of (resolved_limits_json x) = Some x"
  by (cases x) (simp add: storable_resolved_limits_def resolved_limits_of_def resolved_limits_json_def strict_struct_json
      resolved_limits_fields_def list_all_iff option_all codec)

lemma resolved_limits_not_null [simp]: "resolved_limits_json x \<noteq> JNull"
  by (simp add: resolved_limits_json_def struct_json_def)

definition env_var_json :: "env_var \<Rightarrow> json" where
  "env_var_json x = struct_json
    [(''name'', Some (JStr (env_Name x))), (''value'', Some (JStr (env_Value x)))]"

definition env_var_fields :: "(string \<times> schema) list" where
  "env_var_fields =
    [(''name'', Any), (''value'', Any)]"

definition env_var_schema :: schema where "env_var_schema = Struct env_var_fields"

definition zero_env_var :: env_var where
  "zero_env_var =
    \<lparr>env_Name = [], env_Value = []\<rparr>"

definition env_var_of :: "json \<Rightarrow> env_var option" where
  "env_var_of = strict_struct env_var_fields (\<lambda>kvs. do {
     a \<leftarrow> field kvs ''name'' [] text_of;
     b \<leftarrow> field kvs ''value'' [] text_of;
     Some \<lparr>env_Name = a, env_Value = b\<rparr> })"

definition storable_env_var :: "env_var \<Rightarrow> bool" where
  "storable_env_var x \<longleftrightarrow>
     ValidString (env_Name x) \<and> ValidString (env_Value x)"

lemma env_var_fits [codec]:
  "storable_env_var x \<Longrightarrow> 1 \<le> n \<Longrightarrow> fits n env_var_schema (env_var_json x)"
  unfolding env_var_schema_def env_var_json_def
  by (rule fits_struct) (auto simp: storable_env_var_def env_var_fields_def field_fits_def
      list_all_iff option_all codec)

lemma env_var_read [codec]:
  "storable_env_var x \<Longrightarrow> env_var_of (env_var_json x) = Some x"
  by (cases x) (simp add: storable_env_var_def env_var_of_def env_var_json_def strict_struct_json
      env_var_fields_def list_all_iff option_all codec)

lemma env_var_not_null [simp]: "env_var_json x \<noteq> JNull"
  by (simp add: env_var_json_def struct_json_def)

definition termination_policy_json :: "termination_policy \<Rightarrow> json" where
  "termination_policy_json x = struct_json
    [(''signal'', omit_text (tp_Signal x)), (''grace_period'', omit_int (tp_GracePeriod x)),
     (''escalation_signal'', omit_text (tp_EscalationSignal x))]"

definition termination_policy_fields :: "(string \<times> schema) list" where
  "termination_policy_fields =
    [(''signal'', Any), (''grace_period'', Any), (''escalation_signal'', Any)]"

definition termination_policy_schema :: schema where "termination_policy_schema = Struct termination_policy_fields"

definition zero_termination_policy :: termination_policy where
  "zero_termination_policy =
    \<lparr>tp_Signal = [], tp_GracePeriod = 0, tp_EscalationSignal = []\<rparr>"

definition termination_policy_of :: "json \<Rightarrow> termination_policy option" where
  "termination_policy_of = strict_struct termination_policy_fields (\<lambda>kvs. do {
     a \<leftarrow> field kvs ''signal'' [] text_of;
     b \<leftarrow> field kvs ''grace_period'' 0 int64_of;
     c \<leftarrow> field kvs ''escalation_signal'' [] text_of;
     Some \<lparr>tp_Signal = a, tp_GracePeriod = b, tp_EscalationSignal = c\<rparr> })"

definition storable_termination_policy :: "termination_policy \<Rightarrow> bool" where
  "storable_termination_policy x \<longleftrightarrow>
     ValidString (tp_Signal x) \<and> in_int64 (tp_GracePeriod x) \<and>
     ValidString (tp_EscalationSignal x)"

lemma termination_policy_fits [codec]:
  "storable_termination_policy x \<Longrightarrow> 1 \<le> n \<Longrightarrow> fits n termination_policy_schema (termination_policy_json x)"
  unfolding termination_policy_schema_def termination_policy_json_def
  by (rule fits_struct) (auto simp: storable_termination_policy_def termination_policy_fields_def field_fits_def
      list_all_iff option_all codec)

lemma termination_policy_read [codec]:
  "storable_termination_policy x \<Longrightarrow> termination_policy_of (termination_policy_json x) = Some x"
  by (cases x) (simp add: storable_termination_policy_def termination_policy_of_def termination_policy_json_def strict_struct_json
      termination_policy_fields_def list_all_iff option_all codec)

lemma termination_policy_not_null [simp]: "termination_policy_json x \<noteq> JNull"
  by (simp add: termination_policy_json_def struct_json_def)

definition process_spec_json :: "process_spec \<Rightarrow> json" where
  "process_spec_json x = struct_json
    [(''argv'', Some (JArr (map JStr (ps_Argv x)))),
     (''environment'', omit_list env_var_json (ps_Environment x)),
     (''working_directory'', omit_text (ps_WorkingDirectory x)),
     (''termination'', Some (termination_policy_json (ps_Termination x)))]"

definition process_spec_fields :: "(string \<times> schema) list" where
  "process_spec_fields =
    [(''argv'', ListOf Any), (''environment'', ListOf env_var_schema), (''working_directory'', Any),
     (''termination'', termination_policy_schema)]"

definition process_spec_schema :: schema where "process_spec_schema = Struct process_spec_fields"

definition zero_process_spec :: process_spec where
  "zero_process_spec =
    \<lparr>ps_Argv = [], ps_Environment = [], ps_WorkingDirectory = [],
      ps_Termination = zero_termination_policy\<rparr>"

definition process_spec_of :: "json \<Rightarrow> process_spec option" where
  "process_spec_of = strict_struct process_spec_fields (\<lambda>kvs. do {
     a \<leftarrow> field kvs ''argv'' [] (list_of [] text_of);
     b \<leftarrow> field kvs ''environment'' [] (list_of zero_env_var env_var_of);
     c \<leftarrow> field kvs ''working_directory'' [] text_of;
     d \<leftarrow> field kvs ''termination'' zero_termination_policy termination_policy_of;
     Some \<lparr>ps_Argv = a, ps_Environment = b, ps_WorkingDirectory = c, ps_Termination = d\<rparr> })"

definition storable_process_spec :: "process_spec \<Rightarrow> bool" where
  "storable_process_spec x \<longleftrightarrow>
     list_all ValidString (ps_Argv x) \<and> list_all storable_env_var (ps_Environment x) \<and>
     ValidString (ps_WorkingDirectory x) \<and> storable_termination_policy (ps_Termination x)"

lemma process_spec_fits [codec]:
  "storable_process_spec x \<Longrightarrow> 3 \<le> n \<Longrightarrow> fits n process_spec_schema (process_spec_json x)"
  unfolding process_spec_schema_def process_spec_json_def
  by (rule fits_struct) (auto simp: storable_process_spec_def process_spec_fields_def field_fits_def
      list_all_iff option_all codec)

lemma process_spec_read [codec]:
  "storable_process_spec x \<Longrightarrow> process_spec_of (process_spec_json x) = Some x"
  by (cases x) (simp add: storable_process_spec_def process_spec_of_def process_spec_json_def strict_struct_json
      process_spec_fields_def list_all_iff option_all codec)

lemma process_spec_not_null [simp]: "process_spec_json x \<noteq> JNull"
  by (simp add: process_spec_json_def struct_json_def)

definition container_spec_json :: "container_spec \<Rightarrow> json" where
  "container_spec_json x = struct_json
    [(''process'', Some (process_spec_json (cs_Process x))),
     (''image_digest'', omit_text (cs_ImageDigest x)), (''rootfs'', omit_text (cs_RootFS x)),
     (''limits'', Some (resolved_limits_json (cs_Limits x)))]"

definition container_spec_fields :: "(string \<times> schema) list" where
  "container_spec_fields =
    [(''process'', process_spec_schema), (''image_digest'', Any), (''rootfs'', Any),
     (''limits'', resolved_limits_schema)]"

definition container_spec_schema :: schema where "container_spec_schema = Struct container_spec_fields"

definition zero_container_spec :: container_spec where
  "zero_container_spec =
    \<lparr>cs_Process = zero_process_spec, cs_ImageDigest = [], cs_RootFS = [],
      cs_Limits = zero_resolved_limits\<rparr>"

definition container_spec_of :: "json \<Rightarrow> container_spec option" where
  "container_spec_of = strict_struct container_spec_fields (\<lambda>kvs. do {
     a \<leftarrow> field kvs ''process'' zero_process_spec process_spec_of;
     b \<leftarrow> field kvs ''image_digest'' [] text_of;
     c \<leftarrow> field kvs ''rootfs'' [] text_of;
     d \<leftarrow> field kvs ''limits'' zero_resolved_limits resolved_limits_of;
     Some \<lparr>cs_Process = a, cs_ImageDigest = b, cs_RootFS = c, cs_Limits = d\<rparr> })"

definition storable_container_spec :: "container_spec \<Rightarrow> bool" where
  "storable_container_spec x \<longleftrightarrow>
     storable_process_spec (cs_Process x) \<and> ValidString (cs_ImageDigest x) \<and>
     ValidString (cs_RootFS x) \<and> storable_resolved_limits (cs_Limits x)"

lemma container_spec_fits [codec]:
  "storable_container_spec x \<Longrightarrow> 4 \<le> n \<Longrightarrow> fits n container_spec_schema (container_spec_json x)"
  unfolding container_spec_schema_def container_spec_json_def
  by (rule fits_struct) (auto simp: storable_container_spec_def container_spec_fields_def field_fits_def
      list_all_iff option_all codec)

lemma container_spec_read [codec]:
  "storable_container_spec x \<Longrightarrow> container_spec_of (container_spec_json x) = Some x"
  by (cases x) (simp add: storable_container_spec_def container_spec_of_def container_spec_json_def strict_struct_json
      container_spec_fields_def list_all_iff option_all codec)

lemma container_spec_not_null [simp]: "container_spec_json x \<noteq> JNull"
  by (simp add: container_spec_json_def struct_json_def)

definition process_identity_json :: "process_identity \<Rightarrow> json" where
  "process_identity_json x = struct_json
    [(''verified'', Some (JBool (pi_Verified x))), (''handle'', omit_text (pi_Handle x)),
     (''evidence'', omit_text (pi_Evidence x))]"

definition process_identity_fields :: "(string \<times> schema) list" where
  "process_identity_fields =
    [(''verified'', Any), (''handle'', Any), (''evidence'', Any)]"

definition process_identity_schema :: schema where "process_identity_schema = Struct process_identity_fields"

definition zero_process_identity :: process_identity where
  "zero_process_identity =
    \<lparr>pi_Verified = False, pi_Handle = [], pi_Evidence = []\<rparr>"

definition process_identity_of :: "json \<Rightarrow> process_identity option" where
  "process_identity_of = strict_struct process_identity_fields (\<lambda>kvs. do {
     a \<leftarrow> field kvs ''verified'' False flag_of;
     b \<leftarrow> field kvs ''handle'' [] text_of;
     c \<leftarrow> field kvs ''evidence'' [] text_of;
     Some \<lparr>pi_Verified = a, pi_Handle = b, pi_Evidence = c\<rparr> })"

definition storable_process_identity :: "process_identity \<Rightarrow> bool" where
  "storable_process_identity x \<longleftrightarrow>
     ValidString (pi_Handle x) \<and> ValidString (pi_Evidence x)"

lemma process_identity_fits [codec]:
  "storable_process_identity x \<Longrightarrow> 1 \<le> n \<Longrightarrow> fits n process_identity_schema (process_identity_json x)"
  unfolding process_identity_schema_def process_identity_json_def
  by (rule fits_struct) (auto simp: storable_process_identity_def process_identity_fields_def field_fits_def
      list_all_iff option_all codec)

lemma process_identity_read [codec]:
  "storable_process_identity x \<Longrightarrow> process_identity_of (process_identity_json x) = Some x"
  by (cases x) (simp add: storable_process_identity_def process_identity_of_def process_identity_json_def strict_struct_json
      process_identity_fields_def list_all_iff option_all codec)

lemma process_identity_not_null [simp]: "process_identity_json x \<noteq> JNull"
  by (simp add: process_identity_json_def struct_json_def)

definition stream_references_json :: "stream_references \<Rightarrow> json" where
  "stream_references_json x = struct_json
    [(''stdin'', omit_text (sr_Stdin x)), (''stdout'', omit_text (sr_Stdout x)),
     (''stderr'', omit_text (sr_Stderr x))]"

definition stream_references_fields :: "(string \<times> schema) list" where
  "stream_references_fields =
    [(''stdin'', Any), (''stdout'', Any), (''stderr'', Any)]"

definition stream_references_schema :: schema where "stream_references_schema = Struct stream_references_fields"

definition zero_stream_references :: stream_references where
  "zero_stream_references =
    \<lparr>sr_Stdin = [], sr_Stdout = [], sr_Stderr = []\<rparr>"

definition stream_references_of :: "json \<Rightarrow> stream_references option" where
  "stream_references_of = strict_struct stream_references_fields (\<lambda>kvs. do {
     a \<leftarrow> field kvs ''stdin'' [] text_of;
     b \<leftarrow> field kvs ''stdout'' [] text_of;
     c \<leftarrow> field kvs ''stderr'' [] text_of;
     Some \<lparr>sr_Stdin = a, sr_Stdout = b, sr_Stderr = c\<rparr> })"

definition storable_stream_references :: "stream_references \<Rightarrow> bool" where
  "storable_stream_references x \<longleftrightarrow>
     ValidString (sr_Stdin x) \<and> ValidString (sr_Stdout x) \<and> ValidString (sr_Stderr x)"

lemma stream_references_fits [codec]:
  "storable_stream_references x \<Longrightarrow> 1 \<le> n \<Longrightarrow> fits n stream_references_schema (stream_references_json x)"
  unfolding stream_references_schema_def stream_references_json_def
  by (rule fits_struct) (auto simp: storable_stream_references_def stream_references_fields_def field_fits_def
      list_all_iff option_all codec)

lemma stream_references_read [codec]:
  "storable_stream_references x \<Longrightarrow> stream_references_of (stream_references_json x) = Some x"
  by (cases x) (simp add: storable_stream_references_def stream_references_of_def stream_references_json_def strict_struct_json
      stream_references_fields_def list_all_iff option_all codec)

lemma stream_references_not_null [simp]: "stream_references_json x \<noteq> JNull"
  by (simp add: stream_references_json_def struct_json_def)

definition outcome_json :: "outcome \<Rightarrow> json" where
  "outcome_json x = struct_json
    [(''presence'', Some (JStr (OutcomePresence_text (oc_Presence x)))),
     (''exit_code'', map_option int_json (oc_ExitCode x)), (''signal'', omit_text (oc_Signal x)),
     (''oom'', Some (JStr (EvidenceState_text (oc_OOM x)))),
     (''started_at'', map_option time_json (oc_StartedAt x)),
     (''finished_at'', map_option time_json (oc_FinishedAt x)),
     (''running_duration'', map_option int_json (oc_RunningDuration x))]"

definition outcome_fields :: "(string \<times> schema) list" where
  "outcome_fields =
    [(''presence'', Any), (''exit_code'', Any), (''signal'', Any), (''oom'', Any), (''started_at'', Any),
     (''finished_at'', Any), (''running_duration'', Any)]"

definition outcome_schema :: schema where "outcome_schema = Struct outcome_fields"

definition zero_outcome :: outcome where
  "zero_outcome =
    \<lparr>oc_Presence = (OutcomePresence_from []), oc_ExitCode = None, oc_Signal = [],
      oc_OOM = (EvidenceState_from []), oc_StartedAt = None, oc_FinishedAt = None,
      oc_RunningDuration = None\<rparr>"

definition outcome_of :: "json \<Rightarrow> outcome option" where
  "outcome_of = strict_struct outcome_fields (\<lambda>kvs. do {
     a \<leftarrow> field kvs ''presence'' (OutcomePresence_from []) (map_option OutcomePresence_from \<circ> text_of);
     b \<leftarrow> field kvs ''exit_code'' None (pointer int32_of);
     c \<leftarrow> field kvs ''signal'' [] text_of;
     d \<leftarrow> field kvs ''oom'' (EvidenceState_from []) (map_option EvidenceState_from \<circ> text_of);
     e \<leftarrow> field kvs ''started_at'' None (pointer time_of);
     f \<leftarrow> field kvs ''finished_at'' None (pointer time_of);
     g \<leftarrow> field kvs ''running_duration'' None (pointer int64_of);
     Some \<lparr>oc_Presence = a, oc_ExitCode = b, oc_Signal = c, oc_OOM = d, oc_StartedAt = e,
           oc_FinishedAt = f, oc_RunningDuration = g\<rparr> })"

definition storable_outcome :: "outcome \<Rightarrow> bool" where
  "storable_outcome x \<longleftrightarrow>
     OutcomePresence_Valid (oc_Presence x) \<and> pred_option in_int32 (oc_ExitCode x) \<and>
     ValidString (oc_Signal x) \<and> EvidenceState_Valid (oc_OOM x) \<and>
     pred_option storable_time (oc_StartedAt x) \<and> pred_option storable_time (oc_FinishedAt x) \<and>
     pred_option in_int64 (oc_RunningDuration x)"

lemma outcome_fits [codec]:
  "storable_outcome x \<Longrightarrow> 1 \<le> n \<Longrightarrow> fits n outcome_schema (outcome_json x)"
  unfolding outcome_schema_def outcome_json_def
  by (rule fits_struct) (auto simp: storable_outcome_def outcome_fields_def field_fits_def
      list_all_iff option_all codec)

lemma outcome_read [codec]:
  "storable_outcome x \<Longrightarrow> outcome_of (outcome_json x) = Some x"
  by (cases x) (simp add: storable_outcome_def outcome_of_def outcome_json_def strict_struct_json
      outcome_fields_def list_all_iff option_all codec)

lemma outcome_not_null [simp]: "outcome_json x \<noteq> JNull"
  by (simp add: outcome_json_def struct_json_def)

definition container_status_json :: "container_status \<Rightarrow> json" where
  "container_status_json x = struct_json
    [(''phase'', Some (JStr (AttemptPhase_text (ct_Phase x)))),
     (''generation'', Some (int_json (uint (ct_Generation x)))),
     (''observed_generation'', Some (int_json (uint (ct_ObservedGeneration x)))),
     (''conditions'', omit_list condition_json (ct_Conditions x)),
     (''process_identity'', map_option process_identity_json (ct_ProcessIdentity x)),
     (''streams'', Some (stream_references_json (ct_Streams x))),
     (''outcome'', Some (outcome_json (ct_Outcome x))),
     (''last_observation'', Some (observation_json (ct_LastObservation x)))]"

definition container_status_fields :: "(string \<times> schema) list" where
  "container_status_fields =
    [(''phase'', Any), (''generation'', Any), (''observed_generation'', Any),
     (''conditions'', ListOf condition_schema), (''process_identity'', process_identity_schema),
     (''streams'', stream_references_schema), (''outcome'', outcome_schema),
     (''last_observation'', observation_schema)]"

definition container_status_schema :: schema where "container_status_schema = Struct container_status_fields"

definition zero_container_status :: container_status where
  "zero_container_status =
    \<lparr>ct_Phase = (AttemptPhase_from []), ct_Generation = 0, ct_ObservedGeneration = 0,
      ct_Conditions = [], ct_ProcessIdentity = None, ct_Streams = zero_stream_references,
      ct_Outcome = zero_outcome, ct_LastObservation = zero_observation\<rparr>"

definition container_status_of :: "json \<Rightarrow> container_status option" where
  "container_status_of = strict_struct container_status_fields (\<lambda>kvs. do {
     a \<leftarrow> field kvs ''phase'' (AttemptPhase_from []) (map_option AttemptPhase_from \<circ> text_of);
     b \<leftarrow> field kvs ''generation'' 0 uint64_of;
     c \<leftarrow> field kvs ''observed_generation'' 0 uint64_of;
     d \<leftarrow> field kvs ''conditions'' [] (list_of zero_condition condition_of);
     e \<leftarrow> field kvs ''process_identity'' None (pointer process_identity_of);
     f \<leftarrow> field kvs ''streams'' zero_stream_references stream_references_of;
     g \<leftarrow> field kvs ''outcome'' zero_outcome outcome_of;
     h \<leftarrow> field kvs ''last_observation'' zero_observation observation_of;
     Some \<lparr>ct_Phase = a, ct_Generation = b, ct_ObservedGeneration = c, ct_Conditions = d,
           ct_ProcessIdentity = e, ct_Streams = f, ct_Outcome = g, ct_LastObservation = h\<rparr> })"

definition storable_container_status :: "container_status \<Rightarrow> bool" where
  "storable_container_status x \<longleftrightarrow>
     AttemptPhase_Valid (ct_Phase x) \<and> list_all storable_condition (ct_Conditions x) \<and>
     pred_option storable_process_identity (ct_ProcessIdentity x) \<and>
     storable_stream_references (ct_Streams x) \<and> storable_outcome (ct_Outcome x) \<and>
     storable_observation (ct_LastObservation x)"

lemma container_status_fits [codec]:
  "storable_container_status x \<Longrightarrow> 3 \<le> n \<Longrightarrow> fits n container_status_schema (container_status_json x)"
  unfolding container_status_schema_def container_status_json_def
  by (rule fits_struct) (auto simp: storable_container_status_def container_status_fields_def field_fits_def
      list_all_iff option_all codec)

lemma container_status_read [codec]:
  "storable_container_status x \<Longrightarrow> container_status_of (container_status_json x) = Some x"
  by (cases x) (simp add: storable_container_status_def container_status_of_def container_status_json_def strict_struct_json
      container_status_fields_def list_all_iff option_all codec)

lemma container_status_not_null [simp]: "container_status_json x \<noteq> JNull"
  by (simp add: container_status_json_def struct_json_def)

definition container_json :: "container \<Rightarrow> json" where
  "container_json x = struct_json
    [(''schema_version'', Some (int_json (uint (co_SchemaVersion x)))), (''id'', Some (JStr (co_ID x))),
     (''sandbox_id'', Some (JStr (co_SandboxID x))), (''attempt_id'', Some (JStr (co_AttemptID x))),
     (''spec'', Some (container_spec_json (co_Spec x))),
     (''status'', Some (container_status_json (co_Status x)))]"

definition container_fields :: "(string \<times> schema) list" where
  "container_fields =
    [(''schema_version'', Any), (''id'', Any), (''sandbox_id'', Any), (''attempt_id'', Any),
     (''spec'', container_spec_schema), (''status'', container_status_schema)]"

definition container_schema :: schema where "container_schema = Struct container_fields"

definition zero_container :: container where
  "zero_container =
    \<lparr>co_SchemaVersion = 0, co_ID = [], co_SandboxID = [], co_AttemptID = [],
      co_Spec = zero_container_spec, co_Status = zero_container_status\<rparr>"

definition container_of :: "json \<Rightarrow> container option" where
  "container_of = strict_struct container_fields (\<lambda>kvs. do {
     a \<leftarrow> field kvs ''schema_version'' 0 uint32_of;
     b \<leftarrow> field kvs ''id'' [] text_of;
     c \<leftarrow> field kvs ''sandbox_id'' [] text_of;
     d \<leftarrow> field kvs ''attempt_id'' [] text_of;
     e \<leftarrow> field kvs ''spec'' zero_container_spec container_spec_of;
     f \<leftarrow> field kvs ''status'' zero_container_status container_status_of;
     Some \<lparr>co_SchemaVersion = a, co_ID = b, co_SandboxID = c, co_AttemptID = d, co_Spec = e, co_Status = f\<rparr> })"

definition storable_container :: "container \<Rightarrow> bool" where
  "storable_container x \<longleftrightarrow>
     ValidString (co_ID x) \<and> ValidString (co_SandboxID x) \<and> ValidString (co_AttemptID x) \<and>
     storable_container_spec (co_Spec x) \<and> storable_container_status (co_Status x)"

lemma container_fits [codec]:
  "storable_container x \<Longrightarrow> 5 \<le> n \<Longrightarrow> fits n container_schema (container_json x)"
  unfolding container_schema_def container_json_def
  by (rule fits_struct) (auto simp: storable_container_def container_fields_def field_fits_def
      list_all_iff option_all codec)

lemma container_read [codec]:
  "storable_container x \<Longrightarrow> container_of (container_json x) = Some x"
  by (cases x) (simp add: storable_container_def container_of_def container_json_def strict_struct_json
      container_fields_def list_all_iff option_all codec)

lemma container_not_null [simp]: "container_json x \<noteq> JNull"
  by (simp add: container_json_def struct_json_def)

definition attempt_json :: "attempt \<Rightarrow> json" where
  "attempt_json x = struct_json
    [(''schema_version'', Some (int_json (uint (at_SchemaVersion x)))), (''id'', Some (JStr (at_ID x))),
     (''sandbox_id'', Some (JStr (at_SandboxID x))), (''container_id'', Some (JStr (at_ContainerID x))),
     (''phase'', Some (JStr (AttemptPhase_text (at_Phase x)))),
     (''conditions'', omit_list condition_json (at_Conditions x)),
     (''process_identity'', map_option process_identity_json (at_ProcessIdentity x)),
     (''streams'', Some (stream_references_json (at_Streams x))),
     (''outcome'', Some (outcome_json (at_Outcome x))),
     (''last_observation'', Some (observation_json (at_LastObservation x)))]"

definition attempt_fields :: "(string \<times> schema) list" where
  "attempt_fields =
    [(''schema_version'', Any), (''id'', Any), (''sandbox_id'', Any), (''container_id'', Any),
     (''phase'', Any), (''conditions'', ListOf condition_schema),
     (''process_identity'', process_identity_schema), (''streams'', stream_references_schema),
     (''outcome'', outcome_schema), (''last_observation'', observation_schema)]"

definition attempt_schema :: schema where "attempt_schema = Struct attempt_fields"

definition zero_attempt :: attempt where
  "zero_attempt =
    \<lparr>at_SchemaVersion = 0, at_ID = [], at_SandboxID = [], at_ContainerID = [],
      at_Phase = (AttemptPhase_from []), at_Conditions = [], at_ProcessIdentity = None,
      at_Streams = zero_stream_references, at_Outcome = zero_outcome,
      at_LastObservation = zero_observation\<rparr>"

definition attempt_of :: "json \<Rightarrow> attempt option" where
  "attempt_of = strict_struct attempt_fields (\<lambda>kvs. do {
     a \<leftarrow> field kvs ''schema_version'' 0 uint32_of;
     b \<leftarrow> field kvs ''id'' [] text_of;
     c \<leftarrow> field kvs ''sandbox_id'' [] text_of;
     d \<leftarrow> field kvs ''container_id'' [] text_of;
     e \<leftarrow> field kvs ''phase'' (AttemptPhase_from []) (map_option AttemptPhase_from \<circ> text_of);
     f \<leftarrow> field kvs ''conditions'' [] (list_of zero_condition condition_of);
     g \<leftarrow> field kvs ''process_identity'' None (pointer process_identity_of);
     h \<leftarrow> field kvs ''streams'' zero_stream_references stream_references_of;
     i \<leftarrow> field kvs ''outcome'' zero_outcome outcome_of;
     j \<leftarrow> field kvs ''last_observation'' zero_observation observation_of;
     Some \<lparr>at_SchemaVersion = a, at_ID = b, at_SandboxID = c, at_ContainerID = d, at_Phase = e,
           at_Conditions = f, at_ProcessIdentity = g, at_Streams = h, at_Outcome = i,
           at_LastObservation = j\<rparr> })"

definition storable_attempt :: "attempt \<Rightarrow> bool" where
  "storable_attempt x \<longleftrightarrow>
     ValidString (at_ID x) \<and> ValidString (at_SandboxID x) \<and>
     ValidString (at_ContainerID x) \<and> AttemptPhase_Valid (at_Phase x) \<and>
     list_all storable_condition (at_Conditions x) \<and>
     pred_option storable_process_identity (at_ProcessIdentity x) \<and>
     storable_stream_references (at_Streams x) \<and> storable_outcome (at_Outcome x) \<and>
     storable_observation (at_LastObservation x)"

lemma attempt_fits [codec]:
  "storable_attempt x \<Longrightarrow> 3 \<le> n \<Longrightarrow> fits n attempt_schema (attempt_json x)"
  unfolding attempt_schema_def attempt_json_def
  by (rule fits_struct) (auto simp: storable_attempt_def attempt_fields_def field_fits_def
      list_all_iff option_all codec)

lemma attempt_read [codec]:
  "storable_attempt x \<Longrightarrow> attempt_of (attempt_json x) = Some x"
  by (cases x) (simp add: storable_attempt_def attempt_of_def attempt_json_def strict_struct_json
      attempt_fields_def list_all_iff option_all codec)

lemma attempt_not_null [simp]: "attempt_json x \<noteq> JNull"
  by (simp add: attempt_json_def struct_json_def)

definition container_attempt_json :: "container_attempt \<Rightarrow> json" where
  "container_attempt_json x = struct_json
    [(''container'', Some (container_json (ca_Container x))),
     (''attempt'', Some (attempt_json (ca_Attempt x)))]"

definition container_attempt_fields :: "(string \<times> schema) list" where
  "container_attempt_fields =
    [(''container'', container_schema), (''attempt'', attempt_schema)]"

definition container_attempt_schema :: schema where "container_attempt_schema = Struct container_attempt_fields"

definition zero_container_attempt :: container_attempt where
  "zero_container_attempt =
    \<lparr>ca_Container = zero_container, ca_Attempt = zero_attempt\<rparr>"

definition container_attempt_of :: "json \<Rightarrow> container_attempt option" where
  "container_attempt_of = strict_struct container_attempt_fields (\<lambda>kvs. do {
     a \<leftarrow> field kvs ''container'' zero_container container_of;
     b \<leftarrow> field kvs ''attempt'' zero_attempt attempt_of;
     Some \<lparr>ca_Container = a, ca_Attempt = b\<rparr> })"

definition storable_container_attempt :: "container_attempt \<Rightarrow> bool" where
  "storable_container_attempt x \<longleftrightarrow>
     storable_container (ca_Container x) \<and> storable_attempt (ca_Attempt x)"

lemma container_attempt_fits [codec]:
  "storable_container_attempt x \<Longrightarrow> 6 \<le> n \<Longrightarrow> fits n container_attempt_schema (container_attempt_json x)"
  unfolding container_attempt_schema_def container_attempt_json_def
  by (rule fits_struct) (auto simp: storable_container_attempt_def container_attempt_fields_def field_fits_def
      list_all_iff option_all codec)

lemma container_attempt_read [codec]:
  "storable_container_attempt x \<Longrightarrow> container_attempt_of (container_attempt_json x) = Some x"
  by (cases x) (simp add: storable_container_attempt_def container_attempt_of_def container_attempt_json_def strict_struct_json
      container_attempt_fields_def list_all_iff option_all codec)

lemma container_attempt_not_null [simp]: "container_attempt_json x \<noteq> JNull"
  by (simp add: container_attempt_json_def struct_json_def)

definition kill_plan_json :: "kill_plan \<Rightarrow> json" where
  "kill_plan_json x = struct_json
    [(''signal'', Some (JStr (kp_Signal x))), (''grace_period'', Some (int_json (kp_GracePeriod x))),
     (''escalation_signal'', Some (JStr (kp_EscalationSignal x)))]"

definition kill_plan_fields :: "(string \<times> schema) list" where
  "kill_plan_fields =
    [(''signal'', Any), (''grace_period'', Any), (''escalation_signal'', Any)]"

definition kill_plan_schema :: schema where "kill_plan_schema = Struct kill_plan_fields"

definition zero_kill_plan :: kill_plan where
  "zero_kill_plan =
    \<lparr>kp_Signal = [], kp_GracePeriod = 0, kp_EscalationSignal = []\<rparr>"

definition kill_plan_of :: "json \<Rightarrow> kill_plan option" where
  "kill_plan_of = strict_struct kill_plan_fields (\<lambda>kvs. do {
     a \<leftarrow> field kvs ''signal'' [] text_of;
     b \<leftarrow> field kvs ''grace_period'' 0 int64_of;
     c \<leftarrow> field kvs ''escalation_signal'' [] text_of;
     Some \<lparr>kp_Signal = a, kp_GracePeriod = b, kp_EscalationSignal = c\<rparr> })"

definition storable_kill_plan :: "kill_plan \<Rightarrow> bool" where
  "storable_kill_plan x \<longleftrightarrow>
     ValidString (kp_Signal x) \<and> in_int64 (kp_GracePeriod x) \<and>
     ValidString (kp_EscalationSignal x)"

lemma kill_plan_fits [codec]:
  "storable_kill_plan x \<Longrightarrow> 1 \<le> n \<Longrightarrow> fits n kill_plan_schema (kill_plan_json x)"
  unfolding kill_plan_schema_def kill_plan_json_def
  by (rule fits_struct) (auto simp: storable_kill_plan_def kill_plan_fields_def field_fits_def
      list_all_iff option_all codec)

lemma kill_plan_read [codec]:
  "storable_kill_plan x \<Longrightarrow> kill_plan_of (kill_plan_json x) = Some x"
  by (cases x) (simp add: storable_kill_plan_def kill_plan_of_def kill_plan_json_def strict_struct_json
      kill_plan_fields_def list_all_iff option_all codec)

lemma kill_plan_not_null [simp]: "kill_plan_json x \<noteq> JNull"
  by (simp add: kill_plan_json_def struct_json_def)

end
