(* ===== verification/Lifecycle_Codec.thy ===== *)
theory Lifecycle_Codec
  imports Domain_Json
begin

text \<open>
  The durable replies of \<open>internal/lifecycle\<close> (\<open>coordinator.go\<close>, \<open>types.go\<close>, \<open>reconcile.go\<close>): what
  an operation stores for exact replay, as JSON, and the strict decoding of it. Each of the four
  kinds of reply is a \<open>document\<close>.
\<close>

record host_binding =
  hb_ContainerID :: container_id
  hb_AttemptID :: attempt_id
  hb_Generation :: generation
  hb_Owner :: owner_key

record sandbox_response =
  sp_Sandbox :: "sandbox option"
  sp_Removed :: bool

record container_response =
  cp_ContainerAttempt :: "container_attempt option"
  cp_HostBinding :: "host_binding option"
  cp_Removed :: bool

record kill_response =
  kr_Plan :: kill_plan
  kr_Actionable :: bool
  kr_ProcessIdentity :: process_identity
  kr_ContainerAttempt :: "container_attempt option"

record reconcile_response =
  rp_Sandbox :: "sandbox option"
  rp_ContainerAttempt :: "container_attempt option"

lemma TargetKind_ascii [codec]: "TargetKind_Valid k \<Longrightarrow> ValidString (TargetKind_String k)"
  by (cases k) (simp_all add: ValidString_def)

lemma target_json_struct: "target_json x = struct_json
    [(''kind'', Some (JStr (TargetKind_String (tg_Kind x)))), (''id'', Some (JStr (tg_ID x)))]"
  by (simp add: target_json_def struct_json_def members.simps)

definition target_fields :: "(string \<times> schema) list" where
  "target_fields =
    [(''kind'', Any), (''id'', Any)]"

definition target_schema :: schema where "target_schema = Struct target_fields"

definition zero_target :: target where
  "zero_target =
    \<lparr>tg_Kind = (kind_decode []), tg_ID = []\<rparr>"

definition target_of :: "json \<Rightarrow> target option" where
  "target_of = strict_struct target_fields (\<lambda>kvs. do {
     a \<leftarrow> field kvs ''kind'' (kind_decode []) (map_option kind_decode \<circ> text_of);
     b \<leftarrow> field kvs ''id'' [] text_of;
     Some \<lparr>tg_Kind = a, tg_ID = b\<rparr> })"

definition storable_target :: "target \<Rightarrow> bool" where
  "storable_target x \<longleftrightarrow>
     TargetKind_Valid (tg_Kind x) \<and> ValidString (tg_ID x)"

lemma target_fits [codec]:
  "storable_target x \<Longrightarrow> 1 \<le> n \<Longrightarrow> fits n target_schema (target_json x)"
  unfolding target_schema_def target_json_struct
  by (rule fits_struct) (auto simp: storable_target_def target_fields_def field_fits_def
      list_all_iff option_all codec)

lemma target_read [codec]:
  "storable_target x \<Longrightarrow> target_of (target_json x) = Some x"
  by (cases x) (simp add: storable_target_def target_of_def target_json_struct strict_struct_json
      target_fields_def list_all_iff option_all codec)

lemma target_not_null [simp]: "target_json x \<noteq> JNull"
  by (simp add: target_json_struct struct_json_def)

lemma owner_key_json_struct: "owner_key_json x = struct_json
    [(''operation_id'', Some (JStr (ok_OperationID x))), (''target'', Some (target_json (ok_Target x))),
     (''generation'', Some (int_json (uint (ok_Generation x)))), (''token'', Some (JStr (ok_Token x)))]"
  by (simp add: owner_key_json_def struct_json_def members.simps int_json_def show_int_def nat_uint_eq)

definition owner_key_fields :: "(string \<times> schema) list" where
  "owner_key_fields =
    [(''operation_id'', Any), (''target'', target_schema), (''generation'', Any), (''token'', Any)]"

definition owner_key_schema :: schema where "owner_key_schema = Struct owner_key_fields"

definition zero_owner_key :: owner_key where
  "zero_owner_key =
    \<lparr>ok_OperationID = [], ok_Target = zero_target, ok_Generation = 0, ok_Token = []\<rparr>"

definition owner_key_of :: "json \<Rightarrow> owner_key option" where
  "owner_key_of = strict_struct owner_key_fields (\<lambda>kvs. do {
     a \<leftarrow> field kvs ''operation_id'' [] text_of;
     b \<leftarrow> field kvs ''target'' zero_target target_of;
     c \<leftarrow> field kvs ''generation'' 0 uint64_of;
     d \<leftarrow> field kvs ''token'' [] text_of;
     Some \<lparr>ok_OperationID = a, ok_Target = b, ok_Generation = c, ok_Token = d\<rparr> })"

definition storable_owner_key :: "owner_key \<Rightarrow> bool" where
  "storable_owner_key x \<longleftrightarrow>
     ValidString (ok_OperationID x) \<and> storable_target (ok_Target x) \<and> ValidString (ok_Token x)"

lemma owner_key_fits [codec]:
  "storable_owner_key x \<Longrightarrow> 2 \<le> n \<Longrightarrow> fits n owner_key_schema (owner_key_json x)"
  unfolding owner_key_schema_def owner_key_json_struct
  by (rule fits_struct) (auto simp: storable_owner_key_def owner_key_fields_def field_fits_def
      list_all_iff option_all codec)

lemma owner_key_read [codec]:
  "storable_owner_key x \<Longrightarrow> owner_key_of (owner_key_json x) = Some x"
  by (cases x) (simp add: storable_owner_key_def owner_key_of_def owner_key_json_struct strict_struct_json
      owner_key_fields_def list_all_iff option_all codec)

lemma owner_key_not_null [simp]: "owner_key_json x \<noteq> JNull"
  by (simp add: owner_key_json_struct struct_json_def)

definition host_binding_json :: "host_binding \<Rightarrow> json" where
  "host_binding_json x = struct_json
    [(''container_id'', Some (JStr (hb_ContainerID x))), (''attempt_id'', Some (JStr (hb_AttemptID x))),
     (''generation'', Some (int_json (uint (hb_Generation x)))),
     (''owner'', Some (owner_key_json (hb_Owner x)))]"

definition host_binding_fields :: "(string \<times> schema) list" where
  "host_binding_fields =
    [(''container_id'', Any), (''attempt_id'', Any), (''generation'', Any), (''owner'', owner_key_schema)]"

definition host_binding_schema :: schema where "host_binding_schema = Struct host_binding_fields"

definition zero_host_binding :: host_binding where
  "zero_host_binding =
    \<lparr>hb_ContainerID = [], hb_AttemptID = [], hb_Generation = 0, hb_Owner = zero_owner_key\<rparr>"

definition host_binding_of :: "json \<Rightarrow> host_binding option" where
  "host_binding_of = strict_struct host_binding_fields (\<lambda>kvs. do {
     a \<leftarrow> field kvs ''container_id'' [] text_of;
     b \<leftarrow> field kvs ''attempt_id'' [] text_of;
     c \<leftarrow> field kvs ''generation'' 0 uint64_of;
     d \<leftarrow> field kvs ''owner'' zero_owner_key owner_key_of;
     Some \<lparr>hb_ContainerID = a, hb_AttemptID = b, hb_Generation = c, hb_Owner = d\<rparr> })"

definition storable_host_binding :: "host_binding \<Rightarrow> bool" where
  "storable_host_binding x \<longleftrightarrow>
     ValidString (hb_ContainerID x) \<and> ValidString (hb_AttemptID x) \<and>
     storable_owner_key (hb_Owner x)"

lemma host_binding_fits [codec]:
  "storable_host_binding x \<Longrightarrow> 3 \<le> n \<Longrightarrow> fits n host_binding_schema (host_binding_json x)"
  unfolding host_binding_schema_def host_binding_json_def
  by (rule fits_struct) (auto simp: storable_host_binding_def host_binding_fields_def field_fits_def
      list_all_iff option_all codec)

lemma host_binding_read [codec]:
  "storable_host_binding x \<Longrightarrow> host_binding_of (host_binding_json x) = Some x"
  by (cases x) (simp add: storable_host_binding_def host_binding_of_def host_binding_json_def strict_struct_json
      host_binding_fields_def list_all_iff option_all codec)

lemma host_binding_not_null [simp]: "host_binding_json x \<noteq> JNull"
  by (simp add: host_binding_json_def struct_json_def)

definition sandbox_response_json :: "sandbox_response \<Rightarrow> json" where
  "sandbox_response_json x = struct_json
    [(''sandbox'', map_option sandbox_json (sp_Sandbox x)), (''removed'', omit_flag (sp_Removed x))]"

definition sandbox_response_fields :: "(string \<times> schema) list" where
  "sandbox_response_fields =
    [(''sandbox'', sandbox_schema), (''removed'', Any)]"

definition sandbox_response_schema :: schema where "sandbox_response_schema = Struct sandbox_response_fields"

definition zero_sandbox_response :: sandbox_response where
  "zero_sandbox_response =
    \<lparr>sp_Sandbox = None, sp_Removed = False\<rparr>"

definition sandbox_response_of :: "json \<Rightarrow> sandbox_response option" where
  "sandbox_response_of = strict_struct sandbox_response_fields (\<lambda>kvs. do {
     a \<leftarrow> field kvs ''sandbox'' None (pointer sandbox_of);
     b \<leftarrow> field kvs ''removed'' False flag_of;
     Some \<lparr>sp_Sandbox = a, sp_Removed = b\<rparr> })"

definition storable_sandbox_response :: "sandbox_response \<Rightarrow> bool" where
  "storable_sandbox_response x \<longleftrightarrow>
     pred_option storable_sandbox (sp_Sandbox x)"

lemma sandbox_response_fits [codec]:
  "storable_sandbox_response x \<Longrightarrow> 5 \<le> n \<Longrightarrow> fits n sandbox_response_schema (sandbox_response_json x)"
  unfolding sandbox_response_schema_def sandbox_response_json_def
  by (rule fits_struct) (auto simp: storable_sandbox_response_def sandbox_response_fields_def field_fits_def
      list_all_iff option_all codec)

lemma sandbox_response_read [codec]:
  "storable_sandbox_response x \<Longrightarrow> sandbox_response_of (sandbox_response_json x) = Some x"
  by (cases x) (simp add: storable_sandbox_response_def sandbox_response_of_def sandbox_response_json_def strict_struct_json
      sandbox_response_fields_def list_all_iff option_all codec)

lemma sandbox_response_not_null [simp]: "sandbox_response_json x \<noteq> JNull"
  by (simp add: sandbox_response_json_def struct_json_def)

definition container_response_json :: "container_response \<Rightarrow> json" where
  "container_response_json x = struct_json
    [(''container_attempt'', map_option container_attempt_json (cp_ContainerAttempt x)),
     (''host_binding'', map_option host_binding_json (cp_HostBinding x)),
     (''removed'', omit_flag (cp_Removed x))]"

definition container_response_fields :: "(string \<times> schema) list" where
  "container_response_fields =
    [(''container_attempt'', container_attempt_schema), (''host_binding'', host_binding_schema),
     (''removed'', Any)]"

definition container_response_schema :: schema where "container_response_schema = Struct container_response_fields"

definition zero_container_response :: container_response where
  "zero_container_response =
    \<lparr>cp_ContainerAttempt = None, cp_HostBinding = None, cp_Removed = False\<rparr>"

definition container_response_of :: "json \<Rightarrow> container_response option" where
  "container_response_of = strict_struct container_response_fields (\<lambda>kvs. do {
     a \<leftarrow> field kvs ''container_attempt'' None (pointer container_attempt_of);
     b \<leftarrow> field kvs ''host_binding'' None (pointer host_binding_of);
     c \<leftarrow> field kvs ''removed'' False flag_of;
     Some \<lparr>cp_ContainerAttempt = a, cp_HostBinding = b, cp_Removed = c\<rparr> })"

definition storable_container_response :: "container_response \<Rightarrow> bool" where
  "storable_container_response x \<longleftrightarrow>
     pred_option storable_container_attempt (cp_ContainerAttempt x) \<and>
     pred_option storable_host_binding (cp_HostBinding x)"

lemma container_response_fits [codec]:
  "storable_container_response x \<Longrightarrow> 7 \<le> n \<Longrightarrow> fits n container_response_schema (container_response_json x)"
  unfolding container_response_schema_def container_response_json_def
  by (rule fits_struct) (auto simp: storable_container_response_def container_response_fields_def field_fits_def
      list_all_iff option_all codec)

lemma container_response_read [codec]:
  "storable_container_response x \<Longrightarrow> container_response_of (container_response_json x) = Some x"
  by (cases x) (simp add: storable_container_response_def container_response_of_def container_response_json_def strict_struct_json
      container_response_fields_def list_all_iff option_all codec)

lemma container_response_not_null [simp]: "container_response_json x \<noteq> JNull"
  by (simp add: container_response_json_def struct_json_def)

definition kill_response_json :: "kill_response \<Rightarrow> json" where
  "kill_response_json x = struct_json
    [(''plan'', Some (kill_plan_json (kr_Plan x))), (''actionable'', Some (JBool (kr_Actionable x))),
     (''process_identity'', Some (process_identity_json (kr_ProcessIdentity x))),
     (''container_attempt'', map_option container_attempt_json (kr_ContainerAttempt x))]"

definition kill_response_fields :: "(string \<times> schema) list" where
  "kill_response_fields =
    [(''plan'', kill_plan_schema), (''actionable'', Any),
     (''process_identity'', process_identity_schema), (''container_attempt'', container_attempt_schema)]"

definition kill_response_schema :: schema where "kill_response_schema = Struct kill_response_fields"

definition zero_kill_response :: kill_response where
  "zero_kill_response =
    \<lparr>kr_Plan = zero_kill_plan, kr_Actionable = False, kr_ProcessIdentity = zero_process_identity,
      kr_ContainerAttempt = None\<rparr>"

definition kill_response_of :: "json \<Rightarrow> kill_response option" where
  "kill_response_of = strict_struct kill_response_fields (\<lambda>kvs. do {
     a \<leftarrow> field kvs ''plan'' zero_kill_plan kill_plan_of;
     b \<leftarrow> field kvs ''actionable'' False flag_of;
     c \<leftarrow> field kvs ''process_identity'' zero_process_identity process_identity_of;
     d \<leftarrow> field kvs ''container_attempt'' None (pointer container_attempt_of);
     Some \<lparr>kr_Plan = a, kr_Actionable = b, kr_ProcessIdentity = c, kr_ContainerAttempt = d\<rparr> })"

definition storable_kill_response :: "kill_response \<Rightarrow> bool" where
  "storable_kill_response x \<longleftrightarrow>
     storable_kill_plan (kr_Plan x) \<and> storable_process_identity (kr_ProcessIdentity x) \<and>
     pred_option storable_container_attempt (kr_ContainerAttempt x)"

lemma kill_response_fits [codec]:
  "storable_kill_response x \<Longrightarrow> 7 \<le> n \<Longrightarrow> fits n kill_response_schema (kill_response_json x)"
  unfolding kill_response_schema_def kill_response_json_def
  by (rule fits_struct) (auto simp: storable_kill_response_def kill_response_fields_def field_fits_def
      list_all_iff option_all codec)

lemma kill_response_read [codec]:
  "storable_kill_response x \<Longrightarrow> kill_response_of (kill_response_json x) = Some x"
  by (cases x) (simp add: storable_kill_response_def kill_response_of_def kill_response_json_def strict_struct_json
      kill_response_fields_def list_all_iff option_all codec)

lemma kill_response_not_null [simp]: "kill_response_json x \<noteq> JNull"
  by (simp add: kill_response_json_def struct_json_def)

definition reconcile_response_json :: "reconcile_response \<Rightarrow> json" where
  "reconcile_response_json x = struct_json
    [(''sandbox'', map_option sandbox_json (rp_Sandbox x)),
     (''container_attempt'', map_option container_attempt_json (rp_ContainerAttempt x))]"

definition reconcile_response_fields :: "(string \<times> schema) list" where
  "reconcile_response_fields =
    [(''sandbox'', sandbox_schema), (''container_attempt'', container_attempt_schema)]"

definition reconcile_response_schema :: schema where "reconcile_response_schema = Struct reconcile_response_fields"

definition zero_reconcile_response :: reconcile_response where
  "zero_reconcile_response =
    \<lparr>rp_Sandbox = None, rp_ContainerAttempt = None\<rparr>"

definition reconcile_response_of :: "json \<Rightarrow> reconcile_response option" where
  "reconcile_response_of = strict_struct reconcile_response_fields (\<lambda>kvs. do {
     a \<leftarrow> field kvs ''sandbox'' None (pointer sandbox_of);
     b \<leftarrow> field kvs ''container_attempt'' None (pointer container_attempt_of);
     Some \<lparr>rp_Sandbox = a, rp_ContainerAttempt = b\<rparr> })"

definition storable_reconcile_response :: "reconcile_response \<Rightarrow> bool" where
  "storable_reconcile_response x \<longleftrightarrow>
     pred_option storable_sandbox (rp_Sandbox x) \<and>
     pred_option storable_container_attempt (rp_ContainerAttempt x)"

lemma reconcile_response_fits [codec]:
  "storable_reconcile_response x \<Longrightarrow> 7 \<le> n \<Longrightarrow> fits n reconcile_response_schema (reconcile_response_json x)"
  unfolding reconcile_response_schema_def reconcile_response_json_def
  by (rule fits_struct) (auto simp: storable_reconcile_response_def reconcile_response_fields_def field_fits_def
      list_all_iff option_all codec)

lemma reconcile_response_read [codec]:
  "storable_reconcile_response x \<Longrightarrow> reconcile_response_of (reconcile_response_json x) = Some x"
  by (cases x) (simp add: storable_reconcile_response_def reconcile_response_of_def reconcile_response_json_def strict_struct_json
      reconcile_response_fields_def list_all_iff option_all codec)

lemma reconcile_response_not_null [simp]: "reconcile_response_json x \<noteq> JNull"
  by (simp add: reconcile_response_json_def struct_json_def)

subsection \<open>Replies are read back as they were stored\<close>

interpretation sandbox_reply: document sandbox_response_json sandbox_response_of sandbox_response_schema storable_sandbox_response
  by unfold_locales (simp_all add: codec maxNestingDepth_def)

interpretation container_reply: document container_response_json container_response_of container_response_schema storable_container_response
  by unfold_locales (simp_all add: codec maxNestingDepth_def)

interpretation kill_reply: document kill_response_json kill_response_of kill_response_schema storable_kill_response
  by unfold_locales (simp_all add: codec maxNestingDepth_def)

interpretation reconcile_reply: document reconcile_response_json reconcile_response_of reconcile_response_schema storable_reconcile_response
  by unfold_locales (simp_all add: codec maxNestingDepth_def)

end
