(* ===== verification/Lifecycle_Model.thy ===== *)
theory Lifecycle_Model
  imports Lifecycle_Codec State_Store
begin

text \<open>
  The vocabulary of \<open>internal/lifecycle\<close> (\<open>types.go\<close>, \<open>operation_failure.go\<close>): verifications,
  failures, requests and results, the coordinator, and its transactions. A transaction is written
  as the Go callback is: it asks the store, goes on with the answer, and aborts with an error or
  yields its result. \<open>callback\<close> turns it into the callback that the store runs, so that everything
  proved of the store's updates holds for it.
\<close>

subsection \<open>Errors\<close>

text \<open>An error is the one it wraps; \<open>LcNotFound\<close> wraps \<open>state.ErrNotFound\<close> in a text of its own,
  \<open>LcAnswer\<close> stands for an answer of the wrong kind, which the store never gives.\<close>

datatype lc_error =
    LcStore st_error
  | LcDomain domain_error
  | LcOperation op_error
  | LcOwnership ow_error
  | LcRollback rb_error
  | LcProvider pv_error
  | LcDecode decode_error
  | LcMarshal
  | LcInvalid string
  | LcNotFound operation_id
  | LcAnswer
  | ErrVerificationRequired
  | ErrOperationType
  | ErrProcessVerification string
  | OperationFailureError operation_id reason_class

definition is_not_found :: "lc_error \<Rightarrow> bool" where
  "is_not_found e = (case e of LcStore x \<Rightarrow> x = ErrNotFound | LcNotFound _ \<Rightarrow> True | _ \<Rightarrow> False)"

lemma is_not_found_simps [simp]:
  "is_not_found (LcStore e) \<longleftrightarrow> e = ErrNotFound" "is_not_found (LcNotFound i)"
  "\<not> is_not_found (LcDomain d)" "\<not> is_not_found LcAnswer" "\<not> is_not_found LcMarshal"
  by (auto simp: is_not_found_def)

subsection \<open>Transactions\<close>

datatype 'a lc = Yield 'a | Abort lc_error | Ask tx_call "tx_answer \<Rightarrow> 'a lc"

primrec lc_bind :: "'a lc \<Rightarrow> ('a \<Rightarrow> 'b lc) \<Rightarrow> 'b lc" where
  "lc_bind (Yield a) f = f a"
| "lc_bind (Abort e) f = Abort e"
| "lc_bind (Ask c k) f = Ask c (\<lambda>a. lc_bind (k a) f)"

text \<open>\<open>attempt\<close> hands an error to the code that goes on, as where Go looks at it; the writes made
  before it stay in the candidate.\<close>

primrec attempt :: "'a lc \<Rightarrow> (lc_error + 'a) lc" where
  "attempt (Yield a) = Yield (Inr a)"
| "attempt (Abort e) = Yield (Inl e)"
| "attempt (Ask c k) = Ask c (\<lambda>a. attempt (k a))"

fun lift_res :: "lc_error + 'a \<Rightarrow> 'a lc" where
  "lift_res (Inl e) = Abort e"
| "lift_res (Inr a) = Yield a"

definition check :: "lc_error option \<Rightarrow> 'a lc \<Rightarrow> 'a lc" where
  "check o' m = (case o' of None \<Rightarrow> m | Some e \<Rightarrow> Abort e)"

text \<open>A domain command on a copy that the transaction holds.\<close>

definition changed :: "'a \<times> domain_error option \<Rightarrow> 'a lc" where
  "changed r = (case r of (a, None) \<Rightarrow> Yield a | (_, Some e) \<Rightarrow> Abort (LcDomain e))"

primrec run_lc :: "'a lc \<Rightarrow> memory_view \<Rightarrow> memory_view \<times> (lc_error + 'a)" where
  "run_lc (Yield a) v = (v, Inr a)"
| "run_lc (Abort e) v = (v, Inl e)"
| "run_lc (Ask c k) v = (case exec_call v c of (v', a) \<Rightarrow> run_lc (k a) v')"

text \<open>The callback; the text of its error is not modelled.\<close>

primrec callback :: "'a lc \<Rightarrow> tx_prog" where
  "callback (Yield a) = Return None"
| "callback (Abort e) = Return (Some ''lifecycle'')"
| "callback (Ask c k) = Call c (\<lambda>a. callback (k a))"

lemma run_callback:
  "run_tx (callback p) v = (fst (run_lc p v), case snd (run_lc p v) of Inl e \<Rightarrow> Some ''lifecycle'' | Inr a \<Rightarrow> None)"
  by (induction p arbitrary: v) (auto split: prod.split)

lemma run_bind:
  "run_lc (lc_bind m f) v =
    (case run_lc m v of (v', Inl e) \<Rightarrow> (v', Inl e) | (v', Inr a) \<Rightarrow> run_lc (f a) v')"
  by (induction m arbitrary: v) (auto split: prod.split)

lemma run_attempt: "run_lc (attempt m) v = (case run_lc m v of (v', r) \<Rightarrow> (v', Inr r))"
  by (induction m arbitrary: v) (auto split: prod.split)

lemma run_bind_Inr:
  "run_lc (lc_bind m f) v = (v2, Inr b) \<longleftrightarrow>
     (\<exists>v1 a. run_lc m v = (v1, Inr a) \<and> run_lc (f a) v1 = (v2, Inr b))"
  by (auto simp: run_bind split: prod.split sum.split)

lemma run_bindE:
  assumes "run_lc (lc_bind m f) v = (v2, Inr b)"
  obtains v1 a where "run_lc m v = (v1, Inr a)" and "run_lc (f a) v1 = (v2, Inr b)"
  using assms by (auto simp: run_bind_Inr)

lemma run_attemptE:
  assumes "run_lc (attempt m) v = (v1, Inr r)"
  obtains "run_lc m v = (v1, r)"
  using assms by (auto simp: run_attempt split: prod.splits)

lemma run_check_Inr: "run_lc (check o' m) v = (v', Inr a) \<longleftrightarrow> o' = None \<and> run_lc m v = (v', Inr a)"
  by (auto simp: check_def split: option.split)

lemma run_lift_res: "run_lc (lift_res r) v = (v, r)"
  by (cases r) auto

lemma run_changed_Inr: "run_lc (changed r) v = (v', Inr a) \<longleftrightarrow> v' = v \<and> r = (a, None)"
  by (cases r) (auto simp: changed_def split: option.split)

subsection \<open>The calls of the transaction interface\<close>

definition answered :: "st_error + 'a \<Rightarrow> 'a lc" where
  "answered r = (case r of Inl e \<Rightarrow> Abort (LcStore e) | Inr a \<Rightarrow> Yield a)"

definition getSandbox :: "sandbox_id \<Rightarrow> sandbox_record lc" where
  "getSandbox i = Ask (CGetSandbox i) (\<lambda>a. case a of ASandbox r \<Rightarrow> answered r | _ \<Rightarrow> Abort LcAnswer)"

definition listSandboxes :: "sandbox_record list lc" where
  "listSandboxes = Ask CListSandboxes (\<lambda>a. case a of ASandboxes r \<Rightarrow> answered r | _ \<Rightarrow> Abort LcAnswer)"

definition getContainer :: "container_id \<Rightarrow> container_record lc" where
  "getContainer i = Ask (CGetContainerAttempt i) (\<lambda>a. case a of AContainer r \<Rightarrow> answered r | _ \<Rightarrow> Abort LcAnswer)"

definition listContainers :: "sandbox_id \<Rightarrow> container_record list lc" where
  "listContainers i =
    Ask (CListContainerAttempts i) (\<lambda>a. case a of AContainers r \<Rightarrow> answered r | _ \<Rightarrow> Abort LcAnswer)"

definition getOperation :: "operation_id \<Rightarrow> operation_record lc" where
  "getOperation i = Ask (CGetOperation i) (\<lambda>a. case a of AOperation r \<Rightarrow> answered r | _ \<Rightarrow> Abort LcAnswer)"

definition activeOperation :: "target \<Rightarrow> operation_record lc" where
  "activeOperation t = Ask (CActiveOperation t) (\<lambda>a. case a of AOperation r \<Rightarrow> answered r | _ \<Rightarrow> Abort LcAnswer)"

definition eventsAfter :: "u64 \<Rightarrow> int \<Rightarrow> event list lc" where
  "eventsAfter n limit = Ask (CEventsAfter n limit) (\<lambda>a. case a of AEvents r \<Rightarrow> answered r | _ \<Rightarrow> Abort LcAnswer)"

definition putSandbox :: "sandbox_record \<Rightarrow> revision \<Rightarrow> sandbox_record lc" where
  "putSandbox r e = Ask (CPutSandbox r e) (\<lambda>a. case a of ASandbox r \<Rightarrow> answered r | _ \<Rightarrow> Abort LcAnswer)"

definition putContainer :: "container_record \<Rightarrow> revision \<Rightarrow> container_record lc" where
  "putContainer r e =
    Ask (CPutContainerAttempt r e) (\<lambda>a. case a of AContainer r \<Rightarrow> answered r | _ \<Rightarrow> Abort LcAnswer)"

definition putOperation :: "operation_record \<Rightarrow> revision \<Rightarrow> operation_record lc" where
  "putOperation r e = Ask (CPutOperation r e) (\<lambda>a. case a of AOperation r \<Rightarrow> answered r | _ \<Rightarrow> Abort LcAnswer)"

definition appendEvent :: "event \<Rightarrow> event lc" where
  "appendEvent e = Ask (CAppendEvent e) (\<lambda>a. case a of AEvent r \<Rightarrow> answered r | _ \<Rightarrow> Abort LcAnswer)"

definition acknowledged :: "tx_answer \<Rightarrow> unit lc" where
  "acknowledged a = (case a of ADone None \<Rightarrow> Yield () | ADone (Some e) \<Rightarrow> Abort (LcStore e) | _ \<Rightarrow> Abort LcAnswer)"

definition deleteSandbox :: "sandbox_id \<Rightarrow> revision \<Rightarrow> unit lc" where
  "deleteSandbox i e = Ask (CDeleteSandbox i e) acknowledged"

definition deleteContainer :: "container_id \<Rightarrow> revision \<Rightarrow> unit lc" where
  "deleteContainer i e = Ask (CDeleteContainerAttempt i e) acknowledged"

named_theorems tx_run \<open>what a call of the transaction interface does to a view\<close>

definition read_of :: "memory_view \<Rightarrow> st_error + 'a \<Rightarrow> memory_view \<times> (lc_error + 'a)" where
  "read_of v r = (v, case r of Inl e \<Rightarrow> Inl (LcStore e) | Inr a \<Rightarrow> Inr a)"

definition write_of :: "memory_view \<Rightarrow> st_error + memory_view \<times> 'a \<Rightarrow> memory_view \<times> (lc_error + 'a)" where
  "write_of v r = (case r of Inl e \<Rightarrow> (v, Inl (LcStore e)) | Inr (v', a) \<Rightarrow> (v', Inr a))"

lemma run_answered: "run_lc (answered r) v = read_of v r"
  by (cases r) (auto simp: answered_def read_of_def)

lemma run_reads [tx_run]:
  "run_lc (getSandbox i) v = read_of v (GetSandbox v i)"
  "run_lc listSandboxes v = read_of v (ListSandboxes v)"
  "run_lc (getContainer c) v = read_of v (GetContainerAttempt v c)"
  "run_lc (listContainers i) v = read_of v (ListContainerAttempts v i)"
  "run_lc (getOperation j) v = read_of v (GetOperation v j)"
  "run_lc (activeOperation t) v = read_of v (ActiveOperation v t)"
  "run_lc (eventsAfter n limit) v = read_of v (EventsAfter v n limit)"
  by (simp_all add: getSandbox_def listSandboxes_def getContainer_def listContainers_def getOperation_def
      activeOperation_def eventsAfter_def run_answered)

lemma run_written:
  assumes "\<And>r. answer (f r) = answered r"
  shows "(case written v f w of (v', a) \<Rightarrow> run_lc (answer a) v') = write_of v w"
  by (cases w) (auto simp: assms run_answered read_of_def write_of_def)

lemma run_writes [tx_run]:
  "run_lc (putSandbox s e) v = write_of v (PutSandbox v s e)"
  "run_lc (putContainer c e) v = write_of v (PutContainerAttempt v c e)"
  "run_lc (putOperation x e) v = write_of v (PutOperation v x e)"
  "run_lc (appendEvent ev) v = write_of v (AppendEvent v ev)"
  by (simp_all add: putSandbox_def putContainer_def putOperation_def appendEvent_def run_written)

lemma run_deletes [tx_run]:
  "run_lc (deleteSandbox i e) v = write_of v (map_sum id (\<lambda>v'. (v', ())) (DeleteSandbox v i e))"
  "run_lc (deleteContainer c e) v = write_of v (map_sum id (\<lambda>v'. (v', ())) (DeleteContainerAttempt v c e))"
proof -
  have "(case deleted v w of (v', a) \<Rightarrow> run_lc (acknowledged a) v') = write_of v (map_sum id (\<lambda>v'. (v', ())) w)" for w
    by (cases w) (simp_all add: acknowledged_def write_of_def)
  then show "run_lc (deleteSandbox i e) v = write_of v (map_sum id (\<lambda>v'. (v', ())) (DeleteSandbox v i e))"
    and "run_lc (deleteContainer c e) v = write_of v (map_sum id (\<lambda>v'. (v', ())) (DeleteContainerAttempt v c e))"
    by (simp_all add: deleteSandbox_def deleteContainer_def)
qed

lemma read_of_Inr [simp]: "read_of v r = (v', Inr a) \<longleftrightarrow> v' = v \<and> r = Inr a"
  by (auto simp: read_of_def split: sum.split)

lemma write_of_Inr [simp]: "write_of v r = (v', Inr a) \<longleftrightarrow> r = Inr (v', a)"
  by (auto simp: write_of_def split: sum.split)

subsection \<open>Verifications and failures\<close>

datatype verification_kind =
    VerificationSandboxReady | VerificationSandboxStopped | VerificationSandboxAbsent
  | VerificationAttemptCreated | VerificationAttemptRunning | VerificationAttemptStopped
  | VerificationAttemptAbsent | VerificationOther string

fun VerificationKind_Valid :: "verification_kind \<Rightarrow> bool" where
  "VerificationKind_Valid (VerificationOther _) = False"
| "VerificationKind_Valid _ = True"

fun VerificationKind_text :: "verification_kind \<Rightarrow> string" where
  "VerificationKind_text VerificationSandboxReady = ''sandbox_ready''"
| "VerificationKind_text VerificationSandboxStopped = ''sandbox_stopped''"
| "VerificationKind_text VerificationSandboxAbsent = ''sandbox_absent''"
| "VerificationKind_text VerificationAttemptCreated = ''attempt_created''"
| "VerificationKind_text VerificationAttemptRunning = ''attempt_running''"
| "VerificationKind_text VerificationAttemptStopped = ''attempt_stopped''"
| "VerificationKind_text VerificationAttemptAbsent = ''attempt_absent''"
| "VerificationKind_text (VerificationOther s) = s"

record verification =
  vf_Kind :: verification_kind
  vf_Verified :: bool
  vf_Evidence :: string
  vf_ObservedAt :: gotime
  vf_Duration :: "duration option"
  vf_ProcessIdentity :: "process_identity option"
  vf_Streams :: stream_references

definition Verification_Validate :: "verification \<Rightarrow> lc_error option" where
  "Verification_Validate v =
    first_err
     [reject (\<not> VerificationKind_Valid (vf_Kind v) \<or> \<not> vf_Verified v \<or> TrimSpace (vf_Evidence v) = []
         \<or> contains_nul (vf_Evidence v) \<or> time_IsZero (vf_ObservedAt v)) ErrVerificationRequired,
      (case vf_Duration v of None \<Rightarrow> None | Some d \<Rightarrow> wrap LcOperation (Duration_Validate d)),
      wrap LcDomain (StreamReferences_Validate (vf_Streams v)),
      (case vf_ProcessIdentity v of None \<Rightarrow> None | Some i \<Rightarrow> wrap LcDomain (ProcessIdentity_Validate i))]"

definition validateFor :: "verification \<Rightarrow> verification_kind \<Rightarrow> lc_error option" where
  "validateFor v expected =
    first_err [Verification_Validate v, reject (vf_Kind v \<noteq> expected) ErrVerificationRequired]"

record failure =
  fa_Reason :: reason_class
  fa_Message :: string

definition Failure_Validate :: "failure \<Rightarrow> lc_error option" where
  "Failure_Validate f =
    first_err
     [reject (\<not> Reason_Valid (fa_Reason f) \<or> fa_Reason f = ReasonNone) (LcInvalid ''failure reason''),
      reject (TrimSpace (fa_Message f) = [] \<or> contains_nul (fa_Message f) \<or> 4096 < length (fa_Message f))
        (LcInvalid ''failure message'')]"

subsection \<open>What is marshalled\<close>

text \<open>A value to marshal is its JSON with the times in it: a time whose year or zone RFC 3339 cannot
  carry makes \<open>json.Marshal\<close> fail. Nothing else that is marshalled here can.\<close>

type_synonym payload = "gotime list \<times> json"

definition marshal :: "payload \<Rightarrow> lc_error + json" where
  "marshal p = require (reject (\<not> list_all time_marshals (fst p)) LcMarshal) (Inr (snd p))"

definition plain_payload :: "json \<Rightarrow> payload" where
  "plain_payload j = ([], j)"

definition optional :: "'a option \<Rightarrow> 'a list" where
  "optional x = (case x of None \<Rightarrow> [] | Some a \<Rightarrow> [a])"

definition outcome_times :: "outcome \<Rightarrow> gotime list" where
  "outcome_times x = optional (oc_StartedAt x) @ optional (oc_FinishedAt x)"

definition pair_times :: "container_attempt \<Rightarrow> gotime list" where
  "pair_times p = outcome_times (ct_Outcome (co_Status (ca_Container p))) @ outcome_times (at_Outcome (ca_Attempt p))"

definition verification_json :: "verification \<Rightarrow> json" where
  "verification_json v = struct_json
    [(''kind'', Some (JStr (VerificationKind_text (vf_Kind v)))), (''verified'', Some (JBool (vf_Verified v))),
     (''evidence'', Some (JStr (vf_Evidence v))), (''observed_at'', Some (time_json (vf_ObservedAt v))),
     (''duration_ns'', map_option int_json (vf_Duration v)),
     (''process_identity'', map_option process_identity_json (vf_ProcessIdentity v)),
     (''streams'', Some (stream_references_json (vf_Streams v)))]"

definition verification_payload :: "verification \<Rightarrow> payload" where
  "verification_payload v = ([vf_ObservedAt v], verification_json v)"

definition failure_json :: "failure \<Rightarrow> json" where
  "failure_json f = struct_json
    [(''reason'', Some (JStr (Reason_string (fa_Reason f)))), (''message'', Some (JStr (fa_Message f)))]"

definition failure_payload :: "failure \<Rightarrow> verification \<Rightarrow> payload" where
  "failure_payload f v = ([vf_ObservedAt v], struct_json
    [(''failure'', Some (failure_json f)), (''verification'', Some (verification_json v))])"

text \<open>The event details that are a map of texts; \<open>Marshal\<close> writes it in the order of its keys.\<close>

definition details :: "(string \<times> string) list \<Rightarrow> payload" where
  "details kvs = plain_payload (text_map_json kvs)"

definition sandbox_response_payload :: "sandbox_response \<Rightarrow> payload" where
  "sandbox_response_payload r = plain_payload (sandbox_response_json r)"

definition container_response_payload :: "container_response \<Rightarrow> payload" where
  "container_response_payload r =
    (concat (map pair_times (optional (cp_ContainerAttempt r))), container_response_json r)"

definition kill_response_payload :: "kill_response \<Rightarrow> payload" where
  "kill_response_payload r =
    (concat (map pair_times (optional (kr_ContainerAttempt r))), kill_response_json r)"

definition reconcile_response_payload :: "reconcile_response \<Rightarrow> payload" where
  "reconcile_response_payload r =
    (concat (map pair_times (optional (rp_ContainerAttempt r))), reconcile_response_json r)"

subsection \<open>What a request means\<close>

text \<open>The semantic payloads from which request fingerprints are taken.\<close>

definition sandboxCreateSemantic :: "sandbox_id \<Rightarrow> sandbox_spec \<Rightarrow> payload" where
  "sandboxCreateSemantic i spec = plain_payload (struct_json
    [(''sandbox_id'', Some (JStr i)), (''spec'', Some (sandbox_spec_json spec))])"

definition sandboxActionSemantic :: "sandbox_id \<Rightarrow> payload" where
  "sandboxActionSemantic i = plain_payload (struct_json [(''sandbox_id'', Some (JStr i))])"

definition containerCreateSemantic ::
    "sandbox_id \<Rightarrow> container_id \<Rightarrow> attempt_id \<Rightarrow> process_spec \<Rightarrow> string \<Rightarrow> string \<Rightarrow> payload" where
  "containerCreateSemantic s c a process digest rootfs = plain_payload (struct_json
    [(''sandbox_id'', Some (JStr s)), (''container_id'', Some (JStr c)), (''attempt_id'', Some (JStr a)),
     (''process'', Some (process_spec_json process)), (''image_digest'', omit_text digest),
     (''rootfs'', omit_text rootfs)])"

definition containerActionSemantic :: "container_id \<Rightarrow> payload" where
  "containerActionSemantic c = plain_payload (struct_json [(''container_id'', Some (JStr c))])"

definition stoppedSemantic :: "container_id \<Rightarrow> outcome \<Rightarrow> condition list \<Rightarrow> payload" where
  "stoppedSemantic c x conditions = (outcome_times x, struct_json
    [(''container_id'', Some (JStr c)), (''outcome'', Some (outcome_json x)),
     (''conditions'', omit_list condition_json conditions)])"

definition killSemantic :: "container_id \<Rightarrow> termination_policy \<Rightarrow> payload" where
  "killSemantic c policy = plain_payload (struct_json
    [(''container_id'', Some (JStr c)), (''policy'', Some (termination_policy_json policy))])"

definition reconcileConditionSemantic :: "target \<Rightarrow> condition option \<Rightarrow> string \<Rightarrow> string \<Rightarrow> payload" where
  "reconcileConditionSemantic t c clear evidence = plain_payload (struct_json
    [(''target'', Some (target_json t)), (''condition'', map_option condition_json c),
     (''clear'', omit_text clear), (''evidence'', Some (JStr evidence))])"

definition request_fingerprint :: "payload \<Rightarrow> lc_error + fingerprint" where
  "request_fingerprint p =
    bind_res (marshal p) (\<lambda>j. map_sum LcOperation id (CanonicalRequestFingerprint j))"

end
