(* ===== verification/Lifecycle_Steps.thy ===== *)
theory Lifecycle_Steps
  imports Lifecycle_Model
begin

text \<open>
  \<open>internal/lifecycle/coordinator.go\<close>: the steps that the commands of the coordinator share. A
  request is resolved against the store, an intent or a terminal operation is written, its event is
  appended and projected onto the resource, and the exact reply is stored for replay.
\<close>

text \<open>The coordinator; its store is an argument of every command, and the clock's reading is an
  argument too, since no command reads it twice.\<close>

type_synonym verifier = "target \<Rightarrow> process_identity \<Rightarrow> string option"

record coordinator =
  co_verifier :: verifier
  co_profile :: host_profile

definition unavailableProcessVerifier :: verifier where
  "unavailableProcessVerifier t i = Some ''action-time process identity verification is unavailable''"

definition NewCoordinatorWithClockForProfile ::
    "bool \<Rightarrow> bool \<Rightarrow> host_profile \<Rightarrow> verifier option list \<Rightarrow> lc_error + coordinator" where
  "NewCoordinatorWithClockForProfile store_nil clock_nil profile verifiers =
    require (first_err
      [reject store_nil (LcInvalid ''store''),
       reject clock_nil (LcInvalid ''clock''),
       reject (\<not> HostProfile_Valid profile) (LcInvalid ''host profile''),
       reject (1 < length verifiers) (LcInvalid ''verifier'')])
     (case verifiers of
        [None] \<Rightarrow> Inl (LcInvalid ''verifier'')
      | [Some f] \<Rightarrow> Inr \<lparr>co_verifier = f, co_profile = profile\<rparr>
      | _ \<Rightarrow> Inr \<lparr>co_verifier = unavailableProcessVerifier, co_profile = profile\<rparr>)"

definition NewCoordinator :: "bool \<Rightarrow> verifier option list \<Rightarrow> lc_error + coordinator" where
  "NewCoordinator store_nil = NewCoordinatorWithClockForProfile store_nil False HostProfileAbstractM1"

definition sandbox_resource :: "sandbox_id \<Rightarrow> target" where
  "sandbox_resource i = \<lparr>tg_Kind = TargetSandbox, tg_ID = i\<rparr>"

definition container_resource :: "container_id \<Rightarrow> target" where
  "container_resource i = \<lparr>tg_Kind = TargetContainer, tg_ID = i\<rparr>"

subsection \<open>Bindings\<close>

definition suppliedBinding :: "operation_id \<Rightarrow> op_type \<Rightarrow> target \<Rightarrow> fingerprint \<Rightarrow> lc_error + binding" where
  "suppliedBinding i ty t f =
    (let b = \<lparr>bd_ID = i, bd_Type = ty, bd_Target = t, bd_Fingerprint = f\<rparr>
     in require (wrap LcOperation (Binding_Validate b)) (Inr b))"

definition bindingFor :: "operation_id \<Rightarrow> op_type \<Rightarrow> target \<Rightarrow> payload \<Rightarrow> lc_error + binding" where
  "bindingFor i ty t semantic = bind_res (request_fingerprint semantic) (suppliedBinding i ty t)"

subsection \<open>Events and their projection\<close>

definition encodeResponse :: "payload \<Rightarrow> string lc" where
  "encodeResponse p = lift_res (map_sum id json_encode (marshal p))"

definition appendOperationEvent ::
    "operation \<Rightarrow> stage \<Rightarrow> op_result \<Rightarrow> gotime \<Rightarrow> duration option \<Rightarrow> generation \<Rightarrow> generation
     \<Rightarrow> payload \<Rightarrow> target list \<Rightarrow> event lc" where
  "appendOperationEvent x stage result at duration g ob p resources =
    lc_bind (encodeResponse p) (\<lambda>encoded.
      appendEvent
       \<lparr>ev_SchemaVersion = EventSchemaVersion, ev_Sequence = 0, ev_OperationID = op_ID x,
        ev_Type = op_Type x, ev_Target = op_Target x,
        ev_Resources = (if resources = [] then [op_Target x] else resources), ev_Stage = stage,
        ev_Result = result, ev_Reason = op_Reason x, ev_OccurredAt = at, ev_Duration = duration,
        ev_Generation = g, ev_ObservedGeneration = ob, ev_Details = encoded\<rparr>)"

definition lifecycleObservation :: "event \<Rightarrow> observation" where
  "lifecycleObservation e =
    \<lparr>obs_OperationID = ev_OperationID e, obs_EventSequence = ev_Sequence e, obs_Reason = Reason_string (ev_Reason e)\<rparr>"

definition observeSandbox :: "sandbox_record \<Rightarrow> event \<Rightarrow> sandbox_record lc" where
  "observeSandbox r e =
    lc_bind (changed (Sandbox_SetLastObservation (sr_Sandbox r) (lifecycleObservation e))) (\<lambda>s.
      putSandbox (r\<lparr>sr_Sandbox := s\<rparr>) (sr_Revision r))"

definition observeContainer :: "container_record \<Rightarrow> event \<Rightarrow> container_record lc" where
  "observeContainer r e =
    lc_bind (changed (Pair_SetLastObservation (cr_ContainerAttempt r) (lifecycleObservation e))) (\<lambda>p.
      putContainer (r\<lparr>cr_ContainerAttempt := p\<rparr>) (cr_Revision r))"

definition containerEventResources :: "container_attempt \<Rightarrow> target list" where
  "containerEventResources p =
    [sandbox_resource (co_SandboxID (ca_Container p)), container_resource (co_ID (ca_Container p)),
     \<lparr>tg_Kind = TargetAttempt, tg_ID = at_ID (ca_Attempt p)\<rparr>]"

definition eventResourceState :: "target \<Rightarrow> (target list \<times> generation \<times> generation) lc" where
  "eventResourceState t =
    (case tg_Kind t of
       TargetSandbox \<Rightarrow>
         lc_bind (getSandbox (tg_ID t)) (\<lambda>r.
           Yield ([t], ss_Generation (sb_Status (sr_Sandbox r)), ss_ObservedGeneration (sb_Status (sr_Sandbox r))))
     | TargetContainer \<Rightarrow>
         lc_bind (getContainer (tg_ID t)) (\<lambda>r.
           let p = cr_ContainerAttempt r; st = co_Status (ca_Container p)
           in Yield (containerEventResources p, ct_Generation st, ct_ObservedGeneration st))
     | _ \<Rightarrow> Yield ([t], 0, 0))"

definition observeEventTarget :: "target \<Rightarrow> event \<Rightarrow> unit lc" where
  "observeEventTarget t e =
    (case tg_Kind t of
       TargetSandbox \<Rightarrow> lc_bind (getSandbox (tg_ID t)) (\<lambda>r. lc_bind (observeSandbox r e) (\<lambda>_. Yield ()))
     | TargetContainer \<Rightarrow> lc_bind (getContainer (tg_ID t)) (\<lambda>r. lc_bind (observeContainer r e) (\<lambda>_. Yield ()))
     | _ \<Rightarrow> Yield ())"

subsection \<open>Operations\<close>

definition newActiveOperation :: "binding \<Rightarrow> string \<Rightarrow> operation" where
  "newActiveOperation b response =
    \<lparr>op_SchemaVersion = OperationSchemaVersion, op_ID = bd_ID b, op_Type = bd_Type b,
     op_Target = bd_Target b, op_Fingerprint = bd_Fingerprint b, op_State = StateRunning,
     op_Stage = StagePersistIntent, op_Result = ResultPending, op_Reason = ReasonNone,
     op_Response = response\<rparr>"

definition terminalOperation :: "operation \<Rightarrow> op_result \<Rightarrow> string \<Rightarrow> operation" where
  "terminalOperation x result response =
    x\<lparr>op_State := StateSucceeded, op_Stage := StageComplete, op_Result := result,
      op_Reason := ReasonNone, op_Response := response\<rparr>"

definition failedOperation :: "operation \<Rightarrow> reason_class \<Rightarrow> string \<Rightarrow> operation" where
  "failedOperation x reason response =
    x\<lparr>op_State := StateFailed, op_Stage := StageComplete, op_Result := ResultFailed,
      op_Reason := reason, op_Response := response\<rparr>"

definition putNew :: "coordinator \<Rightarrow> operation \<Rightarrow> operation_record lc" where
  "putNew c x =
    lc_bind (lift_res (map_sum LcStore id (NewOperationRecordForProfile x (co_profile c)))) (\<lambda>r. putOperation r 0)"

definition putNewActiveOperation :: "coordinator \<Rightarrow> binding \<Rightarrow> string \<Rightarrow> operation_record lc" where
  "putNewActiveOperation c b response = putNew c (newActiveOperation b response)"

definition putNewTerminalOperation :: "coordinator \<Rightarrow> binding \<Rightarrow> op_result \<Rightarrow> string \<Rightarrow> operation_record lc" where
  "putNewTerminalOperation c b result response =
    putNew c (terminalOperation (newActiveOperation b []) result response)"

definition completeOperation :: "operation_record \<Rightarrow> op_result \<Rightarrow> string \<Rightarrow> operation_record lc" where
  "completeOperation r result response =
    putOperation (r\<lparr>or_Operation := terminalOperation (or_Operation r) result response\<rparr>) (or_Revision r)"

definition failOperation :: "operation_record \<Rightarrow> reason_class \<Rightarrow> string \<Rightarrow> operation_record lc" where
  "failOperation r reason response =
    check (reject (\<not> Reason_Valid reason \<or> reason = ReasonNone) (LcInvalid ''terminal failure reason''))
     (putOperation (r\<lparr>or_Operation := failedOperation (or_Operation r) reason response\<rparr>) (or_Revision r))"

definition finalizeOperationResponse :: "operation_record \<Rightarrow> string \<Rightarrow> operation_record lc" where
  "finalizeOperationResponse r response =
    check (reject (\<not> State_Terminal (op_State (or_Operation r))) (LcInvalid ''response before terminal state''))
     (putOperation (r\<lparr>or_Operation := (or_Operation r)\<lparr>op_Response := response\<rparr>\<rparr>) (or_Revision r))"

subsection \<open>Resolution\<close>

text \<open>Every record that is carried on belongs to a resumed or a replayed request.\<close>

datatype resolved_operation =
    ResolvedNew
  | ResolvedResume operation_record
  | ResolvedReplay operation_record

text \<open>The event of a conflict is projected onto its target; a delete may find the target absent.\<close>

definition projectConflict :: "binding \<Rightarrow> gotime \<Rightarrow> operation \<Rightarrow> unit lc" where
  "projectConflict b now x =
    lc_bind (attempt (eventResourceState (bd_Target b))) (\<lambda>found.
    let resourceAbsent = (case found of Inl e \<Rightarrow> is_not_found e \<and> bd_Type b = TypeDelete | Inr _ \<Rightarrow> False) in
    lc_bind (if resourceAbsent then Yield ([bd_Target b], 0, 0) else lift_res found) (\<lambda>(resources, g, ob).
    lc_bind (appendEvent
      \<lparr>ev_SchemaVersion = EventSchemaVersion, ev_Sequence = 0, ev_OperationID = op_ID x,
       ev_Type = op_Type x, ev_Target = op_Target x, ev_Resources = resources, ev_Stage = op_Stage x,
       ev_Result = op_Result x, ev_Reason = op_Reason x, ev_OccurredAt = now, ev_Duration = None,
       ev_Generation = g, ev_ObservedGeneration = ob, ev_Details = op_Response x\<rparr>) (\<lambda>stored.
    lc_bind (attempt (observeEventTarget (bd_Target b) stored)) (\<lambda>observed.
      case observed of
        Inl e \<Rightarrow> if resourceAbsent \<and> is_not_found e then Yield () else Abort e
      | Inr _ \<Rightarrow> Yield ()))))"

definition persistOperationConflict ::
    "coordinator \<Rightarrow> gotime \<Rightarrow> binding \<Rightarrow> operation \<Rightarrow> resolved_operation lc" where
  "persistOperationConflict c now b active =
    lc_bind (encodeResponse (plain_payload (struct_json [(''active_operation_id'', Some (JStr (op_ID active)))])))
     (\<lambda>response.
    let x = failedOperation (newActiveOperation b []) ReasonConflict response in
    lc_bind (putNew c x) (\<lambda>r.
    lc_bind (projectConflict b now x) (\<lambda>_. Yield (ResolvedReplay r))))"

definition resolveOperation :: "coordinator \<Rightarrow> gotime \<Rightarrow> binding \<Rightarrow> resolved_operation lc" where
  "resolveOperation c now b =
    lc_bind (attempt (getOperation (bd_ID b))) (\<lambda>got.
      case got of
        Inr r \<Rightarrow>
          check (reject (or_HostProfile r \<noteq> co_profile c) (LcStore ErrInvalidRecord))
           (case Resolve (Some (or_Operation r)) b of
              Inl e \<Rightarrow> Abort (LcOperation e)
            | Inr resolution \<Rightarrow>
              Yield (if resolution = ResolutionReplay then ResolvedReplay r
                     else if resolution = ResolutionResume then ResolvedResume r else ResolvedNew))
      | Inl e \<Rightarrow>
          check (reject (\<not> is_not_found e) e)
           (lc_bind (attempt (activeOperation (bd_Target b))) (\<lambda>found.
              case found of
                Inr active \<Rightarrow>
                  if CheckActiveConflict (Some (or_Operation active)) b \<noteq> None
                  then persistOperationConflict c now b (or_Operation active)
                  else Yield ResolvedNew
              | Inl e' \<Rightarrow> if is_not_found e' then Yield ResolvedNew else Abort e')))"

subsection \<open>Host resources\<close>

fun adopt_all :: "receipt list \<Rightarrow> lc_error + receipt list" where
  "adopt_all [] = Inr []"
| "adopt_all (r # rs) =
    bind_res (map_sum LcOwnership id (Receipt_Adopt r)) (\<lambda>a. bind_res (adopt_all rs) (\<lambda>as. Inr (a # as)))"

definition adoptOperationReceipts :: "operation_record \<Rightarrow> lc_error + operation_record \<times> receipt list" where
  "adoptOperationReceipts r =
    bind_res (adopt_all (elems (or_Receipts r))) (\<lambda>adopted.
      Inr ((OperationRecord_Clone r)\<lparr>or_Receipts := map_option (\<lambda>_. adopted) (or_Receipts r)\<rparr>, adopted))"

definition validateCompleteCleanupReleases :: "operation_record \<Rightarrow> receipt list \<Rightarrow> lc_error option" where
  "validateCompleteCleanupReleases r inventory =
    (let releases = elems (or_Releases r) in
     first_err
      [reject (length releases \<noteq> length inventory) (LcDomain (NewError CodeFailedPrecondition ''host_resources'')),
       reject (\<not> list_all (\<lambda>t. list_ex (\<lambda>e. rl_Resource e = t) releases) inventory)
         (LcDomain (NewError CodeFailedPrecondition ''host_resources''))])"

definition HostBinding_Validate :: "host_binding \<Rightarrow> lc_error option" where
  "HostBinding_Validate b =
    first_err
     [wrap LcDomain (ContainerID_Validate (hb_ContainerID b)),
      wrap LcDomain (AttemptID_Validate (hb_AttemptID b)),
      wrap LcOwnership (OwnerKey_Validate (hb_Owner b)),
      reject (hb_Generation b = 0 \<or> ok_Generation (hb_Owner b) \<noteq> hb_Generation b)
        (LcInvalid ''host binding generation''),
      reject (tg_Kind (ok_Target (hb_Owner b)) \<noteq> TargetContainer
          \<or> tg_ID (ok_Target (hb_Owner b)) \<noteq> hb_ContainerID b) (LcInvalid ''host binding owner'')]"

definition containerHostBindingFromRecord :: "container_record \<Rightarrow> lc_error + host_binding option" where
  "containerHostBindingFromRecord r =
    (case cr_HostResources r of
       [] \<Rightarrow> Inr None
     | first # _ \<Rightarrow>
       let owner = rt_Owner first;
           p = cr_ContainerAttempt r;
           b = \<lparr>hb_ContainerID = co_ID (ca_Container p), hb_AttemptID = at_ID (ca_Attempt p),
                hb_Generation = ct_Generation (co_Status (ca_Container p)), hb_Owner = owner\<rparr>
       in require (reject (\<not> list_all (\<lambda>t. rt_Adopted t \<and> rt_Owner t = owner) (cr_HostResources r))
            (LcInvalid ''one adopted acquisition owner''))
          (require (HostBinding_Validate b) (Inr (Some b))))"

subsection \<open>Stages\<close>

fun lifecycleStageRank :: "stage \<Rightarrow> int" where
  "lifecycleStageRank StageValidate = 0"
| "lifecycleStageRank StagePersistIntent = 1"
| "lifecycleStageRank StageCheckPreconditions = 2"
| "lifecycleStageRank StageHostPreflight = 3"
| "lifecycleStageRank StagePrepareCgroup = 4"
| "lifecycleStageRank StagePrepareStartGate = 5"
| "lifecycleStageRank StagePrepareStreams = 6"
| "lifecycleStageRank StageCreateProcess = 7"
| "lifecycleStageRank StagePrepareNamespaces = 8"
| "lifecycleStageRank StageJoinNamespaces = 9"
| "lifecycleStageRank StagePrepareRootfs = 10"
| "lifecycleStageRank StageAttachCgroup = 11"
| "lifecycleStageRank StageReleaseStartGate = 12"
| "lifecycleStageRank StageSignalProcess = 13"
| "lifecycleStageRank StageObserveProcess = 14"
| "lifecycleStageRank StageTeardown = 15"
| "lifecycleStageRank StageTransition = 16"
| "lifecycleStageRank StagePersistState = 17"
| "lifecycleStageRank StageRollback = 18"
| "lifecycleStageRank StagePersistResult = 19"
| "lifecycleStageRank StageComplete = 20"
| "lifecycleStageRank (StageOther _) = -1"

definition requireLinuxStage :: "operation_record \<Rightarrow> stage \<Rightarrow> lc_error option" where
  "requireLinuxStage r minimum =
    (if or_HostProfile r \<noteq> HostProfileLinuxM2 then None
     else reject (lifecycleStageRank (op_Stage (or_Operation r)) < lifecycleStageRank minimum)
       (LcDomain (NewError CodeFailedPrecondition ''operation.stage'')))"

subsection \<open>Stored replies\<close>

definition decodeSandboxResponse :: "string \<Rightarrow> lc_error + sandbox_response" where
  "decodeSandboxResponse encoded =
    (if encoded = [] then Inl (LcInvalid ''no replay response'')
     else map_sum LcDecode id (strict_decode sandbox_response_schema sandbox_response_of encoded))"

definition binding_matches :: "host_binding \<Rightarrow> container_attempt \<Rightarrow> bool" where
  "binding_matches b p \<longleftrightarrow>
     hb_ContainerID b = co_ID (ca_Container p) \<and> hb_AttemptID b = at_ID (ca_Attempt p)
     \<and> hb_Generation b = ct_Generation (co_Status (ca_Container p))"

definition reply_binding_error :: "container_response \<Rightarrow> lc_error option" where
  "reply_binding_error r =
    (case cp_HostBinding r of
       None \<Rightarrow> None
     | Some b \<Rightarrow>
       first_err
        [HostBinding_Validate b,
         (case cp_ContainerAttempt r of
            None \<Rightarrow> None
          | Some p \<Rightarrow> reject (\<not> binding_matches b p) (LcInvalid ''host binding differs from the Container Attempt''))])"

definition decodeContainerResponse :: "string \<Rightarrow> lc_error + container_response" where
  "decodeContainerResponse encoded =
    (if encoded = [] then Inl (LcInvalid ''no replay response'')
     else bind_res (map_sum LcDecode id (strict_decode container_response_schema container_response_of encoded)) (\<lambda>r.
       require (reply_binding_error r) (Inr r)))"

definition decodeKillResponse :: "string \<Rightarrow> lc_error + kill_response" where
  "decodeKillResponse encoded =
    (if encoded = [] then Inl (LcInvalid ''no replay response'')
     else map_sum LcDecode id (strict_decode kill_response_schema kill_response_of encoded))"

text \<open>The policy of an active Kill is read from its stored reply, and must be the one that the
  request's fingerprint was taken from.\<close>

definition kill_reply_error :: "operation \<Rightarrow> kill_response \<Rightarrow> lc_error option" where
  "kill_reply_error active r =
    first_err
     [reject (\<not> kr_Actionable r) (LcInvalid ''not an actionable plan''),
      (case kr_ContainerAttempt r of
         None \<Rightarrow> Some (LcInvalid ''not an actionable plan'')
       | Some p \<Rightarrow>
         first_err
          [wrap LcDomain (ContainerAttempt_Validate p),
           reject (co_ID (ca_Container p) \<noteq> tg_ID (op_Target active)) (LcInvalid ''different Container''),
           wrap LcDomain (ProcessIdentity_Validate (kr_ProcessIdentity r)),
           reject (at_ProcessIdentity (ca_Attempt p) \<noteq> Some (kr_ProcessIdentity r))
             (LcInvalid ''process identity'')])]"

definition planned_policy :: "kill_plan \<Rightarrow> termination_policy" where
  "planned_policy plan =
    \<lparr>tp_Signal = kp_Signal plan, tp_GracePeriod = kp_GracePeriod plan, tp_EscalationSignal = kp_EscalationSignal plan\<rparr>"

definition ActiveKillPolicy :: "operation \<Rightarrow> lc_error + termination_policy" where
  "ActiveKillPolicy active =
    require (first_err
      [wrap LcOperation (Operation_Validate active),
       reject (op_Type active \<noteq> TypeKill \<or> tg_Kind (op_Target active) \<noteq> TargetContainer
          \<or> \<not> State_Active (op_State active)) (LcInvalid ''not an active Container Kill'')])
     (bind_res (decodeKillResponse (op_Response active)) (\<lambda>r.
       require (kill_reply_error active r)
        (let policy = planned_policy (kr_Plan r) in
         bind_res (map_sum LcDomain id (NewKillPlan policy)) (\<lambda>expected.
           require (reject (expected \<noteq> kr_Plan r) (LcInvalid ''noncanonical plan''))
            (bind_res (request_fingerprint (killSemantic (tg_ID (op_Target active)) policy)) (\<lambda>f.
              require (reject (f \<noteq> op_Fingerprint active) (LcInvalid ''immutable request fingerprint''))
                (Inr policy)))))))"

subsection \<open>Results\<close>

record sandbox_result =
  xr_Resolution :: resolution
  xr_Operation :: operation
  xr_Fingerprint :: fingerprint
  xr_Sandbox :: "sandbox option"
  xr_Removed :: bool

record container_result =
  yr_Resolution :: resolution
  yr_Operation :: operation
  yr_Fingerprint :: fingerprint
  yr_ContainerAttempt :: "container_attempt option"
  yr_HostBinding :: "host_binding option"
  yr_Removed :: bool

record kill_result =
  kl_Resolution :: resolution
  kl_Operation :: operation
  kl_Fingerprint :: fingerprint
  kl_Plan :: kill_plan
  kl_Actionable :: bool
  kl_ProcessIdentity :: process_identity
  kl_ContainerAttempt :: "container_attempt option"

text \<open>A conflict is answered from the operation alone.\<close>

definition was_conflict :: "operation \<Rightarrow> bool" where
  "was_conflict x \<longleftrightarrow> op_Result x = ResultFailed \<and> op_Reason x = ReasonConflict"

definition sandbox_result_of :: "resolution \<Rightarrow> operation \<Rightarrow> sandbox_response \<Rightarrow> sandbox_result" where
  "sandbox_result_of resolution x r =
    \<lparr>xr_Resolution = resolution, xr_Operation = x, xr_Fingerprint = op_Fingerprint x,
     xr_Sandbox = sp_Sandbox r, xr_Removed = sp_Removed r\<rparr>"

definition sandboxResultFromRecord :: "resolution \<Rightarrow> operation_record \<Rightarrow> lc_error + sandbox_result" where
  "sandboxResultFromRecord resolution r =
    (let x = or_Operation r in
     if was_conflict x then Inr (sandbox_result_of resolution x zero_sandbox_response)
     else bind_res (decodeSandboxResponse (op_Response x)) (\<lambda>response. Inr (sandbox_result_of resolution x response)))"

definition container_result_of :: "resolution \<Rightarrow> operation \<Rightarrow> container_response \<Rightarrow> container_result" where
  "container_result_of resolution x r =
    \<lparr>yr_Resolution = resolution, yr_Operation = x, yr_Fingerprint = op_Fingerprint x,
     yr_ContainerAttempt = cp_ContainerAttempt r, yr_HostBinding = cp_HostBinding r, yr_Removed = cp_Removed r\<rparr>"

definition containerResultFromRecord :: "resolution \<Rightarrow> operation_record \<Rightarrow> lc_error + container_result" where
  "containerResultFromRecord resolution r =
    (let x = or_Operation r in
     if was_conflict x then Inr (container_result_of resolution x zero_container_response)
     else bind_res (decodeContainerResponse (op_Response x)) (\<lambda>response. Inr (container_result_of resolution x response)))"

definition kill_result_of :: "resolution \<Rightarrow> operation \<Rightarrow> kill_response \<Rightarrow> kill_result" where
  "kill_result_of resolution x r =
    \<lparr>kl_Resolution = resolution, kl_Operation = x, kl_Fingerprint = op_Fingerprint x,
     kl_Plan = kr_Plan r, kl_Actionable = kr_Actionable r, kl_ProcessIdentity = kr_ProcessIdentity r,
     kl_ContainerAttempt = kr_ContainerAttempt r\<rparr>"

definition killResultFromRecord :: "resolution \<Rightarrow> operation_record \<Rightarrow> lc_error + kill_result" where
  "killResultFromRecord resolution r =
    (let x = or_Operation r in
     if was_conflict x then Inr (kill_result_of resolution x zero_kill_response)
     else bind_res (decodeKillResponse (op_Response x)) (\<lambda>response. Inr (kill_result_of resolution x response)))"

definition NewOperationFailureError :: "operation \<Rightarrow> lc_error" where
  "NewOperationFailureError x =
    (if op_State x \<noteq> StateFailed \<or> op_Result x \<noteq> ResultFailed then LcInvalid ''not a terminal failure''
     else if \<not> Reason_Valid (op_Reason x) \<or> op_Reason x = ReasonNone then LcInvalid ''terminal failure reason''
     else OperationFailureError (op_ID x) (op_Reason x))"

definition replayedOperationError :: "operation \<Rightarrow> lc_error option" where
  "replayedOperationError x = (if op_State x \<noteq> StateFailed then None else Some (NewOperationFailureError x))"

subsection \<open>Running a command\<close>

text \<open>A command is what remains once its request has been checked: an error, or the transaction that
  it hands to \<open>Store.Update\<close>. The result that the callback leaves behind counts if the update
  succeeds; an error of the callback is the error of the update.\<close>

type_synonym 'a command = "lc_error + 'a lc"

definition lc_update :: "memory_store \<Rightarrow> bool \<Rightarrow> bool \<Rightarrow> 'a lc \<Rightarrow> memory_store \<times> (lc_error + 'a)" where
  "lc_update s cancelled cancelled_after p =
    (let ran = run_lc p (store_view s True (data_clone (ms_data s))) in
     case Store_Update s cancelled cancelled_after (Some (callback p)) of
       (s', None) \<Rightarrow> (s', snd ran)
     | (s', Some e) \<Rightarrow> (s', Inl (case (e, snd ran) of (ErrCallback _, Inl e') \<Rightarrow> e' | _ \<Rightarrow> LcStore e)))"

definition submit :: "memory_store \<Rightarrow> bool \<Rightarrow> bool \<Rightarrow> 'a command \<Rightarrow> memory_store \<times> (lc_error + 'a)" where
  "submit s cancelled cancelled_after m =
    (case m of Inl e \<Rightarrow> (s, Inl e) | Inr p \<Rightarrow> lc_update s cancelled cancelled_after p)"

text \<open>The three \<open>finish\<close> functions: a stored failure is returned together with the result.\<close>

definition finished :: "('r \<Rightarrow> operation) \<Rightarrow> lc_error + 'r \<Rightarrow> lc_error + 'r \<times> lc_error option" where
  "finished operation_of r =
    (case r of Inl e \<Rightarrow> Inl e | Inr a \<Rightarrow> Inr (a, replayedOperationError (operation_of a)))"

definition finishSandboxResult :: "lc_error + sandbox_result \<Rightarrow> lc_error + sandbox_result \<times> lc_error option" where
  "finishSandboxResult = finished xr_Operation"

definition finishContainerResult :: "lc_error + container_result \<Rightarrow> lc_error + container_result \<times> lc_error option" where
  "finishContainerResult = finished yr_Operation"

definition finishKillResult :: "lc_error + kill_result \<Rightarrow> lc_error + kill_result \<times> lc_error option" where
  "finishKillResult = finished kl_Operation"

end
