(* ===== verification/Lifecycle_Sandbox.thy ===== *)
theory Lifecycle_Sandbox
  imports Lifecycle_Steps
begin

text \<open>
  \<open>internal/lifecycle/sandbox.go\<close> and the Sandbox half of \<open>failure.go\<close>: the two-phase commands
  on a Sandbox. \<open>Begin\<close> commands record the intent and its event, \<open>Confirm\<close> commands apply a verified
  transition and store the reply; each is one transaction. The commands stand for the checks and
  the callback; \<open>submit\<close> hands the callback to the store.
\<close>

record sandbox_create_request =
  xc_OperationID :: operation_id
  xc_SandboxID :: sandbox_id
  xc_Spec :: sandbox_spec

record sandbox_action_request =
  xa_OperationID :: operation_id
  xa_SandboxID :: sandbox_id

record sandbox_confirm_request =
  xf_OperationID :: operation_id
  xf_SandboxID :: sandbox_id
  xf_Fingerprint :: fingerprint
  xf_Verification :: verification

record sandbox_failure_request =
  xq_OperationID :: operation_id
  xq_SandboxID :: sandbox_id
  xq_Fingerprint :: fingerprint
  xq_Failure :: failure
  xq_Verification :: verification

subsection \<open>Shared parts\<close>

definition sandbox_answer :: "resolution \<Rightarrow> operation \<Rightarrow> binding \<Rightarrow> sandbox option \<Rightarrow> sandbox_result" where
  "sandbox_answer resolution x b s =
    \<lparr>xr_Resolution = resolution, xr_Operation = x, xr_Fingerprint = bd_Fingerprint b, xr_Sandbox = s,
     xr_Removed = False\<rparr>"

definition phase_of :: "sandbox_record \<Rightarrow> sandbox_phase" where
  "phase_of r = ss_Phase (sb_Status (sr_Sandbox r))"

definition sandbox_phase_details :: "sandbox \<Rightarrow> payload" where
  "sandbox_phase_details s = details [(''phase'', SandboxPhase_text (ss_Phase (sb_Status s)))]"

definition sandboxEvent ::
    "operation \<Rightarrow> stage \<Rightarrow> op_result \<Rightarrow> gotime \<Rightarrow> duration option \<Rightarrow> sandbox \<Rightarrow> payload \<Rightarrow> event lc" where
  "sandboxEvent x stage result at duration s p =
    appendOperationEvent x stage result at duration (ss_Generation (sb_Status s))
      (ss_ObservedGeneration (sb_Status s)) p []"

definition sandbox_precondition :: "string \<Rightarrow> lc_error" where
  "sandbox_precondition what = LcDomain (NewError CodeFailedPrecondition what)"

text \<open>The end of a command that keeps the Sandbox: the completion event, its projection, and the
  exact reply, read back as the result.\<close>

definition concludeSandbox ::
    "resolution \<Rightarrow> operation_record \<Rightarrow> op_result \<Rightarrow> gotime \<Rightarrow> duration option \<Rightarrow> payload \<Rightarrow> sandbox_record
     \<Rightarrow> sandbox_result lc" where
  "concludeSandbox resolution x result at duration p r =
    lc_bind (sandboxEvent (or_Operation x) StageComplete result at duration (sr_Sandbox r) p) (\<lambda>e.
    lc_bind (observeSandbox r e) (\<lambda>r'.
    lc_bind (encodeResponse (sandbox_response_payload \<lparr>sp_Sandbox = Some (sr_Sandbox r'), sp_Removed = False\<rparr>)) (\<lambda>response.
    lc_bind (finalizeOperationResponse x response) (\<lambda>x'.
      lift_res (sandboxResultFromRecord resolution x')))))"

text \<open>The intent of a \<open>Begin\<close> command, projected onto the stored Sandbox.\<close>

definition recordSandboxIntent :: "operation_record \<Rightarrow> binding \<Rightarrow> gotime \<Rightarrow> sandbox_record \<Rightarrow> sandbox_result lc" where
  "recordSandboxIntent x b now r =
    lc_bind (sandboxEvent (or_Operation x) StagePersistIntent ResultPending now None (sr_Sandbox r)
      (sandbox_phase_details (sr_Sandbox r))) (\<lambda>e.
    lc_bind (observeSandbox r e) (\<lambda>r'.
      Yield (sandbox_answer ResolutionNew (or_Operation x) b (Some (sr_Sandbox r')))))"

definition persistSandboxNoop :: "coordinator \<Rightarrow> gotime \<Rightarrow> binding \<Rightarrow> sandbox_record \<Rightarrow> sandbox_result lc" where
  "persistSandboxNoop c now b r =
    lc_bind (putNewTerminalOperation c b ResultNoop []) (\<lambda>x.
      concludeSandbox ResolutionNew x ResultNoop now None (sandbox_phase_details (sr_Sandbox r)) r)"

text \<open>A resumed command answers with the Sandbox as it is stored.\<close>

definition resumeSandbox :: "operation_record \<Rightarrow> binding \<Rightarrow> sandbox_id \<Rightarrow> sandbox_result lc" where
  "resumeSandbox x b i =
    lc_bind (getSandbox i) (\<lambda>r.
      Yield (sandbox_answer ResolutionResume (or_Operation x) b (Some (sr_Sandbox r))))"

text \<open>The first error says that nothing was begun under this identity.\<close>

definition applySandboxTransition ::
    "operation_record \<Rightarrow> binding \<Rightarrow> verification \<Rightarrow> sandbox_phase \<Rightarrow> sandbox_phase \<Rightarrow> sandbox_result lc" where
  "applySandboxTransition x b v before after =
    check (requireLinuxStage x (if bd_Type b = TypeCreate then StagePrepareNamespaces else StageObserveProcess))
    (lc_bind (getSandbox (tg_ID (bd_Target b))) (\<lambda>r.
     check (reject (phase_of r \<noteq> before) (sandbox_precondition ''sandbox.phase''))
     (lc_bind (changed (Sandbox_Transition (sr_Sandbox r) after)) (\<lambda>s.
      lc_bind (if before = SandboxCreating \<and> after = SandboxReady
               then lift_res (adoptOperationReceipts (OperationRecord_Clone x))
               else Yield (OperationRecord_Clone x, sr_HostResources r)) (\<lambda>(x1, inventory).
      lc_bind (putSandbox (r\<lparr>sr_Sandbox := s, sr_HostResources := inventory\<rparr>) (sr_Revision r)) (\<lambda>r1.
      lc_bind (completeOperation x1 ResultSucceeded []) (\<lambda>x2.
        concludeSandbox ResolutionResume x2 ResultSucceeded (vf_ObservedAt v) (vf_Duration v)
          (verification_payload v) r1)))))))"

definition confirmSandboxTransition ::
    "coordinator \<Rightarrow> gotime \<Rightarrow> binding \<Rightarrow> verification \<Rightarrow> sandbox_phase \<Rightarrow> sandbox_phase \<Rightarrow> sandbox_result lc" where
  "confirmSandboxTransition c now b v before after =
    lc_bind (resolveOperation c now b) (\<lambda>resolved.
      case resolved of
        ResolvedNew \<Rightarrow> Abort (LcNotFound (bd_ID b))
      | ResolvedResume x \<Rightarrow> applySandboxTransition x b v before after
      | ResolvedReplay x \<Rightarrow> lift_res (sandboxResultFromRecord ResolutionReplay x))"

subsection \<open>Create\<close>

definition sandbox_already_exists :: lc_error where
  "sandbox_already_exists = LcDomain (NewError CodeAlreadyExists ''sandbox_id'')"

definition existingSandbox :: "coordinator \<Rightarrow> gotime \<Rightarrow> sandbox_create_request \<Rightarrow> binding \<Rightarrow> sandbox_record \<Rightarrow> sandbox_result lc" where
  "existingSandbox c now q b r =
    lc_bind (lift_res (bindingFor (xc_OperationID q) TypeCreate (bd_Target b)
      (sandboxCreateSemantic (sb_ID (sr_Sandbox r)) (sb_Spec (sr_Sandbox r))))) (\<lambda>existing.
    check (reject (phase_of r \<noteq> SandboxReady \<or> bd_Fingerprint existing \<noteq> bd_Fingerprint b) sandbox_already_exists)
     (persistSandboxNoop c now b r))"

definition newSandbox :: "coordinator \<Rightarrow> gotime \<Rightarrow> sandbox_create_request \<Rightarrow> binding \<Rightarrow> sandbox_result lc" where
  "newSandbox c now q b =
    lc_bind (lift_res (map_sum LcDomain id (NewSandbox (xc_SandboxID q) (xc_Spec q)))) (\<lambda>s.
    lc_bind (putNewActiveOperation c b []) (\<lambda>x.
    lc_bind (putSandbox (NewSandboxRecord s) 0) (\<lambda>r.
      recordSandboxIntent x b now r)))"

definition BeginSandboxCreate :: "coordinator \<Rightarrow> gotime \<Rightarrow> sandbox_create_request \<Rightarrow> sandbox_result command" where
  "BeginSandboxCreate c now q =
    (let i = xc_SandboxID q in
     bind_res (bindingFor (xc_OperationID q) TypeCreate (sandbox_resource i) (sandboxCreateSemantic i (xc_Spec q))) (\<lambda>b. Inr (
      lc_bind (resolveOperation c now b) (\<lambda>resolved.
        case resolved of
          ResolvedNew \<Rightarrow>
            lc_bind (attempt (getSandbox i)) (\<lambda>got.
              case got of
                Inr r \<Rightarrow> existingSandbox c now q b r
              | Inl e \<Rightarrow> check (reject (\<not> is_not_found e) e) (newSandbox c now q b))
        | ResolvedResume x \<Rightarrow> resumeSandbox x b i
        | ResolvedReplay x \<Rightarrow> lift_res (sandboxResultFromRecord ResolutionReplay x)))))"

definition ConfirmSandboxCreate :: "coordinator \<Rightarrow> gotime \<Rightarrow> sandbox_confirm_request \<Rightarrow> sandbox_result command" where
  "ConfirmSandboxCreate c now q =
    require (validateFor (xf_Verification q) VerificationSandboxReady)
     (bind_res (suppliedBinding (xf_OperationID q) TypeCreate (sandbox_resource (xf_SandboxID q)) (xf_Fingerprint q)) (\<lambda>b.
       Inr (confirmSandboxTransition c now b (xf_Verification q) SandboxCreating SandboxReady)))"

subsection \<open>Stop\<close>

definition stopReadySandbox :: "coordinator \<Rightarrow> gotime \<Rightarrow> binding \<Rightarrow> sandbox_id \<Rightarrow> sandbox_record \<Rightarrow> sandbox_result lc" where
  "stopReadySandbox c now b i r =
    check (reject (phase_of r \<noteq> SandboxReady) (sandbox_precondition ''sandbox.phase''))
    (lc_bind (listContainers i) (\<lambda>ps.
     check (reject (list_ex (\<lambda>p. IsActiveAttempt (at_Phase (ca_Attempt (cr_ContainerAttempt p)))) ps)
       (sandbox_precondition ''sandbox.active_attempt''))
     (lc_bind (changed (Sandbox_Transition (sr_Sandbox r) SandboxStopping)) (\<lambda>s.
      lc_bind (putNewActiveOperation c b []) (\<lambda>x.
      lc_bind (putSandbox (r\<lparr>sr_Sandbox := s\<rparr>) (sr_Revision r)) (\<lambda>r1.
        recordSandboxIntent x b now r1))))))"

definition BeginSandboxStop :: "coordinator \<Rightarrow> gotime \<Rightarrow> sandbox_action_request \<Rightarrow> sandbox_result command" where
  "BeginSandboxStop c now q =
    (let i = xa_SandboxID q in
     bind_res (bindingFor (xa_OperationID q) TypeStop (sandbox_resource i) (sandboxActionSemantic i)) (\<lambda>b. Inr (
      lc_bind (resolveOperation c now b) (\<lambda>resolved.
        case resolved of
          ResolvedNew \<Rightarrow>
            lc_bind (getSandbox i) (\<lambda>r.
              if phase_of r = SandboxStopped then persistSandboxNoop c now b r
              else stopReadySandbox c now b i r)
        | ResolvedResume x \<Rightarrow> resumeSandbox x b i
        | ResolvedReplay x \<Rightarrow> lift_res (sandboxResultFromRecord ResolutionReplay x)))))"

definition ConfirmSandboxStop :: "coordinator \<Rightarrow> gotime \<Rightarrow> sandbox_confirm_request \<Rightarrow> sandbox_result command" where
  "ConfirmSandboxStop c now q =
    require (validateFor (xf_Verification q) VerificationSandboxStopped)
     (bind_res (suppliedBinding (xf_OperationID q) TypeStop (sandbox_resource (xf_SandboxID q)) (xf_Fingerprint q)) (\<lambda>b.
       Inr (confirmSandboxTransition c now b (xf_Verification q) SandboxStopping SandboxStopped)))"

subsection \<open>Remove\<close>

text \<open>Metadata that is absent does not end a removal: the host's absence has to be confirmed too.\<close>

definition absent_details :: payload where
  "absent_details = details [(''phase'', ''metadata_absent_pending_host_verification'')]"

definition removeUnknownSandbox :: "coordinator \<Rightarrow> gotime \<Rightarrow> binding \<Rightarrow> sandbox_result lc" where
  "removeUnknownSandbox c now b =
    lc_bind (putNewActiveOperation c b []) (\<lambda>x.
    lc_bind (appendOperationEvent (or_Operation x) StagePersistIntent ResultPending now None 0 0 absent_details []) (\<lambda>_.
      Yield (sandbox_answer ResolutionNew (or_Operation x) b None)))"

definition removeKnownSandbox :: "coordinator \<Rightarrow> gotime \<Rightarrow> binding \<Rightarrow> sandbox_id \<Rightarrow> sandbox_record \<Rightarrow> sandbox_result lc" where
  "removeKnownSandbox c now b i r =
    check (reject (phase_of r \<noteq> SandboxStopped) (sandbox_precondition ''sandbox.phase''))
    (lc_bind (listContainers i) (\<lambda>ps.
     check (reject (ps \<noteq> []) (sandbox_precondition ''sandbox.containers''))
     (lc_bind (putNewActiveOperation c b []) (\<lambda>x. recordSandboxIntent x b now r))))"

definition BeginSandboxRemove :: "coordinator \<Rightarrow> gotime \<Rightarrow> sandbox_action_request \<Rightarrow> sandbox_result command" where
  "BeginSandboxRemove c now q =
    (let i = xa_SandboxID q in
     bind_res (bindingFor (xa_OperationID q) TypeDelete (sandbox_resource i) (sandboxActionSemantic i)) (\<lambda>b. Inr (
      lc_bind (resolveOperation c now b) (\<lambda>resolved.
        case resolved of
          ResolvedNew \<Rightarrow>
            lc_bind (attempt (getSandbox i)) (\<lambda>got.
              case got of
                Inl e \<Rightarrow> check (reject (\<not> is_not_found e) e) (removeUnknownSandbox c now b)
              | Inr r \<Rightarrow> removeKnownSandbox c now b i r)
        | ResolvedResume x \<Rightarrow>
            lc_bind (attempt (getSandbox i)) (\<lambda>got.
              case got of
                Inl e \<Rightarrow> check (reject (\<not> is_not_found e) e)
                  (Yield (sandbox_answer ResolutionResume (or_Operation x) b None))
              | Inr r \<Rightarrow> Yield (sandbox_answer ResolutionResume (or_Operation x) b (Some (sr_Sandbox r))))
        | ResolvedReplay x \<Rightarrow> lift_res (sandboxResultFromRecord ResolutionReplay x)))))"

definition removed_sandbox_reply :: payload where
  "removed_sandbox_reply = sandbox_response_payload \<lparr>sp_Sandbox = None, sp_Removed = True\<rparr>"

text \<open>Metadata that is gone already: the removal ends as a no-op.\<close>

definition removeAbsentSandbox :: "operation_record \<Rightarrow> verification \<Rightarrow> sandbox_result lc" where
  "removeAbsentSandbox x v =
    check (reject (elems (or_Releases x) \<noteq> []) (sandbox_precondition ''sandbox.host_resources''))
    (lc_bind (encodeResponse removed_sandbox_reply) (\<lambda>response.
     lc_bind (completeOperation x ResultNoop response) (\<lambda>x1.
     lc_bind (appendOperationEvent (or_Operation x1) StageComplete ResultNoop (vf_ObservedAt v) (vf_Duration v) 0 0
       (verification_payload v) []) (\<lambda>_.
       lift_res (sandboxResultFromRecord ResolutionResume x1)))))"

definition removeStoppedSandbox :: "operation_record \<Rightarrow> verification \<Rightarrow> sandbox_id \<Rightarrow> sandbox_record \<Rightarrow> sandbox_result lc" where
  "removeStoppedSandbox x v i r =
    check (reject (phase_of r \<noteq> SandboxStopped) (sandbox_precondition ''sandbox.phase''))
    (lc_bind (listContainers i) (\<lambda>ps.
     check (reject (ps \<noteq> []) (sandbox_precondition ''sandbox.containers''))
     (check (validateCompleteCleanupReleases x (sr_HostResources r))
      (lc_bind (putSandbox (r\<lparr>sr_HostResources := []\<rparr>) (sr_Revision r)) (\<lambda>r1.
       lc_bind (encodeResponse removed_sandbox_reply) (\<lambda>response.
       lc_bind (completeOperation x ResultSucceeded response) (\<lambda>x1.
       lc_bind (sandboxEvent (or_Operation x1) StageComplete ResultSucceeded (vf_ObservedAt v) (vf_Duration v)
         (sr_Sandbox r1) (verification_payload v)) (\<lambda>e.
       lc_bind (observeSandbox r1 e) (\<lambda>r2.
       lc_bind (deleteSandbox i (sr_Revision r2)) (\<lambda>_.
         lift_res (sandboxResultFromRecord ResolutionResume x1)))))))))))"

definition ConfirmSandboxRemove :: "coordinator \<Rightarrow> gotime \<Rightarrow> sandbox_confirm_request \<Rightarrow> sandbox_result command" where
  "ConfirmSandboxRemove c now q =
    (let i = xf_SandboxID q; v = xf_Verification q in
     require (validateFor v VerificationSandboxAbsent)
     (bind_res (suppliedBinding (xf_OperationID q) TypeDelete (sandbox_resource i) (xf_Fingerprint q)) (\<lambda>b. Inr (
      lc_bind (resolveOperation c now b) (\<lambda>resolved.
        case resolved of
          ResolvedNew \<Rightarrow> Abort (LcNotFound (xf_OperationID q))
        | ResolvedResume x \<Rightarrow>
            lc_bind (attempt (getSandbox i)) (\<lambda>got.
              case got of
                Inl e \<Rightarrow> check (reject (\<not> is_not_found e) e) (removeAbsentSandbox x v)
              | Inr r \<Rightarrow> removeStoppedSandbox x v i r)
        | ResolvedReplay x \<Rightarrow> lift_res (sandboxResultFromRecord ResolutionReplay x))))))"

subsection \<open>A create that failed\<close>

definition dropFailedSandbox :: "operation_record \<Rightarrow> failure \<Rightarrow> verification \<Rightarrow> sandbox_id \<Rightarrow> sandbox_result lc" where
  "dropFailedSandbox x f v i =
    lc_bind (getSandbox i) (\<lambda>r.
    check (reject (phase_of r \<noteq> SandboxCreating) (sandbox_precondition ''sandbox.phase''))
    (check (reject (sr_HostResources r \<noteq> []) (sandbox_precondition ''sandbox.host_resources''))
     (lc_bind (changed (Sandbox_Transition (sr_Sandbox r) SandboxAbsent)) (\<lambda>s.
      lc_bind (putSandbox (r\<lparr>sr_Sandbox := s\<rparr>) (sr_Revision r)) (\<lambda>r1.
      lc_bind (encodeResponse removed_sandbox_reply) (\<lambda>response.
      lc_bind (failOperation x (fa_Reason f) response) (\<lambda>x1.
      lc_bind (sandboxEvent (or_Operation x1) StageComplete ResultFailed (vf_ObservedAt v) (vf_Duration v)
        (sr_Sandbox r1) (failure_payload f v)) (\<lambda>_.
      lc_bind (deleteSandbox i (sr_Revision r1)) (\<lambda>_.
        lift_res (sandboxResultFromRecord ResolutionResume x1))))))))))"

definition FailSandboxCreateAfterRollback ::
    "coordinator \<Rightarrow> gotime \<Rightarrow> sandbox_failure_request \<Rightarrow> sandbox_result command" where
  "FailSandboxCreateAfterRollback c now q =
    (let i = xq_SandboxID q; v = xq_Verification q; f = xq_Failure q in
     require (Failure_Validate f)
     (require (validateFor v VerificationSandboxAbsent)
     (bind_res (suppliedBinding (xq_OperationID q) TypeCreate (sandbox_resource i) (xq_Fingerprint q)) (\<lambda>b. Inr (
      lc_bind (resolveOperation c now b) (\<lambda>resolved.
        case resolved of
          ResolvedNew \<Rightarrow> Abort (LcNotFound (xq_OperationID q))
        | ResolvedResume x \<Rightarrow> dropFailedSandbox x f v i
        | ResolvedReplay x \<Rightarrow> lift_res (sandboxResultFromRecord ResolutionReplay x)))))))"

subsection \<open>All of them\<close>

datatype sandbox_request =
    SandboxBeginCreate sandbox_create_request
  | SandboxConfirmCreate sandbox_confirm_request
  | SandboxBeginStop sandbox_action_request
  | SandboxConfirmStop sandbox_confirm_request
  | SandboxBeginRemove sandbox_action_request
  | SandboxConfirmRemove sandbox_confirm_request
  | SandboxFailCreate sandbox_failure_request

fun sandbox_command :: "coordinator \<Rightarrow> gotime \<Rightarrow> sandbox_request \<Rightarrow> sandbox_result command" where
  "sandbox_command c now (SandboxBeginCreate q) = BeginSandboxCreate c now q"
| "sandbox_command c now (SandboxConfirmCreate q) = ConfirmSandboxCreate c now q"
| "sandbox_command c now (SandboxBeginStop q) = BeginSandboxStop c now q"
| "sandbox_command c now (SandboxConfirmStop q) = ConfirmSandboxStop c now q"
| "sandbox_command c now (SandboxBeginRemove q) = BeginSandboxRemove c now q"
| "sandbox_command c now (SandboxConfirmRemove q) = ConfirmSandboxRemove c now q"
| "sandbox_command c now (SandboxFailCreate q) = FailSandboxCreateAfterRollback c now q"

text \<open>A call of the coordinator, as its caller sees it.\<close>

definition sandbox_call ::
    "coordinator \<Rightarrow> memory_store \<Rightarrow> gotime \<Rightarrow> bool \<Rightarrow> bool \<Rightarrow> sandbox_request
     \<Rightarrow> memory_store \<times> (lc_error + sandbox_result \<times> lc_error option)" where
  "sandbox_call c s now cancelled cancelled_after q =
    (case submit s cancelled cancelled_after (sandbox_command c now q) of (s', r) \<Rightarrow> (s', finishSandboxResult r))"

end
