(* ===== verification/Lifecycle_Container.thy ===== *)
theory Lifecycle_Container
  imports Lifecycle_Sandbox
begin

text \<open>
  \<open>internal/lifecycle/container.go\<close> and the Container half of \<open>failure.go\<close>: the two-phase commands
  on a Container and its Attempt: create, start, delete, the record of a terminal observation, and
  the kill plan, which names a verified process but sends no signal.
\<close>

record container_create_request =
  yc_OperationID :: operation_id
  yc_SandboxID :: sandbox_id
  yc_ContainerID :: container_id
  yc_AttemptID :: attempt_id
  yc_Process :: process_spec
  yc_ImageDigest :: string
  yc_RootFS :: string

record container_action_request =
  ya_OperationID :: operation_id
  ya_ContainerID :: container_id

record container_confirm_request =
  yf_OperationID :: operation_id
  yf_ContainerID :: container_id
  yf_Fingerprint :: fingerprint
  yf_Verification :: verification

record start_terminal_request =
  yt_OperationID :: operation_id
  yt_ContainerID :: container_id
  yt_Fingerprint :: fingerprint
  yt_Outcome :: outcome
  yt_OperationFailed :: bool
  yt_Conditions :: "condition list"
  yt_Verification :: verification

record container_failure_request =
  yq_OperationID :: operation_id
  yq_ContainerID :: container_id
  yq_Fingerprint :: fingerprint
  yq_Failure :: failure
  yq_Verification :: verification

record record_stopped_request =
  ys_OperationID :: operation_id
  ys_ContainerID :: container_id
  ys_Outcome :: outcome
  ys_Conditions :: "condition list"
  ys_Verification :: verification

record kill_request =
  kq_OperationID :: operation_id
  kq_ContainerID :: container_id
  kq_Policy :: termination_policy

record kill_stopped_request =
  ks_OperationID :: operation_id
  ks_ContainerID :: container_id
  ks_Fingerprint :: fingerprint
  ks_Outcome :: outcome
  ks_Conditions :: "condition list"
  ks_Verification :: verification

definition RecordStoppedRequest_fingerprint :: "record_stopped_request \<Rightarrow> lc_error + fingerprint" where
  "RecordStoppedRequest_fingerprint q =
    request_fingerprint (stoppedSemantic (ys_ContainerID q) (ys_Outcome q) (ys_Conditions q))"

subsection \<open>Shared parts\<close>

definition container_answer :: "resolution \<Rightarrow> operation \<Rightarrow> binding \<Rightarrow> container_attempt option \<Rightarrow> container_result" where
  "container_answer resolution x b p =
    \<lparr>yr_Resolution = resolution, yr_Operation = x, yr_Fingerprint = bd_Fingerprint b, yr_ContainerAttempt = p,
     yr_HostBinding = None, yr_Removed = False\<rparr>"

definition attempt_phase_of :: "container_record \<Rightarrow> attempt_phase" where
  "attempt_phase_of r = at_Phase (ca_Attempt (cr_ContainerAttempt r))"

definition attempt_phase_details :: "container_attempt \<Rightarrow> payload" where
  "attempt_phase_details p = details [(''phase'', AttemptPhase_text (at_Phase (ca_Attempt p)))]"

definition containerEvent ::
    "operation \<Rightarrow> stage \<Rightarrow> op_result \<Rightarrow> gotime \<Rightarrow> duration option \<Rightarrow> container_attempt \<Rightarrow> payload \<Rightarrow> event lc" where
  "containerEvent x stage result at duration p d =
    (let st = co_Status (ca_Container p) in
     appendOperationEvent x stage result at duration (ct_Generation st) (ct_ObservedGeneration st) d
       (containerEventResources p))"

definition attempt_precondition :: lc_error where
  "attempt_precondition = LcDomain (NewError CodeFailedPrecondition ''attempt.phase'')"

definition currentPairMatches :: "sandbox \<Rightarrow> container_id \<Rightarrow> attempt_id \<Rightarrow> bool" where
  "currentPairMatches s c a \<longleftrightarrow>
     ss_CurrentContainerID (sb_Status s) = Some c \<and> ss_CurrentAttemptID (sb_Status s) = Some a"

text \<open>The end of a command that keeps the pair; a create carries the host binding in its reply.\<close>

definition concludeContainer ::
    "resolution \<Rightarrow> operation_record \<Rightarrow> op_result \<Rightarrow> gotime \<Rightarrow> duration option \<Rightarrow> payload \<Rightarrow> container_record
     \<Rightarrow> bool \<Rightarrow> container_result lc" where
  "concludeContainer resolution x result at duration d r with_binding =
    lc_bind (containerEvent (or_Operation x) StageComplete result at duration (cr_ContainerAttempt r) d) (\<lambda>e.
    lc_bind (observeContainer r e) (\<lambda>r'.
    lc_bind (lift_res (if with_binding then containerHostBindingFromRecord r' else Inr None)) (\<lambda>hostBinding.
    lc_bind (encodeResponse (container_response_payload
      \<lparr>cp_ContainerAttempt = Some (cr_ContainerAttempt r'), cp_HostBinding = hostBinding, cp_Removed = False\<rparr>)) (\<lambda>response.
    lc_bind (finalizeOperationResponse x response) (\<lambda>x'.
      lift_res (containerResultFromRecord resolution x'))))))"

definition recordContainerIntent ::
    "operation_record \<Rightarrow> binding \<Rightarrow> gotime \<Rightarrow> payload \<Rightarrow> container_record \<Rightarrow> container_result lc" where
  "recordContainerIntent x b now d r =
    lc_bind (containerEvent (or_Operation x) StagePersistIntent ResultPending now None (cr_ContainerAttempt r) d) (\<lambda>e.
    lc_bind (observeContainer r e) (\<lambda>r'.
      Yield (container_answer ResolutionNew (or_Operation x) b (Some (cr_ContainerAttempt r')))))"

definition persistContainerNoop :: "coordinator \<Rightarrow> gotime \<Rightarrow> binding \<Rightarrow> container_record \<Rightarrow> container_result lc" where
  "persistContainerNoop c now b r =
    lc_bind (putNewTerminalOperation c b ResultNoop []) (\<lambda>x.
      concludeContainer ResolutionNew x ResultNoop now None (attempt_phase_details (cr_ContainerAttempt r)) r
        (bd_Type b = TypeCreate))"

text \<open>A resumed command answers with the pair as it is stored.\<close>

definition resumeContainer :: "operation_record \<Rightarrow> binding \<Rightarrow> container_id \<Rightarrow> container_result lc" where
  "resumeContainer x b i =
    lc_bind (getContainer i) (\<lambda>r.
      Yield (container_answer ResolutionResume (or_Operation x) b (Some (cr_ContainerAttempt r))))"

text \<open>The verified identity and streams are set on the pair before it moves.\<close>

definition transitionPair ::
    "container_attempt \<Rightarrow> verification \<Rightarrow> attempt_phase \<Rightarrow> container_attempt lc" where
  "transitionPair p v after =
    lc_bind (case vf_ProcessIdentity v of None \<Rightarrow> Yield p | Some i \<Rightarrow> changed (Pair_SetProcessIdentity p i)) (\<lambda>p1.
    lc_bind (changed (Pair_SetStreams p1 (vf_Streams v))) (\<lambda>p2.
      changed (Pair_Transition p2 after PendingOutcome)))"

definition applyContainerTransition ::
    "operation_record \<Rightarrow> binding \<Rightarrow> verification \<Rightarrow> attempt_phase \<Rightarrow> attempt_phase \<Rightarrow> container_result lc" where
  "applyContainerTransition x b v before after =
    check (requireLinuxStage x (if bd_Type b = TypeCreate then StageAttachCgroup else StageObserveProcess))
    (lc_bind (getContainer (tg_ID (bd_Target b))) (\<lambda>r.
     check (reject (attempt_phase_of r \<noteq> before) attempt_precondition)
     (lc_bind (transitionPair (cr_ContainerAttempt r) v after) (\<lambda>p.
      lc_bind (if before = AttemptCreating \<and> after = AttemptCreated
               then lift_res (adoptOperationReceipts (OperationRecord_Clone x))
               else Yield (OperationRecord_Clone x, cr_HostResources r)) (\<lambda>(x1, inventory).
      lc_bind (putContainer (r\<lparr>cr_ContainerAttempt := p, cr_HostResources := inventory\<rparr>) (cr_Revision r)) (\<lambda>r1.
      lc_bind (completeOperation x1 ResultSucceeded []) (\<lambda>x2.
        concludeContainer ResolutionResume x2 ResultSucceeded (vf_ObservedAt v) (vf_Duration v)
          (verification_payload v) r1 (bd_Type b = TypeCreate))))))))"

definition confirmContainerTransition ::
    "coordinator \<Rightarrow> gotime \<Rightarrow> binding \<Rightarrow> verification \<Rightarrow> attempt_phase \<Rightarrow> attempt_phase \<Rightarrow> container_result lc" where
  "confirmContainerTransition c now b v before after =
    lc_bind (resolveOperation c now b) (\<lambda>resolved.
      case resolved of
        ResolvedNew \<Rightarrow> Abort (LcNotFound (bd_ID b))
      | ResolvedResume x \<Rightarrow> applyContainerTransition x b v before after
      | ResolvedReplay x \<Rightarrow> lift_res (containerResultFromRecord ResolutionReplay x))"

subsection \<open>Create\<close>

definition container_exists :: lc_error where
  "container_exists = LcDomain (NewError CodeAlreadyExists ''container_id'')"

definition containerCreateSemantic_of :: "container_attempt \<Rightarrow> payload" where
  "containerCreateSemantic_of p =
    containerCreateSemantic (co_SandboxID (ca_Container p)) (co_ID (ca_Container p)) (at_ID (ca_Attempt p))
      (cs_Process (co_Spec (ca_Container p))) (cs_ImageDigest (co_Spec (ca_Container p)))
      (cs_RootFS (co_Spec (ca_Container p)))"

definition newContainer ::
    "coordinator \<Rightarrow> gotime \<Rightarrow> container_create_request \<Rightarrow> binding \<Rightarrow> container_result lc" where
  "newContainer c now q b =
    lc_bind (getSandbox (yc_SandboxID q)) (\<lambda>s.
    lc_bind (listContainers (yc_SandboxID q)) (\<lambda>ps.
    check (reject (list_ex (\<lambda>p. IsActiveAttempt (attempt_phase_of p)) ps)
      (LcDomain (NewError CodeFailedPrecondition ''sandbox.active_attempt'')))
    (lc_bind (lift_res (map_sum LcDomain id (NewContainerAttempt (sr_Sandbox s) (yc_ContainerID q) (yc_AttemptID q)
       (yc_Process q) (yc_ImageDigest q) (yc_RootFS q)))) (\<lambda>p.
     lc_bind (changed (Sandbox_SetCurrentPair (sr_Sandbox s) (yc_ContainerID q) (yc_AttemptID q))) (\<lambda>s'.
     lc_bind (putNewActiveOperation c b []) (\<lambda>x.
     lc_bind (putContainer (NewContainerAttemptRecord p) 0) (\<lambda>r.
     lc_bind (putSandbox (s\<lparr>sr_Sandbox := s'\<rparr>) (sr_Revision s)) (\<lambda>_.
       recordContainerIntent x b now
         (details [(''attempt_id'', at_ID (ca_Attempt p)), (''phase'', AttemptPhase_text (at_Phase (ca_Attempt p)))]) r))))))))"

definition existingContainer ::
    "coordinator \<Rightarrow> gotime \<Rightarrow> container_create_request \<Rightarrow> binding \<Rightarrow> container_record \<Rightarrow> container_result lc" where
  "existingContainer c now q b r =
    lc_bind (lift_res (bindingFor (yc_OperationID q) TypeCreate (bd_Target b)
      (containerCreateSemantic_of (cr_ContainerAttempt r)))) (\<lambda>existing.
    check (reject (bd_Fingerprint existing \<noteq> bd_Fingerprint b) container_exists)
     (persistContainerNoop c now b r))"

definition BeginContainerCreate :: "coordinator \<Rightarrow> gotime \<Rightarrow> container_create_request \<Rightarrow> container_result command" where
  "BeginContainerCreate c now q =
    (let i = yc_ContainerID q in
     bind_res (bindingFor (yc_OperationID q) TypeCreate (container_resource i)
       (containerCreateSemantic (yc_SandboxID q) i (yc_AttemptID q) (yc_Process q) (yc_ImageDigest q) (yc_RootFS q))) (\<lambda>b. Inr (
      lc_bind (resolveOperation c now b) (\<lambda>resolved.
        case resolved of
          ResolvedNew \<Rightarrow>
            lc_bind (attempt (getContainer i)) (\<lambda>got.
              case got of
                Inr r \<Rightarrow> existingContainer c now q b r
              | Inl e \<Rightarrow> check (reject (\<not> is_not_found e) e) (newContainer c now q b))
        | ResolvedResume x \<Rightarrow> resumeContainer x b i
        | ResolvedReplay x \<Rightarrow> lift_res (containerResultFromRecord ResolutionReplay x)))))"

definition ConfirmContainerCreate :: "coordinator \<Rightarrow> gotime \<Rightarrow> container_confirm_request \<Rightarrow> container_result command" where
  "ConfirmContainerCreate c now q =
    require (validateFor (yf_Verification q) VerificationAttemptCreated)
     (bind_res (suppliedBinding (yf_OperationID q) TypeCreate (container_resource (yf_ContainerID q)) (yf_Fingerprint q)) (\<lambda>b.
       Inr (confirmContainerTransition c now b (yf_Verification q) AttemptCreating AttemptCreated)))"

subsection \<open>Start\<close>

definition startCreatedContainer :: "coordinator \<Rightarrow> gotime \<Rightarrow> binding \<Rightarrow> container_record \<Rightarrow> container_result lc" where
  "startCreatedContainer c now b r =
    check (reject (attempt_phase_of r \<noteq> AttemptCreated) attempt_precondition)
     (lc_bind (putNewActiveOperation c b []) (\<lambda>x.
       recordContainerIntent x b now (attempt_phase_details (cr_ContainerAttempt r)) r))"

definition BeginContainerStart :: "coordinator \<Rightarrow> gotime \<Rightarrow> container_action_request \<Rightarrow> container_result command" where
  "BeginContainerStart c now q =
    (let i = ya_ContainerID q in
     bind_res (bindingFor (ya_OperationID q) TypeStart (container_resource i) (containerActionSemantic i)) (\<lambda>b. Inr (
      lc_bind (resolveOperation c now b) (\<lambda>resolved.
        case resolved of
          ResolvedNew \<Rightarrow>
            lc_bind (getContainer i) (\<lambda>r.
              if attempt_phase_of r = AttemptRunning then persistContainerNoop c now b r
              else startCreatedContainer c now b r)
        | ResolvedResume x \<Rightarrow> resumeContainer x b i
        | ResolvedReplay x \<Rightarrow> lift_res (containerResultFromRecord ResolutionReplay x)))))"

definition ConfirmContainerStart :: "coordinator \<Rightarrow> gotime \<Rightarrow> container_confirm_request \<Rightarrow> container_result command" where
  "ConfirmContainerStart c now q =
    require (validateFor (yf_Verification q) VerificationAttemptRunning)
    (require (reject (vf_ProcessIdentity (yf_Verification q) = None) ErrVerificationRequired)
     (bind_res (suppliedBinding (yf_OperationID q) TypeStart (container_resource (yf_ContainerID q)) (yf_Fingerprint q)) (\<lambda>b.
       Inr (confirmContainerTransition c now b (yf_Verification q) AttemptCreated AttemptRunning))))"

subsection \<open>Delete\<close>

definition deleteUnknownContainer :: "coordinator \<Rightarrow> gotime \<Rightarrow> binding \<Rightarrow> container_result lc" where
  "deleteUnknownContainer c now b =
    lc_bind (putNewActiveOperation c b []) (\<lambda>x.
    lc_bind (appendOperationEvent (or_Operation x) StagePersistIntent ResultPending now None 0 0 absent_details []) (\<lambda>_.
      Yield (container_answer ResolutionNew (or_Operation x) b None)))"

definition deleteKnownContainer :: "coordinator \<Rightarrow> gotime \<Rightarrow> binding \<Rightarrow> container_record \<Rightarrow> container_result lc" where
  "deleteKnownContainer c now b r =
    lc_bind (if attempt_phase_of r = AttemptCreated
             then changed (Pair_Transition (cr_ContainerAttempt r) AttemptStopped NotApplicableOutcome)
             else if attempt_phase_of r = AttemptStopped then Yield (cr_ContainerAttempt r)
             else Abort attempt_precondition) (\<lambda>p.
    lc_bind (putNewActiveOperation c b []) (\<lambda>x.
    lc_bind (putContainer (r\<lparr>cr_ContainerAttempt := p\<rparr>) (cr_Revision r)) (\<lambda>r1.
      recordContainerIntent x b now (attempt_phase_details (cr_ContainerAttempt r1)) r1)))"

definition BeginContainerDelete :: "coordinator \<Rightarrow> gotime \<Rightarrow> container_action_request \<Rightarrow> container_result command" where
  "BeginContainerDelete c now q =
    (let i = ya_ContainerID q in
     bind_res (bindingFor (ya_OperationID q) TypeDelete (container_resource i) (containerActionSemantic i)) (\<lambda>b. Inr (
      lc_bind (resolveOperation c now b) (\<lambda>resolved.
        case resolved of
          ResolvedNew \<Rightarrow>
            lc_bind (attempt (getContainer i)) (\<lambda>got.
              case got of
                Inl e \<Rightarrow> check (reject (\<not> is_not_found e) e) (deleteUnknownContainer c now b)
              | Inr r \<Rightarrow> deleteKnownContainer c now b r)
        | ResolvedResume x \<Rightarrow>
            lc_bind (attempt (getContainer i)) (\<lambda>got.
              case got of
                Inl e \<Rightarrow> check (reject (\<not> is_not_found e) e)
                  (Yield (container_answer ResolutionResume (or_Operation x) b None))
              | Inr r \<Rightarrow> Yield (container_answer ResolutionResume (or_Operation x) b (Some (cr_ContainerAttempt r))))
        | ResolvedReplay x \<Rightarrow> lift_res (containerResultFromRecord ResolutionReplay x)))))"

definition removed_container_reply :: "host_binding option \<Rightarrow> payload" where
  "removed_container_reply hb =
    container_response_payload \<lparr>cp_ContainerAttempt = None, cp_HostBinding = hb, cp_Removed = True\<rparr>"

definition deleteAbsentContainer :: "operation_record \<Rightarrow> verification \<Rightarrow> container_result lc" where
  "deleteAbsentContainer x v =
    check (reject (elems (or_Releases x) \<noteq> []) (LcDomain (NewError CodeFailedPrecondition ''attempt.host_resources'')))
    (lc_bind (encodeResponse (removed_container_reply None)) (\<lambda>response.
     lc_bind (completeOperation x ResultNoop response) (\<lambda>x1.
     lc_bind (appendOperationEvent (or_Operation x1) StageComplete ResultNoop (vf_ObservedAt v) (vf_Duration v) 0 0
       (verification_payload v) []) (\<lambda>_.
       lift_res (containerResultFromRecord ResolutionResume x1)))))"

text \<open>The Sandbox forgets the pair, when the pair is its current one.\<close>

definition clearCurrentPair :: "sandbox_record \<Rightarrow> container_id \<Rightarrow> attempt_id \<Rightarrow> unit lc" where
  "clearCurrentPair s c a =
    (if currentPairMatches (sr_Sandbox s) c a
     then lc_bind (changed (Sandbox_ClearCurrentPair (sr_Sandbox s) c a)) (\<lambda>s'.
          lc_bind (putSandbox (s\<lparr>sr_Sandbox := s'\<rparr>) (sr_Revision s)) (\<lambda>_. Yield ()))
     else Yield ())"

definition deleteStoppedContainer ::
    "operation_record \<Rightarrow> verification \<Rightarrow> container_id \<Rightarrow> container_record \<Rightarrow> container_result lc" where
  "deleteStoppedContainer x v i r =
    (let p = cr_ContainerAttempt r; ci = co_ID (ca_Container p); ai = at_ID (ca_Attempt p) in
     check (reject (attempt_phase_of r \<noteq> AttemptStopped) attempt_precondition)
     (check (validateCompleteCleanupReleases x (cr_HostResources r))
     (lc_bind (lift_res (containerHostBindingFromRecord r)) (\<lambda>hostBinding.
      lc_bind (getSandbox (co_SandboxID (ca_Container p))) (\<lambda>s.
      lc_bind (clearCurrentPair s ci ai) (\<lambda>_.
      lc_bind (putContainer (r\<lparr>cr_HostResources := []\<rparr>) (cr_Revision r)) (\<lambda>r1.
      lc_bind (encodeResponse (removed_container_reply hostBinding)) (\<lambda>response.
      lc_bind (completeOperation x ResultSucceeded response) (\<lambda>x1.
      lc_bind (containerEvent (or_Operation x1) StageComplete ResultSucceeded (vf_ObservedAt v) (vf_Duration v) p
        (verification_payload v)) (\<lambda>e.
      lc_bind (observeContainer r1 e) (\<lambda>r2.
      lc_bind (deleteContainer i (cr_Revision r2)) (\<lambda>_.
        lift_res (containerResultFromRecord ResolutionResume x1)))))))))))))"

definition ConfirmContainerDelete :: "coordinator \<Rightarrow> gotime \<Rightarrow> container_confirm_request \<Rightarrow> container_result command" where
  "ConfirmContainerDelete c now q =
    (let i = yf_ContainerID q; v = yf_Verification q in
     require (validateFor v VerificationAttemptAbsent)
     (bind_res (suppliedBinding (yf_OperationID q) TypeDelete (container_resource i) (yf_Fingerprint q)) (\<lambda>b. Inr (
      lc_bind (resolveOperation c now b) (\<lambda>resolved.
        case resolved of
          ResolvedNew \<Rightarrow> Abort (LcNotFound (yf_OperationID q))
        | ResolvedResume x \<Rightarrow>
            lc_bind (attempt (getContainer i)) (\<lambda>got.
              case got of
                Inl e \<Rightarrow> check (reject (\<not> is_not_found e) e) (deleteAbsentContainer x v)
              | Inr r \<Rightarrow> deleteStoppedContainer x v i r)
        | ResolvedReplay x \<Rightarrow> lift_res (containerResultFromRecord ResolutionReplay x))))))"

subsection \<open>Terminal observations\<close>

definition observeRunningContainer :: "coordinator \<Rightarrow> gotime \<Rightarrow> binding \<Rightarrow> container_record \<Rightarrow> container_result lc" where
  "observeRunningContainer c now b r =
    check (reject (attempt_phase_of r \<noteq> AttemptRunning) attempt_precondition)
     (lc_bind (putNewActiveOperation c b []) (\<lambda>x.
       recordContainerIntent x b now (details [(''phase'', ''terminal_observation_pending'')]) r))"

definition BeginRecordStopped :: "coordinator \<Rightarrow> gotime \<Rightarrow> record_stopped_request \<Rightarrow> container_result command" where
  "BeginRecordStopped c now q =
    (let i = ys_ContainerID q in
     require (validateFor (ys_Verification q) VerificationAttemptStopped)
     (require (wrap LcDomain (Outcome_Validate (ys_Outcome q)))
     (bind_res (RecordStoppedRequest_fingerprint q) (\<lambda>f.
      bind_res (suppliedBinding (ys_OperationID q) TypeStop (container_resource i) f) (\<lambda>b. Inr (
      lc_bind (resolveOperation c now b) (\<lambda>resolved.
        case resolved of
          ResolvedNew \<Rightarrow> lc_bind (getContainer i) (observeRunningContainer c now b)
        | ResolvedResume x \<Rightarrow> resumeContainer x b i
        | ResolvedReplay x \<Rightarrow> lift_res (containerResultFromRecord ResolutionReplay x))))))))"

text \<open>The Attempt is moved to Stopped and its operation is completed; a new observation writes its
  intent on the way, projected before the pair is stored.\<close>

definition stoppedOperation ::
    "coordinator \<Rightarrow> gotime \<Rightarrow> binding \<Rightarrow> container_attempt \<Rightarrow> resolved_operation
     \<Rightarrow> (operation_record \<times> container_attempt \<times> resolution) lc" where
  "stoppedOperation c now b p resolved =
    (case resolved of
       ResolvedNew \<Rightarrow>
         lc_bind (putNewActiveOperation c b []) (\<lambda>x.
         lc_bind (containerEvent (or_Operation x) StagePersistIntent ResultPending now None p
           (details [(''phase'', ''terminal_observation'')])) (\<lambda>e.
         lc_bind (changed (Pair_SetLastObservation p (lifecycleObservation e))) (\<lambda>p'.
           Yield (x, p', ResolutionNew))))
     | ResolvedResume x \<Rightarrow> Yield (x, p, ResolutionResume)
     | ResolvedReplay x \<Rightarrow> Yield (x, p, ResolutionReplay))"

definition recordStoppedInTx ::
    "coordinator \<Rightarrow> gotime \<Rightarrow> binding \<Rightarrow> outcome \<Rightarrow> condition list \<Rightarrow> verification \<Rightarrow> resolved_operation
     \<Rightarrow> container_result lc" where
  "recordStoppedInTx c now b outcome conditions v resolved =
    lc_bind (getContainer (tg_ID (bd_Target b))) (\<lambda>r.
      if attempt_phase_of r = AttemptStopped
      then check (reject (resolved \<noteq> ResolvedNew) attempt_precondition) (persistContainerNoop c now b r)
      else
        lc_bind (changed (Pair_SetConditions (cr_ContainerAttempt r) conditions)) (\<lambda>p1.
        lc_bind (changed (Pair_Transition p1 AttemptStopped outcome)) (\<lambda>p2.
        lc_bind (stoppedOperation c now b p2 resolved) (\<lambda>(x, p3, resolution).
        lc_bind (putContainer (r\<lparr>cr_ContainerAttempt := p3\<rparr>) (cr_Revision r)) (\<lambda>r1.
        lc_bind (completeOperation x ResultSucceeded []) (\<lambda>x1.
          concludeContainer resolution x1 ResultSucceeded (vf_ObservedAt v) (vf_Duration v)
            (verification_payload v) r1 False))))))"

definition recordStopped ::
    "coordinator \<Rightarrow> gotime \<Rightarrow> binding \<Rightarrow> outcome \<Rightarrow> condition list \<Rightarrow> verification \<Rightarrow> container_result lc" where
  "recordStopped c now b outcome conditions v =
    lc_bind (resolveOperation c now b) (\<lambda>resolved.
      case resolved of
        ResolvedNew \<Rightarrow>
          check (reject (co_profile c = HostProfileLinuxM2) (LcDomain (NewError CodeFailedPrecondition ''operation'')))
           (recordStoppedInTx c now b outcome conditions v ResolvedNew)
      | ResolvedResume x \<Rightarrow>
          check (if co_profile c = HostProfileLinuxM2 then requireLinuxStage x StageObserveProcess else None)
           (recordStoppedInTx c now b outcome conditions v (ResolvedResume x))
      | ResolvedReplay x \<Rightarrow> lift_res (containerResultFromRecord ResolutionReplay x))"

definition RecordStopped :: "coordinator \<Rightarrow> gotime \<Rightarrow> record_stopped_request \<Rightarrow> container_result command" where
  "RecordStopped c now q =
    require (validateFor (ys_Verification q) VerificationAttemptStopped)
    (require (wrap LcDomain (Outcome_Validate (ys_Outcome q)))
    (bind_res (RecordStoppedRequest_fingerprint q) (\<lambda>f.
     bind_res (suppliedBinding (ys_OperationID q) TypeStop (container_resource (ys_ContainerID q)) f) (\<lambda>b.
       Inr (recordStopped c now b (ys_Outcome q) (ys_Conditions q) (ys_Verification q))))))"

text \<open>The child ended before a running process could be confirmed.\<close>

definition terminalPair :: "container_attempt \<Rightarrow> outcome \<Rightarrow> container_attempt lc" where
  "terminalPair p outcome =
    (if oc_Presence outcome = OutcomeNotApplicable then changed (Pair_Transition p AttemptStopped outcome)
     else lc_bind (changed (Pair_Transition p AttemptRunning PendingOutcome)) (\<lambda>p'.
       changed (Pair_Transition p' AttemptStopped outcome)))"

definition recordStartTerminal :: "operation_record \<Rightarrow> start_terminal_request \<Rightarrow> container_result lc" where
  "recordStartTerminal x q =
    (let v = yt_Verification q in
     check (requireLinuxStage x StageObserveProcess)
     (lc_bind (getContainer (yt_ContainerID q)) (\<lambda>r.
      check (reject (attempt_phase_of r \<noteq> AttemptCreated) attempt_precondition)
      (lc_bind (changed (Pair_SetConditions (cr_ContainerAttempt r) (yt_Conditions q))) (\<lambda>p1.
       lc_bind (terminalPair p1 (yt_Outcome q)) (\<lambda>p2.
       lc_bind (putContainer (r\<lparr>cr_ContainerAttempt := p2\<rparr>) (cr_Revision r)) (\<lambda>r1.
       lc_bind (if yt_OperationFailed q then failOperation x ReasonInternal []
                else completeOperation x ResultSucceeded []) (\<lambda>x1.
         concludeContainer ResolutionResume x1 (if yt_OperationFailed q then ResultFailed else ResultSucceeded)
           (vf_ObservedAt v) (vf_Duration v) (verification_payload v) r1 False))))))))"

definition RecordContainerStartTerminal :: "coordinator \<Rightarrow> gotime \<Rightarrow> start_terminal_request \<Rightarrow> container_result command" where
  "RecordContainerStartTerminal c now q =
    require (validateFor (yt_Verification q) VerificationAttemptStopped)
    (require (wrap LcDomain (Outcome_Validate (yt_Outcome q)))
    (require (reject (oc_Presence (yt_Outcome q) = OutcomeNotApplicable \<and> \<not> yt_OperationFailed q)
        (LcInvalid ''not-applicable terminal Start outcome''))
    (bind_res (suppliedBinding (yt_OperationID q) TypeStart (container_resource (yt_ContainerID q)) (yt_Fingerprint q)) (\<lambda>b. Inr (
     lc_bind (resolveOperation c now b) (\<lambda>resolved.
       case resolved of
         ResolvedNew \<Rightarrow> Abort (LcNotFound (yt_OperationID q))
       | ResolvedResume x \<Rightarrow> recordStartTerminal x q
       | ResolvedReplay x \<Rightarrow> lift_res (containerResultFromRecord ResolutionReplay x)))))))"

subsection \<open>Kill\<close>

definition kill_answer ::
    "resolution \<Rightarrow> operation \<Rightarrow> binding \<Rightarrow> kill_plan \<Rightarrow> process_identity \<Rightarrow> container_attempt \<Rightarrow> kill_result" where
  "kill_answer resolution x b plan identity p =
    \<lparr>kl_Resolution = resolution, kl_Operation = x, kl_Fingerprint = bd_Fingerprint b, kl_Plan = plan,
     kl_Actionable = True, kl_ProcessIdentity = identity, kl_ContainerAttempt = Some p\<rparr>"

definition verifyKillTarget :: "coordinator \<Rightarrow> target \<Rightarrow> container_attempt \<Rightarrow> lc_error + process_identity" where
  "verifyKillTarget c t p =
    (case at_ProcessIdentity (ca_Attempt p) of
       None \<Rightarrow> Inl attempt_precondition
     | Some identity \<Rightarrow>
       require (reject (at_Phase (ca_Attempt p) \<noteq> AttemptRunning) attempt_precondition)
       (require (wrap LcDomain (ProcessIdentity_Validate identity))
        (case co_verifier c t identity of
           Some e \<Rightarrow> Inl (ErrProcessVerification e)
         | None \<Rightarrow> Inr identity)))"

text \<open>Killing what has stopped already is a no-op with a reply of its own.\<close>

definition killStopped :: "coordinator \<Rightarrow> gotime \<Rightarrow> binding \<Rightarrow> container_record \<Rightarrow> kill_result lc" where
  "killStopped c now b r =
    (let p = cr_ContainerAttempt r in
     lc_bind (putNewTerminalOperation c b ResultNoop []) (\<lambda>x.
     lc_bind (containerEvent (or_Operation x) StageComplete ResultNoop now None p
       (details [(''phase'', AttemptPhase_text (at_Phase (ca_Attempt p))), (''plan'', ''not_required'')])) (\<lambda>e.
     lc_bind (observeContainer r e) (\<lambda>r1.
     let identity = (case at_ProcessIdentity (ca_Attempt (cr_ContainerAttempt r1)) of
           None \<Rightarrow> zero_process_identity | Some i \<Rightarrow> i) in
     lc_bind (encodeResponse (kill_response_payload \<lparr>kr_Plan = zero_kill_plan, kr_Actionable = False,
       kr_ProcessIdentity = identity, kr_ContainerAttempt = Some (cr_ContainerAttempt r1)\<rparr>)) (\<lambda>response.
     lc_bind (finalizeOperationResponse x response) (\<lambda>x'.
       lift_res (killResultFromRecord ResolutionNew x')))))))"

definition newKillPlan :: "coordinator \<Rightarrow> gotime \<Rightarrow> binding \<Rightarrow> termination_policy \<Rightarrow> container_record \<Rightarrow> kill_result lc" where
  "newKillPlan c now b policy r =
    (let p = cr_ContainerAttempt r in
     lc_bind (lift_res (map_sum LcDomain id (NewKillPlan policy))) (\<lambda>plan.
     lc_bind (lift_res (verifyKillTarget c (bd_Target b) p)) (\<lambda>identity.
     lc_bind (encodeResponse (kill_response_payload \<lparr>kr_Plan = plan, kr_Actionable = True,
       kr_ProcessIdentity = identity, kr_ContainerAttempt = Some p\<rparr>)) (\<lambda>response.
     lc_bind (putNewActiveOperation c b response) (\<lambda>x.
     lc_bind (containerEvent (or_Operation x) StagePersistIntent ResultPending now None p
       (details [(''phase'', AttemptPhase_text (at_Phase (ca_Attempt p))), (''plan'', ''recorded_not_executed'')])) (\<lambda>e.
     lc_bind (observeContainer r e) (\<lambda>r1.
       Yield (kill_answer ResolutionNew (or_Operation x) b plan identity (cr_ContainerAttempt r1)))))))))"

definition resumeKill :: "coordinator \<Rightarrow> binding \<Rightarrow> container_id \<Rightarrow> operation_record \<Rightarrow> kill_result lc" where
  "resumeKill c b i x =
    lc_bind (lift_res (ActiveKillPolicy (or_Operation x))) (\<lambda>policy.
    lc_bind (lift_res (map_sum LcDomain id (NewKillPlan policy))) (\<lambda>plan.
    lc_bind (getContainer i) (\<lambda>r.
    lc_bind (lift_res (verifyKillTarget c (bd_Target b) (cr_ContainerAttempt r))) (\<lambda>identity.
      Yield (kill_answer ResolutionResume (or_Operation x) b plan identity (cr_ContainerAttempt r))))))"

definition PlanKill :: "coordinator \<Rightarrow> gotime \<Rightarrow> kill_request \<Rightarrow> kill_result command" where
  "PlanKill c now q =
    (let i = kq_ContainerID q in
     require (wrap LcDomain (TerminationPolicy_Validate (kq_Policy q)))
     (bind_res (bindingFor (kq_OperationID q) TypeKill (container_resource i) (killSemantic i (kq_Policy q))) (\<lambda>b. Inr (
      lc_bind (resolveOperation c now b) (\<lambda>resolved.
        case resolved of
          ResolvedNew \<Rightarrow>
            lc_bind (getContainer i) (\<lambda>r.
              if attempt_phase_of r = AttemptStopped then killStopped c now b r
              else newKillPlan c now b (kq_Policy q) r)
        | ResolvedResume x \<Rightarrow> resumeKill c b i x
        | ResolvedReplay x \<Rightarrow> lift_res (killResultFromRecord ResolutionReplay x))))))"

definition concludeKill :: "operation_record \<Rightarrow> kill_response \<Rightarrow> verification \<Rightarrow> container_record \<Rightarrow> kill_result lc" where
  "concludeKill x prior v r =
    lc_bind (containerEvent (or_Operation x) StageComplete ResultSucceeded (vf_ObservedAt v) (vf_Duration v)
      (cr_ContainerAttempt r) (verification_payload v)) (\<lambda>e.
    lc_bind (observeContainer r e) (\<lambda>r'.
    lc_bind (encodeResponse (kill_response_payload \<lparr>kr_Plan = kr_Plan prior, kr_Actionable = False,
      kr_ProcessIdentity = kr_ProcessIdentity prior, kr_ContainerAttempt = Some (cr_ContainerAttempt r')\<rparr>)) (\<lambda>response.
    lc_bind (finalizeOperationResponse x response) (\<lambda>x'.
      lift_res (killResultFromRecord ResolutionResume x')))))"

definition stopKilled :: "operation_record \<Rightarrow> kill_stopped_request \<Rightarrow> kill_result lc" where
  "stopKilled x q =
    check (requireLinuxStage x StageObserveProcess)
    (lc_bind (lift_res (decodeKillResponse (op_Response (or_Operation x)))) (\<lambda>prior.
     lc_bind (getContainer (ks_ContainerID q)) (\<lambda>r.
     check (reject (attempt_phase_of r \<noteq> AttemptRunning) attempt_precondition)
     (lc_bind (changed (Pair_SetConditions (cr_ContainerAttempt r) (ks_Conditions q))) (\<lambda>p1.
      lc_bind (changed (Pair_Transition p1 AttemptStopped (ks_Outcome q))) (\<lambda>p2.
      lc_bind (putContainer (r\<lparr>cr_ContainerAttempt := p2\<rparr>) (cr_Revision r)) (\<lambda>r1.
      lc_bind (completeOperation x ResultSucceeded []) (\<lambda>x1.
        concludeKill x1 prior (ks_Verification q) r1))))))))"

definition RecordKillStopped :: "coordinator \<Rightarrow> gotime \<Rightarrow> kill_stopped_request \<Rightarrow> kill_result command" where
  "RecordKillStopped c now q =
    require (validateFor (ks_Verification q) VerificationAttemptStopped)
    (require (wrap LcDomain (Outcome_Validate (ks_Outcome q)))
    (bind_res (suppliedBinding (ks_OperationID q) TypeKill (container_resource (ks_ContainerID q)) (ks_Fingerprint q)) (\<lambda>b. Inr (
     lc_bind (resolveOperation c now b) (\<lambda>resolved.
       case resolved of
         ResolvedNew \<Rightarrow> Abort (LcNotFound (ks_OperationID q))
       | ResolvedResume x \<Rightarrow> stopKilled x q
       | ResolvedReplay x \<Rightarrow> lift_res (killResultFromRecord ResolutionReplay x))))))"

subsection \<open>A create that failed\<close>

definition stopFailedContainer :: "operation_record \<Rightarrow> failure \<Rightarrow> verification \<Rightarrow> container_id \<Rightarrow> container_result lc" where
  "stopFailedContainer x f v i =
    lc_bind (getContainer i) (\<lambda>r.
    check (reject (attempt_phase_of r \<noteq> AttemptCreating) attempt_precondition)
    (check (reject (cr_HostResources r \<noteq> []) (LcDomain (NewError CodeFailedPrecondition ''attempt.host_resources'')))
     (lc_bind (changed (Pair_UpsertCondition (cr_ContainerAttempt r)
       \<lparr>cond_Type = ConditionFailure, cond_Reason = Reason_string (fa_Reason f), cond_Message = fa_Message f\<rparr>)) (\<lambda>p1.
      lc_bind (changed (Pair_Transition p1 AttemptStopped NotApplicableOutcome)) (\<lambda>p2.
      lc_bind (putContainer (r\<lparr>cr_ContainerAttempt := p2\<rparr>) (cr_Revision r)) (\<lambda>r1.
      lc_bind (failOperation x (fa_Reason f) []) (\<lambda>x1.
        concludeContainer ResolutionResume x1 ResultFailed (vf_ObservedAt v) (vf_Duration v)
          (failure_payload f v) r1 False)))))))"

definition FailContainerCreateAfterRollback ::
    "coordinator \<Rightarrow> gotime \<Rightarrow> container_failure_request \<Rightarrow> container_result command" where
  "FailContainerCreateAfterRollback c now q =
    require (Failure_Validate (yq_Failure q))
    (require (validateFor (yq_Verification q) VerificationAttemptAbsent)
    (bind_res (suppliedBinding (yq_OperationID q) TypeCreate (container_resource (yq_ContainerID q)) (yq_Fingerprint q)) (\<lambda>b. Inr (
     lc_bind (resolveOperation c now b) (\<lambda>resolved.
       case resolved of
         ResolvedNew \<Rightarrow> Abort (LcNotFound (yq_OperationID q))
       | ResolvedResume x \<Rightarrow> stopFailedContainer x (yq_Failure q) (yq_Verification q) (yq_ContainerID q)
       | ResolvedReplay x \<Rightarrow> lift_res (containerResultFromRecord ResolutionReplay x))))))"

subsection \<open>All of them\<close>

datatype container_request =
    ContainerBeginCreate container_create_request
  | ContainerConfirmCreate container_confirm_request
  | ContainerBeginStart container_action_request
  | ContainerConfirmStart container_confirm_request
  | ContainerBeginDelete container_action_request
  | ContainerConfirmDelete container_confirm_request
  | ContainerBeginRecordStopped record_stopped_request
  | ContainerRecordStopped record_stopped_request
  | ContainerStartTerminal start_terminal_request
  | ContainerFailCreate container_failure_request

fun container_command :: "coordinator \<Rightarrow> gotime \<Rightarrow> container_request \<Rightarrow> container_result command" where
  "container_command c now (ContainerBeginCreate q) = BeginContainerCreate c now q"
| "container_command c now (ContainerConfirmCreate q) = ConfirmContainerCreate c now q"
| "container_command c now (ContainerBeginStart q) = BeginContainerStart c now q"
| "container_command c now (ContainerConfirmStart q) = ConfirmContainerStart c now q"
| "container_command c now (ContainerBeginDelete q) = BeginContainerDelete c now q"
| "container_command c now (ContainerConfirmDelete q) = ConfirmContainerDelete c now q"
| "container_command c now (ContainerBeginRecordStopped q) = BeginRecordStopped c now q"
| "container_command c now (ContainerRecordStopped q) = RecordStopped c now q"
| "container_command c now (ContainerStartTerminal q) = RecordContainerStartTerminal c now q"
| "container_command c now (ContainerFailCreate q) = FailContainerCreateAfterRollback c now q"

datatype kill_step_request = KillPlan kill_request | KillStopped kill_stopped_request

fun kill_command :: "coordinator \<Rightarrow> gotime \<Rightarrow> kill_step_request \<Rightarrow> kill_result command" where
  "kill_command c now (KillPlan q) = PlanKill c now q"
| "kill_command c now (KillStopped q) = RecordKillStopped c now q"

definition container_call ::
    "coordinator \<Rightarrow> memory_store \<Rightarrow> gotime \<Rightarrow> bool \<Rightarrow> bool \<Rightarrow> container_request
     \<Rightarrow> memory_store \<times> (lc_error + container_result \<times> lc_error option)" where
  "container_call c s now cancelled cancelled_after q =
    (case submit s cancelled cancelled_after (container_command c now q) of (s', r) \<Rightarrow> (s', finishContainerResult r))"

definition kill_call ::
    "coordinator \<Rightarrow> memory_store \<Rightarrow> gotime \<Rightarrow> bool \<Rightarrow> bool \<Rightarrow> kill_step_request
     \<Rightarrow> memory_store \<times> (lc_error + kill_result \<times> lc_error option)" where
  "kill_call c s now cancelled cancelled_after q =
    (case submit s cancelled cancelled_after (kill_command c now q) of (s', r) \<Rightarrow> (s', finishKillResult r))"

end
