(* ===== verification/Lifecycle_Checkpoint.thy ===== *)
theory Lifecycle_Checkpoint
  imports Lifecycle_Container Provider_Observation
begin

text \<open>
  \<open>internal/lifecycle/checkpoint.go\<close>, \<open>reconcile.go\<close> and \<open>query.go\<close>: the progress that a provider
  records between the two phases of a command, the conditions that recovery sets and clears, the
  failure of an operation that cannot go on, and the read-only queries.
\<close>

record checkpoint_request =
  kc_OperationID :: operation_id
  kc_Target :: target
  kc_Fingerprint :: fingerprint
  kc_Stage :: stage
  kc_RollbackCause :: "rb_cause option"
  kc_OOMBaseline :: "oom_snapshot option"
  kc_KillEscalationDeadline :: "gotime option"
  kc_Rollback :: "rb_record slice"
  kc_Receipts :: "receipt slice"
  kc_Releases :: "release slice"
  kc_OccurredAt :: gotime
  kc_Duration :: "duration option"
  kc_Details :: payload
  kc_UpsertCondition :: "condition option"
  kc_ClearCondition :: string

subsection \<open>Checking a checkpoint\<close>

fun checkpoint_rollback_error :: "string list \<Rightarrow> rb_record list \<Rightarrow> lc_error option" where
  "checkpoint_rollback_error seen [] = None"
| "checkpoint_rollback_error seen (r # rs) =
    (case Record_Validate r of
       Some e \<Rightarrow> Some (LcRollback e)
     | None \<Rightarrow>
       if rd_Name (rr_Descriptor r) \<in> set seen then Some (LcInvalid ''rollback record duplicates name'')
       else (case ReceiptFromDescriptor (rr_Descriptor r) of
          Inl e \<Rightarrow> Some (LcOwnership e)
        | Inr _ \<Rightarrow> checkpoint_rollback_error (rd_Name (rr_Descriptor r) # seen) rs))"

definition checkpoint_receipt_error :: "checkpoint_request \<Rightarrow> receipt \<Rightarrow> lc_error option" where
  "checkpoint_receipt_error q r =
    first_err
     [wrap LcOwnership (Receipt_Validate r),
      reject (ok_OperationID (rt_Owner r) \<noteq> kc_OperationID q \<or> ok_Target (rt_Owner r) \<noteq> kc_Target q)
        (LcInvalid ''receipt binding'')]"

definition checkpoint_release_error :: "checkpoint_request \<Rightarrow> release \<Rightarrow> lc_error option" where
  "checkpoint_release_error q r =
    first_err
     [wrap LcOwnership (Release_Validate r),
      reject (rl_CleanupOperationID r \<noteq> kc_OperationID q \<or> ok_Target (rt_Owner (rl_Resource r)) \<noteq> kc_Target q)
        (LcInvalid ''release binding'')]"

definition release_key :: "release \<Rightarrow> string" where
  "release_key r =
    Provider_string (rt_Provider (rl_Resource r)) @ [CHR 0x00] @ Kind_string (rt_Kind (rl_Resource r))"

definition checkpoint_identity_error :: "checkpoint_request \<Rightarrow> lc_error option" where
  "checkpoint_identity_error q =
    first_err
     [wrap LcOperation (OperationID_Validate (kc_OperationID q)),
      wrap LcOperation (Target_Validate (kc_Target q)),
      wrap LcOperation (Fingerprint_Validate (kc_Fingerprint q)),
      reject (\<not> Stage_Valid (kc_Stage q)) (LcInvalid ''checkpoint stage''),
      reject (kc_Stage q \<in> {StageValidate, StagePersistIntent, StageComplete}) (LcInvalid ''checkpoint stage''),
      (case kc_Duration q of None \<Rightarrow> None | Some d \<Rightarrow> wrap LcOperation (Duration_Validate d)),
      reject (kc_UpsertCondition q \<noteq> None \<and> kc_ClearCondition q \<noteq> []) (LcInvalid ''condition''),
      (case kc_UpsertCondition q of None \<Rightarrow> None | Some c \<Rightarrow> wrap LcDomain (Condition_Validate c))]"

definition checkpoint_evidence_error :: "checkpoint_request \<Rightarrow> lc_error option" where
  "checkpoint_evidence_error q =
    first_err
     [(case kc_RollbackCause q of
         None \<Rightarrow> None
       | Some cause \<Rightarrow> first_err
          [wrap LcRollback (Cause_Validate cause),
           reject (kc_Stage q \<noteq> StageRollback) (LcInvalid ''rollback cause'')]),
      (case kc_OOMBaseline q of
         None \<Rightarrow> None
       | Some b \<Rightarrow> first_err
          [wrap LcProvider (OOMSnapshot_Validate b),
           reject (tg_Kind (kc_Target q) \<noteq> TargetContainer
               \<or> kc_Stage q \<noteq> StageAttachCgroup \<and> kc_Stage q \<noteq> StageRollback) (LcInvalid ''OOM baseline'')]),
      (case kc_KillEscalationDeadline q of
         None \<Rightarrow> None
       | Some t \<Rightarrow> first_err
          [reject (time_IsZero t) (LcInvalid ''Kill escalation deadline''),
           reject (tg_Kind (kc_Target q) \<noteq> TargetContainer
               \<or> kc_Stage q \<noteq> StageSignalProcess \<and> kc_Stage q \<noteq> StageObserveProcess)
             (LcInvalid ''Kill escalation deadline'')]),
      reject (kc_Stage q = StageRollback \<and> kc_RollbackCause q = None) (LcInvalid ''rollback stage'')]"

definition checkpoint_journal_error :: "checkpoint_request \<Rightarrow> lc_error option" where
  "checkpoint_journal_error q =
    first_err
     [checkpoint_rollback_error [] (elems (kc_Rollback q)),
      indexed_errs (\<lambda>_. checkpoint_receipt_error q) 0 (elems (kc_Receipts q)),
      dup_errs release_key (\<lambda>_. checkpoint_release_error q) (\<lambda>_. LcInvalid ''release duplicates provider/kind'') 0 []
        (elems (kc_Releases q)),
      reject (elems (kc_Releases q) \<noteq> []
          \<and> kc_Stage q \<notin> {StageTeardown, StageTransition, StagePersistState, StagePersistResult, StageRollback})
        (LcInvalid ''ownership releases'')]"

definition validateCheckpointRequest :: "checkpoint_request \<Rightarrow> lc_error option" where
  "validateCheckpointRequest q =
    first_err [checkpoint_identity_error q, checkpoint_evidence_error q, checkpoint_journal_error q]"

text \<open>A Linux start has to pass through attachment, gate release and observation.\<close>

definition validateLinuxCheckpointAdvance :: "operation_record \<Rightarrow> stage \<Rightarrow> lc_error option" where
  "validateLinuxCheckpointAdvance r requested =
    (let stage = op_Stage (or_Operation r);
         current = lifecycleStageRank stage; next_rank = lifecycleStageRank requested;
         attach = lifecycleStageRank StageAttachCgroup; release = lifecycleStageRank StageReleaseStartGate;
         observe = lifecycleStageRank StageObserveProcess
     in if or_HostProfile r \<noteq> HostProfileLinuxM2 \<or> op_Type (or_Operation r) \<noteq> TypeStart \<or> stage = requested then None
        else reject
          (current < attach \<and> attach < next_rank
           \<or> current = attach \<and> attach < next_rank \<and> requested \<noteq> StageReleaseStartGate
           \<or> release \<le> current \<and> current < observe \<and> release < next_rank \<and> requested \<noteq> StageObserveProcess)
          (LcDomain (NewError CodeFailedPrecondition ''operation.stage'')))"

subsection \<open>Storing a checkpoint\<close>

definition checkpoint_timesEqual :: "gotime option \<Rightarrow> gotime option \<Rightarrow> bool" where
  "checkpoint_timesEqual left right =
    (case (left, right) of (Some a, Some b) \<Rightarrow> time_Equal a b | _ \<Rightarrow> left = None \<and> right = None)"

definition same_checkpoint :: "operation_record \<Rightarrow> checkpoint_request \<Rightarrow> bool" where
  "same_checkpoint r q \<longleftrightarrow>
     op_Stage (or_Operation r) = kc_Stage q \<and> or_RollbackCause r = kc_RollbackCause q
     \<and> or_OOMBaseline r = kc_OOMBaseline q
     \<and> checkpoint_timesEqual (or_KillEscalationDeadline r) (kc_KillEscalationDeadline q)
     \<and> or_Rollback r = kc_Rollback q \<and> or_Receipts r = kc_Receipts q \<and> or_Releases r = kc_Releases q
     \<and> kc_UpsertCondition q = None \<and> kc_ClearCondition q = []"

definition checkpointed :: "operation_record \<Rightarrow> checkpoint_request \<Rightarrow> operation_record" where
  "checkpointed r q =
    r\<lparr>or_Operation := (or_Operation r)\<lparr>op_Stage := kc_Stage q\<rparr>, or_RollbackCause := kc_RollbackCause q,
      or_OOMBaseline := kc_OOMBaseline q, or_KillEscalationDeadline := kc_KillEscalationDeadline q,
      or_Rollback := kc_Rollback q, or_Receipts := kc_Receipts q, or_Releases := kc_Releases q\<rparr>"

definition conditionSandbox :: "sandbox \<Rightarrow> condition option \<Rightarrow> string \<Rightarrow> sandbox lc" where
  "conditionSandbox s upsert clear =
    changed (case upsert of Some c \<Rightarrow> Sandbox_UpsertCondition s c | None \<Rightarrow> Sandbox_ClearCondition s clear)"

definition conditionPair :: "container_attempt \<Rightarrow> condition option \<Rightarrow> string \<Rightarrow> container_attempt lc" where
  "conditionPair p upsert clear =
    changed (case upsert of Some c \<Rightarrow> Pair_UpsertCondition p c | None \<Rightarrow> Pair_ClearCondition p clear)"

definition applyCheckpointCondition :: "target \<Rightarrow> condition option \<Rightarrow> string \<Rightarrow> unit lc" where
  "applyCheckpointCondition t upsert clear =
    (if upsert = None \<and> clear = [] then Yield ()
     else case tg_Kind t of
       TargetSandbox \<Rightarrow>
         lc_bind (getSandbox (tg_ID t)) (\<lambda>r.
         lc_bind (conditionSandbox (sr_Sandbox r) upsert clear) (\<lambda>s.
         lc_bind (putSandbox (r\<lparr>sr_Sandbox := s\<rparr>) (sr_Revision r)) (\<lambda>_. Yield ())))
     | TargetContainer \<Rightarrow>
         lc_bind (getContainer (tg_ID t)) (\<lambda>r.
         lc_bind (conditionPair (cr_ContainerAttempt r) upsert clear) (\<lambda>p.
         lc_bind (putContainer (r\<lparr>cr_ContainerAttempt := p\<rparr>) (cr_Revision r)) (\<lambda>_. Yield ())))
     | _ \<Rightarrow> Abort (LcInvalid ''condition target''))"

definition or_now :: "gotime \<Rightarrow> gotime \<Rightarrow> gotime" where
  "or_now t now = (if time_IsZero t then now else t)"

definition storeCheckpoint :: "gotime \<Rightarrow> checkpoint_request \<Rightarrow> operation_record \<Rightarrow> (operation \<times> bool) lc" where
  "storeCheckpoint now q r =
    check (validateLinuxCheckpointAdvance r (kc_Stage q))
    (lc_bind (putOperation (checkpointed r q) (or_Revision r)) (\<lambda>x.
     lc_bind (applyCheckpointCondition (kc_Target q) (kc_UpsertCondition q) (kc_ClearCondition q)) (\<lambda>_.
     lc_bind (eventResourceState (kc_Target q)) (\<lambda>(resources, g, ob).
     lc_bind (appendOperationEvent (or_Operation x) (kc_Stage q) ResultPending (or_now (kc_OccurredAt q) now)
       (kc_Duration q) g ob (kc_Details q) resources) (\<lambda>e.
     lc_bind (observeEventTarget (kc_Target q) e) (\<lambda>_.
       Yield (or_Operation x, True)))))))"

definition CheckpointOperation :: "gotime \<Rightarrow> checkpoint_request \<Rightarrow> (operation \<times> bool) command" where
  "CheckpointOperation now q =
    require (validateCheckpointRequest q)
     (Inr (lc_bind (getOperation (kc_OperationID q)) (\<lambda>r.
      case Resolve (Some (or_Operation r))
          \<lparr>bd_ID = kc_OperationID q, bd_Type = op_Type (or_Operation r), bd_Target = kc_Target q,
           bd_Fingerprint = kc_Fingerprint q\<rparr> of
        Inl e \<Rightarrow> Abort (LcOperation e)
      | Inr resolution \<Rightarrow>
        if resolution = ResolutionReplay \<or> same_checkpoint r q then Yield (or_Operation r, False)
        else storeCheckpoint now q r)))"

definition GetOperationProgress :: "operation_id \<Rightarrow> operation_record command" where
  "GetOperationProgress i =
    require (wrap LcOperation (OperationID_Validate i)) (Inr (getOperation i))"

definition IsCheckpointNotFound :: "lc_error \<Rightarrow> bool" where
  "IsCheckpointNotFound e = is_not_found e"

subsection \<open>Reconciled conditions\<close>

record reconcile_request =
  rq_OperationID :: operation_id
  rq_Target :: target
  rq_Condition :: "condition option"
  rq_Clear :: string
  rq_Evidence :: string
  rq_ObservedAt :: gotime

record reconcile_result =
  rs_Operation :: operation
  rs_Sandbox :: "sandbox option"
  rs_ContainerAttempt :: "container_attempt option"

definition ReconcileConditionRequest_payload :: "reconcile_request \<Rightarrow> payload" where
  "ReconcileConditionRequest_payload q =
    reconcileConditionSemantic (rq_Target q) (rq_Condition q) (rq_Clear q) (rq_Evidence q)"

definition ReconcileConditionRequest_fingerprint :: "reconcile_request \<Rightarrow> lc_error + fingerprint" where
  "ReconcileConditionRequest_fingerprint q = request_fingerprint (ReconcileConditionRequest_payload q)"

definition target_kind_error :: lc_error where
  "target_kind_error = LcDomain (NewError CodeInvalidArgument ''target.kind'')"

definition validateReconcileConditionRequest :: "reconcile_request \<Rightarrow> lc_error option" where
  "validateReconcileConditionRequest q =
    first_err
     [wrap LcOperation (OperationID_Validate (rq_OperationID q)),
      wrap LcOperation (Target_Validate (rq_Target q)),
      reject (tg_Kind (rq_Target q) \<noteq> TargetSandbox \<and> tg_Kind (rq_Target q) \<noteq> TargetContainer) target_kind_error,
      reject ((rq_Condition q = None) = (rq_Clear q = [])) (LcDomain (NewError CodeInvalidArgument ''condition'')),
      (case rq_Condition q of None \<Rightarrow> None | Some c \<Rightarrow> wrap LcDomain (Condition_Validate c)),
      reject (rq_Evidence q = []) (LcDomain (NewError CodeInvalidArgument ''evidence''))]"

definition decodeReconcileResponse :: "string \<Rightarrow> target \<Rightarrow> lc_error + reconcile_response" where
  "decodeReconcileResponse encoded t =
    (if encoded = [] then Inl (LcInvalid ''no replay response'')
     else bind_res (map_sum LcDecode id (strict_decode reconcile_response_schema reconcile_response_of encoded)) (\<lambda>r.
       case tg_Kind t of
         TargetSandbox \<Rightarrow>
           (case (rp_Sandbox r, rp_ContainerAttempt r) of
              (Some s, None) \<Rightarrow>
                require (first_err [wrap LcDomain (Sandbox_Validate s),
                    reject (sb_ID s \<noteq> tg_ID t) (LcInvalid ''replay target'')]) (Inr r)
            | _ \<Rightarrow> Inl (LcInvalid ''only one Sandbox''))
       | TargetContainer \<Rightarrow>
           (case (rp_Sandbox r, rp_ContainerAttempt r) of
              (None, Some p) \<Rightarrow>
                require (first_err [wrap LcDomain (ContainerAttempt_Validate p),
                    reject (co_ID (ca_Container p) \<noteq> tg_ID t) (LcInvalid ''replay target'')]) (Inr r)
            | _ \<Rightarrow> Inl (LcInvalid ''only one Container Attempt''))
       | _ \<Rightarrow> Inl (LcInvalid ''replay target kind'')))"

definition reconciliationResourceResponse :: "target \<Rightarrow> reconcile_response lc" where
  "reconciliationResourceResponse t =
    (case tg_Kind t of
       TargetSandbox \<Rightarrow>
         lc_bind (getSandbox (tg_ID t)) (\<lambda>r. Yield \<lparr>rp_Sandbox = Some (sr_Sandbox r), rp_ContainerAttempt = None\<rparr>)
     | TargetContainer \<Rightarrow>
         lc_bind (getContainer (tg_ID t)) (\<lambda>r.
           Yield \<lparr>rp_Sandbox = None, rp_ContainerAttempt = Some (cr_ContainerAttempt r)\<rparr>)
     | _ \<Rightarrow> Abort target_kind_error)"

text \<open>The condition is written first; what it yields identifies the event.\<close>

definition reconcileResource :: "target \<Rightarrow> condition option \<Rightarrow> string \<Rightarrow> (target list \<times> generation \<times> generation) lc" where
  "reconcileResource t upsert clear =
    (case tg_Kind t of
       TargetSandbox \<Rightarrow>
         lc_bind (getSandbox (tg_ID t)) (\<lambda>r.
         lc_bind (conditionSandbox (sr_Sandbox r) upsert clear) (\<lambda>s.
         lc_bind (putSandbox (r\<lparr>sr_Sandbox := s\<rparr>) (sr_Revision r)) (\<lambda>r1.
           Yield ([t], ss_Generation (sb_Status (sr_Sandbox r1)), ss_ObservedGeneration (sb_Status (sr_Sandbox r1))))))
     | TargetContainer \<Rightarrow>
         lc_bind (getContainer (tg_ID t)) (\<lambda>r.
         lc_bind (conditionPair (cr_ContainerAttempt r) upsert clear) (\<lambda>p.
         lc_bind (putContainer (r\<lparr>cr_ContainerAttempt := p\<rparr>) (cr_Revision r)) (\<lambda>r1.
           let p' = cr_ContainerAttempt r1; st = co_Status (ca_Container p')
           in Yield (containerEventResources p', ct_Generation st, ct_ObservedGeneration st))))
     | _ \<Rightarrow> Abort target_kind_error)"

definition reconcileNew :: "coordinator \<Rightarrow> gotime \<Rightarrow> binding \<Rightarrow> reconcile_request \<Rightarrow> reconcile_result lc" where
  "reconcileNew c now b q =
    (let t = rq_Target q in
     lc_bind (reconcileResource t (rq_Condition q) (rq_Clear q)) (\<lambda>(resources, g, ob).
     lc_bind (putNewTerminalOperation c b ResultSucceeded []) (\<lambda>x.
     lc_bind (appendOperationEvent (or_Operation x) StageComplete ResultSucceeded (or_now (rq_ObservedAt q) now)
       None g ob (ReconcileConditionRequest_payload q) resources) (\<lambda>e.
     lc_bind (observeEventTarget t e) (\<lambda>_.
     lc_bind (reconciliationResourceResponse t) (\<lambda>r.
     lc_bind (encodeResponse (reconcile_response_payload r)) (\<lambda>response.
     lc_bind (finalizeOperationResponse x response) (\<lambda>x'.
       Yield \<lparr>rs_Operation = or_Operation x', rs_Sandbox = rp_Sandbox r,
         rs_ContainerAttempt = rp_ContainerAttempt r\<rparr>))))))))"

definition ReconcileCondition :: "coordinator \<Rightarrow> gotime \<Rightarrow> reconcile_request \<Rightarrow> reconcile_result command" where
  "ReconcileCondition c now q =
    (let t = rq_Target q in
     require (validateReconcileConditionRequest q)
     (bind_res (ReconcileConditionRequest_fingerprint q) (\<lambda>f.
      bind_res (suppliedBinding (rq_OperationID q) TypeState t f) (\<lambda>b. Inr (
      lc_bind (resolveOperation c now b) (\<lambda>resolved.
        case resolved of
          ResolvedReplay x \<Rightarrow>
            lc_bind (lift_res (decodeReconcileResponse (op_Response (or_Operation x)) t)) (\<lambda>r.
              Yield \<lparr>rs_Operation = or_Operation x, rs_Sandbox = rp_Sandbox r,
                rs_ContainerAttempt = rp_ContainerAttempt r\<rparr>)
        | ResolvedResume _ \<Rightarrow> Abort (LcInvalid ''resolved as active'')
        | ResolvedNew \<Rightarrow> reconcileNew c now b q))))))"

subsection \<open>Failing an active operation\<close>

record fail_request =
  fq_OperationID :: operation_id
  fq_Target :: target
  fq_Fingerprint :: fingerprint
  fq_Failure :: failure
  fq_Condition :: condition
  fq_ObservedAt :: gotime

text \<open>An unsupported kind of target is a plain error here, and a domain error in reconciliation.\<close>

definition updateFailureResourceCondition ::
    "target \<Rightarrow> condition \<Rightarrow> (target list \<times> generation \<times> generation) lc" where
  "updateFailureResourceCondition t c =
    (if tg_Kind t = TargetSandbox \<or> tg_Kind t = TargetContainer then reconcileResource t (Some c) []
     else Abort (LcInvalid ''failure target kind''))"

definition failureResourceResponse :: "target \<Rightarrow> string lc" where
  "failureResourceResponse t =
    (case tg_Kind t of
       TargetSandbox \<Rightarrow>
         lc_bind (getSandbox (tg_ID t)) (\<lambda>r.
           encodeResponse (sandbox_response_payload \<lparr>sp_Sandbox = Some (sr_Sandbox r), sp_Removed = False\<rparr>))
     | TargetContainer \<Rightarrow>
         lc_bind (getContainer (tg_ID t)) (\<lambda>r.
           encodeResponse (container_response_payload
             \<lparr>cp_ContainerAttempt = Some (cr_ContainerAttempt r), cp_HostBinding = None, cp_Removed = False\<rparr>))
     | _ \<Rightarrow> Abort (LcInvalid ''failure target kind''))"

definition failure_details :: "failure \<Rightarrow> payload" where
  "failure_details f = plain_payload (failure_json f)"

definition failActive :: "gotime \<Rightarrow> fail_request \<Rightarrow> operation_record \<Rightarrow> operation lc" where
  "failActive now q r =
    (let t = fq_Target q in
     check (reject (op_Type (or_Operation r) = TypeCreate) (LcDomain (NewError CodeFailedPrecondition ''operation.type'')))
     (lc_bind (updateFailureResourceCondition t (fq_Condition q)) (\<lambda>(resources, g, ob).
      lc_bind (failOperation r (fa_Reason (fq_Failure q)) []) (\<lambda>x.
      lc_bind (appendOperationEvent (or_Operation x) StageComplete ResultFailed (or_now (fq_ObservedAt q) now)
        None g ob (failure_details (fq_Failure q)) resources) (\<lambda>e.
      lc_bind (observeEventTarget t e) (\<lambda>_.
      lc_bind (failureResourceResponse t) (\<lambda>response.
      lc_bind (finalizeOperationResponse x response) (\<lambda>x'.
        Yield (or_Operation x')))))))))"

definition FailActiveOperation :: "coordinator \<Rightarrow> gotime \<Rightarrow> fail_request \<Rightarrow> operation command" where
  "FailActiveOperation c now q =
    (let t = fq_Target q in
     require (first_err
       [wrap LcOperation (OperationID_Validate (fq_OperationID q)),
        wrap LcOperation (Target_Validate t),
        wrap LcOperation (Fingerprint_Validate (fq_Fingerprint q)),
        Failure_Validate (fq_Failure q),
        wrap LcDomain (Condition_Validate (fq_Condition q))])
     (Inr (
      lc_bind (getOperation (fq_OperationID q)) (\<lambda>r.
      lc_bind (lift_res (suppliedBinding (fq_OperationID q) (op_Type (or_Operation r)) t (fq_Fingerprint q))) (\<lambda>b.
      lc_bind (resolveOperation c now b) (\<lambda>resolved.
        case resolved of
          ResolvedReplay x \<Rightarrow> Yield (or_Operation x)
        | _ \<Rightarrow> failActive now q r))))))"

subsection \<open>Queries\<close>

definition lc_view :: "memory_store \<Rightarrow> bool \<Rightarrow> 'a lc \<Rightarrow> lc_error + 'a" where
  "lc_view s cancelled p =
    (let ran = run_lc p (store_view s False (ms_data s)) in
     case Store_View s cancelled (Some (callback p)) of
       None \<Rightarrow> snd ran
     | Some e \<Rightarrow> Inl (case (e, snd ran) of (ErrCallback _, Inl e') \<Rightarrow> e' | _ \<Rightarrow> LcStore e))"

definition query_GetSandbox :: "sandbox_id \<Rightarrow> sandbox lc" where
  "query_GetSandbox i = lc_bind (getSandbox i) (\<lambda>r. Yield (sr_Sandbox r))"

definition query_ListSandboxes :: "sandbox list lc" where
  "query_ListSandboxes = lc_bind listSandboxes (\<lambda>rs. Yield (map sr_Sandbox rs))"

definition query_GetContainer :: "container_id \<Rightarrow> container_attempt lc" where
  "query_GetContainer i = lc_bind (getContainer i) (\<lambda>r. Yield (cr_ContainerAttempt r))"

definition query_ListContainers :: "sandbox_id \<Rightarrow> container_attempt list lc" where
  "query_ListContainers i = lc_bind (listContainers i) (\<lambda>rs. Yield (map cr_ContainerAttempt rs))"

definition query_GetOperation :: "operation_id \<Rightarrow> operation lc" where
  "query_GetOperation i = lc_bind (getOperation i) (\<lambda>r. Yield (or_Operation r))"

definition query_ListEvents :: "u64 \<Rightarrow> int \<Rightarrow> event list lc" where
  "query_ListEvents n limit = eventsAfter n limit"

end
