(* ===== verification/State_Settled.thy ===== *)
theory State_Settled
  imports State_Properties
begin

text \<open>
  A committed store is settled: retention has nothing left to do on it and cloning changes nothing,
  so a transaction that only reads leaves the store as it is.
\<close>

subsection \<open>Retention is idempotent\<close>

lemma retirable_complete:
  assumes "list_all (\<lambda>(i, n). n \<noteq> 0 \<and> (\<exists>r. map_of (md_operations d) i = Some r
      \<and> State_Terminal (op_State (or_Operation r)))) ts"
  shows "retirable d pinned ts = Inr (filter (\<lambda>(i, n). i \<notin> set pinned) ts)"
  using assms by (induction ts) auto

lemma missing_orders_complete:
  assumes "list_all (\<lambda>(i, r). if State_Terminal (op_State (or_Operation r))
      then map_of t i \<noteq> None \<and> map_of t i \<noteq> Some 0 else map_of t i = None) rs"
  shows "missing_orders t rs = Inr []"
  using assms by (induction rs) auto

lemma assigned_orders:
  assumes "data_validate d = None"
  shows "assignTerminalSequences (ensureRetentionMaps d) = Inr (d, False)" and "md_firstEvent d \<noteq> 0"
proof -
  have first: "md_firstEvent d \<noteq> 0"
    using assms by (auto simp: data_validate_def suffix_error_def)
  have "\<forall>e \<in> set (md_operations d). terminal_error d e = None"
    using assms by (auto simp: data_validate_def first_err_map_None)
  then have "list_all (\<lambda>(i, r). if State_Terminal (op_State (or_Operation r))
      then map_of (md_terminal d) i \<noteq> None \<and> map_of (md_terminal d) i \<noteq> Some 0
      else map_of (md_terminal d) i = None) (md_operations d)"
    by (fastforce simp: list_all_iff terminal_error_def)
  then show "assignTerminalSequences (ensureRetentionMaps d) = Inr (d, False)"
    using first missing_orders_complete by (simp add: assignTerminalSequences_def ensureRetentionMaps_def)
  show "md_firstEvent d \<noteq> 0" by (fact first)
qed

lemma trim_settled:
  assumes "int (length (md_events d)) \<le> EventLimit p" and "md_firstEvent d = nextAvailableEventSequence d"
  shows "trim_events p d = (d, False)"
  using assms by (simp add: trim_events_def)

lemma kept_orders:
  assumes "applyRetention p d = Inr (d', c)"
  shows "retirable d' (liveInventoryOwnerOperations d') (md_terminal d') = Inr (unpinned_terminal d')"
proof -
  from assms obtain d1 c1 ts d2 where s:
    "retirable d1 (liveInventoryOwnerOperations d1) (md_terminal d1) = Inr ts"
    "retire_all d1 (retired_first p ts) = Inr d2" "d' = fst (trim_events p d2)"
    by (rule applyRetention_Inr)
  have "list_all (\<lambda>(i, n). n \<noteq> 0 \<and> (\<exists>r. map_of (md_operations d') i = Some r
      \<and> State_Terminal (op_State (or_Operation r)))) (md_terminal d')"
    using retirable_Inr [OF s(1)] retire_all_terminal [OF s(2)] retire_all_operations [OF s(2)]
    by (auto simp: s(3) trim_events_frame list_all_iff restrict_map_def)
  from retirable_complete [OF this] show ?thesis by (simp add: unpinned_terminal_def)
qed

lemma retention_settled:
  assumes "applyRetention p d = Inr (d', c)" and "wf_table (md_terminal d)" and "wf_table (md_operations d)"
    and "data_validate d' = None"
  shows "applyRetention p d' = Inr (d', False)"
proof -
  from assms(1) have policy: "RetentionPolicy_Validate p = None" by (rule applyRetention_Inr)
  have "retired_first p (unpinned_terminal d') = []"
    using applyRetention_window(1) [OF assms(1,2)] by (simp add: retired_first_def)
  moreover have "trim_events p d' = (d', False)"
    by (rule trim_settled [OF applyRetention_frame(7,5) [OF assms(1)]])
  moreover have "\<not> OperationIdentityLimit p < int (length (md_operations d') + length (md_retired d'))"
    using applyRetention_count [OF assms(1,3)] by simp
  ultimately have "retain_ordered p d' False = Inr (d', False)"
    using kept_orders [OF assms(1)] by (simp add: retain_ordered_def)
  then show ?thesis
    using assigned_orders(1) [OF assms(4)] policy by (simp add: applyRetention_def)
qed

subsection \<open>Stored operations are clones\<close>

definition settled_tables :: "memory_data \<Rightarrow> bool" where
  "settled_tables d \<longleftrightarrow>
     wf_table (md_operations d) \<and> wf_table (md_terminal d)
     \<and> (\<forall>i r. map_of (md_operations d) i = Some r \<longrightarrow> OperationRecord_Clone r = r)"

lemma retire_all_tables:
  assumes "applyRetention p d = Inr (d', c)" and "wf_table (md_terminal d)"
  shows "wf_table (md_terminal d')"
proof -
  from assms(1) obtain d1 c1 ts d2 where s:
    "assignTerminalSequences (ensureRetentionMaps d) = Inr (d1, c1)"
    "retire_all d1 (retired_first p ts) = Inr d2" "d' = fst (trim_events p d2)"
    by (rule applyRetention_Inr)
  then show ?thesis
    using assms(2) assignTerminalSequences_frame(8) [OF s(1)] retire_all_wf [OF s(2)]
    by (simp add: trim_events_frame)
qed

interpretation clones: data_invariant settled_tables
proof unfold_locales
  fix v x e v' x' assume "settled_tables (mv_data v)" and put: "PutOperation v x e = Inr (v', x')"
  moreover have "OperationRecord_Clone x' = x'"
  proof -
    from put have "x' = (OperationRecord_Clone x)\<lparr>or_Revision := or_Revision x'\<rparr>"
      unfolding PutOperation_Inr Let_def by blast
    moreover have "OperationRecord_Clone ((OperationRecord_Clone x)\<lparr>or_Revision := n\<rparr>)
        = (OperationRecord_Clone x)\<lparr>or_Revision := n\<rparr>" for n
      by (simp add: OperationRecord_Clone_def)
    ultimately show ?thesis by metis
  qed
  moreover have "mv_data v' = (mv_data v)\<lparr>md_operations :=
      AList.update (op_ID (or_Operation x)) x' (md_operations (mv_data v))\<rparr>"
    using put unfolding PutOperation_Inr Let_def by auto
  ultimately show "settled_tables (mv_data v')" by (auto simp: settled_tables_def)
next
  fix p d d' c assume "settled_tables d" and ret: "applyRetention p d = Inr (d', c)"
  moreover obtain gone where "map_of (md_operations d') = (map_of (md_operations d)) |` (- gone)"
    by (rule applyRetention_operations [OF ret])
  ultimately show "settled_tables d'"
    using applyRetention_wf [OF ret] retire_all_tables [OF ret]
    by (auto simp: settled_tables_def restrict_map_def split: if_splits)
qed (auto simp: settled_tables_def newMemoryData_def data_clone_def map_of_clone wf_table_def comp_def
    case_prod_beta' PutSandbox_Inr PutContainerAttempt_Inr Let_def dest!: DeleteSandbox_Inr
    DeleteContainerAttempt_Inr AppendEvent_Inr(6))

lemma clone_id: "settled_tables d \<Longrightarrow> data_clone d = d"
proof -
  assume ok: "settled_tables d"
  have "map (\<lambda>(i, r). (i, OperationRecord_Clone r)) (md_operations d) = md_operations d"
    using ok by (intro map_idI) (auto simp: settled_tables_def wf_table_set_iff)
  then show ?thesis by (simp add: data_clone_def)
qed

lemma new_settled: "RetentionPolicy_Validate p = None \<Longrightarrow> applyRetention p newMemoryData = Inr (newMemoryData, False)"
  by (simp add: applyRetention_def RetentionPolicy_Validate_def retain_ordered_def assignTerminalSequences_def
      ensureRetentionMaps_def newMemoryData_def retired_first_def trim_events_def nextAvailableEventSequence_def
      Sequence_Next_def)

lemma reachable_settled:
  "store_reachable s \<Longrightarrow> applyRetention (ms_retention s) (ms_data s) = Inr (ms_data s, False)"
proof (induction rule: store_reachable.induct)
  case (new_store p s)
  then show ?case using new_settled by (auto simp: NewMemoryStoreWithRetention_def)
next
  case (update s c1 c2 fn)
  obtain s' e where s': "Store_Update s c1 c2 fn = (s', e)" by (cases "Store_Update s c1 c2 fn")
  show ?case
  proof (cases e)
    case (Some err)
    then show ?thesis using Store_Update_outcome [where s = s and ?c1.0 = c1 and ?c2.0 = c2 and fn = fn] update.IH by (simp add: s')
  next
    case None
    then obtain p v changed where run: "run_tx p (store_view s True (data_clone (ms_data s))) = (v, None)"
      and ret: "applyRetention (ms_retention s) (mv_data v) = Inr (ms_data s', changed)"
      and same: "ms_retention s' = ms_retention s" and ok: "data_validate (ms_data s') = None"
      using Store_Update_outcome [where s = s and ?c1.0 = c1 and ?c2.0 = c2 and fn = fn] s' by auto
    have "settled_tables (mv_data v)"
      using clones.run_keeps [of "store_view s True (data_clone (ms_data s))" p]
        clones.clone [OF clones.reachable [OF update.hyps]] run
      by (simp add: store_view_def)
    then show ?thesis
      using retention_settled [OF ret _ _ ok] by (simp add: s' same settled_tables_def)
  qed
qed

lemma reachable_clone: "store_reachable s \<Longrightarrow> data_clone (ms_data s) = ms_data s"
  by (rule clone_id [OF clones.reachable])

lemma settled_commit: "store_reachable s \<Longrightarrow> commit (ms_retention s) (ms_data s) = Inr (ms_data s)"
  using reachable_settled reachable_valid by (simp add: commit_def)

text \<open>A transaction that ends with the candidate it was given leaves the store as it is.\<close>

lemma reading_update:
  assumes "store_reachable s" and "run_tx p (store_view s True (ms_data s)) = (store_view s True (ms_data s), None)"
  shows "Store_Update s False False (Some p) = (s, None)"
  using assms reachable_clone [OF assms(1)] settled_commit [OF assms(1)]
  by (simp add: Store_Update_def) (simp add: store_view_def)

end
