(* ===== verification/Lifecycle_Effects.thy ===== *)
theory Lifecycle_Effects
  imports Lifecycle_Checkpoint State_Settled
begin

text \<open>
  What the steps of the coordinator do to a candidate. A resource's core is its record without
  revision and last observation; reads, events, observations and writes of operations keep all cores,
  so the cores before and after a command tell what it did.
\<close>

abbreviation sandboxes_of :: "memory_view \<Rightarrow> sandbox_id \<Rightarrow> sandbox_record option" where
  "sandboxes_of v \<equiv> map_of (md_sandboxes (mv_data v))"

abbreviation containers_of :: "memory_view \<Rightarrow> container_id \<Rightarrow> container_record option" where
  "containers_of v \<equiv> map_of (md_containers (mv_data v))"

abbreviation operations_of :: "memory_view \<Rightarrow> operation_id \<Rightarrow> operation_record option" where
  "operations_of v \<equiv> map_of (md_operations (mv_data v))"

definition sandbox_core :: "sandbox_record \<Rightarrow> sandbox \<times> receipt list" where
  "sandbox_core r =
    ((sr_Sandbox r)\<lparr>sb_Status := (sb_Status (sr_Sandbox r))\<lparr>ss_LastObservation := empty_observation\<rparr>\<rparr>,
     sr_HostResources r)"

text \<open>Of a pair the Attempt and the immutable parts count; the Container's status is its projection.\<close>

definition container_core :: "container_record \<Rightarrow> (attempt \<times> container_id \<times> sandbox_id) \<times> receipt list" where
  "container_core r =
    (((ca_Attempt (cr_ContainerAttempt r))\<lparr>at_LastObservation := empty_observation\<rparr>,
      co_ID (ca_Container (cr_ContainerAttempt r)), co_SandboxID (ca_Container (cr_ContainerAttempt r))),
     cr_HostResources r)"

definition sandbox_cores :: "memory_view \<Rightarrow> sandbox_id \<Rightarrow> (sandbox \<times> receipt list) option" where
  "sandbox_cores v = map_option sandbox_core \<circ> sandboxes_of v"

definition container_cores ::
    "memory_view \<Rightarrow> container_id \<Rightarrow> ((attempt \<times> container_id \<times> sandbox_id) \<times> receipt list) option" where
  "container_cores v = map_option container_core \<circ> containers_of v"

lemmas cores_def = sandbox_cores_def container_cores_def

lemma map_option_update: "map_option f \<circ> (m(k \<mapsto> x)) = (map_option f \<circ> m)(k \<mapsto> f x)"
  by (auto simp: fun_eq_iff)

lemma map_option_delete: "map_option f \<circ> (m(k := None)) = (map_option f \<circ> m)(k := None)"
  by (auto simp: fun_eq_iff)

lemma sandbox_core_revision [simp]: "sandbox_core (r\<lparr>sr_Revision := n\<rparr>) = sandbox_core r"
  by (simp add: sandbox_core_def)

lemma container_core_revision [simp]: "container_core (r\<lparr>cr_Revision := n\<rparr>) = container_core r"
  by (simp add: container_core_def)

subsection \<open>Writes\<close>

lemma putSandbox_effect:
  assumes "run_lc (putSandbox r e) v = (v', Inr r')"
  shows "sandboxes_of v' = (sandboxes_of v)(sb_ID (sr_Sandbox r) \<mapsto> r')"
    and "containers_of v' = containers_of v" and "operations_of v' = operations_of v"
    and "sr_Sandbox r' = sr_Sandbox r" and "sr_HostResources r' = sr_HostResources r"
    and "sandbox_core r' = sandbox_core r"
proof -
  from assms have put: "PutSandbox v r e = Inr (v', r')" by (simp add: tx_run)
  then have eq: "r' = r\<lparr>sr_Revision := sr_Revision r'\<rparr>" and v': "v' = v\<lparr>mv_data :=
      (mv_data v)\<lparr>md_sandboxes := AList.update (sb_ID (sr_Sandbox r)) r' (md_sandboxes (mv_data v))\<rparr>\<rparr>"
    unfolding PutSandbox_Inr Let_def by blast+
  show "sandboxes_of v' = (sandboxes_of v)(sb_ID (sr_Sandbox r) \<mapsto> r')"
    "containers_of v' = containers_of v" "operations_of v' = operations_of v"
    by (simp_all add: v')
  show "sr_Sandbox r' = sr_Sandbox r" "sr_HostResources r' = sr_HostResources r"
    "sandbox_core r' = sandbox_core r"
    using arg_cong [OF eq, of sr_Sandbox] arg_cong [OF eq, of sr_HostResources] arg_cong [OF eq, of sandbox_core]
    by simp_all
qed

lemma putContainer_effect:
  assumes "run_lc (putContainer r e) v = (v', Inr r')"
  shows "containers_of v' = (containers_of v)(co_ID (ca_Container (cr_ContainerAttempt r)) \<mapsto> r')"
    and "sandboxes_of v' = sandboxes_of v" and "operations_of v' = operations_of v"
    and "cr_ContainerAttempt r' = cr_ContainerAttempt r" and "cr_HostResources r' = cr_HostResources r"
    and "container_core r' = container_core r"
proof -
  from assms have put: "PutContainerAttempt v r e = Inr (v', r')" by (simp add: tx_run)
  then have eq: "r' = r\<lparr>cr_Revision := cr_Revision r'\<rparr>" and v': "v' = v\<lparr>mv_data :=
      (mv_data v)\<lparr>md_containers :=
        AList.update (co_ID (ca_Container (cr_ContainerAttempt r))) r' (md_containers (mv_data v))\<rparr>\<rparr>"
    unfolding PutContainerAttempt_Inr Let_def by blast+
  show "containers_of v' = (containers_of v)(co_ID (ca_Container (cr_ContainerAttempt r)) \<mapsto> r')"
    "sandboxes_of v' = sandboxes_of v" "operations_of v' = operations_of v"
    by (simp_all add: v')
  show "cr_ContainerAttempt r' = cr_ContainerAttempt r" "cr_HostResources r' = cr_HostResources r"
    "container_core r' = container_core r"
    using arg_cong [OF eq, of cr_ContainerAttempt] arg_cong [OF eq, of cr_HostResources]
      arg_cong [OF eq, of container_core]
    by simp_all
qed

lemma cloned_again: "OperationRecord_Clone ((OperationRecord_Clone x)\<lparr>or_Revision := n\<rparr>) = (OperationRecord_Clone x)\<lparr>or_Revision := n\<rparr>"
  by (simp add: OperationRecord_Clone_def)

lemma putOperation_effect:
  assumes "run_lc (putOperation x e) v = (v', Inr x')"
  shows "operations_of v' = (operations_of v)(op_ID (or_Operation x) \<mapsto> x')"
    and "sandboxes_of v' = sandboxes_of v" and "containers_of v' = containers_of v"
    and "or_Operation x' = or_Operation x" and "or_HostProfile x' = or_HostProfile x"
    and "or_Receipts x' = or_Receipts x" and "or_Releases x' = or_Releases x"
    and "OperationRecord_Clone x' = x'" and "validateOperationRecord x' = None"
proof -
  from assms have put: "PutOperation v x e = Inr (v', x')" by (simp add: tx_run)
  then have eq: "x' = (OperationRecord_Clone x)\<lparr>or_Revision := or_Revision x'\<rparr>" and v': "v' = v\<lparr>mv_data :=
      (mv_data v)\<lparr>md_operations := AList.update (op_ID (or_Operation x)) x' (md_operations (mv_data v))\<rparr>\<rparr>"
    unfolding PutOperation_Inr Let_def by blast+
  show "operations_of v' = (operations_of v)(op_ID (or_Operation x) \<mapsto> x')"
    "sandboxes_of v' = sandboxes_of v" "containers_of v' = containers_of v"
    by (simp_all add: v')
  show "or_Operation x' = or_Operation x" "or_HostProfile x' = or_HostProfile x" "or_Receipts x' = or_Receipts x"
    "or_Releases x' = or_Releases x" "OperationRecord_Clone x' = x'"
    using arg_cong [OF eq, of or_Operation] arg_cong [OF eq, of or_HostProfile] arg_cong [OF eq, of or_Receipts]
      arg_cong [OF eq, of or_Releases] arg_cong [OF eq, of OperationRecord_Clone]
    by simp_all (simp add: eq [symmetric], metis cloned_again eq)
  show "validateOperationRecord x' = None" by (rule stored_operation(2) [OF put])
qed

lemma appendEvent_effect:
  assumes "run_lc (appendEvent e) v = (v', Inr e')"
  shows "sandboxes_of v' = sandboxes_of v" and "containers_of v' = containers_of v"
    and "operations_of v' = operations_of v"
proof -
  from assms have "AppendEvent v e = Inr (v', e')" by (simp add: tx_run)
  from AppendEvent_Inr(6) [OF this] have v': "v' = v\<lparr>mv_data := (mv_data v)\<lparr>md_events := md_events (mv_data v) @ [e'],
           md_lastEvent := ev_Sequence e'\<rparr>\<rparr>" .
  show "sandboxes_of v' = sandboxes_of v" "containers_of v' = containers_of v" "operations_of v' = operations_of v"
    by (simp_all add: v')
qed

lemma deleteSandbox_effect:
  assumes "run_lc (deleteSandbox i e) v = (v', Inr u)"
  shows "sandboxes_of v' = (sandboxes_of v)(i := None)" and "containers_of v' = containers_of v"
    and "operations_of v' = operations_of v"
  using assms by (auto simp: tx_run map_sum_def split: sum.splits dest!: DeleteSandbox_Inr)

lemma deleteContainer_effect:
  assumes "run_lc (deleteContainer i e) v = (v', Inr u)"
  shows "containers_of v' = (containers_of v)(i := None)" and "sandboxes_of v' = sandboxes_of v"
    and "operations_of v' = operations_of v"
  using assms by (auto simp: tx_run map_sum_def split: sum.splits dest!: DeleteContainerAttempt_Inr)

subsection \<open>Reads\<close>

lemma run_get:
  "run_lc (getSandbox i) v = (v', Inr r) \<longleftrightarrow> v' = v \<and> GetSandbox v i = Inr r"
  "run_lc (getContainer c) v = (v', Inr p) \<longleftrightarrow> v' = v \<and> GetContainerAttempt v c = Inr p"
  "run_lc (getOperation j) v = (v', Inr x) \<longleftrightarrow> v' = v \<and> GetOperation v j = Inr x"
  "run_lc (listContainers i) v = (v', Inr ps) \<longleftrightarrow> v' = v \<and> ListContainerAttempts v i = Inr ps"
  by (simp_all add: tx_run)

lemma run_attempt_get:
  "run_lc (attempt (getSandbox i)) v = (v', Inr g) \<longleftrightarrow> v' = v \<and> g = map_sum LcStore id (GetSandbox v i)"
  "run_lc (attempt (getContainer c)) v = (v', Inr h) \<longleftrightarrow> v' = v \<and> h = map_sum LcStore id (GetContainerAttempt v c)"
  "run_lc (attempt (getOperation j)) v = (v', Inr k) \<longleftrightarrow> v' = v \<and> k = map_sum LcStore id (GetOperation v j)"
  "run_lc (attempt (activeOperation t)) v = (v', Inr k) \<longleftrightarrow> v' = v \<and> k = map_sum LcStore id (ActiveOperation v t)"
  by (auto simp: run_attempt tx_run read_of_def split: sum.split)

lemma GetSandbox_Inr: "GetSandbox v i = Inr r \<longleftrightarrow> \<not> mv_closed v \<and> sandboxes_of v i = Some r"
  by (auto simp: GetSandbox_def ensureOpen_def split: option.split)

lemma GetContainerAttempt_Inr: "GetContainerAttempt v i = Inr r \<longleftrightarrow> \<not> mv_closed v \<and> containers_of v i = Some r"
  by (auto simp: GetContainerAttempt_def ensureOpen_def split: option.split)

lemma GetOperation_Inr:
  "GetOperation v i = Inr x \<longleftrightarrow> \<not> mv_closed v \<and> (\<exists>y. operations_of v i = Some y \<and> x = OperationRecord_Clone y)"
  by (auto simp: GetOperation_def ensureOpen_def split: option.split)

lemma not_found_absent:
  "GetSandbox v i = Inl ErrNotFound \<Longrightarrow> sandboxes_of v i = None"
  "GetContainerAttempt v c = Inl ErrNotFound \<Longrightarrow> containers_of v c = None"
  "GetOperation v j = Inl ErrNotFound \<Longrightarrow> operations_of v j = None"
  by (cases "mv_closed v"; simp add: GetSandbox_def GetContainerAttempt_def GetOperation_def ensureOpen_def
      split: option.splits)+

subsection \<open>Keys\<close>

definition keyed :: "memory_view \<Rightarrow> bool" where
  "keyed v \<longleftrightarrow> (\<forall>i c. sandbox_cores v i = Some c \<longrightarrow> sb_ID (fst c) = i)
     \<and> (\<forall>i c. container_cores v i = Some c \<longrightarrow> fst (snd (fst c)) = i)"

lemma keyed_sandbox: "keyed v \<Longrightarrow> sandboxes_of v i = Some r \<Longrightarrow> sb_ID (sr_Sandbox r) = i"
  unfolding keyed_def by (drule conjunct1, drule spec [of _ i], drule spec [of _ "sandbox_core r"])
    (simp add: sandbox_cores_def sandbox_core_def)

lemma keyed_container: "keyed v \<Longrightarrow> containers_of v i = Some r \<Longrightarrow> co_ID (ca_Container (cr_ContainerAttempt r)) = i"
  unfolding keyed_def by (drule conjunct2, drule spec [of _ i], drule spec [of _ "container_core r"])
    (simp add: container_cores_def container_core_def)

lemma keyed_cong: "sandbox_cores v' = sandbox_cores v \<Longrightarrow> container_cores v' = container_cores v \<Longrightarrow> keyed v \<Longrightarrow> keyed v'"
  by (simp add: keyed_def)

lemma tables_keyed: "tables_ok (mv_data v) \<Longrightarrow> keyed v"
  by (auto simp: keyed_def tables_ok_def cores_def sandbox_core_def container_core_def)

subsection \<open>Observations\<close>

lemma set_observation_sandbox:
  assumes "Sandbox_SetLastObservation s ob = (s', None)"
  shows "s' = s\<lparr>sb_Status := (sb_Status s)\<lparr>ss_LastObservation := ob\<rparr>\<rparr>"
  using assms by (cases "LifecycleObservation_Validate ob") (auto simp: Sandbox_SetLastObservation_def Let_def split: if_splits)

lemma set_observation_pair:
  assumes "Pair_SetLastObservation p ob = (p', None)"
  shows "p' = projectAttempt (p\<lparr>ca_Attempt := (ca_Attempt p)\<lparr>at_LastObservation := ob\<rparr>\<rparr>)"
  using assms by (cases "LifecycleObservation_Validate ob") (auto simp: Pair_SetLastObservation_def Let_def split: if_splits)

lemma observeSandbox_effect:
  assumes "run_lc (observeSandbox r e) v = (v', Inr r')" and "sandboxes_of v (sb_ID (sr_Sandbox r)) = Some r"
  shows "sandbox_cores v' = sandbox_cores v" and "containers_of v' = containers_of v"
    and "operations_of v' = operations_of v" and "sandbox_core r' = sandbox_core r"
    and "sandboxes_of v' (sb_ID (sr_Sandbox r)) = Some r'" and "sb_ID (sr_Sandbox r') = sb_ID (sr_Sandbox r)"
    and "sr_HostResources r' = sr_HostResources r" and "phase_of r' = phase_of r"
proof -
  from assms(1) obtain s where s: "Sandbox_SetLastObservation (sr_Sandbox r) (lifecycleObservation e) = (s, None)"
    and put: "run_lc (putSandbox (r\<lparr>sr_Sandbox := s\<rparr>) (sr_Revision r)) v = (v', Inr r')"
    by (auto simp: observeSandbox_def run_bind_Inr run_changed_Inr)
  have core: "sandbox_core (r\<lparr>sr_Sandbox := s\<rparr>) = sandbox_core r" and key: "sb_ID s = sb_ID (sr_Sandbox r)"
    and phase: "ss_Phase (sb_Status s) = phase_of r"
    by (simp_all add: set_observation_sandbox [OF s] sandbox_core_def phase_of_def)
  note put = putSandbox_effect [OF put, unfolded core]
  show "containers_of v' = containers_of v" "operations_of v' = operations_of v" "sandbox_core r' = sandbox_core r"
    by (rule put)+
  show "sandboxes_of v' (sb_ID (sr_Sandbox r)) = Some r'" "sb_ID (sr_Sandbox r') = sb_ID (sr_Sandbox r)"
    "sr_HostResources r' = sr_HostResources r" "phase_of r' = phase_of r"
    using put key phase by (simp_all add: phase_of_def)
  show "sandbox_cores v' = sandbox_cores v"
    using put key assms(2) by (auto simp: sandbox_cores_def fun_eq_iff)
qed

lemma projectAttempt_parts [simp]:
  "ca_Attempt (projectAttempt p) = ca_Attempt p"
  "co_ID (ca_Container (projectAttempt p)) = co_ID (ca_Container p)"
  "co_SandboxID (ca_Container (projectAttempt p)) = co_SandboxID (ca_Container p)"
  by (simp_all add: projectAttempt_def Let_def)

lemma observeContainer_effect:
  assumes "run_lc (observeContainer r e) v = (v', Inr r')"
    and "containers_of v (co_ID (ca_Container (cr_ContainerAttempt r))) = Some r"
  shows "container_cores v' = container_cores v" and "sandboxes_of v' = sandboxes_of v"
    and "operations_of v' = operations_of v" and "container_core r' = container_core r"
    and "containers_of v' (co_ID (ca_Container (cr_ContainerAttempt r))) = Some r'"
    and "co_ID (ca_Container (cr_ContainerAttempt r')) = co_ID (ca_Container (cr_ContainerAttempt r))"
    and "cr_HostResources r' = cr_HostResources r" and "attempt_phase_of r' = attempt_phase_of r"
proof -
  from assms(1) obtain p where p: "Pair_SetLastObservation (cr_ContainerAttempt r) (lifecycleObservation e) = (p, None)"
    and put: "run_lc (putContainer (r\<lparr>cr_ContainerAttempt := p\<rparr>) (cr_Revision r)) v = (v', Inr r')"
    by (auto simp: observeContainer_def run_bind_Inr run_changed_Inr)
  have core: "container_core (r\<lparr>cr_ContainerAttempt := p\<rparr>) = container_core r"
    and key: "co_ID (ca_Container p) = co_ID (ca_Container (cr_ContainerAttempt r))"
    and phase: "at_Phase (ca_Attempt p) = attempt_phase_of r"
    by (simp_all add: set_observation_pair [OF p] container_core_def attempt_phase_of_def)
  note put = putContainer_effect [OF put, unfolded core]
  show "sandboxes_of v' = sandboxes_of v" "operations_of v' = operations_of v" "container_core r' = container_core r"
    by (rule put)+
  show "containers_of v' (co_ID (ca_Container (cr_ContainerAttempt r))) = Some r'"
    "co_ID (ca_Container (cr_ContainerAttempt r')) = co_ID (ca_Container (cr_ContainerAttempt r))"
    "cr_HostResources r' = cr_HostResources r" "attempt_phase_of r' = attempt_phase_of r"
    using put key phase by (simp_all add: attempt_phase_of_def)
  show "container_cores v' = container_cores v"
    using put key assms(2) by (auto simp: container_cores_def fun_eq_iff)
qed

lemma appendOperationEvent_effect:
  assumes "run_lc (appendOperationEvent x stage result at duration g ob p resources) v = (v', Inr e)"
  shows "sandboxes_of v' = sandboxes_of v" and "containers_of v' = containers_of v"
    and "operations_of v' = operations_of v" and "ev_Reason e = op_Reason x"
proof -
  from assms obtain ev where app: "run_lc (appendEvent ev) v = (v', Inr e)" and ev: "ev_Reason ev = op_Reason x"
    by (auto simp: appendOperationEvent_def encodeResponse_def run_bind_Inr run_lift_res)
  show "sandboxes_of v' = sandboxes_of v" "containers_of v' = containers_of v" "operations_of v' = operations_of v"
    by (rule appendEvent_effect [OF app])+
  have "AppendEvent v ev = Inr (v', e)" using app by (simp add: tx_run)
  from arg_cong [OF AppendEvent_Inr(3) [OF this], of ev_Reason] show "ev_Reason e = op_Reason x" by (simp add: ev)
qed

lemma eventResourceState_effect:
  "run_lc (eventResourceState t) v = (v', r) \<Longrightarrow> v' = v"
  by (auto simp: eventResourceState_def run_bind tx_run read_of_def Let_def
      split: target_kind.splits prod.splits sum.splits)

lemma observeEventTarget_effect:
  assumes "run_lc (observeEventTarget t e) v = (v', Inr u)" and "keyed v"
  shows "sandbox_cores v' = sandbox_cores v" and "container_cores v' = container_cores v"
    and "operations_of v' = operations_of v"
proof -
  have "sandbox_cores v' = sandbox_cores v \<and> container_cores v' = container_cores v
      \<and> operations_of v' = operations_of v"
  proof (cases "tg_Kind t")
    case TargetSandbox
    with assms(1) obtain r r' where r: "sandboxes_of v (tg_ID t) = Some r"
      and ob: "run_lc (observeSandbox r e) v = (v', Inr r')"
      by (auto simp: observeEventTarget_def run_bind_Inr run_get GetSandbox_Inr)
    have "sandboxes_of v (sb_ID (sr_Sandbox r)) = Some r"
      using r keyed_sandbox [OF assms(2) r] by simp
    then show ?thesis using observeSandbox_effect [OF ob] by (simp add: container_cores_def)
  next
    case TargetContainer
    with assms(1) obtain r r' where r: "containers_of v (tg_ID t) = Some r"
      and ob: "run_lc (observeContainer r e) v = (v', Inr r')"
      by (auto simp: observeEventTarget_def run_bind_Inr run_get GetContainerAttempt_Inr)
    have "containers_of v (co_ID (ca_Container (cr_ContainerAttempt r))) = Some r"
      using r keyed_container [OF assms(2) r] by simp
    then show ?thesis using observeContainer_effect [OF ob] by (simp add: sandbox_cores_def)
  qed (use assms(1) in \<open>simp_all add: observeEventTarget_def\<close>)
  then show "sandbox_cores v' = sandbox_cores v" "container_cores v' = container_cores v"
    "operations_of v' = operations_of v" by simp_all
qed

end
