(* ===== verification/Lifecycle_Commands.thy ===== *)
theory Lifecycle_Commands
  imports Lifecycle_Effects
begin

text \<open>
  What the operations of a command do: how a request is resolved, what is stored under its identity,
  and what the shared ends of the commands leave behind.
\<close>

lemma observeEventTarget_fails: "run_lc (observeEventTarget t e) v = (v', Inl err) \<Longrightarrow> v' = v"
  by (auto simp: observeEventTarget_def observeSandbox_def observeContainer_def changed_def run_bind tx_run
      read_of_def write_of_def split: target_kind.splits prod.splits sum.splits option.splits)

lemma putNew_effect:
  assumes "run_lc (putNew c x) v = (v', Inr r)"
  shows "operations_of v' = (operations_of v)(op_ID x \<mapsto> r)" and "sandboxes_of v' = sandboxes_of v"
    and "containers_of v' = containers_of v" and "or_Operation r = x" and "or_HostProfile r = co_profile c"
    and "OperationRecord_Clone r = r" and "validateOperationRecord r = None"
proof -
  from assms obtain y where y: "NewOperationRecordForProfile x (co_profile c) = Inr y"
    and put: "run_lc (putOperation y 0) v = (v', Inr r)"
    by (auto simp: putNew_def run_bind_Inr run_lift_res map_sum_def split: sum.splits)
  from y have y': "or_Operation y = x" "or_HostProfile y = co_profile c"
    by (auto simp: NewOperationRecordForProfile_def NewOperationRecord_def)
  note put = putOperation_effect [OF put, unfolded y']
  show "operations_of v' = (operations_of v)(op_ID x \<mapsto> r)" "sandboxes_of v' = sandboxes_of v"
    "containers_of v' = containers_of v" "or_Operation r = x" "or_HostProfile r = co_profile c"
    "OperationRecord_Clone r = r" "validateOperationRecord r = None"
    by (rule put)+
qed

subsection \<open>Resolution\<close>

lemma projectConflict_effect:
  assumes "run_lc (projectConflict b now x) v = (v', Inr u)" and "keyed v"
  shows "sandbox_cores v' = sandbox_cores v" and "container_cores v' = container_cores v"
    and "operations_of v' = operations_of v"
proof -
  from assms(1) obtain v1 ev e ob where app: "run_lc (appendEvent ev) v = (v1, Inr e)"
    and obs: "run_lc (observeEventTarget (bd_Target b) e) v1 = (v', ob)"
    unfolding projectConflict_def Let_def
    by (elim run_bindE run_attemptE)
      (auto elim!: run_bindE run_attemptE dest!: eventResourceState_effect simp: run_lift_res
        split: prod.splits sum.splits if_splits)
  note a = appendEvent_effect [OF app]
  have cores: "sandbox_cores v1 = sandbox_cores v" "container_cores v1 = container_cores v"
    using a by (simp_all add: cores_def)
  have "sandbox_cores v' = sandbox_cores v1 \<and> container_cores v' = container_cores v1
      \<and> operations_of v' = operations_of v1"
    using observeEventTarget_fails [of "bd_Target b" e v1 v'] obs
      observeEventTarget_effect [of "bd_Target b" e v1 v'] keyed_cong [OF cores assms(2)]
    by (cases ob) auto
  with cores a show "sandbox_cores v' = sandbox_cores v" "container_cores v' = container_cores v"
    "operations_of v' = operations_of v" by simp_all
qed

lemma persistOperationConflict_effect:
  assumes "run_lc (persistOperationConflict c now b active) v = (v', Inr resolved)" and "keyed v"
  obtains x response where "resolved = ResolvedReplay x"
    and "sandbox_cores v' = sandbox_cores v" and "container_cores v' = container_cores v"
    and "operations_of v' = (operations_of v)(bd_ID b \<mapsto> x)"
    and "or_Operation x = failedOperation (newActiveOperation b []) ReasonConflict response"
    and "or_HostProfile x = co_profile c" and "OperationRecord_Clone x = x" and "validateOperationRecord x = None"
proof -
  from assms(1) obtain response x v1 u where
    put: "run_lc (putNew c (failedOperation (newActiveOperation b []) ReasonConflict response)) v = (v1, Inr x)"
    and proj: "run_lc (projectConflict b now (failedOperation (newActiveOperation b []) ReasonConflict response)) v1
        = (v', Inr u)"
    and res: "resolved = ResolvedReplay x"
    unfolding persistOperationConflict_def Let_def
    by (auto elim!: run_bindE simp: encodeResponse_def run_lift_res)
  note p = putNew_effect [OF put]
  have cores: "sandbox_cores v1 = sandbox_cores v" "container_cores v1 = container_cores v"
    using p by (simp_all add: cores_def)
  note q = projectConflict_effect [OF proj keyed_cong [OF cores assms(2)]]
  show thesis
    by (rule that [of x response, OF res]) (use p q cores in \<open>simp_all add: failedOperation_def newActiveOperation_def\<close>)
qed

lemma run_resolveOperation:
  "run_lc (resolveOperation c now b) v =
    (case GetOperation v (bd_ID b) of
       Inr x \<Rightarrow>
         (v, if or_HostProfile x \<noteq> co_profile c then Inl (LcStore ErrInvalidRecord)
             else (case Resolve (Some (or_Operation x)) b of
                Inl e \<Rightarrow> Inl (LcOperation e)
              | Inr r \<Rightarrow> Inr (if r = ResolutionReplay then ResolvedReplay x
                           else if r = ResolutionResume then ResolvedResume x else ResolvedNew)))
     | Inl e \<Rightarrow>
         if e \<noteq> ErrNotFound then (v, Inl (LcStore e))
         else (case ActiveOperation v (bd_Target b) of
            Inr active \<Rightarrow>
              if CheckActiveConflict (Some (or_Operation active)) b \<noteq> None
              then run_lc (persistOperationConflict c now b (or_Operation active)) v
              else (v, Inr ResolvedNew)
          | Inl e' \<Rightarrow> (v, if e' = ErrNotFound then Inr ResolvedNew else Inl (LcStore e'))))"
  by (simp add: resolveOperation_def run_bind run_attempt tx_run read_of_def check_def split: sum.split)

text \<open>A request that is new finds nothing under its identity; one that is resumed or replayed finds a
  valid record with its binding; a conflict is stored as a failure and replayed at once.\<close>

lemma resolveOperation_effect:
  assumes "run_lc (resolveOperation c now b) v = (v', Inr resolved)" and "keyed v"
  obtains (new) "resolved = ResolvedNew" and "v' = v" and "operations_of v (bd_ID b) = None"
  | (resume) y where "resolved = ResolvedResume (OperationRecord_Clone y)" and "v' = v"
      and "operations_of v (bd_ID b) = Some y" and "Operation_Binding (or_Operation y) = b"
      and "State_Active (op_State (or_Operation y))" and "or_HostProfile y = co_profile c"
  | (replay) y where "resolved = ResolvedReplay (OperationRecord_Clone y)" and "v' = v"
      and "operations_of v (bd_ID b) = Some y" and "Operation_Binding (or_Operation y) = b"
      and "\<not> State_Active (op_State (or_Operation y))" and "or_HostProfile y = co_profile c"
  | (conflict) x response where "resolved = ResolvedReplay x"
      and "sandbox_cores v' = sandbox_cores v" and "container_cores v' = container_cores v"
      and "operations_of v (bd_ID b) = None"
      and "operations_of v' = (operations_of v)(bd_ID b \<mapsto> x)"
      and "or_Operation x = failedOperation (newActiveOperation b []) ReasonConflict response"
      and "or_HostProfile x = co_profile c" and "OperationRecord_Clone x = x" and "validateOperationRecord x = None"
proof (cases "GetOperation v (bd_ID b)")
  case (Inr x)
  then obtain y where y: "operations_of v (bd_ID b) = Some y" "x = OperationRecord_Clone y"
    by (auto simp: GetOperation_Inr)
  from assms(1) Inr have profile: "or_HostProfile y = co_profile c" and v': "v' = v"
    by (simp_all add: run_resolveOperation y split: if_splits)
  from assms(1) Inr profile obtain r where r: "Resolve (Some (or_Operation y)) b = Inr r" "resolved =
      (if r = ResolutionReplay then ResolvedReplay x else if r = ResolutionResume then ResolvedResume x else ResolvedNew)"
    by (cases "Resolve (Some (or_Operation y)) b") (auto simp: run_resolveOperation y)
  show thesis
  proof (cases "State_Active (op_State (or_Operation y))")
    case True
    then show thesis using r y v' profile by (intro resume [of y]) (simp_all add: Resolve_Inr)
  next
    case False
    then show thesis using r y v' profile by (intro replay [of y]) (simp_all add: Resolve_Inr)
  qed
next
  case (Inl e)
  with assms(1) have nf: "e = ErrNotFound" by (simp add: run_resolveOperation split: if_splits)
  with Inl have none: "operations_of v (bd_ID b) = None" by (simp add: not_found_absent)
  show thesis
  proof (cases "v' = v \<and> resolved = ResolvedNew")
    case True
    then show thesis using new none by blast
  next
    case False
    then obtain active where "run_lc (persistOperationConflict c now b active) v = (v', Inr resolved)"
      using assms(1) Inl nf by (auto simp: run_resolveOperation split: sum.splits if_splits)
    then show thesis
      by (rule persistOperationConflict_effect [OF _ assms(2)]) (rule conflict, simp_all add: none)
  qed
qed

text \<open>A stored record decides alone how a request with its binding is resolved.\<close>

lemma resolve_stored:
  assumes "operations_of v (bd_ID b) = Some y" and "\<not> mv_closed v" and "OperationRecord_Clone y = y"
    and "Operation_Validate (or_Operation y) = None" and "Operation_Binding (or_Operation y) = b"
    and "or_HostProfile y = co_profile c"
  shows "run_lc (resolveOperation c now b) v =
    (v, Inr (if State_Active (op_State (or_Operation y)) then ResolvedResume y else ResolvedReplay y))"
proof -
  have "Resolve (Some (or_Operation y)) b =
      Inr (if State_Active (op_State (or_Operation y)) then ResolutionResume else ResolutionReplay)"
    using assms(4,5) valid_operation_binding [OF assms(4)] by (auto simp: Resolve_Inr)
  moreover have "GetOperation v (bd_ID b) = Inr y" using assms(1,2,3) by (simp add: GetOperation_Inr)
  ultimately show ?thesis using assms(6) by (simp add: run_resolveOperation)
qed

subsection \<open>Writes of operations\<close>

lemma completeOperation_effect:
  assumes "run_lc (completeOperation x result response) v = (v', Inr x')"
  shows "operations_of v' = (operations_of v)(op_ID (or_Operation x) \<mapsto> x')"
    and "sandboxes_of v' = sandboxes_of v" and "containers_of v' = containers_of v"
    and "or_Operation x' = terminalOperation (or_Operation x) result response"
    and "or_HostProfile x' = or_HostProfile x" and "OperationRecord_Clone x' = x'"
  using putOperation_effect [OF assms [unfolded completeOperation_def]]
  by (simp_all add: terminalOperation_def)

lemma failOperation_effect:
  assumes "run_lc (failOperation x reason response) v = (v', Inr x')"
  shows "operations_of v' = (operations_of v)(op_ID (or_Operation x) \<mapsto> x')"
    and "sandboxes_of v' = sandboxes_of v" and "containers_of v' = containers_of v"
    and "or_Operation x' = failedOperation (or_Operation x) reason response"
    and "or_HostProfile x' = or_HostProfile x" and "OperationRecord_Clone x' = x'"
proof -
  from assms have "run_lc (putOperation (x\<lparr>or_Operation := failedOperation (or_Operation x) reason response\<rparr>)
      (or_Revision x)) v = (v', Inr x')"
    by (auto simp: failOperation_def run_check_Inr)
  from putOperation_effect [OF this] show "operations_of v' = (operations_of v)(op_ID (or_Operation x) \<mapsto> x')"
    "sandboxes_of v' = sandboxes_of v" "containers_of v' = containers_of v"
    "or_Operation x' = failedOperation (or_Operation x) reason response"
    "or_HostProfile x' = or_HostProfile x" "OperationRecord_Clone x' = x'"
    by (simp_all add: failedOperation_def)
qed

lemma finalizeOperationResponse_effect:
  assumes "run_lc (finalizeOperationResponse x response) v = (v', Inr x')"
  shows "operations_of v' = (operations_of v)(op_ID (or_Operation x) \<mapsto> x')"
    and "sandboxes_of v' = sandboxes_of v" and "containers_of v' = containers_of v"
    and "or_Operation x' = (or_Operation x)\<lparr>op_Response := response\<rparr>"
    and "or_HostProfile x' = or_HostProfile x" and "OperationRecord_Clone x' = x'"
proof -
  from assms have "run_lc (putOperation (x\<lparr>or_Operation := (or_Operation x)\<lparr>op_Response := response\<rparr>\<rparr>)
      (or_Revision x)) v = (v', Inr x')"
    by (auto simp: finalizeOperationResponse_def run_check_Inr)
  from putOperation_effect [OF this] show "operations_of v' = (operations_of v)(op_ID (or_Operation x) \<mapsto> x')"
    "sandboxes_of v' = sandboxes_of v" "containers_of v' = containers_of v"
    "or_Operation x' = (or_Operation x)\<lparr>op_Response := response\<rparr>"
    "or_HostProfile x' = or_HostProfile x" "OperationRecord_Clone x' = x'"
    by simp_all
qed

subsection \<open>Replies that are stored\<close>

text \<open>The record that answers a request: it is stored under the request's identity, with its binding.\<close>

definition answered_by :: "coordinator \<Rightarrow> binding \<Rightarrow> memory_view \<Rightarrow> operation_record \<Rightarrow> bool" where
  "answered_by c b v x \<longleftrightarrow>
     operations_of v (bd_ID b) = Some x \<and> Operation_Binding (or_Operation x) = b
     \<and> or_HostProfile x = co_profile c"

lemma binding_parts [simp]:
  "Operation_Binding (terminalOperation x result response) = Operation_Binding x"
  "Operation_Binding (failedOperation x reason response) = Operation_Binding x"
  "Operation_Binding (x\<lparr>op_Response := response\<rparr>) = Operation_Binding x"
  "Operation_Binding (newActiveOperation b response) = b"
  by (simp_all add: Operation_Binding_def terminalOperation_def failedOperation_def newActiveOperation_def)

lemma operation_ids [simp]:
  "op_ID (terminalOperation x result response) = op_ID x" "op_ID (failedOperation x reason response) = op_ID x"
  "op_ID (newActiveOperation b response) = bd_ID b"
  by (simp_all add: terminalOperation_def failedOperation_def newActiveOperation_def)

lemma operation_states [simp]:
  "op_State (terminalOperation x result response) = StateSucceeded"
  "op_State (failedOperation x reason response) = StateFailed"
  "op_State (newActiveOperation b response) = StateRunning"
  by (simp_all add: terminalOperation_def failedOperation_def newActiveOperation_def)

lemma binding_id: "Operation_Binding x = b \<Longrightarrow> op_ID x = bd_ID b"
  by (auto simp: Operation_Binding_def)

end
