(* ===== verification/Lifecycle_Calls.thy ===== *)
theory Lifecycle_Calls
  imports Lifecycle_Commands
begin

text \<open>
  A command as one call on the store: what an update with its callback returns and leaves, and that a
  request whose operation is stored already is answered from the store.
\<close>

definition view_of :: "memory_store \<Rightarrow> memory_view" where
  "view_of s = store_view s True (ms_data s)"

definition cloned :: "memory_view \<Rightarrow> bool" where
  "cloned v \<longleftrightarrow> (\<forall>i x. operations_of v i = Some x \<longrightarrow> OperationRecord_Clone x = x)"

lemma view_of_parts [simp]:
  "mv_data (view_of s) = ms_data s" "mv_closed (view_of s) = False" "mv_retention (view_of s) = ms_retention s"
  by (simp_all add: view_of_def store_view_def)

lemma reachable_keyed: "store_reachable s \<Longrightarrow> keyed (view_of s)"
  using tables.reachable [of s] by (intro tables_keyed) simp

lemma reachable_cloned: "store_reachable s \<Longrightarrow> cloned (view_of s)"
  using clones.reachable [of s] by (simp add: cloned_def settled_tables_def)

lemma reachable_start: "store_reachable s \<Longrightarrow> store_view s True (data_clone (ms_data s)) = view_of s"
  by (simp add: reachable_clone view_of_def)

subsection \<open>Updates\<close>

text \<open>A call that fails leaves the store as it is; one that succeeds commits the candidate that its
  transaction left.\<close>

lemma lc_update_Inl:
  assumes "lc_update s c1 c2 p = (s', Inl e)"
  shows "s' = s"
  using assms Store_Update_outcome [where s = s and ?c1.0 = c1 and ?c2.0 = c2 and fn = "Some (callback p)"]
  by (auto simp: lc_update_def Let_def run_callback split: prod.splits option.splits sum.splits)

lemma lc_update_Inr:
  assumes "lc_update s c1 c2 p = (s', Inr a)" and "store_reachable s"
  obtains v' ch where "run_lc p (view_of s) = (v', Inr a)" and "ms_retention s' = ms_retention s"
    and "applyRetention (ms_retention s) (mv_data v') = Inr (ms_data s', ch)"
proof -
  let ?u = "Store_Update s c1 c2 (Some (callback p))"
  from assms(1) have u: "?u = (s', None)" and snd: "snd (run_lc p (view_of s)) = Inr a"
    by (auto simp: lc_update_def Let_def reachable_start [OF assms(2)] split: prod.splits option.splits)
  from u obtain v ch where "ms_retention s' = ms_retention s"
    and run: "run_tx (callback p) (view_of s) = (v, None)"
    and "applyRetention (ms_retention s) (mv_data v) = Inr (ms_data s', ch)"
    using Store_Update_outcome [where s = s and ?c1.0 = c1 and ?c2.0 = c2 and fn = "Some (callback p)"]
    by (auto simp: reachable_start [OF assms(2)])
  moreover have "run_lc p (view_of s) = (v, Inr a)"
    using run snd by (auto simp: run_callback prod_eq_iff split: sum.splits)
  ultimately show thesis using that by blast
qed

lemma lc_update_reachable:
  assumes "store_reachable s"
  shows "store_reachable (fst (lc_update s c1 c2 p))"
proof -
  have "fst (lc_update s c1 c2 p) = fst (Store_Update s c1 c2 (Some (callback p)))"
    by (simp add: lc_update_def Let_def split: prod.split option.split)
  then show ?thesis using update [OF assms] by simp
qed

lemma submit_reachable: "store_reachable s \<Longrightarrow> store_reachable (fst (submit s c1 c2 m))"
  by (cases m) (simp_all add: submit_def lc_update_reachable)

lemma submit_Inl: "submit s c1 c2 m = (s', Inl e) \<Longrightarrow> s' = s"
  by (cases m) (auto simp: submit_def dest: lc_update_Inl)

text \<open>What a commit keeps of the candidate: the resources, and the operations that it does not retire.\<close>

lemma committed:
  assumes "applyRetention p (mv_data v) = Inr (ms_data s, ch)"
  shows "sandboxes_of (view_of s) = sandboxes_of v" and "containers_of (view_of s) = containers_of v"
    and "sandbox_cores (view_of s) = sandbox_cores v" and "container_cores (view_of s) = container_cores v"
    and "operations_of (view_of s) i = Some x \<Longrightarrow> operations_of v i = Some x"
proof -
  show "sandboxes_of (view_of s) = sandboxes_of v" "containers_of (view_of s) = containers_of v"
    "sandbox_cores (view_of s) = sandbox_cores v" "container_cores (view_of s) = container_cores v"
    using applyRetention_frame(1,2) [OF assms] by (simp_all add: cores_def)
  obtain gone where "operations_of (view_of s) = operations_of v |` (- gone)"
    by (rule applyRetention_operations [OF assms]) simp
  then show "operations_of (view_of s) i = Some x \<Longrightarrow> operations_of v i = Some x"
    by (simp add: restrict_map_def split: if_splits)
qed

text \<open>A transaction that changes nothing is answered, and the store stays.\<close>

lemma reading_call:
  assumes "store_reachable s" and "run_lc p (view_of s) = (view_of s, Inr a)"
  shows "lc_update s False False p = (s, Inr a)"
proof -
  have "run_tx (callback p) (store_view s True (ms_data s)) = (store_view s True (ms_data s), None)"
    using assms(2) by (simp add: run_callback view_of_def)
  from reading_update [OF assms(1) this] show ?thesis
    using assms by (simp add: lc_update_def reachable_start Let_def)
qed

lemma failing_call:
  assumes "run_lc p (view_of s) = (v, Inl e)" and "store_reachable s"
  shows "lc_update s False False p = (s, Inl e)"
proof -
  have "run_tx (callback p) (store_view s True (data_clone (ms_data s))) = (v, Some ''lifecycle'')"
    using assms by (simp add: run_callback reachable_start)
  then show ?thesis using assms by (simp add: lc_update_def Let_def Store_Update_def reachable_start)
qed

subsection \<open>Requests whose operation is stored\<close>

lemma reachable_resolve:
  assumes "store_reachable s" and "answered_by c b (view_of s) y"
  shows "run_lc (resolveOperation c now b) (view_of s) =
    (view_of s, Inr (if State_Active (op_State (or_Operation y)) then ResolvedResume y else ResolvedReplay y))"
proof (rule resolve_stored)
  show y: "operations_of (view_of s) (bd_ID b) = Some y" "Operation_Binding (or_Operation y) = b"
    "or_HostProfile y = co_profile c"
    using assms(2) by (simp_all add: answered_by_def)
  show "OperationRecord_Clone y = y" using reachable_cloned [OF assms(1)] y(1) by (simp add: cloned_def)
  have "validateOperationRecord y = None"
    using tables.reachable [OF assms(1)] y(1) by (auto simp: tables_ok_def)
  then show "Operation_Validate (or_Operation y) = None"
    by (auto simp: validateOperationRecord_def)
qed simp

lemma resolveE:
  assumes "run_lc (resolveOperation c now b) v = (v', Inr resolved)" and "keyed v" and "cloned v"
  obtains (new) "resolved = ResolvedNew" and "v' = v" and "operations_of v (bd_ID b) = None"
  | (resume) x where "resolved = ResolvedResume x" and "v' = v" and "answered_by c b v x"
      and "State_Active (op_State (or_Operation x))" and "OperationRecord_Clone x = x"
  | (replay) x where "resolved = ResolvedReplay x" and "sandbox_cores v' = sandbox_cores v"
      and "container_cores v' = container_cores v" and "answered_by c b v' x"
      and "\<not> State_Active (op_State (or_Operation x))"
  using assms(1,2)
proof (cases rule: resolveOperation_effect)
  case new
  then show thesis by (rule that(1))
next
  case (resume y)
  then show thesis using assms(3) by (intro that(2) [of y]) (auto simp: cloned_def answered_by_def)
next
  case (replay y)
  then show thesis using assms(3) by (intro that(3) [of y]) (auto simp: cloned_def answered_by_def)
next
  case (conflict x response)
  then show thesis by (intro that(3) [of x]) (auto simp: answered_by_def State_Active_def)
qed

subsection \<open>Replies\<close>

text \<open>The operation that a command returns is the one stored under the request's identity; once it is
  terminal, the whole result is what the stored record is decoded to.\<close>

definition reply_stored ::
    "(resolution \<Rightarrow> operation_record \<Rightarrow> lc_error + 'r) \<Rightarrow> ('r \<Rightarrow> resolution) \<Rightarrow> ('r \<Rightarrow> operation)
     \<Rightarrow> coordinator \<Rightarrow> binding \<Rightarrow> memory_view \<Rightarrow> 'r \<Rightarrow> bool" where
  "reply_stored from_record resolution_of operation_of c b v a \<longleftrightarrow>
     (\<exists>x. answered_by c b v x \<and> or_Operation x = operation_of a
        \<and> (\<not> State_Active (op_State (or_Operation x)) \<longrightarrow> from_record (resolution_of a) x = Inr a))"

text \<open>The three kinds of results share how they are read back: the operation is the record's, and only
  the label says how the request was resolved.\<close>

locale replies =
  fixes from_record :: "resolution \<Rightarrow> operation_record \<Rightarrow> lc_error + 'r"
    and resolution_of :: "'r \<Rightarrow> resolution"
    and operation_of :: "'r \<Rightarrow> operation"
    and relabel :: "resolution \<Rightarrow> 'r \<Rightarrow> 'r"
  assumes operation_read: "from_record n x = Inr a \<Longrightarrow> operation_of a = or_Operation x"
    and resolution_read: "from_record n x = Inr a \<Longrightarrow> resolution_of a = n"
    and relabelled: "from_record n x = Inr a \<Longrightarrow> from_record n' x = Inr (relabel n' a)"
begin

lemma stored_result:
  assumes "from_record n x = Inr a" and "answered_by c b v x"
  shows "reply_stored from_record resolution_of operation_of c b v a"
  using assms operation_read [OF assms(1)] resolution_read [OF assms(1)] by (auto simp: reply_stored_def)

lemma stored_active:
  assumes "answered_by c b v x" and "State_Active (op_State (or_Operation x))" and "operation_of a = or_Operation x"
  shows "reply_stored from_record resolution_of operation_of c b v a"
  using assms by (auto simp: reply_stored_def)

text \<open>The three ways in which a command that resolves its request first can go.\<close>

lemma dispatchE:
  assumes "run_lc (lc_bind (resolveOperation c now b) (\<lambda>resolved.
      case resolved of
        ResolvedNew \<Rightarrow> m
      | ResolvedResume x \<Rightarrow> f x
      | ResolvedReplay x \<Rightarrow> lift_res (from_record ResolutionReplay x))) v = (v', Inr a)"
    and "keyed v" and "cloned v"
  obtains (new) "run_lc m v = (v', Inr a)" and "operations_of v (bd_ID b) = None"
  | (resume) x where "run_lc (f x) v = (v', Inr a)" and "answered_by c b v x"
      and "State_Active (op_State (or_Operation x))" and "OperationRecord_Clone x = x"
  | (replay) "sandbox_cores v' = sandbox_cores v" and "container_cores v' = container_cores v"
      and "reply_stored from_record resolution_of operation_of c b v' a"
      and "\<not> State_Active (op_State (operation_of a))"
proof -
  from assms(1) obtain v1 resolved where res: "run_lc (resolveOperation c now b) v = (v1, Inr resolved)"
    and rest: "run_lc (case resolved of ResolvedNew \<Rightarrow> m | ResolvedResume x \<Rightarrow> f x
      | ResolvedReplay x \<Rightarrow> lift_res (from_record ResolutionReplay x)) v1 = (v', Inr a)"
    by (elim run_bindE) blast
  show thesis
    using res assms(2,3)
  proof (cases rule: resolveE)
    case new
    then show thesis using rest by (intro that(1)) simp_all
  next
    case (resume x)
    then show thesis using rest by (intro that(2) [of x]) simp_all
  next
    case (replay x)
    then show thesis using rest by (intro that(3)) (auto simp: run_lift_res operation_read intro: stored_result)
  qed
qed

text \<open>A request whose operation is terminal and stored is answered from the record, and nothing is
  written; one whose operation is active goes the way of a resumption.\<close>

lemma replayed:
  assumes "store_reachable s" and "answered_by c b (view_of s) x" and "\<not> State_Active (op_State (or_Operation x))"
    and "from_record ResolutionReplay x = Inr a"
  shows "lc_update s False False (lc_bind (resolveOperation c now b) (\<lambda>resolved.
      case resolved of
        ResolvedNew \<Rightarrow> m
      | ResolvedResume x \<Rightarrow> f x
      | ResolvedReplay x \<Rightarrow> lift_res (from_record ResolutionReplay x))) = (s, Inr a)"
  by (rule reading_call [OF assms(1)]) (simp add: run_bind reachable_resolve [OF assms(1,2)] assms(3,4))

lemma repeated:
  assumes "store_reachable s" and "reply_stored from_record resolution_of operation_of c b v a"
    and "\<not> State_Active (op_State (operation_of a))"
    and "operations_of (view_of s) (bd_ID b) \<noteq> None"
    and "\<And>x. operations_of (view_of s) (bd_ID b) = Some x \<Longrightarrow> operations_of v (bd_ID b) = Some x"
  shows "lc_update s False False (lc_bind (resolveOperation c now b) (\<lambda>resolved.
      case resolved of
        ResolvedNew \<Rightarrow> m
      | ResolvedResume x \<Rightarrow> f x
      | ResolvedReplay x \<Rightarrow> lift_res (from_record ResolutionReplay x)))
    = (s, Inr (relabel ResolutionReplay a))"
proof -
  from assms(2) obtain x where x: "answered_by c b v x" "or_Operation x = operation_of a"
    and read: "from_record (resolution_of a) x = Inr a"
    using assms(3) by (auto simp: reply_stored_def)
  have "answered_by c b (view_of s) x" using x(1) assms(4,5) by (auto simp: answered_by_def)
  from replayed [OF assms(1) this _ relabelled [OF read]] show ?thesis using x(2) assms(3) by simp
qed

end

end
