(* ===== verification/Lifecycle_Sandbox_Effects.thy ===== *)
theory Lifecycle_Sandbox_Effects
  imports Lifecycle_Calls
begin

text \<open>
  What each Sandbox command does to the candidate: the result it stores, that it leaves all pairs
  alone, and that it either leaves all Sandboxes alone or moves its own along one edge.
\<close>

abbreviation sandbox_stored :: "coordinator \<Rightarrow> binding \<Rightarrow> memory_view \<Rightarrow> sandbox_result \<Rightarrow> bool" where
  "sandbox_stored \<equiv> reply_stored sandboxResultFromRecord xr_Resolution xr_Operation"

interpretation sandbox_replies: replies sandboxResultFromRecord xr_Resolution xr_Operation "\<lambda>n a. a\<lparr>xr_Resolution := n\<rparr>"
  by unfold_locales
    (auto simp: sandboxResultFromRecord_def Let_def sandbox_result_of_def split: if_splits)

lemma answer_stored:
  "answered_by c b v x \<Longrightarrow> State_Active (op_State (or_Operation x)) \<Longrightarrow>
     sandbox_stored c b v (sandbox_answer resolution (or_Operation x) b s)"
  by (rule sandbox_replies.stored_active) (simp_all add: sandbox_answer_def)

subsection \<open>Ends of the Sandbox commands\<close>

lemma concludeSandbox_effect:
  assumes "run_lc (concludeSandbox resolution x result at duration p r) v = (v', Inr a)"
    and "sandboxes_of v (sb_ID (sr_Sandbox r)) = Some r" and "answered_by c b v x"
  shows "sandbox_cores v' = sandbox_cores v" and "containers_of v' = containers_of v" and "sandbox_stored c b v' a"
proof -
  from assms(1) obtain v1 e v2 r' response v3 x' where
    ev: "run_lc (sandboxEvent (or_Operation x) StageComplete result at duration (sr_Sandbox r) p) v = (v1, Inr e)"
    and obs: "run_lc (observeSandbox r e) v1 = (v2, Inr r')"
    and fin: "run_lc (finalizeOperationResponse x response) v2 = (v3, Inr x')"
    and res: "v' = v3" "sandboxResultFromRecord resolution x' = Inr a"
    unfolding concludeSandbox_def by (auto elim!: run_bindE simp: encodeResponse_def run_lift_res)
  note e = appendOperationEvent_effect [OF ev [unfolded sandboxEvent_def]]
  have "sandboxes_of v1 (sb_ID (sr_Sandbox r)) = Some r" using e assms(2) by simp
  note o' = observeSandbox_effect [OF obs this] and f = finalizeOperationResponse_effect [OF fin]
  show "sandbox_cores v' = sandbox_cores v" "containers_of v' = containers_of v"
    using e o' f res by (simp_all add: sandbox_cores_def)
  have "answered_by c b v' x'"
    using assms(3) f res(1) by (auto simp: answered_by_def binding_id)
  then show "sandbox_stored c b v' a" by (rule sandbox_replies.stored_result [OF res(2)])
qed

lemma recordSandboxIntent_effect:
  assumes "run_lc (recordSandboxIntent x b now r) v = (v', Inr a)"
    and "sandboxes_of v (sb_ID (sr_Sandbox r)) = Some r" and "answered_by c b v x"
    and "State_Active (op_State (or_Operation x))"
  shows "sandbox_cores v' = sandbox_cores v" and "containers_of v' = containers_of v" and "sandbox_stored c b v' a"
proof -
  from assms(1) obtain v1 e r' where
    ev: "run_lc (sandboxEvent (or_Operation x) StagePersistIntent ResultPending now None (sr_Sandbox r)
      (sandbox_phase_details (sr_Sandbox r))) v = (v1, Inr e)"
    and obs: "run_lc (observeSandbox r e) v1 = (v', Inr r')"
    and a: "a = sandbox_answer ResolutionNew (or_Operation x) b (Some (sr_Sandbox r'))"
    unfolding recordSandboxIntent_def by (auto elim!: run_bindE)
  note e = appendOperationEvent_effect [OF ev [unfolded sandboxEvent_def]]
  have "sandboxes_of v1 (sb_ID (sr_Sandbox r)) = Some r" using e assms(2) by simp
  note o' = observeSandbox_effect [OF obs this]
  show "sandbox_cores v' = sandbox_cores v" "containers_of v' = containers_of v"
    using e o' by (simp_all add: sandbox_cores_def)
  have "answered_by c b v' x" using assms(3) e o' by (simp add: answered_by_def)
  then show "sandbox_stored c b v' a"
    using assms(4) by (simp add: a answer_stored)
qed

lemma persistSandboxNoop_effect:
  assumes "run_lc (persistSandboxNoop c now b r) v = (v', Inr a)"
    and "sandboxes_of v (sb_ID (sr_Sandbox r)) = Some r"
  shows "sandbox_cores v' = sandbox_cores v" and "containers_of v' = containers_of v" and "sandbox_stored c b v' a"
proof -
  from assms(1) obtain v1 x where
    put: "run_lc (putNewTerminalOperation c b ResultNoop []) v = (v1, Inr x)"
    and rest: "run_lc (concludeSandbox ResolutionNew x ResultNoop now None (sandbox_phase_details (sr_Sandbox r)) r) v1
      = (v', Inr a)"
    unfolding persistSandboxNoop_def by (auto elim!: run_bindE)
  note p = putNew_effect [OF put [unfolded putNewTerminalOperation_def]]
  have "sandboxes_of v1 (sb_ID (sr_Sandbox r)) = Some r" and "answered_by c b v1 x"
    using p assms(2) by (simp_all add: answered_by_def)
  note q = concludeSandbox_effect [OF rest this]
  show "sandbox_cores v' = sandbox_cores v" "containers_of v' = containers_of v" "sandbox_stored c b v' a"
    using p q by (simp_all add: sandbox_cores_def)
qed

lemma putNewActive_effect:
  assumes "run_lc (putNewActiveOperation c b response) v = (v', Inr x)"
  shows "sandboxes_of v' = sandboxes_of v" and "containers_of v' = containers_of v"
    and "answered_by c b v' x" and "State_Active (op_State (or_Operation x))"
    and "op_ID (or_Operation x) = bd_ID b" and "operations_of v' = (operations_of v)(bd_ID b \<mapsto> x)"
  using putNew_effect [OF assms [unfolded putNewActiveOperation_def]]
  by (simp_all add: answered_by_def State_Active_def)

subsection \<open>Moves\<close>

definition phases :: "memory_view \<Rightarrow> sandbox_id \<Rightarrow> sandbox_phase option" where
  "phases v i = map_option (\<lambda>p. ss_Phase (sb_Status (fst p))) (sandbox_cores v i)"

definition moves :: "sandbox_id \<Rightarrow> sandbox_phase option \<times> sandbox_phase option \<Rightarrow> memory_view \<Rightarrow> memory_view \<Rightarrow> bool" where
  "moves i edge v v' \<longleftrightarrow> (phases v i, phases v' i) = edge \<and> (\<forall>j. j \<noteq> i \<longrightarrow> sandbox_cores v' j = sandbox_cores v j)"

lemma phases_at: "phases v i = map_option phase_of (sandboxes_of v i)"
  by (cases "sandboxes_of v i") (simp_all add: phases_def sandbox_cores_def sandbox_core_def phase_of_def)

lemma moves_set:
  assumes "sandbox_cores v' = (sandbox_cores v)(i \<mapsto> sandbox_core r)"
  shows "moves i (phases v i, Some (phase_of r)) v v'"
  by (simp add: moves_def phases_def assms sandbox_core_def phase_of_def)

lemma moves_delete:
  assumes "sandbox_cores v' = (sandbox_cores v)(i := None)"
  shows "moves i (phases v i, None) v v'"
  by (simp add: moves_def phases_def assms)

text \<open>What every command is shown to do: the result is stored, the pairs are left alone, and the
  Sandboxes are left alone or the named one moves along the edge.\<close>

definition sandbox_step ::
    "coordinator \<Rightarrow> binding \<Rightarrow> sandbox_id \<Rightarrow> sandbox_phase option \<times> sandbox_phase option
     \<Rightarrow> memory_view \<Rightarrow> memory_view \<Rightarrow> sandbox_result \<Rightarrow> bool" where
  "sandbox_step c b i edge v v' a \<longleftrightarrow>
     sandbox_stored c b v' a \<and> container_cores v' = container_cores v
     \<and> (sandbox_cores v' = sandbox_cores v \<or> moves i edge v v')"

lemma step_kept:
  "sandbox_stored c b v' a \<Longrightarrow> container_cores v' = container_cores v \<Longrightarrow> sandbox_cores v' = sandbox_cores v \<Longrightarrow>
     sandbox_step c b i edge v v' a"
  by (simp add: sandbox_step_def)

lemma step_moved:
  "sandbox_stored c b v' a \<Longrightarrow> container_cores v' = container_cores v \<Longrightarrow> moves i edge v v' \<Longrightarrow>
     sandbox_step c b i edge v v' a"
  by (simp add: sandbox_step_def)

subsection \<open>Confirmations\<close>

lemma Sandbox_Transition_parts:
  assumes "Sandbox_Transition s after = (s', None)"
  shows "sb_ID s' = sb_ID s" and "ss_Phase (sb_Status s') = after" and "sb_Spec s' = sb_Spec s"
    and "sandbox_allowed (ss_Phase (sb_Status s)) after"
  using assms
  by (auto simp: Sandbox_Transition_def Let_def TransitionSandbox_def split: option.splits sum.splits if_splits)

text \<open>What the confirmation of a transition relies on and what it leaves.\<close>

definition sandbox_confirmed ::
    "coordinator \<Rightarrow> binding \<Rightarrow> sandbox_phase \<Rightarrow> sandbox_phase \<Rightarrow> memory_view \<Rightarrow> memory_view \<Rightarrow> bool" where
  "sandbox_confirmed c b before after v v' \<longleftrightarrow>
     (\<exists>r x s x1 inventory.
        sandboxes_of v (tg_ID (bd_Target b)) = Some r \<and> phase_of r = before
        \<and> answered_by c b v x
        \<and> requireLinuxStage x (if bd_Type b = TypeCreate then StagePrepareNamespaces else StageObserveProcess) = None
        \<and> Sandbox_Transition (sr_Sandbox r) after = (s, None)
        \<and> (if before = SandboxCreating \<and> after = SandboxReady then adoptOperationReceipts x = Inr (x1, inventory)
           else inventory = sr_HostResources r)
        \<and> sandbox_cores v' = (sandbox_cores v)(tg_ID (bd_Target b) \<mapsto>
             sandbox_core (r\<lparr>sr_Sandbox := s, sr_HostResources := inventory\<rparr>)))"

lemma adoptOperationReceipts_parts:
  assumes "adoptOperationReceipts x = Inr (x1, inventory)"
  shows "or_Operation x1 = or_Operation x" and "or_HostProfile x1 = or_HostProfile x"
    and "or_Revision x1 = or_Revision x"
  using assms by (auto simp: adoptOperationReceipts_def OperationRecord_Clone_def)

lemma applySandboxTransition_effect:
  assumes "run_lc (applySandboxTransition x b w before after) v = (v', Inr a)" and "keyed v"
    and "answered_by c b v x" and "OperationRecord_Clone x = x"
  shows "sandbox_confirmed c b before after v v'" and "sandbox_stored c b v' a"
    and "container_cores v' = container_cores v"
proof -
  let ?i = "tg_ID (bd_Target b)"
  from assms(1) obtain r s x1 inventory v2 r1 v3 x2 where
    stage: "requireLinuxStage x (if bd_Type b = TypeCreate then StagePrepareNamespaces else StageObserveProcess) = None"
    and r: "GetSandbox v ?i = Inr r" "phase_of r = before"
    and s: "Sandbox_Transition (sr_Sandbox r) after = (s, None)"
    and adopt: "run_lc (if before = SandboxCreating \<and> after = SandboxReady
        then lift_res (adoptOperationReceipts x) else Yield (x, sr_HostResources r)) v = (v, Inr (x1, inventory))"
    and put: "run_lc (putSandbox (r\<lparr>sr_Sandbox := s, sr_HostResources := inventory\<rparr>) (sr_Revision r)) v = (v2, Inr r1)"
    and comp: "run_lc (completeOperation x1 ResultSucceeded []) v2 = (v3, Inr x2)"
    and concl: "run_lc (concludeSandbox ResolutionResume x2 ResultSucceeded (vf_ObservedAt w) (vf_Duration w)
            (verification_payload w) r1) v3 = (v', Inr a)"
    unfolding applySandboxTransition_def assms(4) run_check_Inr reject_None
    by (elim conjE run_bindE) (fastforce simp: run_check_Inr run_get run_changed_Inr run_lift_res
        elim!: run_bindE split: if_splits)
  have ri: "sandboxes_of v ?i = Some r" using r by (simp add: GetSandbox_Inr)
  have key: "sb_ID s = ?i" using Sandbox_Transition_parts [OF s] keyed_sandbox [OF assms(2) ri] by simp
  have x1: "or_Operation x1 = or_Operation x" "or_HostProfile x1 = or_HostProfile x"
    using adopt adoptOperationReceipts_parts [of x x1 inventory] by (auto simp: run_lift_res split: if_splits)
  note p = putSandbox_effect [OF put, simplified, unfolded key] and k = completeOperation_effect [OF comp, unfolded x1]
  have "sandboxes_of v3 (sb_ID (sr_Sandbox r1)) = Some r1" using p k key by simp
  moreover have "answered_by c b v3 x2"
    using assms(3) k by (auto simp: answered_by_def binding_id)
  ultimately have done': "sandbox_cores v' = sandbox_cores v3" "containers_of v' = containers_of v3"
    "sandbox_stored c b v' a"
    using concludeSandbox_effect [OF concl] by blast+
  show "sandbox_stored c b v' a" "container_cores v' = container_cores v"
    using done' p k by (simp_all add: container_cores_def)
  have "sandbox_cores v' = (sandbox_cores v)(?i \<mapsto> sandbox_core (r\<lparr>sr_Sandbox := s, sr_HostResources := inventory\<rparr>))"
    using done' p k by (simp add: sandbox_cores_def map_option_update)
  then show "sandbox_confirmed c b before after v v'"
    unfolding sandbox_confirmed_def
    using ri r(2) assms(3) stage s adopt by (auto simp: run_lift_res split: if_splits)
qed

lemma confirmed_moves:
  assumes "sandbox_confirmed c b before after v v'"
  shows "moves (tg_ID (bd_Target b)) (Some before, Some after) v v'"
proof -
  from assms obtain r s inventory where r: "sandboxes_of v (tg_ID (bd_Target b)) = Some r" "phase_of r = before"
    and s: "Sandbox_Transition (sr_Sandbox r) after = (s, None)"
    and v': "sandbox_cores v' = (sandbox_cores v)(tg_ID (bd_Target b) \<mapsto>
             sandbox_core (r\<lparr>sr_Sandbox := s, sr_HostResources := inventory\<rparr>))"
    by (auto simp: sandbox_confirmed_def)
  show ?thesis
    using moves_set [OF v'] r Sandbox_Transition_parts [OF s] by (simp add: phases_at phase_of_def)
qed

lemma confirmSandboxTransition_effect:
  assumes "run_lc (confirmSandboxTransition c now b w before after) v = (v', Inr a)" and "keyed v" and "cloned v"
  shows "sandbox_stored c b v' a" and "container_cores v' = container_cores v"
    and "sandbox_cores v' = sandbox_cores v \<or> sandbox_confirmed c b before after v v'"
proof -
  have "sandbox_stored c b v' a \<and> container_cores v' = container_cores v
      \<and> (sandbox_cores v' = sandbox_cores v \<or> sandbox_confirmed c b before after v v')"
    using assms [unfolded confirmSandboxTransition_def]
  proof (cases rule: sandbox_replies.dispatchE)
    case (resume x)
    then show ?thesis using applySandboxTransition_effect [of x b w before after v v' a c] assms(2) by simp
  qed simp_all
  then show "sandbox_stored c b v' a" "container_cores v' = container_cores v"
    "sandbox_cores v' = sandbox_cores v \<or> sandbox_confirmed c b before after v v'" by blast+
qed

lemma confirmSandboxTransition_step:
  assumes "run_lc (confirmSandboxTransition c now b w before after) v = (v', Inr a)" and "keyed v" and "cloned v"
  shows "sandbox_step c b (tg_ID (bd_Target b)) (Some before, Some after) v v' a"
  using confirmSandboxTransition_effect [OF assms] confirmed_moves by (auto simp: sandbox_step_def)

end
