(* ===== verification/Lifecycle_Container_Effects.thy ===== *)
theory Lifecycle_Container_Effects
  imports Lifecycle_Sandbox_Effects
begin

text \<open>
  What the branches of the Container and kill commands do to the candidate: the reply they store, that
  they leave every Sandbox alone but for its reference to the current pair, and that they move at most
  one Attempt.
\<close>

subsection \<open>Replies\<close>

abbreviation container_stored :: "coordinator \<Rightarrow> binding \<Rightarrow> memory_view \<Rightarrow> container_result \<Rightarrow> bool" where
  "container_stored \<equiv> reply_stored containerResultFromRecord yr_Resolution yr_Operation"

interpretation container_replies: replies containerResultFromRecord yr_Resolution yr_Operation
  "\<lambda>n a. a\<lparr>yr_Resolution := n\<rparr>"
  by unfold_locales
    (auto simp: containerResultFromRecord_def Let_def container_result_of_def split: if_splits)

abbreviation kill_stored :: "coordinator \<Rightarrow> binding \<Rightarrow> memory_view \<Rightarrow> kill_result \<Rightarrow> bool" where
  "kill_stored \<equiv> reply_stored killResultFromRecord kl_Resolution kl_Operation"

interpretation kill_replies: replies killResultFromRecord kl_Resolution kl_Operation
  "\<lambda>n a. a\<lparr>kl_Resolution := n\<rparr>"
  by unfold_locales
    (auto simp: killResultFromRecord_def Let_def kill_result_of_def split: if_splits)

lemma container_answer_stored:
  "answered_by c b v x \<Longrightarrow> State_Active (op_State (or_Operation x)) \<Longrightarrow>
     container_stored c b v (container_answer resolution (or_Operation x) b p)"
  by (rule container_replies.stored_active) (simp_all add: container_answer_def)

lemma kill_answer_stored:
  "answered_by c b v x \<Longrightarrow> State_Active (op_State (or_Operation x)) \<Longrightarrow>
     kill_stored c b v (kill_answer resolution (or_Operation x) b plan identity p)"
  by (rule kill_replies.stored_active) (simp_all add: kill_answer_def)

subsection \<open>Moves\<close>

definition attempts :: "memory_view \<Rightarrow> container_id \<Rightarrow> attempt_phase option" where
  "attempts v i = map_option (\<lambda>p. at_Phase (fst (fst p))) (container_cores v i)"

lemma attempts_at: "attempts v i = map_option attempt_phase_of (containers_of v i)"
  by (cases "containers_of v i") (simp_all add: attempts_def container_cores_def container_core_def attempt_phase_of_def)

text \<open>The Sandboxes without their references to the current pair.\<close>

definition unpaired :: "sandbox \<times> receipt list \<Rightarrow> sandbox \<times> receipt list" where
  "unpaired p = ((fst p)\<lparr>sb_Status := (sb_Status (fst p))\<lparr>ss_CurrentContainerID := None, ss_CurrentAttemptID := None\<rparr>\<rparr>,
     snd p)"

definition unpaired_cores :: "memory_view \<Rightarrow> sandbox_id \<Rightarrow> (sandbox \<times> receipt list) option" where
  "unpaired_cores v i = map_option unpaired (sandbox_cores v i)"

lemma unpaired_phases: "unpaired_cores v' = unpaired_cores v \<Longrightarrow> phases v' = phases v"
proof -
  have "phases v i = map_option (\<lambda>p. ss_Phase (sb_Status (fst p))) (unpaired_cores v i)" for v i
    by (simp add: phases_def unpaired_cores_def unpaired_def option.map_comp comp_def)
  then show "unpaired_cores v' = unpaired_cores v \<Longrightarrow> phases v' = phases v" by (simp add: fun_eq_iff)
qed

definition pair_step ::
    "container_id \<Rightarrow> (attempt_phase option \<Rightarrow> attempt_phase option \<Rightarrow> bool) \<Rightarrow> memory_view \<Rightarrow> memory_view \<Rightarrow> bool" where
  "pair_step i may v v' \<longleftrightarrow>
     unpaired_cores v' = unpaired_cores v
     \<and> (container_cores v' = container_cores v \<and> sandbox_cores v' = sandbox_cores v
        \<or> may (attempts v i) (attempts v' i) \<and> (\<forall>j. j \<noteq> i \<longrightarrow> container_cores v' j = container_cores v j))"

lemma pair_kept:
  "container_cores v' = container_cores v \<Longrightarrow> sandbox_cores v' = sandbox_cores v \<Longrightarrow> pair_step i may v v'"
  by (simp add: pair_step_def unpaired_cores_def fun_eq_iff)

lemma pair_step_cong:
  assumes "pair_step i may v1 v'" and "sandboxes_of v1 = sandboxes_of v" and "containers_of v1 = containers_of v"
  shows "pair_step i may v v'"
proof -
  have "sandbox_cores v1 = sandbox_cores v" "container_cores v1 = container_cores v"
    using assms(2,3) by (simp_all add: cores_def)
  then show ?thesis using assms(1) by (simp add: pair_step_def unpaired_cores_def attempts_def fun_eq_iff)
qed

lemma pair_set:
  assumes "container_cores v' = (container_cores v)(i \<mapsto> container_core r)" and "unpaired_cores v' = unpaired_cores v"
    and "may (attempts v i) (Some (attempt_phase_of r))"
  shows "pair_step i may v v'"
  using assms by (simp add: pair_step_def attempts_def container_core_def attempt_phase_of_def)

lemma pair_cut:
  assumes "container_cores v' = (container_cores v)(i := None)" and "unpaired_cores v' = unpaired_cores v"
    and "may (attempts v i) None"
  shows "pair_step i may v v'"
  using assms by (simp add: pair_step_def attempts_def)

lemma same_sandboxes: "sandbox_cores v' = sandbox_cores v \<Longrightarrow> unpaired_cores v' = unpaired_cores v"
  by (simp add: unpaired_cores_def fun_eq_iff)

subsection \<open>Changes of a pair\<close>

abbreviation pair_id :: "container_attempt \<Rightarrow> container_id" where
  "pair_id p \<equiv> co_ID (ca_Container p)"

lemma Pair_Transition_parts:
  assumes "Pair_Transition p after oc = (p', None)"
  shows "pair_id p' = pair_id p" and "at_Phase (ca_Attempt p') = after"
    and "attempt_allowed (at_Phase (ca_Attempt p)) after" and "at_ID (ca_Attempt p') = at_ID (ca_Attempt p)"
    and "at_ProcessIdentity (ca_Attempt p') = at_ProcessIdentity (ca_Attempt p)"
  using assms
  by (auto simp: Pair_Transition_def Let_def TransitionAttempt_def split: option.splits sum.splits if_splits)

lemma Pair_transition_facts:
  "Pair_Transition p after oc = (p', None) \<Longrightarrow> pair_id p' = pair_id p \<and> at_Phase (ca_Attempt p') = after
     \<and> at_ProcessIdentity (ca_Attempt p') = at_ProcessIdentity (ca_Attempt p)"
  using Pair_Transition_parts by blast

lemma Pair_setters_parts:
  "Pair_SetProcessIdentity p i = (p', None) \<Longrightarrow> pair_id p' = pair_id p \<and> at_Phase (ca_Attempt p') = at_Phase (ca_Attempt p)
     \<and> at_ProcessIdentity (ca_Attempt p') = Some i"
  "Pair_SetStreams p s = (p', None) \<Longrightarrow> pair_id p' = pair_id p \<and> at_Phase (ca_Attempt p') = at_Phase (ca_Attempt p)
     \<and> at_ProcessIdentity (ca_Attempt p') = at_ProcessIdentity (ca_Attempt p)"
  "Pair_SetConditions p cs = (p', None) \<Longrightarrow> pair_id p' = pair_id p \<and> at_Phase (ca_Attempt p') = at_Phase (ca_Attempt p)
     \<and> at_ProcessIdentity (ca_Attempt p') = at_ProcessIdentity (ca_Attempt p)"
  "Pair_UpsertCondition p k = (p', None) \<Longrightarrow> pair_id p' = pair_id p \<and> at_Phase (ca_Attempt p') = at_Phase (ca_Attempt p)
     \<and> at_ProcessIdentity (ca_Attempt p') = at_ProcessIdentity (ca_Attempt p)"
  by (auto simp: Pair_SetProcessIdentity_def Pair_SetStreams_def Pair_SetConditions_def Pair_UpsertCondition_def Let_def
      split: option.splits if_splits)

lemma transitionPair_parts:
  assumes "run_lc (transitionPair p w after) v = (v', Inr p')"
  shows "v' = v" and "pair_id p' = pair_id p" and "at_Phase (ca_Attempt p') = after"
    and "vf_ProcessIdentity w = Some i \<Longrightarrow> at_ProcessIdentity (ca_Attempt p') = Some i"
  using assms
  by (auto simp: transitionPair_def run_bind_Inr run_changed_Inr split: option.splits
      dest!: Pair_setters_parts Pair_transition_facts)

subsection \<open>Ends of the Container commands\<close>

lemma concludeContainer_effect:
  assumes "run_lc (concludeContainer resolution x result at duration d r hb) v = (v', Inr a)"
    and "containers_of v (pair_id (cr_ContainerAttempt r)) = Some r" and "answered_by c b v x"
  shows "container_cores v' = container_cores v" and "sandboxes_of v' = sandboxes_of v" and "container_stored c b v' a"
proof -
  from assms(1) obtain v1 e v2 r' response v3 x' where
    ev: "run_lc (containerEvent (or_Operation x) StageComplete result at duration (cr_ContainerAttempt r) d) v = (v1, Inr e)"
    and obs: "run_lc (observeContainer r e) v1 = (v2, Inr r')"
    and fin: "run_lc (finalizeOperationResponse x response) v2 = (v3, Inr x')"
    and res: "v' = v3" "containerResultFromRecord resolution x' = Inr a"
    unfolding concludeContainer_def by (auto elim!: run_bindE simp: encodeResponse_def run_lift_res)
  note e = appendOperationEvent_effect [OF ev [unfolded containerEvent_def Let_def]]
  have "containers_of v1 (pair_id (cr_ContainerAttempt r)) = Some r" using e assms(2) by simp
  note o' = observeContainer_effect [OF obs this] and f = finalizeOperationResponse_effect [OF fin]
  show "container_cores v' = container_cores v" "sandboxes_of v' = sandboxes_of v"
    using e o' f res by (simp_all add: container_cores_def)
  have "answered_by c b v' x'"
    using assms(3) f res(1) by (auto simp: answered_by_def binding_id)
  then show "container_stored c b v' a" by (rule container_replies.stored_result [OF res(2)])
qed

lemma recordContainerIntent_effect:
  assumes "run_lc (recordContainerIntent x b now d r) v = (v', Inr a)"
    and "containers_of v (pair_id (cr_ContainerAttempt r)) = Some r" and "answered_by c b v x"
    and "State_Active (op_State (or_Operation x))"
  shows "container_cores v' = container_cores v" and "sandboxes_of v' = sandboxes_of v" and "container_stored c b v' a"
proof -
  from assms(1) obtain v1 e r' where
    ev: "run_lc (containerEvent (or_Operation x) StagePersistIntent ResultPending now None (cr_ContainerAttempt r) d) v
      = (v1, Inr e)"
    and obs: "run_lc (observeContainer r e) v1 = (v', Inr r')"
    and a: "a = container_answer ResolutionNew (or_Operation x) b (Some (cr_ContainerAttempt r'))"
    unfolding recordContainerIntent_def by (auto elim!: run_bindE)
  note e = appendOperationEvent_effect [OF ev [unfolded containerEvent_def Let_def]]
  have "containers_of v1 (pair_id (cr_ContainerAttempt r)) = Some r" using e assms(2) by simp
  note o' = observeContainer_effect [OF obs this]
  show "container_cores v' = container_cores v" "sandboxes_of v' = sandboxes_of v"
    using e o' by (simp_all add: container_cores_def)
  have "answered_by c b v' x" using assms(3) e o' by (simp add: answered_by_def)
  then show "container_stored c b v' a" using assms(4) by (simp add: a container_answer_stored)
qed

lemma persistContainerNoop_effect:
  assumes "run_lc (persistContainerNoop c now b r) v = (v', Inr a)"
    and "containers_of v (pair_id (cr_ContainerAttempt r)) = Some r"
  shows "container_stored c b v' a" and "pair_step i may v v'"
proof -
  from assms(1) obtain v1 x where
    put: "run_lc (putNewTerminalOperation c b ResultNoop []) v = (v1, Inr x)"
    and rest: "run_lc (concludeContainer ResolutionNew x ResultNoop now None
       (attempt_phase_details (cr_ContainerAttempt r)) r (bd_Type b = TypeCreate)) v1 = (v', Inr a)"
    unfolding persistContainerNoop_def by (auto elim!: run_bindE)
  note p = putNew_effect [OF put [unfolded putNewTerminalOperation_def]]
  have "containers_of v1 (pair_id (cr_ContainerAttempt r)) = Some r" and "answered_by c b v1 x"
    using p assms(2) by (simp_all add: answered_by_def)
  note q = concludeContainer_effect [OF rest this]
  show "container_stored c b v' a" "pair_step i may v v'"
    using p q by (auto intro!: pair_kept simp: cores_def)
qed

end
