(* ===== verification/Lifecycle_Container_Steps.thy ===== *)
theory Lifecycle_Container_Steps
  imports Lifecycle_Container_Effects
begin

text \<open>
  Each branch of the Container and kill commands as one step of the abstract machine on Attempt phases.
\<close>

definition edge :: "attempt_phase option \<times> attempt_phase option \<Rightarrow> attempt_phase option \<Rightarrow> attempt_phase option \<Rightarrow> bool" where
  "edge e p q \<longleftrightarrow> (p, q) = e"

subsection \<open>Branches that keep the pairs\<close>

lemma resumeContainer_step:
  assumes "run_lc (resumeContainer x b i) v = (v', Inr a)" and "answered_by c b v x"
    and "State_Active (op_State (or_Operation x))"
  shows "container_stored c b v' a" and "pair_step j may v v'"
  using assms by (auto simp: resumeContainer_def run_bind_Inr run_get intro!: pair_kept container_answer_stored)

lemma existingContainer_step:
  assumes "run_lc (existingContainer c now q b r) v = (v', Inr a)"
    and "containers_of v (pair_id (cr_ContainerAttempt r)) = Some r"
  shows "container_stored c b v' a" and "pair_step j may v v'"
proof -
  from assms(1) have "run_lc (persistContainerNoop c now b r) v = (v', Inr a)"
    by (auto simp: existingContainer_def run_bind_Inr run_lift_res run_check_Inr)
  from persistContainerNoop_effect [OF this assms(2)]
  show "container_stored c b v' a" "pair_step j may v v'" by simp_all
qed

text \<open>An intent that is recorded for a pair as it is stored.\<close>

lemma intent_step:
  assumes "run_lc (lc_bind (putNewActiveOperation c b []) (\<lambda>x. recordContainerIntent x b now d r)) v = (v', Inr a)"
    and "containers_of v (pair_id (cr_ContainerAttempt r)) = Some r"
  shows "container_stored c b v' a" and "pair_step j may v v'"
proof -
  from assms(1) obtain v1 x where put: "run_lc (putNewActiveOperation c b []) v = (v1, Inr x)"
    and rest: "run_lc (recordContainerIntent x b now d r) v1 = (v', Inr a)"
    by (auto elim!: run_bindE)
  note p = putNewActive_effect [OF put]
  have "containers_of v1 (pair_id (cr_ContainerAttempt r)) = Some r" using assms(2) by (simp add: p)
  note q = recordContainerIntent_effect [OF rest this p(3,4)]
  show "container_stored c b v' a" "pair_step j may v v'"
    using p q by (auto intro!: pair_kept simp: cores_def)
qed

lemma startCreatedContainer_step:
  assumes "run_lc (startCreatedContainer c now b r) v = (v', Inr a)"
    and "containers_of v (pair_id (cr_ContainerAttempt r)) = Some r"
  shows "container_stored c b v' a" and "pair_step j may v v'"
proof -
  note run = assms(1) [unfolded startCreatedContainer_def run_check_Inr, THEN conjunct2]
  show "container_stored c b v' a" "pair_step j may v v'" by (rule intent_step [OF run assms(2)])+
qed

lemma observeRunningContainer_step:
  assumes "run_lc (observeRunningContainer c now b r) v = (v', Inr a)"
    and "containers_of v (pair_id (cr_ContainerAttempt r)) = Some r"
  shows "container_stored c b v' a" and "pair_step j may v v'"
proof -
  note run = assms(1) [unfolded observeRunningContainer_def run_check_Inr, THEN conjunct2]
  show "container_stored c b v' a" "pair_step j may v v'" by (rule intent_step [OF run assms(2)])+
qed

lemma deleteUnknownContainer_step:
  assumes "run_lc (deleteUnknownContainer c now b) v = (v', Inr a)"
  shows "container_stored c b v' a" and "pair_step j may v v'"
proof -
  from assms obtain v1 x e where put: "run_lc (putNewActiveOperation c b []) v = (v1, Inr x)"
    and ev: "run_lc (appendOperationEvent (or_Operation x) StagePersistIntent ResultPending now None 0 0
        absent_details []) v1 = (v', Inr e)"
    and a: "a = container_answer ResolutionNew (or_Operation x) b None"
    unfolding deleteUnknownContainer_def by (auto elim!: run_bindE)
  note p = putNewActive_effect [OF put] and e = appendOperationEvent_effect [OF ev]
  show "container_stored c b v' a" "pair_step j may v v'"
    using p e by (auto intro!: pair_kept simp: a cores_def answered_by_def container_answer_stored)
qed

lemma deleteAbsentContainer_step:
  assumes "run_lc (deleteAbsentContainer x w) v = (v', Inr a)" and "answered_by c b v x"
  shows "container_stored c b v' a" and "pair_step j may v v'"
proof -
  from assms(1) obtain response v1 x1 e where
    comp: "run_lc (completeOperation x ResultNoop response) v = (v1, Inr x1)"
    and ev: "run_lc (appendOperationEvent (or_Operation x1) StageComplete ResultNoop (vf_ObservedAt w) (vf_Duration w)
       0 0 (verification_payload w) []) v1 = (v', Inr e)"
    and res: "containerResultFromRecord ResolutionResume x1 = Inr a"
    unfolding deleteAbsentContainer_def
    by (auto elim!: run_bindE simp: run_check_Inr run_lift_res encodeResponse_def)
  note k = completeOperation_effect [OF comp] and e = appendOperationEvent_effect [OF ev]
  have "answered_by c b v' x1" using assms(2) k e by (auto simp: answered_by_def binding_id)
  then show "container_stored c b v' a" by (rule container_replies.stored_result [OF res])
  show "pair_step j may v v'" using k e by (auto intro!: pair_kept simp: cores_def)
qed

subsection \<open>Branches that move a pair\<close>

text \<open>The pair is stored, its operation ends, and the command concludes.\<close>

lemma stored_then_concluded:
  assumes "run_lc (putContainer r n) v = (v1, Inr r1)"
    and "sandboxes_of v2 = sandboxes_of v1" and "containers_of v2 = containers_of v1" and "answered_by c b v2 x"
    and "run_lc (concludeContainer resolution x result at duration d r1 hb) v2 = (v', Inr a)"
  shows "container_stored c b v' a" and "sandboxes_of v' = sandboxes_of v"
    and "container_cores v' = (container_cores v)(pair_id (cr_ContainerAttempt r) \<mapsto> container_core r)"
proof -
  note p = putContainer_effect [OF assms(1)]
  have "containers_of v2 (pair_id (cr_ContainerAttempt r1)) = Some r1" using p assms(3) by simp
  note q = concludeContainer_effect [OF assms(5) this assms(4)]
  show "container_stored c b v' a" "sandboxes_of v' = sandboxes_of v"
    "container_cores v' = (container_cores v)(pair_id (cr_ContainerAttempt r) \<mapsto> container_core r)"
    using p q assms(2,3) by (simp_all add: container_cores_def map_option_update)
qed

lemma completed_answers:
  assumes "run_lc (completeOperation x result response) v = (v', Inr x')" and "answered_by c b v0 x"
  shows "answered_by c b v' x'" and "sandboxes_of v' = sandboxes_of v" and "containers_of v' = containers_of v"
  using completeOperation_effect [OF assms(1)] assms(2) by (auto simp: answered_by_def binding_id)

lemma failed_answers:
  assumes "run_lc (failOperation x reason response) v = (v', Inr x')" and "answered_by c b v0 x"
  shows "answered_by c b v' x'" and "sandboxes_of v' = sandboxes_of v" and "containers_of v' = containers_of v"
  using failOperation_effect [OF assms(1)] assms(2) by (auto simp: answered_by_def binding_id)

lemma concluded_step:
  assumes "run_lc (putContainer r n) v = (v1, Inr r1)"
    and "answered_by c b v2 x" and "sandboxes_of v2 = sandboxes_of v1" and "containers_of v2 = containers_of v1"
    and "run_lc (concludeContainer resolution x result at duration d r1 hb) v2 = (v', Inr a)"
    and "pair_id (cr_ContainerAttempt r) = i" and "may (attempts v i) (Some (attempt_phase_of r))"
  shows "container_stored c b v' a" and "pair_step i may v v'"
proof -
  note q = stored_then_concluded [OF assms(1,3,4,2,5)]
  show "container_stored c b v' a" by (fact q(1))
  have "unpaired_cores v' = unpaired_cores v" using q(2) by (intro same_sandboxes) (simp add: sandbox_cores_def)
  with q(3) show "pair_step i may v v'" unfolding assms(6) by (rule pair_set) (fact assms(7))
qed

lemma applyContainerTransition_step:
  assumes "run_lc (applyContainerTransition x b w before after) v = (v', Inr a)" and "keyed v"
    and "answered_by c b v x" and "OperationRecord_Clone x = x"
  shows "container_stored c b v' a"
    and "pair_step (tg_ID (bd_Target b)) (edge (Some before, Some after)) v v'"
proof -
  let ?i = "tg_ID (bd_Target b)"
  from assms(1) obtain r p x1 inventory v2 r1 v3 x2 where
    r: "GetContainerAttempt v ?i = Inr r" "attempt_phase_of r = before"
    and p: "run_lc (transitionPair (cr_ContainerAttempt r) w after) v = (v, Inr p)"
    and adopt: "run_lc (if before = AttemptCreating \<and> after = AttemptCreated
        then lift_res (adoptOperationReceipts x) else Yield (x, cr_HostResources r)) v = (v, Inr (x1, inventory))"
    and put: "run_lc (putContainer (r\<lparr>cr_ContainerAttempt := p, cr_HostResources := inventory\<rparr>) (cr_Revision r)) v
        = (v2, Inr r1)"
    and comp: "run_lc (completeOperation x1 ResultSucceeded []) v2 = (v3, Inr x2)"
    and concl: "run_lc (concludeContainer ResolutionResume x2 ResultSucceeded (vf_ObservedAt w) (vf_Duration w)
            (verification_payload w) r1 (bd_Type b = TypeCreate)) v3 = (v', Inr a)"
    unfolding applyContainerTransition_def assms(4) run_check_Inr reject_None
    by (elim conjE run_bindE) (fastforce simp: run_check_Inr run_get run_lift_res
        elim!: run_bindE dest: transitionPair_parts(1) split: if_splits)
  have ri: "containers_of v ?i = Some r" using r by (simp add: GetContainerAttempt_Inr)
  have key: "pair_id p = ?i" and phase: "at_Phase (ca_Attempt p) = after"
    using transitionPair_parts [OF p] keyed_container [OF assms(2) ri] by simp_all
  have x1: "or_Operation x1 = or_Operation x" "or_HostProfile x1 = or_HostProfile x"
    using adopt adoptOperationReceipts_parts [of x x1 inventory] by (auto simp: run_lift_res split: if_splits)
  note k = completeOperation_effect [OF comp, unfolded x1]
  have ans: "answered_by c b v3 x2" using assms(3) k by (auto simp: answered_by_def binding_id)
  show "container_stored c b v' a" "pair_step ?i (edge (Some before, Some after)) v v'"
    using concluded_step [where may = "edge (Some before, Some after)" and i = ?i, OF put ans k(2,3) concl]
      key phase r(2) ri by (simp_all add: edge_def attempts_at attempt_phase_of_def)
qed

lemma stopFailedContainer_step:
  assumes "run_lc (stopFailedContainer x f w i) v = (v', Inr a)" and "keyed v" and "answered_by c b v x"
  shows "container_stored c b v' a" and "pair_step i (edge (Some AttemptCreating, Some AttemptStopped)) v v'"
proof -
  from assms(1) obtain r p1 p2 v1 r1 v2 x1 where
    r: "GetContainerAttempt v i = Inr r" "attempt_phase_of r = AttemptCreating"
    and p: "Pair_UpsertCondition (cr_ContainerAttempt r) \<lparr>cond_Type = ConditionFailure,
        cond_Reason = Reason_string (fa_Reason f), cond_Message = fa_Message f\<rparr> = (p1, None)"
      "Pair_Transition p1 AttemptStopped NotApplicableOutcome = (p2, None)"
    and put: "run_lc (putContainer (r\<lparr>cr_ContainerAttempt := p2\<rparr>) (cr_Revision r)) v = (v1, Inr r1)"
    and fl: "run_lc (failOperation x (fa_Reason f) []) v1 = (v2, Inr x1)"
    and concl: "run_lc (concludeContainer ResolutionResume x1 ResultFailed (vf_ObservedAt w) (vf_Duration w)
          (failure_payload f w) r1 False) v2 = (v', Inr a)"
    unfolding stopFailedContainer_def
    by (auto elim!: run_bindE simp: run_check_Inr run_get run_changed_Inr)
  have ri: "containers_of v i = Some r" using r by (simp add: GetContainerAttempt_Inr)
  have key: "pair_id p2 = i" and phase: "at_Phase (ca_Attempt p2) = AttemptStopped"
    using Pair_setters_parts(4) [OF p(1)] Pair_transition_facts [OF p(2)] keyed_container [OF assms(2) ri] by simp_all
  show "container_stored c b v' a" "pair_step i (edge (Some AttemptCreating, Some AttemptStopped)) v v'"
    using concluded_step [where may = "edge (Some AttemptCreating, Some AttemptStopped)" and i = i,
        OF put failed_answers [OF fl assms(3)] concl] key phase r(2) ri
    by (simp_all add: edge_def attempts_at attempt_phase_of_def)
qed

lemma terminalPair_parts:
  assumes "run_lc (terminalPair p oc) v = (v', Inr p')"
  shows "v' = v" and "pair_id p' = pair_id p" and "at_Phase (ca_Attempt p') = AttemptStopped"
  using assms
  by (auto simp: terminalPair_def run_bind_Inr run_changed_Inr split: if_splits dest!: Pair_transition_facts)

lemma recordStartTerminal_step:
  assumes "run_lc (recordStartTerminal x q) v = (v', Inr a)" and "keyed v" and "answered_by c b v x"
  shows "container_stored c b v' a"
    and "pair_step (yt_ContainerID q) (edge (Some AttemptCreated, Some AttemptStopped)) v v'"
proof -
  let ?i = "yt_ContainerID q" and ?w = "yt_Verification q"
  from assms(1) obtain r p1 p2 v1 r1 v2 x1 where
    r: "GetContainerAttempt v ?i = Inr r" "attempt_phase_of r = AttemptCreated"
    and p: "Pair_SetConditions (cr_ContainerAttempt r) (yt_Conditions q) = (p1, None)"
      "run_lc (terminalPair p1 (yt_Outcome q)) v = (v, Inr p2)"
    and put: "run_lc (putContainer (r\<lparr>cr_ContainerAttempt := p2\<rparr>) (cr_Revision r)) v = (v1, Inr r1)"
    and fin: "run_lc (if yt_OperationFailed q then failOperation x ReasonInternal []
                else completeOperation x ResultSucceeded []) v1 = (v2, Inr x1)"
    and concl: "run_lc (concludeContainer ResolutionResume x1
          (if yt_OperationFailed q then ResultFailed else ResultSucceeded)
          (vf_ObservedAt ?w) (vf_Duration ?w) (verification_payload ?w) r1 False) v2 = (v', Inr a)"
    unfolding recordStartTerminal_def Let_def run_check_Inr reject_None
    by (elim conjE run_bindE) (fastforce simp: run_check_Inr run_get run_changed_Inr
        elim!: run_bindE dest: terminalPair_parts(1))
  have ri: "containers_of v ?i = Some r" using r by (simp add: GetContainerAttempt_Inr)
  have key: "pair_id p2 = ?i" and phase: "at_Phase (ca_Attempt p2) = AttemptStopped"
    using Pair_setters_parts(3) [OF p(1)] terminalPair_parts [OF p(2)] keyed_container [OF assms(2) ri] by simp_all
  have ans: "answered_by c b v2 x1" "sandboxes_of v2 = sandboxes_of v1" "containers_of v2 = containers_of v1"
    using fin failed_answers [OF _ assms(3), of ReasonInternal "[]" v1 v2 x1]
      completed_answers [OF _ assms(3), of ResultSucceeded "[]" v1 v2 x1] by (auto split: if_splits)
  show "container_stored c b v' a" "pair_step ?i (edge (Some AttemptCreated, Some AttemptStopped)) v v'"
    using concluded_step [where may = "edge (Some AttemptCreated, Some AttemptStopped)" and i = ?i,
        OF put ans concl] key phase r(2) ri
    by (simp_all add: edge_def attempts_at attempt_phase_of_def)
qed

text \<open>A pair that is stored before the intent of its command.\<close>

lemma stored_then_recorded:
  assumes "run_lc (putContainer r n) v = (v1, Inr r1)"
    and "containers_of v2 = containers_of v1" and "answered_by c b v2 x" and "State_Active (op_State (or_Operation x))"
    and "run_lc (recordContainerIntent x b now d r1) v2 = (v', Inr a)"
  shows "container_stored c b v' a" and "sandboxes_of v' = sandboxes_of v2"
    and "container_cores v' = (container_cores v)(pair_id (cr_ContainerAttempt r) \<mapsto> container_core r)"
proof -
  note p = putContainer_effect [OF assms(1)]
  have "containers_of v2 (pair_id (cr_ContainerAttempt r1)) = Some r1" using p assms(2) by simp
  note q = recordContainerIntent_effect [OF assms(5) this assms(3,4)]
  show "container_stored c b v' a" "sandboxes_of v' = sandboxes_of v2"
    "container_cores v' = (container_cores v)(pair_id (cr_ContainerAttempt r) \<mapsto> container_core r)"
    using p q assms(2) by (simp_all add: container_cores_def map_option_update)
qed

lemma deleteKnownContainer_step:
  assumes "run_lc (deleteKnownContainer c now b r) v = (v', Inr a)"
    and "containers_of v i = Some r" and "pair_id (cr_ContainerAttempt r) = i"
  shows "container_stored c b v' a"
    and "pair_step i (\<lambda>p q. (p = Some AttemptCreated \<or> p = Some AttemptStopped) \<and> q = Some AttemptStopped) v v'"
proof -
  from assms(1) obtain p v1 x v2 r1 where
    p: "run_lc (if attempt_phase_of r = AttemptCreated
             then changed (Pair_Transition (cr_ContainerAttempt r) AttemptStopped NotApplicableOutcome)
             else if attempt_phase_of r = AttemptStopped then Yield (cr_ContainerAttempt r)
             else Abort attempt_precondition) v = (v, Inr p)"
    and op: "run_lc (putNewActiveOperation c b []) v = (v1, Inr x)"
    and put: "run_lc (putContainer (r\<lparr>cr_ContainerAttempt := p\<rparr>) (cr_Revision r)) v1 = (v2, Inr r1)"
    and rest: "run_lc (recordContainerIntent x b now (attempt_phase_details (cr_ContainerAttempt r1)) r1) v2 = (v', Inr a)"
    unfolding deleteKnownContainer_def
    by (elim run_bindE) (fastforce simp: run_changed_Inr split: if_splits)
  have p': "pair_id p = i" "at_Phase (ca_Attempt p) = AttemptStopped"
    and phase: "attempt_phase_of r = AttemptCreated \<or> attempt_phase_of r = AttemptStopped"
    using p assms(3)
    by (auto simp: run_changed_Inr attempt_phase_of_def split: if_splits dest!: Pair_transition_facts)
  note x = putNewActive_effect [OF op] and w = putContainer_effect [OF put]
  have ans: "answered_by c b v2 x" using x w by (simp add: answered_by_def)
  note q = stored_then_recorded [OF put refl ans x(4) rest]
  show "container_stored c b v' a" by (fact q(1))
  have "unpaired_cores v' = unpaired_cores v" using q(2) w x by (intro same_sandboxes) (simp add: sandbox_cores_def)
  moreover have "container_cores v' = (container_cores v)(i \<mapsto> container_core (r\<lparr>cr_ContainerAttempt := p\<rparr>))"
    using q(3) x p' by (simp add: container_cores_def)
  ultimately show "pair_step i (\<lambda>p q. (p = Some AttemptCreated \<or> p = Some AttemptStopped) \<and> q = Some AttemptStopped) v v'"
    by (intro pair_set) (use phase p' assms(2) in \<open>auto simp: attempts_at attempt_phase_of_def\<close>)
qed

lemma SetCurrentPair_parts:
  assumes "Sandbox_SetCurrentPair s i j = (s', None)"
  shows "s' = s\<lparr>sb_Status := (sb_Status s)\<lparr>ss_CurrentContainerID := Some i, ss_CurrentAttemptID := Some j\<rparr>\<rparr>"
  using assms by (auto simp: Sandbox_SetCurrentPair_def Let_def split: option.splits)

lemma ClearCurrentPair_parts:
  assumes "Sandbox_ClearCurrentPair s i j = (s', None)"
  shows "s' = s\<lparr>sb_Status := (sb_Status s)\<lparr>ss_CurrentContainerID := None, ss_CurrentAttemptID := None\<rparr>\<rparr>"
  using assms by (auto simp: Sandbox_ClearCurrentPair_def Let_def split: if_splits)

lemma unpaired_put:
  assumes "run_lc (putSandbox (s\<lparr>sr_Sandbox := s'\<rparr>) n) v = (v', Inr r)" and "sandboxes_of v (sb_ID (sr_Sandbox s)) = Some s"
    and "s' = (sr_Sandbox s)\<lparr>sb_Status := (sb_Status (sr_Sandbox s))\<lparr>ss_CurrentContainerID := x, ss_CurrentAttemptID := y\<rparr>\<rparr>"
  shows "unpaired_cores v' = unpaired_cores v"
  using putSandbox_effect [OF assms(1)] assms(2)
  by (auto simp: unpaired_cores_def sandbox_cores_def assms(3) unpaired_def sandbox_core_def fun_eq_iff)

lemma newContainer_step:
  assumes "run_lc (newContainer c now q b) v = (v', Inr a)" and "keyed v" and "containers_of v (yc_ContainerID q) = None"
  shows "container_stored c b v' a" and "pair_step (yc_ContainerID q) (edge (None, Some AttemptCreating)) v v'"
proof -
  let ?i = "yc_ContainerID q"
  let ?d = "\<lambda>p. details [(''attempt_id'', at_ID (ca_Attempt p)), (''phase'', AttemptPhase_text (at_Phase (ca_Attempt p)))]"
  from assms(1) obtain s p s' v1 x v2 r v3 s1 where
    s: "GetSandbox v (yc_SandboxID q) = Inr s"
    and p: "NewContainerAttempt (sr_Sandbox s) ?i (yc_AttemptID q) (yc_Process q) (yc_ImageDigest q) (yc_RootFS q) = Inr p"
    and s': "Sandbox_SetCurrentPair (sr_Sandbox s) ?i (yc_AttemptID q) = (s', None)"
    and op: "run_lc (putNewActiveOperation c b []) v = (v1, Inr x)"
    and put: "run_lc (putContainer (NewContainerAttemptRecord p) 0) v1 = (v2, Inr r)"
    and sput: "run_lc (putSandbox (s\<lparr>sr_Sandbox := s'\<rparr>) (sr_Revision s)) v2 = (v3, Inr s1)"
    and rest: "run_lc (recordContainerIntent x b now (?d p) r) v3 = (v', Inr a)"
    unfolding newContainer_def
    by (auto elim!: run_bindE simp: run_check_Inr run_get run_changed_Inr run_lift_res map_sum_def split: sum.splits)
  have p': "pair_id p = ?i" "at_Phase (ca_Attempt p) = AttemptCreating"
    using p by (auto simp: NewContainerAttempt_def Let_def projectAttempt_def)
  have si: "sandboxes_of v (yc_SandboxID q) = Some s" using s by (simp add: GetSandbox_Inr)
  note x = putNewActive_effect [OF op] and w = putContainer_effect [OF put] and y = putSandbox_effect [OF sput]
  have ans: "answered_by c b v3 x" using x w y by (simp add: answered_by_def)
  note q = stored_then_recorded [OF put y(2) ans x(4) rest]
  show "container_stored c b v' a" by (fact q(1))
  have "sandboxes_of v2 (sb_ID (sr_Sandbox s)) = Some s"
    using si x w keyed_sandbox [OF assms(2) si] by simp
  from unpaired_put [OF sput this SetCurrentPair_parts [OF s']]
  have "unpaired_cores v' = unpaired_cores v"
    using q(2) w x by (simp add: unpaired_cores_def sandbox_cores_def fun_eq_iff)
  moreover have "container_cores v' = (container_cores v)(?i \<mapsto> container_core (NewContainerAttemptRecord p))"
    using q(3) x p' by (simp add: container_cores_def NewContainerAttemptRecord_def)
  ultimately show "pair_step ?i (edge (None, Some AttemptCreating)) v v'"
    using p' by (auto intro!: pair_set simp: edge_def attempts_at assms(3) attempt_phase_of_def NewContainerAttemptRecord_def)
qed

lemma clearCurrentPair_effect:
  assumes "run_lc (clearCurrentPair s i j) v = (v', Inr u)" and "sandboxes_of v (sb_ID (sr_Sandbox s)) = Some s"
  shows "containers_of v' = containers_of v" and "operations_of v' = operations_of v"
    and "unpaired_cores v' = unpaired_cores v"
proof -
  have "containers_of v' = containers_of v \<and> operations_of v' = operations_of v \<and> unpaired_cores v' = unpaired_cores v"
  proof (cases "currentPairMatches (sr_Sandbox s) i j")
    case True
    with assms(1) obtain s' r where s': "Sandbox_ClearCurrentPair (sr_Sandbox s) i j = (s', None)"
      and put: "run_lc (putSandbox (s\<lparr>sr_Sandbox := s'\<rparr>) (sr_Revision s)) v = (v', Inr r)"
      by (auto simp: clearCurrentPair_def run_bind_Inr run_changed_Inr)
    show ?thesis
      using putSandbox_effect [OF put] unpaired_put [OF put assms(2) ClearCurrentPair_parts [OF s']] by simp
  qed (use assms(1) in \<open>simp add: clearCurrentPair_def\<close>)
  then show "containers_of v' = containers_of v" "operations_of v' = operations_of v"
    "unpaired_cores v' = unpaired_cores v" by simp_all
qed

lemma deleteStoppedContainer_step:
  assumes "run_lc (deleteStoppedContainer x w i r) v = (v', Inr a)" and "keyed v"
    and "containers_of v i = Some r" and "answered_by c b v x"
  shows "container_stored c b v' a" and "pair_step i (edge (Some AttemptStopped, None)) v v'"
    and "validateCompleteCleanupReleases x (cr_HostResources r) = None"
proof -
  let ?p = "cr_ContainerAttempt r"
  from assms(1) obtain hb s v1 u v2 r1 response v3 x1 v4 e v5 r2 u' where
    stopped: "attempt_phase_of r = AttemptStopped"
    and rel: "validateCompleteCleanupReleases x (cr_HostResources r) = None"
    and s: "GetSandbox v (co_SandboxID (ca_Container ?p)) = Inr s"
    and clear: "run_lc (clearCurrentPair s (pair_id ?p) (at_ID (ca_Attempt ?p))) v = (v1, Inr u)"
    and put: "run_lc (putContainer (r\<lparr>cr_HostResources := []\<rparr>) (cr_Revision r)) v1 = (v2, Inr r1)"
    and comp: "run_lc (completeOperation x ResultSucceeded response) v2 = (v3, Inr x1)"
    and ev: "run_lc (containerEvent (or_Operation x1) StageComplete ResultSucceeded (vf_ObservedAt w) (vf_Duration w) ?p
        (verification_payload w)) v3 = (v4, Inr e)"
    and obs: "run_lc (observeContainer r1 e) v4 = (v5, Inr r2)"
    and del: "run_lc (deleteContainer i (cr_Revision r2)) v5 = (v', Inr u')"
    and res: "containerResultFromRecord ResolutionResume x1 = Inr a"
    unfolding deleteStoppedContainer_def Let_def
    by (auto elim!: run_bindE simp: run_check_Inr run_get run_lift_res encodeResponse_def)
  have si: "sandboxes_of v (co_SandboxID (ca_Container ?p)) = Some s" using s by (simp add: GetSandbox_Inr)
  have key: "pair_id ?p = i" by (rule keyed_container [OF assms(2,3)])
  have "sandboxes_of v (sb_ID (sr_Sandbox s)) = Some s" using si keyed_sandbox [OF assms(2) si] by simp
  note cl = clearCurrentPair_effect [OF clear this]
  note p = putContainer_effect [OF put, simplified, unfolded key] and k = completeOperation_effect [OF comp]
    and e = appendOperationEvent_effect [OF ev [unfolded containerEvent_def Let_def]]
    and d = deleteContainer_effect [OF del]
  have "containers_of v4 (pair_id (cr_ContainerAttempt r1)) = Some r1" using p k e key by simp
  note o' = observeContainer_effect [OF obs this]
  have "container_cores v5 = (container_cores v)(i \<mapsto> container_core (r\<lparr>cr_HostResources := []\<rparr>))"
    using o' e k p cl by (simp add: container_cores_def map_option_update)
  then have gone: "container_cores v' = (container_cores v)(i := None)"
    using d by (simp add: container_cores_def map_option_delete)
  have frame: "unpaired_cores v' = unpaired_cores v"
    using cl(3) d o' e k p by (simp add: unpaired_cores_def sandbox_cores_def fun_eq_iff)
  have "answered_by c b v' x1" using assms(4) k e o' d p cl by (auto simp: answered_by_def binding_id)
  then show "container_stored c b v' a" by (rule container_replies.stored_result [OF res])
  show "pair_step i (edge (Some AttemptStopped, None)) v v'"
    using gone frame by (rule pair_cut) (simp add: edge_def attempts_at assms(3) stopped)
  show "validateCompleteCleanupReleases x (cr_HostResources r) = None" by (fact rel)
qed

subsection \<open>Terminal observations\<close>

text \<open>The record that the observation completes answers the request, and only the operations and events
  have changed.\<close>

lemma stoppedOperation_effect:
  assumes "run_lc (stoppedOperation c now b p resolved) v = (v', Inr (x, p', n))"
    and "resolved \<noteq> ResolvedNew \<Longrightarrow> \<exists>y. resolved = ResolvedResume y \<and> answered_by c b v y"
  shows "answered_by c b v' x" and "sandboxes_of v' = sandboxes_of v" and "containers_of v' = containers_of v"
    and "pair_id p' = pair_id p" and "at_Phase (ca_Attempt p') = at_Phase (ca_Attempt p)"
proof -
  have "answered_by c b v' x \<and> sandboxes_of v' = sandboxes_of v \<and> containers_of v' = containers_of v
    \<and> pair_id p' = pair_id p \<and> at_Phase (ca_Attempt p') = at_Phase (ca_Attempt p)"
  proof (cases resolved)
    case ResolvedNew
    with assms(1) obtain v1 e where op: "run_lc (putNewActiveOperation c b []) v = (v1, Inr x)"
      and ev: "run_lc (containerEvent (or_Operation x) StagePersistIntent ResultPending now None p
           (details [(''phase'', ''terminal_observation'')])) v1 = (v', Inr e)"
      and ob: "Pair_SetLastObservation p (lifecycleObservation e) = (p', None)"
      by (auto simp: stoppedOperation_def run_changed_Inr elim!: run_bindE)
    show ?thesis
      using putNewActive_effect [OF op] appendOperationEvent_effect [OF ev [unfolded containerEvent_def Let_def]]
        set_observation_pair [OF ob] by (simp add: answered_by_def)
  qed (use assms in \<open>auto simp: stoppedOperation_def\<close>)
  then show "answered_by c b v' x" "sandboxes_of v' = sandboxes_of v" "containers_of v' = containers_of v"
    "pair_id p' = pair_id p" "at_Phase (ca_Attempt p') = at_Phase (ca_Attempt p)" by simp_all
qed

text \<open>Any Attempt that may stop is stopped.\<close>

definition may_stop :: "attempt_phase option \<Rightarrow> attempt_phase option \<Rightarrow> bool" where
  "may_stop p q \<longleftrightarrow> (\<exists>r. p = Some r \<and> attempt_allowed r AttemptStopped) \<and> q = Some AttemptStopped"

lemma recordStoppedInTx_step:
  assumes "run_lc (recordStoppedInTx c now b oc cs w resolved) v = (v', Inr a)" and "keyed v"
    and "resolved \<noteq> ResolvedNew \<Longrightarrow> \<exists>y. resolved = ResolvedResume y \<and> answered_by c b v y"
  shows "container_stored c b v' a" and "pair_step (tg_ID (bd_Target b)) may_stop v v'"
proof -
  let ?i = "tg_ID (bd_Target b)"
  from assms(1) obtain r where r: "containers_of v ?i = Some r"
    and rest: "run_lc (if attempt_phase_of r = AttemptStopped
      then check (reject (resolved \<noteq> ResolvedNew) attempt_precondition) (persistContainerNoop c now b r)
      else
        lc_bind (changed (Pair_SetConditions (cr_ContainerAttempt r) cs)) (\<lambda>p1.
        lc_bind (changed (Pair_Transition p1 AttemptStopped oc)) (\<lambda>p2.
        lc_bind (stoppedOperation c now b p2 resolved) (\<lambda>(x, p3, resolution).
        lc_bind (putContainer (r\<lparr>cr_ContainerAttempt := p3\<rparr>) (cr_Revision r)) (\<lambda>r1.
        lc_bind (completeOperation x ResultSucceeded []) (\<lambda>x1.
          concludeContainer resolution x1 ResultSucceeded (vf_ObservedAt w) (vf_Duration w)
            (verification_payload w) r1 False)))))) v = (v', Inr a)"
    unfolding recordStoppedInTx_def by (elim run_bindE) (simp add: run_get GetContainerAttempt_Inr)
  have key: "pair_id (cr_ContainerAttempt r) = ?i" by (rule keyed_container [OF assms(2) r])
  have "container_stored c b v' a \<and> pair_step ?i may_stop v v'"
  proof (cases "attempt_phase_of r = AttemptStopped")
    case True
    then have "run_lc (persistContainerNoop c now b r) v = (v', Inr a)" using rest by (simp add: run_check_Inr)
    from persistContainerNoop_effect [OF this] show ?thesis using r key by simp
  next
    case False
    with rest obtain p1 p2 v1 x p3 n v2 r1 v3 x1 where
      p: "Pair_SetConditions (cr_ContainerAttempt r) cs = (p1, None)" "Pair_Transition p1 AttemptStopped oc = (p2, None)"
      and st: "run_lc (stoppedOperation c now b p2 resolved) v = (v1, Inr (x, p3, n))"
      and put: "run_lc (putContainer (r\<lparr>cr_ContainerAttempt := p3\<rparr>) (cr_Revision r)) v1 = (v2, Inr r1)"
      and comp: "run_lc (completeOperation x ResultSucceeded []) v2 = (v3, Inr x1)"
      and concl: "run_lc (concludeContainer n x1 ResultSucceeded (vf_ObservedAt w) (vf_Duration w)
            (verification_payload w) r1 False) v3 = (v', Inr a)"
      by (auto elim!: run_bindE simp: run_changed_Inr)
    note t = stoppedOperation_effect [OF st assms(3)]
    have p3: "pair_id p3 = ?i" "at_Phase (ca_Attempt p3) = AttemptStopped"
      and from_phase: "attempt_allowed (attempt_phase_of r) AttemptStopped"
      using t(4,5) key Pair_setters_parts(3) [OF p(1)] Pair_Transition_parts [OF p(2)]
      by (simp_all add: attempt_phase_of_def)
    have "container_stored c b v' a \<and> pair_step ?i may_stop v1 v'"
      using concluded_step [where may = may_stop and i = ?i, OF put completed_answers [OF comp t(1)] concl]
        p3 from_phase r t(3) by (simp add: attempts_at attempt_phase_of_def may_stop_def)
    then show ?thesis using pair_step_cong [OF _ t(2,3)] by blast
  qed
  then show "container_stored c b v' a" "pair_step ?i may_stop v v'" by simp_all
qed

subsection \<open>Kill\<close>

text \<open>The process that a kill plan names: the pair runs, the identity is the one recorded when its start
  was confirmed, and the verifier has just confirmed it.\<close>

lemma verifyKillTarget_Inr:
  "verifyKillTarget c t p = Inr i \<longleftrightarrow>
     at_Phase (ca_Attempt p) = AttemptRunning \<and> at_ProcessIdentity (ca_Attempt p) = Some i
     \<and> ProcessIdentity_Validate i = None \<and> co_verifier c t i = None"
  by (auto simp: verifyKillTarget_def split: option.splits)

lemma resumeKill_step:
  assumes "run_lc (resumeKill c b i x) v = (v', Inr a)" and "answered_by c b v x"
    and "State_Active (op_State (or_Operation x))"
  shows "kill_stored c b v' a" and "pair_step j may v v'"
    and "\<exists>r. containers_of v i = Some r \<and> verifyKillTarget c (bd_Target b) (cr_ContainerAttempt r) = Inr (kl_ProcessIdentity a)"
proof -
  from assms(1) obtain plan r identity where r: "GetContainerAttempt v i = Inr r"
    and ver: "verifyKillTarget c (bd_Target b) (cr_ContainerAttempt r) = Inr identity" and v': "v' = v"
    and a: "a = kill_answer ResolutionResume (or_Operation x) b plan identity (cr_ContainerAttempt r)"
    by (auto simp: resumeKill_def run_bind_Inr run_get run_lift_res)
  show "kill_stored c b v' a" unfolding a v' by (rule kill_answer_stored [OF assms(2,3)])
  show "pair_step j may v v'" by (simp add: v' pair_kept)
  show "\<exists>r. containers_of v i = Some r \<and> verifyKillTarget c (bd_Target b) (cr_ContainerAttempt r) = Inr (kl_ProcessIdentity a)"
    using r ver by (auto simp: a kill_answer_def GetContainerAttempt_Inr)
qed

lemma newKillPlan_step:
  assumes "run_lc (newKillPlan c now b policy r) v = (v', Inr a)"
    and "containers_of v (pair_id (cr_ContainerAttempt r)) = Some r"
  shows "kill_stored c b v' a" and "pair_step j may v v'"
    and "verifyKillTarget c (bd_Target b) (cr_ContainerAttempt r) = Inr (kl_ProcessIdentity a)"
proof -
  let ?p = "cr_ContainerAttempt r"
  let ?d = "details [(''phase'', AttemptPhase_text (at_Phase (ca_Attempt ?p))), (''plan'', ''recorded_not_executed'')]"
  from assms(1) obtain plan identity response v1 x v2 e r1 where
    ver: "verifyKillTarget c (bd_Target b) (cr_ContainerAttempt r) = Inr identity"
    and op: "run_lc (putNewActiveOperation c b response) v = (v1, Inr x)"
    and ev: "run_lc (containerEvent (or_Operation x) StagePersistIntent ResultPending now None ?p ?d) v1
      = (v2, Inr e)"
    and obs: "run_lc (observeContainer r e) v2 = (v', Inr r1)"
    and a: "a = kill_answer ResolutionNew (or_Operation x) b plan identity (cr_ContainerAttempt r1)"
    unfolding newKillPlan_def Let_def by (auto elim!: run_bindE simp: run_lift_res encodeResponse_def)
  note x = putNewActive_effect [OF op] and e = appendOperationEvent_effect [OF ev [unfolded containerEvent_def Let_def]]
  have "containers_of v2 (pair_id (cr_ContainerAttempt r)) = Some r" using x e assms(2) by simp
  note o' = observeContainer_effect [OF obs this]
  have "answered_by c b v' x" using x e o' by (simp add: answered_by_def)
  then show "kill_stored c b v' a" using x(4) by (simp add: a kill_answer_stored)
  show "pair_step j may v v'" using x e o' by (auto intro!: pair_kept simp: cores_def)
  show "verifyKillTarget c (bd_Target b) (cr_ContainerAttempt r) = Inr (kl_ProcessIdentity a)"
    using ver by (simp add: a kill_answer_def)
qed

lemma killStopped_step:
  assumes "run_lc (killStopped c now b r) v = (v', Inr a)"
    and "containers_of v (pair_id (cr_ContainerAttempt r)) = Some r"
  shows "kill_stored c b v' a" and "pair_step j may v v'" and "\<not> State_Active (op_State (kl_Operation a))"
proof -
  let ?p = "cr_ContainerAttempt r"
  let ?d = "details [(''phase'', AttemptPhase_text (at_Phase (ca_Attempt ?p))), (''plan'', ''not_required'')]"
  from assms(1) obtain v1 x v2 e v3 r1 response v4 x1 where
    op: "run_lc (putNewTerminalOperation c b ResultNoop []) v = (v1, Inr x)"
    and ev: "run_lc (containerEvent (or_Operation x) StageComplete ResultNoop now None ?p ?d) v1
      = (v2, Inr e)"
    and obs: "run_lc (observeContainer r e) v2 = (v3, Inr r1)"
    and fin: "run_lc (finalizeOperationResponse x response) v3 = (v4, Inr x1)"
    and res: "v' = v4" "killResultFromRecord ResolutionNew x1 = Inr a"
    unfolding killStopped_def Let_def by (auto elim!: run_bindE simp: run_lift_res encodeResponse_def)
  note x = putNew_effect [OF op [unfolded putNewTerminalOperation_def]]
    and e = appendOperationEvent_effect [OF ev [unfolded containerEvent_def Let_def]]
  have "containers_of v2 (pair_id (cr_ContainerAttempt r)) = Some r" using x e assms(2) by simp
  note o' = observeContainer_effect [OF obs this] and f = finalizeOperationResponse_effect [OF fin]
  have "answered_by c b v' x1" using x e o' f res(1) by (simp add: answered_by_def)
  then show "kill_stored c b v' a" by (rule kill_replies.stored_result [OF res(2)])
  show "\<not> State_Active (op_State (kl_Operation a))"
    using kill_replies.operation_read [OF res(2)] f x by (simp add: State_Active_def)
  show "pair_step j may v v'" using x e o' f res(1) by (auto intro!: pair_kept simp: cores_def)
qed

lemma concludeKill_effect:
  assumes "run_lc (concludeKill x prior w r) v = (v', Inr a)"
    and "containers_of v (pair_id (cr_ContainerAttempt r)) = Some r" and "answered_by c b v x"
  shows "container_cores v' = container_cores v" and "sandboxes_of v' = sandboxes_of v" and "kill_stored c b v' a"
proof -
  from assms(1) obtain v1 e v2 r' response v3 x' where
    ev: "run_lc (containerEvent (or_Operation x) StageComplete ResultSucceeded (vf_ObservedAt w) (vf_Duration w)
      (cr_ContainerAttempt r) (verification_payload w)) v = (v1, Inr e)"
    and obs: "run_lc (observeContainer r e) v1 = (v2, Inr r')"
    and fin: "run_lc (finalizeOperationResponse x response) v2 = (v3, Inr x')"
    and res: "v' = v3" "killResultFromRecord ResolutionResume x' = Inr a"
    unfolding concludeKill_def by (auto elim!: run_bindE simp: encodeResponse_def run_lift_res)
  note e = appendOperationEvent_effect [OF ev [unfolded containerEvent_def Let_def]]
  have "containers_of v1 (pair_id (cr_ContainerAttempt r)) = Some r" using e assms(2) by simp
  note o' = observeContainer_effect [OF obs this] and f = finalizeOperationResponse_effect [OF fin]
  show "container_cores v' = container_cores v" "sandboxes_of v' = sandboxes_of v"
    using e o' f res by (simp_all add: container_cores_def)
  have "answered_by c b v' x'"
    using assms(3) f res(1) by (auto simp: answered_by_def binding_id)
  then show "kill_stored c b v' a" by (rule kill_replies.stored_result [OF res(2)])
qed

lemma stopKilled_step:
  assumes "run_lc (stopKilled x q) v = (v', Inr a)" and "keyed v" and "answered_by c b v x"
  shows "kill_stored c b v' a" and "pair_step (ks_ContainerID q) (edge (Some AttemptRunning, Some AttemptStopped)) v v'"
proof -
  let ?i = "ks_ContainerID q"
  from assms(1) obtain prior r p1 p2 v1 r1 v2 x1 where
    r: "GetContainerAttempt v ?i = Inr r" "attempt_phase_of r = AttemptRunning"
    and p: "Pair_SetConditions (cr_ContainerAttempt r) (ks_Conditions q) = (p1, None)"
      "Pair_Transition p1 AttemptStopped (ks_Outcome q) = (p2, None)"
    and put: "run_lc (putContainer (r\<lparr>cr_ContainerAttempt := p2\<rparr>) (cr_Revision r)) v = (v1, Inr r1)"
    and comp: "run_lc (completeOperation x ResultSucceeded []) v1 = (v2, Inr x1)"
    and concl: "run_lc (concludeKill x1 prior (ks_Verification q) r1) v2 = (v', Inr a)"
    unfolding stopKilled_def
    by (auto elim!: run_bindE simp: run_check_Inr run_get run_changed_Inr run_lift_res)
  have ri: "containers_of v ?i = Some r" using r by (simp add: GetContainerAttempt_Inr)
  have key: "pair_id p2 = ?i" and phase: "at_Phase (ca_Attempt p2) = AttemptStopped"
    using Pair_setters_parts(3) [OF p(1)] Pair_transition_facts [OF p(2)] keyed_container [OF assms(2) ri] by simp_all
  note w = putContainer_effect [OF put] and k = completed_answers [OF comp assms(3)]
  have "containers_of v2 (pair_id (cr_ContainerAttempt r1)) = Some r1" using w k by simp
  note q = concludeKill_effect [OF concl this k(1)]
  show "kill_stored c b v' a" by (fact q(3))
  have "container_cores v' = (container_cores v)(?i \<mapsto> container_core (r\<lparr>cr_ContainerAttempt := p2\<rparr>))"
    using q w k key by (simp add: container_cores_def map_option_update)
  moreover have "unpaired_cores v' = unpaired_cores v"
    using q w k by (intro same_sandboxes) (simp add: sandbox_cores_def)
  ultimately show "pair_step ?i (edge (Some AttemptRunning, Some AttemptStopped)) v v'"
    by (rule pair_set) (use phase r(2) ri in \<open>simp add: edge_def attempts_at attempt_phase_of_def\<close>)
qed

end
