(* ===== verification/Lifecycle_Sandbox_Steps.thy ===== *)
theory Lifecycle_Sandbox_Steps
  imports Lifecycle_Sandbox_Effects
begin

text \<open>
  Each Sandbox command as one step of the abstract machine on phases: its branches, and the edge that
  its kind of request may take.
\<close>

subsection \<open>Branches that keep the Sandboxes\<close>

lemma resumeSandbox_step:
  assumes "run_lc (resumeSandbox x b i) v = (v', Inr a)" and "answered_by c b v x"
    and "State_Active (op_State (or_Operation x))"
  shows "sandbox_step c b j edge v v' a"
  using assms by (auto simp: resumeSandbox_def run_bind_Inr run_get intro!: step_kept answer_stored)

lemma persistSandboxNoop_step:
  assumes "run_lc (persistSandboxNoop c now b r) v = (v', Inr a)"
    and "sandboxes_of v (sb_ID (sr_Sandbox r)) = Some r"
  shows "sandbox_step c b j edge v v' a"
  using persistSandboxNoop_effect [OF assms] by (simp add: step_kept container_cores_def)

lemma existingSandbox_step:
  assumes "run_lc (existingSandbox c now q b r) v = (v', Inr a)"
    and "sandboxes_of v (sb_ID (sr_Sandbox r)) = Some r"
  shows "sandbox_step c b j edge v v' a"
proof -
  from assms(1) have "run_lc (persistSandboxNoop c now b r) v = (v', Inr a)"
    by (auto simp: existingSandbox_def run_bind_Inr run_lift_res run_check_Inr)
  then show ?thesis using assms(2) by (rule persistSandboxNoop_step)
qed

lemma removeUnknownSandbox_step:
  assumes "run_lc (removeUnknownSandbox c now b) v = (v', Inr a)"
  shows "sandbox_step c b j edge v v' a"
proof -
  from assms obtain v1 x e where put: "run_lc (putNewActiveOperation c b []) v = (v1, Inr x)"
    and ev: "run_lc (appendOperationEvent (or_Operation x) StagePersistIntent ResultPending now None 0 0
        absent_details []) v1 = (v', Inr e)"
    and a: "a = sandbox_answer ResolutionNew (or_Operation x) b None"
    unfolding removeUnknownSandbox_def by (auto elim!: run_bindE)
  note p = putNewActive_effect [OF put] and e = appendOperationEvent_effect [OF ev]
  show ?thesis
    using p e by (intro step_kept) (simp_all add: a cores_def answered_by_def answer_stored)
qed

lemma recordSandboxIntent_step:
  assumes "run_lc (recordSandboxIntent x b now r) v = (v', Inr a)"
    and "sandboxes_of v (sb_ID (sr_Sandbox r)) = Some r" and "answered_by c b v x"
    and "State_Active (op_State (or_Operation x))"
  shows "sandbox_step c b j edge v v' a"
  using recordSandboxIntent_effect [OF assms] by (simp add: step_kept container_cores_def)

lemma removeKnownSandbox_step:
  assumes "run_lc (removeKnownSandbox c now b i r) v = (v', Inr a)"
    and "sandboxes_of v (sb_ID (sr_Sandbox r)) = Some r"
  shows "sandbox_step c b j edge v v' a"
proof -
  from assms(1) obtain v1 x where put: "run_lc (putNewActiveOperation c b []) v = (v1, Inr x)"
    and rest: "run_lc (recordSandboxIntent x b now r) v1 = (v', Inr a)"
    unfolding removeKnownSandbox_def by (auto elim!: run_bindE simp: run_check_Inr run_get)
  note p = putNewActive_effect [OF put]
  have "sandbox_step c b j edge v1 v' a"
    using recordSandboxIntent_step [OF rest _ p(3,4)] assms(2) by (simp add: p)
  then show ?thesis using p by (simp add: sandbox_step_def moves_def phases_def cores_def)
qed

lemma removeAbsentSandbox_step:
  assumes "run_lc (removeAbsentSandbox x w) v = (v', Inr a)" and "answered_by c b v x"
  shows "sandbox_step c b j edge v v' a"
proof -
  from assms(1) obtain response v1 x1 e where
    comp: "run_lc (completeOperation x ResultNoop response) v = (v1, Inr x1)"
    and ev: "run_lc (appendOperationEvent (or_Operation x1) StageComplete ResultNoop (vf_ObservedAt w) (vf_Duration w)
       0 0 (verification_payload w) []) v1 = (v', Inr e)"
    and res: "sandboxResultFromRecord ResolutionResume x1 = Inr a"
    unfolding removeAbsentSandbox_def
    by (auto elim!: run_bindE simp: run_check_Inr run_lift_res encodeResponse_def)
  note k = completeOperation_effect [OF comp] and e = appendOperationEvent_effect [OF ev]
  have "answered_by c b v' x1" using assms(2) k e by (auto simp: answered_by_def binding_id)
  then show ?thesis
    using k e by (intro step_kept sandbox_replies.stored_result [OF res]) (simp_all add: cores_def)
qed

subsection \<open>Branches that move a Sandbox\<close>

text \<open>The intent of a command is recorded after its Sandbox has been stored under a new phase.\<close>

lemma stored_then_intent:
  assumes "run_lc (putNewActiveOperation c b []) v = (v1, Inr x)"
    and "run_lc (putSandbox r n) v1 = (v2, Inr r1)"
    and "run_lc (recordSandboxIntent x b now r1) v2 = (v', Inr a)"
    and "sb_ID (sr_Sandbox r) = i"
  shows "sandbox_stored c b v' a" and "container_cores v' = container_cores v"
    and "moves i (phases v i, Some (phase_of r)) v v'"
proof -
  note p = putNewActive_effect [OF assms(1)] and r = putSandbox_effect [OF assms(2)]
  have "sandboxes_of v2 (sb_ID (sr_Sandbox r1)) = Some r1" and "answered_by c b v2 x"
    using p r by (simp_all add: answered_by_def)
  note q = recordSandboxIntent_effect [OF assms(3) this p(4)]
  show "sandbox_stored c b v' a" "container_cores v' = container_cores v"
    using p r q by (simp_all add: container_cores_def)
  have "sandbox_cores v' = (sandbox_cores v)(i \<mapsto> sandbox_core r)"
    using p r q by (simp add: sandbox_cores_def map_option_update assms(4))
  then show "moves i (phases v i, Some (phase_of r)) v v'" by (rule moves_set)
qed

lemma newSandbox_step:
  assumes "run_lc (newSandbox c now q b) v = (v', Inr a)" and "sandboxes_of v (xc_SandboxID q) = None"
  shows "sandbox_step c b (xc_SandboxID q) (None, Some SandboxCreating) v v' a"
proof -
  from assms(1) obtain s v1 x v2 r where s: "NewSandbox (xc_SandboxID q) (xc_Spec q) = Inr s"
    and run: "run_lc (putNewActiveOperation c b []) v = (v1, Inr x)"
      "run_lc (putSandbox (NewSandboxRecord s) 0) v1 = (v2, Inr r)"
      "run_lc (recordSandboxIntent x b now r) v2 = (v', Inr a)"
    unfolding newSandbox_def
    by (auto elim!: run_bindE simp: run_lift_res map_sum_def split: sum.splits)
  have s': "sb_ID s = xc_SandboxID q" "ss_Phase (sb_Status s) = SandboxCreating"
    using s by (auto simp: NewSandbox_def Let_def)
  have key: "sb_ID (sr_Sandbox (NewSandboxRecord s)) = xc_SandboxID q"
    and phase: "phase_of (NewSandboxRecord s) = SandboxCreating"
    by (simp_all add: NewSandboxRecord_def phase_of_def s')
  show ?thesis
    using stored_then_intent [OF run key] by (auto intro!: step_moved simp: phases_at assms(2) phase)
qed

lemma stopReadySandbox_step:
  assumes "run_lc (stopReadySandbox c now b i r) v = (v', Inr a)" and "sandboxes_of v i = Some r"
    and "sb_ID (sr_Sandbox r) = i"
  shows "sandbox_step c b i (Some SandboxReady, Some SandboxStopping) v v' a"
proof -
  from assms(1) obtain s v1 x v2 r1 where ready: "phase_of r = SandboxReady"
    and s: "Sandbox_Transition (sr_Sandbox r) SandboxStopping = (s, None)"
    and run: "run_lc (putNewActiveOperation c b []) v = (v1, Inr x)"
      "run_lc (putSandbox (r\<lparr>sr_Sandbox := s\<rparr>) (sr_Revision r)) v1 = (v2, Inr r1)"
      "run_lc (recordSandboxIntent x b now r1) v2 = (v', Inr a)"
    unfolding stopReadySandbox_def by (auto elim!: run_bindE simp: run_check_Inr run_get run_changed_Inr)
  have key: "sb_ID (sr_Sandbox (r\<lparr>sr_Sandbox := s\<rparr>)) = i"
    and phase: "phase_of (r\<lparr>sr_Sandbox := s\<rparr>) = SandboxStopping"
    using Sandbox_Transition_parts [OF s] assms(3) by (simp_all add: phase_of_def)
  show ?thesis
    using stored_then_intent [OF run key] by (auto intro!: step_moved simp: phases_at assms(2) phase ready)
qed

lemma removeStoppedSandbox_step:
  assumes "run_lc (removeStoppedSandbox x w i r) v = (v', Inr a)" and "sandboxes_of v i = Some r"
    and "sb_ID (sr_Sandbox r) = i" and "answered_by c b v x"
  shows "sandbox_step c b i (Some SandboxStopped, None) v v' a"
    and "validateCompleteCleanupReleases x (sr_HostResources r) = None"
    and "ListContainerAttempts v i = Inr []" and "sandbox_cores v' = (sandbox_cores v)(i := None)"
proof -
  from assms(1) obtain v1 r1 response v2 x1 v3 e v4 r2 u where
    stopped: "phase_of r = SandboxStopped" and empty: "ListContainerAttempts v i = Inr []"
    and rel: "validateCompleteCleanupReleases x (sr_HostResources r) = None"
    and put: "run_lc (putSandbox (r\<lparr>sr_HostResources := []\<rparr>) (sr_Revision r)) v = (v1, Inr r1)"
    and comp: "run_lc (completeOperation x ResultSucceeded response) v1 = (v2, Inr x1)"
    and ev: "run_lc (sandboxEvent (or_Operation x1) StageComplete ResultSucceeded (vf_ObservedAt w) (vf_Duration w)
         (sr_Sandbox r1) (verification_payload w)) v2 = (v3, Inr e)"
    and obs: "run_lc (observeSandbox r1 e) v3 = (v4, Inr r2)"
    and del: "run_lc (deleteSandbox i (sr_Revision r2)) v4 = (v', Inr u)"
    and res: "sandboxResultFromRecord ResolutionResume x1 = Inr a"
    unfolding removeStoppedSandbox_def
    by (auto elim!: run_bindE simp: run_check_Inr run_get run_lift_res encodeResponse_def)
  note p = putSandbox_effect [OF put, simplified] and k = completeOperation_effect [OF comp]
    and e = appendOperationEvent_effect [OF ev [unfolded sandboxEvent_def]]
    and d = deleteSandbox_effect [OF del]
  have "sandboxes_of v3 (sb_ID (sr_Sandbox r1)) = Some r1" using p k e by simp
  note o' = observeSandbox_effect [OF obs this]
  have cores: "sandbox_cores v4 = (sandbox_cores v)(i \<mapsto> sandbox_core (r\<lparr>sr_HostResources := []\<rparr>))"
    using o' e k p by (simp add: sandbox_cores_def map_option_update assms(3))
  show gone: "sandbox_cores v' = (sandbox_cores v)(i := None)"
    using cores d by (simp add: sandbox_cores_def map_option_delete)
  have "answered_by c b v' x1" using assms(4) k e o' d p by (auto simp: answered_by_def binding_id)
  then have "sandbox_stored c b v' a" by (rule sandbox_replies.stored_result [OF res])
  moreover have "container_cores v' = container_cores v" using p k e o' d by (simp add: container_cores_def)
  ultimately show "sandbox_step c b i (Some SandboxStopped, None) v v' a"
    using moves_delete [OF gone] by (auto intro!: step_moved simp: phases_at assms(2) stopped)
  show "validateCompleteCleanupReleases x (sr_HostResources r) = None" "ListContainerAttempts v i = Inr []"
    by (fact rel, fact empty)
qed

lemma dropFailedSandbox_step:
  assumes "run_lc (dropFailedSandbox x f w i) v = (v', Inr a)" and "keyed v" and "answered_by c b v x"
  shows "sandbox_step c b i (Some SandboxCreating, None) v v' a"
proof -
  from assms(1) obtain r s v1 r1 response v2 x1 v3 e u where
    r: "GetSandbox v i = Inr r" "phase_of r = SandboxCreating"
    and s: "Sandbox_Transition (sr_Sandbox r) SandboxAbsent = (s, None)"
    and put: "run_lc (putSandbox (r\<lparr>sr_Sandbox := s\<rparr>) (sr_Revision r)) v = (v1, Inr r1)"
    and comp: "run_lc (failOperation x (fa_Reason f) response) v1 = (v2, Inr x1)"
    and ev: "run_lc (sandboxEvent (or_Operation x1) StageComplete ResultFailed (vf_ObservedAt w) (vf_Duration w)
         (sr_Sandbox r1) (failure_payload f w)) v2 = (v3, Inr e)"
    and del: "run_lc (deleteSandbox i (sr_Revision r1)) v3 = (v', Inr u)"
    and res: "sandboxResultFromRecord ResolutionResume x1 = Inr a"
    unfolding dropFailedSandbox_def
    by (auto elim!: run_bindE simp: run_check_Inr run_get run_changed_Inr run_lift_res encodeResponse_def)
  have ri: "sandboxes_of v i = Some r" using r by (simp add: GetSandbox_Inr)
  have key: "sb_ID s = i" using Sandbox_Transition_parts [OF s] keyed_sandbox [OF assms(2) ri] by simp
  note p = putSandbox_effect [OF put, simplified, unfolded key] and k = failOperation_effect [OF comp]
    and e = appendOperationEvent_effect [OF ev [unfolded sandboxEvent_def]]
    and d = deleteSandbox_effect [OF del]
  have gone: "sandbox_cores v' = (sandbox_cores v)(i := None)"
    using d e k p by (auto simp: sandbox_cores_def fun_eq_iff)
  have "answered_by c b v' x1" using assms(3) k e d p by (auto simp: answered_by_def binding_id)
  then have "sandbox_stored c b v' a" by (rule sandbox_replies.stored_result [OF res])
  moreover have "container_cores v' = container_cores v" using p k e d by (simp add: container_cores_def)
  ultimately show ?thesis
    using moves_delete [OF gone] by (auto intro!: step_moved simp: phases_at ri r(2))
qed

end
