(* ===== verification/Lifecycle_Sandbox_Calls.thy ===== *)
theory Lifecycle_Sandbox_Calls
  imports Lifecycle_Sandbox_Steps
begin

text \<open>
  The Sandbox commands as calls on the store: the binding that a request stands for, the edge of the
  abstract machine on phases that it may take, and what is answered when it is repeated.
\<close>

subsection \<open>Requests\<close>

fun sandbox_request_id :: "sandbox_request \<Rightarrow> operation_id" where
  "sandbox_request_id (SandboxBeginCreate q) = xc_OperationID q"
| "sandbox_request_id (SandboxConfirmCreate q) = xf_OperationID q"
| "sandbox_request_id (SandboxBeginStop q) = xa_OperationID q"
| "sandbox_request_id (SandboxConfirmStop q) = xf_OperationID q"
| "sandbox_request_id (SandboxBeginRemove q) = xa_OperationID q"
| "sandbox_request_id (SandboxConfirmRemove q) = xf_OperationID q"
| "sandbox_request_id (SandboxFailCreate q) = xq_OperationID q"

fun sandbox_request_target :: "sandbox_request \<Rightarrow> sandbox_id" where
  "sandbox_request_target (SandboxBeginCreate q) = xc_SandboxID q"
| "sandbox_request_target (SandboxConfirmCreate q) = xf_SandboxID q"
| "sandbox_request_target (SandboxBeginStop q) = xa_SandboxID q"
| "sandbox_request_target (SandboxConfirmStop q) = xf_SandboxID q"
| "sandbox_request_target (SandboxBeginRemove q) = xa_SandboxID q"
| "sandbox_request_target (SandboxConfirmRemove q) = xf_SandboxID q"
| "sandbox_request_target (SandboxFailCreate q) = xq_SandboxID q"

text \<open>The abstract machine: each kind of request has one edge between phases, absence being \<open>None\<close>.
  A removal is only announced by \<open>BeginSandboxRemove\<close>, so its edge is no move at all.\<close>

fun sandbox_edge :: "sandbox_request \<Rightarrow> sandbox_phase option \<times> sandbox_phase option" where
  "sandbox_edge (SandboxBeginCreate _) = (None, Some SandboxCreating)"
| "sandbox_edge (SandboxConfirmCreate _) = (Some SandboxCreating, Some SandboxReady)"
| "sandbox_edge (SandboxBeginStop _) = (Some SandboxReady, Some SandboxStopping)"
| "sandbox_edge (SandboxConfirmStop _) = (Some SandboxStopping, Some SandboxStopped)"
| "sandbox_edge (SandboxBeginRemove _) = (Some SandboxStopped, Some SandboxStopped)"
| "sandbox_edge (SandboxConfirmRemove _) = (Some SandboxStopped, None)"
| "sandbox_edge (SandboxFailCreate _) = (Some SandboxCreating, None)"

fun sandbox_request_binding :: "sandbox_request \<Rightarrow> lc_error + binding" where
  "sandbox_request_binding (SandboxBeginCreate q) =
    bindingFor (xc_OperationID q) TypeCreate (sandbox_resource (xc_SandboxID q))
      (sandboxCreateSemantic (xc_SandboxID q) (xc_Spec q))"
| "sandbox_request_binding (SandboxConfirmCreate q) =
    suppliedBinding (xf_OperationID q) TypeCreate (sandbox_resource (xf_SandboxID q)) (xf_Fingerprint q)"
| "sandbox_request_binding (SandboxBeginStop q) =
    bindingFor (xa_OperationID q) TypeStop (sandbox_resource (xa_SandboxID q)) (sandboxActionSemantic (xa_SandboxID q))"
| "sandbox_request_binding (SandboxConfirmStop q) =
    suppliedBinding (xf_OperationID q) TypeStop (sandbox_resource (xf_SandboxID q)) (xf_Fingerprint q)"
| "sandbox_request_binding (SandboxBeginRemove q) =
    bindingFor (xa_OperationID q) TypeDelete (sandbox_resource (xa_SandboxID q)) (sandboxActionSemantic (xa_SandboxID q))"
| "sandbox_request_binding (SandboxConfirmRemove q) =
    suppliedBinding (xf_OperationID q) TypeDelete (sandbox_resource (xf_SandboxID q)) (xf_Fingerprint q)"
| "sandbox_request_binding (SandboxFailCreate q) =
    suppliedBinding (xq_OperationID q) TypeCreate (sandbox_resource (xq_SandboxID q)) (xq_Fingerprint q)"

lemma suppliedBinding_Inr:
  "suppliedBinding i ty t f = Inr b \<Longrightarrow> bd_ID b = i \<and> bd_Type b = ty \<and> bd_Target b = t \<and> bd_Fingerprint b = f"
  by (auto simp: suppliedBinding_def Let_def)

lemma bindingFor_Inr: "bindingFor i ty t p = Inr b \<Longrightarrow> bd_ID b = i \<and> bd_Type b = ty \<and> bd_Target b = t"
  by (auto simp: bindingFor_def dest!: suppliedBinding_Inr)

lemma sandbox_request_binding_parts:
  assumes "sandbox_request_binding q = Inr b"
  shows "bd_ID b = sandbox_request_id q" and "tg_ID (bd_Target b) = sandbox_request_target q"
    and "bd_Target b = sandbox_resource (sandbox_request_target q)"
  using assms by (cases q; auto dest!: suppliedBinding_Inr bindingFor_Inr simp: sandbox_resource_def)+

text \<open>What remains of a request once it has been checked: it is resolved first, and replayed from the
  stored record.\<close>

lemma sandbox_command_shape:
  assumes "sandbox_command c now q = Inr p"
  obtains b m f where "sandbox_request_binding q = Inr b"
    and "p = lc_bind (resolveOperation c now b) (\<lambda>resolved.
      case resolved of
        ResolvedNew \<Rightarrow> m
      | ResolvedResume x \<Rightarrow> f x
      | ResolvedReplay x \<Rightarrow> lift_res (sandboxResultFromRecord ResolutionReplay x))"
  using assms
  by (cases q)
    (auto simp: BeginSandboxCreate_def ConfirmSandboxCreate_def BeginSandboxStop_def ConfirmSandboxStop_def
      BeginSandboxRemove_def ConfirmSandboxRemove_def FailSandboxCreateAfterRollback_def
      confirmSandboxTransition_def Let_def)

lemma sandbox_command_now:
  assumes "sandbox_command c now q = Inr p"
  obtains p' where "sandbox_command c now' q = Inr p'"
  using assms
  by (cases q)
    (auto simp: BeginSandboxCreate_def ConfirmSandboxCreate_def BeginSandboxStop_def ConfirmSandboxStop_def
      BeginSandboxRemove_def ConfirmSandboxRemove_def FailSandboxCreateAfterRollback_def Let_def)

subsection \<open>Steps\<close>

text \<open>A read that finds nothing is told from one that fails.\<close>

lemma attempted_get:
  assumes "run_lc (lc_bind (attempt (getSandbox i)) g) v = (v', Inr a)"
    and "\<And>e. g (Inl e) = check (reject (\<not> is_not_found e) e) m"
  obtains (found) r where "sandboxes_of v i = Some r" and "run_lc (g (Inr r)) v = (v', Inr a)"
  | (missing) "sandboxes_of v i = None" and "run_lc m v = (v', Inr a)"
proof -
  from assms(1) have run: "run_lc (g (map_sum LcStore id (GetSandbox v i))) v = (v', Inr a)"
    by (auto simp: run_bind_Inr run_attempt_get)
  show thesis
  proof (cases "GetSandbox v i")
    case (Inr r)
    moreover have "run_lc (g (Inr r)) v = (v', Inr a)" using run by (simp add: Inr)
    ultimately show thesis by (intro found [of r]) (simp_all add: GetSandbox_Inr)
  next
    case (Inl e)
    then have "e = ErrNotFound" and "run_lc m v = (v', Inr a)"
      using run by (simp_all add: assms(2) run_check_Inr)
    then show thesis using Inl by (intro missing) (simp_all add: not_found_absent)
  qed
qed

lemma begin_create_step:
  assumes "BeginSandboxCreate c now q = Inr p" and "run_lc p v = (v', Inr a)" and "keyed v" and "cloned v"
  obtains b where "sandbox_request_binding (SandboxBeginCreate q) = Inr b"
    and "sandbox_step c b (xc_SandboxID q) (None, Some SandboxCreating) v v' a"
proof -
  let ?i = "xc_SandboxID q"
  from assms(1) obtain b where b: "sandbox_request_binding (SandboxBeginCreate q) = Inr b"
    and p: "p = lc_bind (resolveOperation c now b) (\<lambda>resolved. case resolved of
          ResolvedNew \<Rightarrow> lc_bind (attempt (getSandbox ?i)) (\<lambda>got. case got of
                Inr r \<Rightarrow> existingSandbox c now q b r
              | Inl e \<Rightarrow> check (reject (\<not> is_not_found e) e) (newSandbox c now q b))
        | ResolvedResume x \<Rightarrow> resumeSandbox x b ?i
        | ResolvedReplay x \<Rightarrow> lift_res (sandboxResultFromRecord ResolutionReplay x))"
    by (auto simp: BeginSandboxCreate_def Let_def)
  have "sandbox_step c b ?i (None, Some SandboxCreating) v v' a"
    using assms(2-4) unfolding p
  proof (cases rule: sandbox_replies.dispatchE)
    case new
    from new(1) show ?thesis
    proof (rule attempted_get)
      fix r assume "sandboxes_of v ?i = Some r"
        "run_lc (case Inr r of Inr r \<Rightarrow> existingSandbox c now q b r
           | Inl e \<Rightarrow> check (reject (\<not> is_not_found e) e) (newSandbox c now q b)) v = (v', Inr a)"
      then show ?thesis using keyed_sandbox [OF assms(3)] by (auto intro: existingSandbox_step)
    qed (auto intro: newSandbox_step)
  qed (auto intro: resumeSandbox_step step_kept)
  then show thesis by (rule that [OF b])
qed

lemma begin_stop_step:
  assumes "BeginSandboxStop c now q = Inr p" and "run_lc p v = (v', Inr a)" and "keyed v" and "cloned v"
  obtains b where "sandbox_request_binding (SandboxBeginStop q) = Inr b"
    and "sandbox_step c b (xa_SandboxID q) (Some SandboxReady, Some SandboxStopping) v v' a"
proof -
  let ?i = "xa_SandboxID q"
  from assms(1) obtain b where b: "sandbox_request_binding (SandboxBeginStop q) = Inr b"
    and p: "p = lc_bind (resolveOperation c now b) (\<lambda>resolved. case resolved of
          ResolvedNew \<Rightarrow> lc_bind (getSandbox ?i) (\<lambda>r.
              if phase_of r = SandboxStopped then persistSandboxNoop c now b r
              else stopReadySandbox c now b ?i r)
        | ResolvedResume x \<Rightarrow> resumeSandbox x b ?i
        | ResolvedReplay x \<Rightarrow> lift_res (sandboxResultFromRecord ResolutionReplay x))"
    by (auto simp: BeginSandboxStop_def Let_def)
  have "sandbox_step c b ?i (Some SandboxReady, Some SandboxStopping) v v' a"
    using assms(2-4) unfolding p
  proof (cases rule: sandbox_replies.dispatchE)
    case new
    then obtain r where "sandboxes_of v ?i = Some r"
      "run_lc (if phase_of r = SandboxStopped then persistSandboxNoop c now b r
              else stopReadySandbox c now b ?i r) v = (v', Inr a)"
      by (auto simp: run_bind_Inr run_get GetSandbox_Inr)
    then show ?thesis using keyed_sandbox [OF assms(3)]
      by (auto intro: persistSandboxNoop_step stopReadySandbox_step split: if_splits)
  qed (auto intro: resumeSandbox_step step_kept)
  then show thesis by (rule that [OF b])
qed

lemma begin_remove_step:
  assumes "BeginSandboxRemove c now q = Inr p" and "run_lc p v = (v', Inr a)" and "keyed v" and "cloned v"
  obtains b where "sandbox_request_binding (SandboxBeginRemove q) = Inr b"
    and "sandbox_step c b (xa_SandboxID q) (Some SandboxStopped, Some SandboxStopped) v v' a"
proof -
  let ?i = "xa_SandboxID q"
  let ?resume = "\<lambda>b x. lc_bind (attempt (getSandbox ?i)) (\<lambda>got. case got of
      Inl e \<Rightarrow> check (reject (\<not> is_not_found e) e) (Yield (sandbox_answer ResolutionResume (or_Operation x) b None))
    | Inr r \<Rightarrow> Yield (sandbox_answer ResolutionResume (or_Operation x) b (Some (sr_Sandbox r))))"
  let ?new = "\<lambda>b. lc_bind (attempt (getSandbox ?i)) (\<lambda>got. case got of
      Inl e \<Rightarrow> check (reject (\<not> is_not_found e) e) (removeUnknownSandbox c now b)
    | Inr r \<Rightarrow> removeKnownSandbox c now b ?i r)"
  from assms(1) obtain b where b: "sandbox_request_binding (SandboxBeginRemove q) = Inr b"
    and p: "p = lc_bind (resolveOperation c now b) (\<lambda>resolved. case resolved of
          ResolvedNew \<Rightarrow> ?new b
        | ResolvedResume x \<Rightarrow> ?resume b x
        | ResolvedReplay x \<Rightarrow> lift_res (sandboxResultFromRecord ResolutionReplay x))"
    by (auto simp: BeginSandboxRemove_def Let_def)
  have "sandbox_step c b ?i (Some SandboxStopped, Some SandboxStopped) v v' a"
    using assms(2-4) unfolding p
  proof (cases rule: sandbox_replies.dispatchE)
    case new
    from new(1) show ?thesis
      by (rule attempted_get) (auto intro: removeKnownSandbox_step removeUnknownSandbox_step
          simp: keyed_sandbox [OF assms(3)])
  next
    case (resume x)
    from resume(1) show ?thesis
      by (rule attempted_get) (use resume(2,3) in \<open>auto intro!: step_kept answer_stored\<close>)
  qed (auto intro: step_kept)
  then show thesis by (rule that [OF b])
qed

lemma confirm_remove_step:
  assumes "ConfirmSandboxRemove c now q = Inr p" and "run_lc p v = (v', Inr a)" and "keyed v" and "cloned v"
  obtains b where "sandbox_request_binding (SandboxConfirmRemove q) = Inr b"
    and "sandbox_step c b (xf_SandboxID q) (Some SandboxStopped, None) v v' a"
proof -
  let ?i = "xf_SandboxID q"
  let ?resume = "\<lambda>x. lc_bind (attempt (getSandbox ?i)) (\<lambda>got. case got of
      Inl e \<Rightarrow> check (reject (\<not> is_not_found e) e) (removeAbsentSandbox x (xf_Verification q))
    | Inr r \<Rightarrow> removeStoppedSandbox x (xf_Verification q) ?i r)"
  from assms(1) obtain b where b: "sandbox_request_binding (SandboxConfirmRemove q) = Inr b"
    and p: "p = lc_bind (resolveOperation c now b) (\<lambda>resolved. case resolved of
          ResolvedNew \<Rightarrow> Abort (LcNotFound (xf_OperationID q))
        | ResolvedResume x \<Rightarrow> ?resume x
        | ResolvedReplay x \<Rightarrow> lift_res (sandboxResultFromRecord ResolutionReplay x))"
    by (auto simp: ConfirmSandboxRemove_def Let_def)
  have "sandbox_step c b ?i (Some SandboxStopped, None) v v' a"
    using assms(2-4) unfolding p
  proof (cases rule: sandbox_replies.dispatchE)
    case (resume x)
    from resume(1) show ?thesis
      by (rule attempted_get) (use resume(2) keyed_sandbox [OF assms(3)] in
          \<open>auto intro: removeAbsentSandbox_step removeStoppedSandbox_step\<close>)
  qed (auto intro: step_kept)
  then show thesis by (rule that [OF b])
qed

lemma fail_create_step:
  assumes "FailSandboxCreateAfterRollback c now q = Inr p" and "run_lc p v = (v', Inr a)" and "keyed v" and "cloned v"
  obtains b where "sandbox_request_binding (SandboxFailCreate q) = Inr b"
    and "sandbox_step c b (xq_SandboxID q) (Some SandboxCreating, None) v v' a"
proof -
  from assms(1) obtain b where b: "sandbox_request_binding (SandboxFailCreate q) = Inr b"
    and p: "p = lc_bind (resolveOperation c now b) (\<lambda>resolved. case resolved of
          ResolvedNew \<Rightarrow> Abort (LcNotFound (xq_OperationID q))
        | ResolvedResume x \<Rightarrow> dropFailedSandbox x (xq_Failure q) (xq_Verification q) (xq_SandboxID q)
        | ResolvedReplay x \<Rightarrow> lift_res (sandboxResultFromRecord ResolutionReplay x))"
    by (auto simp: FailSandboxCreateAfterRollback_def Let_def)
  have "sandbox_step c b (xq_SandboxID q) (Some SandboxCreating, None) v v' a"
    using assms(2-4) unfolding p
    by (cases rule: sandbox_replies.dispatchE) (auto intro: dropFailedSandbox_step [OF _ assms(3)] step_kept)
  then show thesis by (rule that [OF b])
qed

lemma confirm_step:
  assumes "suppliedBinding j ty (sandbox_resource i) f = Inr b"
    and "run_lc (confirmSandboxTransition c now b w before after) v = (v', Inr a)" and "keyed v" and "cloned v"
  shows "sandbox_step c b i (Some before, Some after) v v' a"
  using confirmSandboxTransition_step [OF assms(2-4)] suppliedBinding_Inr [OF assms(1)]
  by (simp add: sandbox_resource_def)

text \<open>Every command is a step along the edge of its request, or keeps all Sandboxes.\<close>

lemma sandbox_command_step:
  assumes "sandbox_command c now q = Inr p" and "run_lc p v = (v', Inr a)" and "keyed v" and "cloned v"
  obtains b where "sandbox_request_binding q = Inr b"
    and "sandbox_step c b (sandbox_request_target q) (sandbox_edge q) v v' a"
proof (cases q)
  case (SandboxBeginCreate r)
  then show thesis using assms(1) begin_create_step [OF _ assms(2-4)] that by auto
next
  case (SandboxConfirmCreate r)
  then obtain b where "suppliedBinding (xf_OperationID r) TypeCreate (sandbox_resource (xf_SandboxID r))
      (xf_Fingerprint r) = Inr b" "p = confirmSandboxTransition c now b (xf_Verification r) SandboxCreating SandboxReady"
    using assms(1) by (auto simp: ConfirmSandboxCreate_def)
  then show thesis using confirm_step [OF _ _ assms(3,4)] assms(2) that SandboxConfirmCreate by auto
next
  case (SandboxBeginStop r)
  then show thesis using assms(1) begin_stop_step [OF _ assms(2-4)] that by auto
next
  case (SandboxConfirmStop r)
  then obtain b where "suppliedBinding (xf_OperationID r) TypeStop (sandbox_resource (xf_SandboxID r))
      (xf_Fingerprint r) = Inr b" "p = confirmSandboxTransition c now b (xf_Verification r) SandboxStopping SandboxStopped"
    using assms(1) by (auto simp: ConfirmSandboxStop_def)
  then show thesis using confirm_step [OF _ _ assms(3,4)] assms(2) that SandboxConfirmStop by auto
next
  case (SandboxBeginRemove r)
  then show thesis using assms(1) begin_remove_step [OF _ assms(2-4)] that by auto
next
  case (SandboxConfirmRemove r)
  then show thesis using assms(1) confirm_remove_step [OF _ assms(2-4)] that by auto
next
  case (SandboxFailCreate r)
  then show thesis using assms(1) fail_create_step [OF _ assms(2-4)] that by auto
qed

end
