(* ===== verification/Lifecycle_Container_Calls.thy ===== *)
theory Lifecycle_Container_Calls
  imports Lifecycle_Container_Steps Lifecycle_Sandbox_Calls
begin

text \<open>
  The Container and kill commands as calls on the store: the binding that a request stands for, the
  edges of the abstract machine on Attempt phases that it may take, and the process that a kill plan
  names.
\<close>

subsection \<open>Requests\<close>

fun container_request_target :: "container_request \<Rightarrow> container_id" where
  "container_request_target (ContainerBeginCreate q) = yc_ContainerID q"
| "container_request_target (ContainerConfirmCreate q) = yf_ContainerID q"
| "container_request_target (ContainerBeginStart q) = ya_ContainerID q"
| "container_request_target (ContainerConfirmStart q) = yf_ContainerID q"
| "container_request_target (ContainerBeginDelete q) = ya_ContainerID q"
| "container_request_target (ContainerConfirmDelete q) = yf_ContainerID q"
| "container_request_target (ContainerBeginRecordStopped q) = ys_ContainerID q"
| "container_request_target (ContainerRecordStopped q) = ys_ContainerID q"
| "container_request_target (ContainerStartTerminal q) = yt_ContainerID q"
| "container_request_target (ContainerFailCreate q) = yq_ContainerID q"

text \<open>The abstract machine on Attempt phases; a start is only announced by \<open>BeginContainerStart\<close>, and a
  stop by \<open>BeginRecordStopped\<close>.\<close>

fun attempt_edge :: "container_request \<Rightarrow> attempt_phase option \<Rightarrow> attempt_phase option \<Rightarrow> bool" where
  "attempt_edge (ContainerBeginCreate _) p q = (p = None \<and> q = Some AttemptCreating)"
| "attempt_edge (ContainerConfirmCreate _) p q = (p = Some AttemptCreating \<and> q = Some AttemptCreated)"
| "attempt_edge (ContainerBeginStart _) p q = False"
| "attempt_edge (ContainerConfirmStart _) p q = (p = Some AttemptCreated \<and> q = Some AttemptRunning)"
| "attempt_edge (ContainerBeginDelete _) p q =
    ((p = Some AttemptCreated \<or> p = Some AttemptStopped) \<and> q = Some AttemptStopped)"
| "attempt_edge (ContainerConfirmDelete _) p q = (p = Some AttemptStopped \<and> q = None)"
| "attempt_edge (ContainerBeginRecordStopped _) p q = False"
| "attempt_edge (ContainerRecordStopped _) p q =
    ((p = Some AttemptCreating \<or> p = Some AttemptCreated \<or> p = Some AttemptRunning) \<and> q = Some AttemptStopped)"
| "attempt_edge (ContainerStartTerminal _) p q = (p = Some AttemptCreated \<and> q = Some AttemptStopped)"
| "attempt_edge (ContainerFailCreate _) p q = (p = Some AttemptCreating \<and> q = Some AttemptStopped)"

fun container_request_binding :: "container_request \<Rightarrow> lc_error + binding" where
  "container_request_binding (ContainerBeginCreate q) =
    bindingFor (yc_OperationID q) TypeCreate (container_resource (yc_ContainerID q))
      (containerCreateSemantic (yc_SandboxID q) (yc_ContainerID q) (yc_AttemptID q) (yc_Process q) (yc_ImageDigest q)
        (yc_RootFS q))"
| "container_request_binding (ContainerConfirmCreate q) =
    suppliedBinding (yf_OperationID q) TypeCreate (container_resource (yf_ContainerID q)) (yf_Fingerprint q)"
| "container_request_binding (ContainerBeginStart q) =
    bindingFor (ya_OperationID q) TypeStart (container_resource (ya_ContainerID q)) (containerActionSemantic (ya_ContainerID q))"
| "container_request_binding (ContainerConfirmStart q) =
    suppliedBinding (yf_OperationID q) TypeStart (container_resource (yf_ContainerID q)) (yf_Fingerprint q)"
| "container_request_binding (ContainerBeginDelete q) =
    bindingFor (ya_OperationID q) TypeDelete (container_resource (ya_ContainerID q)) (containerActionSemantic (ya_ContainerID q))"
| "container_request_binding (ContainerConfirmDelete q) =
    suppliedBinding (yf_OperationID q) TypeDelete (container_resource (yf_ContainerID q)) (yf_Fingerprint q)"
| "container_request_binding (ContainerBeginRecordStopped q) =
    bind_res (RecordStoppedRequest_fingerprint q)
      (suppliedBinding (ys_OperationID q) TypeStop (container_resource (ys_ContainerID q)))"
| "container_request_binding (ContainerRecordStopped q) =
    bind_res (RecordStoppedRequest_fingerprint q)
      (suppliedBinding (ys_OperationID q) TypeStop (container_resource (ys_ContainerID q)))"
| "container_request_binding (ContainerStartTerminal q) =
    suppliedBinding (yt_OperationID q) TypeStart (container_resource (yt_ContainerID q)) (yt_Fingerprint q)"
| "container_request_binding (ContainerFailCreate q) =
    suppliedBinding (yq_OperationID q) TypeCreate (container_resource (yq_ContainerID q)) (yq_Fingerprint q)"

lemma container_request_binding_parts:
  assumes "container_request_binding q = Inr b"
  shows "tg_ID (bd_Target b) = container_request_target q"
    and "bd_Target b = container_resource (container_request_target q)"
  using assms by (cases q; auto dest!: suppliedBinding_Inr bindingFor_Inr simp: container_resource_def)+

lemmas container_commands_def =
  BeginContainerCreate_def ConfirmContainerCreate_def BeginContainerStart_def ConfirmContainerStart_def
  BeginContainerDelete_def ConfirmContainerDelete_def BeginRecordStopped_def RecordStopped_def
  RecordContainerStartTerminal_def FailContainerCreateAfterRollback_def

lemma container_command_shape:
  assumes "container_command c now q = Inr p"
  obtains b m f where "container_request_binding q = Inr b"
    and "p = lc_bind (resolveOperation c now b) (\<lambda>resolved.
      case resolved of
        ResolvedNew \<Rightarrow> m
      | ResolvedResume x \<Rightarrow> f x
      | ResolvedReplay x \<Rightarrow> lift_res (containerResultFromRecord ResolutionReplay x))"
  using assms
  by (cases q) (auto simp: container_commands_def confirmContainerTransition_def recordStopped_def Let_def)

lemma container_command_now:
  assumes "container_command c now q = Inr p"
  obtains p' where "container_command c now' q = Inr p'"
  using assms by (cases q) (auto simp: container_commands_def Let_def)

subsection \<open>Steps\<close>

lemma attempted_get_container:
  assumes "run_lc (lc_bind (attempt (getContainer i)) g) v = (v', Inr a)"
    and "\<And>e. g (Inl e) = check (reject (\<not> is_not_found e) e) m"
  obtains (found) r where "containers_of v i = Some r" and "run_lc (g (Inr r)) v = (v', Inr a)"
  | (missing) "containers_of v i = None" and "run_lc m v = (v', Inr a)"
proof -
  from assms(1) have run: "run_lc (g (map_sum LcStore id (GetContainerAttempt v i))) v = (v', Inr a)"
    by (auto simp: run_bind_Inr run_attempt_get)
  show thesis
  proof (cases "GetContainerAttempt v i")
    case (Inr r)
    moreover have "run_lc (g (Inr r)) v = (v', Inr a)" using run by (simp add: Inr)
    ultimately show thesis by (intro found [of r]) (simp_all add: GetContainerAttempt_Inr)
  next
    case (Inl e)
    then have "e = ErrNotFound" and "run_lc m v = (v', Inr a)"
      using run by (simp_all add: assms(2) run_check_Inr)
    then show thesis using Inl by (intro missing) (simp_all add: not_found_absent)
  qed
qed

definition container_step ::
    "coordinator \<Rightarrow> binding \<Rightarrow> container_request \<Rightarrow> memory_view \<Rightarrow> memory_view \<Rightarrow> container_result \<Rightarrow> bool" where
  "container_step c b q v v' a \<longleftrightarrow>
     container_stored c b v' a \<and> pair_step (container_request_target q) (attempt_edge q) v v'"

lemma container_kept:
  "container_cores v' = container_cores v \<Longrightarrow> sandbox_cores v' = sandbox_cores v \<Longrightarrow> container_stored c b v' a \<Longrightarrow>
     container_step c b q v v' a"
  by (simp add: container_step_def pair_kept)

lemma create_container_step:
  assumes "BeginContainerCreate c now q = Inr p" and "run_lc p v = (v', Inr a)" and "keyed v" and "cloned v"
  obtains b where "container_request_binding (ContainerBeginCreate q) = Inr b"
    and "container_step c b (ContainerBeginCreate q) v v' a"
proof -
  let ?i = "yc_ContainerID q" and ?q = "ContainerBeginCreate q"
  from assms(1) obtain b where b: "container_request_binding ?q = Inr b"
    and p: "p = lc_bind (resolveOperation c now b) (\<lambda>resolved. case resolved of
          ResolvedNew \<Rightarrow> lc_bind (attempt (getContainer ?i)) (\<lambda>got. case got of
                Inr r \<Rightarrow> existingContainer c now q b r
              | Inl e \<Rightarrow> check (reject (\<not> is_not_found e) e) (newContainer c now q b))
        | ResolvedResume x \<Rightarrow> resumeContainer x b ?i
        | ResolvedReplay x \<Rightarrow> lift_res (containerResultFromRecord ResolutionReplay x))"
    by (auto simp: BeginContainerCreate_def Let_def)
  have edge: "attempt_edge ?q = edge (None, Some AttemptCreating)" by (auto simp: fun_eq_iff edge_def)
  have "container_step c b ?q v v' a"
    using assms(2-4) unfolding p
  proof (cases rule: container_replies.dispatchE)
    case new
    from new(1) show ?thesis
    proof (rule attempted_get_container)
      fix r assume "containers_of v ?i = Some r"
        "run_lc (case Inr r of Inr r \<Rightarrow> existingContainer c now q b r
           | Inl e \<Rightarrow> check (reject (\<not> is_not_found e) e) (newContainer c now q b)) v = (v', Inr a)"
      then show ?thesis using keyed_container [OF assms(3)]
        by (auto simp: container_step_def intro: existingContainer_step)
    qed (use assms(3) in \<open>auto simp: container_step_def edge intro: newContainer_step\<close>)
  qed (auto simp: container_step_def intro: resumeContainer_step pair_kept)
  then show thesis by (rule that [OF b])
qed

lemma start_container_step:
  assumes "BeginContainerStart c now q = Inr p" and "run_lc p v = (v', Inr a)" and "keyed v" and "cloned v"
  obtains b where "container_request_binding (ContainerBeginStart q) = Inr b"
    and "container_step c b (ContainerBeginStart q) v v' a"
proof -
  let ?i = "ya_ContainerID q" and ?q = "ContainerBeginStart q"
  from assms(1) obtain b where b: "container_request_binding ?q = Inr b"
    and p: "p = lc_bind (resolveOperation c now b) (\<lambda>resolved. case resolved of
          ResolvedNew \<Rightarrow> lc_bind (getContainer ?i) (\<lambda>r.
              if attempt_phase_of r = AttemptRunning then persistContainerNoop c now b r
              else startCreatedContainer c now b r)
        | ResolvedResume x \<Rightarrow> resumeContainer x b ?i
        | ResolvedReplay x \<Rightarrow> lift_res (containerResultFromRecord ResolutionReplay x))"
    by (auto simp: BeginContainerStart_def Let_def)
  have "container_step c b ?q v v' a"
    using assms(2-4) unfolding p
  proof (cases rule: container_replies.dispatchE)
    case new
    then obtain r where "containers_of v ?i = Some r"
      "run_lc (if attempt_phase_of r = AttemptRunning then persistContainerNoop c now b r
              else startCreatedContainer c now b r) v = (v', Inr a)"
      by (auto simp: run_bind_Inr run_get GetContainerAttempt_Inr)
    then show ?thesis using keyed_container [OF assms(3)]
      by (auto simp: container_step_def intro: persistContainerNoop_effect startCreatedContainer_step split: if_splits)
  qed (auto simp: container_step_def intro: resumeContainer_step pair_kept)
  then show thesis by (rule that [OF b])
qed

lemma delete_container_step:
  assumes "BeginContainerDelete c now q = Inr p" and "run_lc p v = (v', Inr a)" and "keyed v" and "cloned v"
  obtains b where "container_request_binding (ContainerBeginDelete q) = Inr b"
    and "container_step c b (ContainerBeginDelete q) v v' a"
proof -
  let ?i = "ya_ContainerID q" and ?q = "ContainerBeginDelete q"
  let ?resume = "\<lambda>b x. lc_bind (attempt (getContainer ?i)) (\<lambda>got. case got of
      Inl e \<Rightarrow> check (reject (\<not> is_not_found e) e) (Yield (container_answer ResolutionResume (or_Operation x) b None))
    | Inr r \<Rightarrow> Yield (container_answer ResolutionResume (or_Operation x) b (Some (cr_ContainerAttempt r))))"
  let ?new = "\<lambda>b. lc_bind (attempt (getContainer ?i)) (\<lambda>got. case got of
      Inl e \<Rightarrow> check (reject (\<not> is_not_found e) e) (deleteUnknownContainer c now b)
    | Inr r \<Rightarrow> deleteKnownContainer c now b r)"
  from assms(1) obtain b where b: "container_request_binding ?q = Inr b"
    and p: "p = lc_bind (resolveOperation c now b) (\<lambda>resolved. case resolved of
          ResolvedNew \<Rightarrow> ?new b
        | ResolvedResume x \<Rightarrow> ?resume b x
        | ResolvedReplay x \<Rightarrow> lift_res (containerResultFromRecord ResolutionReplay x))"
    by (auto simp: BeginContainerDelete_def Let_def)
  have edge: "attempt_edge ?q = (\<lambda>p q. (p = Some AttemptCreated \<or> p = Some AttemptStopped) \<and> q = Some AttemptStopped)"
    by (auto simp: fun_eq_iff edge_def)
  have "container_step c b ?q v v' a"
    using assms(2-4) unfolding p
  proof (cases rule: container_replies.dispatchE)
    case new
    from new(1) show ?thesis
      by (rule attempted_get_container) (use keyed_container [OF assms(3)] in
          \<open>auto simp: container_step_def edge intro: deleteKnownContainer_step deleteUnknownContainer_step\<close>)
  next
    case (resume x)
    from resume(1) show ?thesis
      by (rule attempted_get_container) (use resume(2,3) in \<open>auto intro!: container_kept container_answer_stored\<close>)
  qed (auto intro: container_kept)
  then show thesis by (rule that [OF b])
qed

lemma confirm_delete_step:
  assumes "ConfirmContainerDelete c now q = Inr p" and "run_lc p v = (v', Inr a)" and "keyed v" and "cloned v"
  obtains b where "container_request_binding (ContainerConfirmDelete q) = Inr b"
    and "container_step c b (ContainerConfirmDelete q) v v' a"
proof -
  let ?i = "yf_ContainerID q" and ?q = "ContainerConfirmDelete q"
  let ?resume = "\<lambda>x. lc_bind (attempt (getContainer ?i)) (\<lambda>got. case got of
      Inl e \<Rightarrow> check (reject (\<not> is_not_found e) e) (deleteAbsentContainer x (yf_Verification q))
    | Inr r \<Rightarrow> deleteStoppedContainer x (yf_Verification q) ?i r)"
  from assms(1) obtain b where b: "container_request_binding ?q = Inr b"
    and p: "p = lc_bind (resolveOperation c now b) (\<lambda>resolved. case resolved of
          ResolvedNew \<Rightarrow> Abort (LcNotFound (yf_OperationID q))
        | ResolvedResume x \<Rightarrow> ?resume x
        | ResolvedReplay x \<Rightarrow> lift_res (containerResultFromRecord ResolutionReplay x))"
    by (auto simp: ConfirmContainerDelete_def Let_def)
  have edge: "attempt_edge ?q = edge (Some AttemptStopped, None)" by (auto simp: fun_eq_iff edge_def)
  have "container_step c b ?q v v' a"
    using assms(2-4) unfolding p
  proof (cases rule: container_replies.dispatchE)
    case (resume x)
    from resume(1) show ?thesis
      by (rule attempted_get_container) (use resume(2) assms(3) in
          \<open>auto simp: container_step_def edge intro: deleteAbsentContainer_step deleteStoppedContainer_step\<close>)
  qed (auto intro: container_kept)
  then show thesis by (rule that [OF b])
qed

lemma record_stopped_step:
  assumes "container_command c now q = Inr p" and "run_lc p v = (v', Inr a)" and "keyed v" and "cloned v"
    and "q = ContainerBeginRecordStopped r \<or> q = ContainerRecordStopped r"
  obtains b where "container_request_binding q = Inr b" and "container_step c b q v v' a"
proof (cases "q = ContainerRecordStopped r")
  case False
  with assms(5) have q: "q = ContainerBeginRecordStopped r" by simp
  let ?i = "ys_ContainerID r"
  from assms(1) obtain b where b: "container_request_binding q = Inr b"
    and p: "p = lc_bind (resolveOperation c now b) (\<lambda>resolved. case resolved of
          ResolvedNew \<Rightarrow> lc_bind (getContainer ?i) (observeRunningContainer c now b)
        | ResolvedResume x \<Rightarrow> resumeContainer x b ?i
        | ResolvedReplay x \<Rightarrow> lift_res (containerResultFromRecord ResolutionReplay x))"
    by (auto simp: q BeginRecordStopped_def Let_def)
  have "container_step c b q v v' a"
    using assms(2-4) unfolding p
  proof (cases rule: container_replies.dispatchE)
    case new
    then obtain x where "containers_of v ?i = Some x" "run_lc (observeRunningContainer c now b x) v = (v', Inr a)"
      by (auto simp: run_bind_Inr run_get GetContainerAttempt_Inr)
    then show ?thesis using keyed_container [OF assms(3)]
      by (auto simp: container_step_def intro: observeRunningContainer_step)
  qed (auto simp: container_step_def intro: resumeContainer_step pair_kept)
  then show thesis by (rule that [OF b])
next
  case True
  let ?w = "ys_Verification r"
  from assms(1) obtain b where b: "container_request_binding q = Inr b"
    and p: "p = recordStopped c now b (ys_Outcome r) (ys_Conditions r) ?w"
    by (auto simp: True RecordStopped_def)
  have id: "tg_ID (bd_Target b) = ys_ContainerID r" using container_request_binding_parts [OF b] True by simp
  have edge: "attempt_edge q = may_stop"
    by (auto simp: True fun_eq_iff may_stop_def elim: attempt_allowed.elims)
  have "container_step c b q v v' a"
    using assms(2-4) unfolding p recordStopped_def
  proof (cases rule: container_replies.dispatchE)
    case new
    then have "run_lc (recordStoppedInTx c now b (ys_Outcome r) (ys_Conditions r) ?w ResolvedNew) v = (v', Inr a)"
      by (simp add: run_check_Inr)
    from recordStoppedInTx_step [OF this assms(3)] show ?thesis
      by (simp add: container_step_def edge id) (simp add: True id)
  next
    case (resume x)
    then have "run_lc (recordStoppedInTx c now b (ys_Outcome r) (ys_Conditions r) ?w (ResolvedResume x)) v = (v', Inr a)"
      by (simp add: run_check_Inr)
    from recordStoppedInTx_step [OF this assms(3)] show ?thesis
      using resume(2) by (simp add: container_step_def edge id) (simp add: True id)
  qed (auto intro: container_kept)
  then show thesis by (rule that [OF b])
qed

lemma confirm_container_step:
  assumes "suppliedBinding j ty (container_resource i) f = Inr b"
    and "run_lc (confirmContainerTransition c now b w before after) v = (v', Inr a)" and "keyed v" and "cloned v"
  shows "container_stored c b v' a" and "pair_step i (edge (Some before, Some after)) v v'"
proof -
  have i: "tg_ID (bd_Target b) = i" using suppliedBinding_Inr [OF assms(1)] by (simp add: container_resource_def)
  have "container_stored c b v' a \<and> pair_step i (edge (Some before, Some after)) v v'"
    using assms(2-4) unfolding confirmContainerTransition_def
  proof (cases rule: container_replies.dispatchE)
    case (resume x)
    from applyContainerTransition_step [OF resume(1) assms(3) resume(2,4)] show ?thesis by (simp add: i)
  qed (auto intro: pair_kept)
  then show "container_stored c b v' a" "pair_step i (edge (Some before, Some after)) v v'" by simp_all
qed

lemma resumed_step:
  assumes "run_lc (lc_bind (resolveOperation c now b) (\<lambda>resolved. case resolved of
      ResolvedNew \<Rightarrow> Abort e
    | ResolvedResume x \<Rightarrow> f x
    | ResolvedReplay x \<Rightarrow> lift_res (containerResultFromRecord ResolutionReplay x))) v = (v', Inr a)"
    and "keyed v" and "cloned v"
    and "\<And>x. run_lc (f x) v = (v', Inr a) \<Longrightarrow> answered_by c b v x \<Longrightarrow> container_step c b q v v' a"
  shows "container_step c b q v v' a"
  using assms(1-3) by (cases rule: container_replies.dispatchE) (auto intro: assms(4) container_kept)

text \<open>Every command is a step along an edge of its request, or keeps all pairs.\<close>

lemma container_command_step:
  assumes "container_command c now q = Inr p" and "run_lc p v = (v', Inr a)" and "keyed v" and "cloned v"
  obtains b where "container_request_binding q = Inr b" and "container_step c b q v v' a"
proof (cases q)
  case (ContainerBeginCreate r)
  then show thesis using assms(1) create_container_step [OF _ assms(2-4)] that by auto
next
  case (ContainerConfirmCreate r)
  then obtain b where b: "suppliedBinding (yf_OperationID r) TypeCreate (container_resource (yf_ContainerID r))
      (yf_Fingerprint r) = Inr b" "p = confirmContainerTransition c now b (yf_Verification r) AttemptCreating AttemptCreated"
    using assms(1) by (auto simp: ConfirmContainerCreate_def)
  have "attempt_edge q = edge (Some AttemptCreating, Some AttemptCreated)"
    by (auto simp: ContainerConfirmCreate fun_eq_iff edge_def)
  then have "container_step c b q v v' a"
    using confirm_container_step [OF b(1) assms(2) [unfolded b(2)] assms(3,4)]
    by (simp add: container_step_def ContainerConfirmCreate)
  then show thesis using b(1) by (intro that) (simp_all add: ContainerConfirmCreate)
next
  case (ContainerBeginStart r)
  then show thesis using assms(1) start_container_step [OF _ assms(2-4)] that by auto
next
  case (ContainerConfirmStart r)
  then obtain b where b: "suppliedBinding (yf_OperationID r) TypeStart (container_resource (yf_ContainerID r))
      (yf_Fingerprint r) = Inr b" "p = confirmContainerTransition c now b (yf_Verification r) AttemptCreated AttemptRunning"
    using assms(1) by (auto simp: ConfirmContainerStart_def)
  have "attempt_edge q = edge (Some AttemptCreated, Some AttemptRunning)"
    by (auto simp: ContainerConfirmStart fun_eq_iff edge_def)
  then have "container_step c b q v v' a"
    using confirm_container_step [OF b(1) assms(2) [unfolded b(2)] assms(3,4)]
    by (simp add: container_step_def ContainerConfirmStart)
  then show thesis using b(1) by (intro that) (simp_all add: ContainerConfirmStart)
next
  case (ContainerBeginDelete r)
  then show thesis using assms(1) delete_container_step [OF _ assms(2-4)] that by auto
next
  case (ContainerConfirmDelete r)
  then show thesis using assms(1) confirm_delete_step [OF _ assms(2-4)] that by auto
next
  case (ContainerBeginRecordStopped r)
  then show thesis using record_stopped_step [OF assms] that by blast
next
  case (ContainerRecordStopped r)
  then show thesis using record_stopped_step [OF assms] that by blast
next
  case (ContainerStartTerminal r)
  then obtain b where b: "container_request_binding q = Inr b"
    and p: "p = lc_bind (resolveOperation c now b) (\<lambda>resolved. case resolved of
         ResolvedNew \<Rightarrow> Abort (LcNotFound (yt_OperationID r))
       | ResolvedResume x \<Rightarrow> recordStartTerminal x r
       | ResolvedReplay x \<Rightarrow> lift_res (containerResultFromRecord ResolutionReplay x))"
    using assms(1) by (auto simp: RecordContainerStartTerminal_def)
  have edge: "attempt_edge q = edge (Some AttemptCreated, Some AttemptStopped)"
    by (auto simp: ContainerStartTerminal fun_eq_iff edge_def)
  have "container_step c b q v v' a"
    using assms(2-4) unfolding p
  proof (rule resumed_step)
    fix x assume "run_lc (recordStartTerminal x r) v = (v', Inr a)" "answered_by c b v x"
    from recordStartTerminal_step [OF this(1) assms(3) this(2)] show "container_step c b q v v' a"
      by (simp add: container_step_def edge) (simp add: ContainerStartTerminal)
  qed
  then show thesis by (rule that [OF b])
next
  case (ContainerFailCreate r)
  then obtain b where b: "container_request_binding q = Inr b"
    and p: "p = lc_bind (resolveOperation c now b) (\<lambda>resolved. case resolved of
         ResolvedNew \<Rightarrow> Abort (LcNotFound (yq_OperationID r))
       | ResolvedResume x \<Rightarrow> stopFailedContainer x (yq_Failure r) (yq_Verification r) (yq_ContainerID r)
       | ResolvedReplay x \<Rightarrow> lift_res (containerResultFromRecord ResolutionReplay x))"
    using assms(1) by (auto simp: FailContainerCreateAfterRollback_def)
  have edge: "attempt_edge q = edge (Some AttemptCreating, Some AttemptStopped)"
    by (auto simp: ContainerFailCreate fun_eq_iff edge_def)
  have "container_step c b q v v' a"
    using assms(2-4) unfolding p
  proof (rule resumed_step)
    fix x assume "run_lc (stopFailedContainer x (yq_Failure r) (yq_Verification r) (yq_ContainerID r)) v = (v', Inr a)"
      "answered_by c b v x"
    from stopFailedContainer_step [OF this(1) assms(3) this(2)] show "container_step c b q v v' a"
      by (simp add: container_step_def edge) (simp add: ContainerFailCreate)
  qed
  then show thesis by (rule that [OF b])
qed

subsection \<open>Kill\<close>

fun kill_request_target :: "kill_step_request \<Rightarrow> container_id" where
  "kill_request_target (KillPlan q) = kq_ContainerID q"
| "kill_request_target (KillStopped q) = ks_ContainerID q"

fun kill_request_binding :: "kill_step_request \<Rightarrow> lc_error + binding" where
  "kill_request_binding (KillPlan q) =
    bindingFor (kq_OperationID q) TypeKill (container_resource (kq_ContainerID q)) (killSemantic (kq_ContainerID q) (kq_Policy q))"
| "kill_request_binding (KillStopped q) =
    suppliedBinding (ks_OperationID q) TypeKill (container_resource (ks_ContainerID q)) (ks_Fingerprint q)"

lemma kill_command_shape:
  assumes "kill_command c now q = Inr p"
  obtains b m f where "kill_request_binding q = Inr b"
    and "p = lc_bind (resolveOperation c now b) (\<lambda>resolved.
      case resolved of
        ResolvedNew \<Rightarrow> m
      | ResolvedResume x \<Rightarrow> f x
      | ResolvedReplay x \<Rightarrow> lift_res (killResultFromRecord ResolutionReplay x))"
  using assms by (cases q) (auto simp: PlanKill_def RecordKillStopped_def Let_def)

lemma kill_command_now:
  assumes "kill_command c now q = Inr p"
  obtains p' where "kill_command c now' q = Inr p'"
  using assms by (cases q) (auto simp: PlanKill_def RecordKillStopped_def Let_def)

text \<open>A plan keeps all pairs, and unless it reports what is stored it names a verified process.\<close>

lemma plan_kill_step:
  assumes "PlanKill c now q = Inr p" and "run_lc p v = (v', Inr a)" and "keyed v" and "cloned v"
  obtains b where "kill_request_binding (KillPlan q) = Inr b" and "kill_stored c b v' a"
    and "container_cores v' = container_cores v" and "sandbox_cores v' = sandbox_cores v"
    and "State_Active (op_State (kl_Operation a)) \<longrightarrow> (\<exists>r. containers_of v (kq_ContainerID q) = Some r
      \<and> verifyKillTarget c (container_resource (kq_ContainerID q)) (cr_ContainerAttempt r) = Inr (kl_ProcessIdentity a))"
proof -
  let ?i = "kq_ContainerID q"
  from assms(1) obtain b where b: "kill_request_binding (KillPlan q) = Inr b"
    and p: "p = lc_bind (resolveOperation c now b) (\<lambda>resolved. case resolved of
          ResolvedNew \<Rightarrow> lc_bind (getContainer ?i) (\<lambda>r.
              if attempt_phase_of r = AttemptStopped then killStopped c now b r
              else newKillPlan c now b (kq_Policy q) r)
        | ResolvedResume x \<Rightarrow> resumeKill c b ?i x
        | ResolvedReplay x \<Rightarrow> lift_res (killResultFromRecord ResolutionReplay x))"
    by (auto simp: PlanKill_def Let_def)
  have target: "bd_Target b = container_resource ?i" using b by (auto dest: bindingFor_Inr)
  let ?no = "\<lambda>(_ :: attempt_phase option) (_ :: attempt_phase option). False"
  have "kill_stored c b v' a \<and> pair_step ?i ?no v v' \<and> (State_Active (op_State (kl_Operation a)) \<longrightarrow>
      (\<exists>r. containers_of v ?i = Some r
        \<and> verifyKillTarget c (container_resource ?i) (cr_ContainerAttempt r) = Inr (kl_ProcessIdentity a)))"
    using assms(2-4) unfolding p
  proof (cases rule: kill_replies.dispatchE)
    case new
    then obtain r where r: "containers_of v ?i = Some r"
      "run_lc (if attempt_phase_of r = AttemptStopped then killStopped c now b r
              else newKillPlan c now b (kq_Policy q) r) v = (v', Inr a)"
      by (auto simp: run_bind_Inr run_get GetContainerAttempt_Inr)
    have key: "containers_of v (pair_id (cr_ContainerAttempt r)) = Some r"
      using r(1) keyed_container [OF assms(3) r(1)] by simp
    show ?thesis
    proof (cases "attempt_phase_of r = AttemptStopped")
      case True
      with r(2) have run: "run_lc (killStopped c now b r) v = (v', Inr a)" by simp
      show ?thesis using killStopped_step [OF run key] by blast
    next
      case False
      with r(2) have run: "run_lc (newKillPlan c now b (kq_Policy q) r) v = (v', Inr a)" by simp
      from newKillPlan_step [OF run key] show ?thesis using r(1) by (auto simp: target)
    qed
  next
    case (resume x)
    from resumeKill_step [OF resume(1-3)] show ?thesis by (auto simp: target)
  qed (auto intro: pair_kept)
  then show thesis using b by (intro that) (auto simp: pair_step_def)
qed

text \<open>A kill command as a step: planning keeps all pairs, and the record of the stop moves a running one.\<close>

lemma kill_command_step:
  assumes "kill_command c now q = Inr p" and "run_lc p v = (v', Inr a)" and "keyed v" and "cloned v"
  obtains b where "kill_request_binding q = Inr b" and "kill_stored c b v' a"
    and "pair_step (kill_request_target q) (edge (Some AttemptRunning, Some AttemptStopped)) v v'"
proof (cases q)
  case (KillPlan r)
  then have "PlanKill c now r = Inr p" using assms(1) by simp
  from plan_kill_step [OF this assms(2-4)] show thesis
    using that KillPlan pair_kept by metis
next
  case (KillStopped r)
  then obtain b where b: "kill_request_binding q = Inr b"
    and p: "p = lc_bind (resolveOperation c now b) (\<lambda>resolved. case resolved of
         ResolvedNew \<Rightarrow> Abort (LcNotFound (ks_OperationID r))
       | ResolvedResume x \<Rightarrow> stopKilled x r
       | ResolvedReplay x \<Rightarrow> lift_res (killResultFromRecord ResolutionReplay x))"
    using assms(1) by (auto simp: RecordKillStopped_def Let_def)
  have "kill_stored c b v' a \<and> pair_step (ks_ContainerID r) (edge (Some AttemptRunning, Some AttemptStopped)) v v'"
    using assms(2-4) unfolding p
    by (cases rule: kill_replies.dispatchE) (auto intro: stopKilled_step [OF _ assms(3)] pair_kept)
  then show thesis using that [OF b] by (simp add: KillStopped)
qed

end
