(* ===== verification/Lifecycle_Demo.thy ===== *)
theory Lifecycle_Demo
  imports Lifecycle_Sandbox_Calls
begin

text \<open>
  Sandbox commands on a small store, step by step: one Sandbox with one active operation whose intent
  has been recorded, in the state before a creation is confirmed and before a removal is.
\<close>

definition demo_coordinator :: coordinator where
  "demo_coordinator = \<lparr>co_verifier = (\<lambda>_ _. None), co_profile = HostProfileAbstractM1\<rparr>"

definition demo_time :: gotime where
  "demo_time = \<lparr>t_wall = 1, t_mono = None, t_loc = UTC\<rparr>"

definition demo_key :: "op_type \<Rightarrow> binding" where
  "demo_key ty = \<lparr>bd_ID = ''op-1'', bd_Type = ty, bd_Target = sandbox_target, bd_Fingerprint = demo_fingerprint\<rparr>"

definition demo_seen :: "u64 \<Rightarrow> observation" where
  "demo_seen n = \<lparr>obs_OperationID = ''op-1'', obs_EventSequence = n, obs_Reason = ''none''\<rparr>"

definition demo_box :: "sandbox_phase \<Rightarrow> u64 \<Rightarrow> observation \<Rightarrow> sandbox" where
  "demo_box ph og ob = demo_sandbox\<lparr>sb_Status := (sb_Status demo_sandbox)\<lparr>ss_Phase := ph, ss_ObservedGeneration := og,
     ss_LastObservation := ob\<rparr>\<rparr>"

definition demo_box_record :: "sandbox_phase \<Rightarrow> u64 \<Rightarrow> observation \<Rightarrow> revision \<Rightarrow> sandbox_record" where
  "demo_box_record ph og ob n =
    \<lparr>sr_SchemaVersion = 1, sr_Revision = n, sr_Sandbox = demo_box ph og ob, sr_HostResources = []\<rparr>"

definition demo_op :: "op_type \<Rightarrow> op_state \<Rightarrow> stage \<Rightarrow> op_result \<Rightarrow> string \<Rightarrow> operation" where
  "demo_op ty st sg res response =
    \<lparr>op_SchemaVersion = 1, op_ID = ''op-1'', op_Type = ty, op_Target = sandbox_target, op_Fingerprint = demo_fingerprint,
     op_State = st, op_Stage = sg, op_Result = res, op_Reason = ReasonNone, op_Response = response\<rparr>"

definition demo_op_record :: "operation \<Rightarrow> revision \<Rightarrow> operation_record" where
  "demo_op_record x n =
    \<lparr>or_SchemaVersion = 1, or_Revision = n, or_HostProfile = HostProfileAbstractM1, or_Operation = x,
     or_RollbackCause = None, or_OOMBaseline = None, or_KillEscalationDeadline = None, or_Rollback = Some [],
     or_Receipts = None, or_Releases = None\<rparr>"

definition demo_fact :: "op_type \<Rightarrow> u64 \<Rightarrow> stage \<Rightarrow> op_result \<Rightarrow> u64 \<Rightarrow> string \<Rightarrow> event" where
  "demo_fact ty n sg res og d =
    \<lparr>ev_SchemaVersion = 2, ev_Sequence = n, ev_OperationID = ''op-1'', ev_Type = ty, ev_Target = sandbox_target,
     ev_Resources = [sandbox_target], ev_Stage = sg, ev_Result = res, ev_Reason = ReasonNone, ev_OccurredAt = demo_time,
     ev_Duration = None, ev_Generation = 1, ev_ObservedGeneration = og, ev_Details = d\<rparr>"

definition demo_phase :: "sandbox_phase \<Rightarrow> u64 \<Rightarrow> bool" where
  "demo_phase ph og \<longleftrightarrow> (ph, og) \<in> {(SandboxCreating, 0), (SandboxReady, 1), (SandboxStopping, 1), (SandboxStopped, 1)}"

lemmas demo_defs = demo_key_def demo_box_def demo_box_record_def demo_op_def demo_op_record_def demo_fact_def
  demo_coordinator_def demo_sandbox_def

subsection \<open>Validity\<close>

lemma demo_target_good [simp]:
  "good_target sandbox_target" "tg_Kind sandbox_target = TargetSandbox" "tg_ID sandbox_target = ''sandbox-1''"
  by (simp_all add: good_target_def sandbox_target_def)

lemma demo_seen_valid [simp]: "n \<noteq> 0 \<Longrightarrow> LifecycleObservation_Validate (demo_seen n) = None"
  by (simp add: LifecycleObservation_Validate_def demo_seen_def plain_TrimSpace plain_no_nul plain_char_def in_range_def)

lemma demo_box_valid:
  assumes "demo_phase ph og" and "LifecycleObservation_Validate ob = None"
  shows "Sandbox_Validate (demo_box ph og ob) = None"
  using assms by (auto simp: demo_phase_def Sandbox_Validate_None demo_box_def demo_sandbox_def current_error_def
      DomainSchemaVersion_def InitialGeneration_def)

lemma demo_record_valid:
  assumes "demo_phase ph og" and "LifecycleObservation_Validate ob = None"
  shows "validateSandboxRecord (demo_box_record ph og ob n) = None"
proof -
  have "sb_SchemaVersion (demo_box ph og ob) = DomainSchemaVersion"
    by (simp add: demo_box_def demo_sandbox_def DomainSchemaVersion_def)
  then show ?thesis
    using demo_box_valid [OF assms]
    by (simp add: validateSandboxRecord_def demo_box_record_def Let_def validateSchema_def SchemaVersionV1_def
        validateHostResourceInventory_def)
qed

definition demo_payload :: "string \<Rightarrow> bool" where
  "demo_payload s \<longleftrightarrow> (\<forall>f. validateOpaqueJSON f s = None)"

lemma fits_payload: "fits maxNestingDepth sc v \<Longrightarrow> demo_payload (json_encode v)"
proof -
  assume "fits maxNestingDepth sc v"
  then have "Decode Any (json_encode v) = Inr v"
    by (simp add: Decode_Inr fits_def json_parse_encode ValidString_encode)
  then show ?thesis by (simp add: demo_payload_def validateOpaqueJSON_def)
qed

lemma demo_op_valid:
  assumes "ty \<in> {TypeCreate, TypeStop, TypeDelete}" and "demo_payload response"
    and "st = StateRunning \<and> sg = StagePersistIntent \<and> res = ResultPending
       \<or> st = StateSucceeded \<and> sg = StageComplete \<and> (res = ResultSucceeded \<or> res = ResultNoop)"
  shows "validateOperationRecord (demo_op_record (demo_op ty st sg res response) n) = None"
proof -
  have "Operation_Validate (demo_op ty st sg res response) = None"
    using assms by (auto simp: operation_valid_iff demo_op_def demo_payload_def)
  then show ?thesis
    using assms
    by (auto simp: validateOperationRecord_def demo_op_record_def demo_op_def validateSchema_def SchemaVersionV1_def
        OperationSchemaVersion_def cause_record_error_def oom_record_error_def deadline_record_error_def
        validateAcquisitionReceipts_def validateCleanupReleases_def validateReceiptRollbackLinks_def
        validateRollbackAcquisitionOrder_def receipt_table_def adoption_error_def)
qed

lemma demo_fact_valid:
  assumes "ty \<in> {TypeCreate, TypeStop, TypeDelete}" and "demo_payload d" and "n \<noteq> 0" and "og \<le> 1"
    and "sg = StagePersistIntent \<and> res = ResultPending \<or> sg = StageComplete \<and> (res = ResultSucceeded \<or> res = ResultNoop)"
  shows "Event_Validate (demo_fact ty n sg res og d) = None"
  using assms
  by (auto simp: Event_Validate_None event_identity_None event_fact_None validateEventResources_None
      demo_fact_def time_IsZero_def demo_time_def demo_payload_def)

subsection \<open>Steps\<close>

text \<open>A view of a store that holds at most the Sandbox and the operation.\<close>

definition demo_content :: "sandbox_record option \<Rightarrow> operation_record option \<Rightarrow> event list \<Rightarrow> u64 \<Rightarrow> memory_data" where
  "demo_content r x es n = newMemoryData
    \<lparr>md_sandboxes := map (Pair ''sandbox-1'') (optional r), md_operations := map (Pair ''op-1'') (optional x),
     md_events := es, md_lastEvent := n\<rparr>"

definition demo_view :: "sandbox_record option \<Rightarrow> operation_record option \<Rightarrow> event list \<Rightarrow> u64 \<Rightarrow> memory_view" where
  "demo_view r x es n = view_of (NewMemoryStore\<lparr>ms_data := demo_content r x es n\<rparr>)"

lemma demo_view_start: "view_of NewMemoryStore = demo_view None None [] 0"
  by (simp add: demo_view_def demo_content_def optional_def newMemoryData_def NewMemoryStore_def)

lemma demo_view_parts [simp]:
  "sandboxes_of (demo_view r x es n) ''sandbox-1'' = r" "operations_of (demo_view r x es n) ''op-1'' = x"
  "ensureWritable (demo_view r x es n) = None" "md_events (mv_data (demo_view r x es n)) = es"
  "md_lastEvent (mv_data (demo_view r x es n)) = n" "mv_closed (demo_view r x es n) = False"
  "md_containers (mv_data (demo_view r x es n)) = []" "md_retired (mv_data (demo_view r x es n)) = []"
  by (simp_all add: demo_view_def demo_content_def view_of_def store_view_def NewMemoryStore_def newMemoryData_def
      optional_def ensureWritable_def ensureOpen_def split: option.split)

lemma demo_view_update:
  "mv_data (demo_view r x es n) = demo_content r x es n"
  "(demo_view r x es n)\<lparr>mv_data := demo_content r' x' es' n'\<rparr> = demo_view r' x' es' n'"
  "(demo_content r x es n)\<lparr>md_sandboxes := AList.update ''sandbox-1'' b (md_sandboxes (demo_content r x es n))\<rparr>
     = demo_content (Some b) x es n"
  "(demo_content r x es n)\<lparr>md_operations := AList.update ''op-1'' y (md_operations (demo_content r x es n))\<rparr>
     = demo_content r (Some y) es n"
  "(demo_content r x es n)\<lparr>md_events := es', md_lastEvent := n'\<rparr> = demo_content r x es' n'"
  "(demo_content r x es n)\<lparr>md_sandboxes := AList.delete ''sandbox-1'' (md_sandboxes (demo_content r x es n))\<rparr>
     = demo_content None x es n"
  by (simp_all add: demo_view_def demo_content_def view_of_def store_view_def NewMemoryStore_def newMemoryData_def
      optional_def split: option.split)

lemma demo_content_parts [simp]:
  "md_events (demo_content r x es n) = es" "md_lastEvent (demo_content r x es n) = n"
  by (simp_all add: demo_content_def)

lemma demo_put_box:
  assumes "validateSandboxRecord b = None" and "sb_ID (sr_Sandbox b) = ''sandbox-1''"
    and "nextRevision e (revision_of sr_Revision r) (r \<noteq> None) = Inr k"
    and "\<And>c. r = Some c \<Longrightarrow> sandbox_advance_error c b = None"
  shows "run_lc (putSandbox b e) (demo_view r x es n)
    = (demo_view (Some (b\<lparr>sr_Revision := k\<rparr>)) x es n, Inr (b\<lparr>sr_Revision := k\<rparr>))"
  using assms demo_view_parts(1) [of r x es n]
  by (simp add: tx_run PutSandbox_Inr Let_def demo_view_update)

lemma demo_put_op:
  assumes "validateOperationRecord y = None" and "op_ID (or_Operation y) = ''op-1''"
    and "or_HostProfile y = HostProfileAbstractM1"
    and "nextRevision e (revision_of or_Revision x) (x \<noteq> None) = Inr k"
    and "\<And>c. x = Some c \<Longrightarrow> operation_advance_error c y = None"
  shows "run_lc (putOperation y e) (demo_view r x es n)
    = (demo_view r (Some ((OperationRecord_Clone y)\<lparr>or_Revision := k\<rparr>)) es n,
       Inr ((OperationRecord_Clone y)\<lparr>or_Revision := k\<rparr>))"
proof -
  have "target_owner_error (demo_view r x es n) y = None"
    by (simp add: target_owner_error_def Let_def demo_view_update(1) demo_content_def assms(2) optional_def split: option.split)
  moreover have "new_identity_error (demo_view None None es n) ''op-1'' = None" for es n
    by (simp add: new_identity_error_def retiredOperationFor_def demo_view_def demo_content_def view_of_def store_view_def
        NewMemoryStore_def newMemoryData_def optional_def effective_policy_def DefaultRetentionPolicy_def)
  moreover have "new_identity_error (demo_view r None es n) ''op-1'' = None"
    by (simp add: new_identity_error_def retiredOperationFor_def demo_view_def demo_content_def view_of_def store_view_def
        NewMemoryStore_def newMemoryData_def optional_def effective_policy_def DefaultRetentionPolicy_def)
  ultimately show ?thesis
    using assms demo_view_parts(2) [of r x es n]
    by (cases x) (simp_all add: tx_run PutOperation_Inr Let_def demo_view_update new_linux_error_def)
qed

lemma demo_append:
  assumes "ty \<in> {TypeCreate, TypeStop, TypeDelete}" and "demo_payload d" and "og \<le> 1"
    and "sg = StagePersistIntent \<and> res = ResultPending \<or> sg = StageComplete \<and> (res = ResultSucceeded \<or> res = ResultNoop)"
    and "or_Operation x = demo_op ty st sg res response" and "n + 1 \<noteq> 0"
    and "\<And>b. r = Some b \<Longrightarrow> ss_Generation (sb_Status (sr_Sandbox b)) = 1
        \<and> ss_ObservedGeneration (sb_Status (sr_Sandbox b)) = og"
    and "es \<noteq> [] \<Longrightarrow> Event_Validate (last es) = None \<and> ev_Sequence (last es) = n"
  shows "run_lc (appendEvent (demo_fact ty 0 sg res og d)) (demo_view r (Some x) es n)
    = (demo_view r (Some x) (es @ [demo_fact ty (n + 1) sg res og d]) (n + 1), Inr (demo_fact ty (n + 1) sg res og d))"
proof -
  have "n \<noteq> -1" using assms(6) by auto
  then have next': "Sequence_Next n = Inr (n + 1)" by (simp add: Sequence_Next_Inr)
  have ev: "Event_Validate (demo_fact ty (n + 1) sg res og d) = None"
    by (rule demo_fact_valid) (use assms in auto)
  have gen: "validateEventGeneration (demo_view r (Some x) es n) (demo_fact ty 0 sg res og d) = None"
    using demo_view_parts(1) [of r "Some x" es n] assms(7)
    by (cases r) (simp_all add: validateEventGeneration_def eventTargetGeneration_def demo_fact_def)
  have err: "append_error (demo_view r (Some x) es n) (demo_fact ty 0 sg res og d) = None"
    using demo_view_parts(2) [of r "Some x" es n] gen assms(5)
    by (simp add: append_error_def demo_fact_def demo_op_def)
  have after: "es \<noteq> [] \<Longrightarrow> Event_ValidateAfter (demo_fact ty (n + 1) sg res og d) (last es) = None"
    using assms(8) ev \<open>n \<noteq> -1\<close> by (simp add: Event_ValidateAfter_None) (simp add: demo_fact_def)
  have "(demo_fact ty 0 sg res og d)\<lparr>ev_Sequence := n + 1\<rparr> = demo_fact ty (n + 1) sg res og d"
    "ev_SchemaVersion (demo_fact ty (n + 1) sg res og d) = EventSchemaVersion"
    by (simp_all add: demo_fact_def EventSchemaVersion_def)
  then show ?thesis
    using err next' ev after
    by (simp add: tx_run AppendEvent_def Let_def validateEvent_def demo_view_update)
qed

subsection \<open>Events and observations\<close>

lemma demo_box_parts [simp]:
  "sb_ID (demo_box ph og ob) = ''sandbox-1''" "ss_CurrentContainerID (sb_Status (demo_box ph og ob)) = None" "ss_Phase (sb_Status (demo_box ph og ob)) = ph"
  "ss_Generation (sb_Status (demo_box ph og ob)) = 1" "ss_ObservedGeneration (sb_Status (demo_box ph og ob)) = og"
  "ss_LastObservation (sb_Status (demo_box ph og ob)) = ob" "sb_Spec (demo_box ph og ob) = demo_spec"
  "sr_Sandbox (demo_box_record ph og ob k) = demo_box ph og ob" "sr_Revision (demo_box_record ph og ob k) = k"
  "sr_HostResources (demo_box_record ph og ob k) = []"
  "(demo_box_record ph og ob k)\<lparr>sr_Revision := j\<rparr> = demo_box_record ph og ob j"
  "(demo_box_record ph og ob k)\<lparr>sr_Sandbox := demo_box ph' og' ob'\<rparr> = demo_box_record ph' og' ob' k"
  "(demo_box_record ph og ob k)\<lparr>sr_HostResources := []\<rparr> = demo_box_record ph og ob k"
  by (simp_all add: demo_box_def demo_box_record_def demo_sandbox_def)

lemma demo_op_parts [simp]:
  "or_Operation (demo_op_record x k) = x" "or_Revision (demo_op_record x k) = k"
  "or_HostProfile (demo_op_record x k) = HostProfileAbstractM1"
  "(demo_op_record x k)\<lparr>or_Operation := y\<rparr> = demo_op_record y k"
  "(demo_op_record x k)\<lparr>or_Revision := j\<rparr> = demo_op_record x j"
  "OperationRecord_Clone (demo_op_record x k) = demo_op_record x k"
  "op_ID (demo_op ty st sg res response) = ''op-1''" "op_Reason (demo_op ty st sg res response) = ReasonNone"
  "op_State (demo_op ty st sg res response) = st" "op_Type (demo_op ty st sg res response) = ty"
  "elems (or_Releases (demo_op_record x k)) = []" "elems (or_Receipts (demo_op_record x k)) = []"
  "op_Response (demo_op ty st sg res response) = response"
  "(demo_op ty st sg res response)\<lparr>op_Response := response'\<rparr> = demo_op ty st sg res response'"
  by (simp_all add: demo_op_record_def demo_op_def OperationRecord_Clone_def)

lemma demo_fact_parts [simp]:
  "ev_Sequence (demo_fact ty n sg res og d) = n" "ev_OperationID (demo_fact ty n sg res og d) = ''op-1''"
  "ev_Type (demo_fact ty n sg res og d) = ty" "ev_Target (demo_fact ty n sg res og d) = sandbox_target"
  "ev_Stage (demo_fact ty n sg res og d) = sg" "ev_Result (demo_fact ty n sg res og d) = res"
  "ev_Reason (demo_fact ty n sg res og d) = ReasonNone" "ev_Resources (demo_fact ty n sg res og d) = [sandbox_target]"
  "ev_Generation (demo_fact ty n sg res og d) = 1" "ev_ObservedGeneration (demo_fact ty n sg res og d) = og"
  "op_Target (demo_op ty st sg res response) = sandbox_target" "op_Stage (demo_op ty st sg res response) = sg"
  "op_Result (demo_op ty st sg res response) = res" "obs_EventSequence (demo_seen n) = n"
  "obs_OperationID (demo_seen n) = ''op-1''" "obs_Reason (demo_seen n) = ''none''"
  by (simp_all add: demo_fact_def demo_op_def demo_seen_def)

lemma demo_event:
  assumes "ty \<in> {TypeCreate, TypeStop, TypeDelete}" and "demo_phase ph og"
    and "sg = StagePersistIntent \<and> res = ResultPending \<or> sg = StageComplete \<and> (res = ResultSucceeded \<or> res = ResultNoop)"
    and "marshal p = Inr j" and "demo_payload (json_encode j)" and "n + 1 \<noteq> 0"
    and "es \<noteq> [] \<Longrightarrow> Event_Validate (last es) = None \<and> ev_Sequence (last es) = n"
  shows "run_lc (sandboxEvent (demo_op ty st sg res response) sg res demo_time None (demo_box ph og ob) p)
      (demo_view (Some (demo_box_record ph og ob k)) (Some (demo_op_record (demo_op ty st sg res response) m)) es n)
    = (demo_view (Some (demo_box_record ph og ob k)) (Some (demo_op_record (demo_op ty st sg res response) m))
         (es @ [demo_fact ty (n + 1) sg res og (json_encode j)]) (n + 1),
       Inr (demo_fact ty (n + 1) sg res og (json_encode j)))"
proof -
  let ?x = "demo_op_record (demo_op ty st sg res response) m"
  have og: "og \<le> 1" using assms(2) by (auto simp: demo_phase_def)
  have e: "sandboxEvent (demo_op ty st sg res response) sg res demo_time None (demo_box ph og ob) p
    = appendEvent (demo_fact ty 0 sg res og (json_encode j))"
    by (simp add: sandboxEvent_def appendOperationEvent_def encodeResponse_def assms(4))
      (simp add: demo_fact_def demo_op_def EventSchemaVersion_def)
  show ?thesis
    unfolding e
    by (rule demo_append [OF assms(1,5) og assms(3) _ assms(6) _ assms(7), where x = ?x and st = st and response = response])
      simp_all
qed

lemma demo_observe:
  assumes "demo_phase ph og" and "n \<noteq> 0" and "obs_EventSequence ob \<le> n" and "k \<noteq> 0" and "k + 1 \<noteq> 0"
  shows "run_lc (observeSandbox (demo_box_record ph og ob k) (demo_fact ty n sg res og d))
      (demo_view (Some (demo_box_record ph og ob k)) x es m)
    = (demo_view (Some (demo_box_record ph og (demo_seen n) (k + 1))) x es m,
       Inr (demo_box_record ph og (demo_seen n) (k + 1)))"
proof -
  have seen: "lifecycleObservation (demo_fact ty n sg res og d) = demo_seen n"
    by (simp add: lifecycleObservation_def demo_fact_def demo_seen_def)
  have box: "(demo_box ph og ob)\<lparr>sb_Status := (sb_Status (demo_box ph og ob))\<lparr>ss_LastObservation := demo_seen n\<rparr>\<rparr>
      = demo_box ph og (demo_seen n)"
    by (simp add: demo_box_def)
  have ok: "LifecycleObservation_Validate (demo_seen n) = None" using assms(2) by simp
  have set: "Sandbox_SetLastObservation (demo_box ph og ob) (demo_seen n) = (demo_box ph og (demo_seen n), None)"
    using assms(3) demo_box_valid [OF assms(1) ok] ok
    by (simp add: Sandbox_SetLastObservation_def Let_def box not_less)
  have adv: "sandbox_advance_error (demo_box_record ph og ob k) (demo_box_record ph og (demo_seen n) k) = None"
    using assms(3) by (simp add: sandbox_advance_error_def validateSandboxAdvance_def validateHostResourceAdvance_def
        not_less)
  have rev: "k \<noteq> -1" using assms(5) by auto
  show ?thesis
    unfolding observeSandbox_def demo_box_parts seen set changed_def
    using demo_put_box [where b = "demo_box_record ph og (demo_seen n) k" and e = k and k = "k + 1"
        and r = "Some (demo_box_record ph og ob k)" and x = x and es = es and n = m]
      demo_record_valid [OF assms(1) ok] adv assms(4) rev
    by (simp add: nextRevision_Inr revision_of_def)
qed

subsection \<open>The store before the command\<close>

definition demo_note :: "sandbox_phase \<Rightarrow> string" where
  "demo_note ph = json_encode (snd (sandbox_phase_details (demo_box ph 0 empty_observation)))"

abbreviation demo_intent :: "op_type \<Rightarrow> operation" where
  "demo_intent ty \<equiv> demo_op ty StateRunning StagePersistIntent ResultPending []"

definition demo_before :: "sandbox_phase \<Rightarrow> u64 \<Rightarrow> op_type \<Rightarrow> memory_data" where
  "demo_before ph og ty =
    demo_content (Some (demo_box_record ph og (demo_seen 1) 2)) (Some (demo_op_record (demo_intent ty) 1))
      [demo_fact ty 1 StagePersistIntent ResultPending og (demo_note ph)] 1"

definition demo_store :: "sandbox_phase \<Rightarrow> u64 \<Rightarrow> op_type \<Rightarrow> memory_store" where
  "demo_store ph og ty = NewMemoryStore\<lparr>ms_data := demo_before ph og ty\<rparr>"

definition demo_start :: "sandbox_phase \<Rightarrow> u64 \<Rightarrow> op_type \<Rightarrow> sandbox_result lc" where
  "demo_start ph og ty =
    lc_bind (putSandbox (demo_box_record ph og empty_observation 0) 0) (\<lambda>r.
    lc_bind (putNewActiveOperation demo_coordinator (demo_key ty) []) (\<lambda>x.
      recordSandboxIntent x (demo_key ty) demo_time r))"

lemma demo_note_payload: "demo_phase ph og \<Longrightarrow> demo_payload (demo_note ph)"
proof -
  assume "demo_phase ph og"
  then have "fits maxNestingDepth (MapOf Any) (snd (sandbox_phase_details (demo_box ph 0 empty_observation)))"
    by (auto simp: sandbox_phase_details_def details_def plain_payload_def demo_phase_def maxNestingDepth_def ascii_def
        intro!: fits_text_map ascii_ValidString)
  then show ?thesis unfolding demo_note_def by (rule fits_payload)
qed

lemma demo_details: "marshal (sandbox_phase_details (demo_box ph og ob)) = Inr j \<Longrightarrow> json_encode j = demo_note ph"
  by (auto simp: marshal_def demo_note_def sandbox_phase_details_def details_def plain_payload_def)

lemma demo_details_marshal:
  "marshal (sandbox_phase_details (demo_box ph og ob)) = Inr (snd (sandbox_phase_details (demo_box ph og ob)))"
  by (simp add: marshal_def sandbox_phase_details_def details_def plain_payload_def)

lemma demo_put_intent:
  assumes "ty \<in> {TypeCreate, TypeStop, TypeDelete}"
  shows "run_lc (putNewActiveOperation demo_coordinator (demo_key ty) []) (demo_view r None es n)
    = (demo_view r (Some (demo_op_record (demo_intent ty) 1)) es n, Inr (demo_op_record (demo_intent ty) 1))"
proof -
  let ?y = "(demo_op_record (demo_intent ty) 0)\<lparr>or_Rollback := None\<rparr>"
  have clone: "OperationRecord_Clone ?y = demo_op_record (demo_intent ty) 0"
    by (simp add: OperationRecord_Clone_def demo_op_record_def)
  have "validateOperationRecord (OperationRecord_Clone ?y) = None"
    unfolding clone by (rule demo_op_valid [OF assms]) (simp_all add: demo_payload_def validateOpaqueJSON_def)
  then have valid: "validateOperationRecord ?y = None" by simp
  have new: "NewOperationRecordForProfile (newActiveOperation (demo_key ty) []) (co_profile demo_coordinator) = Inr ?y"
    by (simp add: NewOperationRecordForProfile_def NewOperationRecord_def newActiveOperation_def demo_defs
        SchemaVersionV1_def OperationSchemaVersion_def)
  have "op_ID (or_Operation ?y) = ''op-1''" "or_HostProfile ?y = HostProfileAbstractM1"
    by (simp_all add: demo_op_record_def demo_op_def)
  from demo_put_op [OF valid this, where x = None and e = 0 and k = 1 and r = r and es = es and n = n]
  show ?thesis
    unfolding putNewActiveOperation_def putNew_def new by (simp add: nextRevision_Inr clone)
qed

lemma demo_start_run:
  assumes "demo_phase ph og" and "ty \<in> {TypeCreate, TypeStop, TypeDelete}"
  obtains a where "run_lc (demo_start ph og ty) (view_of NewMemoryStore) = (view_of (demo_store ph og ty), Inr a)"
proof -
  let ?b = "demo_box_record ph og empty_observation"
  let ?x = "demo_op_record (demo_intent ty) 1"
  have put: "run_lc (putSandbox (?b 0) 0) (demo_view None None [] 0) = (demo_view (Some (?b 1)) None [] 0, Inr (?b 1))"
    using demo_put_box [where b = "?b 0" and r = None and e = 0 and k = 1] demo_record_valid [OF assms(1)]
    by (simp add: nextRevision_Inr)
  have ev: "run_lc (sandboxEvent (demo_intent ty) StagePersistIntent ResultPending demo_time None (demo_box ph og empty_observation)
        (sandbox_phase_details (demo_box ph og empty_observation))) (demo_view (Some (?b 1)) (Some ?x) [] 0)
     = (demo_view (Some (?b 1)) (Some ?x) [demo_fact ty 1 StagePersistIntent ResultPending og (demo_note ph)] 1,
        Inr (demo_fact ty 1 StagePersistIntent ResultPending og (demo_note ph)))"
    using demo_event [OF assms(2,1) _ demo_details_marshal, where sg = StagePersistIntent and res = ResultPending and n = 0
        and es = "[]" and st = StateRunning and response = "[]" and ob = empty_observation and k = 1 and m = 1]
      demo_note_payload [OF assms(1)]
    by (simp add: demo_details [OF demo_details_marshal])
  have obs: "run_lc (observeSandbox (?b 1) (demo_fact ty 1 StagePersistIntent ResultPending og (demo_note ph)))
        (demo_view (Some (?b 1)) (Some ?x) [demo_fact ty 1 StagePersistIntent ResultPending og (demo_note ph)] 1)
     = (demo_view (Some (demo_box_record ph og (demo_seen 1) 2)) (Some ?x)
          [demo_fact ty 1 StagePersistIntent ResultPending og (demo_note ph)] 1, Inr (demo_box_record ph og (demo_seen 1) 2))"
    using demo_observe [OF assms(1), of 1 empty_observation 1] by (simp add: empty_observation_def)
  show thesis
    by (rule that)
      (simp add: demo_start_def demo_view_start run_bind put demo_put_intent [OF assms(2)] recordSandboxIntent_def ev obs
        demo_store_def demo_before_def flip: demo_view_def)
qed

lemma demo_before_valid:
  assumes "demo_phase ph og" and "ty \<in> {TypeCreate, TypeStop, TypeDelete}"
  shows "data_validate (demo_before ph og ty) = None"
    and "applyRetention DefaultRetentionPolicy (demo_before ph og ty) = Inr (demo_before ph og ty, False)"
proof -
  have "ph \<noteq> SandboxAbsent" using assms(1) by (auto simp: demo_phase_def)
  moreover have "\<lparr>tg_Kind = TargetSandbox, tg_ID = ''sandbox-1''\<rparr> = sandbox_target"
    by (simp add: sandbox_target_def)
  ultimately show "data_validate (demo_before ph og ty) = None"
    by (simp add: data_validate_def demo_before_def demo_content_def newMemoryData_def suffix_error_def
      event_binding_error_def terminal_error_def terminal_order_error_def store_pairs_def optional_def
      ValidateOneActiveAttempt_def validateOwnershipGraph_def create_inventory_error_def sandbox_commit_error_def
      current_pair_error_def validateObservationReference_def eventsBySequence_def validateCurrentObservationGeneration_def
      Let_def)
  show "applyRetention DefaultRetentionPolicy (demo_before ph og ty) = Inr (demo_before ph og ty, False)"
    by (simp add: applyRetention_def retain_ordered_def RetentionPolicy_Validate_def DefaultRetentionPolicy_def
      assignTerminalSequences_def ensureRetentionMaps_def demo_before_def demo_content_def newMemoryData_def optional_def
      retired_first_def trim_events_def nextAvailableEventSequence_def)
qed

lemma demo_store_reachable:
  assumes "demo_phase ph og" and "ty \<in> {TypeCreate, TypeStop, TypeDelete}"
  shows "store_reachable (demo_store ph og ty)"
proof -
  obtain a where run: "run_lc (demo_start ph og ty) (view_of NewMemoryStore) = (view_of (demo_store ph og ty), Inr a)"
    by (rule demo_start_run [OF assms])
  have "run_tx (callback (demo_start ph og ty)) (store_view NewMemoryStore True (data_clone (ms_data NewMemoryStore)))
      = (view_of (demo_store ph og ty), None)"
    using run by (simp add: run_callback reachable_start [OF NewMemoryStore_reachable])
  moreover have "ms_retention NewMemoryStore = DefaultRetentionPolicy" by (simp add: NewMemoryStore_def)
  ultimately have "Store_Update NewMemoryStore False False (Some (callback (demo_start ph og ty))) = (demo_store ph og ty, None)"
    using demo_before_valid [OF assms] by (simp add: Store_Update_def commit_def demo_store_def)
  then show ?thesis
    using update [OF NewMemoryStore_reachable, where ?c1.0 = False and ?c2.0 = False and fn = "Some (callback (demo_start ph og ty))"]
    by simp
qed

subsection \<open>A creation is confirmed\<close>

definition demo_verification :: "verification_kind \<Rightarrow> verification" where
  "demo_verification k = \<lparr>vf_Kind = k, vf_Verified = True, vf_Evidence = ''e'', vf_ObservedAt = demo_time,
     vf_Duration = None, vf_ProcessIdentity = None, vf_Streams = no_streams\<rparr>"

lemma demo_verification_parts [simp]:
  "vf_ObservedAt (demo_verification k) = demo_time" "vf_Duration (demo_verification k) = None"
  "vf_ProcessIdentity (demo_verification k) = None"
  by (simp_all add: demo_verification_def)

lemma demo_verification_valid: "VerificationKind_Valid k \<Longrightarrow> validateFor (demo_verification k) k = None"
  by (simp add: validateFor_def Verification_Validate_def demo_verification_def plain_TrimSpace plain_no_nul plain_char_def
      in_range_def time_IsZero_def demo_time_def)

lemma demo_time_marshals: "time_marshals demo_time"
  by (simp add: time_marshals_def local_seconds_def demo_time_def year_of_def year_from.simps [of 1 0] days_before_year_def)

definition demo_evidence :: "verification_kind \<Rightarrow> string" where
  "demo_evidence k = json_encode (snd (verification_payload (demo_verification k)))"

lemma demo_evidence_marshal:
  "marshal (verification_payload (demo_verification k)) = Inr (snd (verification_payload (demo_verification k)))"
  using demo_time_marshals by (simp add: marshal_def verification_payload_def)

lemma demo_evidence_payload: "VerificationKind_Valid k \<Longrightarrow> demo_payload (demo_evidence k)"
proof -
  assume "VerificationKind_Valid k"
  then have "ValidString (VerificationKind_text k)" by (cases k) (simp_all add: ValidString_def)
  moreover have "storable_time demo_time"
    using demo_time_marshals by (simp add: storable_time_def) (simp add: demo_time_def)
  moreover have "storable_stream_references no_streams"
    by (simp add: storable_stream_references_def no_streams_def ValidString_def)
  ultimately have "fits maxNestingDepth (Struct [(''kind'', Any), (''verified'', Any), (''evidence'', Any),
      (''observed_at'', Any), (''duration_ns'', Any), (''process_identity'', Any), (''streams'', stream_references_schema)])
      (verification_json (demo_verification k))"
    unfolding verification_json_def
    by (intro fits_struct) (simp_all add: field_fits_def demo_verification_def codec maxNestingDepth_def ValidString_def)
  then show ?thesis unfolding demo_evidence_def verification_payload_def snd_conv by (rule fits_payload)
qed

lemma demo_key_valid: "ty \<in> {TypeCreate, TypeStop, TypeDelete} \<Longrightarrow> Binding_Validate (demo_key ty) = None"
  by (auto simp: Binding_Validate_def demo_key_def validateTypeTarget_def)

lemma demo_intent_valid: "ty \<in> {TypeCreate, TypeStop, TypeDelete} \<Longrightarrow> Operation_Validate (demo_intent ty) = None"
  by (auto simp: operation_valid_iff demo_op_def validateOpaqueJSON_def)

lemma demo_answered:
  assumes "ty \<in> {TypeCreate, TypeStop, TypeDelete}"
  shows "answered_by demo_coordinator (demo_key ty) (view_of (demo_store ph og ty)) (demo_op_record (demo_intent ty) 1)"
proof -
  have "operations_of (view_of (demo_store ph og ty)) ''op-1'' = Some (demo_op_record (demo_intent ty) 1)"
    unfolding demo_store_def demo_before_def by (simp flip: demo_view_def)
  then show ?thesis
    by (simp add: answered_by_def demo_key_def demo_coordinator_def Operation_Binding_def) (simp add: demo_op_def)
qed

definition demo_done :: "op_type \<Rightarrow> string \<Rightarrow> operation" where
  "demo_done ty response = demo_op ty StateSucceeded StageComplete ResultSucceeded response"

lemma demo_no_payload: "demo_payload []"
  by (simp add: demo_payload_def validateOpaqueJSON_def)

lemma demo_done_parts [simp]:
  "op_ID (demo_done ty response) = ''op-1''" "op_State (demo_done ty response) = StateSucceeded"
  "op_Response (demo_done ty response) = response" "(demo_done ty response)\<lparr>op_Response := response'\<rparr> = demo_done ty response'"
  "terminalOperation (demo_intent ty) ResultSucceeded response = demo_done ty response"
  "op_Type (demo_done ty response) = ty" "op_Target (demo_done ty response) = sandbox_target" "op_Result (demo_done ty response) = ResultSucceeded"
  by (simp_all add: demo_done_def terminalOperation_def) (simp_all add: demo_op_def)

lemma demo_done_valid:
  "ty \<in> {TypeCreate, TypeStop, TypeDelete} \<Longrightarrow> demo_payload response \<Longrightarrow>
     validateOperationRecord (demo_op_record (demo_done ty response) n) = None"
  unfolding demo_done_def by (rule demo_op_valid) simp_all

lemma demo_advance:
  assumes "ty \<in> {TypeCreate, TypeStop, TypeDelete}"
  shows "operation_advance_error (demo_op_record (demo_intent ty) m) (demo_op_record (demo_done ty response) k) = None"
    and "response \<noteq> [] \<Longrightarrow>
      operation_advance_error (demo_op_record (demo_done ty []) m) (demo_op_record (demo_done ty response) k) = None"
proof -
  have res: "Operation_Binding (demo_done ty response) = demo_key ty" for response
    by (simp add: Operation_Binding_def demo_done_def demo_op_def demo_key_def)
  have intent: "Operation_Binding (demo_intent ty) = demo_key ty"
    by (simp add: Operation_Binding_def demo_op_def demo_key_def)
  have valid: "Operation_Validate (demo_done ty []) = None"
    using assms by (auto simp: operation_valid_iff demo_op_def demo_done_def validateOpaqueJSON_def)
  note advance_defs = operation_advance_error_def demo_op_record_def
    demo_key_valid [OF assms] validateRollbackAdvance_def validateRollbackCauseAdvance_def validateOOMBaselineAdvance_def
    validateReceiptAdvance_def validateReleaseAdvance_def validateOperationAdvance_def
    validateHostProfileOperationAdvance_def once_set_def
  have r1: "Resolve (Some (demo_intent ty)) (demo_key ty) = Inr ResolutionResume"
    using demo_intent_valid [OF assms] demo_key_valid [OF assms] by (simp add: Resolve_Inr intent)
  have r2: "Resolve (Some (demo_done ty [])) (demo_key ty) = Inr ResolutionReplay"
    using valid demo_key_valid [OF assms] by (simp add: Resolve_Inr res State_Active_def)
  show "operation_advance_error (demo_op_record (demo_intent ty) m) (demo_op_record (demo_done ty response) k) = None"
    by (simp add: advance_defs res r1)
  show "response \<noteq> [] \<Longrightarrow>
      operation_advance_error (demo_op_record (demo_done ty []) m) (demo_op_record (demo_done ty response) k) = None"
    by (simp add: advance_defs res r2)
      (simp add: demo_done_def State_Active_def terminal_frozen_def terminalOperationUpdateAllowed_def
        sameOperationBinding_def demo_op_def)
qed

definition demo_confirm :: "verification_kind \<Rightarrow> sandbox_confirm_request" where
  "demo_confirm k = \<lparr>xf_OperationID = ''op-1'', xf_SandboxID = ''sandbox-1'', xf_Fingerprint = demo_fingerprint,
     xf_Verification = demo_verification k\<rparr>"

lemma demo_confirm_parts [simp]:
  "xf_OperationID (demo_confirm k) = ''op-1''" "xf_SandboxID (demo_confirm k) = ''sandbox-1''"
  by (simp_all add: demo_confirm_def)

lemma demo_supplied:
  "ty \<in> {TypeCreate, TypeStop, TypeDelete} \<Longrightarrow>
     suppliedBinding ''op-1'' ty (sandbox_resource ''sandbox-1'') demo_fingerprint = Inr (demo_key ty)"
  using demo_key_valid [of ty] by (simp add: suppliedBinding_def demo_key_def sandbox_resource_def sandbox_target_def)

definition demo_reply :: sandbox_response where
  "demo_reply = \<lparr>sp_Sandbox = Some (demo_box SandboxReady 1 (demo_seen 2)), sp_Removed = False\<rparr>"

abbreviation demo_answer :: string where
  "demo_answer \<equiv> json_encode (sandbox_response_json demo_reply)"

lemma demo_reply_storable: "storable_sandbox_response demo_reply"
  by (simp add: storable_sandbox_response_def demo_reply_def demo_box_def demo_sandbox_def storable_sandbox_def
      storable_sandbox_status_def storable_observation_def demo_seen_def storable_sandbox_spec_def demo_spec_def
      storable_network_intent_def storable_resources_def storable_resource_requests_def storable_resource_limits_def
      in_int64_def ValidString_def)

lemma demo_answer_parts: "demo_payload demo_answer" "demo_answer \<noteq> []"
  by (rule fits_payload [OF sandbox_reply.written [OF demo_reply_storable]])
    (simp add: sandbox_response_json_def struct_json_def)

lemma demo_store_view: "view_of (demo_store ph og ty) =
    demo_view (Some (demo_box_record ph og (demo_seen 1) 2)) (Some (demo_op_record (demo_intent ty) 1))
      [demo_fact ty 1 StagePersistIntent ResultPending og (demo_note ph)] 1"
  unfolding demo_store_def demo_before_def demo_view_def by (rule refl)

lemma demo_first_fact:
  "ty \<in> {TypeCreate, TypeStop, TypeDelete} \<Longrightarrow> demo_phase ph og \<Longrightarrow>
     Event_Validate (demo_fact ty 1 StagePersistIntent ResultPending og (demo_note ph)) = None"
  by (rule demo_fact_valid) (auto simp: demo_phase_def demo_note_payload)

lemma demo_ready:
  "Sandbox_Transition (demo_box SandboxCreating 0 (demo_seen 1)) SandboxReady = (demo_box SandboxReady 1 (demo_seen 1), None)"
proof -
  have "(demo_box SandboxCreating 0 (demo_seen 1))\<lparr>sb_Status := (sb_Status (demo_box SandboxCreating 0 (demo_seen 1)))
      \<lparr>ss_Phase := SandboxReady, ss_ObservedGeneration := 1\<rparr>\<rparr> = demo_box SandboxReady 1 (demo_seen 1)"
    by (simp add: demo_box_def demo_sandbox_def)
  moreover have "Sandbox_Validate (demo_box SandboxReady 1 (demo_seen 1)) = None"
    by (rule demo_box_valid) (simp_all add: demo_phase_def)
  ultimately show ?thesis by (simp add: Sandbox_Transition_def TransitionSandbox_def)
qed

lemma demo_ready_run:
  "run_lc (applySandboxTransition (demo_op_record (demo_intent TypeCreate) 1) (demo_key TypeCreate)
      (demo_verification VerificationSandboxReady) SandboxCreating SandboxReady) (view_of (demo_store SandboxCreating 0 TypeCreate))
   = (demo_view (Some (demo_box_record SandboxReady 1 (demo_seen 2) 4)) (Some (demo_op_record (demo_done TypeCreate demo_answer) 3))
        [demo_fact TypeCreate 1 StagePersistIntent ResultPending 0 (demo_note SandboxCreating),
         demo_fact TypeCreate 2 StageComplete ResultSucceeded 1 (demo_evidence VerificationSandboxReady)] 2,
      Inr (sandbox_result_of ResolutionResume (demo_done TypeCreate demo_answer) demo_reply))"
proof -
  let ?x = "demo_op_record (demo_intent TypeCreate) 1" and ?y = "demo_op_record (demo_done TypeCreate [])"
    and ?z = "demo_op_record (demo_done TypeCreate demo_answer)"
  let ?r = "demo_box_record SandboxCreating 0 (demo_seen 1) 2" and ?s = "demo_box_record SandboxReady 1"
  let ?e1 = "demo_fact TypeCreate 1 StagePersistIntent ResultPending 0 (demo_note SandboxCreating)"
    and ?e2 = "demo_fact TypeCreate 2 StageComplete ResultSucceeded 1 (demo_evidence VerificationSandboxReady)"
  let ?p = "verification_payload (demo_verification VerificationSandboxReady)"
  have ph: "demo_phase SandboxReady 1" by (simp add: demo_phase_def)
  have put: "run_lc (putSandbox (?s (demo_seen 1) 2) 2) (demo_view (Some ?r) (Some ?x) [?e1] 1)
      = (demo_view (Some (?s (demo_seen 1) 3)) (Some ?x) [?e1] 1, Inr (?s (demo_seen 1) 3))"
    using demo_put_box [where b = "?s (demo_seen 1) 2" and e = 2 and k = 3 and r = "Some ?r"] demo_record_valid [OF ph]
    using demo_put_box [where b = "?s (demo_seen 1) 2" and e = 2 and k = 3 and r = "Some ?r" and x = "Some ?x" and es = "[?e1]" and n = 1]
      demo_record_valid [OF ph]
    by (simp add: nextRevision_Inr revision_of_def sandbox_advance_error_def validateSandboxAdvance_def
        validateHostResourceAdvance_def TransitionSandbox_def)
  have done': "run_lc (completeOperation ?x ResultSucceeded []) (demo_view (Some (?s (demo_seen 1) 3)) (Some ?x) [?e1] 1)
      = (demo_view (Some (?s (demo_seen 1) 3)) (Some (?y 2)) [?e1] 1, Inr (?y 2))"
    using demo_put_op [where y = "?y 1" and e = 1 and k = 2 and r = "Some (?s (demo_seen 1) 3)" and x = "Some ?x" and es = "[?e1]" and n = 1]
      demo_done_valid [of TypeCreate "[]" 1] demo_no_payload demo_advance(1) [of TypeCreate 1 "[]" 1]
    by (simp add: completeOperation_def nextRevision_Inr revision_of_def)
  have ev: "run_lc (sandboxEvent (demo_done TypeCreate []) StageComplete ResultSucceeded demo_time None
        (demo_box SandboxReady 1 (demo_seen 1)) ?p) (demo_view (Some (?s (demo_seen 1) 3)) (Some (?y 2)) [?e1] 1)
      = (demo_view (Some (?s (demo_seen 1) 3)) (Some (?y 2)) [?e1, ?e2] 2, Inr ?e2)"
    using demo_event [where ty = TypeCreate and ph = SandboxReady and og = 1 and sg = StageComplete and res = ResultSucceeded
        and p = ?p and n = 1 and es = "[?e1]" and st = StateSucceeded and response = "[]" and ob = "demo_seen 1" and k = 3 and m = 2,
        OF _ ph _ demo_evidence_marshal] demo_evidence_payload [of VerificationSandboxReady] demo_first_fact [of TypeCreate SandboxCreating 0]
    by (simp add: demo_done_def demo_evidence_def demo_phase_def)
  have obs: "run_lc (observeSandbox (?s (demo_seen 1) 3) ?e2) (demo_view (Some (?s (demo_seen 1) 3)) (Some (?y 2)) [?e1, ?e2] 2)
      = (demo_view (Some (?s (demo_seen 2) 4)) (Some (?y 2)) [?e1, ?e2] 2, Inr (?s (demo_seen 2) 4))"
    using demo_observe [OF ph, of 2 "demo_seen 1" 3 TypeCreate StageComplete ResultSucceeded "demo_evidence VerificationSandboxReady"
        "Some (?y 2)" "[?e1, ?e2]" 2] by simp
  have fin: "run_lc (finalizeOperationResponse (?y 2) demo_answer) (demo_view (Some (?s (demo_seen 2) 4)) (Some (?y 2)) [?e1, ?e2] 2)
      = (demo_view (Some (?s (demo_seen 2) 4)) (Some (?z 3)) [?e1, ?e2] 2, Inr (?z 3))"
    using demo_put_op [where y = "?z 2" and e = 2 and k = 3 and r = "Some (?s (demo_seen 2) 4)" and x = "Some (?y 2)" and es = "[?e1, ?e2]" and n = 2]
      demo_done_valid [of TypeCreate demo_answer 2] demo_advance(2) [of TypeCreate demo_answer 2 2] demo_answer_parts
    by (simp add: finalizeOperationResponse_def check_def nextRevision_Inr revision_of_def)
  have read: "sandboxResultFromRecord ResolutionResume (?z 3)
      = Inr (sandbox_result_of ResolutionResume (demo_done TypeCreate demo_answer) demo_reply)"
    using sandbox_reply.roundtrip [OF demo_reply_storable]
    by (simp add: sandboxResultFromRecord_def decodeSandboxResponse_def Let_def was_conflict_def demo_answer_parts)
  have got: "GetSandbox (demo_view (Some ?r) (Some ?x) [?e1] 1) (tg_ID (bd_Target (demo_key TypeCreate))) = Inr ?r"
    by (simp add: GetSandbox_Inr demo_key_def)
  have receipts: "adoptOperationReceipts ?x = Inr (?x, [])"
    by (simp add: adoptOperationReceipts_def) (simp add: demo_op_record_def)
  have box: "?r\<lparr>sr_Sandbox := demo_box SandboxReady 1 (demo_seen 1), sr_HostResources := []\<rparr> = ?s (demo_seen 1) 2"
    by (simp add: demo_box_record_def)
  have reply: "json_encode (sandbox_response_json \<lparr>sp_Sandbox = Some (demo_box SandboxReady 1 (demo_seen 2)), sp_Removed = False\<rparr>)
      = demo_answer"
    by (simp add: demo_reply_def)
  show ?thesis
    unfolding demo_store_view
    by (simp add: applySandboxTransition_def concludeSandbox_def run_bind run_reads read_of_def requireLinuxStage_def check_def
      phase_of_def demo_ready changed_def got receipts box put done' ev obs fin read reply run_lift_res encodeResponse_def
      marshal_def sandbox_response_payload_def plain_payload_def)
qed

definition demo_facts :: "op_type \<Rightarrow> sandbox_phase \<Rightarrow> u64 \<Rightarrow> u64 \<Rightarrow> verification_kind \<Rightarrow> event list" where
  "demo_facts ty ph og og' k = [demo_fact ty 1 StagePersistIntent ResultPending og (demo_note ph),
     demo_fact ty 2 StageComplete ResultSucceeded og' (demo_evidence k)]"

definition demo_after :: "sandbox_record option \<Rightarrow> operation_record \<Rightarrow> event list \<Rightarrow> memory_data" where
  "demo_after r x fs = (demo_content r (Some x) fs 2)\<lparr>md_lastTerminal := 1, md_terminal := [(''op-1'', 1)]\<rparr>"

lemma demo_facts_valid:
  assumes "ty \<in> {TypeCreate, TypeStop, TypeDelete}" and "demo_phase ph og" and "og' \<le> 1" and "VerificationKind_Valid k"
    and "e \<in> set (demo_facts ty ph og og' k)"
  shows "Event_Validate e = None"
  using demo_first_fact [OF assms(1,2)] assms(5)
    demo_fact_valid [OF assms(1) demo_evidence_payload [OF assms(4)], of 2 og' StageComplete ResultSucceeded] assms(3)
  by (auto simp: demo_facts_def)

lemma demo_after_valid:
  fixes ty ph og og' k response r n
  defines "x \<equiv> demo_op_record (demo_done ty response) n" and "fs \<equiv> demo_facts ty ph og og' k"
  assumes "ty \<in> {TypeCreate, TypeStop, TypeDelete}" and "demo_phase ph og" and "og' \<le> 1" and "VerificationKind_Valid k"
    and "response \<noteq> []" and "r = None \<or> r = Some (demo_box_record SandboxReady og' (demo_seen 2) 4)"
  shows "data_validate (demo_after r x fs) = None"
    and "applyRetention DefaultRetentionPolicy (demo_content r (Some x) fs 2) = Inr (demo_after r x fs, True)"
proof -
  let ?d = "demo_after r x fs"
  have id: "\<lparr>tg_Kind = TargetSandbox, tg_ID = ''sandbox-1''\<rparr> = sandbox_target"
    by (simp add: sandbox_target_def)
  have chain: "chain_error fs = None"
    using demo_facts_valid [OF assms(3-6)]
    by (auto simp: fs_def Event_ValidateAfter_None demo_facts_def split: option.split)
  note demo_parts = demo_after_def demo_content_def newMemoryData_def optional_def x_def
  have parts: "suffix_error ?d = None" "terminal_order_error ?d = None"
    "first_err (map (event_binding_error ?d) (md_events ?d)) = None"
    "first_err (map (terminal_error ?d) (md_operations ?d)) = None"
    "first_err (map (sandbox_commit_error ?d) (md_sandboxes ?d)) = None"
    "validateOwnershipGraph ?d = None"
    using chain assms(7,8)
    by (auto simp: demo_parts suffix_error_def event_binding_error_def terminal_error_def terminal_order_error_def
      validateOwnershipGraph_def create_inventory_error_def sandbox_commit_error_def validateObservationReference_def
      eventsBySequence_def validateCurrentObservationGeneration_def Let_def fs_def demo_facts_def id State_Terminal_def)
  show "data_validate ?d = None"
    unfolding data_validate_def using parts assms(8)
    by (auto simp: demo_parts store_pairs_def ValidateOneActiveAttempt_def current_pair_error_def)
  show "applyRetention DefaultRetentionPolicy (demo_content r (Some x) fs 2) = Inr (?d, True)"
    using assms(8)
    by (auto simp: applyRetention_def retain_ordered_def RetentionPolicy_Validate_def DefaultRetentionPolicy_def
      assignTerminalSequences_def ensureRetentionMaps_def demo_parts
      retired_first_def trim_events_def nextAvailableEventSequence_def fs_def demo_facts_def State_Terminal_def)
qed

abbreviation demo_created :: "event list" where
  "demo_created \<equiv> demo_facts TypeCreate SandboxCreating 0 1 VerificationSandboxReady"

definition demo_ready_store :: memory_store where
  "demo_ready_store = NewMemoryStore\<lparr>ms_data := demo_after (Some (demo_box_record SandboxReady 1 (demo_seen 2) 4))
     (demo_op_record (demo_done TypeCreate demo_answer) 3) demo_created\<rparr>"

abbreviation demo_result :: sandbox_result where
  "demo_result \<equiv> sandbox_result_of ResolutionResume (demo_done TypeCreate demo_answer) demo_reply"

text \<open>The call as its caller sees it.\<close>

lemma commit_run:
  assumes "store_reachable s" and "run_lc p (view_of s) = (v, Inr a)"
    and "applyRetention (ms_retention s) (mv_data v) = Inr (d, ch)" and "data_validate d = None"
  shows "lc_update s False False p = (s\<lparr>ms_data := d\<rparr>, Inr a)"
proof -
  have "run_tx (callback p) (store_view s True (data_clone (ms_data s))) = (v, None)"
    using assms(1,2) by (simp add: run_callback reachable_start)
  then show ?thesis
    using assms by (simp add: lc_update_def Let_def Store_Update_def commit_def reachable_start)
qed

lemma demo_confirm_call:
  "sandbox_call demo_coordinator (demo_store SandboxCreating 0 TypeCreate) now False False
      (SandboxConfirmCreate (demo_confirm VerificationSandboxReady)) = (demo_ready_store, Inr (demo_result, None))"
proof -
  let ?s = "demo_store SandboxCreating 0 TypeCreate" and ?w = "demo_verification VerificationSandboxReady"
  have reach: "store_reachable ?s" by (rule demo_store_reachable) (simp_all add: demo_phase_def)
  have cmd: "ConfirmSandboxCreate demo_coordinator now (demo_confirm VerificationSandboxReady)
      = Inr (confirmSandboxTransition demo_coordinator now (demo_key TypeCreate) ?w SandboxCreating SandboxReady)"
    using demo_verification_valid [of VerificationSandboxReady] demo_supplied [of TypeCreate]
    by (simp add: ConfirmSandboxCreate_def demo_confirm_def)
  have resolved: "run_lc (resolveOperation demo_coordinator now (demo_key TypeCreate)) (view_of ?s)
      = (view_of ?s, Inr (ResolvedResume (demo_op_record (demo_intent TypeCreate) 1)))"
    using reachable_resolve [OF reach demo_answered] by (simp add: State_Active_def)
  have run: "run_lc (confirmSandboxTransition demo_coordinator now (demo_key TypeCreate) ?w SandboxCreating SandboxReady) (view_of ?s)
      = (demo_view (Some (demo_box_record SandboxReady 1 (demo_seen 2) 4))
          (Some (demo_op_record (demo_done TypeCreate demo_answer) 3)) demo_created 2, Inr demo_result)"
    using demo_ready_run by (simp add: confirmSandboxTransition_def run_bind resolved demo_facts_def)
  let ?d = "demo_after (Some (demo_box_record SandboxReady 1 (demo_seen 2) 4))
      (demo_op_record (demo_done TypeCreate demo_answer) 3) demo_created"
  have "ms_retention ?s = DefaultRetentionPolicy" by (simp add: demo_store_def NewMemoryStore_def)
  then have upd: "lc_update ?s False False
      (confirmSandboxTransition demo_coordinator now (demo_key TypeCreate) ?w SandboxCreating SandboxReady)
      = (?s\<lparr>ms_data := ?d\<rparr>, Inr demo_result)"
    using commit_run [OF reach run, of ?d True] demo_answer_parts
      demo_after_valid [of TypeCreate SandboxCreating 0 1 VerificationSandboxReady demo_answer
        "Some (demo_box_record SandboxReady 1 (demo_seen 2) 4)" 3]
    by (simp add: demo_view_update(1) demo_phase_def)
  have "?s\<lparr>ms_data := ?d\<rparr> = demo_ready_store" by (simp add: demo_store_def demo_ready_store_def)
  then show ?thesis
    by (simp add: sandbox_call_def cmd submit_def upd finishSandboxResult_def finished_def sandbox_result_of_def
        replayedOperationError_def)
qed

lemma demo_ready_view:
  "sandboxes_of (view_of demo_ready_store) ''sandbox-1'' = Some (demo_box_record SandboxReady 1 (demo_seen 2) 4)"
  "operations_of (view_of demo_ready_store) ''op-1'' = Some (demo_op_record (demo_done TypeCreate demo_answer) 3)"
  by (simp_all add: demo_ready_store_def demo_after_def demo_content_def newMemoryData_def optional_def)

subsection \<open>A removal is confirmed\<close>

abbreviation demo_removed_reply :: sandbox_response where
  "demo_removed_reply \<equiv> \<lparr>sp_Sandbox = None, sp_Removed = True\<rparr>"

definition demo_removed :: string where
  "demo_removed = json_encode (sandbox_response_json demo_removed_reply)"

lemma demo_removed_storable: "storable_sandbox_response demo_removed_reply"
  by (simp add: storable_sandbox_response_def)

lemma demo_removed_parts: "demo_payload demo_removed" "demo_removed \<noteq> []"
  unfolding demo_removed_def
  by (rule fits_payload [OF sandbox_reply.written [OF demo_removed_storable]])
    (simp add: sandbox_response_json_def struct_json_def)

lemma demo_remove_run:
  "run_lc (removeStoppedSandbox (demo_op_record (demo_intent TypeDelete) 1) (demo_verification VerificationSandboxAbsent)
      ''sandbox-1'' (demo_box_record SandboxStopped 1 (demo_seen 1) 2)) (view_of (demo_store SandboxStopped 1 TypeDelete))
   = (demo_view None (Some (demo_op_record (demo_done TypeDelete demo_removed) 2))
        (demo_facts TypeDelete SandboxStopped 1 1 VerificationSandboxAbsent) 2,
      Inr (sandbox_result_of ResolutionResume (demo_done TypeDelete demo_removed) demo_removed_reply))"
proof -
  let ?x = "demo_op_record (demo_intent TypeDelete) 1" and ?z = "demo_op_record (demo_done TypeDelete demo_removed)"
  let ?s = "demo_box_record SandboxStopped 1" and ?p = "verification_payload (demo_verification VerificationSandboxAbsent)"
  let ?e1 = "demo_fact TypeDelete 1 StagePersistIntent ResultPending 1 (demo_note SandboxStopped)"
    and ?e2 = "demo_fact TypeDelete 2 StageComplete ResultSucceeded 1 (demo_evidence VerificationSandboxAbsent)"
  have ph: "demo_phase SandboxStopped 1" by (simp add: demo_phase_def)
  have put: "run_lc (putSandbox (?s (demo_seen 1) 2) 2) (demo_view (Some (?s (demo_seen 1) 2)) (Some ?x) [?e1] 1)
      = (demo_view (Some (?s (demo_seen 1) 3)) (Some ?x) [?e1] 1, Inr (?s (demo_seen 1) 3))"
    using demo_put_box [where b = "?s (demo_seen 1) 2" and e = 2 and k = 3 and r = "Some (?s (demo_seen 1) 2)" and x = "Some ?x"
        and es = "[?e1]" and n = 1] demo_record_valid [OF ph]
    by (simp add: nextRevision_Inr revision_of_def sandbox_advance_error_def validateSandboxAdvance_def
        validateHostResourceAdvance_def)
  have done': "run_lc (completeOperation ?x ResultSucceeded demo_removed) (demo_view (Some (?s (demo_seen 1) 3)) (Some ?x) [?e1] 1)
      = (demo_view (Some (?s (demo_seen 1) 3)) (Some (?z 2)) [?e1] 1, Inr (?z 2))"
    using demo_put_op [where y = "?z 1" and e = 1 and k = 2 and r = "Some (?s (demo_seen 1) 3)" and x = "Some ?x" and es = "[?e1]" and n = 1]
      demo_done_valid [of TypeDelete demo_removed 1] demo_removed_parts demo_advance(1) [of TypeDelete 1 demo_removed 1]
    by (simp add: completeOperation_def nextRevision_Inr revision_of_def)
  have ev: "run_lc (sandboxEvent (demo_done TypeDelete demo_removed) StageComplete ResultSucceeded demo_time None
        (demo_box SandboxStopped 1 (demo_seen 1)) ?p) (demo_view (Some (?s (demo_seen 1) 3)) (Some (?z 2)) [?e1] 1)
      = (demo_view (Some (?s (demo_seen 1) 3)) (Some (?z 2)) [?e1, ?e2] 2, Inr ?e2)"
    using demo_event [where ty = TypeDelete and ph = SandboxStopped and og = 1 and sg = StageComplete and res = ResultSucceeded
        and p = ?p and n = 1 and es = "[?e1]" and st = StateSucceeded and response = demo_removed and ob = "demo_seen 1" and k = 3
        and m = 2, OF _ ph _ demo_evidence_marshal] demo_evidence_payload [of VerificationSandboxAbsent]
      demo_first_fact [of TypeDelete SandboxStopped 1]
    by (simp add: demo_done_def demo_evidence_def demo_phase_def)
  have obs: "run_lc (observeSandbox (?s (demo_seen 1) 3) ?e2) (demo_view (Some (?s (demo_seen 1) 3)) (Some (?z 2)) [?e1, ?e2] 2)
      = (demo_view (Some (?s (demo_seen 2) 4)) (Some (?z 2)) [?e1, ?e2] 2, Inr (?s (demo_seen 2) 4))"
    using demo_observe [OF ph, of 2 "demo_seen 1" 3 TypeDelete StageComplete ResultSucceeded "demo_evidence VerificationSandboxAbsent"
        "Some (?z 2)" "[?e1, ?e2]" 2] by simp
  have del: "DeleteSandbox (demo_view (Some (?s (demo_seen 2) 4)) (Some (?z 2)) [?e1, ?e2] 2) ''sandbox-1'' 4
      = Inr (demo_view None (Some (?z 2)) [?e1, ?e2] 2)"
    using demo_view_parts [of "Some (?s (demo_seen 2) 4)" "Some (?z 2)" "[?e1, ?e2]" 2]
    by (simp add: DeleteSandbox_def Let_def demo_view_update)
  have read: "sandboxResultFromRecord ResolutionResume (?z 2)
      = Inr (sandbox_result_of ResolutionResume (demo_done TypeDelete demo_removed) demo_removed_reply)"
    using sandbox_reply.roundtrip [OF demo_removed_storable] demo_removed_parts
    by (simp add: sandboxResultFromRecord_def decodeSandboxResponse_def Let_def was_conflict_def) (simp add: demo_removed_def)
  have none: "ListContainerAttempts (demo_view r x es n) i = Inr []" for r x es n i
    by (simp add: ListContainerAttempts_def ensureOpen_def)
  show ?thesis
    unfolding demo_store_view
    by (simp add: removeStoppedSandbox_def run_bind run_reads run_deletes read_of_def write_of_def none del check_def phase_of_def
      put done' ev obs read run_lift_res encodeResponse_def marshal_def removed_sandbox_reply_def sandbox_response_payload_def
      plain_payload_def validateCompleteCleanupReleases_def demo_facts_def flip: demo_removed_def)
qed

abbreviation demo_deleted :: "event list" where
  "demo_deleted \<equiv> demo_facts TypeDelete SandboxStopped 1 1 VerificationSandboxAbsent"

definition demo_removed_store :: memory_store where
  "demo_removed_store = NewMemoryStore\<lparr>ms_data := demo_after None (demo_op_record (demo_done TypeDelete demo_removed) 2) demo_deleted\<rparr>"

lemma demo_remove_call:
  "sandbox_call demo_coordinator (demo_store SandboxStopped 1 TypeDelete) now False False
      (SandboxConfirmRemove (demo_confirm VerificationSandboxAbsent))
   = (demo_removed_store,
      Inr (sandbox_result_of ResolutionResume (demo_done TypeDelete demo_removed) demo_removed_reply, None))"
proof -
  let ?s = "demo_store SandboxStopped 1 TypeDelete" and ?w = "demo_verification VerificationSandboxAbsent"
  let ?d = "demo_after None (demo_op_record (demo_done TypeDelete demo_removed) 2) demo_deleted"
  let ?x = "demo_op_record (demo_intent TypeDelete) 1"
  have reach: "store_reachable ?s" by (rule demo_store_reachable) (simp_all add: demo_phase_def)
  define p where "p = lc_bind (resolveOperation demo_coordinator now (demo_key TypeDelete)) (\<lambda>resolved. case resolved of
        ResolvedNew \<Rightarrow> Abort (LcNotFound ''op-1'')
      | ResolvedResume x \<Rightarrow> lc_bind (attempt (getSandbox ''sandbox-1'')) (\<lambda>got. case got of
            Inl e \<Rightarrow> check (reject (\<not> is_not_found e) e) (removeAbsentSandbox x ?w)
          | Inr r \<Rightarrow> removeStoppedSandbox x ?w ''sandbox-1'' r)
      | ResolvedReplay x \<Rightarrow> lift_res (sandboxResultFromRecord ResolutionReplay x))"
  have cmd: "ConfirmSandboxRemove demo_coordinator now (demo_confirm VerificationSandboxAbsent) = Inr p"
    using demo_verification_valid [of VerificationSandboxAbsent] demo_supplied [of TypeDelete]
    by (simp add: ConfirmSandboxRemove_def Let_def demo_confirm_def p_def)
  have resolved: "run_lc (resolveOperation demo_coordinator now (demo_key TypeDelete)) (view_of ?s)
      = (view_of ?s, Inr (ResolvedResume ?x))"
    using reachable_resolve [OF reach demo_answered] by (simp add: State_Active_def)
  have got: "GetSandbox (view_of ?s) ''sandbox-1'' = Inr (demo_box_record SandboxStopped 1 (demo_seen 1) 2)"
    by (simp add: GetSandbox_Inr demo_store_view)
  have run: "run_lc p (view_of ?s) = (demo_view None (Some (demo_op_record (demo_done TypeDelete demo_removed) 2)) demo_deleted 2,
      Inr (sandbox_result_of ResolutionResume (demo_done TypeDelete demo_removed) demo_removed_reply))"
    using demo_remove_run by (simp add: p_def run_bind resolved run_attempt run_reads read_of_def got)
  have "ms_retention ?s = DefaultRetentionPolicy" by (simp add: demo_store_def NewMemoryStore_def)
  then have upd: "lc_update ?s False False p = (?s\<lparr>ms_data := ?d\<rparr>,
      Inr (sandbox_result_of ResolutionResume (demo_done TypeDelete demo_removed) demo_removed_reply))"
    using commit_run [OF reach run, of ?d True] demo_removed_parts
      demo_after_valid [of TypeDelete SandboxStopped 1 1 VerificationSandboxAbsent demo_removed None 2]
    by (simp add: demo_view_update(1) demo_phase_def)
  have "?s\<lparr>ms_data := ?d\<rparr> = demo_removed_store" by (simp add: demo_store_def demo_removed_store_def)
  then show ?thesis
    by (simp add: sandbox_call_def cmd submit_def upd finishSandboxResult_def finished_def sandbox_result_of_def
        replayedOperationError_def)
qed

end
