(* ===== verification/Lifecycle_Properties.thy ===== *)
theory Lifecycle_Properties
  imports Lifecycle_Container_Calls Lifecycle_Demo
begin

text \<open>
  What the coordinator promises its callers: each call is one atomic step of the abstract machine on
  phases, and repeating a call that ended gives the same answer and changes nothing.
\<close>

subsection \<open>A call and its transaction\<close>

text \<open>A call fails and leaves the store, or its command was accepted and its transaction was committed.\<close>

lemma submit_cases:
  assumes "submit s k1 k2 m = (s', r)" and "store_reachable s"
  obtains (failed) e where "r = Inl e" and "s' = s"
  | (committed) a p v' ch where "r = Inr a" and "m = Inr p" and "run_lc p (view_of s) = (v', Inr a)"
      and "applyRetention (ms_retention s) (mv_data v') = Inr (ms_data s', ch)" and "store_reachable s'"
proof (cases r)
  case (Inl e)
  then show thesis using submit_Inl [of s k1 k2 m s' e] assms(1) by (intro failed) simp_all
next
  case (Inr a)
  have reach: "store_reachable s'" using submit_reachable [OF assms(2), of k1 k2 m] assms(1) by simp
  from Inr assms(1) obtain p where p: "m = Inr p" by (cases m) (auto simp: submit_def)
  then have "lc_update s k1 k2 p = (s', Inr a)" using assms(1) Inr by (simp add: submit_def)
  from lc_update_Inr [OF this assms(2)] show thesis using committed [OF Inr p] reach by metis
qed

lemma finished_Inr: "finished f r = Inr (a, e) \<longleftrightarrow> r = Inr a \<and> e = replayedOperationError (f a)"
  by (cases r) (auto simp: finished_def)

lemma finished_Inl: "finished f r = Inl e \<longleftrightarrow> r = Inl e"
  by (cases r) (auto simp: finished_def)

text \<open>The views of a store and of the candidate that was committed to it agree on the resources.\<close>

lemmas kept = committed

lemma committed_pair_step:
  assumes "applyRetention p (mv_data v') = Inr (ms_data s', ch)" and "pair_step i may v v'"
  shows "pair_step i may v (view_of s')"
  using assms(2) committed(3,4) [OF assms(1)] by (simp add: pair_step_def unpaired_cores_def attempts_def fun_eq_iff)

lemma committed_moves:
  assumes "applyRetention p (mv_data v') = Inr (ms_data s', ch)"
  shows "moves i e v (view_of s') \<longleftrightarrow> moves i e v v'"
  using committed(3) [OF assms] by (simp add: moves_def phases_def)

subsection \<open>Refinement of the abstract machines\<close>

text \<open>C1. A call on a Sandbox is one atomic step: if it fails the store is as it was, and if it succeeds
  all Containers are as they were and either all Sandboxes are too, or the requested one moved along
  the single edge between phases that the abstract machine has for this request.\<close>

theorem sandbox_call_refines:
  assumes "store_reachable s"
  shows "case sandbox_call c s now k1 k2 q of
      (s', Inl e) \<Rightarrow> s' = s
    | (s', Inr (a, err)) \<Rightarrow> store_reachable s' \<and> container_cores (view_of s') = container_cores (view_of s)
        \<and> (sandbox_cores (view_of s') = sandbox_cores (view_of s)
           \<or> moves (sandbox_request_target q) (sandbox_edge q) (view_of s) (view_of s'))"
proof (cases "submit s k1 k2 (sandbox_command c now q)")
  case (Pair s' r)
  from Pair assms show ?thesis
  proof (cases rule: submit_cases)
    case (committed a p v' ch)
    obtain b where "sandbox_step c b (sandbox_request_target q) (sandbox_edge q) (view_of s) v' a"
      by (rule sandbox_command_step [OF committed(2,3) reachable_keyed [OF assms] reachable_cloned [OF assms]])
    then show ?thesis
      using Pair committed(1,5) kept(3,4) [OF committed(4)] committed_moves [OF committed(4)]
      by (auto simp: sandbox_call_def finishSandboxResult_def finished_def sandbox_step_def)
  qed (use Pair in \<open>simp add: sandbox_call_def finishSandboxResult_def finished_def\<close>)
qed

lemma demo_reach: "store_reachable (demo_store SandboxCreating 0 TypeCreate)"
  by (rule demo_store_reachable) (simp_all add: demo_phase_def)

lemma demo_moved: "sandbox_cores (view_of demo_ready_store) \<noteq> sandbox_cores (view_of (demo_store SandboxCreating 0 TypeCreate))"
proof -
  have "phases (view_of (demo_store SandboxCreating 0 TypeCreate)) ''sandbox-1'' = Some SandboxCreating"
    "phases (view_of demo_ready_store) ''sandbox-1'' = Some SandboxReady"
    by (simp_all add: phases_at demo_store_view phase_of_def demo_ready_view [simplified])
  then show ?thesis by (auto simp: phases_def)
qed

theorem sandbox_call_refines_witness:
  "store_reachable (demo_store SandboxCreating 0 TypeCreate)
   \<and> (case sandbox_call demo_coordinator (demo_store SandboxCreating 0 TypeCreate) demo_time False False
        (SandboxConfirmCreate (demo_confirm VerificationSandboxReady)) of
      (s', Inl e) \<Rightarrow> False
    | (s', Inr (a, err)) \<Rightarrow> moves ''sandbox-1'' (Some SandboxCreating, Some SandboxReady)
        (view_of (demo_store SandboxCreating 0 TypeCreate)) (view_of s'))"
  using demo_reach demo_moved sandbox_call_refines [OF demo_reach, where c = demo_coordinator and now = demo_time
      and ?k1.0 = False and ?k2.0 = False and q = "SandboxConfirmCreate (demo_confirm VerificationSandboxReady)"]
  by (simp add: demo_confirm_call)




definition demo_kill :: kill_stopped_request where
  "demo_kill = \<lparr>ks_OperationID = ''op-1'', ks_ContainerID = ''c'', ks_Fingerprint = demo_fingerprint,
     ks_Outcome = NotApplicableOutcome, ks_Conditions = [], ks_Verification = demo_verification VerificationAttemptStopped\<rparr>"


subsection \<open>Retries\<close>

text \<open>C2. A call that ended, successfully or not, can be repeated: as long as its operation is in the replay
  window, the same request gives the same result again, marked as a replay, with the same stored
  failure, whatever time it is and whatever has happened in between the two is in the store; and the
  store is not written.\<close>

theorem sandbox_call_retry:
  assumes "store_reachable s" and "sandbox_call c s now k1 k2 q = (s', Inr (a, err))"
    and "\<not> State_Active (op_State (xr_Operation a))"
    and "operations_of (view_of s') (sandbox_request_id q) \<noteq> None"
  shows "sandbox_call c s' now' False False q = (s', Inr (a\<lparr>xr_Resolution := ResolutionReplay\<rparr>, err))"
proof -
  obtain r where sub: "submit s k1 k2 (sandbox_command c now q) = (s', r)"
    and r: "r = Inr a" "err = replayedOperationError (xr_Operation a)"
    using assms(2) by (cases "submit s k1 k2 (sandbox_command c now q)")
      (auto simp: sandbox_call_def finishSandboxResult_def finished_Inr)
  from sub assms(1) show ?thesis
  proof (cases rule: submit_cases)
    case (committed a' p v' ch)
    obtain b where b: "sandbox_request_binding q = Inr b"
      and step: "sandbox_step c b (sandbox_request_target q) (sandbox_edge q) (view_of s) v' a"
      using sandbox_command_step [OF committed(2,3) reachable_keyed [OF assms(1)] reachable_cloned [OF assms(1)]]
        committed(1) r(1) by auto
    obtain p' where p': "sandbox_command c now' q = Inr p'" by (rule sandbox_command_now [OF committed(2)])
    then obtain b' m f where b': "sandbox_request_binding q = Inr b'"
      and shape: "p' = lc_bind (resolveOperation c now' b') (\<lambda>resolved. case resolved of
        ResolvedNew \<Rightarrow> m | ResolvedResume x \<Rightarrow> f x
        | ResolvedReplay x \<Rightarrow> lift_res (sandboxResultFromRecord ResolutionReplay x))"
      by (rule sandbox_command_shape)
    have id: "bd_ID b = sandbox_request_id q" by (rule sandbox_request_binding_parts(1) [OF b])
    have "lc_update s' False False p' = (s', Inr (a\<lparr>xr_Resolution := ResolutionReplay\<rparr>))"
      unfolding shape using b b' assms(3,4) step committed(5) kept(5) [OF committed(4)]
      by (intro sandbox_replies.repeated [where v = v']) (auto simp: sandbox_step_def id)
    then show ?thesis
      using r(2) by (simp add: sandbox_call_def p' submit_def finishSandboxResult_def finished_def)
  qed (use r in simp)
qed

theorem sandbox_call_retry_witness:
  "sandbox_call demo_coordinator demo_ready_store demo_time False False
      (SandboxConfirmCreate (demo_confirm VerificationSandboxReady))
   = (demo_ready_store, Inr (demo_result\<lparr>xr_Resolution := ResolutionReplay\<rparr>, None))"
  by (rule sandbox_call_retry [OF demo_reach demo_confirm_call])
    (simp_all add: sandbox_result_of_def State_Active_def demo_ready_view [simplified])

end
