(* ===== verification/Lifecycle_Safety.thy ===== *)
theory Lifecycle_Safety
  imports Lifecycle_Properties
begin

text \<open>
  What a move of a phase rests on: no resource becomes Ready or Running without a verification, none is
  removed while it still owns something, and no kill is planned against a process that is not the one
  that was started.
\<close>

subsection \<open>Ready\<close>

lemma core_record:
  assumes "sandbox_cores (view_of s') i = Some (sandbox_core r)"
  obtains r' where "sandboxes_of (view_of s') i = Some r'" and "phase_of r' = phase_of r"
    and "sr_HostResources r' = sr_HostResources r" and "sb_Spec (sr_Sandbox r') = sb_Spec (sr_Sandbox r)"
proof -
  obtain r' where r': "sandboxes_of (view_of s') i = Some r'" "sandbox_core r' = sandbox_core r"
    using assms by (auto simp: sandbox_cores_def)
  then have core: "(sr_Sandbox r')\<lparr>sb_Status := (sb_Status (sr_Sandbox r'))\<lparr>ss_LastObservation := empty_observation\<rparr>\<rparr>
      = (sr_Sandbox r)\<lparr>sb_Status := (sb_Status (sr_Sandbox r))\<lparr>ss_LastObservation := empty_observation\<rparr>\<rparr>"
    and "sr_HostResources r' = sr_HostResources r"
    by (simp_all add: sandbox_core_def)
  moreover have "phase_of r' = phase_of r"
    using arg_cong [OF core, of "\<lambda>s. ss_Phase (sb_Status s)"] by (simp add: phase_of_def)
  moreover have "sb_Spec (sr_Sandbox r') = sb_Spec (sr_Sandbox r)"
    using arg_cong [OF core, of sb_Spec] by simp
  ultimately show thesis using r'(1) by (intro that)
qed

text \<open>C3. A Sandbox becomes Ready only by a verification of kind \<open>sandbox_ready\<close> under the operation that
  began its creation, with the same fingerprint, after the operation has passed the stage that its host
  profile asks for; and every resource that the operation acquired is adopted into its inventory, which
  is nothing else.\<close>

theorem ready_is_verified:
  assumes "store_reachable s"
  shows "case sandbox_call c s now k1 k2 (SandboxConfirmCreate q) of
      (s', Inl e) \<Rightarrow> s' = s
    | (s', Inr (a, err)) \<Rightarrow> validateFor (xf_Verification q) VerificationSandboxReady = None
        \<and> (sandbox_cores (view_of s') = sandbox_cores (view_of s)
           \<or> (\<exists>r r' x x1 inventory.
                sandboxes_of (view_of s) (xf_SandboxID q) = Some r \<and> phase_of r = SandboxCreating
                \<and> operations_of (view_of s) (xf_OperationID q) = Some x
                \<and> op_Type (or_Operation x) = TypeCreate \<and> op_Fingerprint (or_Operation x) = xf_Fingerprint q
                \<and> requireLinuxStage x StagePrepareNamespaces = None
                \<and> adoptOperationReceipts x = Inr (x1, inventory)
                \<and> sandboxes_of (view_of s') (xf_SandboxID q) = Some r' \<and> phase_of r' = SandboxReady
                \<and> sr_HostResources r' = inventory \<and> sb_Spec (sr_Sandbox r') = sb_Spec (sr_Sandbox r)))"
proof (cases "submit s k1 k2 (sandbox_command c now (SandboxConfirmCreate q))")
  case (Pair s' r)
  let ?w = "xf_Verification q"
  from Pair assms show ?thesis
  proof (cases rule: submit_cases)
    case (committed a p v' ch)
    from committed(2) obtain b where valid: "validateFor ?w VerificationSandboxReady = None"
      and b: "suppliedBinding (xf_OperationID q) TypeCreate (sandbox_resource (xf_SandboxID q)) (xf_Fingerprint q) = Inr b"
      and p: "p = confirmSandboxTransition c now b ?w SandboxCreating SandboxReady"
      by (auto simp: ConfirmSandboxCreate_def)
    note b' = suppliedBinding_Inr [OF b]
    from confirmSandboxTransition_effect(3) [OF committed(3) [unfolded p] reachable_keyed [OF assms] reachable_cloned [OF assms]]
    consider (same) "sandbox_cores v' = sandbox_cores (view_of s)"
      | (moved) "sandbox_confirmed c b SandboxCreating SandboxReady (view_of s) v'" by blast
    then show ?thesis
    proof cases
      case same
      then show ?thesis
        using Pair committed(1) kept(3) [OF committed(4)] valid
        by (simp add: sandbox_call_def finishSandboxResult_def finished_def)
    next
      case moved
      then obtain r0 x s1 x1 inventory where r0: "sandboxes_of (view_of s) (xf_SandboxID q) = Some r0" "phase_of r0 = SandboxCreating"
        and x: "answered_by c b (view_of s) x" "requireLinuxStage x StagePrepareNamespaces = None"
          "adoptOperationReceipts x = Inr (x1, inventory)"
        and s1: "Sandbox_Transition (sr_Sandbox r0) SandboxReady = (s1, None)"
        and core: "sandbox_cores v' = (sandbox_cores (view_of s))(xf_SandboxID q \<mapsto>
            sandbox_core (r0\<lparr>sr_Sandbox := s1, sr_HostResources := inventory\<rparr>))"
        by (auto simp: sandbox_confirmed_def b' sandbox_resource_def)
      have "sandbox_cores (view_of s') (xf_SandboxID q) = Some (sandbox_core (r0\<lparr>sr_Sandbox := s1, sr_HostResources := inventory\<rparr>))"
        using core kept(3) [OF committed(4)] by simp
      then obtain r' where "sandboxes_of (view_of s') (xf_SandboxID q) = Some r'" "phase_of r' = SandboxReady"
        "sr_HostResources r' = inventory" "sb_Spec (sr_Sandbox r') = sb_Spec (sr_Sandbox r0)"
        by (rule core_record) (use Sandbox_Transition_parts [OF s1] in \<open>simp add: phase_of_def\<close>)
      moreover have "operations_of (view_of s) (xf_OperationID q) = Some x" "op_Type (or_Operation x) = TypeCreate"
        "op_Fingerprint (or_Operation x) = xf_Fingerprint q"
        using x(1) b' by (auto simp: answered_by_def Operation_Binding_def)
      ultimately show ?thesis
        using Pair committed(1) valid r0 x(2,3)
        by (auto simp: sandbox_call_def finishSandboxResult_def finished_def)
    qed
  qed (use Pair in \<open>simp add: sandbox_call_def finishSandboxResult_def finished_def\<close>)
qed

theorem ready_is_verified_witness:
  "store_reachable (demo_store SandboxCreating 0 TypeCreate)
   \<and> (\<exists>r x x1. operations_of (view_of (demo_store SandboxCreating 0 TypeCreate)) ''op-1'' = Some x
        \<and> sandboxes_of (view_of demo_ready_store) ''sandbox-1'' = Some r \<and> phase_of r = SandboxReady
        \<and> adoptOperationReceipts x = Inr (x1, sr_HostResources r))"
  using demo_reach demo_moved ready_is_verified [OF demo_reach, where c = demo_coordinator and now = demo_time
      and ?k1.0 = False and ?k2.0 = False and q = "demo_confirm VerificationSandboxReady"]
  by (simp add: demo_confirm_call) blast

subsection \<open>Removal\<close>

text \<open>What a removal that has found its Sandbox checks, and that nothing else makes one disappear.\<close>

definition sandbox_released :: "operation_record \<Rightarrow> sandbox_record \<Rightarrow> bool" where
  "sandbox_released x r \<longleftrightarrow>
     phase_of r = SandboxStopped \<and> length (elems (or_Releases x)) = length (sr_HostResources r)
     \<and> list_all (\<lambda>t. list_ex (\<lambda>e. rl_Resource e = t) (elems (or_Releases x))) (sr_HostResources r)"

lemma complete_releases:
  "validateCompleteCleanupReleases x inventory = None \<longleftrightarrow>
     length (elems (or_Releases x)) = length inventory
     \<and> list_all (\<lambda>t. list_ex (\<lambda>e. rl_Resource e = t) (elems (or_Releases x))) inventory"
  by (simp add: validateCompleteCleanupReleases_def Let_def)

lemma step_no_edge:
  assumes "\<And>edge. sandbox_step c b j edge v v' a"
  shows "sandbox_cores v' = sandbox_cores v"
  using assms [of "(None, None)"] assms [of "(None, Some SandboxReady)"] by (auto simp: sandbox_step_def moves_def)

lemma confirm_remove_facts:
  assumes "ConfirmSandboxRemove c now q = Inr p" and "run_lc p v = (v', Inr a)" and "keyed v" and "cloned v"
  shows "validateFor (xf_Verification q) VerificationSandboxAbsent = None"
    and "sandbox_cores v' = sandbox_cores v
      \<or> (\<exists>r x. sandboxes_of v (xf_SandboxID q) = Some r \<and> operations_of v (xf_OperationID q) = Some x
           \<and> sandbox_released x r \<and> ListContainerAttempts v (xf_SandboxID q) = Inr []
           \<and> sandbox_cores v' = (sandbox_cores v)(xf_SandboxID q := None))"
proof -
  let ?i = "xf_SandboxID q"
  let ?resume = "\<lambda>x. lc_bind (attempt (getSandbox ?i)) (\<lambda>got. case got of
      Inl e \<Rightarrow> check (reject (\<not> is_not_found e) e) (removeAbsentSandbox x (xf_Verification q))
    | Inr r \<Rightarrow> removeStoppedSandbox x (xf_Verification q) ?i r)"
  from assms(1) obtain b where valid: "validateFor (xf_Verification q) VerificationSandboxAbsent = None"
    and b: "suppliedBinding (xf_OperationID q) TypeDelete (sandbox_resource ?i) (xf_Fingerprint q) = Inr b"
    and p: "p = lc_bind (resolveOperation c now b) (\<lambda>resolved. case resolved of
          ResolvedNew \<Rightarrow> Abort (LcNotFound (xf_OperationID q))
        | ResolvedResume x \<Rightarrow> ?resume x
        | ResolvedReplay x \<Rightarrow> lift_res (sandboxResultFromRecord ResolutionReplay x))"
    by (auto simp: ConfirmSandboxRemove_def Let_def)
  note b' = suppliedBinding_Inr [OF b]
  show "validateFor (xf_Verification q) VerificationSandboxAbsent = None" by (rule valid)
  show "sandbox_cores v' = sandbox_cores v
      \<or> (\<exists>r x. sandboxes_of v ?i = Some r \<and> operations_of v (xf_OperationID q) = Some x
           \<and> sandbox_released x r \<and> ListContainerAttempts v ?i = Inr []
           \<and> sandbox_cores v' = (sandbox_cores v)(?i := None))" (is ?goal)
    using assms(2-4) unfolding p
  proof (cases rule: sandbox_replies.dispatchE)
    case (resume x)
    from resume(1) show ?goal
    proof (rule attempted_get)
      fix r assume r: "sandboxes_of v ?i = Some r" and "run_lc (case Inr r of
          Inl e \<Rightarrow> check (reject (\<not> is_not_found e) e) (removeAbsentSandbox x (xf_Verification q))
        | Inr r \<Rightarrow> removeStoppedSandbox x (xf_Verification q) ?i r) v = (v', Inr a)"
      then have run: "run_lc (removeStoppedSandbox x (xf_Verification q) ?i r) v = (v', Inr a)" by simp
      have "phase_of r = SandboxStopped" using run by (simp add: removeStoppedSandbox_def run_check_Inr)
      then show ?goal
        using removeStoppedSandbox_step [OF run r keyed_sandbox [OF assms(3) r] resume(2)] r resume(2) b'
        by (auto simp: sandbox_released_def complete_releases answered_by_def)
    next
      assume "run_lc (removeAbsentSandbox x (xf_Verification q)) v = (v', Inr a)"
      from step_no_edge [OF removeAbsentSandbox_step [OF this resume(2)]] show ?goal by simp
    qed simp
  qed simp_all
qed

text \<open>C4. A removal that is confirmed makes a Sandbox disappear only when it was Stopped, no Container was
  left in it, and every resource in its inventory, one by one, has the record of its release in the
  operation that removes it, and that operation has released nothing else.\<close>

theorem removed_sandbox_is_released:
  assumes "store_reachable s"
  shows "case sandbox_call c s now k1 k2 (SandboxConfirmRemove q) of
      (s', Inl e) \<Rightarrow> s' = s
    | (s', Inr (a, err)) \<Rightarrow> validateFor (xf_Verification q) VerificationSandboxAbsent = None
        \<and> (sandbox_cores (view_of s') = sandbox_cores (view_of s)
           \<or> (\<exists>r x. sandboxes_of (view_of s) (xf_SandboxID q) = Some r
                \<and> operations_of (view_of s) (xf_OperationID q) = Some x \<and> sandbox_released x r
                \<and> ListContainerAttempts (view_of s) (xf_SandboxID q) = Inr []
                \<and> sandbox_cores (view_of s') = (sandbox_cores (view_of s))(xf_SandboxID q := None)))"
proof (cases "submit s k1 k2 (sandbox_command c now (SandboxConfirmRemove q))")
  case (Pair s' r)
  from Pair assms show ?thesis
  proof (cases rule: submit_cases)
    case (committed a p v' ch)
    then have "ConfirmSandboxRemove c now q = Inr p" by simp
    note facts = confirm_remove_facts [OF this committed(3) reachable_keyed [OF assms] reachable_cloned [OF assms]]
    show ?thesis
      using Pair committed(1) facts kept(3) [OF committed(4)]
      by (simp add: sandbox_call_def finishSandboxResult_def finished_def)
  qed (use Pair in \<open>simp add: sandbox_call_def finishSandboxResult_def finished_def\<close>)
qed

lemma demo_stopped_reach: "store_reachable (demo_store SandboxStopped 1 TypeDelete)"
  by (rule demo_store_reachable) (simp_all add: demo_phase_def)

theorem removed_sandbox_is_released_witness:
  "store_reachable (demo_store SandboxStopped 1 TypeDelete)
   \<and> (\<exists>r x. sandboxes_of (view_of (demo_store SandboxStopped 1 TypeDelete)) ''sandbox-1'' = Some r
        \<and> operations_of (view_of (demo_store SandboxStopped 1 TypeDelete)) ''op-1'' = Some x \<and> sandbox_released x r
        \<and> sandbox_cores (view_of demo_removed_store) ''sandbox-1'' = None)"
proof -
  have "sandbox_cores (view_of demo_removed_store) ''sandbox-1'' \<noteq> sandbox_cores (view_of (demo_store SandboxStopped 1 TypeDelete)) ''sandbox-1''"
    by (simp add: sandbox_cores_def demo_store_view demo_removed_store_def demo_after_def demo_content_def newMemoryData_def optional_def)
  then show ?thesis
    using demo_stopped_reach removed_sandbox_is_released [OF demo_stopped_reach, where c = demo_coordinator and now = demo_time
        and ?k1.0 = False and ?k2.0 = False and q = "demo_confirm VerificationSandboxAbsent"]
    by (auto simp: demo_remove_call)
qed

lemma pair_step_never:
  assumes "\<And>may. pair_step i may v v'"
  shows "container_cores v' = container_cores v" and "sandbox_cores v' = sandbox_cores v"
  using assms [of "\<lambda>_ _. False"] by (auto simp: pair_step_def)

lemma confirm_delete_facts:
  assumes "ConfirmContainerDelete c now q = Inr p" and "run_lc p v = (v', Inr a)" and "keyed v" and "cloned v"
  shows "validateFor (yf_Verification q) VerificationAttemptAbsent = None"
    and "container_cores v' = container_cores v
      \<or> (\<exists>r x. containers_of v (yf_ContainerID q) = Some r \<and> operations_of v (yf_OperationID q) = Some x
           \<and> attempt_phase_of r = AttemptStopped \<and> validateCompleteCleanupReleases x (cr_HostResources r) = None
           \<and> container_cores v' = (container_cores v)(yf_ContainerID q := None))"
proof -
  let ?i = "yf_ContainerID q"
  let ?resume = "\<lambda>x. lc_bind (attempt (getContainer ?i)) (\<lambda>got. case got of
      Inl e \<Rightarrow> check (reject (\<not> is_not_found e) e) (deleteAbsentContainer x (yf_Verification q))
    | Inr r \<Rightarrow> deleteStoppedContainer x (yf_Verification q) ?i r)"
  from assms(1) obtain b where valid: "validateFor (yf_Verification q) VerificationAttemptAbsent = None"
    and b: "suppliedBinding (yf_OperationID q) TypeDelete (container_resource ?i) (yf_Fingerprint q) = Inr b"
    and p: "p = lc_bind (resolveOperation c now b) (\<lambda>resolved. case resolved of
          ResolvedNew \<Rightarrow> Abort (LcNotFound (yf_OperationID q))
        | ResolvedResume x \<Rightarrow> ?resume x
        | ResolvedReplay x \<Rightarrow> lift_res (containerResultFromRecord ResolutionReplay x))"
    by (auto simp: ConfirmContainerDelete_def Let_def)
  note b' = suppliedBinding_Inr [OF b]
  show "validateFor (yf_Verification q) VerificationAttemptAbsent = None" by (rule valid)
  show "container_cores v' = container_cores v
      \<or> (\<exists>r x. containers_of v ?i = Some r \<and> operations_of v (yf_OperationID q) = Some x
           \<and> attempt_phase_of r = AttemptStopped \<and> validateCompleteCleanupReleases x (cr_HostResources r) = None
           \<and> container_cores v' = (container_cores v)(?i := None))" (is ?goal)
    using assms(2-4) unfolding p
  proof (cases rule: container_replies.dispatchE)
    case (resume x)
    from resume(1) show ?goal
    proof (rule attempted_get_container)
      fix r assume r: "containers_of v ?i = Some r" and "run_lc (case Inr r of
          Inl e \<Rightarrow> check (reject (\<not> is_not_found e) e) (deleteAbsentContainer x (yf_Verification q))
        | Inr r \<Rightarrow> deleteStoppedContainer x (yf_Verification q) ?i r) v = (v', Inr a)"
      then have run: "run_lc (deleteStoppedContainer x (yf_Verification q) ?i r) v = (v', Inr a)" by simp
      note step = deleteStoppedContainer_step [OF run assms(3) r resume(2)]
      have stopped: "attempt_phase_of r = AttemptStopped"
        using run by (simp add: deleteStoppedContainer_def Let_def run_check_Inr)
      from step(2) consider "container_cores v' = container_cores v"
        | "attempts v' ?i = None" "\<forall>j. j \<noteq> ?i \<longrightarrow> container_cores v' j = container_cores v j"
        by (auto simp: pair_step_def edge_def)
      then show ?goal
      proof cases
        case 2
        then have "container_cores v' = (container_cores v)(?i := None)"
          by (auto simp: fun_eq_iff attempts_def)
        then show ?goal using r stopped step(3) resume(2) b' by (auto simp: answered_by_def)
      qed simp
    next
      assume run: "run_lc (deleteAbsentContainer x (yf_Verification q)) v = (v', Inr a)"
      from pair_step_never(1) [OF deleteAbsentContainer_step(2) [OF run resume(2)]] show ?goal by simp
    qed simp
  qed simp_all
qed


subsection \<open>Kill\<close>

definition demo_pair_confirm :: "verification_kind \<Rightarrow> container_confirm_request" where
  "demo_pair_confirm k = \<lparr>yf_OperationID = ''op-1'', yf_ContainerID = ''c'', yf_Fingerprint = demo_fingerprint,
     yf_Verification = demo_verification k\<rparr>"



definition demo_kill_plan :: kill_request where
  "demo_kill_plan = \<lparr>kq_OperationID = ''op-2'', kq_ContainerID = ''c'', kq_Policy = zero_termination_policy\<rparr>"


subsection \<open>Running\<close>

lemma container_core_record:
  assumes "container_cores (view_of s') i = Some (container_core r)"
  obtains r' where "containers_of (view_of s') i = Some r'" and "attempt_phase_of r' = attempt_phase_of r"
    and "at_ProcessIdentity (ca_Attempt (cr_ContainerAttempt r')) = at_ProcessIdentity (ca_Attempt (cr_ContainerAttempt r))"
proof -
  obtain r' where r': "containers_of (view_of s') i = Some r'" "container_core r' = container_core r"
    using assms by (auto simp: container_cores_def)
  then have core: "(ca_Attempt (cr_ContainerAttempt r'))\<lparr>at_LastObservation := empty_observation\<rparr>
      = (ca_Attempt (cr_ContainerAttempt r))\<lparr>at_LastObservation := empty_observation\<rparr>"
    by (simp add: container_core_def)
  have "attempt_phase_of r' = attempt_phase_of r"
    using arg_cong [OF core, of at_Phase] by (simp add: attempt_phase_of_def)
  moreover have "at_ProcessIdentity (ca_Attempt (cr_ContainerAttempt r')) = at_ProcessIdentity (ca_Attempt (cr_ContainerAttempt r))"
    using arg_cong [OF core, of at_ProcessIdentity] by simp
  ultimately show thesis using r'(1) by (intro that)
qed

lemma start_transition_facts:
  assumes "run_lc (applyContainerTransition x b w AttemptCreated AttemptRunning) v = (v', Inr a)" and "keyed v"
    and "answered_by c b v x" and "OperationRecord_Clone x = x" and "vf_ProcessIdentity w = Some i"
    and "bd_Type b = TypeStart"
  shows "\<exists>r r1. containers_of v (tg_ID (bd_Target b)) = Some r \<and> attempt_phase_of r = AttemptCreated
      \<and> requireLinuxStage x StageObserveProcess = None
      \<and> attempt_phase_of r1 = AttemptRunning \<and> at_ProcessIdentity (ca_Attempt (cr_ContainerAttempt r1)) = Some i
      \<and> container_cores v' = (container_cores v)(tg_ID (bd_Target b) \<mapsto> container_core r1)"
proof -
  let ?i = "tg_ID (bd_Target b)"
  from assms(1) obtain r p v2 r1 v3 x2 where
    stage: "requireLinuxStage x StageObserveProcess = None"
    and r: "GetContainerAttempt v ?i = Inr r" "attempt_phase_of r = AttemptCreated"
    and p: "run_lc (transitionPair (cr_ContainerAttempt r) w AttemptRunning) v = (v, Inr p)"
    and put: "run_lc (putContainer (r\<lparr>cr_ContainerAttempt := p, cr_HostResources := cr_HostResources r\<rparr>) (cr_Revision r)) v
        = (v2, Inr r1)"
    and comp: "run_lc (completeOperation x ResultSucceeded []) v2 = (v3, Inr x2)"
    and concl: "run_lc (concludeContainer ResolutionResume x2 ResultSucceeded (vf_ObservedAt w) (vf_Duration w)
            (verification_payload w) r1 (bd_Type b = TypeCreate)) v3 = (v', Inr a)"
    unfolding applyContainerTransition_def assms(4,6) run_check_Inr reject_None
    by (elim conjE run_bindE) (fastforce simp: run_check_Inr run_get run_lift_res
        elim!: run_bindE dest: transitionPair_parts(1) split: if_splits)
  have ri: "containers_of v ?i = Some r" using r by (simp add: GetContainerAttempt_Inr)
  let ?r1 = "r\<lparr>cr_ContainerAttempt := p, cr_HostResources := cr_HostResources r\<rparr>"
  note parts = transitionPair_parts [OF p]
  note k = completed_answers [OF comp assms(3)]
  have "container_cores v' = (container_cores v)(?i \<mapsto> container_core ?r1)"
    using stored_then_concluded(3) [OF put k(2,3,1) concl] parts(2) keyed_container [OF assms(2) ri] by simp
  then show ?thesis
    using ri r(2) stage parts(3) parts(4) [OF assms(5)]
    by (intro exI [of _ r] exI [of _ ?r1]) (simp add: attempt_phase_of_def)
qed



end
