(* ===== verification/Lifecycle_Progress.thy ===== *)
theory Lifecycle_Progress
  imports Lifecycle_Safety
begin

text \<open>
  The commands between the two phases of an operation: checkpoints, reconciled conditions and the
  failure of an operation that cannot go on. None of them moves a phase, and a Linux start cannot pass
  its gate out of order.
\<close>

subsection \<open>Calm steps\<close>

text \<open>A step that may change conditions, observations and operations, but no phase and no key.\<close>

definition calm :: "memory_view \<Rightarrow> memory_view \<Rightarrow> bool" where
  "calm v v' \<longleftrightarrow> phases v' = phases v \<and> attempts v' = attempts v \<and> keyed v'"

lemma calm_refl: "keyed v \<Longrightarrow> calm v v"
  by (simp add: calm_def)

lemma calm_trans: "calm v1 v2 \<Longrightarrow> calm v2 v3 \<Longrightarrow> calm v1 v3"
  by (simp add: calm_def)

lemma calm_keyed: "calm v v' \<Longrightarrow> keyed v'"
  by (simp add: calm_def)

lemma calm_cores:
  assumes "sandbox_cores v' = sandbox_cores v" and "container_cores v' = container_cores v" and "keyed v"
  shows "calm v v'"
  using assms keyed_cong [OF assms] by (simp add: calm_def phases_def attempts_def fun_eq_iff)

lemma calm_sandbox:
  assumes "run_lc (putSandbox (r\<lparr>sr_Sandbox := s\<rparr>) n) v = (v', Inr r')" and "sandboxes_of v i = Some r" and "keyed v"
    and "sb_ID s = sb_ID (sr_Sandbox r)" and "ss_Phase (sb_Status s) = phase_of r"
  shows "calm v v'"
proof -
  note p = putSandbox_effect [OF assms(1), simplified]
  have id: "sb_ID s = i" using keyed_sandbox [OF assms(3,2)] assms(4) by simp
  have cores: "sandbox_cores v' = (sandbox_cores v)(i \<mapsto> sandbox_core (r\<lparr>sr_Sandbox := s\<rparr>))"
    "container_cores v' = container_cores v"
    using p id by (simp_all add: cores_def map_option_update)
  have "phases v i = Some (phase_of r)" using assms(2) by (simp add: phases_at)
  then have "phases v' = phases v"
    using cores(1) assms(5) by (auto simp: phases_def sandbox_core_def phase_of_def fun_eq_iff)
  moreover have "attempts v' = attempts v" using cores(2) by (simp add: attempts_def fun_eq_iff)
  moreover have "keyed v'"
    using assms(3) cores id by (auto simp: keyed_def sandbox_core_def split: if_splits)
  ultimately show ?thesis by (simp add: calm_def)
qed

lemma calm_container:
  assumes "run_lc (putContainer (r\<lparr>cr_ContainerAttempt := p\<rparr>) n) v = (v', Inr r')" and "containers_of v i = Some r" and "keyed v"
    and "pair_id p = pair_id (cr_ContainerAttempt r)" and "at_Phase (ca_Attempt p) = attempt_phase_of r"
  shows "calm v v'"
proof -
  note q = putContainer_effect [OF assms(1), simplified]
  have id: "pair_id p = i" using keyed_container [OF assms(3,2)] assms(4) by simp
  have cores: "container_cores v' = (container_cores v)(i \<mapsto> container_core (r\<lparr>cr_ContainerAttempt := p\<rparr>))"
    "sandbox_cores v' = sandbox_cores v"
    using q id by (simp_all add: cores_def map_option_update)
  have "attempts v i = Some (attempt_phase_of r)" using assms(2) by (simp add: attempts_at)
  then have "attempts v' = attempts v"
    using cores(1) assms(5) by (auto simp: attempts_def container_core_def attempt_phase_of_def fun_eq_iff)
  moreover have "phases v' = phases v" using cores(2) by (simp add: phases_def fun_eq_iff)
  moreover have "keyed v'"
    using assms(3) cores id by (auto simp: keyed_def container_core_def split: if_splits)
  ultimately show ?thesis by (simp add: calm_def)
qed

subsection \<open>Conditions\<close>

lemma conditionSandbox_parts:
  assumes "run_lc (conditionSandbox s u cl) v = (v', Inr s')"
  shows "v' = v" and "sb_ID s' = sb_ID s" and "ss_Phase (sb_Status s') = ss_Phase (sb_Status s)"
  using assms
  by (auto simp: conditionSandbox_def run_changed_Inr Sandbox_UpsertCondition_def Sandbox_ClearCondition_def
      Sandbox_SetConditions_def Let_def split: option.splits sum.splits if_splits)

lemma conditionPair_parts:
  assumes "run_lc (conditionPair p u cl) v = (v', Inr p')"
  shows "v' = v" and "pair_id p' = pair_id p" and "at_Phase (ca_Attempt p') = at_Phase (ca_Attempt p)"
  using assms
  by (auto simp: conditionPair_def run_changed_Inr Pair_ClearCondition_def
      split: option.splits sum.splits dest!: Pair_setters_parts(3,4))

text \<open>A condition is written to the record that is stored; the record that comes back has its identity.\<close>

lemma condition_written_sandbox:
  assumes "run_lc (getSandbox i) v = (v0, Inr r)" and "run_lc (conditionSandbox (sr_Sandbox r) u cl) v0 = (v1, Inr s)"
    and "run_lc (putSandbox (r\<lparr>sr_Sandbox := s\<rparr>) (sr_Revision r)) v1 = (v', Inr r1)" and "keyed v"
  shows "calm v v'" and "operations_of v' = operations_of v"
proof -
  note c = conditionSandbox_parts [OF assms(2)]
  have r: "v0 = v" "sandboxes_of v i = Some r" using assms(1) by (simp_all add: run_get GetSandbox_Inr)
  note put = assms(3) [unfolded c(1) r(1)]
  show "calm v v'" using calm_sandbox [OF put r(2) assms(4)] c by (simp add: phase_of_def)
  show "operations_of v' = operations_of v" using putSandbox_effect [OF put] by simp
qed

lemma condition_written_container:
  assumes "run_lc (getContainer i) v = (v0, Inr r)" and "run_lc (conditionPair (cr_ContainerAttempt r) u cl) v0 = (v1, Inr p)"
    and "run_lc (putContainer (r\<lparr>cr_ContainerAttempt := p\<rparr>) (cr_Revision r)) v1 = (v', Inr r1)" and "keyed v"
  shows "calm v v'" and "operations_of v' = operations_of v"
proof -
  note c = conditionPair_parts [OF assms(2)]
  have r: "v0 = v" "containers_of v i = Some r" using assms(1) by (simp_all add: run_get GetContainerAttempt_Inr)
  note put = assms(3) [unfolded c(1) r(1)]
  show "calm v v'" using calm_container [OF put r(2) assms(4)] c by (simp add: attempt_phase_of_def)
  show "operations_of v' = operations_of v" using putContainer_effect [OF put] by simp
qed

lemma applyCheckpointCondition_calm:
  assumes "run_lc (applyCheckpointCondition t u cl) v = (v', Inr a)" and "keyed v"
  shows "calm v v'" and "operations_of v' = operations_of v"
proof -
  have "calm v v' \<and> operations_of v' = operations_of v"
  proof (cases "u = None \<and> cl = []")
    case True
    then show ?thesis using assms by (simp add: applyCheckpointCondition_def calm_refl)
  next
    case False
    with assms(1) show ?thesis
      by (cases "tg_Kind t") (auto simp: applyCheckpointCondition_def elim!: run_bindE
          dest: condition_written_sandbox [OF _ _ _ assms(2)] condition_written_container [OF _ _ _ assms(2)])
  qed
  then show "calm v v'" "operations_of v' = operations_of v" by simp_all
qed

lemma reconcileResource_calm:
  assumes "run_lc (reconcileResource t u cl) v = (v', Inr a)" and "keyed v"
  shows "calm v v'" and "operations_of v' = operations_of v"
proof -
  have "calm v v' \<and> operations_of v' = operations_of v"
    using assms(1)
    by (cases "tg_Kind t") (auto simp: reconcileResource_def Let_def elim!: run_bindE
        dest: condition_written_sandbox [OF _ _ _ assms(2)] condition_written_container [OF _ _ _ assms(2)])
  then show "calm v v'" "operations_of v' = operations_of v" by simp_all
qed

lemma appended_calm:
  assumes "run_lc (appendOperationEvent x sg res at d g ob p rs) v = (v', Inr e)" and "keyed v"
  shows "calm v v'" and "operations_of v' = operations_of v"
  using appendOperationEvent_effect [OF assms(1)] assms(2) by (simp_all add: calm_cores cores_def)

lemma observed_calm:
  assumes "run_lc (observeEventTarget t e) v = (v', Inr a)" and "keyed v"
  shows "calm v v'" and "operations_of v' = operations_of v"
  using observeEventTarget_effect [OF assms] assms(2) by (simp_all add: calm_cores)

lemma put_operation_calm:
  assumes "run_lc (putOperation x n) v = (v', Inr x')" and "keyed v"
  shows "calm v v'"
  using putOperation_effect [OF assms(1)] assms(2) by (simp add: calm_cores cores_def)

lemma committed_calm:
  assumes "calm v v'" and "applyRetention p (mv_data v') = Inr (ms_data s', ch)"
  shows "phases (view_of s') = phases v" and "attempts (view_of s') = attempts v"
  using assms(1) kept(3,4) [OF assms(2)] by (simp_all add: calm_def phases_def attempts_def fun_eq_iff)

text \<open>A successful call whose transaction changed nothing has left the store as it was.\<close>

lemma reading_submit:
  assumes "submit s k1 k2 (Inr p) = (s', Inr a)" and "store_reachable s" and "run_lc p (view_of s) = (view_of s, Inr b)"
  shows "s' = s"
proof -
  have "\<not> k1 \<and> \<not> k2"
    using assms by (auto simp: submit_def lc_update_def Let_def Store_Update_def reachable_start run_callback split: if_splits)
  then show ?thesis using reading_call [OF assms(2,3)] assms(1) by (simp add: submit_def)
qed

text \<open>What these commands have in common at their end: the event is appended and projected.\<close>

lemma reported_calm:
  assumes "run_lc (lc_bind (appendOperationEvent x sg res at d g ob p rs) (\<lambda>e.
      lc_bind (observeEventTarget t e) (\<lambda>_. m))) v = (v', Inr a)" and "keyed v"
  obtains v1 where "calm v v1" and "operations_of v1 = operations_of v" and "run_lc m v1 = (v', Inr a)"
proof -
  from assms(1) obtain v1 e where ev: "run_lc (appendOperationEvent x sg res at d g ob p rs) v = (v1, Inr e)"
    and rest: "run_lc (lc_bind (observeEventTarget t e) (\<lambda>_. m)) v1 = (v', Inr a)" by (rule run_bindE)
  from rest obtain v2 u where obs: "run_lc (observeEventTarget t e) v1 = (v2, Inr u)" and m: "run_lc m v2 = (v', Inr a)"
    by (rule run_bindE)
  note c1 = appended_calm [OF ev assms(2)]
  note c2 = observed_calm [OF obs calm_keyed [OF c1(1)]]
  show thesis using c1 c2 m calm_trans by (intro that [of v2]) auto
qed

subsection \<open>Checkpoints\<close>

lemma storeCheckpoint_effect:
  assumes "run_lc (storeCheckpoint now q r) v = (v', Inr (x, b))" and "keyed v"
  shows "calm v v'" and "b" and "op_Stage x = kc_Stage q"
    and "validateLinuxCheckpointAdvance r (kc_Stage q) = None"
    and "\<exists>y. operations_of v' (op_ID (or_Operation r)) = Some y \<and> or_Operation y = x"
proof -
  let ?cond = "applyCheckpointCondition (kc_Target q) (kc_UpsertCondition q) (kc_ClearCondition q)"
  let ?tail = "\<lambda>y rs g ob. lc_bind (appendOperationEvent (or_Operation y) (kc_Stage q) ResultPending
      (or_now (kc_OccurredAt q) now) (kc_Duration q) g ob (kc_Details q) rs) (\<lambda>e.
      lc_bind (observeEventTarget (kc_Target q) e) (\<lambda>_. Yield (or_Operation y, True)))"
  let ?rest = "\<lambda>y st. case st of (rs, g, ob) \<Rightarrow> ?tail y rs g ob"
  from assms(1) have adv: "validateLinuxCheckpointAdvance r (kc_Stage q) = None"
    and run: "run_lc (lc_bind (putOperation (checkpointed r q) (or_Revision r)) (\<lambda>y.
      lc_bind ?cond (\<lambda>_. lc_bind (eventResourceState (kc_Target q)) (?rest y)))) v = (v', Inr (x, b))"
    by (simp_all add: storeCheckpoint_def run_check_Inr)
  from run obtain v1 y where put: "run_lc (putOperation (checkpointed r q) (or_Revision r)) v = (v1, Inr y)"
    and r1: "run_lc (lc_bind ?cond (\<lambda>_. lc_bind (eventResourceState (kc_Target q)) (?rest y))) v1 = (v', Inr (x, b))"
    by (rule run_bindE)
  from r1 obtain v2 u where cond: "run_lc ?cond v1 = (v2, Inr u)"
    and r2: "run_lc (lc_bind (eventResourceState (kc_Target q)) (?rest y)) v2 = (v', Inr (x, b))"
    by (rule run_bindE)
  from r2 obtain v0 st where st: "run_lc (eventResourceState (kc_Target q)) v2 = (v0, Inr st)"
    and r3: "run_lc (?rest y st) v0 = (v', Inr (x, b))" by (rule run_bindE)
  obtain rs g ob where "st = (rs, g, ob)" by (cases st)
  with r3 have tail: "run_lc (?tail y rs g ob) v2 = (v', Inr (x, b))" by (simp add: eventResourceState_effect [OF st])
  note c1 = put_operation_calm [OF put assms(2)]
  note c2 = applyCheckpointCondition_calm [OF cond calm_keyed [OF c1]] and w = putOperation_effect [OF put]
  from tail calm_keyed [OF c2(1)] obtain v3 where c3: "calm v2 v3" "operations_of v3 = operations_of v2"
    and "run_lc (Yield (or_Operation y, True)) v3 = (v', Inr (x, b))" by (rule reported_calm)
  then have res: "v' = v3" "x = or_Operation y" "b" by simp_all
  show "calm v v'" using c1 c2(1) c3(1) calm_trans res(1) by blast
  show "b" "validateLinuxCheckpointAdvance r (kc_Stage q) = None" by (fact res(3), fact adv)
  show "op_Stage x = kc_Stage q" using w res by (simp add: checkpointed_def)
  show "\<exists>y. operations_of v' (op_ID (or_Operation r)) = Some y \<and> or_Operation y = x"
    using w c2(2) c3(2) res by (simp add: checkpointed_def)
qed



definition demo_checkpoint :: checkpoint_request where
  "demo_checkpoint =
    \<lparr>kc_OperationID = ''op-1'', kc_Target = sandbox_target, kc_Fingerprint = demo_fingerprint,
     kc_Stage = StagePrepareNamespaces, kc_RollbackCause = None, kc_OOMBaseline = None, kc_KillEscalationDeadline = None,
     kc_Rollback = None, kc_Receipts = None, kc_Releases = None, kc_OccurredAt = demo_time, kc_Duration = None,
     kc_Details = plain_payload (JObj []), kc_UpsertCondition = None, kc_ClearCondition = []\<rparr>"


subsection \<open>Reconciliation\<close>

text \<open>The condition is written, the operation is stored as succeeded, and its event is projected; what
  follows is the reply.\<close>

lemma reconcile_new_calm:
  assumes "run_lc (lc_bind (reconcileResource t u cl) (\<lambda>(rs, g, ob).
      lc_bind (putNewTerminalOperation c b ResultSucceeded []) (\<lambda>x.
      lc_bind (appendOperationEvent (or_Operation x) sg res at d g ob p rs) (\<lambda>e.
      lc_bind (observeEventTarget t e) (\<lambda>_. m x))))) v = (v', Inr a)" and "keyed v"
  obtains v1 x where "calm v v1" and "run_lc (m x) v1 = (v', Inr a)"
proof -
  let ?tail = "\<lambda>rs g ob x. lc_bind (appendOperationEvent (or_Operation x) sg res at d g ob p rs) (\<lambda>e.
      lc_bind (observeEventTarget t e) (\<lambda>_. m x))"
  from assms(1) obtain v1 st where rec: "run_lc (reconcileResource t u cl) v = (v1, Inr st)"
    and r1: "run_lc (case st of (rs, g, ob) \<Rightarrow> lc_bind (putNewTerminalOperation c b ResultSucceeded []) (?tail rs g ob)) v1 = (v', Inr a)"
    by (rule run_bindE)
  obtain rs g ob where "st = (rs, g, ob)" by (cases st)
  with r1 have "run_lc (lc_bind (putNewTerminalOperation c b ResultSucceeded []) (?tail rs g ob)) v1 = (v', Inr a)" by simp
  then obtain v2 x where put: "run_lc (putNewTerminalOperation c b ResultSucceeded []) v1 = (v2, Inr x)"
    and tail: "run_lc (?tail rs g ob x) v2 = (v', Inr a)" by (rule run_bindE)
  note c1 = reconcileResource_calm [OF rec assms(2)]
  have c2: "calm v1 v2"
    using putNew_effect [OF put [unfolded putNewTerminalOperation_def]] calm_keyed [OF c1(1)]
    by (simp add: calm_cores cores_def)
  from tail calm_keyed [OF c2] obtain v3 where "calm v2 v3" "run_lc (m x) v3 = (v', Inr a)" by (rule reported_calm)
  then show thesis using c1(1) c2 calm_trans by (intro that [of v3 x]) blast+
qed

lemma reading_calm: "run_lc (reconciliationResourceResponse t) v = (v', Inr r) \<Longrightarrow> v' = v"
  by (cases "tg_Kind t") (auto simp: reconciliationResourceResponse_def run_get elim!: run_bindE)

lemma finalized_calm:
  assumes "run_lc (finalizeOperationResponse x response) v = (v', Inr x')" and "keyed v"
  shows "calm v v'"
  using finalizeOperationResponse_effect [OF assms(1)] assms(2) by (simp add: calm_cores cores_def)

lemma reconcileNew_calm:
  assumes "run_lc (reconcileNew c now b q) v = (v', Inr a)" and "keyed v"
  shows "calm v v'"
proof -
  let ?t = "rq_Target q"
  let ?m = "\<lambda>x. lc_bind (reconciliationResourceResponse ?t) (\<lambda>r.
     lc_bind (encodeResponse (reconcile_response_payload r)) (\<lambda>response.
     lc_bind (finalizeOperationResponse x response) (\<lambda>x'.
       Yield \<lparr>rs_Operation = or_Operation x', rs_Sandbox = rp_Sandbox r,
         rs_ContainerAttempt = rp_ContainerAttempt r\<rparr>)))"
  obtain v1 x where c1: "calm v v1" and m: "run_lc (?m x) v1 = (v', Inr a)"
    by (rule reconcile_new_calm [OF assms(1) [unfolded reconcileNew_def Let_def] assms(2)])
  from m obtain v2 r where "run_lc (reconciliationResourceResponse ?t) v1 = (v2, Inr r)"
    and r1: "run_lc (lc_bind (encodeResponse (reconcile_response_payload r)) (\<lambda>response.
     lc_bind (finalizeOperationResponse x response) (\<lambda>x'.
       Yield \<lparr>rs_Operation = or_Operation x', rs_Sandbox = rp_Sandbox r,
         rs_ContainerAttempt = rp_ContainerAttempt r\<rparr>))) v2 = (v', Inr a)" by (rule run_bindE)
  moreover from this(1) have "v2 = v1" by (rule reading_calm)
  ultimately obtain response x' where "run_lc (finalizeOperationResponse x response) v1 = (v', Inr x')"
    by (auto elim!: run_bindE simp: encodeResponse_def run_lift_res)
  from finalized_calm [OF this calm_keyed [OF c1]] c1 show ?thesis using calm_trans by blast
qed

text \<open>Reconciling a condition is atomic and moves no phase and no Attempt, whether the request is new or
  a replay.\<close>

theorem reconcile_call:
  assumes "store_reachable s"
  shows "case submit s k1 k2 (ReconcileCondition c now q) of
      (s', Inl e) \<Rightarrow> s' = s
    | (s', Inr r) \<Rightarrow> store_reachable s' \<and> validateReconcileConditionRequest q = None
        \<and> phases (view_of s') = phases (view_of s) \<and> attempts (view_of s') = attempts (view_of s)"
proof (cases "submit s k1 k2 (ReconcileCondition c now q)")
  case (Pair s' r)
  from Pair assms show ?thesis
  proof (cases rule: submit_cases)
    case (committed a p v' ch)
    let ?f = "\<lambda>b resolved. case resolved of
          ResolvedReplay x \<Rightarrow>
            lc_bind (lift_res (decodeReconcileResponse (op_Response (or_Operation x)) (rq_Target q))) (\<lambda>r.
              Yield \<lparr>rs_Operation = or_Operation x, rs_Sandbox = rp_Sandbox r,
                rs_ContainerAttempt = rp_ContainerAttempt r\<rparr>)
        | ResolvedResume _ \<Rightarrow> Abort (LcInvalid ''resolved as active'')
        | ResolvedNew \<Rightarrow> reconcileNew c now b q"
    note keyed = reachable_keyed [OF assms]
    from committed(2) obtain b where valid: "validateReconcileConditionRequest q = None"
      and p: "p = lc_bind (resolveOperation c now b) (?f b)"
      by (auto simp: ReconcileCondition_def Let_def)
    from committed(3) p obtain v1 resolved where res: "run_lc (resolveOperation c now b) (view_of s) = (v1, Inr resolved)"
      and rest: "run_lc (?f b resolved) v1 = (v', Inr a)" by (auto elim: run_bindE)
    have "calm (view_of s) v'"
      using res keyed reachable_cloned [OF assms]
    proof (cases rule: resolveE)
      case new
      then show ?thesis using rest reconcileNew_calm [OF _ keyed] by simp
    next
      case (resume x)
      then show ?thesis using rest by simp
    next
      case (replay x)
      moreover from this have "v' = v1" using rest by (auto elim!: run_bindE simp: run_lift_res)
      ultimately show ?thesis using keyed by (simp add: calm_cores)
    qed
    from committed_calm [OF this committed(4)] show ?thesis using Pair committed(1,5) valid by simp
  qed (use Pair in simp)
qed

definition demo_reconcile :: reconcile_request where
  "demo_reconcile =
    \<lparr>rq_OperationID = ''op-2'', rq_Target = sandbox_target, rq_Condition = None, rq_Clear = ''Failure'', rq_Evidence = ''probe'',
     rq_ObservedAt = demo_time\<rparr>"

theorem reconcile_call_witness:
  "store_reachable (demo_store SandboxCreating 0 TypeCreate)
   \<and> (case submit (demo_store SandboxCreating 0 TypeCreate) False False (ReconcileCondition demo_coordinator demo_time demo_reconcile) of
      (s', Inl e) \<Rightarrow> s' = demo_store SandboxCreating 0 TypeCreate
    | (s', Inr r) \<Rightarrow> phases (view_of s') = phases (view_of (demo_store SandboxCreating 0 TypeCreate)))"
  using demo_reach reconcile_call [OF demo_reach, where c = demo_coordinator and now = demo_time and ?k1.0 = False
      and ?k2.0 = False and q = demo_reconcile]
  by (auto split: prod.splits sum.splits)

subsection \<open>A conflict that is not recorded\<close>

text \<open>The reply that stands for a conflict has a key that the reply of a reconciliation does not have.\<close>

lemma conflict_reply:
  assumes "run_lc (persistOperationConflict c now b active) v = (v', Inr resolved)"
  obtains x where "resolved = ResolvedReplay x"
    and "op_Response (or_Operation x) = json_encode (JObj [(''active_operation_id'', JStr (op_ID active))])"
proof -
  let ?j = "JObj [(''active_operation_id'', JStr (op_ID active))]"
  from assms obtain v1 x where put: "run_lc (putNew c (failedOperation (newActiveOperation b []) ReasonConflict (json_encode ?j))) v = (v1, Inr x)"
    and "resolved = ResolvedReplay x"
    unfolding persistOperationConflict_def Let_def
    by (auto elim!: run_bindE simp: encodeResponse_def run_lift_res marshal_def plain_payload_def struct_json_def members.simps)
  then show thesis using putNew_effect(4) [OF put] by (intro that [of x]) (simp_all add: failedOperation_def)
qed

lemma conflict_unreadable:
  assumes "ValidString i"
  shows "decodeReconcileResponse (json_encode (JObj [(''active_operation_id'', JStr i)])) t \<noteq> Inr r"
proof -
  let ?j = "JObj [(''active_operation_id'', JStr i)]"
  have "writable ?j" "json_depth ?j \<le> maxNestingDepth"
    using assms by (simp_all add: ascii_ValidString maxNestingDepth_def)
  then have "json_parse (json_encode ?j) = Some ?j" by (rule json_parse_encode)
  then have "w = ?j" if "Decode reconcile_response_schema (json_encode ?j) = Inr w" for w
    using that by (simp add: Decode_Inr)
  moreover have "reconcile_response_of ?j = None"
    by (simp add: reconcile_response_of_def strict_struct_def reconcile_response_fields_def)
  ultimately have "strict_decode reconcile_response_schema reconcile_response_of (json_encode ?j) \<noteq> Inr w" for w
    by (auto simp: strict_decode_def split: sum.splits)
  then show ?thesis by (auto simp: decodeReconcileResponse_def map_sum_def split: if_splits sum.splits)
qed

lemma resolve_conflicting:
  assumes "store_reachable s" and "operations_of (view_of s) j = Some y" and "active_on (bd_Target b) y"
    and "operations_of (view_of s) (bd_ID b) = None" and "Binding_Validate b = None"
    and "run_lc (resolveOperation c now b) (view_of s) = (v', Inr resolved)"
  shows "run_lc (persistOperationConflict c now b (or_Operation y)) (view_of s) = (v', Inr resolved)"
proof -
  note t = tables.reachable [OF assms(1)]
  have y: "op_ID (or_Operation y) = j" "validateOperationRecord y = None" and mem: "(j, y) \<in> set (md_operations (ms_data s))"
    using t assms(2) by (auto simp: tables_ok_def dest: map_of_SomeD)
  have nf: "GetOperation (view_of s) (bd_ID b) = Inl ErrNotFound \<or> GetOperation (view_of s) (bd_ID b) = Inl ErrOperationExpired"
    using assms(4) by (simp add: GetOperation_def ensureOpen_def)
  then have get: "GetOperation (view_of s) (bd_ID b) = Inl ErrNotFound"
    using assms(6) by (auto simp: run_resolveOperation)
  have filter: "(j, y) \<in> set (filter (\<lambda>(_, r). active_on (bd_Target b) r) (md_operations (ms_data s)))"
    using mem assms(3) by simp
  have "ActiveOperation (view_of s) (bd_Target b) = Inr (OperationRecord_Clone y)
      \<or> ActiveOperation (view_of s) (bd_Target b) = Inl ErrInvariantViolation
      \<or> ActiveOperation (view_of s) (bd_Target b) = Inl ErrInvalidRecord"
  proof (cases "filter (\<lambda>(_, r). active_on (bd_Target b) r) (md_operations (ms_data s))")
    case Nil
    then show ?thesis using filter by (metis empty_iff list.set(1))
  next
    case (Cons e es)
    then have "es = [] \<Longrightarrow> e = (j, y)" using filter by (metis empty_iff insert_iff list.set)
    with Cons show ?thesis
      by (cases e; cases es) (auto simp: ActiveOperation_def ensureOpen_def reject_def)
  qed
  then have act: "ActiveOperation (view_of s) (bd_Target b) = Inr (OperationRecord_Clone y)"
    using assms(6) get by (auto simp: run_resolveOperation)
  have "CheckActiveConflict (Some (or_Operation y)) b \<noteq> None"
    using assms(3,5) y(1) assms(2,4) by (auto simp: CheckActiveConflict_def active_on_def split: option.splits)
  then show ?thesis using assms(6) get act by (simp add: run_resolveOperation)
qed



subsection \<open>Failing an active operation\<close>

lemma updateFailureResourceCondition_calm:
  "run_lc (updateFailureResourceCondition t c) v = (v', Inr a) \<Longrightarrow> keyed v \<Longrightarrow> calm v v'"
  by (auto simp: updateFailureResourceCondition_def dest: reconcileResource_calm(1) split: if_splits)

lemma failureResourceResponse_reads:
  "run_lc (failureResourceResponse t) v = (v', Inr a) \<Longrightarrow> v' = v"
  by (cases "tg_Kind t")
    (auto simp: failureResourceResponse_def encodeResponse_def run_get run_lift_res elim!: run_bindE)

lemma failActive_effect:
  assumes "run_lc (failActive now q r) v = (v', Inr x)" and "keyed v"
  shows "calm v v'" and "op_Type (or_Operation r) \<noteq> TypeCreate" and "op_State x = StateFailed"
    and "op_Reason x = fa_Reason (fq_Failure q)"
    and "\<exists>y. operations_of v' (op_ID (or_Operation r)) = Some y \<and> or_Operation y = x"
proof -
  let ?t = "fq_Target q"
  let ?close = "\<lambda>x. lc_bind (failureResourceResponse ?t) (\<lambda>response.
      lc_bind (finalizeOperationResponse x response) (\<lambda>x'. Yield (or_Operation x')))"
  let ?tail = "\<lambda>x rs g ob. lc_bind (appendOperationEvent (or_Operation x) StageComplete ResultFailed
      (or_now (fq_ObservedAt q) now) None g ob (failure_details (fq_Failure q)) rs) (\<lambda>e.
      lc_bind (observeEventTarget ?t e) (\<lambda>_. ?close x))"
  let ?fail = "failOperation r (fa_Reason (fq_Failure q)) []"
  from assms(1) show kind: "op_Type (or_Operation r) \<noteq> TypeCreate" by (auto simp: failActive_def Let_def run_check_Inr)
  from assms(1) have "run_lc (lc_bind (updateFailureResourceCondition ?t (fq_Condition q)) (\<lambda>(rs, g, ob).
      lc_bind ?fail (\<lambda>x. ?tail x rs g ob))) v = (v', Inr x)"
    by (simp add: failActive_def Let_def run_check_Inr)
  then obtain v1 st where up: "run_lc (updateFailureResourceCondition ?t (fq_Condition q)) v = (v1, Inr st)"
    and r1: "run_lc (case st of (rs, g, ob) \<Rightarrow> lc_bind ?fail (\<lambda>x. ?tail x rs g ob)) v1 = (v', Inr x)"
    by (rule run_bindE)
  obtain rs g ob where "st = (rs, g, ob)" by (cases st)
  with r1 have "run_lc (lc_bind ?fail (\<lambda>x. ?tail x rs g ob)) v1 = (v', Inr x)" by simp
  then obtain v2 y where fail: "run_lc ?fail v1 = (v2, Inr y)"
    and tail: "run_lc (?tail y rs g ob) v2 = (v', Inr x)" by (rule run_bindE)
  note c1 = updateFailureResourceCondition_calm [OF up assms(2)]
  note f = failOperation_effect [OF fail]
  have c2: "calm v1 v2" using f calm_keyed [OF c1] by (simp add: calm_cores cores_def)
  from tail calm_keyed [OF c2] obtain v3 where c3: "calm v2 v3" and "run_lc (?close y) v3 = (v', Inr x)"
    by (rule reported_calm)
  then obtain v4 response z where rd: "run_lc (failureResourceResponse ?t) v3 = (v4, Inr response)"
    and fin: "run_lc (finalizeOperationResponse y response) v4 = (v', Inr z)" and x: "x = or_Operation z"
    by (auto elim!: run_bindE)
  have v4: "v4 = v3" by (rule failureResourceResponse_reads [OF rd])
  note e = finalizeOperationResponse_effect [OF fin]
  have "calm v3 v'" using finalized_calm [OF fin] calm_keyed [OF c3] v4 by simp
  with c1 c2 c3 show "calm v v'" using calm_trans by blast
  show "op_State x = StateFailed" "op_Reason x = fa_Reason (fq_Failure q)"
    using e f x by (simp_all add: failedOperation_def)
  show "\<exists>y. operations_of v' (op_ID (or_Operation r)) = Some y \<and> or_Operation y = x"
    using e f x by simp
qed


definition demo_fail :: fail_request where
  "demo_fail =
    \<lparr>fq_OperationID = ''op-1'', fq_Target = sandbox_target, fq_Fingerprint = demo_fingerprint,
     fq_Failure = \<lparr>fa_Reason = ReasonInternal, fa_Message = ''lost''\<rparr>,
     fq_Condition = \<lparr>cond_Type = ConditionFailure, cond_Reason = ''internal'', cond_Message = ''lost''\<rparr>,
     fq_ObservedAt = demo_time\<rparr>"


subsection \<open>The start gate\<close>

text \<open>A list of stages that a Linux start can be checkpointed through, one after the other.\<close>

fun checkpoint_path :: "operation_record \<Rightarrow> stage list \<Rightarrow> bool" where
  "checkpoint_path r (a # b # sgs) \<longleftrightarrow>
     validateLinuxCheckpointAdvance (r\<lparr>or_Operation := (or_Operation r)\<lparr>op_Stage := a\<rparr>\<rparr>) b = None
     \<and> checkpoint_path r (b # sgs)"
| "checkpoint_path r _ \<longleftrightarrow> True"

abbreviation attach_rank :: int where "attach_rank \<equiv> lifecycleStageRank StageAttachCgroup"
abbreviation observe_rank :: int where "observe_rank \<equiv> lifecycleStageRank StageObserveProcess"

lemma rank_stage:
  "lifecycleStageRank a = 11 \<Longrightarrow> a = StageAttachCgroup" "lifecycleStageRank a = 12 \<Longrightarrow> a = StageReleaseStartGate"
  by (cases a; simp)+

lemma path_suffix: "checkpoint_path r (xs @ ys) \<Longrightarrow> checkpoint_path r ys"
proof (induction xs)
  case (Cons a xs)
  then show ?case by (cases "xs @ ys") auto
qed simp

lemma released_next:
  assumes "or_HostProfile r = HostProfileLinuxM2" and "op_Type (or_Operation r) = TypeStart"
    and "checkpoint_path r (StageReleaseStartGate # sgs)" and "observe_rank \<le> lifecycleStageRank (last (StageReleaseStartGate # sgs))"
  shows "(\<exists>n zs. sgs = replicate n StageReleaseStartGate @ StageObserveProcess # zs)
    \<or> (\<exists>xs c ys. sgs = xs @ c # ys \<and> lifecycleStageRank c \<le> attach_rank)"
  using assms(3,4)
proof (induction sgs)
  case (Cons b sgs)
  consider "b = StageReleaseStartGate" | "b = StageObserveProcess" | "lifecycleStageRank b \<le> 11"
    using Cons.prems(1) assms(1,2) rank_stage(2) [of b]
    by (cases "lifecycleStageRank b \<le> 11"; cases "lifecycleStageRank b = 12")
      (auto simp: validateLinuxCheckpointAdvance_def Let_def reject_def split: if_splits)
  then show ?case
  proof cases
    case 1
    then have "checkpoint_path r (StageReleaseStartGate # sgs)"
      and "observe_rank \<le> lifecycleStageRank (last (StageReleaseStartGate # sgs))"
      using Cons.prems by simp_all
    from Cons.IH [OF this] consider n zs where "sgs = replicate n StageReleaseStartGate @ StageObserveProcess # zs"
      | xs c ys where "sgs = xs @ c # ys" "lifecycleStageRank c \<le> attach_rank" by blast
    then show ?thesis
    proof cases
      case (1 n zs)
      with \<open>b = _\<close> have "b # sgs = replicate (Suc n) StageReleaseStartGate @ StageObserveProcess # zs" by simp
      then show ?thesis by blast
    next
      case (2 xs c ys)
      then have "b # sgs = (b # xs) @ c # ys" by simp
      with 2(2) show ?thesis by blast
    qed
  next
    case 2
    then have "b # sgs = replicate 0 StageReleaseStartGate @ StageObserveProcess # sgs" by simp
    then show ?thesis by blast
  next
    case 3
    then have "b # sgs = [] @ b # sgs \<and> lifecycleStageRank b \<le> attach_rank" by simp
    then show ?thesis by blast
  qed
qed simp

lemma attached_path:
  assumes "or_HostProfile r = HostProfileLinuxM2" and "op_Type (or_Operation r) = TypeStart"
    and "checkpoint_path r (a # sgs)" and "lifecycleStageRank a \<le> attach_rank"
    and "observe_rank \<le> lifecycleStageRank (last (a # sgs))"
  shows "\<exists>xs n zs. a # sgs = xs @ StageAttachCgroup # StageReleaseStartGate # replicate n StageReleaseStartGate @ StageObserveProcess # zs"
  using assms(3-5)
proof (induction "length sgs" arbitrary: a sgs rule: less_induct)
  case less
  obtain b sgs' where sgs: "sgs = b # sgs'" using less.prems(2,3) by (cases sgs) auto
  show ?case
  proof (cases "lifecycleStageRank b \<le> attach_rank")
    case True
    with less.hyps [of sgs' b] less.prems sgs obtain xs n zs where
      "b # sgs' = xs @ StageAttachCgroup # StageReleaseStartGate # replicate n StageReleaseStartGate @ StageObserveProcess # zs"
      by auto
    then have "a # sgs = (a # xs) @ StageAttachCgroup # StageReleaseStartGate # replicate n StageReleaseStartGate @ StageObserveProcess # zs"
      using sgs by simp
    then show ?thesis by blast
  next
    case False
    with less.prems sgs assms(1,2) have a: "a = StageAttachCgroup" and b: "b = StageReleaseStartGate"
      using rank_stage(1) [of a]
      by (auto simp: validateLinuxCheckpointAdvance_def Let_def reject_def split: if_splits)
    have "checkpoint_path r (StageReleaseStartGate # sgs')" "observe_rank \<le> lifecycleStageRank (last (StageReleaseStartGate # sgs'))"
      using less.prems sgs b by simp_all
    from released_next [OF assms(1,2) this] consider n zs where "sgs' = replicate n StageReleaseStartGate @ StageObserveProcess # zs"
      | xs c ys where "sgs' = xs @ c # ys" "lifecycleStageRank c \<le> attach_rank" by blast
    then show ?thesis
    proof cases
      case (1 n zs)
      then have "a # sgs = [] @ StageAttachCgroup # StageReleaseStartGate # replicate n StageReleaseStartGate @ StageObserveProcess # zs"
        using sgs a b by simp
      then show ?thesis by blast
    next
      case (2 xs c ys)
      have "checkpoint_path r (c # ys)" using path_suffix [of r "a # b # xs" "c # ys"] less.prems(1) sgs 2(1) by simp
      with less.hyps [of ys c] less.prems(3) 2 sgs obtain us n zs where
        "c # ys = us @ StageAttachCgroup # StageReleaseStartGate # replicate n StageReleaseStartGate @ StageObserveProcess # zs"
        by auto
      then have "a # sgs = (a # b # xs @ us) @ StageAttachCgroup # StageReleaseStartGate # replicate n StageReleaseStartGate @ StageObserveProcess # zs"
        using sgs 2(1) by simp
      then show ?thesis by blast
    qed
  qed
qed

text \<open>C14. A Linux start that is checkpointed from a stage before the attachment to its cgroup up to the
  observation of its process, or beyond it, has passed the gate in order: it was attached, directly after
  this the gate was released, and directly after the release the process was observed.\<close>

theorem linux_checkpoint_gate:
  assumes "or_HostProfile r = HostProfileLinuxM2" and "op_Type (or_Operation r) = TypeStart"
    and "checkpoint_path r (a # sgs)" and "lifecycleStageRank a < lifecycleStageRank StageAttachCgroup"
    and "lifecycleStageRank StageObserveProcess \<le> lifecycleStageRank (last (a # sgs))"
  shows "\<exists>xs n zs. a # sgs = xs @ StageAttachCgroup # replicate (Suc n) StageReleaseStartGate @ StageObserveProcess # zs"
  using attached_path [OF assms(1-3)] assms(4,5) by auto

theorem linux_checkpoint_gate_witness:
  "\<exists>xs n zs. [StagePersistIntent, StageAttachCgroup, StageReleaseStartGate, StageObserveProcess]
    = xs @ StageAttachCgroup # replicate (Suc n) StageReleaseStartGate @ StageObserveProcess # zs"
  by (rule linux_checkpoint_gate [where r = "demo_op_record (demo_op TypeStart StateRunning StagePersistIntent ResultPending [])
        1\<lparr>or_HostProfile := HostProfileLinuxM2\<rparr>"])
    (simp_all add: demo_op_record_def demo_op_def validateLinuxCheckpointAdvance_def Let_def reject_def)

end
