(* ===== verification/Lifecycle_Answers.thy ===== *)
theory Lifecycle_Answers
  imports Lifecycle_Progress
begin

text \<open>
  What a caller of the coordinator gets back: an operation that is well formed and bound to the request,
  the stored failure if and only if it failed, and the reply as it was stored.
\<close>

subsection \<open>The operation in an answer\<close>

definition answers :: "binding \<Rightarrow> operation \<Rightarrow> lc_error option \<Rightarrow> bool" where
  "answers b x err \<longleftrightarrow>
     Operation_Validate x = None \<and> Operation_Binding x = b
     \<and> err = (if op_State x = StateFailed then Some (OperationFailureError (bd_ID b) (op_Reason x)) else None)
     \<and> (op_State x = StateFailed \<longleftrightarrow> op_Reason x \<noteq> ReasonNone)"

lemma run_lc_tables:
  assumes "store_reachable s" and "run_lc p (view_of s) = (v', r)"
  shows "tables_ok (mv_data v')"
  using tables.run_keeps [of "view_of s" "callback p"] tables.reachable [OF assms(1)] assms(2)
  by (simp add: run_callback)

lemma record_operation: "validateOperationRecord x = None \<Longrightarrow> Operation_Validate (or_Operation x) = None"
  by (auto simp: validateOperationRecord_def Let_def)

lemma failure_named:
  assumes "Operation_Validate x = None"
  shows "replayedOperationError x =
    (if op_State x = StateFailed then Some (OperationFailureError (op_ID x) (op_Reason x)) else None)"
    and "op_State x = StateFailed \<longleftrightarrow> op_Reason x \<noteq> ReasonNone"
proof -
  have valid: "State_Valid (op_State x)" using assms by (simp add: operation_valid_iff)
  show "op_State x = StateFailed \<longleftrightarrow> op_Reason x \<noteq> ReasonNone"
    using assms valid by (cases "op_State x") (auto simp: operation_valid_iff State_Active_def)
  then show "replayedOperationError x =
    (if op_State x = StateFailed then Some (OperationFailureError (op_ID x) (op_Reason x)) else None)"
    using assms by (auto simp: replayedOperationError_def NewOperationFailureError_def operation_valid_iff)
qed

text \<open>The three kinds of results share the argument: the operation is the one stored in the transaction.\<close>

lemma stored_answers:
  assumes "store_reachable s" and "run_lc p (view_of s) = (v', Inr a)"
    and "reply_stored from_record resolution_of operation_of c b v' a"
  shows "answers b (operation_of a) (replayedOperationError (operation_of a))"
proof -
  from assms(3) obtain x where x: "answered_by c b v' x" "or_Operation x = operation_of a"
    by (auto simp: reply_stored_def)
  have "validateOperationRecord x = None"
    using run_lc_tables [OF assms(1,2)] x(1) by (auto simp: tables_ok_def answered_by_def)
  from record_operation [OF this] have valid: "Operation_Validate (operation_of a) = None" using x(2) by simp
  have "Operation_Binding (operation_of a) = b" using x by (simp add: answered_by_def)
  then show ?thesis
    using valid failure_named [OF valid] by (simp add: answers_def binding_id)
qed

text \<open>C18. A call that is answered returns a valid operation with the binding that the request has. The
  error that comes with the answer is absent unless the operation failed, and then it is the failure of
  this operation with its recorded reason, which is never the empty one.\<close>

theorem answers_well_formed:
  assumes "store_reachable s"
  shows "(case sandbox_call c s now k1 k2 sq of
      (s', Inl e) \<Rightarrow> s' = s
    | (s', Inr (a, err)) \<Rightarrow> \<exists>b. sandbox_request_binding sq = Inr b \<and> answers b (xr_Operation a) err)
    \<and> (case container_call c s now k1 k2 cq of
      (s', Inl e) \<Rightarrow> s' = s
    | (s', Inr (a, err)) \<Rightarrow> \<exists>b. container_request_binding cq = Inr b \<and> answers b (yr_Operation a) err)
    \<and> (case kill_call c s now k1 k2 kq of
      (s', Inl e) \<Rightarrow> s' = s
    | (s', Inr (a, err)) \<Rightarrow> \<exists>b. kill_request_binding kq = Inr b \<and> answers b (kl_Operation a) err)"
proof (intro conjI)
  note start = reachable_keyed [OF assms] reachable_cloned [OF assms]
  show "case sandbox_call c s now k1 k2 sq of
      (s', Inl e) \<Rightarrow> s' = s
    | (s', Inr (a, err)) \<Rightarrow> \<exists>b. sandbox_request_binding sq = Inr b \<and> answers b (xr_Operation a) err"
  proof (cases "submit s k1 k2 (sandbox_command c now sq)")
    case (Pair s' r)
    from Pair assms show ?thesis
    proof (cases rule: submit_cases)
      case (committed a p v' ch)
      obtain b where b: "sandbox_request_binding sq = Inr b"
        and "sandbox_step c b (sandbox_request_target sq) (sandbox_edge sq) (view_of s) v' a"
        by (rule sandbox_command_step [OF committed(2,3) start])
      then have "sandbox_stored c b v' a" by (simp add: sandbox_step_def)
      then have "answers b (xr_Operation a) (replayedOperationError (xr_Operation a))"
        by (rule stored_answers [OF assms committed(3)])
      then show ?thesis using Pair committed(1) b by (simp add: sandbox_call_def finishSandboxResult_def finished_def)
    qed (use Pair in \<open>simp add: sandbox_call_def finishSandboxResult_def finished_def\<close>)
  qed
  show "case container_call c s now k1 k2 cq of
      (s', Inl e) \<Rightarrow> s' = s
    | (s', Inr (a, err)) \<Rightarrow> \<exists>b. container_request_binding cq = Inr b \<and> answers b (yr_Operation a) err"
  proof (cases "submit s k1 k2 (container_command c now cq)")
    case (Pair s' r)
    from Pair assms show ?thesis
    proof (cases rule: submit_cases)
      case (committed a p v' ch)
      obtain b where b: "container_request_binding cq = Inr b" and "container_step c b cq (view_of s) v' a"
        by (rule container_command_step [OF committed(2,3) start])
      then have "container_stored c b v' a" by (simp add: container_step_def)
      then have "answers b (yr_Operation a) (replayedOperationError (yr_Operation a))"
        by (rule stored_answers [OF assms committed(3)])
      then show ?thesis using Pair committed(1) b by (simp add: container_call_def finishContainerResult_def finished_def)
    qed (use Pair in \<open>simp add: container_call_def finishContainerResult_def finished_def\<close>)
  qed
  show "case kill_call c s now k1 k2 kq of
      (s', Inl e) \<Rightarrow> s' = s
    | (s', Inr (a, err)) \<Rightarrow> \<exists>b. kill_request_binding kq = Inr b \<and> answers b (kl_Operation a) err"
  proof (cases "submit s k1 k2 (kill_command c now kq)")
    case (Pair s' r)
    from Pair assms show ?thesis
    proof (cases rule: submit_cases)
      case (committed a p v' ch)
      obtain b where b: "kill_request_binding kq = Inr b" and "kill_stored c b v' a"
        by (rule kill_command_step [OF committed(2,3) start])
      then have "answers b (kl_Operation a) (replayedOperationError (kl_Operation a))"
        by (intro stored_answers [OF assms committed(3)])
      then show ?thesis using Pair committed(1) b by (simp add: kill_call_def finishKillResult_def finished_def)
    qed (use Pair in \<open>simp add: kill_call_def finishKillResult_def finished_def\<close>)
  qed
qed

theorem answers_well_formed_witness:
  "\<exists>b. sandbox_request_binding (SandboxConfirmCreate (demo_confirm VerificationSandboxReady)) = Inr b
     \<and> answers b (xr_Operation demo_result) None"
  using answers_well_formed [OF demo_reach, where c = demo_coordinator and now = demo_time
      and ?k1.0 = False and ?k2.0 = False and sq = "SandboxConfirmCreate (demo_confirm VerificationSandboxReady)"]
  by (simp add: demo_confirm_call)

subsection \<open>Replies\<close>



end
