(* ===== verification/File_Payload.thy ===== *)
theory File_Payload
  imports State_Store
begin

text \<open>
  \<open>internal/state/file.go\<close>, the content of the durable state file: the envelope with its schema and
  checksum, the payload that lists a whole store in a fixed order, and the strict reconstruction of a
  store from a payload, with the migration of the two older schemas.

  The bytes are those of \<open>encoding/json\<close>. They are not spelled out for the records of the store; what
  encodes and decodes them is the argument \<open>codec\<close>.
\<close>

subsection \<open>Envelope and payload\<close>

definition legacyEventSchemaVersionV1 :: u32 where "legacyEventSchemaVersionV1 = 1"
definition fileSchemaVersionV1 :: u32 where "fileSchemaVersionV1 = 1"
definition fileSchemaVersionV2 :: u32 where "fileSchemaVersionV2 = 2"
definition fileSchemaVersionV3 :: u32 where "fileSchemaVersionV3 = 3"
definition currentFileSchemaVersion :: u32 where "currentFileSchemaVersion = fileSchemaVersionV3"
definition MaxEnvelopeBytes :: int where "MaxEnvelopeBytes = 64 * 2 ^ 20"

lemmas schema_versions = legacyEventSchemaVersionV1_def fileSchemaVersionV1_def fileSchemaVersionV2_def
  fileSchemaVersionV3_def currentFileSchemaVersion_def

record file_payload =
  pl_Sandboxes :: "sandbox_record slice"
  pl_ContainerAttempts :: "container_record slice"
  pl_Operations :: "operation_record slice"
  pl_Events :: "event slice"
  pl_LastEvent :: u64
  pl_FirstEvent :: u64
  pl_Terminal :: "(operation_id \<times> u64) list"
  pl_LastTerminal :: u64
  pl_Retired :: "retired_operation list"

record file_envelope =
  en_SchemaVersion :: u32
  en_Payload :: "file_payload option"
  en_PayloadSHA256 :: string

text \<open>\<open>json.Marshal\<close> of a payload and of an envelope, and \<open>strictjson.Decode\<close> into an envelope.\<close>

record codec =
  cd_payload :: "file_payload \<Rightarrow> string option"
  cd_envelope :: "file_envelope \<Rightarrow> string option"
  cd_decode :: "string \<Rightarrow> file_envelope option"

subsection \<open>Writing\<close>

text \<open>Every table in the order of its keys, so that a store has one payload.\<close>

definition in_key_order :: "('k::linorder, 'v) table \<Rightarrow> ('k, 'v) table" where
  "in_key_order t = sort_key fst t"

definition filePayloadFromMemory :: "memory_data \<Rightarrow> file_payload" where
  "filePayloadFromMemory d =
    \<lparr>pl_Sandboxes = Some (map snd (in_key_order (md_sandboxes d))),
     pl_ContainerAttempts = Some (map snd (in_key_order (md_containers d))),
     pl_Operations = Some (map (OperationRecord_Clone \<circ> snd) (in_key_order (md_operations d))),
     pl_Events = Some (md_events d), pl_LastEvent = md_lastEvent d, pl_FirstEvent = md_firstEvent d,
     pl_Terminal = in_key_order (md_terminal d), pl_LastTerminal = md_lastTerminal d,
     pl_Retired = map snd (in_key_order (md_retired d))\<rparr>"

definition filePayloadDigest :: "codec \<Rightarrow> file_payload \<Rightarrow> st_error + string" where
  "filePayloadDigest c p =
    (case cd_payload c p of None \<Rightarrow> Inl ErrInvalidRecord | Some s \<Rightarrow> Inr (hex_EncodeToString (Sum256 s)))"

definition encodeFileData :: "codec \<Rightarrow> memory_data \<Rightarrow> st_error + string" where
  "encodeFileData c d =
    (let p = filePayloadFromMemory d in
     bind_res (filePayloadDigest c p) (\<lambda>digest.
       case cd_envelope c \<lparr>en_SchemaVersion = currentFileSchemaVersion, en_Payload = Some p, en_PayloadSHA256 = digest\<rparr> of
         None \<Rightarrow> Inl ErrInvalidRecord
       | Some s \<Rightarrow>
         let encoded = s @ [CHR 0x0A]
         in require (reject (MaxEnvelopeBytes < int (length encoded)) ErrRetentionCapacity) (Inr encoded)))"

subsection \<open>Reading an envelope\<close>

definition known_schema :: "u32 \<Rightarrow> bool" where
  "known_schema v \<longleftrightarrow> v = fileSchemaVersionV1 \<or> v = fileSchemaVersionV2 \<or> v = fileSchemaVersionV3"

definition decodeFileEnvelope :: "codec \<Rightarrow> string \<Rightarrow> st_error + u32 \<times> file_payload" where
  "decodeFileEnvelope c encoded =
    (case cd_decode c encoded of
       None \<Rightarrow> Inl ErrInvalidRecord
     | Some e \<Rightarrow>
       require (reject (\<not> known_schema (en_SchemaVersion e)) ErrUnsupportedSchema)
        (case en_Payload e of
           None \<Rightarrow> Inl ErrInvalidRecord
         | Some p \<Rightarrow>
           bind_res (filePayloadDigest c p) (\<lambda>digest.
             require (reject (en_PayloadSHA256 e \<noteq> digest) ErrInvalidRecord)
               (Inr (en_SchemaVersion e, p)))))"

subsection \<open>Rebuilding the tables\<close>

text \<open>Each loop adds its records to a table and refuses a second one with the same identity.\<close>

fun load_sandboxes :: "(sandbox_id, sandbox_record) table \<Rightarrow> sandbox_record list
    \<Rightarrow> st_error + (sandbox_id, sandbox_record) table" where
  "load_sandboxes t [] = Inr t"
| "load_sandboxes t (r # rs) =
    (let i = sb_ID (sr_Sandbox r) in
     require (first_err
       [reject (sr_Revision r = 0) ErrInvalidRecord,
        validateSandboxRecord r,
        reject (map_of t i \<noteq> None) ErrInvalidRecord])
      (load_sandboxes (AList.update i r t) rs))"

fun load_containers :: "attempt_id list \<Rightarrow> (container_id, container_record) table \<Rightarrow> container_record list
    \<Rightarrow> st_error + (container_id, container_record) table" where
  "load_containers seen t [] = Inr t"
| "load_containers seen t (r # rs) =
    (let i = co_ID (ca_Container (cr_ContainerAttempt r)); a = at_ID (ca_Attempt (cr_ContainerAttempt r)) in
     require (first_err
       [reject (cr_Revision r = 0) ErrInvalidRecord,
        validateContainerAttemptRecord r,
        reject (map_of t i \<noteq> None) ErrInvalidRecord,
        reject (a \<in> set seen) ErrInvalidRecord])
      (load_containers (a # seen) (AList.update i r t) rs))"

fun load_operations :: "(operation_id, operation_record) table \<Rightarrow> operation_record list
    \<Rightarrow> st_error + (operation_id, operation_record) table" where
  "load_operations t [] = Inr t"
| "load_operations t (r # rs) =
    (let i = op_ID (or_Operation r) in
     require (first_err
       [reject (or_Revision r = 0) ErrInvalidRecord,
        validateOperationRecord r,
        reject (map_of t i \<noteq> None) ErrInvalidRecord])
      (load_operations (AList.update i (OperationRecord_Clone r) t) rs))"

fun active_owners :: "target list \<Rightarrow> (operation_id \<times> operation_record) list \<Rightarrow> st_error option" where
  "active_owners seen [] = None"
| "active_owners seen ((i, r) # rs) =
    (if \<not> State_Active (op_State (or_Operation r)) then active_owners seen rs
     else if op_Target (or_Operation r) \<in> set seen then Some ErrInvariantViolation
     else active_owners (op_Target (or_Operation r) # seen) rs)"

definition validateLoadedActiveOperations :: "(operation_id, operation_record) table \<Rightarrow> st_error option" where
  "validateLoadedActiveOperations t = active_owners [] t"

fun load_terminal :: "(operation_id, operation_record) table \<Rightarrow> (operation_id, u64) table
    \<Rightarrow> (operation_id \<times> u64) list \<Rightarrow> st_error + (operation_id, u64) table" where
  "load_terminal ops t [] = Inr t"
| "load_terminal ops t ((i, n) # es) =
    require (first_err
      [reject (i = [] \<or> n = 0) ErrInvalidRecord,
       reject (map_of t i \<noteq> None) ErrInvalidRecord,
       (case map_of ops i of
          None \<Rightarrow> Some ErrInvalidRecord
        | Some r \<Rightarrow> reject (\<not> State_Terminal (op_State (or_Operation r))) ErrInvalidRecord)])
     (load_terminal ops (AList.update i n t) es)"

fun load_retired :: "(string, retired_operation) table \<Rightarrow> retired_operation list
    \<Rightarrow> st_error + (string, retired_operation) table" where
  "load_retired t [] = Inr t"
| "load_retired t (r # rs) =
    require (first_err
      [retired_validate r, reject (map_of t (re_OperationIDSHA256 r) \<noteq> None) ErrInvalidRecord])
     (load_retired (AList.update (re_OperationIDSHA256 r) r t) rs)"

text \<open>The retention metadata; the first schema has none.\<close>

definition no_retention :: "file_payload \<Rightarrow> bool" where
  "no_retention p \<longleftrightarrow> pl_FirstEvent p = 0 \<and> pl_Terminal p = [] \<and> pl_LastTerminal p = 0 \<and> pl_Retired p = []"

definition load_retention :: "file_payload \<Rightarrow> u32 \<Rightarrow> memory_data \<Rightarrow> st_error + memory_data" where
  "load_retention p schema d =
    (if schema = fileSchemaVersionV1 then require (reject (\<not> no_retention p) ErrInvalidRecord) (Inr d)
     else require (reject (pl_FirstEvent p = 0) ErrInvalidRecord)
      (bind_res (load_terminal (md_operations d) [] (pl_Terminal p)) (\<lambda>terminal.
       bind_res (load_retired [] (pl_Retired p)) (\<lambda>retired.
        require (reject (list_ex (\<lambda>(i, _). map_of retired (operationIDDigest i) \<noteq> None) (md_operations d))
            ErrInvalidRecord)
         (Inr (d\<lparr>md_firstEvent := pl_FirstEvent p, md_lastTerminal := pl_LastTerminal p,
               md_terminal := terminal, md_retired := retired\<rparr>))))))"

subsection \<open>Events\<close>

text \<open>The older schemas wrote a zero where a duration was unknown.\<close>

definition migrate_event :: "u32 \<Rightarrow> event \<Rightarrow> st_error + event" where
  "migrate_event schema e =
    (if schema = fileSchemaVersionV1 \<or> schema = fileSchemaVersionV2
     then require (reject (ev_SchemaVersion e \<noteq> legacyEventSchemaVersionV1) ErrUnsupportedSchema)
      (Inr (e\<lparr>ev_SchemaVersion := EventSchemaVersion,
              ev_Duration := (if ev_Duration e = Some 0 then None else ev_Duration e)\<rparr>))
     else require (reject (ev_SchemaVersion e \<noteq> EventSchemaVersion) ErrUnsupportedSchema) (Inr e))"

fun migrateFileEvents :: "u32 \<Rightarrow> event list \<Rightarrow> st_error + event list" where
  "migrateFileEvents schema [] = Inr []"
| "migrateFileEvents schema (e # es) =
    bind_res (migrate_event schema e) (\<lambda>e'. bind_res (migrateFileEvents schema es) (\<lambda>es'. Inr (e' # es')))"

record generation_state =
  gs_Generation :: u64
  gs_ObservedGeneration :: u64
  gs_Deleted :: bool

definition isSuccessfulDeleteEvent :: "event \<Rightarrow> bool" where
  "isSuccessfulDeleteEvent e \<longleftrightarrow>
     ev_Type e = TypeDelete \<and> ev_Stage e = StageComplete
     \<and> (ev_Result e = ResultSucceeded \<or> ev_Result e = ResultNoop)"

definition generation_state_of :: "event \<Rightarrow> generation_state" where
  "generation_state_of e =
    \<lparr>gs_Generation = ev_Generation e, gs_ObservedGeneration = ev_ObservedGeneration e,
     gs_Deleted = isSuccessfulDeleteEvent e\<rparr>"

definition validateHistoricalEventGeneration ::
    "event \<Rightarrow> (target \<Rightarrow> generation_state option) \<Rightarrow> st_error + (target \<Rightarrow> generation_state option)" where
  "validateHistoricalEventGeneration e states =
    (let known = Inr (states(ev_Target e \<mapsto> generation_state_of e)) in
     case states (ev_Target e) of
       None \<Rightarrow> known
     | Some previous \<Rightarrow>
       if gs_Deleted previous
       then require (reject (ev_Type e \<noteq> TypeDelete \<and> ev_Type e \<noteq> TypeCreate) ErrInvalidRecord) known
       else require (reject (ev_Generation e < gs_Generation previous
           \<or> ev_ObservedGeneration e < gs_ObservedGeneration previous) ErrInvalidRecord) known)"

definition loaded_event_error :: "memory_data \<Rightarrow> u64 \<Rightarrow> event option \<Rightarrow> event \<Rightarrow> st_error option" where
  "loaded_event_error d first previous e =
    first_err
     [validateEvent e,
      (case previous of
         None \<Rightarrow> reject (ev_Sequence e \<noteq> first) ErrInvalidRecord
       | Some p \<Rightarrow> reject (Event_ValidateAfter e p \<noteq> None) ErrInvalidRecord),
      (case map_of (md_operations d) (ev_OperationID e) of
         Some r \<Rightarrow> reject (ev_Type e \<noteq> op_Type (or_Operation r) \<or> ev_Target e \<noteq> op_Target (or_Operation r)) ErrInvalidRecord
       | None \<Rightarrow>
         (case retiredOperationFor d (ev_OperationID e) of
            None \<Rightarrow> Some ErrInvalidRecord
          | Some r \<Rightarrow> reject (ev_Type e \<noteq> re_Type r \<or> ev_Target e \<noteq> re_Target r) ErrInvalidRecord))]"

fun load_events :: "memory_data \<Rightarrow> u64 \<Rightarrow> event option \<Rightarrow> (target \<Rightarrow> generation_state option) \<Rightarrow> event list
    \<Rightarrow> st_error option" where
  "load_events d first previous states [] = None"
| "load_events d first previous states (e # es) =
    (case loaded_event_error d first previous e of
       Some er \<Rightarrow> Some er
     | None \<Rightarrow>
       (case validateHistoricalEventGeneration e states of
          Inl er \<Rightarrow> Some er
        | Inr states' \<Rightarrow> load_events d first (Some e) states' es))"

text \<open>What the end of the event log has to agree with.\<close>

definition event_tail_error :: "u32 \<Rightarrow> u64 \<Rightarrow> memory_data \<Rightarrow> st_error option" where
  "event_tail_error schema last_sequence d =
    (if md_events d = []
     then first_err
      [reject (schema = fileSchemaVersionV1 \<and> last_sequence \<noteq> 0) ErrInvalidRecord,
       reject (schema \<noteq> fileSchemaVersionV1 \<and> md_firstEvent d \<noteq> nextAvailableEventSequence d) ErrInvalidRecord]
     else reject (last_sequence \<noteq> ev_Sequence (last (md_events d))) ErrInvalidRecord)"

definition load_first_schema :: "u32 \<Rightarrow> memory_data \<Rightarrow> st_error + memory_data" where
  "load_first_schema schema d =
    (if schema = fileSchemaVersionV1
     then bind_res (assignTerminalSequences (d\<lparr>md_firstEvent := nextAvailableEventSequence d\<rparr>)) (\<lambda>(d', _). Inr d')
     else Inr d)"

subsection \<open>Rebuilding a store\<close>

definition memoryDataFromPayload :: "file_payload \<Rightarrow> u32 \<Rightarrow> st_error + memory_data" where
  "memoryDataFromPayload p schema =
    require (first_err
      [reject (pl_Sandboxes p = None \<or> pl_ContainerAttempts p = None \<or> pl_Operations p = None \<or> pl_Events p = None)
         ErrInvalidRecord,
       reject (\<not> known_schema schema) ErrUnsupportedSchema])
    (bind_res (load_sandboxes [] (elems (pl_Sandboxes p))) (\<lambda>sandboxes.
     bind_res (load_containers [] [] (elems (pl_ContainerAttempts p))) (\<lambda>containers.
     bind_res (load_operations [] (elems (pl_Operations p))) (\<lambda>operations.
     require (validateLoadedActiveOperations operations)
     (bind_res (load_retention p schema (newMemoryData\<lparr>md_sandboxes := sandboxes, md_containers := containers,
        md_operations := operations\<rparr>)) (\<lambda>d.
      bind_res (migrateFileEvents schema (elems (pl_Events p))) (\<lambda>events.
      require (load_events d (if schema = fileSchemaVersionV1 then 1 else pl_FirstEvent p) None (\<lambda>_. None) events)
      (let d1 = d\<lparr>md_events := events, md_lastEvent := pl_LastEvent p\<rparr> in
       require (event_tail_error schema (pl_LastEvent p) d1)
       (bind_res (load_first_schema schema d1) (\<lambda>d2.
        require (data_validate d2) (Inr d2)))))))))))"

end
