(* ===== verification/File_Restart.thy ===== *)
theory File_Restart
  imports File_Payload State_Settled "HOL-Library.Multiset"
begin

text \<open>
  What a restart makes of a committed store: its payload is rebuilt into a store with the same tables,
  exactly if the generations in its retained events never go back within an incarnation of a target.
\<close>

subsection \<open>Tables in key order\<close>

lemma in_key_order_set [simp]: "set (in_key_order t) = set t" "mset (in_key_order t) = mset t"
  "length (in_key_order t) = length t" "in_key_order t = [] \<longleftrightarrow> t = []"
proof -
  show m: "mset (in_key_order t) = mset t" by (simp add: in_key_order_def)
  show "set (in_key_order t) = set t" using mset_eq_setD [OF m] .
  show l: "length (in_key_order t) = length t" using mset_eq_length [OF m] .
  show "in_key_order t = [] \<longleftrightarrow> t = []" using l by (metis length_0_conv)
qed

lemma in_key_order_distinct: "distinct (map f (in_key_order t)) \<longleftrightarrow> distinct (map f t)"
  by (rule mset_eq_imp_distinct_iff) simp

lemma in_key_order_wf [simp]: "wf_table (in_key_order t) = wf_table t"
  by (simp add: wf_table_def in_key_order_distinct)

lemma in_key_order_map_of: "wf_table t \<Longrightarrow> map_of (in_key_order t) = map_of t"
proof
  fix k assume wf: "wf_table t"
  then have "map_of (in_key_order t) k = Some v \<longleftrightarrow> map_of t k = Some v" for v
    using wf_table_set_iff [of "in_key_order t" k v] wf_table_set_iff [of t k v] by simp
  then show "map_of (in_key_order t) k = map_of t k" by (metis option.exhaust)
qed

lemma update_absent: "map_of t k = None \<Longrightarrow> AList.update k v t = t @ [(k, v)]"
  by (induction t) auto

lemma keyed_entries: "\<forall>(k, r) \<in> set t. f r = k \<Longrightarrow> map (\<lambda>r. (f r, r)) (map snd t) = t"
  by (induction t) auto

definition ordered_data :: "memory_data \<Rightarrow> memory_data" where
  "ordered_data d = d\<lparr>md_sandboxes := in_key_order (md_sandboxes d), md_containers := in_key_order (md_containers d),
     md_operations := in_key_order (md_operations d), md_terminal := in_key_order (md_terminal d),
     md_retired := in_key_order (md_retired d)\<rparr>"

subsection \<open>The check on the whole store does not depend on the order of its tables\<close>

lemma seen_orders_Inr:
  "seen_orders seen ts = Inr out \<longleftrightarrow>
     distinct (map snd ts) \<and> snd ` set ts \<inter> set seen = {} \<and> out = rev (map snd ts) @ seen"
  by (induction seen ts rule: seen_orders.induct) auto

definition retired_entry_ok :: "memory_data \<Rightarrow> string \<times> retired_operation \<Rightarrow> bool" where
  "retired_entry_ok d = (\<lambda>(digest, r). digest = re_OperationIDSHA256 r \<and> retired_validate r = None
     \<and> re_TerminalSequence r \<le> md_lastTerminal d \<and> re_TerminalEventSequence r \<le> md_lastEvent d)"

abbreviation retired_order :: "string \<times> retired_operation \<Rightarrow> u64" where
  "retired_order e \<equiv> re_TerminalSequence (snd e)"

lemma retired_orders_Inr:
  "retired_orders d seen rs = Inr out \<longleftrightarrow>
     (\<forall>e \<in> set rs. retired_entry_ok d e) \<and> distinct (map retired_order rs)
     \<and> retired_order ` set rs \<inter> set seen = {} \<and> out = rev (map retired_order rs) @ seen"
proof (induction rs arbitrary: seen)
  case (Cons e rs)
  obtain digest r where "e = (digest, r)" by (cases e)
  then show ?case using Cons by (auto simp: retired_entry_ok_def not_less)
qed auto

lemma greatest_order: "foldr max xs (0 :: u64) = Max (insert 0 (set xs))"
  by (induction xs) (auto simp: max.commute insert_commute Max_insert)

lemma terminal_order_error_None:
  "terminal_order_error d = None \<longleftrightarrow>
     distinct (map snd (md_terminal d)) \<and> (\<forall>e \<in> set (md_retired d). retired_entry_ok d e)
     \<and> distinct (map retired_order (md_retired d))
     \<and> retired_order ` set (md_retired d) \<inter> snd ` set (md_terminal d) = {}
     \<and> Max (insert 0 (retired_order ` set (md_retired d) \<union> snd ` set (md_terminal d))) = md_lastTerminal d
     \<and> of_nat (length (md_retired d) + length (md_terminal d)) = md_lastTerminal d"
proof -
  let ?walk = "bind_res (seen_orders [] (md_terminal d)) (\<lambda>seen. retired_orders d seen (md_retired d))"
  have walked: "?walk = Inr out \<longleftrightarrow>
      distinct (map snd (md_terminal d)) \<and> (\<forall>e \<in> set (md_retired d). retired_entry_ok d e)
      \<and> distinct (map retired_order (md_retired d))
      \<and> retired_order ` set (md_retired d) \<inter> snd ` set (md_terminal d) = {}
      \<and> out = rev (map retired_order (md_retired d)) @ rev (map snd (md_terminal d))" for out
    by (auto simp: seen_orders_Inr retired_orders_Inr)
  show ?thesis
  proof (cases ?walk)
    case (Inl e)
    then have "terminal_order_error d = Some e" by (simp add: terminal_order_error_def)
    moreover have "\<not> (distinct (map snd (md_terminal d)) \<and> (\<forall>e \<in> set (md_retired d). retired_entry_ok d e)
      \<and> distinct (map retired_order (md_retired d))
      \<and> retired_order ` set (md_retired d) \<inter> snd ` set (md_terminal d) = {})"
      using walked [of "rev (map retired_order (md_retired d)) @ rev (map snd (md_terminal d))"] unfolding Inl by simp
    ultimately show ?thesis by auto
  next
    case (Inr seen)
    then have "terminal_order_error d = first_err [reject (Max (insert 0 (set seen)) \<noteq> md_lastTerminal d) ErrInvariantViolation,
        reject (of_nat (length seen) \<noteq> md_lastTerminal d) ErrInvariantViolation]"
      unfolding terminal_order_error_def by (simp add: greatest_order del: bind_res_Inr)
    moreover have "distinct (map snd (md_terminal d)) \<and> (\<forall>e \<in> set (md_retired d). retired_entry_ok d e)
      \<and> distinct (map retired_order (md_retired d))
      \<and> retired_order ` set (md_retired d) \<inter> snd ` set (md_terminal d) = {}
      \<and> seen = rev (map retired_order (md_retired d)) @ rev (map snd (md_terminal d))"
      using walked [of seen] unfolding Inr by simp
    ultimately show ?thesis by (simp add: image_Un)
  qed
qed

lemma ordered_data_terminal_order: "terminal_order_error (ordered_data d) = None \<longleftrightarrow> terminal_order_error d = None"
  by (simp add: terminal_order_error_None ordered_data_def in_key_order_distinct retired_entry_ok_def)

definition same_tables :: "memory_data \<Rightarrow> memory_data \<Rightarrow> bool" where
  "same_tables d d' \<longleftrightarrow>
     md_events d' = md_events d \<and> md_lastEvent d' = md_lastEvent d \<and> md_firstEvent d' = md_firstEvent d
     \<and> map_of (md_sandboxes d') = map_of (md_sandboxes d) \<and> map_of (md_containers d') = map_of (md_containers d)
     \<and> map_of (md_operations d') = map_of (md_operations d) \<and> map_of (md_terminal d') = map_of (md_terminal d)
     \<and> map_of (md_retired d') = map_of (md_retired d)
     \<and> set (md_operations d') = set (md_operations d) \<and> set (md_sandboxes d') = set (md_sandboxes d)
     \<and> mset (md_containers d') = mset (md_containers d)"

lemma same_containers: "same_tables d d' \<Longrightarrow> set (md_containers d') = set (md_containers d)"
  by (auto simp: same_tables_def dest: mset_eq_setD)

lemma records_checked:
  assumes same: "same_tables d d'"
  shows "suffix_error d' = suffix_error d" "event_binding_error d' = event_binding_error d"
  "terminal_error d' = terminal_error d" "sandbox_commit_error d' = sandbox_commit_error d"
  "container_commit_error d' = container_commit_error d" "current_pair_error d' = current_pair_error d"
  "active_pair_error d' = active_pair_error d"
proof -
  have l: "md_events d' = md_events d" "md_lastEvent d' = md_lastEvent d" "md_firstEvent d' = md_firstEvent d"
    "map_of (md_sandboxes d') = map_of (md_sandboxes d)" "map_of (md_containers d') = map_of (md_containers d)"
    "map_of (md_operations d') = map_of (md_operations d)" "map_of (md_terminal d') = map_of (md_terminal d)"
    "map_of (md_retired d') = map_of (md_retired d)"
    using same by (simp_all add: same_tables_def)
  have r: "retiredOperationFor d' = retiredOperationFor d"
    by (rule ext) (simp only: retiredOperationFor_def l)
  have "eventsBySequence d' = eventsBySequence d" by (simp only: eventsBySequence_def l)
  moreover have "compacted_error d' = compacted_error d"
    by (intro ext) (unfold compacted_error_def l r, rule refl)
  ultimately have o: "validateObservationReference d' = validateObservationReference d"
    "validateCurrentObservationGeneration d' = validateCurrentObservationGeneration d"
    by (intro ext, simp only: validateObservationReference_def validateCurrentObservationGeneration_def)+
  show "suffix_error d' = suffix_error d" unfolding suffix_error_def l ..
  show "event_binding_error d' = event_binding_error d"
    by (rule ext) (unfold event_binding_error_def l r, rule refl)
  show "terminal_error d' = terminal_error d" unfolding terminal_error_def l ..
  show "sandbox_commit_error d' = sandbox_commit_error d" unfolding sandbox_commit_error_def o ..
  show "container_commit_error d' = container_commit_error d" unfolding container_commit_error_def l o ..
  show "current_pair_error d' = current_pair_error d" unfolding current_pair_error_def l ..
  show "active_pair_error d' = active_pair_error d" unfolding active_pair_error_def l ..
qed

text \<open>Only the lookup by Attempt walks a table; it is unambiguous once the Attempts are told apart.\<close>

lemma find_unique:
  assumes "distinct (map f xs)" and "set ys = set xs"
  shows "find (\<lambda>x. f x = a) ys = find (\<lambda>x. f x = a) xs"
proof (cases "find (\<lambda>x. f x = a) xs")
  case None
  then have "find (\<lambda>x. f x = a) ys = None"
    using assms(2) by (intro iffD2 [OF find_None_iff]) (simp add: find_None_iff)
  then show ?thesis using None by simp
next
  case (Some x)
  then have x: "x \<in> set xs" "f x = a" by (auto simp: find_Some_iff)
  then have "find (\<lambda>x. f x = a) ys \<noteq> None" using assms(2) by (auto simp: find_None_iff)
  then obtain y where y: "find (\<lambda>x. f x = a) ys = Some y" by blast
  then have "y \<in> set xs" "f y = a" using assms(2) by (auto simp: find_Some_iff)
  then have "y = x" using x assms(1) by (metis distinct_map inj_onD)
  then show ?thesis using Some y by simp
qed

definition container_attempt_id :: "container_id \<times> container_record \<Rightarrow> attempt_id" where
  "container_attempt_id = (\<lambda>(_, r). at_ID (ca_Attempt (cr_ContainerAttempt r)))"

lemma store_pairs_attempts: "map (at_ID \<circ> ca_Attempt) (store_pairs d) = map container_attempt_id (md_containers d)"
  by (simp add: store_pairs_def container_attempt_id_def comp_def case_prod_beta')

lemma one_active_same:
  assumes "same_tables d d'"
  shows "one_active (store_pairs d') \<longleftrightarrow> one_active (store_pairs d)"
proof -
  have pairs: "mset (store_pairs d') = mset (store_pairs d)"
    using assms by (simp add: store_pairs_def same_tables_def)
  have dist: "distinct (map f (store_pairs d')) = distinct (map f (store_pairs d))" for f :: "container_attempt \<Rightarrow> string"
    by (rule mset_eq_imp_distinct_iff) (simp add: pairs)
  have "distinct (map f (filter P (store_pairs d'))) = distinct (map f (filter P (store_pairs d)))"
    for f :: "container_attempt \<Rightarrow> string" and P
    by (rule mset_eq_imp_distinct_iff) (simp add: pairs)
  then show ?thesis
    by (simp add: one_active_def dist mset_eq_setD [OF pairs])
qed

lemma ownership_same:
  assumes same: "same_tables d d'" and "one_active (store_pairs d)"
  shows "validateOwnershipGraph d' = None \<longleftrightarrow> validateOwnershipGraph d = None"
proof -
  have "distinct (map container_attempt_id (md_containers d))"
    using assms(2) by (simp add: one_active_def flip: store_pairs_attempts)
  then have "find (\<lambda>e. container_attempt_id e = a) (md_containers d')
      = find (\<lambda>e. container_attempt_id e = a) (md_containers d)" for a
    by (rule find_unique) (rule same_containers [OF same])
  then have inventory: "inventoryForTarget d' = inventoryForTarget d"
    by (intro ext) (use same in \<open>simp add: inventoryForTarget_def same_tables_def container_attempt_id_def case_prod_beta'
        split: target_kind.split\<close>)
  have complete: "createHasCompleteVerifiedRelease d' = createHasCompleteVerifiedRelease d"
    by (intro ext) (use same in \<open>simp add: createHasCompleteVerifiedRelease_def list_ex_iff same_tables_def\<close>)
  then have released: "hasVerifiedRelease d' = hasVerifiedRelease d"
    by (intro ext) (use same in \<open>simp add: hasVerifiedRelease_def list_ex_iff same_tables_def\<close>)
  have "validateInventoryProvenance d' = validateInventoryProvenance d"
    by (intro ext) (use same in \<open>simp add: validateInventoryProvenance_def same_tables_def cong: option.case_cong\<close>)
  moreover have "adopted_receipt_error d' = adopted_receipt_error d"
    by (intro ext) (use same in \<open>simp add: adopted_receipt_error_def inventory released cong: option.case_cong\<close>)
  moreover have "create_inventory_error d' = create_inventory_error d"
    by (intro ext) (use same in \<open>simp add: create_inventory_error_def inventory complete cong: option.case_cong\<close>)
  ultimately show ?thesis
    using same by (simp add: validateOwnershipGraph_def first_err_map_None same_tables_def same_containers [OF same] case_prod_beta')
qed

lemma validate_same:
  assumes same: "same_tables d d'" and "data_validate d = None" and "terminal_order_error d' = None"
  shows "data_validate d' = None"
proof -
  have one: "one_active (store_pairs d)"
    using assms(2) by (simp add: data_validate_def ValidateOneActiveAttempt_None)
  have sets: "md_events d' = md_events d" "set (md_operations d') = set (md_operations d)"
    "set (md_sandboxes d') = set (md_sandboxes d)"
    using same by (simp_all add: same_tables_def)
  show ?thesis
    using assms ownership_same [OF same one] one_active_same [OF same]
    by (simp add: data_validate_def ValidateOneActiveAttempt_None records_checked [OF same] first_err_map_None
        sets same_containers [OF same])
qed

lemma ordered_data_same:
  assumes "wf_table (md_sandboxes d)" "wf_table (md_containers d)" "wf_table (md_operations d)"
    "wf_table (md_terminal d)" "wf_table (md_retired d)"
  shows "same_tables d (ordered_data d)"
  using assms by (simp add: same_tables_def ordered_data_def in_key_order_map_of)


subsection \<open>What else holds of every reachable store\<close>

definition written_ok :: "memory_data \<Rightarrow> bool" where
  "written_ok d \<longleftrightarrow>
     (\<forall>i r. map_of (md_sandboxes d) i = Some r \<longrightarrow> sr_Revision r \<noteq> 0)
     \<and> (\<forall>i r. map_of (md_containers d) i = Some r \<longrightarrow> cr_Revision r \<noteq> 0)
     \<and> (\<forall>i r. map_of (md_operations d) i = Some r \<longrightarrow> or_Revision r \<noteq> 0)
     \<and> wf_table (md_retired d)"

lemma nextRevision_nonzero: "nextRevision e c b = Inr n \<Longrightarrow> n \<noteq> 0"
  by (auto simp: nextRevision_Inr add_eq_0_iff2 split: if_splits)

interpretation written: data_invariant written_ok
proof unfold_locales
  fix v s e v' s' assume ok: "written_ok (mv_data v)" and put: "PutSandbox v s e = Inr (v', s')"
  from put have "sr_Revision s' \<noteq> 0"
    unfolding PutSandbox_Inr Let_def by (metis nextRevision_nonzero)
  with ok put show "written_ok (mv_data v')" by (auto simp: PutSandbox_Inr Let_def written_ok_def)
next
  fix v c e v' c' assume ok: "written_ok (mv_data v)" and put: "PutContainerAttempt v c e = Inr (v', c')"
  from put have "cr_Revision c' \<noteq> 0"
    unfolding PutContainerAttempt_Inr Let_def by (metis nextRevision_nonzero)
  with ok put show "written_ok (mv_data v')" by (auto simp: PutContainerAttempt_Inr Let_def written_ok_def)
next
  fix v x e v' x' assume ok: "written_ok (mv_data v)" and put: "PutOperation v x e = Inr (v', x')"
  from put have "or_Revision x' \<noteq> 0"
    unfolding PutOperation_Inr Let_def by (metis nextRevision_nonzero)
  with ok put show "written_ok (mv_data v')" by (auto simp: PutOperation_Inr Let_def written_ok_def)
next
  fix p d d' c assume ok: "written_ok d" and ret: "applyRetention p d = Inr (d', c)"
  obtain gone where ops: "map_of (md_operations d') = (map_of (md_operations d)) |` (- gone)"
    by (rule applyRetention_operations [OF ret])
  from ret obtain d1 c1 ts d2 where s: "assignTerminalSequences (ensureRetentionMaps d) = Inr (d1, c1)"
    "retire_all d1 (retired_first p ts) = Inr d2" "d' = fst (trim_events p d2)"
    by (rule applyRetention_Inr)
  have "wf_table (md_retired d')"
    using ok assignTerminalSequences_frame [OF s(1)] retire_all_wf [OF s(2)]
    by (simp add: s(3) trim_events_frame written_ok_def)
  then show "written_ok d'"
    using ok ops applyRetention_frame(1,2) [OF ret]
    by (auto simp: written_ok_def restrict_map_def split: if_splits)
qed (auto simp: written_ok_def newMemoryData_def data_clone_def map_of_clone dest!: DeleteSandbox_Inr
    DeleteContainerAttempt_Inr AppendEvent_Inr(6) split: if_splits)

lemma reachable_terminal_entries:
  assumes "store_reachable s"
  shows "list_all (\<lambda>(i, n). n \<noteq> 0 \<and> (\<exists>r. map_of (md_operations (ms_data s)) i = Some r
      \<and> State_Terminal (op_State (or_Operation r)))) (md_terminal (ms_data s))"
  using retirable_Inr [OF kept_orders [OF reachable_settled [OF assms]]] by simp

subsection \<open>The tables are loaded as they were written\<close>

lemma load_sandboxes_ok:
  assumes "\<forall>r \<in> set rs. sr_Revision r \<noteq> 0 \<and> validateSandboxRecord r = None"
    and "distinct (map fst t @ map (\<lambda>r. sb_ID (sr_Sandbox r)) rs)"
  shows "load_sandboxes t rs = Inr (t @ map (\<lambda>r. (sb_ID (sr_Sandbox r), r)) rs)"
  using assms
  by (induction t rs rule: load_sandboxes.induct) (auto simp: update_absent map_of_eq_None_iff)

lemma load_containers_ok:
  assumes "\<forall>r \<in> set rs. cr_Revision r \<noteq> 0 \<and> validateContainerAttemptRecord r = None"
    and "distinct (map fst t @ map (\<lambda>r. co_ID (ca_Container (cr_ContainerAttempt r))) rs)"
    and "distinct (seen @ map (\<lambda>r. at_ID (ca_Attempt (cr_ContainerAttempt r))) rs)"
  shows "load_containers seen t rs = Inr (t @ map (\<lambda>r. (co_ID (ca_Container (cr_ContainerAttempt r)), r)) rs)"
  using assms
  by (induction seen t rs rule: load_containers.induct) (auto simp: update_absent map_of_eq_None_iff)

lemma load_operations_ok:
  assumes "\<forall>r \<in> set rs. or_Revision r \<noteq> 0 \<and> validateOperationRecord r = None \<and> OperationRecord_Clone r = r"
    and "distinct (map fst t @ map (\<lambda>r. op_ID (or_Operation r)) rs)"
  shows "load_operations t rs = Inr (t @ map (\<lambda>r. (op_ID (or_Operation r), r)) rs)"
  using assms
  by (induction t rs rule: load_operations.induct) (auto simp: update_absent map_of_eq_None_iff)

lemma load_terminal_ok:
  assumes "\<forall>(i, n) \<in> set es. i \<noteq> [] \<and> n \<noteq> 0 \<and> (\<exists>r. map_of ops i = Some r \<and> State_Terminal (op_State (or_Operation r)))"
    and "distinct (map fst t @ map fst es)"
  shows "load_terminal ops t es = Inr (t @ es)"
  using assms
  by (induction ops t es rule: load_terminal.induct) (auto simp: update_absent map_of_eq_None_iff)

lemma load_retired_ok:
  assumes "\<forall>r \<in> set rs. retired_validate r = None"
    and "distinct (map fst t @ map re_OperationIDSHA256 rs)"
  shows "load_retired t rs = Inr (t @ map (\<lambda>r. (re_OperationIDSHA256 r, r)) rs)"
  using assms
  by (induction t rs rule: load_retired.induct) (auto simp: update_absent map_of_eq_None_iff)

definition active_targets :: "(operation_id \<times> operation_record) list \<Rightarrow> target list" where
  "active_targets t = map (\<lambda>(i, r). op_Target (or_Operation r))
     (filter (\<lambda>(i, r). State_Active (op_State (or_Operation r))) t)"

lemma active_owners_None:
  "active_owners seen t = None \<longleftrightarrow> distinct (active_targets t) \<and> set (active_targets t) \<inter> set seen = {}"
  by (induction seen t rule: active_owners.induct) (auto simp: active_targets_def)

lemma migrate_current:
  assumes "\<forall>e \<in> set es. ev_SchemaVersion e = EventSchemaVersion"
  shows "migrateFileEvents currentFileSchemaVersion es = Inr es"
  using assms by (induction es) (auto simp: migrate_event_def schema_versions)


subsection \<open>The history of a target\<close>

text \<open>The newest event of a target, and what the one before it allows an event to say. A generation goes
  back only once the target has been deleted.\<close>

definition latest :: "target \<Rightarrow> event list \<Rightarrow> event option" where
  "latest t es = find (\<lambda>e. ev_Target e = t) (rev es)"

definition follows_history :: "event \<Rightarrow> event \<Rightarrow> bool" where
  "follows_history p e \<longleftrightarrow>
     (if isSuccessfulDeleteEvent p then ev_Type e = TypeDelete \<or> ev_Type e = TypeCreate
      else ev_Generation p \<le> ev_Generation e \<and> ev_ObservedGeneration p \<le> ev_ObservedGeneration e)"

definition in_history :: "event list \<Rightarrow> event \<Rightarrow> bool" where
  "in_history es e \<longleftrightarrow> (case latest (ev_Target e) es of None \<Rightarrow> True | Some p \<Rightarrow> follows_history p e)"

definition coherent_history :: "event list \<Rightarrow> bool" where
  "coherent_history es \<longleftrightarrow> list_all (\<lambda>n. in_history (take n es) (es ! n)) [0..<length es]"

fun coherent_after :: "event list \<Rightarrow> event list \<Rightarrow> bool" where
  "coherent_after past [] = True"
| "coherent_after past (e # es) \<longleftrightarrow> in_history past e \<and> coherent_after (past @ [e]) es"

lemma coherent_after_nth:
  "coherent_after past es \<longleftrightarrow> (\<forall>n < length es. in_history (past @ take n es) (es ! n))"
proof (induction es arbitrary: past)
  case (Cons e es)
  have "(\<forall>n < length (e # es). in_history (past @ take n (e # es)) ((e # es) ! n)) \<longleftrightarrow>
      in_history past e \<and> (\<forall>n < length es. in_history ((past @ [e]) @ take n es) (es ! n))"
    by (simp add: All_less_Suc2)
  then show ?case by (simp add: Cons.IH)
qed simp

lemma coherent_history_after: "coherent_history es \<longleftrightarrow> coherent_after [] es"
  by (auto simp: coherent_history_def coherent_after_nth list_all_iff)

definition generations :: "event list \<Rightarrow> target \<Rightarrow> generation_state option" where
  "generations past t = map_option generation_state_of (latest t past)"

lemma generations_snoc: "(generations past)(ev_Target e \<mapsto> generation_state_of e) = generations (past @ [e])"
  by (simp add: fun_eq_iff generations_def latest_def)

lemma history_step:
  "validateHistoricalEventGeneration e (generations past) =
     (if in_history past e then Inr (generations (past @ [e])) else Inl ErrInvalidRecord)"
proof -
  have "generations past (ev_Target e) = map_option generation_state_of (latest (ev_Target e) past)"
    by (simp add: generations_def)
  then show ?thesis
    by (cases "latest (ev_Target e) past")
      (simp_all add: validateHistoricalEventGeneration_def Let_def in_history_def follows_history_def generations_snoc,
       auto simp: generation_state_of_def reject_def not_less)
qed

lemma load_events_history:
  assumes "\<forall>e \<in> set es. validateEvent e = None \<and> event_binding_error d e = None"
    and "successively (\<lambda>e f. Event_ValidateAfter f e = None) (past @ es)"
    and "past = [] \<Longrightarrow> es \<noteq> [] \<Longrightarrow> ev_Sequence (hd es) = first"
  shows "load_events d first (if past = [] then None else Some (last past)) (generations past) es =
    (if coherent_after past es then None else Some ErrInvalidRecord)"
  using assms
proof (induction es arbitrary: past)
  case (Cons e es)
  have bound: "event_binding_error d e = None" and valid: "validateEvent e = None"
    using Cons.prems(1) by simp_all
  have "past \<noteq> [] \<Longrightarrow> Event_ValidateAfter e (last past) = None"
    using Cons.prems(2) by (simp add: successively_append_iff)
  then have ok: "loaded_event_error d first (if past = [] then None else Some (last past)) e = None"
    using bound valid Cons.prems(3)
    by (auto simp: loaded_event_error_def event_binding_error_def split: option.splits)
  have "load_events d first (if past @ [e] = [] then None else Some (last (past @ [e]))) (generations (past @ [e])) es =
      (if coherent_after (past @ [e]) es then None else Some ErrInvalidRecord)"
    by (rule Cons.IH) (use Cons.prems in auto)
  then show ?case by (simp add: ok history_step)
qed simp

subsection \<open>A restart\<close>

lemma newest_sequence:
  assumes "data_validate d = None"
  shows "event_tail_error currentFileSchemaVersion (md_lastEvent d) d = None"
  using assms
  by (auto simp: data_validate_def suffix_error_def event_tail_error_def nextAvailableEventSequence_def schema_versions)

text \<open>A stored operation and a tombstone are told apart by the digest of their identities.\<close>

definition digests_apart :: "memory_data \<Rightarrow> bool" where
  "digests_apart d \<longleftrightarrow> list_all (\<lambda>(i, _). retiredOperationFor d i = None) (md_operations d)"

lemma stored_identity: "validateOperationRecord r = None \<Longrightarrow> op_ID (or_Operation r) \<noteq> []"
proof -
  assume "validateOperationRecord r = None"
  then have "Operation_Validate (or_Operation r) = None"
    unfolding validateOperationRecord_def first_err_Cons_None reject_None by blast
  then have "OperationID_Validate (op_ID (or_Operation r)) = None"
    by (simp add: Operation_Validate_def operation_identity_error_def)
  then show ?thesis by (auto simp: OperationID_Validate_def good_id_def)
qed

lemma loaded_tables:
  assumes "store_reachable s"
  defines "d \<equiv> ms_data s"
  shows "load_sandboxes [] (map snd (in_key_order (md_sandboxes d))) = Inr (in_key_order (md_sandboxes d))"
    and "load_containers [] [] (map snd (in_key_order (md_containers d))) = Inr (in_key_order (md_containers d))"
    and "load_operations [] (map (OperationRecord_Clone \<circ> snd) (in_key_order (md_operations d)))
      = Inr (in_key_order (md_operations d))"
    and "validateLoadedActiveOperations (in_key_order (md_operations d)) = None"
    and "load_terminal (in_key_order (md_operations d)) [] (in_key_order (md_terminal d)) = Inr (in_key_order (md_terminal d))"
    and "load_retired [] (map snd (in_key_order (md_retired d))) = Inr (in_key_order (md_retired d))"
proof -
  have t: "tables_ok d" and w: "written_ok d" and c: "settled_tables d" and v: "data_validate d = None"
    using tables.reachable written.reachable clones.reachable reachable_valid assms(1) by (simp_all add: d_def)
  have wf: "wf_table (md_sandboxes d)" "wf_table (md_containers d)" "wf_table (md_operations d)"
    "wf_table (md_terminal d)" "wf_table (md_retired d)"
    using t w c by (simp_all add: tables_ok_def written_ok_def settled_tables_def)
  note entry = wf [THEN wf_table_set_iff]
  have sb: "\<forall>(i, r) \<in> set (in_key_order (md_sandboxes d)). sb_ID (sr_Sandbox r) = i \<and> sr_Revision r \<noteq> 0
      \<and> validateSandboxRecord r = None"
    using t w by (auto simp: entry tables_ok_def written_ok_def)
  have co: "\<forall>(i, r) \<in> set (in_key_order (md_containers d)). co_ID (ca_Container (cr_ContainerAttempt r)) = i
      \<and> cr_Revision r \<noteq> 0 \<and> validateContainerAttemptRecord r = None"
    using t w by (auto simp: entry tables_ok_def written_ok_def)
  have op: "\<forall>(i, r) \<in> set (in_key_order (md_operations d)). op_ID (or_Operation r) = i \<and> or_Revision r \<noteq> 0
      \<and> validateOperationRecord r = None \<and> OperationRecord_Clone r = r"
    using t w c by (auto simp: entry tables_ok_def written_ok_def settled_tables_def)
  have keys: "map (\<lambda>r. sb_ID (sr_Sandbox r)) (map snd (in_key_order (md_sandboxes d))) = map fst (in_key_order (md_sandboxes d))"
    "map (\<lambda>r. co_ID (ca_Container (cr_ContainerAttempt r))) (map snd (in_key_order (md_containers d)))
      = map fst (in_key_order (md_containers d))"
    "map (\<lambda>r. op_ID (or_Operation r)) (map snd (in_key_order (md_operations d))) = map fst (in_key_order (md_operations d))"
    using sb co op by auto
  have cloned: "map (OperationRecord_Clone \<circ> snd) (in_key_order (md_operations d)) = map snd (in_key_order (md_operations d))"
    using op by auto
  have "distinct (map container_attempt_id (in_key_order (md_containers d)))"
    using v store_pairs_attempts [of d]
    by (simp add: in_key_order_distinct data_validate_def ValidateOneActiveAttempt_None one_active_def)
  then have attempts: "distinct (map (\<lambda>r. at_ID (ca_Attempt (cr_ContainerAttempt r))) (map snd (in_key_order (md_containers d))))"
    by (simp add: comp_def container_attempt_id_def case_prod_beta')
  let ?S = "in_key_order (md_sandboxes d)" and ?C = "in_key_order (md_containers d)" and ?O = "in_key_order (md_operations d)"
  have "load_sandboxes [] (map snd ?S) = Inr ([] @ map (\<lambda>r. (sb_ID (sr_Sandbox r), r)) (map snd ?S))"
    by (rule load_sandboxes_ok, unfold keys) (use sb wf(1) in \<open>auto simp: wf_table_def in_key_order_distinct\<close>)
  moreover have "map (\<lambda>r. (sb_ID (sr_Sandbox r), r)) (map snd ?S) = ?S"
    by (rule keyed_entries) (use sb in auto)
  ultimately show "load_sandboxes [] (map snd ?S) = Inr ?S" by (simp only: append_Nil)
  have "load_containers [] [] (map snd ?C) = Inr ([] @ map (\<lambda>r. (co_ID (ca_Container (cr_ContainerAttempt r)), r)) (map snd ?C))"
    by (rule load_containers_ok, unfold keys)
      (use co wf(2) attempts in \<open>auto simp: wf_table_def in_key_order_distinct\<close>)
  moreover have "map (\<lambda>r. (co_ID (ca_Container (cr_ContainerAttempt r)), r)) (map snd ?C) = ?C"
    by (rule keyed_entries) (use co in auto)
  ultimately show "load_containers [] [] (map snd ?C) = Inr ?C" by (simp only: append_Nil)
  have "load_operations [] (map snd ?O) = Inr ([] @ map (\<lambda>r. (op_ID (or_Operation r), r)) (map snd ?O))"
    by (rule load_operations_ok, unfold keys) (use op wf(3) in \<open>auto simp: wf_table_def in_key_order_distinct\<close>)
  moreover have "map (\<lambda>r. (op_ID (or_Operation r), r)) (map snd ?O) = ?O"
    by (rule keyed_entries) (use op in auto)
  ultimately show "load_operations [] (map (OperationRecord_Clone \<circ> snd) ?O) = Inr ?O"
    by (simp only: cloned append_Nil)
  show "validateLoadedActiveOperations (in_key_order (md_operations d)) = None"
    using wf_exclusive_distinct [of "in_key_order (md_operations d)"] t wf(3)
    by (simp add: validateLoadedActiveOperations_def active_owners_None active_targets_def tables_ok_def
        exclusive_targets_def in_key_order_map_of)
  have "\<forall>(i, n) \<in> set (in_key_order (md_terminal d)). i \<noteq> [] \<and> n \<noteq> 0
      \<and> (\<exists>r. map_of (in_key_order (md_operations d)) i = Some r \<and> State_Terminal (op_State (or_Operation r)))"
    using reachable_terminal_entries [OF assms(1)] t wf(3) stored_identity
    by (fastforce simp: list_all_iff in_key_order_map_of tables_ok_def d_def)
  then show "load_terminal (in_key_order (md_operations d)) [] (in_key_order (md_terminal d)) = Inr (in_key_order (md_terminal d))"
    using load_terminal_ok [of "in_key_order (md_terminal d)" "in_key_order (md_operations d)" "[]"] wf(4)
    by (simp add: wf_table_def in_key_order_distinct)
  have re: "\<forall>(k, r) \<in> set (in_key_order (md_retired d)). re_OperationIDSHA256 r = k \<and> retired_validate r = None"
    using v by (fastforce simp: data_validate_def terminal_order_error_None retired_entry_ok_def)
  then have key: "map re_OperationIDSHA256 (map snd (in_key_order (md_retired d))) = map fst (in_key_order (md_retired d))"
    by auto
  let ?R = "in_key_order (md_retired d)"
  have "load_retired [] (map snd ?R) = Inr ([] @ map (\<lambda>r. (re_OperationIDSHA256 r, r)) (map snd ?R))"
    by (rule load_retired_ok, unfold key) (use re wf(5) in \<open>auto simp: wf_table_def in_key_order_distinct\<close>)
  moreover have "map (\<lambda>r. (re_OperationIDSHA256 r, r)) (map snd ?R) = ?R"
    by (rule keyed_entries) (use re in auto)
  ultimately show "load_retired [] (map snd ?R) = Inr ?R" by (simp only: append_Nil)
qed


lemma ordered_data_valid:
  assumes "store_reachable s"
  shows "data_validate (ordered_data (ms_data s)) = None"
proof -
  let ?d = "ms_data s"
  have "wf_table (md_sandboxes ?d)" "wf_table (md_containers ?d)" "wf_table (md_operations ?d)"
    "wf_table (md_terminal ?d)" "wf_table (md_retired ?d)"
    using tables.reachable [OF assms] written.reachable [OF assms] clones.reachable [OF assms]
    by (simp_all add: tables_ok_def written_ok_def settled_tables_def)
  then have "same_tables ?d (ordered_data ?d)" by (rule ordered_data_same)
  moreover have "terminal_order_error (ordered_data ?d) = None"
    using reachable_valid [OF assms] by (simp add: ordered_data_terminal_order data_validate_def)
  ultimately show ?thesis by (rule validate_same [OF _ reachable_valid [OF assms]])
qed

lemma loaded_events:
  assumes "store_reachable s" and "md_operations d = in_key_order (md_operations (ms_data s))"
    and "md_retired d = in_key_order (md_retired (ms_data s))"
  shows "load_events d (md_firstEvent (ms_data s)) None (\<lambda>_. None) (md_events (ms_data s)) =
    (if coherent_history (md_events (ms_data s)) then None else Some ErrInvalidRecord)"
proof -
  let ?d = "ms_data s"
  have ev: "events_ok ?d" and v: "data_validate ?d = None" and wf: "wf_table (md_operations ?d)" "wf_table (md_retired ?d)"
    using suffix.reachable [OF assms(1)] reachable_valid [OF assms(1)] tables.reachable [OF assms(1)]
      written.reachable [OF assms(1)] by (simp_all add: tables_ok_def written_ok_def)
  have "event_binding_error d = event_binding_error ?d"
    by (rule ext) (simp only: event_binding_error_def retiredOperationFor_def assms(2,3) in_key_order_map_of wf)
  moreover have "\<forall>e \<in> set (md_events ?d). event_binding_error ?d e = None"
    using v by (simp add: data_validate_def first_err_map_None)
  moreover have "validateEvent e = None" if "Event_Validate e = None" for e
    using that by (simp add: validateEvent_def Event_Validate_None event_identity_None EventSchemaVersion_def)
  moreover have "md_events ?d \<noteq> [] \<Longrightarrow> ev_Sequence (hd (md_events ?d)) = md_firstEvent ?d"
    using v by (simp add: data_validate_def suffix_error_def)
  moreover have "generations [] = (\<lambda>_. None)" by (simp add: fun_eq_iff generations_def latest_def)
  ultimately show ?thesis
    using load_events_history [of "md_events ?d" d "[]" "md_firstEvent ?d"] ev
    by (simp add: events_ok_def list_all_iff coherent_history_after)
qed

lemma loaded_retention:
  assumes "store_reachable s"
  shows "load_retention (filePayloadFromMemory (ms_data s)) currentFileSchemaVersion
      (newMemoryData\<lparr>md_sandboxes := b, md_containers := c, md_operations := in_key_order (md_operations (ms_data s))\<rparr>)
    = (if digests_apart (ms_data s)
       then Inr ((ordered_data (ms_data s))\<lparr>md_sandboxes := b, md_containers := c, md_events := [], md_lastEvent := 0\<rparr>)
       else Inl ErrInvalidRecord)"
proof -
  let ?d = "ms_data s"
  have v: "data_validate ?d = None" and wf: "wf_table (md_retired ?d)"
    using reachable_valid [OF assms(1)] written.reachable [OF assms(1)] by (simp_all add: written_ok_def)
  have "md_firstEvent ?d \<noteq> 0" using v by (simp add: data_validate_def suffix_error_def)
  moreover have "list_ex (\<lambda>(i, _). map_of (in_key_order (md_retired ?d)) (operationIDDigest i) \<noteq> None)
      (in_key_order (md_operations ?d)) \<longleftrightarrow> \<not> digests_apart ?d"
    by (fastforce simp: digests_apart_def list_all_iff list_ex_iff retiredOperationFor_def in_key_order_map_of [OF wf])
  ultimately show ?thesis
    using loaded_tables(5,6) [OF assms(1)]
    by (simp add: load_retention_def schema_versions filePayloadFromMemory_def newMemoryData_def ordered_data_def)
qed

lemma restart:
  assumes "store_reachable s"
  shows "memoryDataFromPayload (filePayloadFromMemory (ms_data s)) currentFileSchemaVersion =
      (if digests_apart (ms_data s) \<and> coherent_history (md_events (ms_data s)) then Inr (ordered_data (ms_data s))
       else Inl ErrInvalidRecord)"
proof -
  let ?d = "ms_data s"
  let ?D = "(ordered_data ?d)\<lparr>md_events := [], md_lastEvent := 0\<rparr>"
  have schema: "known_schema currentFileSchemaVersion" "currentFileSchemaVersion \<noteq> fileSchemaVersionV1"
    by (simp_all add: known_schema_def schema_versions)
  have "\<forall>e \<in> set (md_events ?d). ev_SchemaVersion e = EventSchemaVersion"
    using suffix.reachable [OF assms]
    by (auto simp: events_ok_def list_all_iff Event_Validate_None event_identity_None EventSchemaVersion_def)
  then have events: "migrateFileEvents currentFileSchemaVersion (md_events ?d) = Inr (md_events ?d)"
    by (rule migrate_current)
  have retained: "load_retention (filePayloadFromMemory ?d) currentFileSchemaVersion
      (newMemoryData\<lparr>md_sandboxes := in_key_order (md_sandboxes ?d), md_containers := in_key_order (md_containers ?d),
        md_operations := in_key_order (md_operations ?d)\<rparr>) = (if digests_apart ?d then Inr ?D else Inl ErrInvalidRecord)"
    using loaded_retention [OF assms] by (simp add: ordered_data_def)
  have history: "load_events ?D (md_firstEvent ?d) None (\<lambda>_. None) (md_events ?d) =
      (if coherent_history (md_events ?d) then None else Some ErrInvalidRecord)"
    by (rule loaded_events [OF assms]) (simp_all add: ordered_data_def)
  have whole: "(ordered_data ?d)\<lparr>md_events := md_events ?d, md_lastEvent := md_lastEvent ?d\<rparr> = ordered_data ?d"
    by (simp add: ordered_data_def)
  have tail: "event_tail_error currentFileSchemaVersion (md_lastEvent ?d) (ordered_data ?d) = None"
    using newest_sequence [OF ordered_data_valid [OF assms]] by (simp add: ordered_data_def)
  have parts: "pl_Sandboxes (filePayloadFromMemory ?d) = Some (map snd (in_key_order (md_sandboxes ?d)))"
    "pl_ContainerAttempts (filePayloadFromMemory ?d) = Some (map snd (in_key_order (md_containers ?d)))"
    "pl_Operations (filePayloadFromMemory ?d) = Some (map (OperationRecord_Clone \<circ> snd) (in_key_order (md_operations ?d)))"
    "pl_Events (filePayloadFromMemory ?d) = Some (md_events ?d)" "pl_LastEvent (filePayloadFromMemory ?d) = md_lastEvent ?d"
    "pl_FirstEvent (filePayloadFromMemory ?d) = md_firstEvent ?d"
    by (simp_all add: filePayloadFromMemory_def)
  show ?thesis
    using loaded_tables(1-4) [OF assms] ordered_data_valid [OF assms]
    by (simp add: memoryDataFromPayload_def parts schema retained events history whole tail load_first_schema_def Let_def)
qed

lemma reachable_same_tables:
  assumes "store_reachable s"
  shows "same_tables (ms_data s) (ordered_data (ms_data s))"
  using tables.reachable [OF assms] written.reachable [OF assms] clones.reachable [OF assms]
  by (intro ordered_data_same) (simp_all add: tables_ok_def written_ok_def settled_tables_def)

end
