(* ===== verification/File_Regression.thy ===== *)
theory File_Regression
  imports File_Restart Lifecycle_Properties
begin

text \<open>
  Restarts of the state file: what they keep, and a sequence of ordinary commands after which the daemon
  cannot start again.
\<close>

subsection \<open>The removal of a Sandbox that is not there\<close>

lemma coherent_last:
  assumes "coherent_history (es @ [e])" and "latest (ev_Target e) es = Some p"
  shows "follows_history p e"
proof -
  have "in_history (take (length es) (es @ [e])) ((es @ [e]) ! length es)"
    using assms(1) unfolding coherent_history_def list_all_iff by (metis atLeastLessThan_iff le0 length_append_singleton lessI set_upt)
  then show ?thesis using assms(2) by (simp add: in_history_def)
qed

lemma nothing_trimmed:
  assumes "applyRetention p d = Inr (d', c)" and "int (length (md_events d)) \<le> EventLimit p"
  shows "md_events d' = md_events d"
proof -
  from assms(1) obtain d1 c1 ts d2 where s: "assignTerminalSequences (ensureRetentionMaps d) = Inr (d1, c1)"
    "retire_all d1 (retired_first p ts) = Inr d2" "d' = fst (trim_events p d2)"
    by (rule applyRetention_Inr)
  have "md_events d2 = md_events d"
    using assignTerminalSequences_frame [OF s(1)] retire_all_frame [OF s(2)] by simp
  then show ?thesis using trim_events_events [of p d2] assms(2) unfolding s(3) by auto
qed

lemma putNew_events: "run_lc (putNew c x) v = (v', Inr r) \<Longrightarrow> md_events (mv_data v') = md_events (mv_data v)"
  by (auto simp: putNew_def run_bind_Inr run_lift_res tx_run PutOperation_Inr Let_def)

lemma removeUnknown_events:
  assumes "run_lc (removeUnknownSandbox c now b) v = (v', Inr a)"
  obtains e where "md_events (mv_data v') = md_events (mv_data v) @ [e]" and "ev_Target e = bd_Target b"
    and "ev_Generation e = 0"
proof -
  from assms obtain x v1 f ev where put: "run_lc (putNewActiveOperation c b []) v = (v1, Inr x)"
    and app: "AppendEvent v1 f = Inr (v', ev)" and f: "ev_Target f = op_Target (or_Operation x)" "ev_Generation f = 0"
    unfolding removeUnknownSandbox_def appendOperationEvent_def
    by (auto elim!: run_bindE simp: tx_run encodeResponse_def run_lift_res)
  have x: "op_Target (or_Operation x) = bd_Target b"
    using putNew_effect(4) [OF put [unfolded putNewActiveOperation_def]] by (simp add: newActiveOperation_def)
  note a = AppendEvent_Inr [OF app]
  have "ev_Target ev = ev_Target f" "ev_Generation ev = ev_Generation f"
    by (subst a(3), simp)+
  then show thesis
    using a(6) f x putNew_events [OF put [unfolded putNewActiveOperation_def]] by (intro that [of ev]) simp_all
qed

lemma begin_remove_absent:
  assumes "run_lc p (view_of s) = (v', Inr a)" and "BeginSandboxRemove c now q = Inr p" and "store_reachable s"
    and "sandboxes_of (view_of s) (xa_SandboxID q) = None" and "xr_Resolution a = ResolutionNew"
  obtains e where "md_events (mv_data v') = md_events (ms_data s) @ [e]"
    and "ev_Target e = sandbox_resource (xa_SandboxID q)" and "ev_Generation e = 0"
proof -
  let ?i = "xa_SandboxID q"
  let ?resume = "\<lambda>b x. lc_bind (attempt (getSandbox ?i)) (\<lambda>got. case got of
      Inl e \<Rightarrow> check (reject (\<not> is_not_found e) e) (Yield (sandbox_answer ResolutionResume (or_Operation x) b None))
    | Inr r \<Rightarrow> Yield (sandbox_answer ResolutionResume (or_Operation x) b (Some (sr_Sandbox r))))"
  let ?new = "\<lambda>b. lc_bind (attempt (getSandbox ?i)) (\<lambda>got. case got of
      Inl e \<Rightarrow> check (reject (\<not> is_not_found e) e) (removeUnknownSandbox c now b)
    | Inr r \<Rightarrow> removeKnownSandbox c now b ?i r)"
  from assms(2) obtain b where b: "bindingFor (xa_OperationID q) TypeDelete (sandbox_resource ?i) (sandboxActionSemantic ?i) = Inr b"
    and p: "p = lc_bind (resolveOperation c now b) (\<lambda>resolved. case resolved of
          ResolvedNew \<Rightarrow> ?new b
        | ResolvedResume x \<Rightarrow> ?resume b x
        | ResolvedReplay x \<Rightarrow> lift_res (sandboxResultFromRecord ResolutionReplay x))"
    by (auto simp: BeginSandboxRemove_def Let_def)
  from assms(1) [unfolded p] obtain v1 resolved where res: "run_lc (resolveOperation c now b) (view_of s) = (v1, Inr resolved)"
    and rest: "run_lc (case resolved of ResolvedNew \<Rightarrow> ?new b | ResolvedResume x \<Rightarrow> ?resume b x
        | ResolvedReplay x \<Rightarrow> lift_res (sandboxResultFromRecord ResolutionReplay x)) v1 = (v', Inr a)"
    by (elim run_bindE) blast
  from res reachable_keyed [OF assms(3)] reachable_cloned [OF assms(3)] show thesis
  proof (cases rule: resolveE)
    case new
    have "run_lc (?new b) (view_of s) = (v', Inr a)" using rest new(1,2) by simp
    then show thesis
    proof (rule attempted_get)
      assume "run_lc (removeUnknownSandbox c now b) (view_of s) = (v', Inr a)"
      from removeUnknown_events [OF this] obtain e where "md_events (mv_data v') = md_events (ms_data s) @ [e]"
        "ev_Target e = bd_Target b" "ev_Generation e = 0" by (metis view_of_parts(1))
      then show thesis using bindingFor_Inr [OF b] by (intro that [of e]) simp_all
    next
      fix r assume "sandboxes_of (view_of s) ?i = Some r"
      then show thesis using assms(4) by simp
    qed simp
  next
    case (resume x)
    have "run_lc (?resume b x) v1 = (v', Inr a)" using rest resume(1) by simp
    then show thesis
      by (rule attempted_get) (use assms(5) in \<open>auto simp: sandbox_answer_def\<close>)
  next
    case (replay x)
    then have "sandboxResultFromRecord ResolutionReplay x = Inr a" using rest by (simp add: run_lift_res)
    then show thesis using assms(5)
      by (auto simp: sandboxResultFromRecord_def sandbox_result_of_def Let_def split: if_splits)
  qed
qed


lemma removal_regresses:
  assumes "store_reachable s" and "sandboxes_of (view_of s) (xa_SandboxID q) = None"
    and "latest (sandbox_resource (xa_SandboxID q)) (md_events (ms_data s)) = Some p"
    and "\<not> isSuccessfulDeleteEvent p" and "0 < ev_Generation p"
    and "int (length (md_events (ms_data s))) < EventLimit (ms_retention s)"
    and "submit s k1 k2 (BeginSandboxRemove c now q) = (s', Inr a)" and "xr_Resolution a = ResolutionNew"
  shows "\<not> coherent_history (md_events (ms_data s'))"
proof
  assume coherent: "coherent_history (md_events (ms_data s'))"
  from assms(7,1) show False
  proof (cases rule: submit_cases)
    case (committed b pr v' ch)
    from committed(3,2) assms(1,2,8) committed(1) obtain e where e: "md_events (mv_data v') = md_events (ms_data s) @ [e]"
      "ev_Target e = sandbox_resource (xa_SandboxID q)" "ev_Generation e = 0"
      by (auto elim: begin_remove_absent)
    have "md_events (ms_data s') = md_events (mv_data v')"
      using committed(4) by (rule nothing_trimmed) (use assms(6) e(1) in simp)
    then have "follows_history p e"
      using coherent_last [of "md_events (ms_data s)" e p] coherent assms(3) e by simp
    then show False using assms(4,5) e(3) by (simp add: follows_history_def)
  qed simp_all
qed


subsection \<open>An example\<close>

text \<open>A store in which the creation of a Sandbox has failed and left nothing behind but its history.\<close>

definition failed_creation :: "revision \<Rightarrow> operation_record" where
  "failed_creation n = demo_op_record (demo_operation\<lparr>op_Response := json_encode (JObj [])\<rparr>) n"

definition failed_event :: "u64 \<Rightarrow> event" where
  "failed_event n = (demo_event n)\<lparr>ev_Stage := StageComplete, ev_Result := ResultFailed, ev_Reason := ReasonInternal\<rparr>"

definition failed_tx :: "event lc" where
  "failed_tx = lc_bind (putOperation (failed_creation 0) 0) (\<lambda>_. appendEvent (failed_event 0))"

definition failed_data :: memory_data where
  "failed_data = (demo_content None (Some (failed_creation 1)) [failed_event 1] 1)\<lparr>md_terminal := [(''op-1'', 1)],
     md_lastTerminal := 1\<rparr>"

definition failed_store :: memory_store where
  "failed_store = NewMemoryStore\<lparr>ms_data := failed_data\<rparr>"

lemma failed_creation_parts [simp]:
  "op_ID (or_Operation (failed_creation n)) = ''op-1''" "op_Type (or_Operation (failed_creation n)) = TypeCreate"
  "op_Target (or_Operation (failed_creation n)) = sandbox_target" "op_State (or_Operation (failed_creation n)) = StateFailed"
  "op_Stage (or_Operation (failed_creation n)) = StageComplete" "op_Result (or_Operation (failed_creation n)) = ResultFailed"
  "op_Reason (or_Operation (failed_creation n)) = ReasonInternal" "op_Response (or_Operation (failed_creation n)) \<noteq> []"
  "or_HostProfile (failed_creation n) = HostProfileAbstractM1" "OperationRecord_Clone (failed_creation n) = failed_creation n"
  "(failed_creation n)\<lparr>or_Revision := m\<rparr> = failed_creation m" "or_Receipts (failed_creation n) = None"
  by (simp_all add: failed_creation_def demo_op_record_def demo_operation_def OperationRecord_Clone_def)

lemma failed_creation_valid: "validateOperationRecord (failed_creation n) = None"
proof -
  have "fits maxNestingDepth (MapOf Any) (JObj [])" by (simp add: fits_def maxNestingDepth_def)
  then have "demo_payload (json_encode (JObj []))" by (rule fits_payload)
  then have "Operation_Validate (or_Operation (failed_creation n)) = None"
    by (simp add: operation_valid_iff failed_creation_def demo_op_record_def demo_operation_def demo_payload_def
        sandbox_target_def good_target_def)
  then show ?thesis
    by (simp add: validateOperationRecord_def Let_def cause_record_error_def oom_record_error_def deadline_record_error_def)
      (simp add: failed_creation_def demo_op_record_def demo_operation_def validateSchema_def SchemaVersionV1_def
        OperationSchemaVersion_def validateAcquisitionReceipts_def validateCleanupReleases_def
        validateReceiptRollbackLinks_def validateRollbackAcquisitionOrder_def receipt_table_def adoption_error_def)
qed

lemma failed_event_parts [simp]:
  "ev_Sequence (failed_event n) = n" "ev_OperationID (failed_event n) = ''op-1''" "ev_Type (failed_event n) = TypeCreate"
  "ev_Target (failed_event n) = sandbox_target" "ev_Stage (failed_event n) = StageComplete"
  "ev_Result (failed_event n) = ResultFailed" "ev_Reason (failed_event n) = ReasonInternal"
  "ev_Generation (failed_event n) = 1" "(failed_event n)\<lparr>ev_Sequence := m\<rparr> = failed_event m"
  "ev_SchemaVersion (failed_event n) = EventSchemaVersion"
  by (simp_all add: failed_event_def demo_event_def EventSchemaVersion_def)

lemma failed_event_valid: "n \<noteq> 0 \<Longrightarrow> Event_Validate (failed_event n) = None"
  by (simp add: Event_Validate_None event_identity_None event_fact_None validateEventResources_None
      failed_event_def demo_event_def sandbox_target_def good_target_def time_IsZero_def)

lemma failed_tx_run:
  "run_lc failed_tx (view_of NewMemoryStore) = (demo_view None (Some (failed_creation 1)) [failed_event 1] 1, Inr (failed_event 1))"
proof -
  have "run_lc (putOperation (failed_creation 0) 0) (demo_view None None [] 0)
      = (demo_view None (Some (failed_creation 1)) [] 0, Inr (failed_creation 1))"
    using demo_put_op [OF failed_creation_valid [of 0], where x = None and e = 0 and k = 1] by (simp add: nextRevision_Inr)
  moreover have "append_error (demo_view None (Some (failed_creation 1)) [] 0) (failed_event 0) = None"
    using demo_view_parts(1,2) [of None "Some (failed_creation 1)" "[]" 0]
    by (simp add: append_error_def validateEventGeneration_def eventTargetGeneration_def)
  then have "run_lc (appendEvent (failed_event 0)) (demo_view None (Some (failed_creation 1)) [] 0)
      = (demo_view None (Some (failed_creation 1)) [failed_event 1] 1, Inr (failed_event 1))"
    using failed_event_valid [of 1]
    by (simp add: tx_run AppendEvent_def Let_def validateEvent_def Sequence_Next_def demo_view_update)
  ultimately show ?thesis by (simp add: failed_tx_def demo_view_start run_bind)
qed

lemma failed_store_reachable: "store_reachable failed_store"
proof -
  let ?d = "demo_content None (Some (failed_creation 1)) [failed_event 1] 1"
  have "applyRetention DefaultRetentionPolicy ?d = Inr (failed_data, True)"
    by (simp add: applyRetention_def retain_ordered_def RetentionPolicy_Validate_def DefaultRetentionPolicy_def
      assignTerminalSequences_def ensureRetentionMaps_def failed_data_def demo_content_def newMemoryData_def optional_def
      retired_first_def trim_events_def nextAvailableEventSequence_def State_Terminal_def)
  moreover have "data_validate failed_data = None"
    by (simp add: data_validate_def failed_data_def demo_content_def newMemoryData_def suffix_error_def
      event_binding_error_def terminal_error_def terminal_order_error_def store_pairs_def optional_def
      ValidateOneActiveAttempt_def validateOwnershipGraph_def create_inventory_error_def)
  moreover have "run_tx (callback failed_tx) (store_view NewMemoryStore True (data_clone (ms_data NewMemoryStore)))
      = (demo_view None (Some (failed_creation 1)) [failed_event 1] 1, None)"
    using failed_tx_run by (simp add: run_callback reachable_start [OF NewMemoryStore_reachable])
  ultimately have "Store_Update NewMemoryStore False False (Some (callback failed_tx)) = (failed_store, None)"
    by (simp add: Store_Update_def commit_def demo_view_update(1)) (simp add: NewMemoryStore_def failed_store_def)
  then show ?thesis using update [OF NewMemoryStore_reachable, of False False "Some (callback failed_tx)"] by simp
qed


text \<open>The Sandbox is removed to clear the failure away.\<close>

definition clearing :: sandbox_action_request where
  "clearing = \<lparr>xa_OperationID = ''op-2'', xa_SandboxID = ''sandbox-1''\<rparr>"

definition clearing_record :: "fingerprint \<Rightarrow> revision \<Rightarrow> operation_record" where
  "clearing_record f n = demo_op_record (newActiveOperation
     \<lparr>bd_ID = ''op-2'', bd_Type = TypeDelete, bd_Target = sandbox_target, bd_Fingerprint = f\<rparr> []) n"

definition clearing_event :: "string \<Rightarrow> u64 \<Rightarrow> event" where
  "clearing_event d n = (demo_fact TypeDelete n StagePersistIntent ResultPending 0 d)\<lparr>ev_OperationID := ''op-2'',
     ev_Generation := 0\<rparr>"

definition cleared_data :: "fingerprint \<Rightarrow> string \<Rightarrow> memory_data" where
  "cleared_data f d = failed_data\<lparr>md_operations := [(''op-1'', failed_creation 1), (''op-2'', clearing_record f 1)],
     md_events := [failed_event 1, clearing_event d 2], md_lastEvent := 2\<rparr>"

lemma clearing_target: "sandbox_resource ''sandbox-1'' = sandbox_target"
  by (simp add: sandbox_resource_def sandbox_target_def)

lemma clearing_parts [simp]:
  "op_ID (or_Operation (clearing_record f n)) = ''op-2''" "op_Type (or_Operation (clearing_record f n)) = TypeDelete"
  "op_Target (or_Operation (clearing_record f n)) = sandbox_target" "op_State (or_Operation (clearing_record f n)) = StateRunning"
  "op_Stage (or_Operation (clearing_record f n)) = StagePersistIntent" "op_Result (or_Operation (clearing_record f n)) = ResultPending"
  "op_Reason (or_Operation (clearing_record f n)) = ReasonNone" "op_Fingerprint (or_Operation (clearing_record f n)) = f"
  "or_HostProfile (clearing_record f n) = HostProfileAbstractM1" "OperationRecord_Clone (clearing_record f n) = clearing_record f n"
  "(clearing_record f n)\<lparr>or_Revision := m\<rparr> = clearing_record f m"
  "or_Revision (clearing_record f n) = n"
  "ev_Sequence (clearing_event d n) = n" "ev_OperationID (clearing_event d n) = ''op-2''" "ev_Type (clearing_event d n) = TypeDelete"
  "ev_Target (clearing_event d n) = sandbox_target" "ev_Stage (clearing_event d n) = StagePersistIntent"
  "ev_Result (clearing_event d n) = ResultPending" "ev_Reason (clearing_event d n) = ReasonNone"
  "(clearing_event d n)\<lparr>ev_Sequence := m\<rparr> = clearing_event d m" "ev_SchemaVersion (clearing_event d n) = EventSchemaVersion"
  by (simp_all add: clearing_record_def newActiveOperation_def demo_op_record_def OperationRecord_Clone_def clearing_event_def
      demo_fact_def EventSchemaVersion_def)

lemma op2_good [simp]: "good_id ''op-2''"
  by (rule plain_good_id; simp add: plain_char_def in_range_def)+

lemma clearing_valid: "Fingerprint_Validate f = None \<Longrightarrow> validateOperationRecord (clearing_record f n) = None"
proof -
  assume "Fingerprint_Validate f = None"
  then have "Operation_Validate (or_Operation (clearing_record f n)) = None"
    by (simp add: operation_valid_iff)
      (simp add: clearing_record_def newActiveOperation_def demo_op_record_def OperationSchemaVersion_def)
  then show ?thesis
    by (simp add: validateOperationRecord_def Let_def cause_record_error_def oom_record_error_def deadline_record_error_def)
      (simp add: clearing_record_def newActiveOperation_def demo_op_record_def validateSchema_def SchemaVersionV1_def
        OperationSchemaVersion_def validateAcquisitionReceipts_def validateCleanupReleases_def
        validateReceiptRollbackLinks_def validateRollbackAcquisitionOrder_def receipt_table_def adoption_error_def)
qed

lemma clearing_event_valid: "demo_payload d \<Longrightarrow> n \<noteq> 0 \<Longrightarrow> Event_Validate (clearing_event d n) = None"
  by (auto simp: Event_Validate_None event_identity_None event_fact_None validateEventResources_None clearing_event_def
      demo_fact_def time_IsZero_def demo_time_def demo_payload_def)

lemma clearing_fingerprint:
  obtains f where "bindingFor ''op-2'' TypeDelete (sandbox_resource ''sandbox-1'') (sandboxActionSemantic ''sandbox-1'')
      = Inr \<lparr>bd_ID = ''op-2'', bd_Type = TypeDelete, bd_Target = sandbox_target, bd_Fingerprint = f\<rparr>"
    and "Fingerprint_Validate f = None"
proof -
  let ?j = "JObj [(''sandbox_id'', JStr ''sandbox-1'')]"
  let ?f = "\<lparr>fp_Version = CurrentFingerprintVersion, fp_SHA256 = hex_EncodeToString (Sum256 (json_encode (canonical ?j)))\<rparr>"
  have "writable ?j" "json_depth ?j \<le> maxNestingDepth"
    by (simp_all add: ascii_ValidString maxNestingDepth_def)
  then have "CanonicalRequestJSON ?j = Inr (json_encode (canonical ?j))" by (rule CanonicalRequestJSON_Inr)
  then have req: "request_fingerprint (sandboxActionSemantic ''sandbox-1'') = Inr ?f"
    by (simp add: request_fingerprint_def sandboxActionSemantic_def marshal_def plain_payload_def struct_json_def
        members.simps CanonicalRequestFingerprint_def map_sum_def)
  have f: "Fingerprint_Validate ?f = None"
    by (simp add: Fingerprint_Validate_def lower_hex_runes hex_lower)
  show thesis
  proof (rule that [OF _ f])
    show "bindingFor ''op-2'' TypeDelete (sandbox_resource ''sandbox-1'') (sandboxActionSemantic ''sandbox-1'')
      = Inr \<lparr>bd_ID = ''op-2'', bd_Type = TypeDelete, bd_Target = sandbox_target, bd_Fingerprint = ?f\<rparr>"
      using f by (simp add: bindingFor_def req suppliedBinding_def Let_def Binding_Validate_def clearing_target
          OperationID_Validate_def validateTypeTarget_def)
  qed
qed


lemma failed_view: "view_of failed_store = \<lparr>mv_data = failed_data, mv_writable = True,
    mv_retention = DefaultRetentionPolicy, mv_closed = False\<rparr>"
  by (simp add: view_of_def store_view_def failed_store_def NewMemoryStore_def)

lemma failed_data_parts [simp]:
  "map_of (md_operations failed_data) = [''op-1'' \<mapsto> failed_creation 1]" "md_sandboxes failed_data = []"
  "md_containers failed_data = []" "md_retired failed_data = []" "md_events failed_data = [failed_event 1]"
  "md_lastEvent failed_data = 1" "md_operations failed_data = [(''op-1'', failed_creation 1)]"
  by (simp_all add: failed_data_def demo_content_def newMemoryData_def optional_def fun_eq_iff)

lemma clearing_resolved:
  assumes "bd_ID b = ''op-2''" and "bd_Target b = sandbox_target"
  shows "run_lc (resolveOperation c now b) (view_of failed_store) = (view_of failed_store, Inr ResolvedNew)"
  by (simp add: run_resolveOperation assms failed_view GetOperation_def ensureOpen_def retiredOperationFor_def
      ActiveOperation_def active_on_def State_Active_def)

definition clearing_view :: "fingerprint \<Rightarrow> memory_view" where
  "clearing_view f = (view_of failed_store)\<lparr>mv_data := failed_data\<lparr>md_operations :=
     [(''op-1'', failed_creation 1), (''op-2'', clearing_record f 1)]\<rparr>\<rparr>"

lemma clearing_put:
  assumes "Fingerprint_Validate f = None"
  shows "run_lc (putNewActiveOperation demo_coordinator
      \<lparr>bd_ID = ''op-2'', bd_Type = TypeDelete, bd_Target = sandbox_target, bd_Fingerprint = f\<rparr> []) (view_of failed_store)
    = (clearing_view f, Inr (clearing_record f 1))"
proof -
  let ?b = "\<lparr>bd_ID = ''op-2'', bd_Type = TypeDelete, bd_Target = sandbox_target, bd_Fingerprint = f\<rparr>"
  let ?y = "(clearing_record f 0)\<lparr>or_Rollback := None\<rparr>"
  have clone: "OperationRecord_Clone ?y = clearing_record f 0"
    by (simp add: OperationRecord_Clone_def clearing_record_def demo_op_record_def)
  have "validateOperationRecord (OperationRecord_Clone ?y) = None"
    unfolding clone by (rule clearing_valid [OF assms])
  then have valid: "validateOperationRecord ?y = None" by simp
  have new: "NewOperationRecordForProfile (newActiveOperation ?b []) (co_profile demo_coordinator) = Inr ?y"
    by (simp add: NewOperationRecordForProfile_def NewOperationRecord_def clearing_record_def newActiveOperation_def
        demo_op_record_def demo_coordinator_def SchemaVersionV1_def)
  have op: "or_Operation ?y = or_Operation (clearing_record f 0)" "or_HostProfile ?y = HostProfileAbstractM1"
    by simp_all
  have "PutOperation (view_of failed_store) ?y 0 = Inr (clearing_view f, clearing_record f 1)"
    using valid
    by (simp add: PutOperation_Inr Let_def op clone failed_view ensureWritable_def ensureOpen_def new_identity_error_def
        retiredOperationFor_def effective_policy_def DefaultRetentionPolicy_def new_linux_error_def nextRevision_Inr
        target_owner_error_def active_on_def State_Active_def clearing_view_def del: OperationRecord_Clone_simps)
  then show ?thesis unfolding putNewActiveOperation_def putNew_def new by (simp add: tx_run)
qed


lemma clearing_details: obtains d where "encodeResponse absent_details = lift_res (Inr d)" and "demo_payload d"
proof
  let ?j = "snd absent_details"
  show "encodeResponse absent_details = lift_res (Inr (json_encode ?j))"
    by (simp add: encodeResponse_def marshal_def absent_details_def details_def plain_payload_def)
  have "fits maxNestingDepth (MapOf Any) ?j"
    by (auto simp: absent_details_def details_def plain_payload_def maxNestingDepth_def ascii_def
        intro!: fits_text_map ascii_ValidString)
  then show "demo_payload (json_encode ?j)" by (rule fits_payload)
qed

lemma clearing_append:
  assumes "demo_payload d"
  shows "run_lc (appendEvent (clearing_event d 0)) (clearing_view f)
    = ((clearing_view f)\<lparr>mv_data := cleared_data f d\<rparr>, Inr (clearing_event d 2))"
proof -
  have "append_error (clearing_view f) (clearing_event d 0) = None"
    by (simp add: append_error_def clearing_view_def failed_view ensureWritable_def ensureOpen_def
        validateEventGeneration_def eventTargetGeneration_def)
  moreover have "Event_ValidateAfter (clearing_event d 2) (failed_event 1) = None"
    using clearing_event_valid [OF assms, of 2] failed_event_valid [of 1] by (simp add: Event_ValidateAfter_None)
  ultimately show ?thesis
    using clearing_event_valid [OF assms, of 2]
    by (simp add: tx_run AppendEvent_def Let_def validateEvent_def Sequence_Next_def)
      (simp add: clearing_view_def cleared_data_def)
qed

lemma cleared_committed:
  "applyRetention DefaultRetentionPolicy (cleared_data f d) = Inr (cleared_data f d, False)"
  "demo_payload d \<Longrightarrow> data_validate (cleared_data f d) = None"
proof -
  have parts: "md_operations (cleared_data f d) = [(''op-1'', failed_creation 1), (''op-2'', clearing_record f 1)]"
    "md_events (cleared_data f d) = [failed_event 1, clearing_event d 2]" "md_lastEvent (cleared_data f d) = 2"
    "md_terminal (cleared_data f d) = [(''op-1'', 1)]" "md_lastTerminal (cleared_data f d) = 1"
    "md_retired (cleared_data f d) = []" "md_sandboxes (cleared_data f d) = []" "md_containers (cleared_data f d) = []"
    "md_firstEvent (cleared_data f d) = 1" "(cleared_data f d)\<lparr>md_firstEvent := 1\<rparr> = cleared_data f d"
    by (simp_all add: cleared_data_def failed_data_def demo_content_def newMemoryData_def optional_def)
  show "applyRetention DefaultRetentionPolicy (cleared_data f d) = Inr (cleared_data f d, False)"
    by (simp add: applyRetention_def retain_ordered_def RetentionPolicy_Validate_def DefaultRetentionPolicy_def
      assignTerminalSequences_def ensureRetentionMaps_def parts State_Terminal_def liveInventoryOwnerOperations_def
      retired_first_def trim_events_def nextAvailableEventSequence_def)
  show "data_validate (cleared_data f d) = None" if "demo_payload d"
  proof -
    have "Event_ValidateAfter (clearing_event d 2) (failed_event 1) = None"
      using clearing_event_valid [OF that, of 2] failed_event_valid [of 1] by (simp add: Event_ValidateAfter_None)
    then show ?thesis
      by (simp add: data_validate_def parts suffix_error_def event_binding_error_def terminal_error_def
        terminal_order_error_def store_pairs_def ValidateOneActiveAttempt_def validateOwnershipGraph_def
        create_inventory_error_def State_Terminal_def)
        (simp add: clearing_record_def demo_op_record_def)
  qed
qed

lemma clearing_submitted:
  obtains s' a where "submit failed_store False False (BeginSandboxRemove demo_coordinator demo_time clearing) = (s', Inr a)"
    and "xr_Resolution a = ResolutionNew"
proof -
  obtain f where b: "bindingFor ''op-2'' TypeDelete (sandbox_resource ''sandbox-1'') (sandboxActionSemantic ''sandbox-1'')
      = Inr \<lparr>bd_ID = ''op-2'', bd_Type = TypeDelete, bd_Target = sandbox_target, bd_Fingerprint = f\<rparr>"
    and f: "Fingerprint_Validate f = None" by (rule clearing_fingerprint)
  obtain d where d: "encodeResponse absent_details = lift_res (Inr d)" "demo_payload d" by (rule clearing_details)
  let ?b = "\<lparr>bd_ID = ''op-2'', bd_Type = TypeDelete, bd_Target = sandbox_target, bd_Fingerprint = f\<rparr>"
  let ?a = "sandbox_answer ResolutionNew (or_Operation (clearing_record f 1)) ?b None"
  let ?v = "(clearing_view f)\<lparr>mv_data := cleared_data f d\<rparr>"
  have event: "\<lparr>ev_SchemaVersion = EventSchemaVersion, ev_Sequence = 0, ev_OperationID = ''op-2'', ev_Type = TypeDelete,
      ev_Target = sandbox_target, ev_Resources = [sandbox_target], ev_Stage = StagePersistIntent, ev_Result = ResultPending,
      ev_Reason = ReasonNone, ev_OccurredAt = demo_time, ev_Duration = None, ev_Generation = 0, ev_ObservedGeneration = 0,
      ev_Details = d\<rparr> = clearing_event d 0"
    by (simp add: clearing_event_def demo_fact_def EventSchemaVersion_def)
  have unknown: "run_lc (removeUnknownSandbox demo_coordinator demo_time ?b) (view_of failed_store) = (?v, Inr ?a)"
    by (simp add: removeUnknownSandbox_def run_bind clearing_put [OF f] appendOperationEvent_def d(1) run_lift_res event
        clearing_append [OF d(2)])
  have absent: "run_lc (attempt (getSandbox ''sandbox-1'')) (view_of failed_store) = (view_of failed_store, Inr (Inl (LcStore ErrNotFound)))"
    by (simp add: run_attempt tx_run read_of_def failed_view GetSandbox_def ensureOpen_def)
  have "\<exists>g. BeginSandboxRemove demo_coordinator demo_time clearing = Inr (lc_bind (resolveOperation demo_coordinator demo_time ?b) g)
    \<and> g ResolvedNew = lc_bind (attempt (getSandbox ''sandbox-1'')) (\<lambda>got. case got of
        Inl e \<Rightarrow> check (reject (\<not> is_not_found e) e) (removeUnknownSandbox demo_coordinator demo_time ?b)
      | Inr r \<Rightarrow> removeKnownSandbox demo_coordinator demo_time ?b ''sandbox-1'' r)"
    unfolding BeginSandboxRemove_def clearing_def Let_def sandbox_action_request.simps b bind_res.simps
    by (rule exI, rule conjI, rule refl, simp)
  then obtain g where p: "BeginSandboxRemove demo_coordinator demo_time clearing =
      Inr (lc_bind (resolveOperation demo_coordinator demo_time ?b) g)"
    and g: "g ResolvedNew = lc_bind (attempt (getSandbox ''sandbox-1'')) (\<lambda>got. case got of
        Inl e \<Rightarrow> check (reject (\<not> is_not_found e) e) (removeUnknownSandbox demo_coordinator demo_time ?b)
      | Inr r \<Rightarrow> removeKnownSandbox demo_coordinator demo_time ?b ''sandbox-1'' r)" by blast
  let ?p = "lc_bind (resolveOperation demo_coordinator demo_time ?b) g"
  have run: "run_lc ?p (view_of failed_store) = (?v, Inr ?a)"
    by (simp add: run_bind clearing_resolved g absent unknown check_def)
  have "run_tx (callback ?p) (store_view failed_store True (data_clone (ms_data failed_store))) = (?v, None)"
    using run by (simp add: run_callback reachable_start [OF failed_store_reachable])
  moreover have "commit (ms_retention failed_store) (mv_data ?v) = Inr (cleared_data f d)"
    using cleared_committed(1) cleared_committed(2) [OF d(2)]
    by (simp add: commit_def failed_store_def NewMemoryStore_def)
  ultimately have "Store_Update failed_store False False (Some (callback ?p)) = (failed_store\<lparr>ms_data := cleared_data f d\<rparr>, None)"
    by (simp add: Store_Update_def)
  then have "submit failed_store False False (BeginSandboxRemove demo_coordinator demo_time clearing)
      = (failed_store\<lparr>ms_data := cleared_data f d\<rparr>, Inr ?a)"
    using run by (simp add: p submit_def lc_update_def Let_def reachable_start [OF failed_store_reachable])
  then show thesis by (rule that) (simp add: sandbox_answer_def)
qed


subsection \<open>Properties\<close>

text \<open>C8. A restart neither loses nor invents anything: the payload of a committed store is rebuilt into
  the same store with its tables in key order, exactly if no identity shares its digest with a tombstone
  and the generations in the retained events go back for no target that was not deleted in between.
  Otherwise the load fails, and the daemon does not start.\<close>

theorem restart_outcome:
  assumes "store_reachable s"
  shows "memoryDataFromPayload (filePayloadFromMemory (ms_data s)) currentFileSchemaVersion =
      (if digests_apart (ms_data s) \<and> coherent_history (md_events (ms_data s)) then Inr (ordered_data (ms_data s))
       else Inl ErrInvalidRecord)
    \<and> same_tables (ms_data s) (ordered_data (ms_data s))"
  using restart [OF assms] reachable_same_tables [OF assms] by blast

theorem restart_outcome_witness:
  "memoryDataFromPayload (filePayloadFromMemory (ms_data failed_store)) currentFileSchemaVersion = Inr (ordered_data failed_data)
   \<and> md_events (ordered_data failed_data) = [failed_event 1]"
proof -
  have "digests_apart failed_data" by (simp add: digests_apart_def retiredOperationFor_def)
  moreover have "coherent_history (md_events failed_data)"
    by (simp add: coherent_history_def in_history_def latest_def)
  moreover have "ms_data failed_store = failed_data" by (simp add: failed_store_def)
  ultimately show ?thesis
    using restart_outcome [OF failed_store_reachable] by (simp add: ordered_data_def)
qed

text \<open>C12. A removal that finds no Sandbox writes generation 0 into the history of its target. If that history
  ends with anything but a successful deletion, such as a failed creation, the store accepts and commits
  the removal, but the state file it leaves is one that the next start refuses to load.\<close>

theorem absent_removal_blocks_restart:
  assumes "store_reachable s" and "sandboxes_of (view_of s) (xa_SandboxID q) = None"
    and "latest (sandbox_resource (xa_SandboxID q)) (md_events (ms_data s)) = Some p"
    and "\<not> isSuccessfulDeleteEvent p" and "0 < ev_Generation p"
    and "int (length (md_events (ms_data s))) < EventLimit (ms_retention s)"
    and "submit s k1 k2 (BeginSandboxRemove c now q) = (s', Inr a)" and "xr_Resolution a = ResolutionNew"
  shows "store_reachable s' \<and> data_validate (ms_data s') = None
    \<and> memoryDataFromPayload (filePayloadFromMemory (ms_data s')) currentFileSchemaVersion = Inl ErrInvalidRecord"
proof -
  have reach: "store_reachable s'"
    using submit_reachable [OF assms(1), of k1 k2 "BeginSandboxRemove c now q"] assms(7) by simp
  then show ?thesis
    using reachable_valid [OF reach] restart [OF reach] removal_regresses [OF assms] by simp
qed

theorem absent_removal_blocks_restart_witness:
  "\<exists>s' a. submit failed_store False False (BeginSandboxRemove demo_coordinator demo_time clearing) = (s', Inr a)
     \<and> memoryDataFromPayload (filePayloadFromMemory (ms_data s')) currentFileSchemaVersion = Inl ErrInvalidRecord"
proof -
  obtain s' a where run: "submit failed_store False False (BeginSandboxRemove demo_coordinator demo_time clearing) = (s', Inr a)"
    "xr_Resolution a = ResolutionNew" by (rule clearing_submitted)
  have "sandboxes_of (view_of failed_store) (xa_SandboxID clearing) = None"
    "latest (sandbox_resource (xa_SandboxID clearing)) (md_events (ms_data failed_store)) = Some (failed_event 1)"
    "\<not> isSuccessfulDeleteEvent (failed_event 1)" "0 < ev_Generation (failed_event 1)"
    "int (length (md_events (ms_data failed_store))) < EventLimit (ms_retention failed_store)"
    by (simp_all add: failed_view failed_store_def latest_def clearing_def clearing_target isSuccessfulDeleteEvent_def
        NewMemoryStore_def DefaultRetentionPolicy_def)
  from absent_removal_blocks_restart [OF failed_store_reachable this run] run show ?thesis by blast
qed

end
