(* ===== verification/File_System.thy ===== *)
theory File_System
  imports State_Record Go_Std Go_Sha
begin

unbundle bit_operations_syntax

text \<open>
  \<open>internal/state/file.go\<close>, the file system as \<open>FileStore\<close> uses it: the path functions of
  \<open>path/filepath\<close>, the primitives that the operating system provides, and the checks on owners, modes
  and inodes that a path passes before it is trusted.

  The primitives are the argument \<open>fp\<close>: \<open>filePrimitives\<close>, and the system calls that the code makes
  directly. A primitive acts on the outside world \<open>'w\<close> and may fail in any way; what POSIX promises of them
  is a hypothesis of the theorems that need it.
\<close>

subsection \<open>Paths\<close>

definition filepath_Join :: "string list \<Rightarrow> string" where
  "filepath_Join elements =
    (case dropWhile (\<lambda>e. e = []) elements of [] \<Rightarrow> [] | es \<Rightarrow> filepath_Clean (join_with ''/'' es))"

definition filepath_Dir :: "string \<Rightarrow> string" where
  "filepath_Dir p = filepath_Clean (rev (dropWhile (\<lambda>c. c \<noteq> CHR ''/'') (rev p)))"

definition filepath_Base :: "string \<Rightarrow> string" where
  "filepath_Base p =
    (if p = [] then ''.''
     else let body = rev (dropWhile (\<lambda>c. c = CHR ''/'') (rev p));
              name = rev (takeWhile (\<lambda>c. c \<noteq> CHR ''/'') (rev body))
          in if name = [] then ''/'' else name)"

text \<open>\<open>filepath.Abs\<close>, relative to the working directory.\<close>

definition filepath_Abs :: "string \<Rightarrow> string \<Rightarrow> string" where
  "filepath_Abs cwd p = (if IsAbs p then filepath_Clean p else filepath_Join [cwd, p])"

definition fileLockSuffix :: string where "fileLockSuffix = ''.state.lock''"

definition stateLockPath :: "string \<Rightarrow> string" where
  "stateLockPath statePath =
    (let directory = filepath_Dir statePath;
         name = (if directory = ''/'' then ''root'' else filepath_Base directory);
         short = (if 48 < length name then take 48 name else name)
     in filepath_Join [filepath_Dir directory,
          ''.'' @ short @ ''-'' @ hex_EncodeToString (Sum256 statePath) @ fileLockSuffix])"

subsection \<open>Errors and effects\<close>

text \<open>What \<open>errors.Is\<close> finds in an error: the sentinels of the store, the errors of the operating system
  that the code looks for, and any other. A wrapped or joined error is the list of what it wraps.\<close>

datatype file_cause =
    StoreCause st_error
  | ErrFileStoreLocked
  | ErrFileStoreClosed
  | ErrDurabilityUncertain
  | NotExist
  | AlreadyExists
  | TooManyLinks
  | WouldBlock
  | OtherCause string

type_synonym file_error = "file_cause list"

abbreviation InvalidRecord :: file_error where "InvalidRecord \<equiv> [StoreCause ErrInvalidRecord]"

text \<open>A computation yields a result or an error and a changed world. The worlds that it goes through, one
  for each primitive that it calls, are the points at which the machine may stop.\<close>

type_synonym ('w, 'a) io = "'w \<Rightarrow> 'w list \<times> 'w \<times> (file_error + 'a)"
type_synonym ('w, 'a) primitive = "'w \<Rightarrow> 'w \<times> (file_error + 'a)"

definition io_return :: "'a \<Rightarrow> ('w, 'a) io" where
  "io_return a w = ([], w, Inr a)"

definition io_fail :: "file_error \<Rightarrow> ('w, 'a) io" where
  "io_fail e w = ([], w, Inl e)"

definition io_bind :: "('w, 'a) io \<Rightarrow> ('a \<Rightarrow> ('w, 'b) io) \<Rightarrow> ('w, 'b) io" where
  "io_bind m f w =
    (case m w of
       (ws, w1, Inl e) \<Rightarrow> (ws, w1, Inl e)
     | (ws, w1, Inr a) \<Rightarrow> (case f a w1 of (ws', w2, r) \<Rightarrow> (ws @ ws', w2, r)))"

definition sys :: "('w, 'a) primitive \<Rightarrow> ('w, 'a) io" where
  "sys f w = (case f w of (w1, r) \<Rightarrow> ([w1], w1, r))"

text \<open>The error of a computation as a value; \<open>io_ignore\<close> drops it, as \<open>_ = f()\<close> does. \<open>io_wrap\<close> is \<open>%w\<close>
  with a sentinel in front.\<close>

definition io_try :: "('w, 'a) io \<Rightarrow> ('w, file_error + 'a) io" where
  "io_try m w = (case m w of (ws, w1, r) \<Rightarrow> (ws, w1, Inr r))"

definition io_ignore :: "('w, 'a) io \<Rightarrow> ('w, unit) io" where
  "io_ignore m = io_bind (io_try m) (\<lambda>_. io_return ())"

definition io_lift :: "file_error + 'a \<Rightarrow> ('w, 'a) io" where
  "io_lift r w = ([], w, r)"

definition io_check :: "file_error option \<Rightarrow> ('w, 'a) io \<Rightarrow> ('w, 'a) io" where
  "io_check e m = (case e of None \<Rightarrow> m | Some e \<Rightarrow> io_fail e)"

definition io_wrap :: "file_error \<Rightarrow> ('w, 'a) io \<Rightarrow> ('w, 'a) io" where
  "io_wrap e m w = (case m w of (ws, w1, r) \<Rightarrow> (ws, w1, map_sum (\<lambda>x. e @ x) id r))"

text \<open>\<open>errors.Join\<close> of an error with that of a clean-up.\<close>

definition io_finally :: "('w, 'a) io \<Rightarrow> ('w, unit) io \<Rightarrow> ('w, 'a) io" where
  "io_finally m cleanup =
    io_bind (io_try m) (\<lambda>r.
      case r of
        Inr a \<Rightarrow> io_return a
      | Inl e \<Rightarrow> io_bind (io_try cleanup) (\<lambda>c. io_fail (e @ (case c of Inl e' \<Rightarrow> e' | Inr _ \<Rightarrow> []))))"

subsection \<open>Primitives\<close>

text \<open>What \<open>os.FileInfo\<close> and its \<open>Sys\<close> tell: kind and permission bits, size, and the \<open>Stat_t\<close>.\<close>

record file_stat =
  st_Uid :: u32
  st_Dev :: u64
  st_Ino :: u64

record file_info =
  fi_IsDir :: bool
  fi_IsRegular :: bool
  fi_Symlink :: bool
  fi_Perm :: u32
  fi_Size :: int
  fi_Stat :: "file_stat option"

record file_identity =
  id_device :: u64
  id_inode :: u64

type_synonym handle = nat

record 'w primitives =
  mkdirAll :: "string \<Rightarrow> u32 \<Rightarrow> ('w, unit) primitive"
  lstat :: "string \<Rightarrow> ('w, file_info) primitive"
  ownerUID :: "string \<Rightarrow> file_info \<Rightarrow> file_error + u32"
  effectiveUID :: u32
  chmodFile :: "handle \<Rightarrow> u32 \<Rightarrow> ('w, unit) primitive"
  writeFile :: "handle \<Rightarrow> string \<Rightarrow> ('w, unit) primitive"
  syncFile :: "handle \<Rightarrow> ('w, unit) primitive"
  closeFile :: "handle \<Rightarrow> ('w, unit) primitive"
  renameAt :: "handle \<Rightarrow> string \<Rightarrow> string \<Rightarrow> ('w, unit) primitive"
  openDirectory :: "string \<Rightarrow> ('w, handle) primitive"
  syncDirectory :: "handle \<Rightarrow> ('w, unit) primitive"
  removeAt :: "handle \<Rightarrow> string \<Rightarrow> ('w, unit) primitive"
  sys_openLock :: "string \<Rightarrow> ('w, handle) primitive"
  sys_openAt :: "handle \<Rightarrow> string \<Rightarrow> ('w, handle) primitive"
  sys_createAt :: "handle \<Rightarrow> string \<Rightarrow> ('w, handle) primitive"
  sys_fstat :: "handle \<Rightarrow> ('w, file_info) primitive"
  sys_fstatAt :: "handle \<Rightarrow> string \<Rightarrow> ('w, file_info) primitive"
  sys_lock :: "handle \<Rightarrow> ('w, unit) primitive"
  sys_unlock :: "handle \<Rightarrow> ('w, unit) primitive"
  sys_close :: "handle \<Rightarrow> ('w, unit) primitive"
  sys_read :: "handle \<Rightarrow> int \<Rightarrow> ('w, string) primitive"
  sys_random :: "nat \<Rightarrow> ('w, string) primitive"

definition ownerUIDFromFileInfo :: "string \<Rightarrow> file_info \<Rightarrow> file_error + u32" where
  "ownerUIDFromFileInfo path info =
    (case fi_Stat info of None \<Rightarrow> Inl InvalidRecord | Some st \<Rightarrow> Inr (st_Uid st))"

definition identityFromFileInfo :: "string \<Rightarrow> file_info \<Rightarrow> file_error + file_identity" where
  "identityFromFileInfo path info =
    (case fi_Stat info of
       None \<Rightarrow> Inl InvalidRecord
     | Some st \<Rightarrow> Inr \<lparr>id_device = st_Dev st, id_inode = st_Ino st\<rparr>)"

text \<open>\<open>os.SameFile\<close>.\<close>

definition SameFile :: "file_info \<Rightarrow> file_info \<Rightarrow> bool" where
  "SameFile a b \<longleftrightarrow>
    (case (fi_Stat a, fi_Stat b) of
       (Some s, Some t) \<Rightarrow> st_Dev s = st_Dev t \<and> st_Ino s = st_Ino t
     | _ \<Rightarrow> False)"

subsection \<open>Trusted files and directories\<close>

text \<open>The permission bits \<open>0o600\<close>, \<open>0o700\<close> and \<open>0o022\<close>.\<close>

definition filePermission :: u32 where "filePermission = 6 * 64"
definition ownerOnly :: u32 where "ownerOnly = 7 * 64"
definition othersWrite :: u32 where "othersWrite = 2 * 8 + 2"


definition validateOwnedDirectory :: "'w primitives \<Rightarrow> string \<Rightarrow> file_info \<Rightarrow> bool \<Rightarrow> file_error option" where
  "validateOwnedDirectory fp path info final =
    first_err
     [reject (\<not> fi_IsDir info \<or> fi_Symlink info) InvalidRecord,
      reject (fi_Perm info AND othersWrite \<noteq> 0) InvalidRecord,
      (case ownerUID fp path info of
         Inl e \<Rightarrow> Some e
       | Inr owner \<Rightarrow>
         let trustedRootAncestor = \<not> final \<and> effectiveUID fp \<noteq> 0 \<and> owner = 0
         in reject (owner \<noteq> effectiveUID fp \<and> \<not> trustedRootAncestor) InvalidRecord)]"

definition validateOwnedRegularFile :: "'w primitives \<Rightarrow> string \<Rightarrow> file_info \<Rightarrow> file_error option" where
  "validateOwnedRegularFile fp path info =
    first_err
     [reject (\<not> fi_IsRegular info \<or> fi_Symlink info) InvalidRecord,
      reject (fi_Perm info \<noteq> filePermission) InvalidRecord,
      (case ownerUID fp path info of
         Inl e \<Rightarrow> Some e
       | Inr owner \<Rightarrow> reject (owner \<noteq> effectiveUID fp) InvalidRecord)]"

text \<open>The open object and the one that its path names now are the same inode, and owned.\<close>

definition same_object_error :: "'w primitives \<Rightarrow> string \<Rightarrow> file_info \<Rightarrow> file_info \<Rightarrow> file_error option" where
  "same_object_error fp path handleInfo pathInfo =
    (case ownerUID fp path handleInfo of
       Inl e \<Rightarrow> Some e
     | Inr handleOwner \<Rightarrow>
       (case ownerUID fp path pathInfo of
          Inl e \<Rightarrow> Some e
        | Inr pathOwner \<Rightarrow> first_err
           [reject (handleOwner \<noteq> effectiveUID fp \<or> pathOwner \<noteq> effectiveUID fp) InvalidRecord,
            reject (\<not> SameFile handleInfo pathInfo) InvalidRecord]))"

definition validatePathMatchesHandle :: "'w primitives \<Rightarrow> string \<Rightarrow> handle \<Rightarrow> ('w, unit) io" where
  "validatePathMatchesHandle fp path h =
    io_bind (sys (sys_fstat fp h)) (\<lambda>handleInfo.
    io_bind (io_wrap InvalidRecord (sys (lstat fp path))) (\<lambda>pathInfo.
      io_check (same_object_error fp path handleInfo pathInfo) (io_return ())))"

text \<open>\<open>fstatat\<close> relative to the held directory, without following a link. Its \<open>Stat_t\<close> is always there.\<close>

definition named_state_error :: "'w primitives \<Rightarrow> file_identity \<Rightarrow> file_info \<Rightarrow> file_error option" where
  "named_state_error fp expected info =
    first_err
     [reject (\<not> fi_IsRegular info \<or> fi_Perm info \<noteq> filePermission) InvalidRecord,
      (case fi_Stat info of
         None \<Rightarrow> Some InvalidRecord
       | Some st \<Rightarrow> first_err
          [reject (st_Uid st \<noteq> effectiveUID fp) InvalidRecord,
           reject (\<lparr>id_device = st_Dev st, id_inode = st_Ino st\<rparr> \<noteq> expected) InvalidRecord])]"

definition validateNamedStateIdentity :: "'w primitives \<Rightarrow> handle \<Rightarrow> string \<Rightarrow> file_identity \<Rightarrow> ('w, unit) io" where
  "validateNamedStateIdentity fp d name expected =
    io_bind (io_wrap InvalidRecord (sys (sys_fstatAt fp d name))) (\<lambda>info.
      io_check (named_state_error fp expected info) (io_return ()))"

subsection \<open>Directories\<close>

fun chain_from :: "string \<Rightarrow> string list \<Rightarrow> string list" where
  "chain_from current [] = []"
| "chain_from current (c # cs) = (let p = filepath_Join [current, c] in p # chain_from p cs)"

definition absoluteDirectoryChain :: "string \<Rightarrow> file_error + string list" where
  "absoluteDirectoryChain directory =
    (let clean = filepath_Clean directory in
     if \<not> IsAbs clean then Inl InvalidRecord
     else if clean = ''/'' then Inr [''/'']
     else Inr (''/'' # chain_from ''/'' (split_on (CHR ''/'') (tl clean))))"

fun validate_chain :: "'w primitives \<Rightarrow> string list \<Rightarrow> ('w, unit) io" where
  "validate_chain fp [] = io_return ()"
| "validate_chain fp (p # ps) =
    io_bind (sys (lstat fp p)) (\<lambda>info.
      io_check (validateOwnedDirectory fp p info (ps = [])) (validate_chain fp ps))"

definition validateStateDirectoryTree :: "'w primitives \<Rightarrow> string \<Rightarrow> ('w, unit) io" where
  "validateStateDirectoryTree fp directory =
    io_bind (io_lift (absoluteDirectoryChain directory)) (validate_chain fp)"

text \<open>The walk up from a path stops at a component that exists, or where a path is its own parent. The
  parent of a path is shorter, so the length of the path is fuel enough: \<open>missing_fuel\<close> below.\<close>

fun missing_from :: "'w primitives \<Rightarrow> nat \<Rightarrow> string \<Rightarrow> ('w, string list) io" where
  "missing_from fp 0 current = io_fail InvalidRecord"
| "missing_from fp (Suc n) current =
    io_bind (io_try (sys (lstat fp current))) (\<lambda>r.
      case r of
        Inr _ \<Rightarrow> io_return []
      | Inl e \<Rightarrow>
        if NotExist \<notin> set e then io_fail e
        else let parent = filepath_Dir current in
          if parent = current then io_fail InvalidRecord
          else io_bind (missing_from fp n parent) (\<lambda>rest. io_return (current # rest)))"

definition missingDirectoryChain :: "'w primitives \<Rightarrow> string \<Rightarrow> ('w, string list) io" where
  "missingDirectoryChain fp directory =
    (let clean = filepath_Clean directory in missing_from fp (Suc (length clean)) clean)"

definition syncStateDirectory :: "'w primitives \<Rightarrow> string \<Rightarrow> ('w, unit) io" where
  "syncStateDirectory fp directory =
    io_bind (sys (openDirectory fp directory)) (\<lambda>h.
    io_bind (io_try (sys (syncDirectory fp h))) (\<lambda>r.
      case r of
        Inl e \<Rightarrow> io_bind (io_ignore (sys (closeFile fp h))) (\<lambda>_. io_fail e)
      | Inr _ \<Rightarrow> sys (closeFile fp h)))"

fun sync_parents :: "'w primitives \<Rightarrow> string list \<Rightarrow> ('w, unit) io" where
  "sync_parents fp [] = io_return ()"
| "sync_parents fp (p # ps) = io_bind (syncStateDirectory fp (filepath_Dir p)) (\<lambda>_. sync_parents fp ps)"

definition ensureStateDirectory :: "'w primitives \<Rightarrow> string \<Rightarrow> ('w, unit) io" where
  "ensureStateDirectory fp directory =
    io_bind (missingDirectoryChain fp directory) (\<lambda>missing.
    let existing = (if missing = [] then directory else filepath_Dir (last missing)) in
    io_bind (validateStateDirectoryTree fp existing) (\<lambda>_.
    io_bind (sys (mkdirAll fp directory ownerOnly)) (\<lambda>_.
    io_bind (validateStateDirectoryTree fp directory) (\<lambda>_.
      sync_parents fp missing))))"

subsection \<open>Fuel\<close>

text \<open>The characters that a list of path elements needs, with a separator for each.\<close>

definition span :: "string list \<Rightarrow> nat" where
  "span es = sum_list (map (\<lambda>e. if e = [] then 0 else Suc (length e)) es)"

lemma span_simps [simp]: "span [] = 0" "span (e # es) = (if e = [] then 0 else Suc (length e)) + span es"
  "span (es @ fs) = span es + span fs" "span (rev es) = span es"
  by (simp_all add: span_def rev_map [symmetric])

lemma clean_elems_span: "span (clean_elems rooted st es) \<le> span st + span es"
proof (induction rooted st es rule: clean_elems.induct)
  case (2 rooted st e es)
  then show ?case by (cases st) (auto split: if_splits)
qed simp

lemma clean_elems_nonempty: "[] \<notin> set st \<Longrightarrow> [] \<notin> set (clean_elems rooted st es)"
proof (induction rooted st es rule: clean_elems.induct)
  case (2 rooted st e es)
  then show ?case by (cases st) auto
qed simp

lemma join_length: "[] \<notin> set es \<Longrightarrow> length (join_with ''/'' es) = span es - 1"
  by (induction es rule: induct_list012) auto

lemma split_span: "span (split_on c p) \<le> Suc (length p)"
proof -
  have "sum_list (map (\<lambda>e. Suc (length e)) (split_on c p)) = Suc (length p)"
    by (induction p) (auto split: list.splits)
  moreover have "span es \<le> sum_list (map (\<lambda>e. Suc (length e)) es)" for es :: "string list"
    by (induction es) auto
  ultimately show ?thesis by metis
qed

lemma split_span_sep: "span (split_on c (p @ [c])) = span (split_on c p)"
proof -
  have "split_on c (p @ [c]) = split_on c p @ [[]]"
    by (induction p) (auto split: list.splits)
  then show ?thesis by simp
qed

lemma cleaned_length:
  "length (filepath_Clean p) \<le> (if IsAbs p then Suc (span (split_on (CHR ''/'') p) - 1) else max 1 (span (split_on (CHR ''/'') p) - 1))"
proof -
  let ?es = "clean_elems (IsAbs p) [] (split_on (CHR ''/'') p)"
  have "length (join_with ''/'' ?es) = span ?es - 1" by (rule join_length) (simp add: clean_elems_nonempty)
  also have "\<dots> \<le> span (split_on (CHR ''/'') p) - 1"
    using clean_elems_span [of "IsAbs p" "[]" "split_on (CHR ''/'') p"] by simp
  finally show ?thesis by (auto simp: filepath_Clean_def Let_def)
qed

lemma rooted_span: "span (split_on (CHR ''/'') (CHR ''/'' # q)) \<le> Suc (length q)"
  using split_on_append [of "CHR ''/''" "[]" q] split_span [of "CHR ''/''" q] by simp

text \<open>A parent is shorter than its path, unless it is the path or the working directory.\<close>

lemma parent_shorter:
  assumes "p \<noteq> []" and "filepath_Dir p \<noteq> p"
  shows "length (filepath_Dir p) < length p \<or> filepath_Dir p = ''.''"
proof (cases "CHR ''/'' \<in> set p")
  case False
  then have none: "dropWhile (\<lambda>c. c \<noteq> CHR ''/'') (rev p) = []" by auto
  show ?thesis unfolding filepath_Dir_def none by (simp add: filepath_Clean_def IsAbs_def)
next
  case True
  then obtain a b where p: "p = a @ CHR ''/'' # b" "CHR ''/'' \<notin> set b" using split_list_last by fast
  have "dropWhile (\<lambda>c. c \<noteq> CHR ''/'') (rev p) = CHR ''/'' # rev a"
    using p(2) by (simp add: p(1) dropWhile_append3) (metis dropWhile_append3 dropWhile.simps(2) set_rev)
  then have dir: "filepath_Dir p = filepath_Clean (a @ [CHR ''/''])" by (simp add: filepath_Dir_def)
  have sp: "span (split_on (CHR ''/'') (a @ [CHR ''/''])) = span (split_on (CHR ''/'') a)" by (rule split_span_sep)
  show ?thesis
  proof (cases a)
    case Nil
    then have "filepath_Dir p = ''/''" by (simp add: dir filepath_Clean_def IsAbs_def)
    then show ?thesis using assms(2) Nil p(1) by (cases b) auto
  next
    case (Cons c q)
    have "length (filepath_Dir p) \<le> length a"
    proof (cases "IsAbs a")
      case True
      then have "c = CHR ''/''" by (simp add: Cons IsAbs_def)
      then show ?thesis using cleaned_length [of "a @ [CHR ''/'']"] sp rooted_span [of q] Cons
        by (simp add: dir IsAbs_def)
    next
      case False
      then show ?thesis using cleaned_length [of "a @ [CHR ''/'']"] sp split_span [of "CHR ''/''" a] Cons
        by (simp add: dir IsAbs_def)
    qed
    then show ?thesis by (simp add: p(1))
  qed
qed

text \<open>More fuel than one above the length of the path makes no difference.\<close>

lemma missing_fuel_step:
  assumes "p \<noteq> []" and "p = ''.'' \<and> 1 \<le> n \<or> Suc (length p) \<le> n"
  shows "missing_from fp (n + k) p w = missing_from fp n p w"
  using assms
proof (induction n arbitrary: p w)
  case (Suc n)
  have dot: "filepath_Dir ''.'' = ''.''" by (simp add: filepath_Dir_def filepath_Clean_def IsAbs_def)
  have rest: "missing_from fp (n + k) (filepath_Dir p) x = missing_from fp n (filepath_Dir p) x"
    if "filepath_Dir p \<noteq> p" for x
  proof (rule Suc.IH)
    show "filepath_Dir p \<noteq> []" by (simp add: filepath_Dir_def filepath_Clean_def Let_def)
    show "filepath_Dir p = ''.'' \<and> 1 \<le> n \<or> Suc (length (filepath_Dir p)) \<le> n"
      using parent_shorter [OF Suc.prems(1) that] Suc.prems dot that by (cases p) auto
  qed
  show ?case using rest by (auto simp: io_bind_def Let_def split: prod.split sum.split)
qed auto

lemma missing_fuel:
  assumes "Suc (length (filepath_Clean p)) \<le> n"
  shows "missing_from fp n (filepath_Clean p) = missingDirectoryChain fp p"
proof
  fix w
  have "filepath_Clean p \<noteq> []" by (simp add: filepath_Clean_def Let_def)
  then have "missing_from fp (Suc (length (filepath_Clean p)) + (n - Suc (length (filepath_Clean p)))) (filepath_Clean p) w
      = missing_from fp (Suc (length (filepath_Clean p))) (filepath_Clean p) w"
    by (rule missing_fuel_step) simp
  then show "missing_from fp n (filepath_Clean p) w = missingDirectoryChain fp p w"
    using assms by (simp add: missingDirectoryChain_def Let_def)
qed

end
