(* ===== verification/File_Store.thy ===== *)
theory File_Store
  imports File_Payload File_System
begin

text \<open>
  \<open>FileStore\<close> of \<open>internal/state/file.go\<close>: the lock on the state path, the load of the state file, its
  atomic replacement, and the store itself, whose updates reach the disk before they become visible.
\<close>

subsection \<open>Locks\<close>

definition closing :: "'w primitives \<Rightarrow> handle \<Rightarrow> ('w, 'a) io \<Rightarrow> ('w, 'a) io" where
  "closing fp h m = io_finally m (sys (sys_close fp h))"

text \<open>Both releases unlock and close, and join the errors of the two.\<close>

definition release_handle :: "'w primitives \<Rightarrow> handle option \<Rightarrow> ('w, unit) io" where
  "release_handle fp h =
    (case h of
       None \<Rightarrow> io_return ()
     | Some h \<Rightarrow>
       io_bind (io_try (sys (sys_unlock fp h))) (\<lambda>u.
       io_bind (io_try (sys (sys_close fp h))) (\<lambda>c.
         case (u, c) of
           (Inr _, Inr _) \<Rightarrow> io_return ()
         | _ \<Rightarrow> io_fail ((case u of Inl e \<Rightarrow> e | Inr _ \<Rightarrow> []) @ (case c of Inl e \<Rightarrow> e | Inr _ \<Rightarrow> [])))))"

definition releaseStateFileLock :: "'w primitives \<Rightarrow> handle option \<Rightarrow> ('w, unit) io" where
  "releaseStateFileLock = release_handle"

definition releaseLockedStateDirectory :: "'w primitives \<Rightarrow> handle option \<Rightarrow> ('w, unit) io" where
  "releaseLockedStateDirectory = release_handle"

text \<open>A lock that another process holds is reported as such.\<close>

definition lock_error :: "file_error \<Rightarrow> file_error" where
  "lock_error e = (if WouldBlock \<in> set e then [ErrFileStoreLocked] else e)"

definition take_lock :: "'w primitives \<Rightarrow> handle \<Rightarrow> ('w, unit) io" where
  "take_lock fp h =
    io_bind (io_try (sys (sys_lock fp h))) (\<lambda>r.
      case r of
        Inr _ \<Rightarrow> io_return ()
      | Inl e \<Rightarrow> io_bind (io_try (sys (sys_close fp h))) (\<lambda>c.
          io_fail (lock_error e @ (case c of Inl e' \<Rightarrow> e' | Inr _ \<Rightarrow> []))))"

definition link_error :: "file_error \<Rightarrow> file_error" where
  "link_error e = (if TooManyLinks \<in> set e then InvalidRecord else e)"

definition io_map_error :: "(file_error \<Rightarrow> file_error) \<Rightarrow> ('w, 'a) io \<Rightarrow> ('w, 'a) io" where
  "io_map_error f m w = (case m w of (ws, w1, r) \<Rightarrow> (ws, w1, map_sum f id r))"

definition acquireStateFileLock :: "'w primitives \<Rightarrow> string \<Rightarrow> ('w, handle) io" where
  "acquireStateFileLock fp lockPath =
    io_bind (io_map_error link_error (sys (sys_openLock fp lockPath))) (\<lambda>h.
    io_bind (closing fp h (io_bind (sys (sys_fstat fp h)) (\<lambda>info.
      io_check (validateOwnedRegularFile fp lockPath info) (validatePathMatchesHandle fp lockPath h)))) (\<lambda>_.
    io_bind (take_lock fp h) (\<lambda>_.
    io_bind (io_finally (validatePathMatchesHandle fp lockPath h) (releaseStateFileLock fp (Some h))) (\<lambda>_.
      io_return h))))"

definition openLockedStateDirectory :: "'w primitives \<Rightarrow> string \<Rightarrow> ('w, handle) io" where
  "openLockedStateDirectory fp directory =
    io_bind (sys (openDirectory fp directory)) (\<lambda>h.
    io_bind (closing fp h (io_bind (sys (sys_fstat fp h)) (\<lambda>info.
      io_check (validateOwnedDirectory fp directory info True) (io_return ())))) (\<lambda>_.
    io_bind (take_lock fp h) (\<lambda>_.
    io_bind (io_finally (validatePathMatchesHandle fp directory h) (releaseLockedStateDirectory fp (Some h))) (\<lambda>_.
      io_return h))))"

subsection \<open>Loading\<close>

definition no_identity :: file_identity where
  "no_identity = \<lparr>id_device = 0, id_inode = 0\<rparr>"

definition store_cause :: "st_error + 'a \<Rightarrow> file_error + 'a" where
  "store_cause r = map_sum (\<lambda>e. [StoreCause e]) id r"

text \<open>The bytes of an existing state file, read through one handle and checked against its name.\<close>

definition read_state :: "'w primitives \<Rightarrow> handle \<Rightarrow> string \<Rightarrow> string \<Rightarrow> handle \<Rightarrow> ('w, string \<times> file_identity) io" where
  "read_state fp d name path h =
    io_bind (closing fp h (io_bind (sys (sys_fstat fp h)) (\<lambda>info.
      io_check (validateOwnedRegularFile fp path info)
      (io_check (reject (fi_Size info < 0 \<or> MaxEnvelopeBytes < fi_Size info) InvalidRecord)
      (io_bind (io_lift (identityFromFileInfo path info)) (\<lambda>identity.
       io_bind (sys (sys_read fp h (MaxEnvelopeBytes + 1))) (\<lambda>encoded.
       io_check (reject (MaxEnvelopeBytes < int (length encoded)) InvalidRecord)
         (io_return (encoded, identity))))))))) (\<lambda>(encoded, identity).
    io_bind (sys (sys_close fp h)) (\<lambda>_.
    io_bind (validateNamedStateIdentity fp d name identity) (\<lambda>_.
      io_return (encoded, identity))))"

record loaded_state =
  ld_data :: memory_data
  ld_identity :: file_identity
  ld_exists :: bool
  ld_schema :: u32

definition loadFileData :: "'w primitives \<Rightarrow> codec \<Rightarrow> handle \<Rightarrow> string \<Rightarrow> string \<Rightarrow> ('w, loaded_state) io" where
  "loadFileData fp c d name path =
    io_bind (io_try (sys (sys_openAt fp d name))) (\<lambda>opened.
      case opened of
        Inl e \<Rightarrow>
          if NotExist \<in> set e
          then io_return \<lparr>ld_data = newMemoryData, ld_identity = no_identity, ld_exists = False, ld_schema = currentFileSchemaVersion\<rparr>
          else io_fail (link_error e)
      | Inr h \<Rightarrow>
          io_bind (read_state fp d name path h) (\<lambda>(encoded, identity).
          io_bind (io_lift (store_cause (decodeFileEnvelope c encoded))) (\<lambda>(schema, p).
          io_bind (io_lift (store_cause (memoryDataFromPayload p schema))) (\<lambda>data.
            io_return \<lparr>ld_data = data, ld_identity = identity, ld_exists = True, ld_schema = schema\<rparr>))))"

subsection \<open>Replacing the state file\<close>

definition temporaryNameAttempts :: nat where "temporaryNameAttempts = 128"

text \<open>A name that is taken is tried again under another one.\<close>

fun create_temporary :: "'w primitives \<Rightarrow> nat \<Rightarrow> handle \<Rightarrow> string \<Rightarrow> ('w, handle \<times> string) io" where
  "create_temporary fp 0 d stem = io_fail [OtherCause ''temporary state name collision limit reached'']"
| "create_temporary fp (Suc n) d stem =
    io_bind (sys (sys_random fp 12)) (\<lambda>random.
    let name = stem @ hex_EncodeToString (bytes_of random) in
    io_bind (io_try (sys (sys_createAt fp d name))) (\<lambda>r.
      case r of
        Inr h \<Rightarrow> io_return (h, name)
      | Inl e \<Rightarrow> if AlreadyExists \<in> set e then create_temporary fp n d stem else io_fail e))"

definition createTemporaryStateFile :: "'w primitives \<Rightarrow> handle \<Rightarrow> string \<Rightarrow> ('w, handle \<times> string) io" where
  "createTemporaryStateFile fp d stem = create_temporary fp temporaryNameAttempts d stem"

text \<open>The default of \<open>writeFile\<close>: short writes are continued until every byte is written. \<open>wr\<close> is
  \<open>os.File.Write\<close>, which tells how many bytes it wrote.\<close>

fun writeEntireFile :: "(string \<Rightarrow> ('w, nat) primitive) \<Rightarrow> string \<Rightarrow> ('w, unit) primitive" where
  "writeEntireFile wr encoded w =
    (if encoded = [] then (w, Inr ())
     else (case wr encoded w of
        (w1, Inl e) \<Rightarrow> (w1, Inl e)
      | (w1, Inr n) \<Rightarrow>
        if n = 0 then (w1, Inl [OtherCause ''short write'']) else writeEntireFile wr (drop n encoded) w1))"

declare writeEntireFile.simps [simp del]

text \<open>Up to the close of the temporary file, and what follows the rename.\<close>

definition write_temporary :: "'w primitives \<Rightarrow> handle \<Rightarrow> string \<Rightarrow> string \<Rightarrow> ('w, file_identity) io" where
  "write_temporary fp h name encoded =
    io_bind (sys (chmodFile fp h filePermission)) (\<lambda>_.
    io_bind (sys (writeFile fp h encoded)) (\<lambda>_.
    io_bind (sys (syncFile fp h)) (\<lambda>_.
    io_bind (sys (sys_fstat fp h)) (\<lambda>info.
    io_check (validateOwnedRegularFile fp name info)
      (io_lift (identityFromFileInfo name info))))))"

definition syncOpenStateDirectory :: "'w primitives \<Rightarrow> handle \<Rightarrow> ('w, unit) io" where
  "syncOpenStateDirectory fp d = sys (syncDirectory fp d)"

definition confirm_rename :: "'w primitives \<Rightarrow> handle \<Rightarrow> string \<Rightarrow> string \<Rightarrow> file_identity \<Rightarrow> ('w, unit) io" where
  "confirm_rename fp d name path identity =
    io_bind (validateStateDirectoryTree fp (filepath_Dir path)) (\<lambda>_.
    io_bind (validatePathMatchesHandle fp (filepath_Dir path) d) (\<lambda>_.
    io_bind (validateNamedStateIdentity fp d name identity) (\<lambda>_.
    io_bind (syncOpenStateDirectory fp d) (\<lambda>_.
      validatePathMatchesHandle fp (filepath_Dir path) d))))"

text \<open>The result: the identity, whether the rename was done, and the error.\<close>

type_synonym replaced = "file_identity \<times> bool \<times> file_error option"

text \<open>The deferred clean-up removes the temporary name, and closes the file if nothing has yet.\<close>

definition removing :: "'w primitives \<Rightarrow> handle \<Rightarrow> string \<Rightarrow> replaced \<Rightarrow> ('w, replaced) io" where
  "removing fp d tmp result = io_bind (io_ignore (sys (removeAt fp d tmp))) (\<lambda>_. io_return result)"

definition replaceStateFile :: "'w primitives \<Rightarrow> handle \<Rightarrow> string \<Rightarrow> string \<Rightarrow> string \<Rightarrow> ('w, replaced) io" where
  "replaceStateFile fp d name path encoded =
    io_bind (io_try (createTemporaryStateFile fp d (''.'' @ name @ ''.tmp-''))) (\<lambda>created.
      case created of
        Inl e \<Rightarrow> io_return (no_identity, False, Some e)
      | Inr (h, tmp) \<Rightarrow>
        io_bind (io_try (write_temporary fp h (filepath_Join [filepath_Dir path, tmp]) encoded)) (\<lambda>written.
          case written of
            Inl e \<Rightarrow> io_bind (io_ignore (sys (closeFile fp h))) (\<lambda>_. removing fp d tmp (no_identity, False, Some e))
          | Inr identity \<Rightarrow>
            io_bind (io_try (sys (closeFile fp h))) (\<lambda>closed.
              case closed of
                Inl e \<Rightarrow> removing fp d tmp (no_identity, False, Some e)
              | Inr _ \<Rightarrow>
                io_bind (io_try (sys (renameAt fp d tmp name))) (\<lambda>renamed.
                  case renamed of
                    Inl e \<Rightarrow> removing fp d tmp (no_identity, False, Some e)
                  | Inr _ \<Rightarrow>
                    io_bind (io_try (confirm_rename fp d name path identity)) (\<lambda>confirmed.
                      removing fp d tmp (identity, True, case confirmed of Inl e \<Rightarrow> Some e | Inr _ \<Rightarrow> None))))))"

definition persistFileData :: "'w primitives \<Rightarrow> codec \<Rightarrow> handle \<Rightarrow> string \<Rightarrow> string \<Rightarrow> memory_data \<Rightarrow> ('w, replaced) io" where
  "persistFileData fp c d name path candidate =
    (case store_cause (encodeFileData c candidate) of
       Inl e \<Rightarrow> io_return (no_identity, False, Some e)
     | Inr encoded \<Rightarrow> replaceStateFile fp d name path encoded)"


subsection \<open>The store\<close>

record file_store =
  fs_data :: memory_data
  fs_path :: string
  fs_directoryPath :: string
  fs_stateName :: string
  fs_lockPath :: string
  fs_stateIdentity :: file_identity
  fs_directoryHandle :: "handle option"
  fs_lockHandle :: "handle option"
  fs_retention :: retention_policy
  fs_poisoned :: "file_error option"
  fs_closed :: bool

definition io_both :: "('w, unit) io \<Rightarrow> ('w, unit) io \<Rightarrow> ('w, unit) io" where
  "io_both a b =
    io_bind (io_try a) (\<lambda>r. io_bind (io_try b) (\<lambda>q.
      case (r, q) of
        (Inr _, Inr _) \<Rightarrow> io_return ()
      | _ \<Rightarrow> io_fail ((case r of Inl e \<Rightarrow> e | Inr _ \<Rightarrow> []) @ (case q of Inl e \<Rightarrow> e | Inr _ \<Rightarrow> []))))"

text \<open>A handle of an open store is never nil.\<close>

definition with_handle :: "handle option \<Rightarrow> (handle \<Rightarrow> ('w, 'a) io) \<Rightarrow> ('w, 'a) io" where
  "with_handle h m = (case h of None \<Rightarrow> io_fail [OtherCause ''invalid argument''] | Some h \<Rightarrow> m h)"

definition unavailableError :: "file_store \<Rightarrow> file_error option" where
  "unavailableError s = (if fs_closed s then Some [ErrFileStoreClosed] else fs_poisoned s)"

definition validateFilesystemIdentity :: "'w primitives \<Rightarrow> file_store \<Rightarrow> ('w, unit) io" where
  "validateFilesystemIdentity fp s =
    io_bind (validateStateDirectoryTree fp (fs_directoryPath s)) (\<lambda>_.
    io_bind (with_handle (fs_directoryHandle s) (validatePathMatchesHandle fp (fs_directoryPath s))) (\<lambda>_.
    io_bind (io_wrap InvalidRecord (sys (lstat fp (fs_lockPath s)))) (\<lambda>lockInfo.
    io_check (validateOwnedRegularFile fp (fs_lockPath s) lockInfo)
    (io_bind (with_handle (fs_lockHandle s) (validatePathMatchesHandle fp (fs_lockPath s))) (\<lambda>_.
      with_handle (fs_directoryHandle s) (\<lambda>d.
        validateNamedStateIdentity fp d (fs_stateName s) (fs_stateIdentity s)))))))"

subsection \<open>Opening\<close>

text \<open>A failure after the rename leaves it open what a restart will find.\<close>

definition uncertain :: "bool \<Rightarrow> file_error \<Rightarrow> file_error" where
  "uncertain renamed e = (if renamed then ErrDurabilityUncertain # e else e)"

definition persisted :: "replaced \<Rightarrow> ('w, file_identity) io" where
  "persisted result =
    (case result of
       (identity, renamed, Some e) \<Rightarrow> io_fail (uncertain renamed e)
     | (identity, renamed, None) \<Rightarrow> io_return identity)"

text \<open>A new state file is written; an old one is brought up to date, or its directory confirmed.\<close>

definition settle_loaded :: "'w primitives \<Rightarrow> codec \<Rightarrow> retention_policy \<Rightarrow> handle \<Rightarrow> string \<Rightarrow> string \<Rightarrow> loaded_state
    \<Rightarrow> ('w, memory_data \<times> file_identity) io" where
  "settle_loaded fp c policy d name path ld =
    (if \<not> ld_exists ld
     then io_bind (persistFileData fp c d name path (ld_data ld)) (\<lambda>result.
          io_bind (persisted result) (\<lambda>identity. io_return (ld_data ld, identity)))
     else io_bind (io_lift (store_cause (applyRetention policy (ld_data ld)))) (\<lambda>(data, changed).
       io_check (map_option (\<lambda>e. [StoreCause e]) (data_validate data))
        (if changed \<or> ld_schema ld \<noteq> currentFileSchemaVersion
         then io_bind (persistFileData fp c d name path data) (\<lambda>result.
              io_bind (persisted result) (\<lambda>identity. io_return (data, identity)))
         else io_bind (io_wrap [ErrDurabilityUncertain] (syncOpenStateDirectory fp d)) (\<lambda>_.
              io_return (data, ld_identity ld)))))"

text \<open>\<open>wd\<close> is the working directory, or the error of asking for it.\<close>

definition absolute_path :: "file_error + string \<Rightarrow> string \<Rightarrow> file_error + string" where
  "absolute_path wd path =
    (let clean = filepath_Clean path in
     if IsAbs clean then Inr (filepath_Abs [] clean)
     else (case wd of Inl e \<Rightarrow> Inl e | Inr cwd \<Rightarrow> Inr (filepath_Abs cwd clean)))"

definition open_locked :: "'w primitives \<Rightarrow> codec \<Rightarrow> retention_policy \<Rightarrow> string \<Rightarrow> handle \<Rightarrow> handle \<Rightarrow> ('w, file_store) io" where
  "open_locked fp c policy absolute lockHandle d =
    (let name = filepath_Base absolute in
     io_bind (loadFileData fp c d name absolute) (\<lambda>ld.
     io_bind (settle_loaded fp c policy d name absolute ld) (\<lambda>(data, identity).
     let s = \<lparr>fs_data = data, fs_path = absolute, fs_directoryPath = filepath_Dir absolute, fs_stateName = name,
              fs_lockPath = stateLockPath absolute, fs_stateIdentity = identity, fs_directoryHandle = Some d,
              fs_lockHandle = Some lockHandle, fs_retention = policy, fs_poisoned = None, fs_closed = False\<rparr>
     in io_bind (validateFilesystemIdentity fp s) (\<lambda>_. io_return s))))"

definition NewFileStoreWithRetention ::
    "'w primitives \<Rightarrow> codec \<Rightarrow> file_error + string \<Rightarrow> string \<Rightarrow> retention_policy \<Rightarrow> ('w, file_store) io" where
  "NewFileStoreWithRetention fp c wd path policy =
    io_check (map_option (\<lambda>e. [StoreCause e]) (RetentionPolicy_Validate policy))
    (io_check (reject (TrimSpace path = []) InvalidRecord)
    (io_bind (io_lift (absolute_path wd path)) (\<lambda>absolute.
     io_bind (ensureStateDirectory fp (filepath_Dir absolute)) (\<lambda>_.
     io_bind (acquireStateFileLock fp (stateLockPath absolute)) (\<lambda>lockHandle.
     io_bind (io_finally (openLockedStateDirectory fp (filepath_Dir absolute)) (releaseStateFileLock fp (Some lockHandle))) (\<lambda>d.
       io_finally (open_locked fp c policy absolute lockHandle d)
         (io_both (releaseLockedStateDirectory fp (Some d)) (releaseStateFileLock fp (Some lockHandle)))))))))"

definition NewFileStore :: "'w primitives \<Rightarrow> codec \<Rightarrow> file_error + string \<Rightarrow> string \<Rightarrow> ('w, file_store) io" where
  "NewFileStore fp c wd path = NewFileStoreWithRetention fp c wd path DefaultRetentionPolicy"

subsection \<open>View, Update and Close\<close>

text \<open>The mutex makes each call one step. A call yields the store it leaves and its error.\<close>

definition file_view :: "file_store \<Rightarrow> bool \<Rightarrow> memory_data \<Rightarrow> memory_view" where
  "file_view s rw d =
    \<lparr>mv_data = d, mv_writable = rw, mv_retention = fs_retention s, mv_closed = False\<rparr>"

definition FileStore_View :: "'w primitives \<Rightarrow> file_store \<Rightarrow> bool \<Rightarrow> tx_prog option \<Rightarrow> ('w, unit) io" where
  "FileStore_View fp s cancelled fn =
    (case fn of
       None \<Rightarrow> io_fail [StoreCause ErrNilCallback]
     | Some p \<Rightarrow>
       io_check (reject cancelled [StoreCause ErrContext])
       (io_check (unavailableError s)
       (io_bind (validateFilesystemIdentity fp s) (\<lambda>_.
         case snd (run_tx p (file_view s False (fs_data s))) of
           Some e \<Rightarrow> io_fail [StoreCause (ErrCallback e)]
         | None \<Rightarrow> io_return ()))))"

text \<open>The candidate that is to be written, with every check before the write.\<close>

definition update_candidate :: "'w primitives \<Rightarrow> file_store \<Rightarrow> bool \<Rightarrow> bool \<Rightarrow> tx_prog option \<Rightarrow> ('w, memory_data) io" where
  "update_candidate fp s cancelled cancelled_after fn =
    (case fn of
       None \<Rightarrow> io_fail [StoreCause ErrNilCallback]
     | Some p \<Rightarrow>
       io_check (reject cancelled [StoreCause ErrContext])
       (io_check (unavailableError s)
       (io_bind (validateFilesystemIdentity fp s) (\<lambda>_.
         case run_tx p (file_view s True (data_clone (fs_data s))) of
           (v, Some e) \<Rightarrow> io_fail [StoreCause (ErrCallback e)]
         | (v, None) \<Rightarrow>
           io_check (reject cancelled_after [StoreCause ErrContext])
           (io_bind (io_lift (store_cause (commit (fs_retention s) (mv_data v)))) (\<lambda>d.
            io_bind (validateFilesystemIdentity fp s) (\<lambda>_. io_return d)))))))"

definition FileStore_Update :: "'w primitives \<Rightarrow> codec \<Rightarrow> file_store \<Rightarrow> bool \<Rightarrow> bool \<Rightarrow> tx_prog option
    \<Rightarrow> ('w, file_store \<times> file_error option) io" where
  "FileStore_Update fp c s cancelled cancelled_after fn =
    io_bind (io_try (update_candidate fp s cancelled cancelled_after fn)) (\<lambda>r.
      case r of
        Inl e \<Rightarrow> io_return (s, Some e)
      | Inr d \<Rightarrow>
        io_bind (io_try (with_handle (fs_directoryHandle s) (\<lambda>h.
            persistFileData fp c h (fs_stateName s) (fs_path s) d))) (\<lambda>r.
          case r of
            Inl e \<Rightarrow> io_return (s, Some e)
          | Inr (identity, renamed, None) \<Rightarrow> io_return (s\<lparr>fs_data := d, fs_stateIdentity := identity\<rparr>, None)
          | Inr (identity, renamed, Some e) \<Rightarrow>
              if renamed then io_return (s\<lparr>fs_poisoned := Some (ErrDurabilityUncertain # e)\<rparr>, Some (ErrDurabilityUncertain # e))
              else io_return (s, Some e)))"

definition FileStore_Close :: "'w primitives \<Rightarrow> file_store \<Rightarrow> ('w, file_store \<times> file_error option) io" where
  "FileStore_Close fp s =
    (if fs_closed s then io_return (s, None)
     else io_bind (io_try (io_both (releaseLockedStateDirectory fp (fs_directoryHandle s))
              (releaseStateFileLock fp (fs_lockHandle s)))) (\<lambda>r.
       io_return (s\<lparr>fs_closed := True, fs_directoryHandle := None, fs_lockHandle := None\<rparr>,
         case r of Inl e \<Rightarrow> Some e | Inr _ \<Rightarrow> None)))"

end
