(* ===== verification/File_Crash.thy ===== *)
theory File_Crash
  imports File_Store
begin

text \<open>
  The replacement of the state file when the machine may stop at any moment. What is on the disk is
  seen through \<open>dk\<close>: the names in the state directory, the entries that a power loss may leave of each, and
  the bytes of the inodes, which are certain once they are synced. \<open>posix\<close> states what the operating system
  documents of the primitives.
\<close>

subsection \<open>Running an effect\<close>

text \<open>\<open>outcome C m w Q E\<close>: every world that \<open>m\<close> goes through from \<open>w\<close> satisfies \<open>C\<close>, and it ends with a
  result in \<open>Q\<close> or with an error in \<open>E\<close>.\<close>

definition outcome :: "('w \<Rightarrow> bool) \<Rightarrow> ('w, 'a) io \<Rightarrow> 'w \<Rightarrow> ('a \<Rightarrow> 'w \<Rightarrow> bool) \<Rightarrow> ('w \<Rightarrow> bool) \<Rightarrow> bool" where
  "outcome C m w Q E \<longleftrightarrow>
    (case m w of (ws, w1, r) \<Rightarrow> (\<forall>x \<in> set ws. C x) \<and> (case r of Inr a \<Rightarrow> Q a w1 | Inl _ \<Rightarrow> E w1))"

lemma outcome_return [simp]: "outcome C (io_return a) w Q E \<longleftrightarrow> Q a w"
  by (simp add: outcome_def io_return_def)

lemma outcome_fail [simp]: "outcome C (io_fail e) w Q E \<longleftrightarrow> E w"
  by (simp add: outcome_def io_fail_def)

lemma outcome_lift: "outcome C (io_lift r) w Q E \<longleftrightarrow> (case r of Inr a \<Rightarrow> Q a w | Inl _ \<Rightarrow> E w)"
  by (simp add: outcome_def io_lift_def)

lemma outcome_sys:
  "outcome C (sys f) w Q E \<longleftrightarrow> (case f w of (w1, r) \<Rightarrow> C w1 \<and> (case r of Inr a \<Rightarrow> Q a w1 | Inl _ \<Rightarrow> E w1))"
  by (simp add: outcome_def sys_def split: prod.split)

lemma outcome_bind:
  assumes "outcome C m w Q E" and "\<And>a w1. Q a w1 \<Longrightarrow> outcome C (f a) w1 R E"
  shows "outcome C (io_bind m f) w R E"
proof -
  obtain ws w1 r where m: "m w = (ws, w1, r)" by (cases "m w")
  show ?thesis
  proof (cases r)
    case (Inl e)
    then show ?thesis using assms(1) by (simp add: outcome_def io_bind_def m)
  next
    case (Inr a)
    then have "outcome C (f a) w1 R E" using assms m by (simp add: outcome_def)
    then show ?thesis using assms(1) Inr by (auto simp: outcome_def io_bind_def m split: prod.splits)
  qed
qed

lemma outcome_try_bind:
  assumes "outcome C m w Q F" and "\<And>a w1. Q a w1 \<Longrightarrow> outcome C (f (Inr a)) w1 R E"
    and "\<And>e w1. F w1 \<Longrightarrow> outcome C (f (Inl e)) w1 R E"
  shows "outcome C (io_bind (io_try m) f) w R E"
proof (rule outcome_bind)
  show "outcome C (io_try m) w (\<lambda>r x. case r of Inr a \<Rightarrow> Q a x | Inl _ \<Rightarrow> F x) E"
    using assms(1) by (auto simp: outcome_def io_try_def split: prod.splits sum.splits)
  show "outcome C (f r) w1 R E" if "case r of Inr a \<Rightarrow> Q a w1 | Inl _ \<Rightarrow> F w1" for r w1
    using that assms(2,3) by (cases r) simp_all
qed

lemma outcome_check: "outcome C (io_check e m) w Q E \<longleftrightarrow> (case e of None \<Rightarrow> outcome C m w Q E | Some _ \<Rightarrow> E w)"
  by (simp add: io_check_def split: option.split)

lemma outcome_wrap: "outcome C (io_wrap e m) w Q E \<longleftrightarrow> outcome C m w Q E"
  by (auto simp: outcome_def io_wrap_def split: prod.splits sum.splits)

lemma outcome_weaken:
  assumes "outcome C m w Q E" and "\<And>x. C x \<Longrightarrow> D x" and "\<And>a x. Q a x \<Longrightarrow> R a x" and "\<And>x. E x \<Longrightarrow> F x"
  shows "outcome D m w R F"
  using assms by (auto simp: outcome_def split: prod.splits sum.splits)

lemma outcome_grow: "outcome C m w Q E \<Longrightarrow> (\<And>x. C x \<Longrightarrow> D x) \<Longrightarrow> outcome D m w Q E"
  by (rule outcome_weaken)

subsection \<open>The disk\<close>

record 'w disk =
  dk_entry :: "'w \<Rightarrow> string \<Rightarrow> nat option"
  dk_stored :: "'w \<Rightarrow> string \<Rightarrow> nat option set"
  dk_bytes :: "'w \<Rightarrow> nat \<Rightarrow> string"
  dk_synced :: "'w \<Rightarrow> nat \<Rightarrow> bool"
  dk_inode :: "'w \<Rightarrow> handle \<Rightarrow> nat"

text \<open>What a power loss may leave under a name: no file, or an inode, whose bytes are only certain when
  they had been synced.\<close>

definition survivors :: "'w disk \<Rightarrow> 'w \<Rightarrow> string \<Rightarrow> string option set" where
  "survivors dk w name =
    {c. \<exists>e \<in> dk_stored dk w name. (case e of
          None \<Rightarrow> c = None
        | Some i \<Rightarrow> c \<noteq> None \<and> (dk_synced dk w i \<longrightarrow> c = Some (dk_bytes dk w i)))}"

text \<open>A primitive that neither writes a file nor changes the directory.\<close>

definition same_disk :: "'w disk \<Rightarrow> 'w \<Rightarrow> 'w \<Rightarrow> bool" where
  "same_disk dk w w1 \<longleftrightarrow>
     dk_entry dk w1 = dk_entry dk w \<and> dk_stored dk w1 = dk_stored dk w \<and> dk_bytes dk w1 = dk_bytes dk w
     \<and> dk_synced dk w1 = dk_synced dk w \<and> dk_inode dk w1 = dk_inode dk w"

definition quiet :: "'w disk \<Rightarrow> ('w, 'a) primitive \<Rightarrow> bool" where
  "quiet dk f \<longleftrightarrow> (\<forall>w. same_disk dk w (fst (f w)))"

definition other_inodes_kept :: "'w disk \<Rightarrow> nat \<Rightarrow> 'w \<Rightarrow> 'w \<Rightarrow> bool" where
  "other_inodes_kept dk i w w1 \<longleftrightarrow>
     (\<forall>j. j \<noteq> i \<longrightarrow> dk_bytes dk w1 j = dk_bytes dk w j \<and> dk_synced dk w1 j = dk_synced dk w j)"

definition fresh_inode :: "'w disk \<Rightarrow> 'w \<Rightarrow> nat \<Rightarrow> bool" where
  "fresh_inode dk w i \<longleftrightarrow> (\<forall>m. Some i \<notin> dk_stored dk w m \<and> dk_entry dk w m \<noteq> Some i)"

text \<open>\<open>O_EXCL\<close>: a new file gets a new, empty inode and a name that was free.\<close>

definition creates :: "'w disk \<Rightarrow> string \<Rightarrow> ('w, handle) primitive \<Rightarrow> bool" where
  "creates dk name f \<longleftrightarrow> (\<forall>w. case f w of
      (w1, Inl _) \<Rightarrow> same_disk dk w w1
    | (w1, Inr h) \<Rightarrow>
        let i = dk_inode dk w1 h in
        fresh_inode dk w i \<and> other_inodes_kept dk i w w1 \<and> dk_bytes dk w1 i = []
        \<and> dk_entry dk w name = None \<and> dk_entry dk w1 = (dk_entry dk w)(name \<mapsto> i)
        \<and> (\<forall>m. m \<noteq> name \<longrightarrow> dk_stored dk w1 m = dk_stored dk w m))"

text \<open>A write reaches the inode of its handle and nothing else; a sync makes its bytes certain.\<close>

definition writes :: "'w disk \<Rightarrow> handle \<Rightarrow> string \<Rightarrow> ('w, unit) primitive \<Rightarrow> bool" where
  "writes dk h encoded f \<longleftrightarrow> (\<forall>w. case f w of (w1, r) \<Rightarrow>
      dk_entry dk w1 = dk_entry dk w \<and> dk_stored dk w1 = dk_stored dk w \<and> dk_inode dk w1 = dk_inode dk w
      \<and> other_inodes_kept dk (dk_inode dk w h) w w1
      \<and> (r = Inr () \<longrightarrow> dk_bytes dk w1 (dk_inode dk w h) = dk_bytes dk w (dk_inode dk w h) @ encoded))"

definition syncs :: "'w disk \<Rightarrow> handle \<Rightarrow> ('w, unit) primitive \<Rightarrow> bool" where
  "syncs dk h f \<longleftrightarrow> (\<forall>w. case f w of (w1, r) \<Rightarrow>
      dk_entry dk w1 = dk_entry dk w \<and> dk_stored dk w1 = dk_stored dk w \<and> dk_inode dk w1 = dk_inode dk w
      \<and> dk_bytes dk w1 = dk_bytes dk w \<and> other_inodes_kept dk (dk_inode dk w h) w w1
      \<and> (r = Inr () \<longrightarrow> dk_synced dk w1 (dk_inode dk w h)))"

text \<open>A rename is atomic: after it, a power loss leaves the old or the new entry, until the directory is
  synced.\<close>

definition renames :: "'w disk \<Rightarrow> string \<Rightarrow> string \<Rightarrow> ('w, unit) primitive \<Rightarrow> bool" where
  "renames dk a b f \<longleftrightarrow> (\<forall>w. case f w of
      (w1, Inl _) \<Rightarrow> same_disk dk w w1
    | (w1, Inr _) \<Rightarrow>
        dk_entry dk w1 = (dk_entry dk w)(b := dk_entry dk w a, a := None)
        \<and> dk_stored dk w1 b \<subseteq> insert (dk_entry dk w a) (dk_stored dk w b)
        \<and> dk_bytes dk w1 = dk_bytes dk w \<and> dk_synced dk w1 = dk_synced dk w)"

definition syncs_directory :: "'w disk \<Rightarrow> ('w, unit) primitive \<Rightarrow> bool" where
  "syncs_directory dk f \<longleftrightarrow> (\<forall>w. case f w of (w1, r) \<Rightarrow>
      dk_entry dk w1 = dk_entry dk w \<and> dk_bytes dk w1 = dk_bytes dk w \<and> dk_synced dk w1 = dk_synced dk w
      \<and> (\<forall>m. dk_stored dk w1 m \<subseteq> insert (dk_entry dk w m) (dk_stored dk w m))
      \<and> (r = Inr () \<longrightarrow> (\<forall>m. dk_stored dk w1 m = {dk_entry dk w m})))"

definition removes :: "'w disk \<Rightarrow> string \<Rightarrow> ('w, unit) primitive \<Rightarrow> bool" where
  "removes dk name f \<longleftrightarrow> (\<forall>w. let w1 = fst (f w) in
      dk_bytes dk w1 = dk_bytes dk w \<and> dk_synced dk w1 = dk_synced dk w
      \<and> (\<forall>m. m \<noteq> name \<longrightarrow> dk_entry dk w1 m = dk_entry dk w m \<and> dk_stored dk w1 m = dk_stored dk w m))"

definition posix :: "'w primitives \<Rightarrow> 'w disk \<Rightarrow> handle \<Rightarrow> bool" where
  "posix fp dk d \<longleftrightarrow>
     (\<forall>p. quiet dk (lstat fp p)) \<and> (\<forall>h. quiet dk (sys_fstat fp h)) \<and> (\<forall>n. quiet dk (sys_fstatAt fp d n))
     \<and> (\<forall>n. quiet dk (sys_random fp n)) \<and> (\<forall>h m. quiet dk (chmodFile fp h m)) \<and> (\<forall>h. quiet dk (closeFile fp h))
     \<and> (\<forall>n. creates dk n (sys_createAt fp d n)) \<and> (\<forall>h s. writes dk h s (writeFile fp h s))
     \<and> (\<forall>h. syncs dk h (syncFile fp h)) \<and> (\<forall>a b. a \<noteq> b \<longrightarrow> renames dk a b (renameAt fp d a b))
     \<and> syncs_directory dk (syncDirectory fp d) \<and> (\<forall>n. removes dk n (removeAt fp d n))"


lemma posix_quiet:
  assumes "posix fp dk d"
  shows "quiet dk (lstat fp p)" "quiet dk (sys_fstat fp h)" "quiet dk (sys_fstatAt fp d n)" "quiet dk (sys_random fp k)"
    "quiet dk (chmodFile fp h m)" "quiet dk (closeFile fp h)"
  using assms by (simp_all add: posix_def)

subsection \<open>Checks leave the disk alone\<close>

text \<open>A property of what is on the disk.\<close>

definition of_disk :: "'w disk \<Rightarrow> ('w \<Rightarrow> bool) \<Rightarrow> bool" where
  "of_disk dk P \<longleftrightarrow> (\<forall>w w1. same_disk dk w w1 \<longrightarrow> P w \<longrightarrow> P w1)"

lemma quiet_outcome:
  assumes "quiet dk f" and "of_disk dk P" and "P w"
  shows "outcome P (sys f) w (\<lambda>_. P) P"
proof -
  have "P (fst (f w))" using assms by (simp add: quiet_def of_disk_def) blast
  then show ?thesis by (auto simp: outcome_sys split: prod.splits sum.splits)
qed

lemma quiet_wrap: "quiet dk f \<Longrightarrow> of_disk dk P \<Longrightarrow> P w \<Longrightarrow> outcome P (io_wrap e (sys f)) w (\<lambda>_. P) P"
  by (simp add: outcome_wrap quiet_outcome)

lemma checks_keep:
  assumes "posix fp dk d" and "of_disk dk P" and "P w"
  shows "outcome P (validatePathMatchesHandle fp path h) w (\<lambda>_. P) P"
    and "outcome P (validateNamedStateIdentity fp d name i) w (\<lambda>_. P) P"
    and "outcome P (validate_chain fp ps) w (\<lambda>_. P) P"
    and "outcome P (validateStateDirectoryTree fp path) w (\<lambda>_. P) P"
proof -
  note q = posix_quiet [OF assms(1)]
  show "outcome P (validatePathMatchesHandle fp path h) w (\<lambda>_. P) P"
    unfolding validatePathMatchesHandle_def
    by (rule outcome_bind [OF quiet_outcome [OF q(2) assms(2,3)]])
      (rule outcome_bind [OF quiet_wrap [OF q(1) assms(2)]], simp_all add: outcome_check split: option.split)
  show "outcome P (validateNamedStateIdentity fp d name i) w (\<lambda>_. P) P"
    unfolding validateNamedStateIdentity_def
    by (rule outcome_bind [OF quiet_wrap [OF q(3) assms(2,3)]]) (simp add: outcome_check split: option.split)
  show chain: "outcome P (validate_chain fp ps) w (\<lambda>_. P) P" for ps
    using assms(3)
  proof (induction ps arbitrary: w)
    case (Cons p ps)
    show ?case
      by (subst validate_chain.simps, rule outcome_bind [OF quiet_outcome [OF q(1) assms(2) Cons.prems]])
        (simp add: outcome_check Cons.IH split: option.split)
  qed simp
  show "outcome P (validateStateDirectoryTree fp path) w (\<lambda>_. P) P"
    unfolding validateStateDirectoryTree_def
    by (cases "absoluteDirectoryChain path")
      (use chain assms(3) in \<open>auto simp: outcome_def io_bind_def io_lift_def split: prod.splits\<close>)
qed

subsection \<open>Before the rename\<close>

text \<open>What the state name stands for is as it was in \<open>w0\<close>.\<close>

definition state_kept :: "'w disk \<Rightarrow> string \<Rightarrow> 'w \<Rightarrow> 'w \<Rightarrow> bool" where
  "state_kept dk name w0 w \<longleftrightarrow>
     dk_entry dk w name = dk_entry dk w0 name \<and> dk_stored dk w name = dk_stored dk w0 name
     \<and> (\<forall>i. Some i \<in> dk_stored dk w0 name \<longrightarrow> dk_bytes dk w i = dk_bytes dk w0 i \<and> dk_synced dk w i = dk_synced dk w0 i)"

lemma state_kept_survivors: "state_kept dk name w0 w \<Longrightarrow> survivors dk w name = survivors dk w0 name"
  unfolding survivors_def by (intro Collect_cong bex_cong) (auto simp: state_kept_def split: option.split)

lemma state_kept_other:
  assumes "state_kept dk name w0 w" and "other_inodes_kept dk i w w1" and "Some i \<notin> dk_stored dk w0 name"
    and "dk_entry dk w1 name = dk_entry dk w name" and "dk_stored dk w1 name = dk_stored dk w name"
  shows "state_kept dk name w0 w1"
  using assms unfolding state_kept_def other_inodes_kept_def by metis

lemma state_kept_disk: "of_disk dk (state_kept dk name w0)"
  by (auto simp: of_disk_def state_kept_def same_disk_def)

text \<open>The temporary file: its name, its inode and what has been written to it.\<close>

definition temporary :: "'w disk \<Rightarrow> string \<Rightarrow> 'w \<Rightarrow> handle \<Rightarrow> string \<Rightarrow> nat \<Rightarrow> 'w \<Rightarrow> bool" where
  "temporary dk name w0 h tmp i w \<longleftrightarrow>
     state_kept dk name w0 w \<and> dk_inode dk w h = i \<and> dk_entry dk w tmp = Some i \<and> tmp \<noteq> name
     \<and> Some i \<notin> dk_stored dk w0 name"

lemma temporary_disk: "of_disk dk (temporary dk name w0 h tmp i)"
  by (auto simp: of_disk_def temporary_def state_kept_def same_disk_def)

lemma created:
  assumes "posix fp dk d" and "state_kept dk name w0 w" and "tmp \<noteq> name"
  shows "outcome (state_kept dk name w0) (sys (sys_createAt fp d tmp)) w
    (\<lambda>h w1. \<exists>i. temporary dk name w0 h tmp i w1 \<and> dk_bytes dk w1 i = []) (state_kept dk name w0)"
proof -
  obtain w1 r where f: "sys_createAt fp d tmp w = (w1, r)" by (cases "sys_createAt fp d tmp w")
  have law: "creates dk tmp (sys_createAt fp d tmp)" using assms(1) by (simp add: posix_def)
  show ?thesis
  proof (cases r)
    case (Inl e)
    then have "same_disk dk w w1" using law f by (auto simp: creates_def dest!: spec [of _ w])
    then have "state_kept dk name w0 w1"
      using state_kept_disk [of dk name w0] assms(2) unfolding of_disk_def by blast
    then show ?thesis by (simp add: outcome_sys f Inl)
  next
    case (Inr h)
    let ?i = "dk_inode dk w1 h"
    from Inr law f have i: "fresh_inode dk w ?i" "other_inodes_kept dk ?i w w1" "dk_bytes dk w1 ?i = []"
      "dk_entry dk w1 = (dk_entry dk w)(tmp \<mapsto> ?i)" "\<forall>m. m \<noteq> tmp \<longrightarrow> dk_stored dk w1 m = dk_stored dk w m"
      by (auto simp: creates_def Let_def dest!: spec [of _ w])
    have new: "Some ?i \<notin> dk_stored dk w0 name"
      using i(1) assms(2) by (auto simp: fresh_inode_def state_kept_def)
    have "state_kept dk name w0 w1"
      by (rule state_kept_other [OF assms(2) i(2) new]) (use i(4,5) assms(3) in simp_all)
    then have "temporary dk name w0 h tmp ?i w1"
      using i(4) new assms(3) by (simp add: temporary_def)
    then show ?thesis using \<open>state_kept dk name w0 w1\<close> i(3) by (auto simp: outcome_sys f Inr)
  qed
qed

lemma temporary_created:
  assumes "posix fp dk d" and "state_kept dk name w0 w" and "length name < length stem"
  shows "outcome (state_kept dk name w0) (create_temporary fp n d stem) w
    (\<lambda>(h, tmp) w1. \<exists>i. temporary dk name w0 h tmp i w1 \<and> dk_bytes dk w1 i = []) (state_kept dk name w0)"
  using assms(2)
proof (induction n arbitrary: w)
  case (Suc n)
  have longer: "stem @ x \<noteq> name" for x using assms(3) by auto
  show ?case
    unfolding create_temporary.simps Let_def
  proof (rule outcome_bind [OF quiet_outcome [OF posix_quiet(4) [OF assms(1)] state_kept_disk Suc.prems]])
    fix x w1 assume kept: "state_kept dk name w0 w1"
    let ?tmp = "stem @ hex_EncodeToString (bytes_of x)"
    show "outcome (state_kept dk name w0) (io_bind (io_try (sys (sys_createAt fp d ?tmp))) (\<lambda>r. case r of
        Inr h \<Rightarrow> io_return (h, ?tmp)
      | Inl e \<Rightarrow> if AlreadyExists \<in> set e then create_temporary fp n d stem else io_fail e)) w1
      (\<lambda>(h, tmp) w1. \<exists>i. temporary dk name w0 h tmp i w1 \<and> dk_bytes dk w1 i = []) (state_kept dk name w0)"
      by (rule outcome_try_bind [OF created [OF assms(1) kept longer]]) (simp_all add: Suc.IH)
  qed
qed (simp add: state_kept_def)

text \<open>One step of the computation.\<close>

lemma quiet_bind:
  assumes "quiet dk f" and "of_disk dk P" and "P w" and "\<And>x. P x \<Longrightarrow> C x" and "\<And>x. P x \<Longrightarrow> E x"
    and "\<And>a x. P x \<Longrightarrow> outcome C (g a) x R E"
  shows "outcome C (io_bind (sys f) g) w R E"
  by (rule outcome_bind [OF outcome_weaken [OF quiet_outcome [OF assms(1-3)] assms(4)]]) (use assms(5,6) in auto)

lemma written:
  assumes "writes dk h encoded f" and "temporary dk name w0 h tmp i w" and "dk_bytes dk w i = []"
  shows "outcome (state_kept dk name w0) (sys f) w
    (\<lambda>_ w1. temporary dk name w0 h tmp i w1 \<and> dk_bytes dk w1 i = encoded) (state_kept dk name w0)"
proof -
  obtain w1 r where f: "f w = (w1, r)" by (cases "f w")
  have i: "dk_inode dk w h = i" and kept: "state_kept dk name w0 w" and new: "Some i \<notin> dk_stored dk w0 name"
    using assms(2) by (simp_all add: temporary_def)
  have law: "dk_entry dk w1 = dk_entry dk w" "dk_stored dk w1 = dk_stored dk w" "dk_inode dk w1 = dk_inode dk w"
      "other_inodes_kept dk i w w1" "r = Inr () \<Longrightarrow> dk_bytes dk w1 i = encoded"
    using assms(1,3) i by (auto simp: writes_def f dest!: spec [of _ w])
  have "state_kept dk name w0 w1" by (rule state_kept_other [OF kept law(4) new]) (simp_all add: law)
  then show ?thesis using assms(2) law by (cases r) (auto simp: outcome_sys f temporary_def)
qed

lemma synced:
  assumes "syncs dk h f" and "temporary dk name w0 h tmp i w"
  shows "outcome (state_kept dk name w0) (sys f) w
    (\<lambda>_ w1. temporary dk name w0 h tmp i w1 \<and> dk_bytes dk w1 i = dk_bytes dk w i \<and> dk_synced dk w1 i)
    (state_kept dk name w0)"
proof -
  obtain w1 r where f: "f w = (w1, r)" by (cases "f w")
  have i: "dk_inode dk w h = i" and kept: "state_kept dk name w0 w" and new: "Some i \<notin> dk_stored dk w0 name"
    using assms(2) by (simp_all add: temporary_def)
  have law: "dk_entry dk w1 = dk_entry dk w" "dk_stored dk w1 = dk_stored dk w" "dk_inode dk w1 = dk_inode dk w"
      "dk_bytes dk w1 = dk_bytes dk w" "other_inodes_kept dk i w w1" "r = Inr () \<Longrightarrow> dk_synced dk w1 i"
    using assms(1) i by (auto simp: syncs_def f dest!: spec [of _ w])
  have "state_kept dk name w0 w1" by (rule state_kept_other [OF kept law(5) new]) (simp_all add: law)
  then show ?thesis using assms(2) law by (cases r) (auto simp: outcome_sys f temporary_def)
qed

text \<open>The temporary file with all of its bytes on the disk.\<close>

definition complete :: "'w disk \<Rightarrow> string \<Rightarrow> 'w \<Rightarrow> handle \<Rightarrow> string \<Rightarrow> string \<Rightarrow> nat \<Rightarrow> 'w \<Rightarrow> bool" where
  "complete dk name w0 h tmp encoded i w \<longleftrightarrow>
     temporary dk name w0 h tmp i w \<and> dk_bytes dk w i = encoded \<and> dk_synced dk w i"

lemma complete_disk: "of_disk dk (complete dk name w0 h tmp encoded i)"
  by (auto simp: of_disk_def complete_def temporary_def state_kept_def same_disk_def)

lemma complete_kept: "complete dk name w0 h tmp encoded i w \<Longrightarrow> state_kept dk name w0 w"
  by (simp add: complete_def temporary_def)

lemma temporary_written:
  assumes "posix fp dk d" and "temporary dk name w0 h tmp i w" and "dk_bytes dk w i = []"
  shows "outcome (state_kept dk name w0) (write_temporary fp h path encoded) w
    (\<lambda>_. complete dk name w0 h tmp encoded i) (state_kept dk name w0)"
proof -
  let ?K = "state_kept dk name w0" and ?T = "temporary dk name w0 h tmp i"
  have laws: "writes dk h encoded (writeFile fp h encoded)" "syncs dk h (syncFile fp h)"
    using assms(1) by (simp_all add: posix_def)
  have empty: "of_disk dk (\<lambda>x. ?T x \<and> dk_bytes dk x i = [])"
    using temporary_disk [of dk name w0 h tmp i] by (auto simp: of_disk_def same_disk_def)
  show ?thesis
    unfolding write_temporary_def
  proof (rule quiet_bind [OF posix_quiet(5) [OF assms(1)] empty])
    fix x assume x: "?T x \<and> dk_bytes dk x i = []"
    show "outcome ?K (io_bind (sys (writeFile fp h encoded)) (\<lambda>_. io_bind (sys (syncFile fp h)) (\<lambda>_.
        io_bind (sys (sys_fstat fp h)) (\<lambda>info. io_check (validateOwnedRegularFile fp path info)
        (io_lift (identityFromFileInfo path info)))))) x (\<lambda>_. complete dk name w0 h tmp encoded i) ?K"
    proof (rule outcome_bind [OF written [OF laws(1) conjunct1 [OF x] conjunct2 [OF x]]])
      fix x assume x: "?T x \<and> dk_bytes dk x i = encoded"
      show "outcome ?K (io_bind (sys (syncFile fp h)) (\<lambda>_.
          io_bind (sys (sys_fstat fp h)) (\<lambda>info. io_check (validateOwnedRegularFile fp path info)
          (io_lift (identityFromFileInfo path info))))) x (\<lambda>_. complete dk name w0 h tmp encoded i) ?K"
        by (rule outcome_bind [OF synced [OF laws(2) conjunct1 [OF x]]],
            rule quiet_bind [OF posix_quiet(2) [OF assms(1)]
              complete_disk [of dk name w0 h tmp encoded i]])
          (use x in \<open>auto simp: complete_def outcome_check outcome_lift temporary_def split: option.split sum.split\<close>)
    qed
  qed (use assms in \<open>auto simp: temporary_def\<close>)
qed

subsection \<open>From the rename on\<close>

text \<open>The new file is in place, and the old one, or the new one, is what a power loss leaves.\<close>

definition replaced_by :: "'w disk \<Rightarrow> string \<Rightarrow> 'w \<Rightarrow> string \<Rightarrow> nat \<Rightarrow> 'w \<Rightarrow> bool" where
  "replaced_by dk name w0 encoded i w \<longleftrightarrow>
     dk_entry dk w name = Some i \<and> dk_bytes dk w i = encoded \<and> dk_synced dk w i
     \<and> dk_stored dk w name \<subseteq> insert (Some i) (dk_stored dk w0 name)
     \<and> (\<forall>j. Some j \<in> dk_stored dk w0 name \<longrightarrow> dk_bytes dk w j = dk_bytes dk w0 j \<and> dk_synced dk w j = dk_synced dk w0 j)"

definition confirmed :: "'w disk \<Rightarrow> string \<Rightarrow> 'w \<Rightarrow> string \<Rightarrow> nat \<Rightarrow> 'w \<Rightarrow> bool" where
  "confirmed dk name w0 encoded i w \<longleftrightarrow>
     replaced_by dk name w0 encoded i w \<and> dk_stored dk w name = {Some i}"

lemma replaced_disk:
  "of_disk dk (replaced_by dk name w0 encoded i)" "of_disk dk (confirmed dk name w0 encoded i)"
  by (simp_all add: of_disk_def replaced_by_def confirmed_def same_disk_def)

lemma confirmed_replaced: "confirmed dk name w0 encoded i w \<Longrightarrow> replaced_by dk name w0 encoded i w"
  by (simp add: confirmed_def)

lemma confirmed_survivors: "confirmed dk name w0 encoded i w \<Longrightarrow> survivors dk w name = {Some encoded}"
  by (auto simp: confirmed_def replaced_by_def survivors_def)

lemma replaced_survivors:
  assumes "replaced_by dk name w0 encoded i w"
  shows "survivors dk w name \<subseteq> insert (Some encoded) (survivors dk w0 name)"
proof
  fix c assume "c \<in> survivors dk w name"
  then obtain e where e: "e \<in> dk_stored dk w name"
    "case e of None \<Rightarrow> c = None | Some i \<Rightarrow> c \<noteq> None \<and> (dk_synced dk w i \<longrightarrow> c = Some (dk_bytes dk w i))"
    by (auto simp: survivors_def)
  show "c \<in> insert (Some encoded) (survivors dk w0 name)"
  proof (cases "e = Some i")
    case False
    then have "e \<in> dk_stored dk w0 name" using e(1) assms by (auto simp: replaced_by_def)
    then show ?thesis
      using e(2) assms by (cases e) (auto simp: survivors_def replaced_by_def intro!: bexI [of _ e])
  qed (use e(2) assms in \<open>auto simp: replaced_by_def\<close>)
qed

lemma renamed:
  assumes "renames dk tmp name f" and "complete dk name w0 h tmp encoded i w"
  shows "outcome (\<lambda>x. state_kept dk name w0 x \<or> replaced_by dk name w0 encoded i x) (sys f) w
    (\<lambda>_. replaced_by dk name w0 encoded i) (state_kept dk name w0)"
proof -
  obtain w1 r where f: "f w = (w1, r)" by (cases "f w")
  have kept: "state_kept dk name w0 w" and tmp: "dk_entry dk w tmp = Some i" "tmp \<noteq> name"
    and whole: "dk_bytes dk w i = encoded" "dk_synced dk w i"
    using assms(2) by (simp_all add: complete_def temporary_def)
  show ?thesis
  proof (cases r)
    case (Inl e)
    then have "same_disk dk w w1" using assms(1) f by (auto simp: renames_def dest!: spec [of _ w])
    then have "state_kept dk name w0 w1"
      using state_kept_disk [of dk name w0] kept unfolding of_disk_def by blast
    then show ?thesis by (simp add: outcome_sys f Inl)
  next
    case (Inr u)
    have law: "dk_entry dk w1 = (dk_entry dk w)(name := dk_entry dk w tmp, tmp := None)"
        "dk_stored dk w1 name \<subseteq> insert (dk_entry dk w tmp) (dk_stored dk w name)"
        "dk_bytes dk w1 = dk_bytes dk w" "dk_synced dk w1 = dk_synced dk w"
      using assms(1) Inr f by (auto simp: renames_def dest!: spec [of _ w])
    have "replaced_by dk name w0 encoded i w1"
      using kept tmp whole law by (auto simp: replaced_by_def state_kept_def)
    then show ?thesis by (simp add: outcome_sys f Inr)
  qed
qed

lemma directory_synced:
  assumes "syncs_directory dk f" and "replaced_by dk name w0 encoded i w"
  shows "outcome (replaced_by dk name w0 encoded i) (sys f) w
    (\<lambda>_. confirmed dk name w0 encoded i) (replaced_by dk name w0 encoded i)"
proof -
  obtain w1 r where f: "f w = (w1, r)" by (cases "f w")
  have all: "dk_entry dk w1 = dk_entry dk w \<and> dk_bytes dk w1 = dk_bytes dk w \<and> dk_synced dk w1 = dk_synced dk w
      \<and> (\<forall>m. dk_stored dk w1 m \<subseteq> insert (dk_entry dk w m) (dk_stored dk w m))
      \<and> (r = Inr () \<longrightarrow> (\<forall>m. dk_stored dk w1 m = {dk_entry dk w m}))"
    using spec [OF assms(1) [unfolded syncs_directory_def], of w] by (simp add: f)
  then have law: "dk_entry dk w1 = dk_entry dk w" "dk_bytes dk w1 = dk_bytes dk w" "dk_synced dk w1 = dk_synced dk w"
      "dk_stored dk w1 name \<subseteq> insert (dk_entry dk w name) (dk_stored dk w name)"
      "r = Inr () \<Longrightarrow> dk_stored dk w1 name = {dk_entry dk w name}"
    by simp_all
  have "replaced_by dk name w0 encoded i w1" using assms(2) law(1-4) by (auto simp: replaced_by_def)
  then show ?thesis using assms(2) law(5) by (cases r) (auto simp: outcome_sys f confirmed_def replaced_by_def)
qed

lemma rename_confirmed:
  assumes "posix fp dk d" and "replaced_by dk name w0 encoded i w"
  shows "outcome (replaced_by dk name w0 encoded i) (confirm_rename fp d name path identity) w
    (\<lambda>_. confirmed dk name w0 encoded i) (replaced_by dk name w0 encoded i)"
proof -
  let ?A = "replaced_by dk name w0 encoded i" and ?F = "confirmed dk name w0 encoded i"
  note A = checks_keep [OF assms(1) replaced_disk(1)]
  have law: "syncs_directory dk (syncDirectory fp d)" using assms(1) by (simp add: posix_def)
  show ?thesis
    unfolding confirm_rename_def syncOpenStateDirectory_def
  proof (rule outcome_bind [OF A(4) [OF assms(2)]], rule outcome_bind [OF A(1)], assumption,
      rule outcome_bind [OF A(2)], assumption, rule outcome_bind [OF directory_synced [OF law]], assumption)
    fix x assume "?F x"
    then show "outcome ?A (validatePathMatchesHandle fp (filepath_Dir path) d) x (\<lambda>_. ?F) ?A"
      by (rule outcome_weaken [OF checks_keep(1) [OF assms(1) replaced_disk(2)]]) (simp_all add: confirmed_replaced)
  qed
qed

text \<open>Removing the temporary name at the end touches nothing else.\<close>

definition keeps_state :: "'w disk \<Rightarrow> string \<Rightarrow> 'w \<Rightarrow> 'w \<Rightarrow> bool" where
  "keeps_state dk name w w1 \<longleftrightarrow>
     dk_entry dk w1 name = dk_entry dk w name \<and> dk_stored dk w1 name = dk_stored dk w name
     \<and> dk_bytes dk w1 = dk_bytes dk w \<and> dk_synced dk w1 = dk_synced dk w"

lemma removed:
  assumes "removes dk tmp (removeAt fp d tmp)" and "tmp \<noteq> name"
    and "\<And>x. keeps_state dk name w x \<Longrightarrow> C x" and "\<And>x. keeps_state dk name w x \<Longrightarrow> R result x"
  shows "outcome C (removing fp d tmp result) w R E"
proof -
  obtain w1 r where f: "removeAt fp d tmp w = (w1, r)" by (cases "removeAt fp d tmp w")
  have "keeps_state dk name w w1"
    using assms(1,2) by (auto simp: removes_def keeps_state_def Let_def f dest!: spec [of _ w])
  then show ?thesis
    using assms(3,4) by (auto simp: removing_def io_ignore_def io_bind_def io_try_def io_return_def sys_def outcome_def f)
qed

lemma keeps_state_all:
  assumes "keeps_state dk name w x"
  shows "state_kept dk name w0 w \<Longrightarrow> state_kept dk name w0 x"
    and "replaced_by dk name w0 encoded i w \<Longrightarrow> replaced_by dk name w0 encoded i x"
    and "confirmed dk name w0 encoded i w \<Longrightarrow> confirmed dk name w0 encoded i x"
  using assms by (simp_all add: keeps_state_def state_kept_def replaced_by_def confirmed_def)

subsection \<open>The replacement\<close>

text \<open>At any moment a power loss leaves the old state or the new one.\<close>

definition old_or_new :: "'w disk \<Rightarrow> string \<Rightarrow> 'w \<Rightarrow> string \<Rightarrow> 'w \<Rightarrow> bool" where
  "old_or_new dk name w0 encoded w \<longleftrightarrow>
     survivors dk w name \<subseteq> insert (Some encoded) (survivors dk w0 name)"

lemma old_or_newI:
  "state_kept dk name w0 w \<Longrightarrow> old_or_new dk name w0 encoded w"
  "replaced_by dk name w0 encoded i w \<Longrightarrow> old_or_new dk name w0 encoded w"
  by (auto simp: old_or_new_def state_kept_survivors dest: replaced_survivors)

text \<open>What a result tells of the disk.\<close>

definition told :: "'w disk \<Rightarrow> string \<Rightarrow> 'w \<Rightarrow> string \<Rightarrow> replaced \<Rightarrow> 'w \<Rightarrow> bool" where
  "told dk name w0 encoded result w \<longleftrightarrow>
    (case result of (identity, renamed, error) \<Rightarrow>
       (\<not> renamed \<longrightarrow> error \<noteq> None \<and> survivors dk w name = survivors dk w0 name)
       \<and> (error = None \<longrightarrow> survivors dk w name = {Some encoded}))"

lemma outcome_ignore_bind:
  assumes "outcome C m w (\<lambda>_. P) P" and "\<And>w1. P w1 \<Longrightarrow> outcome C k w1 R E"
  shows "outcome C (io_bind (io_ignore m) (\<lambda>_. k)) w R E"
  unfolding io_ignore_def
  by (rule outcome_bind [where Q = "\<lambda>_. P"], rule outcome_try_bind [OF assms(1)]) (simp_all add: assms(2))

lemma state_replaced:
  assumes "posix fp dk d"
  shows "outcome (old_or_new dk name w0 encoded) (replaceStateFile fp d name path encoded) w0
    (told dk name w0 encoded) (\<lambda>_. False)"
proof -
  let ?K = "state_kept dk name w0" and ?S = "old_or_new dk name w0 encoded" and ?R = "told dk name w0 encoded"
    and ?F = "\<lambda>_. False"
  have rm: "removes dk tmp (removeAt fp d tmp)" and rn: "tmp \<noteq> name \<Longrightarrow> renames dk tmp name (renameAt fp d tmp name)"
    for tmp using assms by (simp_all add: posix_def)
  have failed: "outcome ?S (removing fp d tmp (no_identity, False, Some e)) w ?R ?F"
    if "?K w" and "tmp \<noteq> name" for tmp e w
    by (rule removed [OF rm that(2)]) (auto simp: told_def old_or_newI keeps_state_all that state_kept_survivors)
  have moved: "outcome ?S (removing fp d tmp (identity, True, e)) w ?R ?F"
    if "replaced_by dk name w0 encoded i w" and "tmp \<noteq> name" and "e = None \<Longrightarrow> confirmed dk name w0 encoded i w"
    for tmp identity e i w
    by (rule removed [OF rm that(2)])
      (use that in \<open>auto simp: told_def intro!: old_or_newI(2) confirmed_survivors dest: keeps_state_all\<close>)
  have start: "?K w0" by (simp add: state_kept_def)
  let ?fin = "\<lambda>tmp identity. io_bind (io_try (confirm_rename fp d name path identity)) (\<lambda>confirmed.
      removing fp d tmp (identity, True, case confirmed of Inl e \<Rightarrow> Some e | Inr _ \<Rightarrow> None))"
  let ?mv = "\<lambda>tmp identity. io_bind (io_try (sys (renameAt fp d tmp name))) (\<lambda>renamed. case renamed of
      Inl e \<Rightarrow> removing fp d tmp (no_identity, False, Some e) | Inr _ \<Rightarrow> ?fin tmp identity)"
  let ?close = "\<lambda>h tmp identity. io_bind (io_try (sys (closeFile fp h))) (\<lambda>closed. case closed of
      Inl e \<Rightarrow> removing fp d tmp (no_identity, False, Some e) | Inr _ \<Rightarrow> ?mv tmp identity)"
  let ?put = "\<lambda>h tmp. io_bind (io_try (write_temporary fp h (filepath_Join [filepath_Dir path, tmp]) encoded)) (\<lambda>written.
      case written of
        Inl e \<Rightarrow> io_bind (io_ignore (sys (closeFile fp h))) (\<lambda>_. removing fp d tmp (no_identity, False, Some e))
      | Inr identity \<Rightarrow> ?close h tmp identity)"
  have fin: "outcome ?S (?fin tmp identity) w ?R ?F"
    if "replaced_by dk name w0 encoded i w" and "tmp \<noteq> name" for tmp identity i w
    by (rule outcome_try_bind [OF outcome_grow [OF rename_confirmed [OF assms that(1)] old_or_newI(2)]])
      (auto intro!: moved [OF _ that(2)] dest: confirmed_replaced)
  have mv: "outcome ?S (?mv tmp identity) w ?R ?F"
    if "complete dk name w0 h tmp encoded i w" and "tmp \<noteq> name" for h tmp identity i w
    by (rule outcome_try_bind [OF outcome_grow [OF renamed [OF rn [OF that(2)] that(1)]]])
      (auto intro: fin [OF _ that(2)] failed [OF _ that(2)] old_or_newI)
  have close: "outcome ?S (?close h tmp identity) w ?R ?F"
    if "complete dk name w0 h tmp encoded i w" and "tmp \<noteq> name" for h tmp identity i w
    by (rule outcome_try_bind [OF outcome_grow [OF quiet_outcome [OF posix_quiet(6) [OF assms] complete_disk that(1)]
          old_or_newI(1) [OF complete_kept]]])
      (auto intro: mv [OF _ that(2)] failed [OF _ that(2)] complete_kept)
  have cleaned: "outcome ?S (io_bind (io_ignore (sys (closeFile fp h))) (\<lambda>_. removing fp d tmp (no_identity, False, Some e))) w ?R ?F"
    if "?K w" and "tmp \<noteq> name" for h tmp e w
    by (rule outcome_ignore_bind [OF outcome_grow [OF quiet_outcome [OF posix_quiet(6) [OF assms] state_kept_disk that(1)]
          old_or_newI(1)]])
      (auto intro: failed [OF _ that(2)])
  have wrote: "outcome ?S (?put h tmp) w ?R ?F"
    if "temporary dk name w0 h tmp i w" and "dk_bytes dk w i = []" for h tmp i w
  proof -
    have tmp: "tmp \<noteq> name" using that(1) by (simp add: temporary_def)
    show ?thesis
      by (rule outcome_try_bind [OF outcome_grow [OF temporary_written [OF assms that] old_or_newI(1)]])
        (auto intro: close [OF _ tmp] cleaned [OF _ tmp])
  qed
  show ?thesis
    unfolding replaceStateFile_def createTemporaryStateFile_def
    by (rule outcome_try_bind [OF outcome_grow [OF temporary_created [OF assms start] old_or_newI(1)]])
      (auto intro: wrote simp: told_def state_kept_survivors)
qed

end
