(* ===== verification/File_Demo.thy ===== *)
theory File_Demo
  imports File_Crash State_Settled
begin

text \<open>
  A file system that keeps the promises of \<open>posix\<close>: a directory of names and the bytes of the inodes. Every
  write is on the disk at once. An update of a new store in it succeeds.
\<close>

record demo_world =
  dw_names :: "(string \<times> nat) list"
  dw_bytes :: "(nat \<times> string) list"

definition demo_view :: "demo_world disk" where
  "demo_view =
    \<lparr>dk_entry = (\<lambda>w. map_of (dw_names w)),
     dk_stored = (\<lambda>w m. {map_of (dw_names w) m}),
     dk_bytes = (\<lambda>w i. case map_of (dw_bytes w) i of Some b \<Rightarrow> b | None \<Rightarrow> []),
     dk_synced = (\<lambda>w i. True),
     dk_inode = (\<lambda>w h. h)\<rparr>"

text \<open>A new inode: above the handles of the lock and the directory and above the inodes in use.\<close>

definition next_inode :: "demo_world \<Rightarrow> nat" where
  "next_inode w = Suc (Max (set (2 # map snd (dw_names w))))"

definition directory_info :: file_info where
  "directory_info = \<lparr>fi_IsDir = True, fi_IsRegular = False, fi_Symlink = False, fi_Perm = ownerOnly, fi_Size = 0,
     fi_Stat = Some \<lparr>st_Uid = 0, st_Dev = 1, st_Ino = 0\<rparr>\<rparr>"

definition regular_info :: "nat \<Rightarrow> file_info" where
  "regular_info i = \<lparr>fi_IsDir = False, fi_IsRegular = True, fi_Symlink = False, fi_Perm = filePermission, fi_Size = 0,
     fi_Stat = Some \<lparr>st_Uid = 0, st_Dev = 1, st_Ino = of_nat i\<rparr>\<rparr>"

definition same_world :: "'a \<Rightarrow> (demo_world, 'a) primitive" where
  "same_world a w = (w, Inr a)"

definition demo_create :: "string \<Rightarrow> (demo_world, handle) primitive" where
  "demo_create name w =
    (if map_of (dw_names w) name \<noteq> None then (w, Inl [AlreadyExists])
     else let i = next_inode w in
       (w\<lparr>dw_names := (name, i) # dw_names w, dw_bytes := (i, []) # dw_bytes w\<rparr>, Inr i))"

definition demo_write :: "handle \<Rightarrow> string \<Rightarrow> (demo_world, unit) primitive" where
  "demo_write h b w = (w\<lparr>dw_bytes := (h, dk_bytes demo_view w h @ b) # dw_bytes w\<rparr>, Inr ())"

definition demo_rename :: "string \<Rightarrow> string \<Rightarrow> (demo_world, unit) primitive" where
  "demo_rename a b w =
    (case map_of (dw_names w) a of
       None \<Rightarrow> (w, Inl [NotExist])
     | Some i \<Rightarrow> (w\<lparr>dw_names := (b, i) # filter (\<lambda>(n, _). n \<noteq> a \<and> n \<noteq> b) (dw_names w)\<rparr>, Inr ()))"

definition demo_remove :: "string \<Rightarrow> (demo_world, unit) primitive" where
  "demo_remove name w = (w\<lparr>dw_names := filter (\<lambda>(n, _). n \<noteq> name) (dw_names w)\<rparr>, Inr ())"

definition demo_primitives :: "demo_world primitives" where
  "demo_primitives =
    \<lparr>mkdirAll = (\<lambda>_ _. same_world ()),
     lstat = (\<lambda>p. same_world (if p = ''/'' then directory_info else regular_info 1)),
     ownerUID = ownerUIDFromFileInfo, effectiveUID = 0,
     chmodFile = (\<lambda>_ _. same_world ()), writeFile = demo_write, syncFile = (\<lambda>_. same_world ()),
     closeFile = (\<lambda>_. same_world ()), renameAt = (\<lambda>_. demo_rename), openDirectory = (\<lambda>_. same_world 0),
     syncDirectory = (\<lambda>_. same_world ()), removeAt = (\<lambda>_. demo_remove), sys_openLock = (\<lambda>_. same_world 1),
     sys_openAt = (\<lambda>_ name w. (w, case map_of (dw_names w) name of None \<Rightarrow> Inl [NotExist] | Some i \<Rightarrow> Inr i)),
     sys_createAt = (\<lambda>_. demo_create),
     sys_fstat = (\<lambda>h. same_world (if h = 0 then directory_info else regular_info h)),
     sys_fstatAt = (\<lambda>_ name w. (w, case map_of (dw_names w) name of None \<Rightarrow> Inl [NotExist] | Some i \<Rightarrow> Inr (regular_info i))),
     sys_lock = (\<lambda>_. same_world ()), sys_unlock = (\<lambda>_. same_world ()), sys_close = (\<lambda>_. same_world ()),
     sys_read = (\<lambda>h _ w. (w, Inr (dk_bytes demo_view w h))),
     sys_random = (\<lambda>n. same_world (replicate n (CHR ''r'')))\<rparr>"

lemma next_inode_new: "(n, i) \<in> set (dw_names w) \<Longrightarrow> i \<noteq> next_inode w"
proof -
  assume "(n, i) \<in> set (dw_names w)"
  then have "i \<le> Max (set (2 # map snd (dw_names w)))" by (intro Max_ge) force+
  then show ?thesis by (simp add: next_inode_def)
qed

lemma map_of_names: "map_of (filter (\<lambda>(n, _). P n) xs) n = (if P n then map_of xs n else None)"
  by (induction xs) auto

lemma demo_posix: "posix demo_primitives demo_view d"
proof -
  have q: "quiet demo_view (same_world a)" for a :: 'a by (simp add: quiet_def same_world_def same_disk_def)
  have "creates demo_view n (demo_create n)" for n
    by (auto simp: creates_def demo_create_def demo_view_def Let_def fresh_inode_def other_inodes_kept_def
        same_disk_def dest: map_of_SomeD next_inode_new dest!: sym [of "Some (next_inode w)" for w])
  moreover have "renames demo_view a b (demo_rename a b)" if "a \<noteq> b" for a b
    using that by (auto simp: renames_def demo_rename_def demo_view_def same_disk_def map_of_names fun_eq_iff
        split: option.split)
  moreover have "removes demo_view n (demo_remove n)" for n
    by (auto simp: removes_def demo_remove_def demo_view_def map_of_names)
  moreover have "writes demo_view h b (demo_write h b)" for h b
    by (auto simp: writes_def demo_write_def demo_view_def other_inodes_kept_def)
  ultimately show ?thesis
    unfolding posix_def
    by (auto simp: demo_primitives_def q syncs_def syncs_directory_def same_world_def demo_view_def other_inodes_kept_def
        quiet_def same_disk_def)
qed

subsection \<open>An update\<close>

definition demo_codec :: codec where
  "demo_codec = \<lparr>cd_payload = (\<lambda>_. Some []), cd_envelope = (\<lambda>_. Some ''{}''), cd_decode = (\<lambda>_. None)\<rparr>"

definition demo_file :: file_store where
  "demo_file = \<lparr>fs_data = newMemoryData, fs_path = ''/state'', fs_directoryPath = ''/'', fs_stateName = ''state'',
     fs_lockPath = ''/lock'', fs_stateIdentity = \<lparr>id_device = 1, id_inode = 2\<rparr>, fs_directoryHandle = Some 0,
     fs_lockHandle = Some 1, fs_retention = DefaultRetentionPolicy, fs_poisoned = None, fs_closed = False\<rparr>"

definition demo_start :: demo_world where
  "demo_start = \<lparr>dw_names = [(''state'', 2)], dw_bytes = [(2, ''old'')]\<rparr>"

lemma demo_paths: "absoluteDirectoryChain ''/'' = Inr [''/'']" "filepath_Dir ''/state'' = ''/''"
  by (simp_all add: absoluteDirectoryChain_def filepath_Clean_def filepath_Dir_def IsAbs_def)

lemma demo_committed: "commit DefaultRetentionPolicy newMemoryData = Inr newMemoryData"
proof -
  have "RetentionPolicy_Validate DefaultRetentionPolicy = None"
    by (simp add: RetentionPolicy_Validate_def DefaultRetentionPolicy_def)
  moreover have "data_validate newMemoryData = None"
    by (simp add: data_validate_def newMemoryData_def suffix_error_def Sequence_Next_def terminal_order_error_def
        validateOwnershipGraph_def store_pairs_def ValidateOneActiveAttempt_def)
  ultimately show ?thesis by (simp add: commit_def new_settled)
qed

lemma demo_identity:
  assumes "map_of (dw_names w) ''state'' = Some 2"
  shows "\<exists>ws. validateFilesystemIdentity demo_primitives demo_file w = (ws, w, Inr ())"
  using assms
  by (simp add: validateFilesystemIdentity_def validateStateDirectoryTree_def demo_paths demo_file_def io_bind_def
      io_lift_def io_check_def io_return_def io_wrap_def sys_def demo_primitives_def same_world_def with_handle_def
      validatePathMatchesHandle_def validateNamedStateIdentity_def named_state_error_def same_object_error_def
      validateOwnedDirectory_def validateOwnedRegularFile_def ownerUIDFromFileInfo_def SameFile_def
      directory_info_def regular_info_def ownerOnly_def othersWrite_def filePermission_def reject_def)

lemma demo_file_fields [simp]:
  "fs_data demo_file = newMemoryData" "fs_path demo_file = ''/state''" "fs_stateName demo_file = ''state''"
  "fs_directoryHandle demo_file = Some 0" "fs_retention demo_file = DefaultRetentionPolicy"
  "fs_poisoned demo_file = None" "fs_closed demo_file = False"
  by (simp_all add: demo_file_def)

lemma demo_candidate:
  assumes "map_of (dw_names w) ''state'' = Some 2"
  shows "\<exists>ws. update_candidate demo_primitives demo_file False False (Some (Return None)) w = (ws, w, Inr newMemoryData)"
proof -
  obtain ws where v: "validateFilesystemIdentity demo_primitives demo_file w = (ws, w, Inr ())"
    using demo_identity [OF assms] by blast
  have "data_clone newMemoryData = newMemoryData" by (simp add: data_clone_def newMemoryData_def)
  then show ?thesis
    by (simp add: update_candidate_def io_bind_def v io_check_def reject_def unavailableError_def
        file_view_def demo_committed store_cause_def io_lift_def io_return_def)
qed

lemma demo_encoded: "encodeFileData demo_codec newMemoryData = Inr (''{}'' @ [CHR 0x0A])"
  by (simp add: encodeFileData_def filePayloadDigest_def demo_codec_def Let_def MaxEnvelopeBytes_def reject_def)

definition demo_temporary :: string where
  "demo_temporary = ''.state.tmp-'' @ hex_EncodeToString (bytes_of (replicate 12 (CHR ''r'')))"

definition demo_world_of :: "string \<Rightarrow> (nat \<times> string) list \<Rightarrow> demo_world" where
  "demo_world_of name bytes = \<lparr>dw_names = [(name, 3), (''state'', 2)], dw_bytes = bytes @ [(2, ''old'')]\<rparr>"

lemma demo_attempts: "temporaryNameAttempts = Suc 127"
  by (simp add: temporaryNameAttempts_def)

lemma demo_created:
  "\<exists>ws. createTemporaryStateFile demo_primitives 0 ''.state.tmp-'' demo_start
     = (ws, demo_world_of demo_temporary [(3, [])], Inr (3, demo_temporary))"
proof -
  have "\<exists>ws. create_temporary demo_primitives (Suc n) 0 ''.state.tmp-'' demo_start
     = (ws, demo_world_of demo_temporary [(3, [])], Inr (3, demo_temporary))" for n
    by (simp add: demo_primitives_def same_world_def io_bind_def sys_def Let_def
        io_try_def demo_create_def demo_start_def io_return_def next_inode_def demo_temporary_def demo_world_of_def)
  then show ?thesis by (metis createTemporaryStateFile_def demo_attempts)
qed

lemma demo_written:
  "\<exists>ws. write_temporary demo_primitives 3 path encoded (demo_world_of demo_temporary [(3, [])])
     = (ws, demo_world_of demo_temporary [(3, encoded), (3, [])], Inr \<lparr>id_device = 1, id_inode = 3\<rparr>)"
  by (simp add: write_temporary_def demo_primitives_def same_world_def io_bind_def sys_def demo_write_def demo_view_def
      demo_world_of_def io_check_def io_lift_def validateOwnedRegularFile_def regular_info_def filePermission_def
      reject_def ownerUIDFromFileInfo_def identityFromFileInfo_def)

lemma demo_confirmed:
  assumes "map_of (dw_names w) ''state'' = Some 3"
  shows "\<exists>ws. confirm_rename demo_primitives 0 ''state'' ''/state'' \<lparr>id_device = 1, id_inode = 3\<rparr> w = (ws, w, Inr ())"
  using assms
  by (simp add: confirm_rename_def syncOpenStateDirectory_def validateStateDirectoryTree_def demo_paths io_bind_def
      io_lift_def io_check_def io_return_def io_wrap_def sys_def demo_primitives_def same_world_def
      validatePathMatchesHandle_def validateNamedStateIdentity_def named_state_error_def same_object_error_def
      validateOwnedDirectory_def ownerUIDFromFileInfo_def SameFile_def directory_info_def regular_info_def
      ownerOnly_def othersWrite_def filePermission_def reject_def)

lemma demo_replaced:
  "\<exists>ws w. replaceStateFile demo_primitives 0 ''state'' ''/state'' encoded demo_start
     = (ws, w, Inr (\<lparr>id_device = 1, id_inode = 3\<rparr>, True, None))"
proof -
  let ?w = "\<lparr>dw_names = [(''state'', 3)], dw_bytes = [(3, encoded), (3, []), (2, ''old'')]\<rparr>"
  obtain a where a: "createTemporaryStateFile demo_primitives 0 ''.state.tmp-'' demo_start
      = (a, demo_world_of demo_temporary [(3, [])], Inr (3, demo_temporary))"
    using demo_created by blast
  obtain b where b: "write_temporary demo_primitives 3 (filepath_Join [filepath_Dir ''/state'', demo_temporary]) encoded
      (demo_world_of demo_temporary [(3, [])])
      = (b, demo_world_of demo_temporary [(3, encoded), (3, [])], Inr \<lparr>id_device = 1, id_inode = 3\<rparr>)"
    using demo_written by blast
  obtain f where f: "confirm_rename demo_primitives 0 ''state'' ''/state'' \<lparr>id_device = 1, id_inode = 3\<rparr> ?w = (f, ?w, Inr ())"
    using demo_confirmed [of ?w] by auto
  have name: "demo_temporary \<noteq> ''state''" by (simp add: demo_temporary_def)
  have c: "closeFile demo_primitives 3 x = (x, Inr ())" for x by (simp add: demo_primitives_def same_world_def)
  have r: "renameAt demo_primitives 0 demo_temporary ''state'' (demo_world_of demo_temporary [(3, encoded), (3, [])]) = (?w, Inr ())"
    using name by (simp add: demo_primitives_def demo_rename_def demo_world_of_def)
  have d: "\<exists>ws w. removing demo_primitives 0 n result x = (ws, w, Inr result)" for n result x
    by (simp add: removing_def io_ignore_def io_bind_def io_try_def io_return_def sys_def split: prod.split)
  show ?thesis
    unfolding replaceStateFile_def
    using d [of demo_temporary "(\<lparr>id_device = 1, id_inode = 3\<rparr>, True, None)" ?w]
    by (auto simp: io_bind_def io_try_def a b c r f sys_def)
qed

lemma demo_survivors: "survivors demo_view demo_start ''state'' = {Some ''old''}"
  by (auto simp: survivors_def demo_view_def demo_start_def)

lemma demo_updated:
  "\<exists>ws w s. FileStore_Update demo_primitives demo_codec demo_file False False (Some (Return None)) demo_start
     = (ws, w, Inr (s, None)) \<and> fs_data s = newMemoryData"
proof -
  obtain a where a: "update_candidate demo_primitives demo_file False False (Some (Return None)) demo_start
      = (a, demo_start, Inr newMemoryData)"
    using demo_candidate [of demo_start] by (auto simp: demo_start_def)
  obtain b w where b: "replaceStateFile demo_primitives 0 ''state'' ''/state'' (''{}'' @ [CHR 0x0A]) demo_start
      = (b, w, Inr (\<lparr>id_device = 1, id_inode = 3\<rparr>, True, None))"
    using demo_replaced by blast
  show ?thesis
    by (simp add: FileStore_Update_def io_bind_def io_try_def a with_handle_def persistFileData_def store_cause_def
        demo_encoded b [simplified] io_return_def)
qed

end
