(* ===== verification/File_Properties.thy ===== *)
theory File_Properties
  imports File_Demo
begin

text \<open>
  What the users of \<open>FileStore\<close> rely on: an update is an update of the store in memory, a store that
  may have lost its file answers nothing more, and a power loss at any moment leaves the old state or the new.
\<close>

subsection \<open>Against the store in memory\<close>

text \<open>The store in memory that a file store shows.\<close>

definition memory_of :: "file_store \<Rightarrow> memory_store" where
  "memory_of s = \<lparr>ms_data = fs_data s, ms_retention = fs_retention s\<rparr>"

lemma memory_of_simps [simp]: "ms_data (memory_of s) = fs_data s" "ms_retention (memory_of s) = fs_retention s"
  by (simp_all add: memory_of_def)

lemma view_memory: "file_view s rw d = store_view (memory_of s) rw d"
  by (simp add: file_view_def store_view_def)

text \<open>A candidate is what the update of the store in memory commits.\<close>

lemma candidate_committed:
  assumes "update_candidate fp s k1 k2 fn w = (ws, w1, Inr d)"
  shows "Store_Update (memory_of s) k1 k2 fn = ((memory_of s)\<lparr>ms_data := d\<rparr>, None) \<and> unavailableError s = None"
proof (cases fn)
  case (Some p)
  obtain v e where run: "run_tx p (store_view (memory_of s) True (data_clone (fs_data s))) = (v, e)"
    by (cases "run_tx p (store_view (memory_of s) True (data_clone (fs_data s)))")
  show ?thesis
    using assms
    by (auto simp: update_candidate_def Store_Update_def Some view_memory run io_check_def io_bind_def io_fail_def
        io_return_def io_lift_def reject_def store_cause_def split: prod.splits sum.splits option.splits if_splits)
qed (use assms in \<open>simp add: update_candidate_def io_fail_def\<close>)

text \<open>The writing of a candidate, as an effect that never fails.\<close>

definition settle_update :: "file_store \<Rightarrow> memory_data \<Rightarrow> file_error + replaced \<Rightarrow> file_store \<times> file_error option" where
  "settle_update s d r =
    (case r of
       Inl e \<Rightarrow> (s, Some e)
     | Inr (identity, renamed, None) \<Rightarrow> (s\<lparr>fs_data := d, fs_stateIdentity := identity\<rparr>, None)
     | Inr (identity, renamed, Some e) \<Rightarrow>
         if renamed then (s\<lparr>fs_poisoned := Some (ErrDurabilityUncertain # e)\<rparr>, Some (ErrDurabilityUncertain # e))
         else (s, Some e))"

lemma update_run:
  assumes "update_candidate fp s k1 k2 fn w = (ws, w1, r)"
  shows "FileStore_Update fp c s k1 k2 fn w =
    (case r of
       Inl e \<Rightarrow> (ws, w1, Inr (s, Some e))
     | Inr d \<Rightarrow>
       (case with_handle (fs_directoryHandle s) (\<lambda>h. persistFileData fp c h (fs_stateName s) (fs_path s) d) w1 of
          (ws', w2, q) \<Rightarrow> (ws @ ws', w2, Inr (settle_update s d q))))"
  by (simp add: FileStore_Update_def io_bind_def io_try_def assms io_return_def settle_update_def
      split: sum.split prod.split option.split)

subsection \<open>Power loss\<close>

lemma identity_checked:
  assumes "posix fp dk d" and "fs_directoryHandle s = Some d" and "of_disk dk P" and "P w"
  shows "outcome P (validateFilesystemIdentity fp s) w (\<lambda>_. P) P"
proof -
  note ok = checks_keep [OF assms(1,3)]
  show ?thesis
    unfolding validateFilesystemIdentity_def with_handle_def assms(2) option.case
    by (rule outcome_bind [OF ok(4) [OF assms(4)]], rule outcome_bind [OF ok(1)], assumption,
        rule outcome_bind [OF quiet_wrap [OF posix_quiet(1) [OF assms(1)] assms(3)]], assumption)
      (auto simp: outcome_check split: option.split intro!: outcome_bind [where Q = "\<lambda>_. P"] ok)
qed

lemma candidate_keeps:
  assumes "posix fp dk d" and "fs_directoryHandle s = Some d" and "of_disk dk P" and "P w"
  shows "outcome P (update_candidate fp s k1 k2 fn) w (\<lambda>_. P) P"
proof -
  note ok = identity_checked [OF assms(1-3)]
  show ?thesis
    unfolding update_candidate_def
    by (auto simp: outcome_check outcome_lift assms(4) split: option.split sum.split prod.split
        intro!: outcome_bind [OF ok] outcome_bind [where Q = "\<lambda>_. P" and m = "io_lift x" for x])
qed

text \<open>The bytes that the state file has for some data.\<close>

definition state_bytes :: "codec \<Rightarrow> memory_data \<Rightarrow> string option \<Rightarrow> bool" where
  "state_bytes c d content \<longleftrightarrow> (case encodeFileData c d of Inr encoded \<Rightarrow> content = Some encoded | Inl _ \<Rightarrow> False)"

lemma persisted_outcome:
  assumes "posix fp dk d"
  shows "outcome (\<lambda>x. \<forall>content \<in> survivors dk x name. content \<in> survivors dk w0 name \<or> state_bytes c data content)
    (persistFileData fp c d name path data) w0
    (\<lambda>(identity, renamed, error) x.
      (\<not> renamed \<longrightarrow> error \<noteq> None \<and> survivors dk x name = survivors dk w0 name)
      \<and> (error = None \<longrightarrow> (\<exists>encoded. encodeFileData c data = Inr encoded \<and> survivors dk x name = {Some encoded})))
    (\<lambda>_. False)"
proof (cases "encodeFileData c data")
  case (Inr encoded)
  show ?thesis
    unfolding persistFileData_def Inr store_cause_def
    by (simp, rule outcome_weaken [OF state_replaced [OF assms, of name w0 encoded]])
      (auto simp: old_or_new_def told_def state_bytes_def Inr)
qed (simp add: persistFileData_def store_cause_def)

subsection \<open>Properties\<close>

text \<open>C11. An update of the file store is an update of the store in memory: it always returns, and without an
  error it leaves what the update in memory leaves. With an error it changes no data: the store is as it
  was, or it refuses further service because its file may already be the new one.\<close>

theorem file_update_refines:
  "\<exists>s' error. snd (snd (FileStore_Update fp c s k1 k2 fn w)) = Inr (s', error)
    \<and> (case error of
         None \<Rightarrow> Store_Update (memory_of s) k1 k2 fn = (memory_of s', None)
           \<and> (\<exists>identity. s' = s\<lparr>fs_data := fs_data s', fs_stateIdentity := identity\<rparr>)
       | Some e \<Rightarrow> s' = s
           \<or> s' = s\<lparr>fs_poisoned := Some e\<rparr> \<and> ErrDurabilityUncertain \<in> set e
             \<and> snd (Store_Update (memory_of s) k1 k2 fn) = None)"
proof -
  obtain ws w1 r where cand: "update_candidate fp s k1 k2 fn w = (ws, w1, r)"
    by (cases "update_candidate fp s k1 k2 fn w")
  show ?thesis
  proof (cases r)
    case (Inl e)
    then show ?thesis by (simp add: update_run [OF cand])
  next
    case (Inr d)
    obtain ws' w2 q where run: "with_handle (fs_directoryHandle s) (\<lambda>h. persistFileData fp c h (fs_stateName s) (fs_path s) d) w1
        = (ws', w2, q)"
      by (cases "with_handle (fs_directoryHandle s) (\<lambda>h. persistFileData fp c h (fs_stateName s) (fs_path s) d) w1")
    have up: "Store_Update (memory_of s) k1 k2 fn = ((memory_of s)\<lparr>ms_data := d\<rparr>, None)"
      using candidate_committed [of fp s k1 k2 fn w ws w1 d] cand Inr by simp
    note up = up [unfolded memory_of_def]
    show ?thesis
      by (auto simp: update_run [OF cand] Inr run settle_update_def up memory_of_def split: sum.split prod.split option.split)
  qed
qed


text \<open>C7. Whenever the machine stops in the course of an update, the disk holds the state file as it was, or
  a state file with all the bytes of the new data. After a success it is certain to hold the new data;
  after a failure that does not poison the store, exactly what it held before.\<close>

theorem update_survives_power_loss:
  assumes "posix fp dk d" and "fs_directoryHandle s = Some d"
    and "FileStore_Update fp c s k1 k2 fn w = (ws, w1, Inr (s', error))"
  shows "(\<forall>x \<in> set ws. \<forall>content \<in> survivors dk x (fs_stateName s).
        content \<in> survivors dk w (fs_stateName s)
        \<or> state_bytes c (ms_data (fst (Store_Update (memory_of s) k1 k2 fn))) content)
    \<and> (error = None \<longrightarrow> (\<exists>encoded. encodeFileData c (fs_data s') = Inr encoded
        \<and> survivors dk w1 (fs_stateName s) = {Some encoded}))
    \<and> (error \<noteq> None \<and> fs_poisoned s' = fs_poisoned s \<longrightarrow>
        survivors dk w1 (fs_stateName s) = survivors dk w (fs_stateName s))"
proof -
  let ?name = "fs_stateName s"
  let ?K = "state_kept dk ?name w"
  obtain us u r where cand: "update_candidate fp s k1 k2 fn w = (us, u, r)"
    by (cases "update_candidate fp s k1 k2 fn w")
  have "outcome ?K (update_candidate fp s k1 k2 fn) w (\<lambda>_. ?K) ?K"
    by (rule candidate_keeps [OF assms(1,2) state_kept_disk]) (simp add: state_kept_def)
  then have "\<forall>x \<in> set us. ?K x" and "?K u" by (auto simp: outcome_def cand split: sum.splits)
  moreover have same: "survivors dk x ?name = survivors dk w ?name" if "?K x" for x
    using that by (rule state_kept_survivors)
  ultimately have kept: "\<forall>x \<in> set us. survivors dk x ?name = survivors dk w ?name"
      "survivors dk u ?name = survivors dk w ?name"
    by (simp_all add: same)
  show ?thesis
  proof (cases r)
    case (Inl e)
    then have "ws = us" "w1 = u" "error = Some e" using assms(3) by (simp_all add: update_run [OF cand])
    then show ?thesis using kept by simp
  next
    case (Inr data)
    have up: "Store_Update (memory_of s) k1 k2 fn = ((memory_of s)\<lparr>ms_data := data\<rparr>, None)"
      and fine: "fs_poisoned s = None"
      using candidate_committed [of fp s k1 k2 fn w us u data] cand Inr
      by (auto simp: unavailableError_def split: if_splits)
    obtain us' u' q where run: "persistFileData fp c d ?name (fs_path s) data u = (us', u', q)"
      by (cases "persistFileData fp c d ?name (fs_path s) data u")
    have out: "ws = us @ us'" "w1 = u'" "(s', error) = settle_update s data q"
      using assms(3) by (simp_all add: update_run [OF cand] Inr with_handle_def assms(2) run)
    have p: "\<forall>x \<in> set us'. \<forall>content \<in> survivors dk x ?name. content \<in> survivors dk w ?name \<or> state_bytes c data content"
      and q: "case q of Inl _ \<Rightarrow> False | Inr (identity, renamed, error) \<Rightarrow>
        (\<not> renamed \<longrightarrow> error \<noteq> None \<and> survivors dk u' ?name = survivors dk w ?name)
        \<and> (error = None \<longrightarrow> (\<exists>encoded. encodeFileData c data = Inr encoded \<and> survivors dk u' ?name = {Some encoded}))"
      using persisted_outcome [OF assms(1), of ?name u c data "fs_path s"] kept(2)
      by (auto simp: outcome_def run split: sum.splits)
    have "\<forall>x \<in> set ws. \<forall>content \<in> survivors dk x ?name. content \<in> survivors dk w ?name \<or> state_bytes c data content"
      using p kept(1) by (auto simp: out)
    then show ?thesis
      using q out(2,3) fine up by (auto simp: settle_update_def split: sum.splits prod.splits option.splits if_splits)
  qed
qed

theorem update_survives_power_loss_witness:
  "\<exists>ws w1 s'. FileStore_Update demo_primitives demo_codec demo_file False False (Some (Return None)) demo_start
      = (ws, w1, Inr (s', None))
    \<and> (\<forall>x \<in> set ws. survivors demo_view x ''state'' \<subseteq> {Some ''old'', Some (''{}'' @ [CHR 0x0A])})
    \<and> survivors demo_view w1 ''state'' = {Some (''{}'' @ [CHR 0x0A])}"
proof -
  obtain ws w1 s' where run: "FileStore_Update demo_primitives demo_codec demo_file False False (Some (Return None)) demo_start
      = (ws, w1, Inr (s', None))" "fs_data s' = newMemoryData"
    using demo_updated by blast
  obtain a where a: "update_candidate demo_primitives demo_file False False (Some (Return None)) demo_start
      = (a, demo_start, Inr newMemoryData)"
    using demo_candidate [of demo_start] by (auto simp: demo_start_def)
  have "Store_Update (memory_of demo_file) False False (Some (Return None))
      = ((memory_of demo_file)\<lparr>ms_data := newMemoryData\<rparr>, None)"
    using candidate_committed [OF a] by blast
  then show ?thesis
    using update_survives_power_loss [OF demo_posix _ run(1), of 0] run
    by (auto simp: demo_survivors state_bytes_def demo_encoded)
qed

text \<open>However short the writes of the operating system are, a write that returns without an error has
  written every byte; with an error it has written a beginning of them. It always returns.\<close>

theorem write_is_complete:
  assumes "\<And>b w. case wr b w of
      (w1, Inr n) \<Rightarrow> n \<le> length b \<and> content w1 = content w @ take n b
    | (w1, Inl e) \<Rightarrow> \<exists>n. content w1 = content w @ take n b"
  shows "case writeEntireFile wr encoded w of
      (w1, Inr _) \<Rightarrow> content w1 = content w @ encoded
    | (w1, Inl e) \<Rightarrow> \<exists>n. content w1 = content w @ take n encoded"
  using assms
proof (induction wr encoded w rule: writeEntireFile.induct)
  case (1 wr encoded w)
  show ?case
  proof (cases "encoded = []")
    case False
    note step = writeEntireFile.simps [of wr encoded w]
    obtain w1 r where w1: "wr encoded w = (w1, r)" by (cases "wr encoded w")
    show ?thesis
    proof (cases r)
      case (Inl e)
      then show ?thesis using "1.prems" [where b = encoded and w = w] False by (simp add: w1 step)
    next
      case (Inr n)
      have n: "n \<le> length encoded" "content w1 = content w @ take n encoded"
        using "1.prems" [where b = encoded and w = w] by (simp_all add: w1 Inr)
      show ?thesis
      proof (cases "n = 0")
        case True
        then show ?thesis using False n by (auto simp: w1 Inr step intro: exI [of _ 0])
      next
        case more: False
        have "case writeEntireFile wr (drop n encoded) w1 of
            (w2, Inr _) \<Rightarrow> content w2 = content w1 @ drop n encoded
          | (w2, Inl e) \<Rightarrow> \<exists>k. content w2 = content w1 @ take k (drop n encoded)"
          by (rule "1.IH" [OF False w1 [symmetric]]) (use Inr more "1.prems" in simp_all)
        moreover have "take n encoded @ take k (drop n encoded) = take (n + k) encoded" for k
          by (simp add: take_add)
        ultimately show ?thesis
          using False more n unfolding step
          by (auto simp: w1 Inr split: prod.splits sum.splits)
      qed
    qed
  qed (simp add: writeEntireFile.simps)
qed

text \<open>An operating system that writes one byte at a time.\<close>

definition one_byte :: "string \<Rightarrow> (string, nat) primitive" where
  "one_byte b w = (w @ take 1 b, Inr (min 1 (length b)))"

theorem write_is_complete_witness: "writeEntireFile one_byte ''abc'' ''x'' = (''xabc'', Inr ())"
proof -
  have "case writeEntireFile one_byte ''abc'' ''x'' of
      (w1, Inr _) \<Rightarrow> id w1 = id ''x'' @ ''abc''
    | (w1, Inl e) \<Rightarrow> \<exists>n. id w1 = id ''x'' @ take n ''abc''"
    by (rule write_is_complete) (simp add: one_byte_def min_def)
  then show ?thesis by (simp add: one_byte_def writeEntireFile.simps)
qed

end
