(* ===== verification/Provider_Contracts.thy ===== *)
theory Provider_Contracts
  imports Provider_Observation Domain_Spec
begin

text \<open>
  \<open>internal/provider\<close>, the contract between the engine and the host (\<open>contracts.go\<close>,
  \<open>capabilities.go\<close>, \<open>errors.go\<close>, \<open>receipts.go\<close>, \<open>rollback.go\<close> and the attachment and signal
  observations of \<open>observation.go\<close>): what is asked of a provider, when a request is well formed, what a
  provider answers, and how a persisted inverse is turned into a cleanup again.
\<close>

definition pv_domain :: "domain_error option \<Rightarrow> pv_error option" where
  "pv_domain e = wrap (\<lambda>_. PvInvalid ''identity'') e"

subsection \<open>Errors\<close>

text \<open>What \<open>errors.As\<close> and \<open>errors.Is\<close> find in the error of a provider, and its text.\<close>

record provider_error =
  pe_NoEffect :: bool
  pe_RollbackRequired :: bool
  pe_Unavailable :: bool
  pe_NotRunning :: bool
  pe_Text :: string

definition plain_error :: "string \<Rightarrow> provider_error" where
  "plain_error s =
    \<lparr>pe_NoEffect = False, pe_RollbackRequired = False, pe_Unavailable = False, pe_NotRunning = False, pe_Text = s\<rparr>"

definition cause_or :: "string \<Rightarrow> provider_error option \<Rightarrow> provider_error" where
  "cause_or s cause = (case cause of None \<Rightarrow> plain_error s | Some e \<Rightarrow> e)"

definition MarkNoEffect :: "provider_error option \<Rightarrow> provider_error" where
  "MarkNoEffect cause =
    (let e = cause_or ''unspecified provider failure'' cause
     in e\<lparr>pe_NoEffect := True, pe_Text := ''provider call failed before any host effect: '' @ pe_Text e\<rparr>)"

definition MarkRollbackRequired :: "provider_error option \<Rightarrow> provider_error" where
  "MarkRollbackRequired cause =
    (let e = cause_or ''unspecified rollback-contained provider failure'' cause
     in e\<lparr>pe_RollbackRequired := True,
          pe_Text := ''provider call failed after a rollback-contained host effect: '' @ pe_Text e\<rparr>)"

definition MarkObservationUnavailable :: "provider_error option \<Rightarrow> provider_error" where
  "MarkObservationUnavailable cause =
    (let e = cause_or ''unspecified observation failure'' cause
     in e\<lparr>pe_Unavailable := True, pe_Text := ''provider observation is temporarily unavailable: '' @ pe_Text e\<rparr>)"

definition IsNoEffect :: "provider_error \<Rightarrow> bool" where "IsNoEffect = pe_NoEffect"
definition IsRollbackRequired :: "provider_error \<Rightarrow> bool" where "IsRollbackRequired = pe_RollbackRequired"
definition IsObservationUnavailable :: "provider_error \<Rightarrow> bool" where "IsObservationUnavailable = pe_Unavailable"

subsection \<open>Capabilities\<close>

datatype controller = ControllerCPU | ControllerMemory | ControllerPids | ControllerOther string

fun Controller_Valid :: "controller \<Rightarrow> bool" where
  "Controller_Valid (ControllerOther _) = False"
| "Controller_Valid _ = True"

fun Controller_string :: "controller \<Rightarrow> string" where
  "Controller_string ControllerCPU = ''cpu''"
| "Controller_string ControllerMemory = ''memory''"
| "Controller_string ControllerPids = ''pids''"
| "Controller_string (ControllerOther s) = s"

datatype namespace_type =
  NamespaceUTS | NamespaceIPC | NamespaceNetwork | NamespacePID | NamespaceMount | NamespaceOther string

fun NamespaceType_Valid :: "namespace_type \<Rightarrow> bool" where
  "NamespaceType_Valid (NamespaceOther _) = False"
| "NamespaceType_Valid _ = True"

fun NamespaceType_string :: "namespace_type \<Rightarrow> string" where
  "NamespaceType_string NamespaceUTS = ''uts''"
| "NamespaceType_string NamespaceIPC = ''ipc''"
| "NamespaceType_string NamespaceNetwork = ''net''"
| "NamespaceType_string NamespacePID = ''pid''"
| "NamespaceType_string NamespaceMount = ''mnt''"
| "NamespaceType_string (NamespaceOther s) = s"

text \<open>Requirements and capabilities have the same fields; they differ in what they mean.\<close>

record cgroup_facts =
  cf_UnifiedV2 :: bool
  cf_Delegated :: bool
  cf_Controllers :: "controller list"

record isolation_facts =
  if_Rootful :: bool
  if_PIDFD :: bool
  if_PivotRoot :: bool
  if_StartGate :: bool
  if_Streams :: bool
  if_Namespaces :: "namespace_type list"

record host_facts =
  hf_SchemaVersion :: u32
  hf_Cgroup :: cgroup_facts
  hf_Isolation :: isolation_facts

definition ProviderSchemaVersion :: u32 where "ProviderSchemaVersion = 1"

definition validate_members :: "('a \<Rightarrow> bool) \<Rightarrow> 'a list \<Rightarrow> pv_error option" where
  "validate_members valid xs =
    first_err
     [reject (xs = []) (PvInvalid ''empty''),
      dup_errs id (\<lambda>_ x. reject (\<not> valid x) (PvInvalid ''unsupported'')) (\<lambda>_. PvInvalid ''duplicate'') 0 [] xs]"

definition validateControllers :: "controller list \<Rightarrow> pv_error option" where
  "validateControllers = validate_members Controller_Valid"

definition validateNamespaces :: "namespace_type list \<Rightarrow> pv_error option" where
  "validateNamespaces = validate_members NamespaceType_Valid"

definition CgroupRequirements_Validate :: "cgroup_facts \<Rightarrow> pv_error option" where
  "CgroupRequirements_Validate r =
    first_err
     [reject (\<not> cf_UnifiedV2 r \<or> \<not> cf_Delegated r) (PvInvalid ''cgroup requirements''),
      validateControllers (cf_Controllers r)]"

definition IsolationRequirements_Validate :: "isolation_facts \<Rightarrow> pv_error option" where
  "IsolationRequirements_Validate r =
    first_err
     [reject (\<not> if_Rootful r \<or> \<not> if_PIDFD r \<or> \<not> if_PivotRoot r \<or> \<not> if_StartGate r \<or> \<not> if_Streams r)
        (PvInvalid ''isolation requirements''),
      validateNamespaces (if_Namespaces r)]"

definition M2Requirements :: host_facts where
  "M2Requirements =
    \<lparr>hf_SchemaVersion = ProviderSchemaVersion,
     hf_Cgroup = \<lparr>cf_UnifiedV2 = True, cf_Delegated = True,
       cf_Controllers = [ControllerCPU, ControllerMemory, ControllerPids]\<rparr>,
     hf_Isolation = \<lparr>if_Rootful = True, if_PIDFD = True, if_PivotRoot = True, if_StartGate = True, if_Streams = True,
       if_Namespaces = [NamespaceUTS, NamespaceIPC, NamespaceNetwork, NamespacePID, NamespaceMount]\<rparr>\<rparr>"

definition Requirements_Validate :: "host_facts \<Rightarrow> pv_error option" where
  "Requirements_Validate r =
    first_err
     [reject (hf_SchemaVersion r \<noteq> ProviderSchemaVersion) (PvInvalid ''requirements schema''),
      CgroupRequirements_Validate (hf_Cgroup r), IsolationRequirements_Validate (hf_Isolation r)]"

definition Capabilities_Validate :: "host_facts \<Rightarrow> pv_error option" where
  "Capabilities_Validate c =
    first_err
     [reject (hf_SchemaVersion c \<noteq> ProviderSchemaVersion) (PvInvalid ''capabilities schema''),
      validateControllers (cf_Controllers (hf_Cgroup c)), validateNamespaces (if_Namespaces (hf_Isolation c))]"

text \<open>The sorted difference only goes into the text of an error.\<close>

definition missing_members :: "'a list \<Rightarrow> 'a list \<Rightarrow> 'a list" where
  "missing_members required available = filter (\<lambda>x. x \<notin> set available) required"

definition Capabilities_Satisfies :: "host_facts \<Rightarrow> host_facts \<Rightarrow> pv_error option" where
  "Capabilities_Satisfies c r =
    first_err
     [Requirements_Validate r, Capabilities_Validate c,
      reject (cf_UnifiedV2 (hf_Cgroup r) \<and> \<not> cf_UnifiedV2 (hf_Cgroup c)) (PvInvalid ''unified''),
      reject (cf_Delegated (hf_Cgroup r) \<and> \<not> cf_Delegated (hf_Cgroup c)) (PvInvalid ''delegated''),
      reject (missing_members (cf_Controllers (hf_Cgroup r)) (cf_Controllers (hf_Cgroup c)) \<noteq> []) (PvInvalid ''controllers''),
      reject (if_Rootful (hf_Isolation r) \<and> \<not> if_Rootful (hf_Isolation c)) (PvInvalid ''rootful''),
      reject (if_PIDFD (hf_Isolation r) \<and> \<not> if_PIDFD (hf_Isolation c)) (PvInvalid ''pidfd''),
      reject (if_PivotRoot (hf_Isolation r) \<and> \<not> if_PivotRoot (hf_Isolation c)) (PvInvalid ''pivot_root''),
      reject (if_StartGate (hf_Isolation r) \<and> \<not> if_StartGate (hf_Isolation c)) (PvInvalid ''start gate''),
      reject (if_Streams (hf_Isolation r) \<and> \<not> if_Streams (hf_Isolation c)) (PvInvalid ''streams''),
      reject (missing_members (if_Namespaces (hf_Isolation r)) (if_Namespaces (hf_Isolation c)) \<noteq> []) (PvInvalid ''namespaces'')]"

subsection \<open>Requests\<close>

definition OpaqueID_Validate :: "string \<Rightarrow> pv_error option" where
  "OpaqueID_Validate v =
    first_err
     [reject (v = [] \<or> 256 < length v \<or> CHR ''/'' \<in> set v \<or> CHR 0x5C \<in> set v) (PvInvalid ''identifier''),
      reject (space_or_control v) (PvInvalid ''identifier'')]"

datatype signal = SignalHUP | SignalINT | SignalQUIT | SignalKILL | SignalTERM | SignalUSR1 | SignalUSR2 | SignalOther string

fun Signal_Valid :: "signal \<Rightarrow> bool" where
  "Signal_Valid (SignalOther _) = False"
| "Signal_Valid _ = True"

definition signal_of :: "string \<Rightarrow> signal" where
  "signal_of s =
    (if s = ''SIGHUP'' then SignalHUP else if s = ''SIGINT'' then SignalINT else if s = ''SIGQUIT'' then SignalQUIT
     else if s = ''SIGKILL'' then SignalKILL else if s = ''SIGTERM'' then SignalTERM
     else if s = ''SIGUSR1'' then SignalUSR1 else if s = ''SIGUSR2'' then SignalUSR2 else SignalOther s)"

fun Signal_string :: "signal \<Rightarrow> string" where
  "Signal_string SignalHUP = ''SIGHUP''"
| "Signal_string SignalINT = ''SIGINT''"
| "Signal_string SignalQUIT = ''SIGQUIT''"
| "Signal_string SignalKILL = ''SIGKILL''"
| "Signal_string SignalTERM = ''SIGTERM''"
| "Signal_string SignalUSR1 = ''SIGUSR1''"
| "Signal_string SignalUSR2 = ''SIGUSR2''"
| "Signal_string (SignalOther s) = s"

text \<open>The historical empty network mode means none.\<close>

datatype network_mode = SandboxNetworkNone | SandboxNetworkLoopback | SandboxNetworkOther string

definition network_mode_of :: "string \<Rightarrow> network_mode" where
  "network_mode_of s =
    (if s = ''none'' then SandboxNetworkNone else if s = ''loopback'' then SandboxNetworkLoopback
     else SandboxNetworkOther s)"

fun NetworkMode_string :: "network_mode \<Rightarrow> string" where
  "NetworkMode_string SandboxNetworkNone = ''none''"
| "NetworkMode_string SandboxNetworkLoopback = ''loopback''"
| "NetworkMode_string (SandboxNetworkOther s) = s"

fun NetworkMode_Canonical :: "network_mode \<Rightarrow> pv_error + network_mode" where
  "NetworkMode_Canonical (SandboxNetworkOther s) =
    (if s = [] then Inr SandboxNetworkNone else Inl (PvInvalid ''network mode''))"
| "NetworkMode_Canonical m = Inr m"

datatype signal_step = SignalStepInitial | SignalStepEscalation | SignalStepOther string

fun SignalStep_Valid :: "signal_step \<Rightarrow> bool" where
  "SignalStep_Valid (SignalStepOther _) = False"
| "SignalStep_Valid _ = True"

definition validateReceipt :: "owner_key \<Rightarrow> receipt \<Rightarrow> provider \<Rightarrow> kind list \<Rightarrow> pv_error option" where
  "validateReceipt k r p ks = OwnedReceipt_ValidateFor \<lparr>rq_Owner = k, rq_Receipt = r\<rparr> p ks"

record sandbox_cgroup_request =
  sq_Owner :: owner_key
  sq_SandboxID :: sandbox_id

definition SandboxCgroupRequest_Validate :: "sandbox_cgroup_request \<Rightarrow> pv_error option" where
  "SandboxCgroupRequest_Validate r =
    first_err [wrap PvOwnership (OwnerKey_Validate (sq_Owner r)), pv_domain (SandboxID_Validate (sq_SandboxID r))]"

record keeper_cgroup_request =
  gq_Owner :: owner_key
  gq_SandboxID :: sandbox_id
  gq_Parent :: receipt

definition KeeperCgroupRequest_Validate :: "keeper_cgroup_request \<Rightarrow> pv_error option" where
  "KeeperCgroupRequest_Validate r =
    first_err
     [pv_domain (SandboxID_Validate (gq_SandboxID r)),
      validateReceipt (gq_Owner r) (gq_Parent r) ProviderCgroupV2 [KindSandboxCgroup]]"

record attempt_cgroup_request =
  aq_Owner :: owner_key
  aq_SandboxID :: sandbox_id
  aq_AttemptID :: attempt_id
  aq_Limits :: resolved_limits

definition AttemptCgroupRequest_Validate :: "attempt_cgroup_request \<Rightarrow> pv_error option" where
  "AttemptCgroupRequest_Validate r =
    first_err
     [wrap PvOwnership (OwnerKey_Validate (aq_Owner r)), pv_domain (SandboxID_Validate (aq_SandboxID r)),
      pv_domain (AttemptID_Validate (aq_AttemptID r)), pv_domain (ResolvedResourceLimits_Validate (aq_Limits r))]"

record attach_request =
  hq_Owner :: owner_key
  hq_Cgroup :: receipt
  hq_Process :: receipt

definition AttachProcessRequest_Validate :: "attach_request \<Rightarrow> pv_error option" where
  "AttachProcessRequest_Validate r =
    first_err
     [validateReceipt (hq_Owner r) (hq_Cgroup r) ProviderCgroupV2 [KindAttemptCgroup],
      validateReceipt (hq_Owner r) (hq_Process r) ProviderLinux [KindInitProcess]]"

record keeper_process_request =
  pq_Owner :: owner_key
  pq_SandboxID :: sandbox_id
  pq_Cgroup :: receipt

definition KeeperProcessRequest_Validate :: "keeper_process_request \<Rightarrow> pv_error option" where
  "KeeperProcessRequest_Validate r =
    first_err
     [pv_domain (SandboxID_Validate (pq_SandboxID r)),
      validateReceipt (pq_Owner r) (pq_Cgroup r) ProviderCgroupV2 [KindKeeperCgroup]]"

record attempt_resource_request =
  tq_Owner :: owner_key
  tq_AttemptID :: attempt_id

definition AttemptResourceRequest_Validate :: "attempt_resource_request \<Rightarrow> pv_error option" where
  "AttemptResourceRequest_Validate r =
    first_err [wrap PvOwnership (OwnerKey_Validate (tq_Owner r)), pv_domain (AttemptID_Validate (tq_AttemptID r))]"

record sandbox_namespaces =
  sn_UTS :: receipt
  sn_IPC :: receipt
  sn_Network :: receipt

definition namespace_error :: "sandbox_id \<Rightarrow> kind \<Rightarrow> owner_key \<Rightarrow> receipt \<Rightarrow> pv_error option" where
  "namespace_error i k owner r =
    first_err
     [wrap PvOwnership (Receipt_Validate r),
      reject (rt_Provider r \<noteq> ProviderLinux \<or> rt_Kind r \<noteq> k \<or> \<not> rt_Adopted r) (PvInvalid ''namespace''),
      reject (tg_Kind (ok_Target (rt_Owner r)) \<noteq> TargetSandbox \<or> tg_ID (ok_Target (rt_Owner r)) \<noteq> i) (PvInvalid ''namespace target''),
      reject (rt_Owner r \<noteq> owner) (PvInvalid ''namespace owner'')]"

definition SandboxNamespaces_ValidateFor :: "sandbox_namespaces \<Rightarrow> sandbox_id \<Rightarrow> pv_error option" where
  "SandboxNamespaces_ValidateFor n i =
    (let owner = rt_Owner (sn_UTS n) in
     first_err
      [pv_domain (SandboxID_Validate i), namespace_error i KindUTSNamespace owner (sn_UTS n),
       namespace_error i KindIPCNamespace owner (sn_IPC n), namespace_error i KindNetworkNamespace owner (sn_Network n)])"

record init_process_request =
  iq_Owner :: owner_key
  iq_SandboxID :: sandbox_id
  iq_AttemptID :: attempt_id
  iq_Cgroup :: receipt
  iq_Gate :: receipt
  iq_Streams :: receipt
  iq_SandboxNamespaces :: sandbox_namespaces
  iq_Process :: process_spec

definition InitProcessRequest_Validate :: "init_process_request \<Rightarrow> pv_error option" where
  "InitProcessRequest_Validate r =
    first_err
     [pv_domain (SandboxID_Validate (iq_SandboxID r)), pv_domain (AttemptID_Validate (iq_AttemptID r)),
      validateReceipt (iq_Owner r) (iq_Cgroup r) ProviderCgroupV2 [KindAttemptCgroup],
      validateReceipt (iq_Owner r) (iq_Gate r) ProviderLinux [KindStartGate],
      validateReceipt (iq_Owner r) (iq_Streams r) ProviderLinux [KindStreams],
      SandboxNamespaces_ValidateFor (iq_SandboxNamespaces r) (iq_SandboxID r),
      pv_domain (ProcessSpec_Validate (iq_Process r))]"

record namespace_request =
  nq_Owner :: owner_key
  nq_Process :: receipt
  nq_Namespace :: namespace_type
  nq_Hostname :: string
  nq_NetworkMode :: network_mode

definition no_network_mode :: network_mode where "no_network_mode = SandboxNetworkOther []"

definition validateHostnameInput :: "string \<Rightarrow> pv_error option" where
  "validateHostnameInput h =
    (if h = [] then None
     else reject (maxSandboxHostnameBytes < length h \<or> \<not> ValidString h \<or> contains_nul h) (PvInvalid ''hostname''))"

definition namespace_process_kind :: "namespace_type \<Rightarrow> kind" where
  "namespace_process_kind n = (if n = NamespacePID \<or> n = NamespaceMount then KindInitProcess else KindKeeperProcess)"

definition NamespaceRequest_Validate :: "namespace_request \<Rightarrow> pv_error option" where
  "NamespaceRequest_Validate r =
    first_err
     [reject (\<not> NamespaceType_Valid (nq_Namespace r)) (PvInvalid ''namespace''),
      validateReceipt (nq_Owner r) (nq_Process r) ProviderLinux [namespace_process_kind (nq_Namespace r)],
      (case nq_Namespace r of
         NamespaceUTS \<Rightarrow> first_err
          [validateHostnameInput (nq_Hostname r), reject (nq_NetworkMode r \<noteq> no_network_mode) (PvInvalid ''UTS'')]
       | NamespaceNetwork \<Rightarrow> first_err
          [reject (nq_Hostname r \<noteq> []) (PvInvalid ''network''), err_of (NetworkMode_Canonical (nq_NetworkMode r))]
       | _ \<Rightarrow> reject (nq_Hostname r \<noteq> [] \<or> nq_NetworkMode r \<noteq> no_network_mode) (PvInvalid ''namespace configuration''))]"

fun NamespaceRequest_ReceiptKind :: "namespace_type \<Rightarrow> pv_error + kind" where
  "NamespaceRequest_ReceiptKind NamespaceUTS = Inr KindUTSNamespace"
| "NamespaceRequest_ReceiptKind NamespaceIPC = Inr KindIPCNamespace"
| "NamespaceRequest_ReceiptKind NamespaceNetwork = Inr KindNetworkNamespace"
| "NamespaceRequest_ReceiptKind NamespacePID = Inr KindPIDNamespace"
| "NamespaceRequest_ReceiptKind NamespaceMount = Inr KindMountNamespace"
| "NamespaceRequest_ReceiptKind (NamespaceOther _) = Inl (PvInvalid ''namespace'')"

record rootfs_request =
  fq_Owner :: owner_key
  fq_AttemptID :: attempt_id
  fq_Process :: receipt
  fq_PID :: receipt
  fq_Mount :: receipt
  fq_SourceID :: string
  fq_DNS :: "string list"

definition validateDNSInput :: "string list \<Rightarrow> pv_error option" where
  "validateDNSInput servers =
    first_err
     [reject (maxSandboxDNSServers < length servers) (PvInvalid ''DNS''),
      first_err (map (\<lambda>s. reject (\<not> ParseIP s) (PvInvalid ''DNS server'')) servers)]"

definition RootfsRequest_Validate :: "rootfs_request \<Rightarrow> pv_error option" where
  "RootfsRequest_Validate r =
    first_err
     [pv_domain (AttemptID_Validate (fq_AttemptID r)), OpaqueID_Validate (fq_SourceID r), validateDNSInput (fq_DNS r),
      validateReceipt (fq_Owner r) (fq_Process r) ProviderLinux [KindInitProcess],
      validateReceipt (fq_Owner r) (fq_PID r) ProviderLinux [KindPIDNamespace],
      validateReceipt (fq_Owner r) (fq_Mount r) ProviderLinux [KindMountNamespace]]"

record signal_request =
  gs_Owner :: owner_key
  gs_Process :: receipt
  gs_ActionOperationID :: operation_id
  gs_Step :: signal_step
  gs_Signal :: signal

definition SignalRequest_Validate :: "signal_request \<Rightarrow> pv_error option" where
  "SignalRequest_Validate r =
    first_err
     [wrap (PvOwnership \<circ> OwOperation) (OperationID_Validate (gs_ActionOperationID r)),
      reject (\<not> SignalStep_Valid (gs_Step r)) (PvInvalid ''signal step''),
      reject (\<not> Signal_Valid (gs_Signal r)) (PvInvalid ''signal''),
      validateReceipt (gs_Owner r) (gs_Process r) ProviderLinux [KindKeeperProcess, KindInitProcess]]"

subsection \<open>Attachment and delivery\<close>

record attachment_observation =
  ao_Owner :: owner_key
  ao_CgroupReceiptSHA256 :: string
  ao_ProcessReceiptSHA256 :: string
  ao_Verified :: bool
  ao_EvidenceSHA256 :: string

definition attachment_scope_json :: "attachment_observation \<Rightarrow> json" where
  "attachment_scope_json x =
    JObj [(''owner'', owner_key_json (ao_Owner x)), (''cgroup_receipt_sha256'', JStr (ao_CgroupReceiptSHA256 x)),
      (''process_receipt_sha256'', JStr (ao_ProcessReceiptSHA256 x)), (''verified'', JBool (ao_Verified x))]"

definition attachmentObservationDigest :: "attachment_observation \<Rightarrow> pv_error + string" where
  "attachmentObservationDigest x = map_sum PvOwnership id (EvidenceDigest (attachment_scope_json x))"

definition NewAttachmentObservation :: "attach_request \<Rightarrow> pv_error + attachment_observation" where
  "NewAttachmentObservation r =
    require (AttachProcessRequest_Validate r)
    (bind_res (map_sum PvOwnership id (EvidenceDigest (receipt_json (hq_Cgroup r)))) (\<lambda>cgroup.
     bind_res (map_sum PvOwnership id (EvidenceDigest (receipt_json (hq_Process r)))) (\<lambda>process.
     let x = \<lparr>ao_Owner = hq_Owner r, ao_CgroupReceiptSHA256 = cgroup, ao_ProcessReceiptSHA256 = process,
              ao_Verified = True, ao_EvidenceSHA256 = []\<rparr>
     in bind_res (attachmentObservationDigest x) (\<lambda>d. Inr (x\<lparr>ao_EvidenceSHA256 := d\<rparr>)))))"

definition AttachmentObservation_Validate :: "attachment_observation \<Rightarrow> pv_error option" where
  "AttachmentObservation_Validate x =
    first_err
     [wrap PvOwnership (OwnerKey_Validate (ao_Owner x)),
      reject (\<not> ao_Verified x \<or> \<not> validDigest (ao_CgroupReceiptSHA256 x) \<or> \<not> validDigest (ao_ProcessReceiptSHA256 x)
          \<or> \<not> validDigest (ao_EvidenceSHA256 x)) (PvInvalid ''attachment''),
      (case attachmentObservationDigest x of
         Inl e \<Rightarrow> Some e
       | Inr d \<Rightarrow> reject (ao_EvidenceSHA256 x \<noteq> d) (PvInvalid ''attachment evidence''))]"

definition AttachmentObservation_ValidateFor :: "attachment_observation \<Rightarrow> attach_request \<Rightarrow> pv_error option" where
  "AttachmentObservation_ValidateFor x r =
    first_err
     [AttachmentObservation_Validate x,
      (case NewAttachmentObservation r of
         Inl e \<Rightarrow> Some e
       | Inr expected \<Rightarrow> reject (x \<noteq> expected) (PvInvalid ''attachment scope''))]"

record release_gate_request =
  eq_Owner :: owner_key
  eq_Gate :: receipt
  eq_Process :: receipt
  eq_Cgroup :: receipt
  eq_Rootfs :: receipt
  eq_Attachment :: attachment_observation

definition ReleaseGateRequest_Validate :: "release_gate_request \<Rightarrow> pv_error option" where
  "ReleaseGateRequest_Validate r =
    first_err
     [validateReceipt (eq_Owner r) (eq_Gate r) ProviderLinux [KindStartGate],
      validateReceipt (eq_Owner r) (eq_Process r) ProviderLinux [KindInitProcess],
      validateReceipt (eq_Owner r) (eq_Cgroup r) ProviderCgroupV2 [KindAttemptCgroup],
      validateReceipt (eq_Owner r) (eq_Rootfs r) ProviderLinux [KindRootfsMount],
      AttachmentObservation_ValidateFor (eq_Attachment r)
        \<lparr>hq_Owner = eq_Owner r, hq_Cgroup = eq_Cgroup r, hq_Process = eq_Process r\<rparr>]"

record signal_observation =
  so_Signal :: signal
  so_IdentityEvidenceSHA256 :: string
  so_Delivered :: bool
  so_DeliveredAt :: gotime

definition SignalObservation_Validate :: "signal_observation \<Rightarrow> pv_error option" where
  "SignalObservation_Validate x =
    reject (\<not> Signal_Valid (so_Signal x) \<or> \<not> so_Delivered x \<or> \<not> validDigest (so_IdentityEvidenceSHA256 x)
      \<or> time_IsZero (so_DeliveredAt x)) (PvInvalid ''signal observation'')"

subsection \<open>Complete sets of receipts\<close>

record sandbox_receipts =
  ss_Owner :: owner_key
  ss_Cgroup :: receipt
  ss_KeeperCgroup :: receipt
  ss_Keeper :: receipt
  ss_UTS :: receipt
  ss_IPC :: receipt
  ss_Network :: receipt

record attempt_receipts =
  as_Owner :: owner_key
  as_Cgroup :: receipt
  as_Init :: receipt
  as_PID :: receipt
  as_Mount :: receipt
  as_Rootfs :: receipt
  as_Gate :: receipt
  as_Streams :: receipt

definition host_identity :: "receipt \<Rightarrow> string" where
  "host_identity r = Provider_string (rt_Provider r) @ [CHR 0x00] @ Kind_string (rt_Kind r) @ [CHR 0x00] @ rt_LocalID r"

fun receipt_set_error :: "owner_key \<Rightarrow> string list \<Rightarrow> bool option \<Rightarrow> (receipt \<times> provider \<times> kind) list \<Rightarrow> pv_error option" where
  "receipt_set_error k seen adopted [] = None"
| "receipt_set_error k seen adopted ((r, p, kd) # es) =
    (case first_err
       [validateReceipt k r p [kd],
        reject (host_identity r \<in> set seen) (PvInvalid ''duplicate host identity''),
        (case adopted of None \<Rightarrow> None | Some a \<Rightarrow> reject (a \<noteq> rt_Adopted r) (PvInvalid ''partly adopted''))] of
       Some e \<Rightarrow> Some e
     | None \<Rightarrow> receipt_set_error k (host_identity r # seen)
         (Some (case adopted of None \<Rightarrow> rt_Adopted r | Some a \<Rightarrow> a)) es)"

definition validateReceiptSet :: "owner_key \<Rightarrow> (receipt \<times> provider \<times> kind) list \<Rightarrow> pv_error option" where
  "validateReceiptSet k es =
    first_err
     [wrap PvOwnership (OwnerKey_Validate k), reject (es = []) (PvInvalid ''empty set''), receipt_set_error k [] None es]"

definition SandboxReceipts_Validate :: "sandbox_receipts \<Rightarrow> pv_error option" where
  "SandboxReceipts_Validate s = validateReceiptSet (ss_Owner s)
    [(ss_Cgroup s, ProviderCgroupV2, KindSandboxCgroup), (ss_KeeperCgroup s, ProviderCgroupV2, KindKeeperCgroup),
     (ss_Keeper s, ProviderLinux, KindKeeperProcess), (ss_UTS s, ProviderLinux, KindUTSNamespace),
     (ss_IPC s, ProviderLinux, KindIPCNamespace), (ss_Network s, ProviderLinux, KindNetworkNamespace)]"

definition SandboxReceipts_Receipts :: "sandbox_receipts \<Rightarrow> receipt list" where
  "SandboxReceipts_Receipts s = [ss_Cgroup s, ss_KeeperCgroup s, ss_Keeper s, ss_UTS s, ss_IPC s, ss_Network s]"

definition AttemptReceipts_Validate :: "attempt_receipts \<Rightarrow> pv_error option" where
  "AttemptReceipts_Validate s = validateReceiptSet (as_Owner s)
    [(as_Cgroup s, ProviderCgroupV2, KindAttemptCgroup), (as_Gate s, ProviderLinux, KindStartGate),
     (as_Streams s, ProviderLinux, KindStreams), (as_Init s, ProviderLinux, KindInitProcess),
     (as_PID s, ProviderLinux, KindPIDNamespace), (as_Mount s, ProviderLinux, KindMountNamespace),
     (as_Rootfs s, ProviderLinux, KindRootfsMount)]"

definition AttemptReceipts_Receipts :: "attempt_receipts \<Rightarrow> receipt list" where
  "AttemptReceipts_Receipts s =
    [as_Cgroup s, as_Gate s, as_Streams s, as_Init s, as_PID s, as_Mount s, as_Rootfs s]"

subsection \<open>The rollback registry\<close>

text \<open>A handler acts on the world \<open>'w\<close>; \<open>None\<close> stands for a nil handler.\<close>

type_synonym 'w rollback_handler = "owner_key \<Rightarrow> receipt \<Rightarrow> 'w \<Rightarrow> 'w \<times> (provider_error + cleanup_observation)"

type_synonym 'w rollback_registry = "((provider \<times> action) \<times> 'w rollback_handler) list"

fun validProviderAction :: "provider \<Rightarrow> action \<Rightarrow> bool" where
  "validProviderAction ProviderCgroupV2 a = (a = ActionRemoveCgroup)"
| "validProviderAction ProviderLinux a = (a \<in> {ActionStopProcess, ActionUnmountRoot, ActionCloseGate, ActionCloseStreams})"
| "validProviderAction (ProviderOther _) a = False"

fun register_routes :: "'w rollback_registry \<Rightarrow> ((provider \<times> action) \<times> 'w rollback_handler option) list
    \<Rightarrow> pv_error + 'w rollback_registry" where
  "register_routes t [] = Inr t"
| "register_routes t ((route, h) # rs) =
    (if \<not> validProviderAction (fst route) (snd route) then Inl (PvInvalid ''unsupported route'')
     else (case h of
        None \<Rightarrow> Inl (PvInvalid ''nil handler'')
      | Some f \<Rightarrow>
        if map_of t route \<noteq> None then Inl (PvInvalid ''duplicate route'')
        else register_routes ((route, f) # t) rs))"

definition NewRollbackRegistry :: "((provider \<times> action) \<times> 'w rollback_handler option) list \<Rightarrow> pv_error + 'w rollback_registry" where
  "NewRollbackRegistry = register_routes []"

datatype registry_error = RgOwner ow_error | RgDescriptor ow_error | ErrRollbackOwnerMismatch | ErrUnknownRollbackRoute

text \<open>What is left of a descriptor once it is resolved: one call of its handler, whose observation counts as
  success only if it proves absence.\<close>

datatype inverse_error = IeProvider provider_error | IeUnsafe pv_error

definition run_inverse :: "owner_key \<Rightarrow> receipt \<Rightarrow> 'w rollback_handler \<Rightarrow> 'w \<Rightarrow> 'w \<times> inverse_error option" where
  "run_inverse k r h w =
    (case h k r w of
       (w1, Inl e) \<Rightarrow> (w1, Some (IeProvider e))
     | (w1, Inr c) \<Rightarrow> (w1, map_option IeUnsafe (CleanupObservation_Validate c)))"

definition Registry_Resolver :: "'w rollback_registry \<Rightarrow> owner_key \<Rightarrow> registry_error + (descriptor \<Rightarrow> registry_error + ('w \<Rightarrow> 'w \<times> inverse_error option))" where
  "Registry_Resolver t owner =
    require (wrap RgOwner (OwnerKey_Validate owner))
     (Inr (\<lambda>d.
       case ReceiptFromDescriptor d of
         Inl e \<Rightarrow> Inl (RgDescriptor e)
       | Inr (r, a) \<Rightarrow>
         if rt_Owner r \<noteq> owner then Inl ErrRollbackOwnerMismatch
         else (case map_of t (rt_Provider r, a) of
            None \<Rightarrow> Inl ErrUnknownRollbackRoute
          | Some h \<Rightarrow> Inr (run_inverse owner r h))))"

subsection \<open>Lemmas\<close>

lemma M2Requirements_valid: "Requirements_Validate M2Requirements = None"
  by (simp add: Requirements_Validate_def M2Requirements_def CgroupRequirements_Validate_def
      IsolationRequirements_Validate_def validateControllers_def validateNamespaces_def validate_members_def)

lemma validateReceipt_None:
  "validateReceipt k r p [kd] = None \<longleftrightarrow>
     OwnerKey_Validate k = None \<and> Receipt_Validate r = None \<and> rt_Owner r = k \<and> rt_Provider r = p \<and> rt_Kind r = kd"
  by (auto simp: validateReceipt_def OwnedReceipt_ValidateFor_def)

lemma receipt_set_error_None:
  "receipt_set_error k seen adopted es = None \<longleftrightarrow>
     (\<forall>(r, p, kd) \<in> set es. validateReceipt k r p [kd] = None)
     \<and> distinct (map (host_identity \<circ> fst) es)
     \<and> (\<forall>r \<in> fst ` set es. host_identity r \<notin> set seen)
     \<and> (\<forall>r \<in> fst ` set es. rt_Adopted r = (case adopted of None \<Rightarrow> rt_Adopted (fst (hd es)) | Some a \<Rightarrow> a))"
proof (induction es arbitrary: seen adopted)
  case Nil
  then show ?case by simp
next
  case (Cons e es)
  obtain r p kd where e: "e = (r, p, kd)" by (cases e) auto
  show ?case
    unfolding e by (cases adopted) (auto simp: Cons.IH image_iff split: option.splits)
qed

text \<open>A set in its slots is a journal of the full profile.\<close>

lemma validateReceiptSet_None:
  "validateReceiptSet k es = None \<longleftrightarrow>
     OwnerKey_Validate k = None \<and> es \<noteq> []
     \<and> (\<forall>(r, p, kd) \<in> set es. Receipt_Validate r = None \<and> rt_Owner r = k \<and> rt_Provider r = p \<and> rt_Kind r = kd)
     \<and> distinct (map (host_identity \<circ> fst) es)
     \<and> (\<forall>r \<in> fst ` set es. rt_Adopted r = rt_Adopted (fst (hd es)))"
  unfolding validateReceiptSet_def
  by (auto simp: receipt_set_error_None validateReceipt_None split: prod.splits)

lemma owned_Inr: "map_sum PvOwnership id r = Inr x \<longleftrightarrow> r = Inr x"
  by (cases r) auto

lemma attachment_complete:
  assumes "NewAttachmentObservation r = Inr x"
  shows "AttachmentObservation_Validate x = None"
proof -
  from assms obtain c p d where parts: "AttachProcessRequest_Validate r = None"
      "EvidenceDigest (receipt_json (hq_Cgroup r)) = Inr c" "EvidenceDigest (receipt_json (hq_Process r)) = Inr p"
    and digest: "attachmentObservationDigest \<lparr>ao_Owner = hq_Owner r, ao_CgroupReceiptSHA256 = c,
        ao_ProcessReceiptSHA256 = p, ao_Verified = True, ao_EvidenceSHA256 = []\<rparr> = Inr d"
    and x: "x = \<lparr>ao_Owner = hq_Owner r, ao_CgroupReceiptSHA256 = c, ao_ProcessReceiptSHA256 = p,
        ao_Verified = True, ao_EvidenceSHA256 = d\<rparr>"
    by (auto simp: NewAttachmentObservation_def Let_def owned_Inr)
  have digests: "validDigest c" "validDigest p"
    using parts(2,3) by (auto simp: EvidenceDigest_def validDigest_hex split: option.splits)
  from digest have "validDigest d"
    by (auto simp: attachmentObservationDigest_def owned_Inr EvidenceDigest_def validDigest_hex split: option.splits)
  moreover from parts(1) have "OwnerKey_Validate (hq_Owner r) = None"
    by (simp add: AttachProcessRequest_Validate_def validateReceipt_None)
  moreover from digest have "attachmentObservationDigest x = Inr d"
    by (simp add: x attachmentObservationDigest_def attachment_scope_json_def)
  ultimately show ?thesis
    using digests by (simp add: AttachmentObservation_Validate_def x)
qed

lemma attachment_scope:
  "AttachmentObservation_ValidateFor x r = None \<longleftrightarrow> NewAttachmentObservation r = Inr x"
  using attachment_complete
  by (auto simp: AttachmentObservation_ValidateFor_def split: sum.splits)

lemma run_inverse_success:
  "run_inverse k r h w = (w1, None) \<longleftrightarrow>
     (\<exists>c. h k r w = (w1, Inr c) \<and> CleanupObservation_Validate c = None)"
  by (auto simp: run_inverse_def split: prod.splits sum.splits)

lemma registry_routes:
  "register_routes t rs = Inr t1 \<Longrightarrow>
     (\<forall>route \<in> fst ` set t1. route \<in> fst ` set t \<or> validProviderAction (fst route) (snd route))"
  by (induction t rs rule: register_routes.induct) (auto split: if_splits option.splits)

lemma set_as_lists:
  "validateReceiptSet k es = None \<longleftrightarrow>
     OwnerKey_Validate k = None \<and> es \<noteq> [] \<and> map slot (map fst es) = map snd es
     \<and> list_all (\<lambda>r. Receipt_Validate r = None \<and> rt_Owner r = k) (map fst es)
     \<and> distinct (map host_identity (map fst es))
     \<and> (\<exists>b. map rt_Adopted (map fst es) = replicate (length es) b)"
proof -
  have slots: "map slot (map fst es) = map snd es \<longleftrightarrow>
      (\<forall>(r, p, kd) \<in> set es. rt_Provider r = p \<and> rt_Kind r = kd)"
    by (auto simp: slot_def map_eq_conv comp_def split: prod.splits)
  have uniform: "es \<noteq> [] \<Longrightarrow> (\<forall>r \<in> fst ` set es. rt_Adopted r = rt_Adopted (fst (hd es))) \<longleftrightarrow>
      (\<exists>b. map rt_Adopted (map fst es) = replicate (length es) b)"
    by (cases es) (auto simp: map_replicate_const [symmetric] image_iff)
  show ?thesis
    unfolding validateReceiptSet_None slots
    using uniform by (cases "es = []") (auto simp: list_all_iff)
qed

subsection \<open>Properties\<close>

text \<open>A complete set of Attempt receipts is accepted exactly if, in acquisition order, it is a journal of
  the full Attempt profile, belongs to the stated owner, names no host object twice and is either wholly pending or
  wholly adopted.\<close>

theorem attempt_set_is_profile:
  "AttemptReceipts_Validate s = None \<longleftrightarrow>
     OwnerKey_Validate (as_Owner s) = None
     \<and> ValidateReceiptJournalProfile TargetAttempt (AttemptReceipts_Receipts s) = None
     \<and> rt_Owner (as_Cgroup s) = as_Owner s
     \<and> distinct (map host_identity (AttemptReceipts_Receipts s))
     \<and> (\<exists>b. map rt_Adopted (AttemptReceipts_Receipts s) = replicate 7 b)"
proof -
  have seven: "7 = Suc (Suc (Suc (Suc (Suc (Suc (Suc 0))))))" by simp
  show ?thesis
    unfolding AttemptReceipts_Validate_def set_as_lists ValidateReceiptJournalProfile_None AttemptReceipts_Receipts_def
    by (simp del: distinct.simps add: expectedProfile_def seven cong: conj_cong) (auto simp del: distinct.simps)
qed

text \<open>C31. A persisted inverse is turned into a cleanup call again only for the owner of the rollback, for exactly
  the recorded receipt, through the handler registered for its provider and action; a foreign owner and an unregistered
  route are refused. The cleanup then counts as done only if the handler proved the resource absent.\<close>

theorem inverse_is_resolved:
  assumes "Registry_Resolver t owner = Inr resolve" and "InverseDescriptor r a = Inr d"
    and "utf8_receipt r" and "key_ordered r"
  shows "resolve d =
      (if rt_Owner r \<noteq> owner then Inl ErrRollbackOwnerMismatch
       else case map_of t (rt_Provider r, a) of
         None \<Rightarrow> Inl ErrUnknownRollbackRoute
       | Some h \<Rightarrow> Inr (run_inverse owner r h))
    \<and> (\<forall>g w w1. resolve d = Inr g \<and> g w = (w1, None) \<longrightarrow>
        (\<exists>h c. map_of t (rt_Provider r, a) = Some h \<and> h owner r w = (w1, Inr c)
          \<and> CleanupObservation_Validate c = None))"
proof -
  from assms(1) have resolve: "resolve = (\<lambda>d. case ReceiptFromDescriptor d of
         Inl e \<Rightarrow> Inl (RgDescriptor e)
       | Inr (r, a) \<Rightarrow>
         if rt_Owner r \<noteq> owner then Inl ErrRollbackOwnerMismatch
         else (case map_of t (rt_Provider r, a) of
            None \<Rightarrow> Inl ErrUnknownRollbackRoute
          | Some h \<Rightarrow> Inr (run_inverse owner r h)))"
    by (simp add: Registry_Resolver_def)
  show ?thesis
    unfolding resolve ReceiptFromDescriptor_inverse [OF assms(2-4)]
    by (auto simp: run_inverse_success split: option.splits if_splits)
qed

definition demo_registry :: "nat rollback_registry" where
  "demo_registry = [((ProviderCgroupV2, ActionRemoveCgroup), \<lambda>k r w. (Suc w, Inr demo_cleanup))]"

lemma demo_registry_new:
  "NewRollbackRegistry [((ProviderCgroupV2, ActionRemoveCgroup), Some (\<lambda>k r w. (Suc w, Inr demo_cleanup)))]
     = Inr demo_registry"
  by (simp add: NewRollbackRegistry_def demo_registry_def)

lemma demo_cleanup_absent: "CleanupObservation_Validate demo_cleanup = None"
  by (simp add: CleanupObservation_Validate_def ResourceObservation_Validate_def demo_cleanup_def contains_nul_def)

theorem inverse_is_resolved_witness:
  "\<exists>resolve g. Registry_Resolver demo_registry demo_owner = Inr resolve \<and> resolve owned_descriptor = Inr g
     \<and> g 0 = (1, None)"
proof -
  obtain resolve where r: "Registry_Resolver demo_registry demo_owner = Inr resolve"
    by (simp add: Registry_Resolver_def)
  from inverse_is_resolved [OF r owned_descriptor_inverse demo_receipt_text]
  have "resolve owned_descriptor = Inr (run_inverse demo_owner demo_receipt (\<lambda>k r w. (Suc w, Inr demo_cleanup)))"
    by (simp add: demo_registry_def) (simp add: demo_receipt_def)
  with r show ?thesis by (simp add: run_inverse_def demo_cleanup_absent)
qed

end
