(* ===== verification/Spec2Isabelle.thy ===== *)
theory Spec2Isabelle
  imports Domain_Phase Domain_Spec Domain_Sandbox Domain_Attempt Operation_Resolve Rollback
    Ownership Provider_Observation State_Properties Lifecycle_Properties Lifecycle_Safety Lifecycle_Progress
    Lifecycle_Answers File_Regression File_Properties Provider_Contracts
begin

text \<open>
  A single-node container runtime, written in Go. This development models the packages under
  \<open>src/internal\<close> that decide what the runtime records and does, and proves the properties
  they rest on.

  \<^bold>\<open>How the program works.\<close> A client names a Sandbox or a Container and an operation on it. The
  lifecycle coordinator (\<open>internal/lifecycle\<close>) resolves the request against the operation stored under the same
  identity, checks the phase of the target (\<open>internal/domain\<close>) and records an intent. The engine
  (\<open>internal/engine\<close>) then calls the host providers through \<open>internal/provider\<close>; each acquired resource is
  recorded as a receipt with its inverse (\<open>internal/ownership\<close>, \<open>internal/rollback\<close>) in a checkpoint of the
  operation before the next one is acquired. The second command of the pair confirms or fails the operation on the
  evidence. Every command is one transaction on the store (\<open>internal/state\<close>), which bounds its history by
  retention, and which \<open>state/file.go\<close> keeps in a file that is replaced atomically and read back at a restart.
  Requests, replies and records are JSON (\<open>internal/strictjson\<close>).

  \<^bold>\<open>Conventions.\<close> A Go function that returns an error is a function into \<open>'e option\<close> or \<open>'e + 'a\<close>; every
  early return is a branch, in the order of the source (\<open>first_err\<close>, \<open>require\<close>, \<open>bind_res\<close> of \<open>Prelude\<close>). The text of an
  error is kept only where the program stores or compares it. A Go string is its list of bytes. Unsigned integers
  are words (\<open>u32\<close>, \<open>u64\<close>), with their wrap-around. Structures are records with a prefix of two letters per type,
  enumerations are datatypes with a constructor for the values outside the vocabulary. Pointers that may be nil are
  options; a slice whose nil counts is an option of a list. Maps are association lists where their order, or the
  range over them, can be observed, else functions into option. Clocks, identities, codecs and host calls are
  arguments; a mutex that guards a whole method makes the method one step.

  \<^bold>\<open>The theories and the code.\<close>
  \<^item> \<open>Prelude\<close>: error returns, association tables, nil slices, loops with a \<open>seen\<close> set, shared lemmas.
  \<^item> \<open>Go_Std\<close>, \<open>Go_Sha\<close>, \<open>Go_Json\<close>, \<open>Go_Time\<close>, \<open>Json_Codec\<close>: what the program uses of Go's library, executable: UTF-8,
    \<open>unicode\<close>, \<open>strings\<close>, \<open>net.ParseIP\<close>, SHA-256, \<open>encoding/json\<close> (scanner, writer, struct decoding with case folding,
    \<open>omitempty\<close>, the nesting limit of 10000), \<open>time.Time\<close> in RFC 3339. \<open>Strict_Json\<close> is \<open>internal/strictjson/decode.go\<close>;
    \<open>Domain_Json\<close> gives the JSON of the records of \<open>internal/domain\<close>.
  \<^item> \<open>Domain_Phase\<close> (\<open>errors.go\<close>, \<open>phase.go\<close>), \<open>Domain_Spec\<close> (\<open>identity.go\<close>, \<open>resources.go\<close>, the specifications of \<open>model.go\<close>),
    \<open>Domain_Status\<close>, \<open>Domain_Sandbox\<close>, \<open>Domain_Attempt\<close> (\<open>model.go\<close>): phases with their edges, the aggregates, and
    the transition of each, \<open>sandbox_apply\<close> and \<open>pair_apply\<close> gathering the commands.
  \<^item> \<open>Operation_Model\<close>, \<open>Operation_Resolve\<close>: \<open>internal/operation\<close>: operations, events, fingerprints of
    canonical requests, resolution of a repeated request.
  \<^item> \<open>Rollback\<close>: \<open>internal/rollback/rollback.go\<close>: the stack, its run from the end, its persisted
    record, restoration after a restart. \<open>Ownership\<close>: \<open>internal/ownership/model.go\<close>.
  \<^item> \<open>Provider_Observation\<close>, \<open>Provider_Contracts\<close>: \<open>internal/provider\<close>: observations, releases, out-of-memory
    snapshots, requests with their validation, capabilities, receipt sets, the rollback registry.
  \<^item> \<open>State_Record\<close> to \<open>State_Settled\<close>: \<open>internal/state\<close> (\<open>store.go\<close>, \<open>schema.go\<close>, \<open>memory.go\<close>, \<open>retention.go\<close>): records, what may
    succeed a record (\<open>State_Advance\<close>), the data of the store (\<open>State_Data\<close>), the check at the commit
    (\<open>State_Validate\<close>), the transaction (\<open>State_Memory\<close>), views and updates (\<open>State_Store\<close>), retention
    (\<open>State_Retention\<close>), invariants (\<open>State_Invariant\<close>, \<open>State_Properties\<close>, \<open>State_Settled\<close>).
  \<^item> \<open>Lifecycle_Model\<close>, \<open>Lifecycle_Codec\<close>, \<open>Lifecycle_Steps\<close>, \<open>Lifecycle_Sandbox\<close>, \<open>Lifecycle_Container\<close>, \<open>Lifecycle_Checkpoint\<close>: all
    commands and queries of \<open>internal/lifecycle\<close>. A command is a program over the candidate of a transaction,
    \<open>submit\<close> runs it as a call. The other \<open>Lifecycle_*\<close> theories prove what the commands do.
  \<^item> \<open>File_Payload\<close>, \<open>File_System\<close>, \<open>File_Store\<close>: \<open>internal/state/file.go\<close>: the envelope with its checksum, the
    secure path and file primitives, lock, load, save and update. \<open>File_Crash\<close> is the disk when the machine may
    stop at any moment, \<open>File_Restart\<close> and \<open>File_Regression\<close> are restarts, \<open>File_Demo\<close> is a file system that
    satisfies the hypothesis \<open>posix\<close>.

  \<^bold>\<open>What the lemmas show.\<close>
  \<^item> Domain: a chain of transitions is bounded and keeps the aggregates valid.
  \<^item> Store: an update is all or nothing; the revision counts commits; a stale write is refused; in every store
    reachable by any callbacks, records agree with each other, a target has at most one active operation, a retired
    identity never returns, a reader of the event log misses nothing silently, terminal operations do not
    change, receipts, releases and rollback records only grow.
  \<^item> Coordinator: each call is one atomic step of an abstract machine on phases (a refinement, for Sandboxes,
    Containers and kills); a repeated call gives the stored answer and changes nothing; Ready and Running
    rest on a verification, removal on releases of everything owned, a kill on the identity of the process that was
    started; a Linux start goes through its checkpoints in order; replies survive their JSON.
  \<^item> Rollback: inverses run last in first out, each at most once to completion, also across restarts.
  \<^item> File: an update of the file is an update of the store in memory; a store that failed to write
    refuses further work; after a power loss the file is the old or the new one; a restart gives the
    same tables, or is refused. The last case is reachable: \<open>absent_removal_blocks_restart\<close>.

  \<^bold>\<open>Interfaces.\<close> \<open>phase_machine\<close> (a ranked edge relation; \<open>sandbox_machine\<close>, \<open>attempt_machine\<close>) and \<open>aggregate\<close> (transitions
    that keep validity; \<open>sandbox_aggregate\<close>, \<open>pair_aggregate\<close>) carry the domain; \<open>journal\<close> (append-only lists;
    \<open>receipt_journal\<close>, \<open>release_journal\<close>, \<open>rollback_journal\<close>) the operation history; \<open>cas_store\<close> (compare and swap by revision;
    \<open>sandbox_table\<close>, \<open>container_table\<close>, \<open>operation_table\<close>) the transaction; \<open>stable_property\<close> and its extension
    \<open>data_invariant\<close> (what updates keep; \<open>tables\<close>, \<open>suffix\<close>, \<open>clones\<close>, \<open>expiry\<close>, \<open>written\<close>) the reachable stores; \<open>document\<close> (an encoder
    and its decoder; one reply each) the codecs; \<open>replies\<close> (a stored answer given again; \<open>sandbox_replies\<close>,
    \<open>container_replies\<close>, \<open>kill_replies\<close>) the calls.

  \<^bold>\<open>Bounds.\<close> The JSON reader recurses on the length of the text; its depth limit is the library's. A temporary
  name is tried 128 times, as in the source. The walk up to an existing parent directory has fuel one more
  than the length of the path, and \<open>missing_fuel\<close> shows that more changes nothing. All other loops recurse on their
  list.

  \<^bold>\<open>Hypotheses.\<close> \<open>posix\<close> states what the file system promises: a write reaches the disk at the latest
  with \<open>fsync\<close>, a rename is atomic, a synced directory keeps its entries. \<open>File_Demo\<close> satisfies it. Nothing is assumed
  about verifiers, clocks or codecs.

  \<^bold>\<open>Not modelled.\<close> The delegated cgroups, isolation and Slim Linux providers, the shim and the log store are
  sequences of system calls whose results are the kernel's. The HTTP server, the client, the commands and the
  evaluation harness are plumbing over \<open>net/http\<close> and flags. The API types repeat the domain's validation on wire
  structures. In the modelled packages: \<open>ensureOperationMethod\<close> is never called; \<open>Clone\<close> methods are the identity where
  no nil slice is observed; cancelled contexts are not passed through the store; the nil check of
  \<open>validateFilePrimitives\<close> has no counterpart, as the primitives are total arguments.
\<close>

end
